(* ===== verification/Prelude.thy ===== *)
theory Prelude
  imports Complex_Main "HOL-Library.Word" "HOL-Library.AList"
begin

text \<open>
  Shared vocabulary of the ObsChain development: the widths of the machine integers, Rust's
  checked, saturating and truncating arithmetic on them, the list idioms of the code base
  (\<open>position\<close>, upsert by position, \<open>retain\<close>), and the text idioms (decimal printing and parsing,
  ASCII case folding, slicing).

  Conventions. A Rust \<open>u8\<close>, \<open>u32\<close>, \<open>u64\<close> or \<open>u128\<close> is a word of that width and \<open>+\<close>, \<open>-\<close>, \<open>*\<close>
  on it wrap, as the release build does; \<open>usize\<close> counts the elements of containers and is \<open>nat\<close>.
  A \<open>String\<close> is a list of characters; all texts that the modelled code slices, compares or folds
  (transaction ids, script and block hashes in hex, addresses, environment values) are ASCII, so
  that bytes, characters and case folding agree. A \<open>DateTime<Utc>\<close> is the number of nanoseconds
  since the Unix epoch. A \<open>Uuid\<close> is its 128-bit value.
\<close>

section \<open>Types and automation\<close>

type_synonym u8 = "8 word"
type_synonym u32 = "32 word"
type_synonym u64 = "64 word"
type_synonym u128 = "128 word"
type_synonym usize = nat
type_synonym datetime = int
type_synonym uuid = u128

named_theorems obs_defs \<open>plain constructors and accessors, unfolded to compute\<close>
named_theorems rust_arith \<open>facts on checked, saturating and truncating arithmetic\<close>

section \<open>Machine arithmetic\<close>

definition checked_add :: "'a::len word \<Rightarrow> 'a word \<Rightarrow> 'a word option" where
  "checked_add x y = (if unat x + unat y < 2 ^ LENGTH('a) then Some (x + y) else None)"

definition checked_mul :: "'a::len word \<Rightarrow> 'a word \<Rightarrow> 'a word option" where
  "checked_mul x y = (if unat x * unat y < 2 ^ LENGTH('a) then Some (x * y) else None)"

definition checked_div :: "'a::len word \<Rightarrow> 'a word \<Rightarrow> 'a word option" where
  "checked_div x y = (if y = 0 then None else Some (x div y))"

definition saturating_add :: "'a::len word \<Rightarrow> 'a word \<Rightarrow> 'a word" where
  "saturating_add x y = (if unat x + unat y < 2 ^ LENGTH('a) then x + y else - 1)"

definition saturating_sub :: "'a::len word \<Rightarrow> 'a word \<Rightarrow> 'a word" where
  "saturating_sub x y = (if y \<le> x then x - y else 0)"

definition div_ceil :: "'a::len word \<Rightarrow> 'a word \<Rightarrow> 'a word" where
  "div_ceil x y = (if x mod y > 0 then x div y + 1 else x div y)"

text \<open>Division by a positive number that drops the fraction on both sides of zero.\<close>

definition quot_to_zero :: "int \<Rightarrow> int \<Rightarrow> int" where
  "quot_to_zero n d = (if n < 0 then - ((- n) div d) else n div d)"

lemma unat_max_word [simp]: "unat (- 1 :: 'a::len word) = 2 ^ LENGTH('a) - 1"
  by transfer (simp add: take_bit_minus_one_eq_mask mask_eq_exp_minus_1 nat_diff_distrib' nat_power_eq)

lemma checked_add_Some [rust_arith]:
  "checked_add x y = Some z \<longleftrightarrow> unat x + unat y < 2 ^ LENGTH('a) \<and> z = x + y"
  for x y z :: "'a::len word"
  by (auto simp: checked_add_def)

lemma checked_mul_Some [rust_arith]:
  "checked_mul x y = Some z \<longleftrightarrow> unat x * unat y < 2 ^ LENGTH('a) \<and> z = x * y"
  for x y z :: "'a::len word"
  by (auto simp: checked_mul_def)

lemma unat_checked_add: "checked_add x y = Some z \<Longrightarrow> unat z = unat x + unat y"
  by (auto simp: checked_add_def unat_word_ariths split: if_splits)

lemma unat_checked_mul: "checked_mul x y = Some z \<Longrightarrow> unat z = unat x * unat y"
  by (auto simp: checked_mul_def unat_word_ariths split: if_splits)

lemma unat_saturating_add [rust_arith]:
  "unat (saturating_add x y) = min (unat x + unat y) (2 ^ LENGTH('a) - 1)"
  for x y :: "'a::len word"
  by (auto simp: saturating_add_def unat_word_ariths)

lemma unat_saturating_sub [rust_arith]:
  "unat (saturating_sub x y) = unat x - unat y"
  by (auto simp: saturating_sub_def unat_sub word_le_nat_alt)

lemma saturating_sub_self_le: "saturating_sub x y \<le> x"
  by (simp add: word_le_nat_alt unat_saturating_sub)

section \<open>List idioms\<close>

text \<open>\<open>Iterator::position\<close> and the ``replace at the position or push'' idiom of the stores.\<close>

fun position :: "('a \<Rightarrow> bool) \<Rightarrow> 'a list \<Rightarrow> nat option" where
  "position P [] = None"
| "position P (x # xs) = (if P x then Some 0 else map_option Suc (position P xs))"

definition upsert :: "('a \<Rightarrow> bool) \<Rightarrow> 'a \<Rightarrow> 'a list \<Rightarrow> 'a list" where
  "upsert P x xs = (case position P xs of Some i \<Rightarrow> xs[i := x] | None \<Rightarrow> xs @ [x])"

definition page :: "usize \<Rightarrow> usize \<Rightarrow> 'a list \<Rightarrow> 'a list" where
  "page limit offset xs = take limit (drop offset xs)"

lemma position_None: "position P xs = None \<longleftrightarrow> (\<forall>x \<in> set xs. \<not> P x)"
  by (induction xs) auto

lemma position_Some:
  "position P xs = Some i \<longleftrightarrow> i < length xs \<and> P (xs ! i) \<and> (\<forall>j < i. \<not> P (xs ! j))"
proof (induction xs arbitrary: i)
  case Nil
  then show ?case by simp
next
  case (Cons x xs)
  show ?case
  proof (cases i)
    case 0
    then show ?thesis by auto
  next
    case (Suc k)
    then show ?thesis using Cons.IH [of k] by (auto simp: less_Suc_eq_0_disj)
  qed
qed

lemma position_SomeD:
  assumes "position P xs = Some i"
  shows "i < length xs" and "P (xs ! i)"
  using assms by (auto simp: position_Some)

lemma upsert_new [simp]: "\<forall>y \<in> set xs. \<not> P y \<Longrightarrow> upsert P x xs = xs @ [x]"
  by (simp add: upsert_def position_None [THEN iffD2])

lemma upsert_mem: "x \<in> set (upsert P x xs)"
  by (auto simp: upsert_def position_Some set_update_memI split: option.splits)

lemma length_upsert:
  "length (upsert P x xs) = (if \<exists>y \<in> set xs. P y then length xs else Suc (length xs))"
proof (cases "position P xs")
  case None
  then have "\<forall>y \<in> set xs. \<not> P y" by (simp only: position_None)
  then show ?thesis by simp
next
  case (Some i)
  then have "\<exists>y \<in> set xs. P y" by (auto dest: position_SomeD intro: nth_mem)
  with Some show ?thesis by (simp add: upsert_def)
qed

lemma set_upsert_subset: "set (upsert P x xs) \<subseteq> insert x (set xs)"
  by (auto simp: upsert_def split: option.splits dest: set_update_subset_insert [THEN subsetD])

text \<open>Upserting by a key keeps keys unique, and the stored element is the one found again.\<close>

lemma distinct_upsert:
  assumes "distinct (map f xs)"
  shows "distinct (map f (upsert (\<lambda>y. f y = f x) x xs))"
proof (cases "position (\<lambda>y. f y = f x) xs")
  case None
  then have "\<forall>y \<in> set xs. f y \<noteq> f x" by (simp only: position_None)
  with assms show ?thesis by auto
next
  case (Some i)
  then have i: "i < length xs" "f (xs ! i) = f x" by (auto simp: position_Some)
  then have "map f (xs[i := x]) = map f xs"
    by (metis list_update_id map_update)
  with Some assms show ?thesis by (simp add: upsert_def)
qed

lemma find_upsert:
  "find (\<lambda>y. f y = k) (upsert (\<lambda>y. f y = f x) x xs) =
     (if k = f x then Some x else find (\<lambda>y. f y = k) xs)"
proof (induction xs)
  case Nil
  then show ?case by (simp add: upsert_def)
next
  case (Cons y ys)
  show ?case
  proof (cases "f y = f x")
    case True
    then show ?thesis by (simp add: upsert_def)
  next
    case False
    then have "upsert (\<lambda>y. f y = f x) x (y # ys) = y # upsert (\<lambda>y. f y = f x) x ys"
      by (cases "position (\<lambda>y. f y = f x) ys") (simp_all add: upsert_def)
    with False Cons show ?thesis by auto
  qed
qed

lemma find_filter: "find P (filter Q xs) = find (\<lambda>x. P x \<and> Q x) xs"
  by (induction xs) auto

lemma length_page: "length (page limit offset xs) = min limit (length xs - offset)"
  by (simp add: page_def min.commute)

lemma set_page_subset: "set (page limit offset xs) \<subseteq> set xs"
  by (auto simp: page_def dest: in_set_takeD in_set_dropD)

section \<open>Text\<close>

definition digit_char :: "nat \<Rightarrow> char" where
  "digit_char d = char_of (48 + d)"

definition digit_val :: "char \<Rightarrow> nat" where
  "digit_val c = of_char c - 48"

definition is_digit :: "char \<Rightarrow> bool" where
  "is_digit c = (48 \<le> (of_char c :: nat) \<and> (of_char c :: nat) \<le> 57)"

fun show_nat :: "nat \<Rightarrow> string" where
  "show_nat n = (if n < 10 then [digit_char n] else show_nat (n div 10) @ [digit_char (n mod 10)])"

declare show_nat.simps [simp del]

definition show_int :: "int \<Rightarrow> string" where
  "show_int i = (if i < 0 then CHR ''-'' # show_nat (nat (- i)) else show_nat (nat i))"

text \<open>The \<open>{:+}\<close> form: a sign in front of non-negative numbers too.\<close>

definition show_int_plus :: "int \<Rightarrow> string" where
  "show_int_plus i = (if i < 0 then show_int i else CHR ''+'' # show_nat (nat i))"

abbreviation show_u :: "'a::len word \<Rightarrow> string" where
  "show_u w \<equiv> show_nat (unat w)"

text \<open>Zero padding on the left to a width, the \<open>{:0width$}\<close> form.\<close>

definition pad_zeros :: "nat \<Rightarrow> string \<Rightarrow> string" where
  "pad_zeros w s = replicate (w - length s) (CHR ''0'') @ s"

definition dec_value :: "string \<Rightarrow> nat" where
  "dec_value s = foldl (\<lambda>acc c. acc * 10 + digit_val c) 0 s"

text \<open>\<open>str::parse\<close> at an unsigned type: an optional plus sign, at least one digit, no overflow.\<close>

definition strip_plus :: "string \<Rightarrow> string" where
  "strip_plus s = (case s of [] \<Rightarrow> [] | c # r \<Rightarrow> if c = CHR ''+'' then r else s)"

definition parse_uint :: "nat \<Rightarrow> string \<Rightarrow> nat option" where
  "parse_uint bound s =
     (let t = strip_plus s
      in if t = [] \<or> \<not> list_all is_digit t then None
         else if dec_value t < bound then Some (dec_value t) else None)"

definition parse_u32 :: "string \<Rightarrow> u32 option" where
  "parse_u32 s = map_option of_nat (parse_uint (2 ^ 32) s)"

definition parse_u64 :: "string \<Rightarrow> u64 option" where
  "parse_u64 s = map_option of_nat (parse_uint (2 ^ 64) s)"

definition parse_u128 :: "string \<Rightarrow> u128 option" where
  "parse_u128 s = map_option of_nat (parse_uint (2 ^ 128) s)"

definition is_space :: "char \<Rightarrow> bool" where
  "is_space c = ((of_char c :: nat) = 32 \<or> 9 \<le> (of_char c :: nat) \<and> (of_char c :: nat) \<le> 13)"

definition trim :: "string \<Rightarrow> string" where
  "trim s = rev (dropWhile is_space (rev (dropWhile is_space s)))"

definition lower_char :: "char \<Rightarrow> char" where
  "lower_char c = (if 65 \<le> (of_char c :: nat) \<and> (of_char c :: nat) \<le> 90
                   then char_of ((of_char c :: nat) + 32) else c)"

definition upper_char :: "char \<Rightarrow> char" where
  "upper_char c = (if 97 \<le> (of_char c :: nat) \<and> (of_char c :: nat) \<le> 122
                   then char_of ((of_char c :: nat) - 32) else c)"

definition to_lowercase :: "string \<Rightarrow> string" where
  "to_lowercase s = map lower_char s"

definition to_uppercase :: "string \<Rightarrow> string" where
  "to_uppercase s = map upper_char s"

definition starts_with :: "string \<Rightarrow> string \<Rightarrow> bool" where
  "starts_with s p = (take (length p) s = p)"

text \<open>\<open>str::split\<close> at a character: always at least one piece.\<close>

fun split_on :: "char \<Rightarrow> string \<Rightarrow> string list" where
  "split_on d [] = [[]]"
| "split_on d (c # s) =
     (if c = d then [] # split_on d s
      else case split_on d s of p # ps \<Rightarrow> (c # p) # ps | [] \<Rightarrow> [[c]])"

text \<open>\<open>str::split_once\<close>: the text before and after the first occurrence.\<close>

fun split_once :: "char \<Rightarrow> string \<Rightarrow> (string \<times> string) option" where
  "split_once d [] = None"
| "split_once d (c # s) =
     (if c = d then Some ([], s)
      else map_option (\<lambda>(a, b). (c # a, b)) (split_once d s))"

fun join_with :: "string \<Rightarrow> string list \<Rightarrow> string" where
  "join_with sep [] = []"
| "join_with sep [x] = x"
| "join_with sep (x # y # zs) = x @ sep @ join_with sep (y # zs)"

text \<open>\<open>&s[..n.min(s.len())]\<close> and the shortened form \<open>abc...xyz\<close> used in summaries.\<close>

definition prefix_at :: "nat \<Rightarrow> string \<Rightarrow> string" where
  "prefix_at n s = take (min n (length s)) s"

definition shorten :: "nat \<Rightarrow> nat \<Rightarrow> string \<Rightarrow> string" where
  "shorten limit k s =
     (if length s > limit then take k s @ ''...'' @ drop (length s - k) s else s)"

definition hex_digit :: "nat \<Rightarrow> char" where
  "hex_digit d = (if d < 10 then char_of (48 + d) else char_of (87 + d))"

definition hex_byte :: "u8 \<Rightarrow> string" where
  "hex_byte b = [hex_digit (unat b div 16), hex_digit (unat b mod 16)]"

text \<open>The canonical hyphenated form of a UUID, as \<open>Display\<close> prints it.\<close>

definition hex_fixed :: "nat \<Rightarrow> nat \<Rightarrow> string" where
  "hex_fixed w n = map (\<lambda>i. hex_digit (n div 16 ^ (w - 1 - i) mod 16)) [0..<w]"

definition uuid_str :: "uuid \<Rightarrow> string" where
  "uuid_str u = (let h = hex_fixed 32 (unat u)
                 in take 8 h @ ''-'' @ take 4 (drop 8 h) @ ''-'' @ take 4 (drop 12 h) @ ''-'' @
                    take 4 (drop 16 h) @ ''-'' @ drop 20 h)"

section \<open>Facts on texts\<close>


lemma digit_char_facts:
  assumes "d < 10"
  shows "is_digit (digit_char d)" and "digit_val (digit_char d) = d"
  using assms by (auto simp: is_digit_def digit_val_def digit_char_def)

lemma dec_value_snoc [simp]: "dec_value (s @ [c]) = dec_value s * 10 + digit_val c"
  by (simp add: dec_value_def)

lemma dec_value_Nil [simp]: "dec_value [] = 0"
  by (simp add: dec_value_def)

lemma show_nat_facts:
  "list_all is_digit (show_nat n) \<and> dec_value (show_nat n) = n \<and> show_nat n \<noteq> []"
proof (induction n rule: show_nat.induct)
  case (1 n)
  show ?case
  proof (cases "n < 10")
    case True
    then show ?thesis
      by (simp add: show_nat.simps [of n] digit_char_facts dec_value_def)
  next
    case False
    with "1.IH" show ?thesis
      by (simp add: show_nat.simps [of n] digit_char_facts)
  qed
qed

lemma show_nat_digits [simp]: "list_all is_digit (show_nat n)"
  and dec_value_show_nat [simp]: "dec_value (show_nat n) = n"
  and show_nat_nonempty [simp]: "show_nat n \<noteq> []"
  using show_nat_facts by auto

lemma show_nat_inj [simp]: "show_nat m = show_nat n \<longleftrightarrow> m = n"
  by (metis dec_value_show_nat)

lemma strip_plus_digits: "list_all is_digit s \<Longrightarrow> strip_plus s = s"
  by (auto simp: strip_plus_def is_digit_def split: list.splits)

lemma parse_uint_show_nat: "n < bound \<Longrightarrow> parse_uint bound (show_nat n) = Some n"
  by (simp add: parse_uint_def strip_plus_digits)

lemma parse_u64_show [simp]: "parse_u64 (show_u (w :: u64)) = Some w"
  using unsigned_less [of w, where 'a = nat] by (simp add: parse_u64_def parse_uint_show_nat)

lemma parse_u128_show [simp]: "parse_u128 (show_u (w :: u128)) = Some w"
  using unsigned_less [of w, where 'a = nat] by (simp add: parse_u128_def parse_uint_show_nat)

lemma parse_u32_show [simp]: "parse_u32 (show_u (w :: u32)) = Some w"
  using unsigned_less [of w, where 'a = nat] by (simp add: parse_u32_def parse_uint_show_nat)

text \<open>Text up to the first separator is determined when it does not contain the separator.\<close>

lemma append_sep_eq:
  assumes "c \<notin> set a" "c \<notin> set b"
  shows "a @ c # x = b @ c # y \<longleftrightarrow> a = b \<and> x = y"
  using assms
proof (induction a arbitrary: b)
  case Nil
  then show ?case by (cases b) auto
next
  case (Cons z a)
  then show ?case by (cases b) auto
qed

lemma hex_digit_inj: "i < 16 \<Longrightarrow> j < 16 \<Longrightarrow> hex_digit i = hex_digit j \<longleftrightarrow> i = j"
  by (auto simp: hex_digit_def split: if_splits dest!: arg_cong [where f = "of_char :: char \<Rightarrow> nat"])

lemma length_hex_fixed [simp]: "length (hex_fixed w n) = w"
  by (simp add: hex_fixed_def)

lemma hex_fixed_Suc: "hex_fixed (Suc w) n = hex_fixed w (n div 16) @ [hex_digit (n mod 16)]"
proof (rule nth_equalityI)
  show "length (hex_fixed (Suc w) n) = length (hex_fixed w (n div 16) @ [hex_digit (n mod 16)])"
    by simp
next
  fix i assume "i < length (hex_fixed (Suc w) n)"
  then have i: "i < Suc w" by simp
  show "hex_fixed (Suc w) n ! i = (hex_fixed w (n div 16) @ [hex_digit (n mod 16)]) ! i"
  proof (cases "i = w")
    case True
    then show ?thesis by (simp add: nth_append hex_fixed_def del: upt_Suc)
  next
    case False
    with i have iw: "i < w" by simp
    then have e: "w - i = Suc (w - Suc i)" by simp
    have "n div 16 ^ (w - i) = n div 16 div 16 ^ (w - Suc i)"
      by (simp add: e div_mult2_eq)
    with iw show ?thesis by (simp add: nth_append hex_fixed_def del: upt_Suc)
  qed
qed

lemma hex_fixed_inj:
  "m < 16 ^ w \<Longrightarrow> n < 16 ^ w \<Longrightarrow> hex_fixed w m = hex_fixed w n \<longleftrightarrow> m = n"
proof (induction w arbitrary: m n)
  case 0
  then show ?case by simp
next
  case (Suc w)
  have "m div 16 < 16 ^ w" "n div 16 < 16 ^ w" using Suc.prems by auto
  then have "hex_fixed w (m div 16) = hex_fixed w (n div 16) \<longleftrightarrow> m div 16 = n div 16"
    by (rule Suc.IH)
  moreover have "hex_digit (m mod 16) = hex_digit (n mod 16) \<longleftrightarrow> m mod 16 = n mod 16"
    by (rule hex_digit_inj) simp_all
  ultimately show ?case by (simp add: hex_fixed_Suc) (metis div_mult_mod_eq)
qed

lemma uuid_str_length [simp]: "length (uuid_str u) = 36"
  by (simp add: uuid_str_def Let_def)

lemma uuid_str_inj [simp]: "uuid_str u = uuid_str v \<longleftrightarrow> u = v"
proof
  let ?h = "\<lambda>w :: uuid. hex_fixed 32 (unat w)"
  assume "uuid_str u = uuid_str v"
  then have "take 8 (?h u) = take 8 (?h v)" "take 4 (drop 8 (?h u)) = take 4 (drop 8 (?h v))"
    "take 4 (drop 12 (?h u)) = take 4 (drop 12 (?h v))"
    "take 4 (drop 16 (?h u)) = take 4 (drop 16 (?h v))" "drop 20 (?h u) = drop 20 (?h v)"
    by (auto simp: uuid_str_def Let_def)
  moreover have "h = take 8 h @ take 4 (drop 8 h) @ take 4 (drop 12 h) @ take 4 (drop 16 h) @ drop 20 h"
    for h :: string
    using append_take_drop_id [of 8 h] append_take_drop_id [of 4 "drop 8 h"]
      append_take_drop_id [of 4 "drop 12 h"] append_take_drop_id [of 4 "drop 16 h"]
    by simp
  ultimately have "?h u = ?h v" by metis
  moreover have "unat u < 16 ^ 32" "unat v < 16 ^ 32"
    using unsigned_less [of u, where 'a = nat] unsigned_less [of v, where 'a = nat] by simp_all
  ultimately have "unat u = unat v" by (simp add: hex_fixed_inj)
  then show "u = v" by (simp add: word_unat_eq_iff)
qed simp

lemma unat_of_nat_less: "n < 2 ^ LENGTH('a) \<Longrightarrow> unat (of_nat n :: 'a::len word) = n"
  by (simp add: unat_of_nat)

lemma is_digit_0: "is_digit (CHR ''0'')"
  by (simp add: is_digit_def)

lemma split_on_none: "d \<notin> set s \<Longrightarrow> split_on d s = [s]"
  by (induction s) auto

lemma split_on_one: "d \<notin> set a \<Longrightarrow> d \<notin> set b \<Longrightarrow> split_on d (a @ d # b) = [a, b]"
  by (induction a) (auto simp: split_on_none)

lemma trim_solid:
  assumes "\<forall>c \<in> set s. \<not> is_space c"
  shows "trim s = s"
proof -
  have d: "dropWhile is_space t = t" if "\<forall>c \<in> set t. \<not> is_space c" for t
    using that by (cases t) auto
  have "dropWhile is_space s = s" "dropWhile is_space (rev s) = rev s"
    using assms by (auto intro!: d)
  then show ?thesis by (simp add: trim_def)
qed

lemma digit_not_special:
  assumes "is_digit c"
  shows "c \<noteq> CHR ''.''" "\<not> is_space c" "c \<noteq> CHR ''-''" "c \<noteq> CHR ''+''"
  using assms by (auto simp: is_digit_def is_space_def)

lemma dec_value_less: "list_all is_digit s \<Longrightarrow> dec_value s < 10 ^ length s"
proof (induction s rule: rev_induct)
  case (snoc c s)
  then have "digit_val c < 10" by (auto simp: is_digit_def digit_val_def)
  with snoc show ?case by simp
qed simp

lemma parse_u64_digits:
  assumes "list_all is_digit s" "s \<noteq> []"
  shows "parse_u64 s = (if dec_value s < 2 ^ 64 then Some (of_nat (dec_value s)) else None)"
  using assms by (simp add: parse_u64_def parse_uint_def strip_plus_digits)

lemma dec_value_append:
  "dec_value (a @ b) = dec_value a * 10 ^ length b + dec_value b"
proof (induction b rule: rev_induct)
  case (snoc c b)
  then show ?case using dec_value_snoc [of "a @ b" c] by (simp add: algebra_simps)
qed simp

lemma dec_value_zeros [simp]: "dec_value (replicate n (CHR ''0'')) = 0"
proof (induction n)
  case (Suc n)
  then show ?case
    using dec_value_snoc [of "replicate n (CHR ''0'')" "CHR ''0''"]
    by (simp add: replicate_append_same digit_val_def)
qed simp

lemma list_all_zeros [simp]: "list_all is_digit (replicate n (CHR ''0''))"
  by (induction n) (simp_all add: is_digit_0)

end
