(* ===== verification/Float64.thy ===== *)
theory Float64
  imports Prelude "HOL-Library.Log_Nat"
begin

text \<open>
  IEEE-754 binary64, the \<open>f64\<close> of the code base, with round-to-nearest-even. A finite value is a
  sign and a non-negative rational magnitude, so both zeros exist; every arithmetic operation is
  the exact operation on rationals followed by one rounding. The theory proves that rounding is
  monotone, is the identity on values of at most 53 significant bits and errs by at most half a
  quantum; these three facts carry every later statement about computed percentages, ratios and
  amounts. Literals of the source are \<open>f64_lit\<close> of their decimal value.
\<close>

section \<open>Rounding\<close>

definition pow2 :: "int \<Rightarrow> rat" where
  "pow2 k = (if 0 \<le> k then 2 ^ nat k else 1 / 2 ^ nat (- k))"

definition ilog2 :: "rat \<Rightarrow> int" where
  "ilog2 q = (let (a, b) = quotient_of q; k = bitlen a - bitlen b
              in if pow2 k \<le> q then k else k - 1)"

definition round_half_even :: "rat \<Rightarrow> int" where
  "round_half_even x =
     (let f = \<lfloor>x\<rfloor>; r = x - of_int f
      in if r < 1 / 2 then f else if 1 / 2 < r then f + 1 else if even f then f else f + 1)"

definition quantum_exp :: "rat \<Rightarrow> int" where
  "quantum_exp q = max (ilog2 q - 52) (- 1074)"

definition round_mag :: "rat \<Rightarrow> rat" where
  "round_mag q =
     (if q \<le> 0 then 0
      else of_int (round_half_even (q / pow2 (quantum_exp q))) * pow2 (quantum_exp q))"

lemma pow2_powi: "pow2 k = 2 powi k"
  by (simp add: pow2_def power_int_def field_simps)

lemma pow2_pos [simp]: "0 < pow2 k"
  by (simp add: pow2_powi)

lemma pow2_nonzero [simp]: "pow2 k \<noteq> 0"
  using pow2_pos [of k] by linarith

lemma pow2_nonneg [simp]: "0 \<le> pow2 k" and pow2_not_neg [simp]: "\<not> pow2 k < 0"
  using pow2_pos [of k] by linarith+

lemma pow2_add: "pow2 (a + b) = pow2 a * pow2 b"
  by (simp add: pow2_powi power_int_add)

lemma pow2_diff: "pow2 (a - b) = pow2 a / pow2 b"
  by (simp add: pow2_powi power_int_diff)

lemma pow2_nat: "0 \<le> k \<Longrightarrow> pow2 k = of_int (2 ^ nat k)"
  by (simp add: pow2_def)

lemma pow2_mono: "a \<le> b \<Longrightarrow> pow2 a \<le> pow2 b"
  by (simp add: pow2_powi power_int_increasing)

lemma pow2_strict_mono: "a < b \<Longrightarrow> pow2 a < pow2 b"
  by (simp add: pow2_powi power_int_strict_increasing)

lemma pow2_less_iff: "pow2 a < pow2 b \<longleftrightarrow> a < b"
  using pow2_mono pow2_strict_mono by (metis linorder_not_le)

lemma pow2_le_iff: "pow2 a \<le> pow2 b \<longleftrightarrow> a \<le> b"
  by (metis linorder_not_le pow2_less_iff)

lemma bitlen_pow2_bounds:
  assumes "0 < x"
  shows "pow2 (bitlen x - 1) \<le> of_int x" and "of_int x < pow2 (bitlen x)"
proof -
  have b: "2 ^ nat (bitlen x - 1) \<le> x \<and> x < 2 ^ nat (bitlen x)"
    using assms by (rule bitlen_bounds)
  have p: "0 < bitlen x" using assms by (simp add: bitlen_eq_zero_iff bitlen_nonneg order_less_le)
  have "of_int (2 ^ nat (bitlen x - 1)) \<le> (of_int x :: rat)" using b by (simp only: of_int_le_iff)
  with p show "pow2 (bitlen x - 1) \<le> of_int x" by (simp add: pow2_def)
  have "(of_int x :: rat) < of_int (2 ^ nat (bitlen x))" using b by (simp only: of_int_less_iff)
  with p show "of_int x < pow2 (bitlen x)" by (simp add: pow2_def)
qed

lemma ilog2_bounds:
  assumes "0 < q"
  shows "pow2 (ilog2 q) \<le> q" and "q < pow2 (ilog2 q + 1)"
proof -
  obtain a b where ab: "quotient_of q = (a, b)" by fastforce
  have b0: "0 < b" using quotient_of_denom_pos [OF ab] .
  have q: "q = of_int a / of_int b" using quotient_of_div [OF ab] .
  have a0: "0 < a" using assms b0 by (simp add: q zero_less_divide_iff)
  let ?k = "bitlen a - bitlen b"
  have "pow2 (?k - 1) = pow2 (bitlen a - 1) / pow2 (bitlen b)"
    by (simp add: pow2_diff [symmetric] algebra_simps)
  also have "\<dots> \<le> of_int a / of_int b"
    using bitlen_pow2_bounds [OF a0] bitlen_pow2_bounds [OF b0] b0 a0
    by (intro frac_le) auto
  finally have lo: "pow2 (?k - 1) \<le> q" by (simp add: q)
  have "of_int a / of_int b < pow2 (bitlen a) / pow2 (bitlen b - 1)"
    using bitlen_pow2_bounds [OF a0] bitlen_pow2_bounds [OF b0] b0 a0
    by (intro frac_less) auto
  also have "\<dots> = pow2 (?k + 1)" by (simp add: pow2_diff [symmetric] algebra_simps)
  finally have hi: "q < pow2 (?k + 1)" by (simp add: q)
  show "pow2 (ilog2 q) \<le> q" and "q < pow2 (ilog2 q + 1)"
    using lo hi by (auto simp: ilog2_def ab Let_def)
qed

lemma ilog2_mono: "0 < p \<Longrightarrow> p \<le> q \<Longrightarrow> ilog2 p \<le> ilog2 q"
proof -
  assume "0 < p" "p \<le> q"
  then have "pow2 (ilog2 p) < pow2 (ilog2 q + 1)"
    using ilog2_bounds(1) [of p] ilog2_bounds(2) [of q] by linarith
  then show ?thesis by (simp add: pow2_less_iff)
qed

lemma round_half_even_bounds: "\<lfloor>x\<rfloor> \<le> round_half_even x \<and> round_half_even x \<le> \<lfloor>x\<rfloor> + 1"
  by (simp add: round_half_even_def Let_def)

lemma round_half_even_mono: "x \<le> y \<Longrightarrow> round_half_even x \<le> round_half_even y"
proof -
  assume xy: "x \<le> y"
  then have f: "\<lfloor>x\<rfloor> \<le> \<lfloor>y\<rfloor>" by (rule floor_mono)
  show ?thesis
  proof (cases "\<lfloor>x\<rfloor> = \<lfloor>y\<rfloor>")
    case True
    with xy show ?thesis by (simp add: round_half_even_def Let_def)
  next
    case False
    with f round_half_even_bounds [of x] round_half_even_bounds [of y] show ?thesis by linarith
  qed
qed

lemma round_half_even_int [simp]: "round_half_even (of_int k) = k"
  by (simp add: round_half_even_def)

lemma round_half_even_le: "x \<le> of_int k \<Longrightarrow> round_half_even x \<le> k"
  using round_half_even_mono [of x "of_int k"] by simp

lemma round_half_even_ge: "of_int k \<le> x \<Longrightarrow> k \<le> round_half_even x"
  using round_half_even_mono [of "of_int k" x] by simp

lemma round_mag_0 [simp]: "round_mag 0 = 0"
  by (simp add: round_mag_def)

lemma round_mag_nonneg [simp]: "0 \<le> round_mag q"
proof -
  have "0 \<le> round_half_even (q / pow2 (quantum_exp q))" if "0 < q"
    using that by (intro round_half_even_ge) (simp add: zero_le_divide_iff)
  then show ?thesis by (auto simp: round_mag_def)
qed

text \<open>A grid value stays where it is, on whichever side of the rounded magnitude it lies.\<close>

lemma round_mag_le_grid:
  assumes "0 < q" "q \<le> pow2 j" "quantum_exp q \<le> j"
  shows "round_mag q \<le> pow2 j"
proof -
  let ?u = "quantum_exp q"
  have "q / pow2 ?u \<le> pow2 (j - ?u)"
    using assms by (simp add: pow2_diff divide_le_cancel)
  also have "\<dots> = of_int (2 ^ nat (j - ?u))" using assms by (simp add: pow2_nat)
  finally have "round_half_even (q / pow2 ?u) \<le> 2 ^ nat (j - ?u)" by (rule round_half_even_le)
  then have "of_int (round_half_even (q / pow2 ?u)) \<le> (of_int (2 ^ nat (j - ?u)) :: rat)"
    by (simp only: of_int_le_iff)
  also have "\<dots> = pow2 (j - ?u)" using assms by (simp add: pow2_nat)
  finally have "of_int (round_half_even (q / pow2 ?u)) \<le> pow2 (j - ?u)" .
  then have "of_int (round_half_even (q / pow2 ?u)) * pow2 ?u \<le> pow2 (j - ?u) * pow2 ?u"
    by (simp add: mult_right_mono)
  with assms show ?thesis by (simp add: round_mag_def pow2_add [symmetric])
qed

lemma round_mag_ge_grid:
  assumes "0 < q" "pow2 j \<le> q" "quantum_exp q \<le> j"
  shows "pow2 j \<le> round_mag q"
proof -
  let ?u = "quantum_exp q"
  have "of_int (2 ^ nat (j - ?u)) = pow2 (j - ?u)" using assms by (simp add: pow2_nat)
  also have "\<dots> \<le> q / pow2 ?u"
    using assms by (simp add: pow2_diff divide_le_cancel)
  finally have "2 ^ nat (j - ?u) \<le> round_half_even (q / pow2 ?u)" by (rule round_half_even_ge)
  then have "of_int (2 ^ nat (j - ?u)) \<le> (of_int (round_half_even (q / pow2 ?u)) :: rat)"
    by (simp only: of_int_le_iff)
  then have "pow2 (j - ?u) \<le> of_int (round_half_even (q / pow2 ?u))"
    using assms by (simp add: pow2_nat)
  then have "pow2 (j - ?u) * pow2 ?u \<le> of_int (round_half_even (q / pow2 ?u)) * pow2 ?u"
    by (simp add: mult_right_mono)
  with assms show ?thesis by (simp add: round_mag_def pow2_add [symmetric])
qed

lemma round_mag_mono:
  assumes "p \<le> q"
  shows "round_mag p \<le> round_mag q"
proof (cases "0 < p")
  case False
  then show ?thesis by (simp add: round_mag_def [of p])
next
  case True
  with assms have q: "0 < q" by simp
  have e: "ilog2 p \<le> ilog2 q" using True assms by (rule ilog2_mono)
  show ?thesis
  proof (cases "quantum_exp p = quantum_exp q")
    case same: True
    have "p / pow2 (quantum_exp q) \<le> q / pow2 (quantum_exp q)"
      using assms by (simp add: divide_le_cancel)
    then have "round_half_even (p / pow2 (quantum_exp q))
                 \<le> round_half_even (q / pow2 (quantum_exp q))"
      by (rule round_half_even_mono)
    with same True q show ?thesis by (simp add: round_mag_def mult_right_mono)
  next
    case False
    with e have u: "quantum_exp q = ilog2 q - 52" "quantum_exp p < quantum_exp q" "ilog2 p < ilog2 q"
      by (auto simp: quantum_exp_def)
    have "p < pow2 (ilog2 p + 1)" using True by (rule ilog2_bounds)
    also have "\<dots> \<le> pow2 (ilog2 q)" using u by (intro pow2_mono) simp
    finally have "round_mag p \<le> pow2 (ilog2 q)"
      using True u by (intro round_mag_le_grid) auto
    also have "\<dots> \<le> round_mag q"
      using q u ilog2_bounds(1) [OF q] by (intro round_mag_ge_grid) auto
    finally show ?thesis .
  qed
qed

text \<open>A magnitude with at most 53 significant bits is its own rounding.\<close>

lemma round_mag_exact:
  assumes "q = of_int m * pow2 k" "\<bar>m\<bar> \<le> 2 ^ 53" "- 1074 \<le> k" "0 \<le> q"
  shows "round_mag q = q"
proof (cases "q = 0")
  case True
  then show ?thesis by simp
next
  case False
  with assms(4) have q: "0 < q" by simp
  with assms(1) have m: "0 < m" by (simp add: zero_less_mult_iff)
  have u: "quantum_exp q \<le> k \<or> q = pow2 (53 + k)"
  proof (cases "m = 2 ^ 53")
    case True
    moreover have "pow2 53 = of_int (2 ^ 53)" by (simp add: pow2_def)
    ultimately show ?thesis using assms(1) by (simp add: pow2_add)
  next
    case False
    with assms(2) m have "m < 2 ^ 53" by simp
    then have "of_int m < (of_int (2 ^ 53) :: rat)" by (simp only: of_int_less_iff)
    also have "\<dots> = pow2 53" by (simp add: pow2_def)
    finally have "q < pow2 53 * pow2 k" using assms(1) by simp
    then have "pow2 (ilog2 q) < pow2 (53 + k)"
      using ilog2_bounds(1) [OF q] by (simp add: pow2_add)
    then show ?thesis using assms(3) by (simp add: pow2_less_iff quantum_exp_def)
  qed
  then show ?thesis
  proof
    assume u: "quantum_exp q \<le> k"
    have "q / pow2 (quantum_exp q) = of_int m * pow2 (k - quantum_exp q)"
      by (simp add: assms(1) pow2_diff)
    also have "\<dots> = of_int (m * 2 ^ nat (k - quantum_exp q))" using u by (simp add: pow2_nat)
    finally have e: "q / pow2 (quantum_exp q) = of_int (m * 2 ^ nat (k - quantum_exp q))" .
    then have "round_half_even (q / pow2 (quantum_exp q)) = m * 2 ^ nat (k - quantum_exp q)"
      by (simp only: round_half_even_int)
    then have "round_mag q = q / pow2 (quantum_exp q) * pow2 (quantum_exp q)"
      using q e by (simp add: round_mag_def)
    then show ?thesis by simp
  next
    assume qp: "q = pow2 (53 + k)"
    have "ilog2 q \<le> 53 + k"
      using ilog2_bounds(1) [OF q] by (simp add: qp pow2_le_iff)
    then have "quantum_exp q \<le> 53 + k" using assms(3) by (simp add: quantum_exp_def)
    then show ?thesis
      using q round_mag_le_grid [of q "53 + k"] round_mag_ge_grid [of q "53 + k"]
      by (simp add: qp)
  qed
qed

lemma round_half_even_error: "\<bar>of_int (round_half_even x) - x\<bar> \<le> 1 / 2"
proof -
  define f where "f = (of_int \<lfloor>x\<rfloor> :: rat)"
  have "f \<le> x" "x < f + 1" unfolding f_def by linarith+
  moreover have "of_int (round_half_even x) =
      (if x - f < 1 / 2 then f else if 1 / 2 < x - f then f + 1
       else if even \<lfloor>x\<rfloor> then f else f + 1)"
    by (simp add: round_half_even_def Let_def f_def)
  ultimately show ?thesis by (auto simp: abs_le_iff)
qed

lemma round_mag_error:
  assumes "0 < q"
  shows "\<bar>round_mag q - q\<bar> \<le> pow2 (quantum_exp q) / 2"
proof -
  let ?p = "pow2 (quantum_exp q)"
  have "\<bar>round_mag q - q\<bar> = \<bar>(of_int (round_half_even (q / ?p)) - q / ?p) * ?p\<bar>"
    using assms by (simp add: round_mag_def algebra_simps)
  also have "\<dots> = \<bar>of_int (round_half_even (q / ?p)) - q / ?p\<bar> * ?p"
    by (simp add: abs_mult)
  also have "\<dots> \<le> 1 / 2 * ?p"
    using round_half_even_error by (intro mult_right_mono) auto
  finally show ?thesis by simp
qed

lemma quantum_exp_less:
  assumes "0 < q" "q < pow2 j" "- 1021 \<le> j"
  shows "quantum_exp q \<le> j - 53"
proof -
  have "pow2 (ilog2 q) < pow2 j" using assms ilog2_bounds(1) [of q] by linarith
  with assms show ?thesis by (simp add: pow2_less_iff quantum_exp_def)
qed

section \<open>Values and operations\<close>

datatype f64 = NaN | Infinity bool | Finite bool rat

definition sval :: "bool \<Rightarrow> rat \<Rightarrow> rat" where
  "sval neg m = (if neg then - m else m)"

definition mk_f64 :: "bool \<Rightarrow> rat \<Rightarrow> f64" where
  "mk_f64 neg q = (let r = round_mag q in if pow2 1024 \<le> r then Infinity neg else Finite neg r)"

definition f64_of_rat :: "rat \<Rightarrow> f64" where
  "f64_of_rat x = (if x < 0 then mk_f64 True (- x) else mk_f64 False x)"

abbreviation f64_lit :: "rat \<Rightarrow> f64" where
  "f64_lit x \<equiv> f64_of_rat x"

definition f64_of_nat :: "nat \<Rightarrow> f64" where
  "f64_of_nat n = f64_of_rat (of_nat n)"

definition f64_of_int :: "int \<Rightarrow> f64" where
  "f64_of_int i = f64_of_rat (of_int i)"

abbreviation f64_of_word :: "'a::len word \<Rightarrow> f64" where
  "f64_of_word w \<equiv> f64_of_nat (unat w)"

fun f64_neg :: "f64 \<Rightarrow> f64" where
  "f64_neg NaN = NaN"
| "f64_neg (Infinity s) = Infinity (\<not> s)"
| "f64_neg (Finite s m) = Finite (\<not> s) m"

fun f64_abs :: "f64 \<Rightarrow> f64" where
  "f64_abs NaN = NaN"
| "f64_abs (Infinity s) = Infinity False"
| "f64_abs (Finite s m) = Finite False m"

fun f64_add :: "f64 \<Rightarrow> f64 \<Rightarrow> f64" where
  "f64_add (Finite s a) (Finite t b) =
     (let v = sval s a + sval t b in if v = 0 then Finite (s \<and> t) 0 else f64_of_rat v)"
| "f64_add (Infinity s) (Infinity t) = (if s = t then Infinity s else NaN)"
| "f64_add (Infinity s) (Finite t b) = Infinity s"
| "f64_add (Finite s a) (Infinity t) = Infinity t"
| "f64_add _ _ = NaN"

definition f64_sub :: "f64 \<Rightarrow> f64 \<Rightarrow> f64" where
  "f64_sub x y = f64_add x (f64_neg y)"

fun f64_mul :: "f64 \<Rightarrow> f64 \<Rightarrow> f64" where
  "f64_mul (Finite s a) (Finite t b) = mk_f64 (s \<noteq> t) (a * b)"
| "f64_mul (Infinity s) (Infinity t) = Infinity (s \<noteq> t)"
| "f64_mul (Infinity s) (Finite t b) = (if b = 0 then NaN else Infinity (s \<noteq> t))"
| "f64_mul (Finite s a) (Infinity t) = (if a = 0 then NaN else Infinity (s \<noteq> t))"
| "f64_mul _ _ = NaN"

fun f64_div :: "f64 \<Rightarrow> f64 \<Rightarrow> f64" where
  "f64_div (Finite s a) (Finite t b) =
     (if b = 0 then (if a = 0 then NaN else Infinity (s \<noteq> t)) else mk_f64 (s \<noteq> t) (a / b))"
| "f64_div (Infinity s) (Infinity t) = NaN"
| "f64_div (Infinity s) (Finite t b) = Infinity (s \<noteq> t)"
| "f64_div (Finite s a) (Infinity t) = Finite (s \<noteq> t) 0"
| "f64_div _ _ = NaN"

fun f64_lt :: "f64 \<Rightarrow> f64 \<Rightarrow> bool" where
  "f64_lt (Finite s a) (Finite t b) = (sval s a < sval t b)"
| "f64_lt (Infinity s) (Infinity t) = (s \<and> \<not> t)"
| "f64_lt (Infinity s) (Finite t b) = s"
| "f64_lt (Finite s a) (Infinity t) = (\<not> t)"
| "f64_lt _ _ = False"

fun f64_le :: "f64 \<Rightarrow> f64 \<Rightarrow> bool" where
  "f64_le (Finite s a) (Finite t b) = (sval s a \<le> sval t b)"
| "f64_le (Infinity s) (Infinity t) = (s \<or> \<not> t)"
| "f64_le (Infinity s) (Finite t b) = s"
| "f64_le (Finite s a) (Infinity t) = (\<not> t)"
| "f64_le _ _ = False"

fun is_nan :: "f64 \<Rightarrow> bool" where
  "is_nan NaN = True"
| "is_nan _ = False"

fun is_infinite :: "f64 \<Rightarrow> bool" where
  "is_infinite (Infinity s) = True"
| "is_infinite _ = False"

fun is_finite :: "f64 \<Rightarrow> bool" where
  "is_finite (Finite s m) = True"
| "is_finite _ = False"

text \<open>\<open>f64::max\<close> and \<open>f64::min\<close> return the other operand on NaN; \<open>clamp\<close> keeps NaN.\<close>

definition f64_max :: "f64 \<Rightarrow> f64 \<Rightarrow> f64" where
  "f64_max x y = (if is_nan x then y else if is_nan y then x else if f64_lt x y then y else x)"

definition f64_clamp :: "f64 \<Rightarrow> f64 \<Rightarrow> f64 \<Rightarrow> f64" where
  "f64_clamp x lo hi = (if f64_lt x lo then lo else if f64_lt hi x then hi else x)"

text \<open>\<open>ceil\<close>, \<open>round\<close> (half away from zero) and the saturating casts \<open>as u32\<close>, \<open>as u64\<close>.\<close>

fun f64_ceil :: "f64 \<Rightarrow> f64" where
  "f64_ceil (Finite s m) = (if s then Finite s (of_int \<lfloor>m\<rfloor>) else Finite s (of_int \<lceil>m\<rceil>))"
| "f64_ceil x = x"

fun f64_round :: "f64 \<Rightarrow> f64" where
  "f64_round (Finite s m) = Finite s (of_int \<lfloor>m + 1 / 2\<rfloor>)"
| "f64_round x = x"

fun f64_to_nat :: "nat \<Rightarrow> f64 \<Rightarrow> nat" where
  "f64_to_nat bound NaN = 0"
| "f64_to_nat bound (Infinity s) = (if s then 0 else bound - 1)"
| "f64_to_nat bound (Finite s m) = (if s then 0 else min (nat \<lfloor>m\<rfloor>) (bound - 1))"

definition f64_to_u32 :: "f64 \<Rightarrow> u32" where
  "f64_to_u32 x = of_nat (f64_to_nat (2 ^ 32) x)"

definition f64_to_u64 :: "f64 \<Rightarrow> u64" where
  "f64_to_u64 x = of_nat (f64_to_nat (2 ^ 64) x)"

definition f64_to_usize :: "f64 \<Rightarrow> usize" where
  "f64_to_usize x = f64_to_nat (2 ^ 64) x"

text \<open>\<open>Iterator::sum\<close>: left to right from zero.\<close>

definition f64_sum :: "f64 list \<Rightarrow> f64" where
  "f64_sum xs = foldl f64_add (Finite False 0) xs"

text \<open>The \<open>{:.p}\<close> form: the exact value rounded half to even at \<open>p\<close> decimals.\<close>

definition fixed_digits :: "nat \<Rightarrow> rat \<Rightarrow> string" where
  "fixed_digits p m =
     (let n = nat (round_half_even (m * 10 ^ p)); d = pad_zeros (Suc p) (show_nat n)
      in if p = 0 then d
         else take (length d - p) d @ ''.'' @ drop (length d - p) d)"

fun fmt_fixed :: "nat \<Rightarrow> f64 \<Rightarrow> string" where
  "fmt_fixed p NaN = ''NaN''"
| "fmt_fixed p (Infinity s) = (if s then ''-inf'' else ''inf'')"
| "fmt_fixed p (Finite s m) = (if s then ''-'' else []) @ fixed_digits p m"

definition fmt_fixed_plus :: "nat \<Rightarrow> f64 \<Rightarrow> string" where
  "fmt_fixed_plus p x =
     (case x of NaN \<Rightarrow> ''NaN''
      | Infinity s \<Rightarrow> (if s then ''-inf'' else ''+inf'')
      | Finite s m \<Rightarrow> (if s then ''-'' else ''+'') @ fixed_digits p m)"

section \<open>Facts on the operations\<close>

lemma pow2_1024_bound: "x \<le> 2 ^ 200 \<Longrightarrow> x < pow2 1024"
proof -
  assume "x \<le> 2 ^ 200"
  also have "(2 :: rat) ^ 200 = pow2 200" by (simp add: pow2_def)
  also have "\<dots> < pow2 1024" by (simp add: pow2_less_iff)
  finally show ?thesis .
qed

lemma round_mag_le_200:
  assumes "q \<le> 2 ^ 200"
  shows "round_mag q \<le> 2 ^ 200"
proof -
  have "round_mag (2 ^ 200) = 2 ^ 200"
    by (rule round_mag_exact [where m = 1 and k = 200]) (simp_all add: pow2_def)
  with round_mag_mono [OF assms] show ?thesis by simp
qed

text \<open>Below the overflow range a result is finite and is the rounded magnitude.\<close>

lemma mk_f64_finite: "q \<le> 2 ^ 200 \<Longrightarrow> mk_f64 s q = Finite s (round_mag q)"
proof -
  assume "q \<le> 2 ^ 200"
  then have "round_mag q < pow2 1024" by (intro pow2_1024_bound round_mag_le_200)
  then show ?thesis by (simp add: mk_f64_def Let_def)
qed

lemma round_mag_of_nat: "n \<le> 2 ^ 53 \<Longrightarrow> round_mag (of_nat n) = of_nat n"
proof -
  assume "n \<le> 2 ^ 53"
  then have "int n \<le> int (2 ^ 53)" by (simp only: of_nat_le_iff)
  then show ?thesis
    by (intro round_mag_exact [where m = "int n" and k = 0]) (auto simp: pow2_def)
qed

lemma round_mag_numeral: "numeral k \<le> (2 ^ 53 :: nat) \<Longrightarrow> round_mag (numeral k) = numeral k"
  using round_mag_of_nat [of "numeral k"] by simp

lemma round_mag_1 [simp]: "round_mag 1 = 1"
  using round_mag_of_nat [of 1] by simp

lemma round_mag_le_nat: "q \<le> of_nat n \<Longrightarrow> n \<le> 2 ^ 53 \<Longrightarrow> round_mag q \<le> of_nat n"
  by (metis round_mag_mono round_mag_of_nat)

lemma round_mag_ge_nat: "of_nat n \<le> q \<Longrightarrow> n \<le> 2 ^ 53 \<Longrightarrow> of_nat n \<le> round_mag q"
  by (metis round_mag_mono round_mag_of_nat)

lemma f64_of_rat_nonneg: "0 \<le> x \<Longrightarrow> f64_of_rat x = mk_f64 False x"
  by (simp add: f64_of_rat_def)

lemma f64_of_nat_finite: "n \<le> 2 ^ 200 \<Longrightarrow> f64_of_nat n = Finite False (round_mag (of_nat n))"
proof -
  assume "n \<le> 2 ^ 200"
  then have "(of_nat n :: rat) \<le> of_nat (2 ^ 200)" by (simp only: of_nat_le_iff)
  then show ?thesis by (simp add: f64_of_nat_def f64_of_rat_nonneg mk_f64_finite)
qed

lemma f64_of_nat_exact: "n \<le> 2 ^ 53 \<Longrightarrow> f64_of_nat n = Finite False (of_nat n)"
  by (subst f64_of_nat_finite) (auto simp: round_mag_of_nat intro: order_trans)

lemma f64_of_word64: "f64_of_word (w :: u64) = Finite False (round_mag (of_nat (unat w)))"
proof -
  have "unat w \<le> 2 ^ 200" using unsigned_less [of w, where 'a = nat] by simp
  then show ?thesis by (rule f64_of_nat_finite)
qed

text \<open>
  A quotient \<open>n / 10^8\<close> of an amount in satoshis compares with a whole number of bitcoin exactly
  as the integers do, although both the conversion and the division round.
\<close>

lemma round_mag_below_nat:
  assumes "q + 1 / 2 ^ 28 \<le> of_nat t" "0 < t" "t \<le> 2 ^ 25"
  shows "round_mag q < of_nat t"
proof (cases "0 < q")
  case False
  with assms show ?thesis by (simp add: round_mag_def)
next
  case True
  have "(of_nat t :: rat) \<le> of_nat (2 ^ 25)" using assms(3) by (simp only: of_nat_le_iff)
  then have "q < pow2 25" using assms(1) by (simp add: pow2_def)
  then have "quantum_exp q \<le> - 28" using quantum_exp_less [of q 25] True by simp
  then have "pow2 (quantum_exp q) \<le> pow2 (- 28)" by (rule pow2_mono)
  also have "pow2 (- 28) = 1 / 2 ^ 28" by (simp add: pow2_def)
  finally have "pow2 (quantum_exp q) / 2 \<le> 1 / 2 ^ 29" by simp
  then have "round_mag q \<le> q + 1 / 2 ^ 29"
    using round_mag_error [OF True] by linarith
  then show ?thesis using assms(1) by simp
qed

definition sats_f64 :: "nat \<Rightarrow> f64" where
  "sats_f64 n = f64_div (f64_of_nat n) (f64_of_nat 100000000)"

lemma sats_f64_finite:
  assumes "n < 2 ^ 64"
  shows "sats_f64 n = Finite False (round_mag (round_mag (of_nat n) / 100000000))"
proof -
  have n: "n \<le> 2 ^ 200" using assms by simp
  have "(of_nat n :: rat) \<le> of_nat (2 ^ 200)" using n by (simp only: of_nat_le_iff)
  then have "round_mag (of_nat n) \<le> 2 ^ 200" by (intro round_mag_le_200) simp
  moreover have "round_mag (of_nat n) / 100000000 \<le> round_mag (of_nat n)"
    using round_mag_nonneg [of "of_nat n"] by linarith
  ultimately have "round_mag (of_nat n) / 100000000 \<le> 2 ^ 200" by linarith
  then show ?thesis
    by (simp add: sats_f64_def f64_of_nat_finite [OF n] f64_of_nat_exact mk_f64_finite)
qed

lemma sats_f64_ge:
  assumes "n < 2 ^ 64" "0 < t" "t \<le> 2 ^ 25"
  shows "f64_le (f64_of_nat t) (sats_f64 n) \<longleftrightarrow> t * 100000000 \<le> n"
proof -
  have t53: "t \<le> 2 ^ 53" and tt: "t * 100000000 \<le> 2 ^ 53" using assms(3) by auto
  have lhs: "f64_le (f64_of_nat t) (sats_f64 n) \<longleftrightarrow>
      of_nat t \<le> round_mag (round_mag (of_nat n) / 100000000)"
    using sats_f64_finite [OF assms(1)] by (simp add: f64_of_nat_exact [OF t53] sval_def)
  show ?thesis
  proof
    assume "t * 100000000 \<le> n"
    then have "(of_nat (t * 100000000) :: rat) \<le> of_nat n" by (simp only: of_nat_le_iff)
    then have "of_nat (t * 100000000) \<le> round_mag (of_nat n)" using tt by (rule round_mag_ge_nat)
    then have "of_nat t \<le> round_mag (of_nat n) / 100000000" by simp
    then show "f64_le (f64_of_nat t) (sats_f64 n)" using t53 lhs round_mag_ge_nat by blast
  next
    assume le: "f64_le (f64_of_nat t) (sats_f64 n)"
    show "t * 100000000 \<le> n"
    proof (rule ccontr)
      assume "\<not> t * 100000000 \<le> n"
      then have n: "n + 1 \<le> t * 100000000" by simp
      then have "(of_nat (n + 1) :: rat) \<le> of_nat (t * 100000000)" by (simp only: of_nat_le_iff)
      then have "of_nat n / 100000000 + 1 / 2 ^ 28 \<le> (of_nat t :: rat)" by simp
      then have "round_mag (of_nat n / 100000000) < of_nat t"
        using assms(2,3) by (rule round_mag_below_nat)
      moreover have "round_mag (of_nat n) = of_nat n" using n tt by (intro round_mag_of_nat) simp
      ultimately show False using le lhs by simp
    qed
  qed
qed

text \<open>A percentage \<open>(a / n) * 100\<close> with \<open>a \<le> n\<close> lies between 0 and 100 after both roundings.\<close>

definition f64_percent :: "nat \<Rightarrow> nat \<Rightarrow> f64" where
  "f64_percent a n = f64_mul (f64_div (f64_of_nat a) (f64_of_nat n)) (f64_lit 100)"

lemma f64_lit_nat: "n \<le> 2 ^ 53 \<Longrightarrow> f64_lit (of_nat n) = Finite False (of_nat n)"
  using f64_of_nat_exact [of n] by (simp add: f64_of_nat_def)

lemma f64_lit_numeral:
  "numeral k \<le> (2 ^ 53 :: nat) \<Longrightarrow> f64_lit (numeral k) = Finite False (numeral k)"
  using f64_lit_nat [of "numeral k"] by simp

lemma f64_lit_0 [simp]: "f64_lit 0 = Finite False 0" and f64_lit_1 [simp]: "f64_lit 1 = Finite False 1"
  using f64_lit_nat [of 0] f64_lit_nat [of 1] by simp_all

lemma f64_div_nat:
  assumes "a \<le> 2 ^ 64" "n \<le> 2 ^ 64" "0 < n"
  shows "f64_div (f64_of_nat a) (f64_of_nat n) =
           Finite False (round_mag (round_mag (of_nat a) / round_mag (of_nat n)))"
proof -
  have a: "a \<le> 2 ^ 200" and n: "n \<le> 2 ^ 200" using assms by auto
  have n1: "1 \<le> round_mag (of_nat n)" using round_mag_ge_nat [of 1 "of_nat n"] assms(3) by simp
  have "(of_nat a :: rat) \<le> of_nat (2 ^ 200)" using a by (simp only: of_nat_le_iff)
  then have "round_mag (of_nat a) \<le> 2 ^ 200" by (intro round_mag_le_200) simp
  moreover have "round_mag (of_nat a) / round_mag (of_nat n) \<le> round_mag (of_nat a)"
    using n1 divide_left_mono [OF n1 round_mag_nonneg [of "of_nat a"]] by simp
  ultimately have "round_mag (of_nat a) / round_mag (of_nat n) \<le> 2 ^ 200" by linarith
  with n1 show ?thesis
    by (simp add: f64_of_nat_finite [OF a] f64_of_nat_finite [OF n] mk_f64_finite)
qed

lemma f64_percent_finite:
  assumes "a \<le> n" "0 < n" "n \<le> 2 ^ 64"
  obtains r where "f64_percent a n = Finite False r" "0 \<le> r" "r \<le> 100"
proof -
  have n1: "1 \<le> round_mag (of_nat n)" using round_mag_ge_nat [of 1 "of_nat n"] assms(2) by simp
  let ?d = "round_mag (of_nat a) / round_mag (of_nat n)"
  have "round_mag (of_nat a) \<le> round_mag (of_nat n)" using assms(1) by (intro round_mag_mono) simp
  then have d: "?d \<le> 1" "0 \<le> ?d" using n1 by (simp_all add: divide_le_eq)
  have rd: "round_mag ?d \<le> 1" using round_mag_mono [OF d(1)] by simp
  then have "round_mag ?d * 100 \<le> of_nat 100" by simp
  then have "round_mag (round_mag ?d * 100) \<le> of_nat 100" by (rule round_mag_le_nat) simp
  moreover have "round_mag ?d * 100 \<le> 2 ^ 200" using rd by simp
  ultimately show ?thesis
    using that [of "round_mag (round_mag ?d * 100)"] f64_div_nat [of a n] assms
    by (simp add: f64_percent_def f64_lit_numeral mk_f64_finite)
qed

lemma f64_percent_all: "0 < n \<Longrightarrow> n \<le> 2 ^ 64 \<Longrightarrow> f64_percent n n = Finite False 100"
proof -
  assume "0 < n" "n \<le> 2 ^ 64"
  moreover have "1 \<le> round_mag (of_nat n)" using round_mag_ge_nat [of 1 "of_nat n"] \<open>0 < n\<close> by simp
  ultimately show ?thesis
    by (simp add: f64_percent_def f64_div_nat f64_lit_numeral mk_f64_finite round_mag_numeral)
qed

lemma f64_percent_zero: "0 < n \<Longrightarrow> n \<le> 2 ^ 64 \<Longrightarrow> f64_percent 0 n = Finite False 0"
  by (simp add: f64_percent_def f64_div_nat f64_lit_numeral mk_f64_finite)

lemma f64_percent_mono:
  assumes "a \<le> b" "b \<le> n" "0 < n" "n \<le> 2 ^ 64"
  shows "f64_le (f64_percent a n) (f64_percent b n)"
proof -
  have n1: "0 < round_mag (of_nat n)" using round_mag_ge_nat [of 1 "of_nat n"] assms(3) by simp
  let ?d = "\<lambda>x. round_mag (round_mag (of_nat x) / round_mag (of_nat n))"
  have dle: "?d x \<le> 1" if "x \<le> n" for x
  proof -
    have "round_mag (of_nat x) \<le> round_mag (of_nat n)" using that by (intro round_mag_mono) simp
    then have "round_mag (of_nat x) / round_mag (of_nat n) \<le> 1" using n1 by (simp add: divide_le_eq)
    then show ?thesis using round_mag_mono by fastforce
  qed
  have p: "f64_percent x n = Finite False (round_mag (?d x * 100))" if "x \<le> n" for x
  proof -
    have "?d x * 100 \<le> 2 ^ 200" using dle [OF that] by simp
    then show ?thesis using that assms f64_div_nat [of x n]
      by (simp add: f64_percent_def f64_lit_numeral mk_f64_finite)
  qed
  have "round_mag (of_nat a) \<le> round_mag (of_nat b)" using assms(1) by (intro round_mag_mono) simp
  then have "round_mag (of_nat a) / round_mag (of_nat n) \<le> round_mag (of_nat b) / round_mag (of_nat n)"
    using n1 by (simp add: divide_le_cancel)
  then have "?d a * 100 \<le> ?d b * 100" by (intro mult_right_mono round_mag_mono) auto
  then have "round_mag (?d a * 100) \<le> round_mag (?d b * 100)" by (rule round_mag_mono)
  with p [of a] p [of b] assms show ?thesis by (simp add: sval_def)
qed

text \<open>Comparison is a linear preorder away from NaN.\<close>

lemma f64_le_refl: "\<not> is_nan x \<Longrightarrow> f64_le x x"
  by (cases x) auto

lemma f64_le_trans: "f64_le x y \<Longrightarrow> f64_le y z \<Longrightarrow> f64_le x z"
  by (cases x; cases y; cases z) auto

lemma f64_not_le: "\<not> is_nan x \<Longrightarrow> \<not> is_nan y \<Longrightarrow> \<not> f64_le x y \<longleftrightarrow> f64_lt y x"
  by (cases x; cases y) auto

end
