(* ===== verification/Json.thy ===== *)
theory Json
  imports Float64
begin

text \<open>
  The values the code exchanges with the libraries it links: \<open>serde_json::Value\<close> with the
  accessors the code calls, and the record of what the runtime supplies (the clock, random and
  name-based UUIDs, the RFC 3339 printer of \<open>chrono\<close> and its serialiser of instants). The runtime is an argument of every
  definition that reads it; nothing is assumed of it unless a lemma says so.
\<close>

section \<open>JSON values\<close>

datatype json_num = PosInt nat | NegInt int | Float f64

text \<open>
  An object is the list of its fields with distinct keys; the order of the fields carries no
  meaning, as the map behind \<open>Value::Object\<close> sorts its keys.
\<close>

datatype json = JNull | JBool bool | JNum json_num | JStr string
  | JArr "json list" | JObj "(string \<times> json) list"

definition json_nat :: "nat \<Rightarrow> json" where
  "json_nat n = JNum (PosInt n)"

abbreviation json_u :: "'a::len word \<Rightarrow> json" where
  "json_u w \<equiv> json_nat (unat w)"

definition json_int :: "int \<Rightarrow> json" where
  "json_int i = (if i < 0 then JNum (NegInt i) else JNum (PosInt (nat i)))"

text \<open>A float that is not finite has no JSON number and becomes null.\<close>

definition json_f64 :: "f64 \<Rightarrow> json" where
  "json_f64 x = (if is_finite x then JNum (Float x) else JNull)"

definition json_opt :: "('a \<Rightarrow> json) \<Rightarrow> 'a option \<Rightarrow> json" where
  "json_opt f x = (case x of None \<Rightarrow> JNull | Some v \<Rightarrow> f v)"

definition json_strs :: "string list \<Rightarrow> json" where
  "json_strs xs = JArr (map JStr xs)"

fun json_get :: "string \<Rightarrow> json \<Rightarrow> json option" where
  "json_get k (JObj m) = map_of m k"
| "json_get k _ = None"

fun as_u64 :: "json \<Rightarrow> u64 option" where
  "as_u64 (JNum (PosInt n)) = (if n < 2 ^ 64 then Some (of_nat n) else None)"
| "as_u64 _ = None"

fun as_f64 :: "json \<Rightarrow> f64 option" where
  "as_f64 (JNum (PosInt n)) = Some (f64_of_nat n)"
| "as_f64 (JNum (NegInt i)) = Some (f64_of_int i)"
| "as_f64 (JNum (Float x)) = Some x"
| "as_f64 _ = None"

fun as_str :: "json \<Rightarrow> string option" where
  "as_str (JStr s) = Some s"
| "as_str _ = None"

text \<open>\<open>Map::insert\<close> on the object behind a value; anything else is left alone.\<close>

fun json_insert :: "string \<Rightarrow> json \<Rightarrow> json \<Rightarrow> json" where
  "json_insert k v (JObj m) = JObj (AList.update k v m)"
| "json_insert k v j = j"

lemma as_u64_json_u [simp]: "as_u64 (json_u (w :: u64)) = Some w"
  using unsigned_less [of w, where 'a = nat] by (simp add: json_nat_def)

lemma json_get_insert:
  "json_get k (json_insert k' v (JObj m)) = (if k = k' then Some v else map_of m k)"
  by (simp add: update_conv')

lemma json_get_insert_other: "k \<noteq> k' \<Longrightarrow> json_get k (json_insert k' v j) = json_get k j"
  by (cases j) (simp_all add: update_conv')

section \<open>The runtime\<close>

record runtime =
  rt_now :: datetime
  rt_uuid_v4 :: uuid
  rt_uuid_v5 :: "string \<Rightarrow> uuid"
  rt_rfc3339 :: "datetime \<Rightarrow> string"
  rt_serde_time :: "datetime \<Rightarrow> string"

text \<open>
  Whole seconds between two instants, truncated towards zero, and the whole seconds of an instant
  since the epoch, rounded down: \<open>signed_duration_since(..).num_seconds()\<close> and \<open>timestamp()\<close>.
\<close>

definition num_seconds :: "int \<Rightarrow> int" where
  "num_seconds ns = quot_to_zero ns 1000000000"

definition timestamp_secs :: "datetime \<Rightarrow> int" where
  "timestamp_secs t = t div 1000000000"

definition from_timestamp :: "int \<Rightarrow> datetime" where
  "from_timestamp s = s * 1000000000"

lemma num_seconds_nonneg: "0 \<le> ns \<Longrightarrow> num_seconds ns = ns div 1000000000"
  by (simp add: num_seconds_def quot_to_zero_def)

lemma num_seconds_pos_iff: "0 < num_seconds ns \<longleftrightarrow> 1000000000 \<le> ns"
proof (cases "0 \<le> ns")
  case True
  then have "0 < ns div 1000000000 \<longleftrightarrow> 1000000000 \<le> ns" by (simp add: pos_imp_zdiv_pos_iff)
  with True show ?thesis by (simp add: num_seconds_nonneg)
next
  case False
  then show ?thesis by (simp add: num_seconds_def quot_to_zero_def pos_imp_zdiv_nonneg_iff not_less)
qed

text \<open>A runtime with a stopped clock, for evaluation on concrete inputs.\<close>

definition sample_runtime :: runtime where
  "sample_runtime =
     \<lparr>rt_now = 1700000000000000000, rt_uuid_v4 = 7, rt_uuid_v5 = (\<lambda>s. of_nat (length s)),
      rt_rfc3339 = (\<lambda>t. show_int t), rt_serde_time = (\<lambda>t. show_int t)\<rparr>"

end
