(* ===== verification/Observations.thy ===== *)
theory Observations
  imports Json
begin

text \<open>
  The normalised observations of \<open>obschain-core\<close>: where an observation came from (\<open>source.rs\<close>)
  and what was observed (\<open>observation.rs\<close>), with the accessors on them.
\<close>

section \<open>Sources\<close>

record observation_source =
  provider :: string
  transport :: string
  endpoint :: "string option"

definition observation_source_new :: "string \<Rightarrow> string \<Rightarrow> string option \<Rightarrow> observation_source" where
  [obs_defs]: "observation_source_new p t e = \<lparr>provider = p, transport = t, endpoint = e\<rparr>"

definition mempool_rest :: "string \<Rightarrow> observation_source" where
  [obs_defs]: "mempool_rest e =
     \<lparr>provider = ''mempool.space'', transport = ''rest'', endpoint = Some e\<rparr>"

definition mempool_ws :: "string \<Rightarrow> observation_source" where
  [obs_defs]: "mempool_ws e =
     \<lparr>provider = ''mempool.space'', transport = ''websocket'', endpoint = Some e\<rparr>"

definition bitcoin_core_rpc :: "string \<Rightarrow> observation_source" where
  [obs_defs]: "bitcoin_core_rpc e =
     \<lparr>provider = ''bitcoin_core'', transport = ''rpc'', endpoint = Some e\<rparr>"

definition bitcoin_core_zmq :: "string \<Rightarrow> observation_source" where
  [obs_defs]: "bitcoin_core_zmq e =
     \<lparr>provider = ''bitcoin_core'', transport = ''zmq'', endpoint = Some e\<rparr>"

datatype source_health_state =
  Connected | Connecting | Syncing | Degraded | Disconnected | NotConfigured

fun source_health_str :: "source_health_state \<Rightarrow> string" where
  "source_health_str Connected = ''connected''"
| "source_health_str Connecting = ''connecting''"
| "source_health_str Syncing = ''syncing''"
| "source_health_str Degraded = ''degraded''"
| "source_health_str Disconnected = ''disconnected''"
| "source_health_str NotConfigured = ''not_configured''"

record observation_witness =
  wit_source :: observation_source
  wit_observed_at :: datetime
  wit_metadata :: "json option"

definition observation_witness_new :: "datetime \<Rightarrow> observation_source \<Rightarrow> observation_witness" where
  [obs_defs]: "observation_witness_new now src =
     \<lparr>wit_source = src, wit_observed_at = now, wit_metadata = None\<rparr>"

section \<open>Observations\<close>

record block_observation =
  blk_hash :: string
  blk_height :: u64
  blk_timestamp :: datetime
  blk_previous_block_hash :: string
  blk_tx_count :: usize
  blk_size_bytes :: u64
  blk_weight :: u64
  blk_difficulty :: "f64 option"
  blk_miner_tag :: "string option"
  blk_interval_seconds :: "u64 option"
  blk_source :: "observation_source option"

record spent_output_context =
  soc_txid :: string
  soc_vout :: u32
  soc_value_sats :: u64
  soc_confirmed_height :: "u64 option"
  soc_confirmed_at :: "datetime option"

record tx_input_observation =
  in_txid :: string
  in_vout :: u32
  in_sequence :: u32
  in_prev_out_value_sats :: "u64 option"
  in_prev_out_address :: "string option"
  in_is_coinbase :: bool
  in_historical_utxo :: "spent_output_context option"

record tx_output_observation =
  out_value_sats :: u64
  out_n :: u32
  out_script_pubkey_type :: "string option"
  out_address :: "string option"
  out_scriptpubkey_hex :: "string option"

definition is_op_return :: "tx_output_observation \<Rightarrow> bool" where
  "is_op_return o' =
     (out_script_pubkey_type o' = Some ''op_return''
      \<or> (case out_scriptpubkey_hex o' of
           None \<Rightarrow> False
         | Some s \<Rightarrow> starts_with s ''6a'' \<or> starts_with s ''6A''))"

record transaction_observation =
  tx_txid :: string
  tx_timestamp :: datetime
  tx_block_hash :: "string option"
  tx_block_height :: "u64 option"
  tx_fee_sats :: u64
  tx_size :: u64
  tx_weight :: u64
  tx_vsize :: u64
  tx_fee_rate_sat_vb :: "f64 option"
  tx_total_input_sats :: u64
  tx_total_output_sats :: u64
  tx_input_count :: usize
  tx_output_count :: usize
  tx_inputs :: "tx_input_observation list"
  tx_outputs :: "tx_output_observation list"
  tx_is_rbf :: bool
  tx_confirmed :: bool
  tx_source :: "observation_source option"

record mempool_observation =
  mp_count :: usize
  mp_vsize_bytes :: u64
  mp_total_fee_sats :: u64
  mp_min_fee_rate_sat_vb :: "f64 option"
  mp_timestamp :: datetime
  mp_source :: "observation_source option"

text \<open>The fee delta is an \<open>i64\<close>, kept as its integer value.\<close>

record transaction_replacement =
  rp_replaced_txids :: "string list"
  rp_replacement_txid :: string
  rp_old_fee_sats :: u64
  rp_new_fee_sats :: u64
  rp_fee_delta_sats :: int
  rp_old_vsize :: "u64 option"
  rp_new_vsize :: "u64 option"
  rp_old_fee_rate_sat_vb :: "f64 option"
  rp_new_fee_rate_sat_vb :: "f64 option"
  rp_observed_at :: datetime
  rp_source :: "observation_source option"

record reorg_observation =
  ro_old_tip_hash :: string
  ro_old_tip_height :: u64
  ro_new_tip_hash :: string
  ro_new_tip_height :: u64
  ro_common_ancestor_hash :: "string option"
  ro_depth :: u64
  ro_disconnected_blocks :: "string list"
  ro_connected_blocks :: "string list"
  ro_observed_at :: datetime
  ro_source :: "observation_source option"

datatype observation =
    ObsBlock block_observation
  | ObsTransaction transaction_observation
  | ObsMempool mempool_observation
  | ObsReplacement transaction_replacement
  | ObsReorg reorg_observation

fun observation_source_of :: "observation \<Rightarrow> observation_source option" where
  "observation_source_of (ObsBlock b) = blk_source b"
| "observation_source_of (ObsTransaction t) = tx_source t"
| "observation_source_of (ObsMempool m) = mp_source m"
| "observation_source_of (ObsReplacement r) = rp_source r"
| "observation_source_of (ObsReorg r) = ro_source r"

fun observation_timestamp :: "observation \<Rightarrow> datetime" where
  "observation_timestamp (ObsBlock b) = blk_timestamp b"
| "observation_timestamp (ObsTransaction t) = tx_timestamp t"
| "observation_timestamp (ObsMempool m) = mp_timestamp m"
| "observation_timestamp (ObsReplacement r) = rp_observed_at r"
| "observation_timestamp (ObsReorg r) = ro_observed_at r"

end
