(* ===== verification/Events.thy ===== *)
theory Events
  imports Observations
begin

text \<open>
  Chain events and their observation records (\<open>event.rs\<close>) and the replay vocabulary
  (\<open>replay.rs\<close>) of \<open>obschain-core\<close>. An event carries a canonical identity, a name-based UUID of
  a textual key; an event observation carries the identity of one way in which the event was
  learnt. The lemmas settle what those keys identify.
\<close>

section \<open>Replay vocabulary\<close>

datatype replay_job_status = RPending | RRunning | RPaused | RCompleted | RFailed | RCancelled

fun replay_job_status_str :: "replay_job_status \<Rightarrow> string" where
  "replay_job_status_str RPending = ''pending''"
| "replay_job_status_str RRunning = ''running''"
| "replay_job_status_str RPaused = ''paused''"
| "replay_job_status_str RCompleted = ''completed''"
| "replay_job_status_str RFailed = ''failed''"
| "replay_job_status_str RCancelled = ''cancelled''"

definition is_terminal :: "replay_job_status \<Rightarrow> bool" where
  [obs_defs]: "is_terminal s = (s \<in> {RCompleted, RFailed, RCancelled})"

definition is_active :: "replay_job_status \<Rightarrow> bool" where
  [obs_defs]: "is_active s = (s \<in> {RRunning, RPending})"

datatype observation_mode = Live | HistoricalReplay

fun observation_mode_str :: "observation_mode \<Rightarrow> string" where
  "observation_mode_str Live = ''live''"
| "observation_mode_str HistoricalReplay = ''historical_replay''"

record observation_context =
  cx_mode :: observation_mode
  cx_replay_job_id :: "uuid option"
  cx_historical_height :: "u64 option"
  cx_historical_block_hash :: "string option"
  cx_historical_timestamp :: "datetime option"
  cx_network :: string

definition context_live :: "string \<Rightarrow> observation_context" where
  [obs_defs]: "context_live network =
     \<lparr>cx_mode = Live, cx_replay_job_id = None, cx_historical_height = None,
      cx_historical_block_hash = None, cx_historical_timestamp = None, cx_network = network\<rparr>"

definition context_historical_replay ::
  "uuid \<Rightarrow> u64 \<Rightarrow> string \<Rightarrow> datetime \<Rightarrow> string \<Rightarrow> observation_context" where
  [obs_defs]: "context_historical_replay job height bhash ts network =
     \<lparr>cx_mode = HistoricalReplay, cx_replay_job_id = Some job, cx_historical_height = Some height,
      cx_historical_block_hash = Some bhash, cx_historical_timestamp = Some ts,
      cx_network = network\<rparr>"

record replay_job =
  rj_id :: uuid
  rj_network :: string
  rj_start_height :: u64
  rj_end_height :: u64
  rj_current_height :: u64
  rj_status :: replay_job_status
  rj_source_type :: string
  rj_created_at :: datetime
  rj_started_at :: "datetime option"
  rj_completed_at :: "datetime option"
  rj_blocks_processed :: u64
  rj_transactions_processed :: u64
  rj_events_generated :: u64
  rj_events_created :: u64
  rj_events_existing :: u64
  rj_observations_recorded :: u64
  rj_error_count :: u64
  rj_last_error :: "string option"

definition replay_job_new :: "runtime \<Rightarrow> string \<Rightarrow> u64 \<Rightarrow> u64 \<Rightarrow> string \<Rightarrow> replay_job" where
  "replay_job_new rt network start_h end_h source_type =
     \<lparr>rj_id = rt_uuid_v4 rt, rj_network = network, rj_start_height = start_h,
      rj_end_height = end_h, rj_current_height = start_h, rj_status = RPending,
      rj_source_type = source_type, rj_created_at = rt_now rt, rj_started_at = None,
      rj_completed_at = None, rj_blocks_processed = 0, rj_transactions_processed = 0,
      rj_events_generated = 0, rj_events_created = 0, rj_events_existing = 0,
      rj_observations_recorded = 0, rj_error_count = 0, rj_last_error = None\<rparr>"

definition total_blocks :: "replay_job \<Rightarrow> u64" where
  "total_blocks j =
     (if rj_end_height j \<ge> rj_start_height j then rj_end_height j - rj_start_height j + 1 else 0)"

definition progress_percentage :: "replay_job \<Rightarrow> f64" where
  "progress_percentage j =
     (let total = total_blocks j
      in if total = 0 then f64_lit 100
         else f64_clamp
                (f64_mul (f64_div (f64_of_word (rj_blocks_processed j)) (f64_of_word total))
                   (f64_lit 100)) (f64_lit 0) (f64_lit 100))"

record replay_checkpoint =
  cp_id :: uuid
  cp_job_id :: uuid
  cp_completed_height :: u64
  cp_blocks_processed :: u64
  cp_transactions_processed :: u64
  cp_events_generated :: u64
  cp_events_created :: u64
  cp_events_existing :: u64
  cp_observations_recorded :: u64
  cp_checkpointed_at :: datetime

definition replay_checkpoint_new ::
  "runtime \<Rightarrow> uuid \<Rightarrow> u64 \<Rightarrow> u64 \<Rightarrow> u64 \<Rightarrow> u64 \<Rightarrow> replay_checkpoint" where
  "replay_checkpoint_new rt job height blocks txs events =
     \<lparr>cp_id = rt_uuid_v4 rt, cp_job_id = job, cp_completed_height = height,
      cp_blocks_processed = blocks, cp_transactions_processed = txs,
      cp_events_generated = events, cp_events_created = 0, cp_events_existing = 0,
      cp_observations_recorded = events, cp_checkpointed_at = rt_now rt\<rparr>"

definition with_provenance_counts ::
  "replay_checkpoint \<Rightarrow> u64 \<Rightarrow> u64 \<Rightarrow> u64 \<Rightarrow> replay_checkpoint" where
  "with_provenance_counts c created existing recorded =
     c\<lparr>cp_events_created := created, cp_events_existing := existing,
       cp_observations_recorded := recorded\<rparr>"

section \<open>Classifications\<close>

datatype event_severity = SevInfo | SevLow | SevMedium | SevHigh | SevCritical

text \<open>The derived order of the enumeration: declaration order.\<close>

fun severity_rank :: "event_severity \<Rightarrow> nat" where
  "severity_rank SevInfo = 0"
| "severity_rank SevLow = 1"
| "severity_rank SevMedium = 2"
| "severity_rank SevHigh = 3"
| "severity_rank SevCritical = 4"

lemma severity_rank_inj: "severity_rank a = severity_rank b \<longleftrightarrow> a = b"
  by (cases a; cases b) simp_all

instantiation event_severity :: linorder
begin

definition less_eq_event_severity :: "event_severity \<Rightarrow> event_severity \<Rightarrow> bool" where
  "less_eq_event_severity a b = (severity_rank a \<le> severity_rank b)"

definition less_event_severity :: "event_severity \<Rightarrow> event_severity \<Rightarrow> bool" where
  "less_event_severity a b = (severity_rank a < severity_rank b)"

instance
  by standard
    (auto simp: less_eq_event_severity_def less_event_severity_def severity_rank_inj [symmetric])

end

datatype confidence_level =
  ConfVerifiedOnChain | ConfHigh | ConfModerate | ConfHeuristic | ConfLow

datatype event_type =
    LargeTransfer | DormantCoinsMoved | Consolidation | FanOut | ExtremeFee
  | TransactionReplacement | LongBlockInterval | ReorgDetected | MiningAnomaly | UnusualFeeRatio

fun event_type_debug :: "event_type \<Rightarrow> string" where
  "event_type_debug LargeTransfer = ''LargeTransfer''"
| "event_type_debug DormantCoinsMoved = ''DormantCoinsMoved''"
| "event_type_debug Consolidation = ''Consolidation''"
| "event_type_debug FanOut = ''FanOut''"
| "event_type_debug ExtremeFee = ''ExtremeFee''"
| "event_type_debug TransactionReplacement = ''TransactionReplacement''"
| "event_type_debug LongBlockInterval = ''LongBlockInterval''"
| "event_type_debug ReorgDetected = ''ReorgDetected''"
| "event_type_debug MiningAnomaly = ''MiningAnomaly''"
| "event_type_debug UnusualFeeRatio = ''UnusualFeeRatio''"

datatype event_observation_kind =
  FirstSeen | MempoolSeen | KConfirmed | KReorgedOut | Witnessed | KHistoricalReplay

fun observation_kind_str :: "event_observation_kind \<Rightarrow> string" where
  "observation_kind_str FirstSeen = ''FIRST_SEEN''"
| "observation_kind_str MempoolSeen = ''MEMPOOL_SEEN''"
| "observation_kind_str KConfirmed = ''CONFIRMED''"
| "observation_kind_str KReorgedOut = ''REORGED_OUT''"
| "observation_kind_str Witnessed = ''WITNESSED''"
| "observation_kind_str KHistoricalReplay = ''HISTORICAL_REPLAY''"

definition observation_kind_from_str :: "string \<Rightarrow> string + event_observation_kind" where
  "observation_kind_from_str s =
     (let u = to_uppercase s
      in if u = ''FIRST_SEEN'' then Inr FirstSeen
         else if u = ''MEMPOOL_SEEN'' then Inr MempoolSeen
         else if u = ''CONFIRMED'' then Inr KConfirmed
         else if u = ''REORGED_OUT'' then Inr KReorgedOut
         else if u = ''WITNESSED'' then Inr Witnessed
         else if u = ''HISTORICAL_REPLAY'' then Inr KHistoricalReplay
         else Inl (''Unknown observation kind: '' @ u))"

section \<open>Event observations\<close>

record event_observation =
  eo_id :: uuid
  eo_event_id :: uuid
  eo_mode :: observation_mode
  eo_kind :: event_observation_kind
  eo_source :: observation_source
  eo_observed_at :: datetime
  eo_bitcoin_time :: "datetime option"
  eo_replay_job_id :: "uuid option"
  eo_block_height :: "u64 option"
  eo_block_hash :: "string option"
  eo_confirmation_status :: "string option"
  eo_source_sequence :: "u32 option"
  eo_mempool_sequence :: "u64 option"
  eo_witness :: "observation_witness option"

definition build_discriminator ::
  "string option \<Rightarrow> u32 option \<Rightarrow> u64 option \<Rightarrow> string option \<Rightarrow> string" where
  "build_discriminator block_hash source_seq mempool_seq status =
     (case block_hash of
        Some bh \<Rightarrow> bh
      | None \<Rightarrow>
          (case mempool_seq of
             Some m \<Rightarrow> ''mempool_seq:'' @ show_u m
           | None \<Rightarrow>
               (case source_seq of
                  Some q \<Rightarrow> ''source_seq:'' @ show_u q
                | None \<Rightarrow> (case status of Some st \<Rightarrow> st | None \<Rightarrow> []))))"

definition observation_key ::
  "uuid \<Rightarrow> observation_mode \<Rightarrow> observation_source \<Rightarrow> event_observation_kind \<Rightarrow> uuid option
     \<Rightarrow> string option \<Rightarrow> string" where
  "observation_key event_id mode src kind job disc =
     (case (mode, job) of
        (HistoricalReplay, Some job_id) \<Rightarrow>
          ''obs:'' @ uuid_str event_id @ '':replay:'' @ uuid_str job_id
      | _ \<Rightarrow>
          ''obs:'' @ uuid_str event_id @ '':'' @ observation_mode_str mode @ '':'' @ provider src
            @ '':'' @ transport src @ '':'' @ observation_kind_str kind @ '':''
            @ (case disc of None \<Rightarrow> [] | Some d \<Rightarrow> d))"

definition observation_deterministic_id ::
  "runtime \<Rightarrow> uuid \<Rightarrow> observation_mode \<Rightarrow> observation_source \<Rightarrow> event_observation_kind
     \<Rightarrow> uuid option \<Rightarrow> string option \<Rightarrow> uuid" where
  "observation_deterministic_id rt event_id mode src kind job disc =
     rt_uuid_v5 rt (observation_key event_id mode src kind job disc)"

definition event_observation_live ::
  "runtime \<Rightarrow> uuid \<Rightarrow> observation_source \<Rightarrow> event_observation_kind \<Rightarrow> datetime
     \<Rightarrow> datetime option \<Rightarrow> u64 option \<Rightarrow> string option \<Rightarrow> event_observation" where
  "event_observation_live rt event_id src kind observed_at bitcoin_time height bhash =
     (let disc = build_discriminator bhash None None None
      in \<lparr>eo_id = observation_deterministic_id rt event_id Live src kind None (Some disc),
          eo_event_id = event_id, eo_mode = Live, eo_kind = kind, eo_source = src,
          eo_observed_at = observed_at, eo_bitcoin_time = bitcoin_time, eo_replay_job_id = None,
          eo_block_height = height, eo_block_hash = bhash, eo_confirmation_status = None,
          eo_source_sequence = None, eo_mempool_sequence = None,
          eo_witness = Some \<lparr>wit_source = src, wit_observed_at = observed_at, wit_metadata = None\<rparr>\<rparr>)"

definition recompute_id :: "runtime \<Rightarrow> event_observation \<Rightarrow> event_observation" where
  "recompute_id rt o' =
     (let disc = build_discriminator (eo_block_hash o') (eo_source_sequence o')
                   (eo_mempool_sequence o') (eo_confirmation_status o')
      in o'\<lparr>eo_id := observation_deterministic_id rt (eo_event_id o') (eo_mode o') (eo_source o')
                       (eo_kind o') (eo_replay_job_id o') (Some disc)\<rparr>)"

definition with_confirmation_status :: "runtime \<Rightarrow> string \<Rightarrow> event_observation \<Rightarrow> event_observation" where
  "with_confirmation_status rt status o' =
     recompute_id rt (o'\<lparr>eo_confirmation_status := Some status\<rparr>)"

definition with_source_sequence :: "runtime \<Rightarrow> u32 \<Rightarrow> event_observation \<Rightarrow> event_observation" where
  "with_source_sequence rt q o' = recompute_id rt (o'\<lparr>eo_source_sequence := Some q\<rparr>)"

definition with_mempool_sequence :: "runtime \<Rightarrow> u64 \<Rightarrow> event_observation \<Rightarrow> event_observation" where
  "with_mempool_sequence rt q o' = recompute_id rt (o'\<lparr>eo_mempool_sequence := Some q\<rparr>)"

definition event_observation_historical_replay ::
  "runtime \<Rightarrow> uuid \<Rightarrow> uuid \<Rightarrow> observation_source \<Rightarrow> datetime \<Rightarrow> datetime option \<Rightarrow> u64 option
     \<Rightarrow> string option \<Rightarrow> event_observation" where
  "event_observation_historical_replay rt event_id job src observed_at bitcoin_time height bhash =
     \<lparr>eo_id = observation_deterministic_id rt event_id HistoricalReplay src KHistoricalReplay
                (Some job) None,
      eo_event_id = event_id, eo_mode = HistoricalReplay, eo_kind = KHistoricalReplay,
      eo_source = src, eo_observed_at = observed_at, eo_bitcoin_time = bitcoin_time,
      eo_replay_job_id = Some job, eo_block_height = height, eo_block_hash = bhash,
      eo_confirmation_status = Some ''confirmed'', eo_source_sequence = None,
      eo_mempool_sequence = None, eo_witness = None\<rparr>"

section \<open>Chain events\<close>

record chain_event =
  ev_id :: uuid
  ev_type :: event_type
  ev_severity :: event_severity
  ev_confidence :: confidence_level
  ev_title :: string
  ev_description :: string
  ev_event_time :: datetime
  ev_first_observed_at :: datetime
  ev_detected_at :: datetime
  ev_block_height :: "u64 option"
  ev_block_hash :: "string option"
  ev_txid :: "string option"
  ev_source :: "observation_source option"
  ev_witnesses :: "observation_witness list"
  ev_observation_mode :: observation_mode
  ev_replay_job_id :: "uuid option"
  ev_metadata :: json
  ev_observations :: "event_observation list"

definition chain_event_new ::
  "runtime \<Rightarrow> event_type \<Rightarrow> event_severity \<Rightarrow> confidence_level \<Rightarrow> string \<Rightarrow> string \<Rightarrow> chain_event" where
  "chain_event_new rt ty sev conf title descr =
     \<lparr>ev_id = rt_uuid_v4 rt, ev_type = ty, ev_severity = sev, ev_confidence = conf,
      ev_title = title, ev_description = descr, ev_event_time = rt_now rt,
      ev_first_observed_at = rt_now rt, ev_detected_at = rt_now rt, ev_block_height = None,
      ev_block_hash = None, ev_txid = None, ev_source = None, ev_witnesses = [],
      ev_observation_mode = Live, ev_replay_job_id = None, ev_metadata = JObj [],
      ev_observations = []\<rparr>"

definition with_event_time :: "datetime \<Rightarrow> chain_event \<Rightarrow> chain_event" where
  "with_event_time t e = e\<lparr>ev_event_time := t, ev_detected_at := t\<rparr>"

text \<open>The textual key from which the deterministic identifier is derived.\<close>

definition chain_event_key :: "chain_event \<Rightarrow> string" where
  "chain_event_key e =
     (case ev_txid e of
        Some tx \<Rightarrow> event_type_debug (ev_type e) @ '':tx:'' @ tx
      | None \<Rightarrow>
          (case ev_block_hash e of
             Some b \<Rightarrow> event_type_debug (ev_type e) @ '':block:'' @ b
           | None \<Rightarrow>
               (case ev_block_height e of
                  Some h \<Rightarrow> event_type_debug (ev_type e) @ '':height:'' @ show_u h
                | None \<Rightarrow> event_type_debug (ev_type e) @ '':title:'' @ ev_title e)))"

definition chain_event_deterministic_id :: "runtime \<Rightarrow> chain_event \<Rightarrow> uuid" where
  "chain_event_deterministic_id rt e = rt_uuid_v5 rt (chain_event_key e)"

definition with_deterministic_id :: "runtime \<Rightarrow> chain_event \<Rightarrow> chain_event" where
  "with_deterministic_id rt e = e\<lparr>ev_id := chain_event_deterministic_id rt e\<rparr>"

definition add_witness :: "observation_witness \<Rightarrow> chain_event \<Rightarrow> chain_event" where
  "add_witness w e =
     (if list_ex (\<lambda>x. wit_source x = wit_source w) (ev_witnesses e) then e
      else e\<lparr>ev_witnesses := ev_witnesses e @ [w]\<rparr>)"

definition add_observation :: "event_observation \<Rightarrow> chain_event \<Rightarrow> chain_event" where
  "add_observation o' e =
     (if list_ex (\<lambda>x. eo_id x = eo_id o') (ev_observations e) then e
      else e\<lparr>ev_observations := ev_observations e @ [o']\<rparr>)"

text \<open>
  \<open>with_typed_metadata\<close> takes what serialisation produced; a failed serialisation leaves the
  metadata as it was.
\<close>

definition with_typed_metadata :: "json option \<Rightarrow> chain_event \<Rightarrow> chain_event" where
  "with_typed_metadata m e = (case m of Some v \<Rightarrow> e\<lparr>ev_metadata := v\<rparr> | None \<Rightarrow> e)"

definition event_network :: "chain_event \<Rightarrow> string option" where
  "event_network e = Option.bind (json_get ''network'' (ev_metadata e)) as_str"

definition with_network :: "string \<Rightarrow> chain_event \<Rightarrow> chain_event" where
  "with_network n e =
     (case ev_metadata e of
        JObj m \<Rightarrow> e\<lparr>ev_metadata := json_insert ''network'' (JStr n) (JObj m)\<rparr>
      | _ \<Rightarrow> e\<lparr>ev_metadata := JObj [(''network'', JStr n)]\<rparr>)"

section \<open>What an event key identifies\<close>


datatype event_target = TargetTx string | TargetBlock string | TargetHeight u64 | TargetTitle string

definition event_target :: "chain_event \<Rightarrow> event_target" where
  "event_target e =
     (case ev_txid e of Some tx \<Rightarrow> TargetTx tx
      | None \<Rightarrow> (case ev_block_hash e of Some b \<Rightarrow> TargetBlock b
          | None \<Rightarrow> (case ev_block_height e of Some h \<Rightarrow> TargetHeight h
              | None \<Rightarrow> TargetTitle (ev_title e))))"

fun target_str :: "event_target \<Rightarrow> string" where
  "target_str (TargetTx t) = ''tx:'' @ t"
| "target_str (TargetBlock b) = ''block:'' @ b"
| "target_str (TargetHeight h) = ''height:'' @ show_u h"
| "target_str (TargetTitle t) = ''title:'' @ t"

lemma target_str_inj: "target_str a = target_str b \<longleftrightarrow> a = b"
  by (cases a; cases b) (auto simp: word_unat_eq_iff)

lemma event_type_debug_inj: "event_type_debug a = event_type_debug b \<longleftrightarrow> a = b"
  by (cases a; cases b) simp_all

lemma event_type_debug_no_colon: "CHR '':'' \<notin> set (event_type_debug a)"
  by (cases a) simp_all

lemma chain_event_key_split:
  "chain_event_key e = event_type_debug (ev_type e) @ CHR '':'' # target_str (event_target e)"
  by (simp add: chain_event_key_def event_target_def split: option.splits)

lemma chain_event_key_eq:
  "chain_event_key a = chain_event_key b \<longleftrightarrow>
     ev_type a = ev_type b \<and> event_target a = event_target b"
  by (simp add: chain_event_key_split append_sep_eq event_type_debug_no_colon
      event_type_debug_inj target_str_inj)

text \<open>
  The key behind an event's deterministic identifier determines the event's type and its
  target (transaction, block, height or title), and is determined by them.
\<close>

theorem event_key_identifies:
  "chain_event_key a = chain_event_key b \<longleftrightarrow>
     ev_type a = ev_type b \<and> event_target a = event_target b"
  by (rule chain_event_key_eq)

lemma append_fixed_eq: "length a = length b \<Longrightarrow> a @ x = b @ y \<longleftrightarrow> a = b \<and> x = y"
  by simp

text \<open>
  A replay job observes an event under one key, whatever the source or the kind: two replay
  keys agree exactly when event and job agree; and a live observation never has the key of a
  replay observation.
\<close>

theorem replay_observation_key_identifies:
  "(observation_key e HistoricalReplay s k (Some j) d = observation_key e' HistoricalReplay s' k' (Some j') d'
      \<longleftrightarrow> e = e' \<and> j = j')
   \<and> observation_key e Live s k job d \<noteq> observation_key e' HistoricalReplay s' k' (Some j') d'"
  by (auto simp: observation_key_def append_fixed_eq)

end
