(* ===== verification/Amount.thy ===== *)
theory Amount
  imports Events
begin

text \<open>
  Amounts and fee rates (\<open>amount.rs\<close>, \<open>fee.rs\<close>): the exact decimal parser from BTC to satoshis,
  the fallback for floats, coin age in satoshi-days, fee rates and virtual sizes. The lemmas give
  the parser's result on every decimal literal, show that the float path rounds to the nearest
  satoshi, and that coin age never wraps in its 128 bits.
\<close>

section \<open>Definitions\<close>

definition SATS_PER_BTC :: u64 where
  "SATS_PER_BTC = 100000000"

definition MAX_MONEY_SATS :: u64 where
  "MAX_MONEY_SATS = 21000000 * SATS_PER_BTC"

datatype amount_error = Negative | NonFinite | ExceedsMaxSupply | InvalidDecimal string | Overflow

text \<open>
  The eight fraction digits: position \<open>i\<close> takes the byte of the text when there is one, which must
  be a digit, and the padding otherwise. Bytes from the ninth on are never looked at.
\<close>

fun frac_padded :: "nat \<Rightarrow> string \<Rightarrow> string option" where
  "frac_padded 0 s = Some []"
| "frac_padded (Suc n) [] = map_option (Cons (CHR ''0'')) (frac_padded n [])"
| "frac_padded (Suc n) (c # s) =
     (if is_digit c then map_option (Cons c) (frac_padded n s) else None)"

definition btc_str_to_sats :: "string \<Rightarrow> amount_error + u64" where
  "btc_str_to_sats btc_str =
     (let s = trim btc_str in
      if s = [] then Inl (InvalidDecimal ''empty string'')
      else if starts_with s ''-'' then Inl Negative
      else
        let parts = split_on (CHR ''.'') s;
            whole_str = (if parts ! 0 = [] then ''0'' else parts ! 0);
            frac_str = (if length parts > 1 then parts ! 1 else [])
        in if length parts > 2 then Inl (InvalidDecimal ''multiple decimal points'')
           else case parse_u64 whole_str of
             None \<Rightarrow> Inl (InvalidDecimal ''invalid whole part'')
           | Some whole \<Rightarrow>
             (case frac_padded 8 frac_str of
                None \<Rightarrow> Inl (InvalidDecimal ''non-digit in fraction'')
              | Some padded \<Rightarrow>
                (case parse_u64 padded of
                   None \<Rightarrow> Inl (InvalidDecimal ''invalid frac part'')
                 | Some frac_val \<Rightarrow>
                   (case checked_mul whole SATS_PER_BTC of
                      None \<Rightarrow> Inl Overflow
                    | Some whole_sats \<Rightarrow>
                      (case checked_add whole_sats frac_val of
                         None \<Rightarrow> Inl Overflow
                       | Some tot \<Rightarrow>
                           if tot > MAX_MONEY_SATS then Inl ExceedsMaxSupply
                           else Inr tot)))))"

definition safe_btc_f64_to_sats :: "f64 \<Rightarrow> amount_error + u64" where
  "safe_btc_f64_to_sats btc =
     (if \<not> is_finite btc then Inl NonFinite
      else if f64_lt btc (f64_lit 0) then Inl Negative
      else if f64_lt (f64_lit 21000000) btc then Inl ExceedsMaxSupply
      else btc_str_to_sats (fmt_fixed 8 btc))"

definition calculate_satoshi_days :: "u64 \<Rightarrow> u64 \<Rightarrow> u128" where
  "calculate_satoshi_days value_sats age_days = ucast value_sats * ucast age_days"

definition satoshi_days_to_btc_days :: "u128 \<Rightarrow> f64" where
  "satoshi_days_to_btc_days d = f64_div (f64_of_word d) (f64_of_word SATS_PER_BTC)"

definition calculate_fee_rate_sat_vb :: "u64 \<Rightarrow> u64 \<Rightarrow> f64 option" where
  "calculate_fee_rate_sat_vb fee_sats vsize =
     (if vsize = 0 then None
      else let rate = f64_div (f64_of_word fee_sats) (f64_of_word vsize)
           in if is_nan rate \<or> is_infinite rate \<or> f64_lt rate (f64_lit 0) then None
              else Some rate)"

definition calculate_vsize_from_weight :: "u64 \<Rightarrow> u64" where
  "calculate_vsize_from_weight weight = div_ceil weight 4"

section \<open>Decimal literals\<close>

lemma max_money [simp]: "unat MAX_MONEY_SATS = 2100000000000000"
  by (simp add: MAX_MONEY_SATS_def SATS_PER_BTC_def)

lemma sats_per_btc [simp]: "unat SATS_PER_BTC = 100000000"
  by (simp add: SATS_PER_BTC_def)

lemma frac_padded_digits:
  "list_all is_digit s \<Longrightarrow> length s \<le> n \<Longrightarrow>
     frac_padded n s = Some (s @ replicate (n - length s) (CHR ''0''))"
proof (induction n s rule: frac_padded.induct)
  case (2 n)
  then show ?case by simp
qed auto

lemma frac_padded_SomeD: "frac_padded n s = Some p \<Longrightarrow> length p = n \<and> list_all is_digit p"
  by (induction n s arbitrary: p rule: frac_padded.induct) (auto simp: is_digit_0 split: if_splits)

text \<open>The value of a literal with whole part \<open>w\<close> and fraction digits \<open>f\<close>, in satoshis.\<close>

definition literal_sats :: "string \<Rightarrow> string \<Rightarrow> nat" where
  "literal_sats w f = dec_value w * 10 ^ 8 + dec_value f * 10 ^ (8 - length f)"

text \<open>A number with at most 8 fraction digits is parsed exactly, or rejected for its size.\<close>

lemma btc_str_to_sats_literal:
  assumes w: "list_all is_digit w" "w \<noteq> []" and f: "list_all is_digit f" "length f \<le> 8"
  shows "btc_str_to_sats (w @ ''.'' @ f) =
     (if 2 ^ 64 \<le> dec_value w then Inl (InvalidDecimal ''invalid whole part'')
      else if 2 ^ 64 \<le> literal_sats w f then Inl Overflow
      else if 2100000000000000 < literal_sats w f then Inl ExceedsMaxSupply
      else Inr (of_nat (literal_sats w f)))"
proof -
  let ?s = "w @ CHR ''.'' # f" and ?p = "f @ replicate (8 - length f) (CHR ''0'')"
  have sp: "split_on (CHR ''.'') ?s = [w, f]"
    by (rule split_on_one) (use w f digit_not_special(1) in \<open>auto simp: list_all_iff\<close>)
  have tr: "trim ?s = ?s"
    by (rule trim_solid) (use w f digit_not_special(2) in \<open>auto simp: list_all_iff is_space_def\<close>)
  have st: "\<not> starts_with ?s ''-''"
    using w digit_not_special(3) by (cases w) (auto simp: starts_with_def)
  have pd: "list_all is_digit ?p" "?p \<noteq> []" "length ?p = 8"
    using f by (auto simp: is_digit_0 list_all_iff)
  then have pv: "dec_value ?p < 100000000" using dec_value_less [of ?p] by simp
  then have parse_p: "parse_u64 ?p = Some (of_nat (dec_value ?p))"
    using parse_u64_digits [of ?p] pd by simp
  have lit: "literal_sats w f = dec_value w * 100000000 + dec_value ?p"
    by (simp add: literal_sats_def dec_value_append)
  show ?thesis
  proof (cases "dec_value w < 2 ^ 64")
    case True
    then have parse_w: "parse_u64 w = Some (of_nat (dec_value w))"
      using parse_u64_digits w by simp
    have uw: "unat (of_nat (dec_value w) :: u64) = dec_value w" using True by (simp add: unat_of_nat)
    have up: "unat (of_nat (dec_value ?p) :: u64) = dec_value ?p" using pv by (simp add: unat_of_nat)
    have mul: "checked_mul (of_nat (dec_value w)) SATS_PER_BTC =
        (if dec_value w * 100000000 < 2 ^ 64 then Some (of_nat (dec_value w * 100000000)) else None)"
      using uw by (simp add: checked_mul_def SATS_PER_BTC_def)
    have add: "checked_add (of_nat (dec_value w * 100000000)) (of_nat (dec_value ?p) :: u64) =
        (if literal_sats w f < 2 ^ 64 then Some (of_nat (literal_sats w f)) else None)"
      if "dec_value w * 100000000 < 2 ^ 64"
      using that up unat_of_nat_less [of "dec_value w * 100000000", where 'a = 64]
      by (simp add: checked_add_def lit del: of_nat_mult)
    have gt: "(of_nat (literal_sats w f) > MAX_MONEY_SATS) = (2100000000000000 < literal_sats w f)"
      if "literal_sats w f < 2 ^ 64"
      using that by (simp add: word_less_nat_alt unat_of_nat)
    have fr: "frac_padded 8 f = Some ?p" using f by (rule frac_padded_digits)
    have unfolded: "btc_str_to_sats ?s =
      (case checked_mul (of_nat (dec_value w)) SATS_PER_BTC of None \<Rightarrow> Inl Overflow
        | Some ws \<Rightarrow> (case checked_add ws (of_nat (dec_value ?p)) of None \<Rightarrow> Inl Overflow
           | Some t \<Rightarrow> if t > MAX_MONEY_SATS then Inl ExceedsMaxSupply else Inr t))"
      unfolding btc_str_to_sats_def using w(2)
      by (simp add: tr sp st parse_w fr parse_p cong: option.case_cong)
    show ?thesis
    proof (cases "dec_value w * 100000000 < 2 ^ 64")
      case False
      moreover have "2 ^ 64 \<le> literal_sats w f" using False lit by linarith
      ultimately show ?thesis using True mul by (simp add: unfolded)
    next
      case mulok: True
      then show ?thesis
        using True mul add [OF mulok] gt by (simp add: unfolded del: of_nat_mult)
    qed
  next
    case False
    then have "parse_u64 w = None" using parse_u64_digits w by simp
    with False show ?thesis using w(2) by (simp add: btc_str_to_sats_def tr sp st)
  qed
qed

lemma btc_str_to_sats_bounded:
  assumes "btc_str_to_sats s = Inr v"
  shows "unat v \<le> 2100000000000000"
proof -
  have "v \<le> MAX_MONEY_SATS"
    using assms by (auto simp: btc_str_to_sats_def Let_def split: if_splits option.splits)
  then show ?thesis by (simp add: word_le_nat_alt)
qed

text \<open>Printing a non-negative value at 8 decimals and parsing it rounds to the nearest satoshi.\<close>

lemma fixed_digits_split:
  assumes "0 < p"
  obtains w f where "fixed_digits p m = w @ ''.'' @ f" "list_all is_digit w" "w \<noteq> []"
    "list_all is_digit f" "length f = p"
    "dec_value w * 10 ^ p + dec_value f = nat (round_half_even (m * 10 ^ p))"
proof -
  let ?n = "nat (round_half_even (m * 10 ^ p))"
  let ?d = "pad_zeros (Suc p) (show_nat ?n)"
  let ?w = "take (length ?d - p) ?d" and ?f = "drop (length ?d - p) ?d"
  have len: "Suc p \<le> length ?d" by (simp add: pad_zeros_def)
  have dig: "list_all is_digit ?d" by (simp add: pad_zeros_def is_digit_0)
  then have "list_all is_digit (?w @ ?f)" by simp
  then have wf: "list_all is_digit ?w" "list_all is_digit ?f" by (simp_all only: list_all_append)
  have "dec_value ?d = ?n" by (simp add: pad_zeros_def dec_value_append)
  then have "dec_value (?w @ ?f) = ?n" by (simp only: append_take_drop_id)
  moreover have lf: "length ?f = p" using len by simp
  ultimately have "dec_value ?w * 10 ^ p + dec_value ?f = ?n"
    by (simp only: dec_value_append)
  moreover have "?w \<noteq> []" using len by (auto simp del: length_greater_0_conv)
  moreover have "fixed_digits p m = ?w @ ''.'' @ ?f" using assms by (simp add: fixed_digits_def Let_def)
  ultimately show ?thesis using that wf lf by blast
qed

text \<open>
  C40. A float amount between zero and the supply becomes the nearest number of satoshis, ties to
  even: printing eight decimals and parsing them exactly loses nothing else.
\<close>

theorem safe_btc_f64_to_sats_rounds:
  assumes "0 \<le> q" "q \<le> 21000000"
  shows "safe_btc_f64_to_sats (Finite False q) = Inr (of_int (round_half_even (q * 10 ^ 8)))"
proof -
  let ?n = "round_half_even (q * 10 ^ 8)"
  obtain w f where wf: "fixed_digits 8 q = w @ ''.'' @ f" "list_all is_digit w" "w \<noteq> []"
    "list_all is_digit f" "length f = 8" "dec_value w * 10 ^ 8 + dec_value f = nat ?n"
    by (rule fixed_digits_split [of 8 q]) simp_all
  have "?n \<le> 2100000000000000" using assms by (intro round_half_even_le) simp
  moreover have "0 \<le> ?n" using assms by (intro round_half_even_ge) simp
  ultimately have n: "nat ?n \<le> 2100000000000000" "of_nat (nat ?n) = (of_int ?n :: u64)"
    by (simp_all add: nat_le_iff)
  have lit: "literal_sats w f = nat ?n" using wf(5,6) by (simp add: literal_sats_def)
  moreover have "dec_value w < 2 ^ 64" using n(1) wf(6) by simp
  ultimately have "btc_str_to_sats (w @ ''.'' @ f) = Inr (of_nat (nat ?n))"
    using btc_str_to_sats_literal [of w f] wf n(1) by simp
  then show ?thesis
    using assms n(2) wf(1) by (simp add: safe_btc_f64_to_sats_def f64_lit_numeral sval_def)
qed

theorem safe_btc_f64_to_sats_rounds_witness:
  "safe_btc_f64_to_sats (Finite False (1 / 2)) = Inr 50000000"
proof -
  have "round_half_even (1 / 2 * 10 ^ 8) = 50000000"
    using round_half_even_int [of 50000000] by simp
  then show ?thesis using safe_btc_f64_to_sats_rounds [of "1 / 2"] by simp
qed

text \<open>
  C39. A decimal literal with at most eight fraction digits is converted exactly, and otherwise
  rejected with the error of the first check it fails: a whole part beyond 64 bits, an overflow of
  the satoshi value, or a value above the supply.
\<close>

theorem btc_str_to_sats_exact:
  assumes "list_all is_digit w" "w \<noteq> []" "list_all is_digit f" "length f \<le> 8"
  shows "btc_str_to_sats (w @ ''.'' @ f) =
     (if 2 ^ 64 \<le> dec_value w then Inl (InvalidDecimal ''invalid whole part'')
      else if 2 ^ 64 \<le> literal_sats w f then Inl Overflow
      else if 2100000000000000 < literal_sats w f then Inl ExceedsMaxSupply
      else Inr (of_nat (literal_sats w f)))"
  using assms by (rule btc_str_to_sats_literal)

theorem btc_str_to_sats_exact_witness:
  "btc_str_to_sats ''0.00000001'' = Inr 1 \<and>
   btc_str_to_sats ''21000000.1'' = Inl ExceedsMaxSupply"
  using btc_str_to_sats_exact [of "''0''" "''00000001''"]
    btc_str_to_sats_exact [of "''21000000''" "''1''"]
  by (simp add: is_digit_def literal_sats_def dec_value_def digit_val_def)

section \<open>Coin age, fee rate and virtual size\<close>

lemma unat_calculate_satoshi_days:
  "unat (calculate_satoshi_days v d) = unat v * unat d"
proof -
  have "unat v < 2 ^ 64" "unat d < 2 ^ 64"
    using unsigned_less [of v, where 'a = nat] unsigned_less [of d, where 'a = nat] by simp_all
  then have "unat v * unat d < 2 ^ 64 * 2 ^ 64" by (intro mult_strict_mono) auto
  moreover have "unat (ucast v :: u128) = unat v" "unat (ucast d :: u128) = unat d"
    by (simp_all add: unsigned_ucast_eq take_bit_nat_eq_self)
      (use \<open>unat v < 2 ^ 64\<close> \<open>unat d < 2 ^ 64\<close> in \<open>simp_all add: take_bit_nat_eq_self\<close>)
  ultimately show ?thesis by (simp add: calculate_satoshi_days_def unat_word_ariths)
qed

lemma unat_vsize: "unat (calculate_vsize_from_weight w) = (unat w + 3) div 4"
proof -
  have "unat w < 2 ^ 64" using unsigned_less [of w, where 'a = nat] by simp
  then have "Suc (unat w div 4) < 2 ^ 64" by simp
  then show ?thesis
    by (auto simp: calculate_vsize_from_weight_def div_ceil_def unat_word_ariths unat_div
        unat_mod word_less_nat_alt) presburger+
qed

lemma calculate_fee_rate_Some:
  assumes "vsize \<noteq> 0"
  shows "calculate_fee_rate_sat_vb fee vsize =
     Some (Finite False (round_mag (round_mag (of_nat (unat fee)) / round_mag (of_nat (unat vsize)))))"
proof -
  have b: "unat w \<le> 2 ^ 64" for w :: u64 using unsigned_less [of w, where 'a = nat] by simp
  have "0 < unat vsize" using assms by (simp add: unat_gt_0)
  then show ?thesis
    using f64_div_nat [OF b b, of vsize fee] assms
    by (simp add: calculate_fee_rate_sat_vb_def sval_def not_less)
qed

text \<open>
  The virtual size is the exact ceiling of a quarter of the weight, and a fee rate exists
  exactly for a non-zero virtual size and is then a finite non-negative number: no cast, division
  or comparison of the float path can lose it.
\<close>

theorem fee_rate_and_vsize:
  "unat (calculate_vsize_from_weight weight) = (unat weight + 3) div 4
   \<and> (calculate_fee_rate_sat_vb fee vsize = None \<longleftrightarrow> vsize = 0)
   \<and> (case calculate_fee_rate_sat_vb fee vsize of None \<Rightarrow> True
      | Some r \<Rightarrow> is_finite r \<and> f64_le (f64_lit 0) r)"
  by (cases "vsize = 0")
    (simp_all add: unat_vsize calculate_fee_rate_Some sval_def, simp add: calculate_fee_rate_sat_vb_def)

end
