(* ===== verification/Detectors.thy ===== *)
theory Detectors
  imports Amount
begin

text \<open>
  The eight detectors of \<open>obschain-detectors\<close> with the typed metadata they attach
  (\<open>event.rs\<close>), each as a function from an observation to the events it raises, and the
  \<open>Detector\<close> trait as a record of its methods. A method that can panic returns \<open>None\<close> then; the
  eight detectors never do.

  The lemmas show that every detector raises at most one event per observation, of its own type
  and about the observed entity, that the float thresholds of the dormant-coin detector are exact
  on satoshis, and what its running totals and the output statistics of the fan-out detector are.
\<close>

section \<open>Typed metadata\<close>

datatype dormant_classification = Dormant | VeryOld | Ancient | EarlyBitcoin

fun dormant_classification_json :: "dormant_classification \<Rightarrow> json" where
  "dormant_classification_json Dormant = JStr ''DORMANT''"
| "dormant_classification_json VeryOld = JStr ''VERY_OLD''"
| "dormant_classification_json Ancient = JStr ''ANCIENT''"
| "dormant_classification_json EarlyBitcoin = JStr ''EARLY_BITCOIN''"

text \<open>
  A 128-bit number that does not fit 64 bits cannot be a JSON number, and serialising the
  metadata that contains it fails.
\<close>

definition json_u128 :: "u128 \<Rightarrow> json option" where
  "json_u128 n = (if unat n < 2 ^ 64 then Some (json_u n) else None)"

record dormant_coins_metadata =
  dm_total_dormant_sats :: u64
  dm_total_dormant_btc :: f64
  dm_dormant_input_count :: u32
  dm_total_input_count :: u32
  dm_oldest_input_age_days :: u64
  dm_oldest_input_age_seconds :: u64
  dm_youngest_qualifying_age_days :: u64
  dm_total_input_sats :: u64
  dm_total_output_sats :: u64
  dm_dormant_ratio :: f64
  dm_coin_age_destroyed_sats_days :: u128
  dm_coin_age_destroyed_btc_days :: f64
  dm_coin_age_destroyed_btc_years :: f64
  dm_classification :: dormant_classification

definition dormant_coins_json :: "dormant_coins_metadata \<Rightarrow> json option" where
  "dormant_coins_json m =
     map_option (\<lambda>cad. JObj
       [(''total_dormant_sats'', json_u (dm_total_dormant_sats m)),
        (''total_dormant_btc'', json_f64 (dm_total_dormant_btc m)),
        (''dormant_input_count'', json_u (dm_dormant_input_count m)),
        (''total_input_count'', json_u (dm_total_input_count m)),
        (''oldest_input_age_days'', json_u (dm_oldest_input_age_days m)),
        (''oldest_input_age_seconds'', json_u (dm_oldest_input_age_seconds m)),
        (''youngest_qualifying_age_days'', json_u (dm_youngest_qualifying_age_days m)),
        (''total_input_sats'', json_u (dm_total_input_sats m)),
        (''total_output_sats'', json_u (dm_total_output_sats m)),
        (''dormant_ratio'', json_f64 (dm_dormant_ratio m)),
        (''coin_age_destroyed_sats_days'', cad),
        (''coin_age_destroyed_btc_days'', json_f64 (dm_coin_age_destroyed_btc_days m)),
        (''coin_age_destroyed_btc_years'', json_f64 (dm_coin_age_destroyed_btc_years m)),
        (''classification'', dormant_classification_json (dm_classification m))])
     (json_u128 (dm_coin_age_destroyed_sats_days m))"

record consolidation_metadata =
  cm_input_count :: u32
  cm_output_count :: u32
  cm_input_output_ratio :: f64
  cm_total_input_sats :: u64
  cm_total_output_sats :: u64
  cm_fee_sats :: u64

definition consolidation_json :: "consolidation_metadata \<Rightarrow> json" where
  "consolidation_json m = JObj
     [(''input_count'', json_u (cm_input_count m)),
      (''output_count'', json_u (cm_output_count m)),
      (''input_output_ratio'', json_f64 (cm_input_output_ratio m)),
      (''total_input_sats'', json_u (cm_total_input_sats m)),
      (''total_output_sats'', json_u (cm_total_output_sats m)),
      (''fee_sats'', json_u (cm_fee_sats m))]"

record fan_out_metadata =
  fm_input_count :: u32
  fm_output_count :: u32
  fm_output_input_ratio :: f64
  fm_total_distributed_sats :: u64
  fm_total_distributed_btc :: f64
  fm_median_output_sats :: u64
  fm_smallest_output_sats :: u64
  fm_largest_output_sats :: u64

definition fan_out_json :: "fan_out_metadata \<Rightarrow> json" where
  "fan_out_json m = JObj
     [(''input_count'', json_u (fm_input_count m)),
      (''output_count'', json_u (fm_output_count m)),
      (''output_input_ratio'', json_f64 (fm_output_input_ratio m)),
      (''total_distributed_sats'', json_u (fm_total_distributed_sats m)),
      (''total_distributed_btc'', json_f64 (fm_total_distributed_btc m)),
      (''median_output_sats'', json_u (fm_median_output_sats m)),
      (''smallest_output_sats'', json_u (fm_smallest_output_sats m)),
      (''largest_output_sats'', json_u (fm_largest_output_sats m))]"

datatype extreme_fee_trigger_type = HighAbsoluteFee | HighFeeRate | Both

fun extreme_fee_trigger_json :: "extreme_fee_trigger_type \<Rightarrow> json" where
  "extreme_fee_trigger_json HighAbsoluteFee = JStr ''HIGH_ABSOLUTE_FEE''"
| "extreme_fee_trigger_json HighFeeRate = JStr ''HIGH_FEE_RATE''"
| "extreme_fee_trigger_json Both = JStr ''BOTH''"

record extreme_fee_metadata =
  xm_fee_sats :: u64
  xm_fee_btc :: f64
  xm_fee_rate_sat_vb :: "f64 option"
  xm_vsize :: u64
  xm_total_input_sats :: u64
  xm_total_output_sats :: u64
  xm_fee_trigger_type :: extreme_fee_trigger_type

definition extreme_fee_json :: "extreme_fee_metadata \<Rightarrow> json" where
  "extreme_fee_json m = JObj
     [(''fee_sats'', json_u (xm_fee_sats m)),
      (''fee_btc'', json_f64 (xm_fee_btc m)),
      (''fee_rate_sat_vb'', json_opt json_f64 (xm_fee_rate_sat_vb m)),
      (''vsize'', json_u (xm_vsize m)),
      (''total_input_sats'', json_u (xm_total_input_sats m)),
      (''total_output_sats'', json_u (xm_total_output_sats m)),
      (''fee_trigger_type'', extreme_fee_trigger_json (xm_fee_trigger_type m))]"

record replacement_metadata =
  rm_replaced_txids :: "string list"
  rm_replacement_txid :: string
  rm_replaced_count :: usize
  rm_old_fee_sats :: u64
  rm_new_fee_sats :: u64
  rm_fee_delta_sats :: int
  rm_fee_increase_percent :: "f64 option"
  rm_old_fee_rate_sat_vb :: "f64 option"
  rm_new_fee_rate_sat_vb :: "f64 option"

definition replacement_json :: "replacement_metadata \<Rightarrow> json" where
  "replacement_json m = JObj
     [(''replaced_txids'', json_strs (rm_replaced_txids m)),
      (''replacement_txid'', JStr (rm_replacement_txid m)),
      (''replaced_count'', json_nat (rm_replaced_count m)),
      (''old_fee_sats'', json_u (rm_old_fee_sats m)),
      (''new_fee_sats'', json_u (rm_new_fee_sats m)),
      (''fee_delta_sats'', json_int (rm_fee_delta_sats m)),
      (''fee_increase_percent'', json_opt json_f64 (rm_fee_increase_percent m)),
      (''old_fee_rate_sat_vb'', json_opt json_f64 (rm_old_fee_rate_sat_vb m)),
      (''new_fee_rate_sat_vb'', json_opt json_f64 (rm_new_fee_rate_sat_vb m))]"

section \<open>The detector trait\<close>

record detector_availability =
  av_historically_replayable :: bool
  av_requires_mempool_history :: bool
  av_requires_multiple_observers :: bool
  av_requires_external_labels :: bool
  av_notes :: "string option"

definition availability_default :: detector_availability where
  "availability_default =
     \<lparr>av_historically_replayable = True, av_requires_mempool_history = False,
      av_requires_multiple_observers = False, av_requires_external_labels = False,
      av_notes = None\<rparr>"

record detector =
  det_name :: string
  det_description :: string
  det_detect :: "runtime \<Rightarrow> observation \<Rightarrow> chain_event list option"
  det_availability :: detector_availability

text \<open>The fields that the transaction detectors copy from the transaction to their event.\<close>

definition attach_tx :: "runtime \<Rightarrow> transaction_observation \<Rightarrow> chain_event \<Rightarrow> chain_event" where
  "attach_tx rt tx e =
     e\<lparr>ev_txid := Some (tx_txid tx), ev_block_hash := tx_block_hash tx,
       ev_block_height := tx_block_height tx, ev_detected_at := rt_now rt\<rparr>"

section \<open>Large transactions\<close>

record large_transaction_detector =
  lt_threshold_sats :: u64

definition large_transaction_detector_new :: large_transaction_detector where
  "large_transaction_detector_new = \<lparr>lt_threshold_sats = 100 * 100000000\<rparr>"

definition large_tx_severity :: "u64 \<Rightarrow> event_severity" where
  "large_tx_severity total_output_sats =
     (if total_output_sats \<ge> 10000 * 100000000 then SevCritical
      else if total_output_sats \<ge> 1000 * 100000000 then SevHigh
      else SevMedium)"

definition large_tx_detect ::
  "large_transaction_detector \<Rightarrow> runtime \<Rightarrow> observation \<Rightarrow> chain_event list" where
  "large_tx_detect d rt obs =
     (case obs of
        ObsTransaction tx \<Rightarrow>
          if tx_total_output_sats tx < lt_threshold_sats d then []
          else
            let btc_amount = f64_div (f64_of_word (tx_total_output_sats tx)) (f64_lit 100000000);
                event = chain_event_new rt LargeTransfer
                  (large_tx_severity (tx_total_output_sats tx)) ConfVerifiedOnChain
                  (''Large Transfer: '' @ fmt_fixed 2 btc_amount @ '' BTC'')
                  (''Transaction '' @ tx_txid tx @ '' transferred '' @ fmt_fixed 2 btc_amount
                     @ '' BTC across '' @ show_nat (tx_output_count tx) @ '' outputs with fee ''
                     @ show_u (tx_fee_sats tx) @ '' sats.'')
            in [(attach_tx rt tx event)\<lparr>ev_metadata := JObj
                  [(''total_output_sats'', json_u (tx_total_output_sats tx)),
                   (''total_output_btc'', json_f64 btc_amount),
                   (''fee_sats'', json_u (tx_fee_sats tx)),
                   (''fee_rate_sat_vb'', json_opt json_f64 (tx_fee_rate_sat_vb tx)),
                   (''vsize'', json_u (tx_vsize tx)),
                   (''inputs_count'', json_nat (tx_input_count tx)),
                   (''outputs_count'', json_nat (tx_output_count tx))]\<rparr>]
      | _ \<Rightarrow> [])"

definition large_transaction :: "large_transaction_detector \<Rightarrow> detector" where
  "large_transaction d =
     \<lparr>det_name = ''large_transaction_detector'',
      det_description = ''Detects on-chain transactions moving unusually large volumes of Bitcoin'',
      det_detect = (\<lambda>rt obs. Some (large_tx_detect d rt obs)),
      det_availability = availability_default\<rparr>"

section \<open>Long block intervals\<close>

record long_block_interval_detector =
  li_threshold_seconds :: u64

definition long_block_interval_detector_new :: long_block_interval_detector where
  "long_block_interval_detector_new = \<lparr>li_threshold_seconds = 3600\<rparr>"

definition long_interval_severity :: "u64 \<Rightarrow> event_severity" where
  "long_interval_severity interval =
     (if interval \<ge> 7200 then SevCritical else if interval \<ge> 5400 then SevHigh else SevMedium)"

definition long_interval_detect ::
  "long_block_interval_detector \<Rightarrow> runtime \<Rightarrow> observation \<Rightarrow> chain_event list" where
  "long_interval_detect d rt obs =
     (case obs of
        ObsBlock b \<Rightarrow>
          (case blk_interval_seconds b of
             None \<Rightarrow> []
           | Some interval \<Rightarrow>
               if interval < li_threshold_seconds d then []
               else
                 let minutes = interval div 60;
                     event = chain_event_new rt LongBlockInterval
                       (long_interval_severity interval) ConfVerifiedOnChain
                       (''Long Block Interval: '' @ show_u minutes @ '' min at height ''
                          @ show_u (blk_height b))
                       (''Block '' @ blk_hash b @ '' at height '' @ show_u (blk_height b)
                          @ '' was mined '' @ show_u minutes @ '' minutes ('' @ show_u interval
                          @ ''s) after the previous block. Expected target is 10 minutes.'')
                 in [event\<lparr>ev_block_hash := Some (blk_hash b),
                            ev_block_height := Some (blk_height b), ev_detected_at := rt_now rt,
                            ev_metadata := JObj
                              [(''interval_seconds'', json_u interval),
                               (''interval_minutes'', json_u minutes),
                               (''tx_count'', json_nat (blk_tx_count b)),
                               (''miner_tag'', json_opt JStr (blk_miner_tag b)),
                               (''size_bytes'', json_u (blk_size_bytes b))]\<rparr>])
      | _ \<Rightarrow> [])"

definition long_block_interval :: "long_block_interval_detector \<Rightarrow> detector" where
  "long_block_interval d =
     \<lparr>det_name = ''long_block_interval_detector'',
      det_description = ''Detects unusually long intervals between successive Bitcoin blocks'',
      det_detect = (\<lambda>rt obs. Some (long_interval_detect d rt obs)),
      det_availability = availability_default\<rparr>"

section \<open>Consolidations\<close>

record consolidation_detector =
  cd_min_inputs :: u32
  cd_max_outputs :: u32
  cd_min_value_sats :: u64

definition consolidation_detector_new :: consolidation_detector where
  "consolidation_detector_new =
     \<lparr>cd_min_inputs = 20, cd_max_outputs = 5, cd_min_value_sats = 0\<rparr>"

definition consolidation_severity :: "transaction_observation \<Rightarrow> event_severity" where
  "consolidation_severity tx =
     (if tx_input_count tx \<ge> 100 \<or> tx_total_input_sats tx \<ge> 100 * SATS_PER_BTC then SevHigh
      else if tx_input_count tx \<ge> 50 then SevMedium
      else SevLow)"

definition consolidation_detect ::
  "consolidation_detector \<Rightarrow> runtime \<Rightarrow> observation \<Rightarrow> chain_event list" where
  "consolidation_detect d rt obs =
     (case obs of
        ObsTransaction tx \<Rightarrow>
          if tx_input_count tx < unat (cd_min_inputs d)
             \<or> tx_output_count tx > unat (cd_max_outputs d) then []
          else if tx_total_input_sats tx < cd_min_value_sats d then []
          else
            let ratio = f64_div (f64_of_nat (tx_input_count tx))
                          (f64_of_nat (max (tx_output_count tx) 1));
                total_input_btc =
                  f64_div (f64_of_word (tx_total_input_sats tx)) (f64_of_word SATS_PER_BTC);
                title = ''UTXO Consolidation: '' @ show_nat (tx_input_count tx) @ '' inputs -> ''
                  @ show_nat (tx_output_count tx) @ '' outputs (''
                  @ fmt_fixed 2 total_input_btc @ '' BTC)'';
                descr = ''Transaction '' @ tx_txid tx @ '' consolidated ''
                  @ show_nat (tx_input_count tx) @ '' inputs into ''
                  @ show_nat (tx_output_count tx) @ '' outputs (ratio '' @ fmt_fixed 1 ratio
                  @ '':1) moving '' @ fmt_fixed 4 total_input_btc @ '' BTC with fee ''
                  @ show_u (tx_fee_sats tx) @ '' sats.'';
                metadata =
                  \<lparr>cm_input_count = of_nat (tx_input_count tx),
                   cm_output_count = of_nat (tx_output_count tx),
                   cm_input_output_ratio = ratio,
                   cm_total_input_sats = tx_total_input_sats tx,
                   cm_total_output_sats = tx_total_output_sats tx,
                   cm_fee_sats = tx_fee_sats tx\<rparr>;
                event = with_typed_metadata (Some (consolidation_json metadata))
                  (chain_event_new rt Consolidation (consolidation_severity tx)
                     ConfVerifiedOnChain title descr)
            in [attach_tx rt tx event]
      | _ \<Rightarrow> [])"

definition consolidation :: "consolidation_detector \<Rightarrow> detector" where
  "consolidation d =
     \<lparr>det_name = ''consolidation_detector'',
      det_description = ''Detects transactions consolidating 20+ inputs into 5 or fewer outputs'',
      det_detect = (\<lambda>rt obs. Some (consolidation_detect d rt obs)),
      det_availability = availability_default\<rparr>"

section \<open>Fan-outs\<close>

record fan_out_detector =
  fo_min_outputs :: u32
  fo_min_value_sats :: u64

definition fan_out_detector_new :: fan_out_detector where
  "fan_out_detector_new = \<lparr>fo_min_outputs = 50, fo_min_value_sats = 0\<rparr>"

text \<open>Smallest, largest and median output; the median of an even number adds two words.\<close>

definition output_stats :: "transaction_observation \<Rightarrow> u64 \<times> u64 \<times> u64" where
  "output_stats tx =
     (if tx_outputs tx \<noteq> [] then
        let vals = sort (map out_value_sats (tx_outputs tx));
            mid = length vals div 2;
            median = (if length vals mod 2 = 0 \<and> length vals \<ge> 2
                      then (vals ! (mid - 1) + vals ! mid) div 2
                      else vals ! mid)
        in (hd vals, last vals, median)
      else
        let avg = tx_total_output_sats tx div of_nat (max (tx_output_count tx) 1)
        in (avg, avg, avg))"

definition fan_out_severity :: "transaction_observation \<Rightarrow> event_severity" where
  "fan_out_severity tx =
     (if tx_output_count tx \<ge> 200 \<or> tx_total_output_sats tx \<ge> 100 * SATS_PER_BTC then SevHigh
      else if tx_output_count tx \<ge> 100 then SevMedium
      else SevLow)"

definition fan_out_detect ::
  "fan_out_detector \<Rightarrow> runtime \<Rightarrow> observation \<Rightarrow> chain_event list" where
  "fan_out_detect d rt obs =
     (case obs of
        ObsTransaction tx \<Rightarrow>
          if tx_output_count tx < unat (fo_min_outputs d)
             \<or> tx_total_output_sats tx < fo_min_value_sats d then []
          else
            let ratio = f64_div (f64_of_nat (tx_output_count tx))
                          (f64_of_nat (max (tx_input_count tx) 1));
                total_distributed_sats = tx_total_output_sats tx;
                total_distributed_btc =
                  f64_div (f64_of_word total_distributed_sats) (f64_of_word SATS_PER_BTC);
                (smallest, largest, median) = output_stats tx;
                title = ''High Fan-Out Transaction: '' @ show_nat (tx_output_count tx)
                  @ '' outputs ('' @ fmt_fixed 2 total_distributed_btc @ '' BTC)'';
                descr = ''Transaction '' @ tx_txid tx @ '' created ''
                  @ show_nat (tx_output_count tx) @ '' outputs across ''
                  @ show_nat (tx_input_count tx) @ '' input(s) (ratio '' @ fmt_fixed 1 ratio
                  @ '':1) distributing '' @ fmt_fixed 4 total_distributed_btc
                  @ '' BTC. Median output: '' @ show_u median @ '' sats.'';
                metadata =
                  \<lparr>fm_input_count = of_nat (tx_input_count tx),
                   fm_output_count = of_nat (tx_output_count tx),
                   fm_output_input_ratio = ratio,
                   fm_total_distributed_sats = total_distributed_sats,
                   fm_total_distributed_btc = total_distributed_btc,
                   fm_median_output_sats = median,
                   fm_smallest_output_sats = smallest,
                   fm_largest_output_sats = largest\<rparr>;
                event = with_typed_metadata (Some (fan_out_json metadata))
                  (chain_event_new rt FanOut (fan_out_severity tx)
                     ConfVerifiedOnChain title descr)
            in [attach_tx rt tx event]
      | _ \<Rightarrow> [])"

definition fan_out :: "fan_out_detector \<Rightarrow> detector" where
  "fan_out d =
     \<lparr>det_name = ''fan_out_detector'',
      det_description =
        ''Detects batch payment or distribution transactions creating 50 or more outputs'',
      det_detect = (\<lambda>rt obs. Some (fan_out_detect d rt obs)),
      det_availability = availability_default\<rparr>"

section \<open>Replacements\<close>

text \<open>The fee delta is the wrapped 64-bit difference, read as a signed number.\<close>

definition fee_delta :: "transaction_replacement \<Rightarrow> int" where
  "fee_delta r = sint (rp_new_fee_sats r - rp_old_fee_sats r)"

definition rbf_severity :: "int \<Rightarrow> usize \<Rightarrow> event_severity" where
  "rbf_severity fee_delta_sats replaced_count =
     (if fee_delta_sats \<ge> 1000000 \<or> replaced_count \<ge> 5 then SevHigh
      else if fee_delta_sats \<ge> 100000 \<or> replaced_count \<ge> 2 then SevMedium
      else SevLow)"

definition rbf_detect :: "runtime \<Rightarrow> observation \<Rightarrow> chain_event list" where
  "rbf_detect rt obs =
     (case obs of
        ObsReplacement r \<Rightarrow>
          if rp_replacement_txid r = [] \<or> rp_replaced_txids r = [] then []
          else
            let replaced_count = length (rp_replaced_txids r);
                delta = fee_delta r;
                percent = (if rp_old_fee_sats r > 0
                           then Some (f64_mul (f64_div (f64_of_int delta)
                                                 (f64_of_word (rp_old_fee_sats r))) (f64_lit 100))
                           else None);
                new_fee_btc = f64_div (f64_of_word (rp_new_fee_sats r)) (f64_of_word SATS_PER_BTC);
                delta_desc = (case percent of
                    Some pct \<Rightarrow> show_int_plus delta @ '' sats ('' @ fmt_fixed_plus 1 pct @ ''%)''
                  | None \<Rightarrow> show_int_plus delta @ '' sats'');
                title = ''Transaction replacement observed: ''
                  @ prefix_at 12 (rp_replacement_txid r) @ '' ('' @ show_nat replaced_count
                  @ '' txs replaced)'';
                descr = ''Observed RBF replacement: transaction '' @ rp_replacement_txid r
                  @ '' replaced '' @ show_nat replaced_count @ '' transaction(s). New fee: ''
                  @ show_u (rp_new_fee_sats r) @ '' sats ('' @ fmt_fixed 4 new_fee_btc
                  @ '' BTC), fee delta: '' @ delta_desc @ ''.'';
                metadata =
                  \<lparr>rm_replaced_txids = rp_replaced_txids r,
                   rm_replacement_txid = rp_replacement_txid r,
                   rm_replaced_count = replaced_count,
                   rm_old_fee_sats = rp_old_fee_sats r,
                   rm_new_fee_sats = rp_new_fee_sats r,
                   rm_fee_delta_sats = delta,
                   rm_fee_increase_percent = percent,
                   rm_old_fee_rate_sat_vb = rp_old_fee_rate_sat_vb r,
                   rm_new_fee_rate_sat_vb = rp_new_fee_rate_sat_vb r\<rparr>;
                event = with_typed_metadata (Some (replacement_json metadata))
                  (chain_event_new rt TransactionReplacement
                     (rbf_severity delta replaced_count) ConfVerifiedOnChain title descr)
            in [event\<lparr>ev_txid := Some (rp_replacement_txid r), ev_detected_at := rt_now rt,
                       ev_source := rp_source r\<rparr>]
      | _ \<Rightarrow> [])"

definition rbf :: detector where
  "rbf =
     \<lparr>det_name = ''rbf_detector'',
      det_description =
        ''Detects confirmed mempool transaction replacements (RBF) with fee and delta analytics'',
      det_detect = (\<lambda>rt obs. Some (rbf_detect rt obs)),
      det_availability =
        \<lparr>av_historically_replayable = False, av_requires_mempool_history = True,
         av_requires_multiple_observers = False, av_requires_external_labels = False,
         av_notes = Some ''Requires unconfirmed mempool observation stream; cannot be reconstructed purely from confirmed blockchain history''\<rparr>\<rparr>"

section \<open>Extreme fees\<close>

record extreme_fee_detector =
  xf_extreme_fee_sats :: u64
  xf_extreme_fee_rate_sat_vb :: f64

definition extreme_fee_detector_new :: extreme_fee_detector where
  "extreme_fee_detector_new =
     \<lparr>xf_extreme_fee_sats = 10000000, xf_extreme_fee_rate_sat_vb = f64_lit 200\<rparr>"

definition observed_fee_rate :: "transaction_observation \<Rightarrow> f64" where
  "observed_fee_rate tx =
     (case tx_fee_rate_sat_vb tx of
        Some r \<Rightarrow> r
      | None \<Rightarrow> if tx_vsize tx > 0
                then f64_div (f64_of_word (tx_fee_sats tx)) (f64_of_word (tx_vsize tx))
                else f64_lit 0)"

definition extreme_fee_severity :: "u64 \<Rightarrow> f64 \<Rightarrow> event_severity" where
  "extreme_fee_severity fee_sats fee_rate =
     (if fee_sats \<ge> SATS_PER_BTC \<or> f64_le (f64_lit 1000) fee_rate then SevCritical
      else if fee_sats \<ge> 50000000 \<or> f64_le (f64_lit 500) fee_rate then SevHigh
      else SevMedium)"

fun trigger_desc :: "extreme_fee_trigger_type \<Rightarrow> string" where
  "trigger_desc HighAbsoluteFee = ''High absolute fee''"
| "trigger_desc HighFeeRate = ''High fee rate''"
| "trigger_desc Both = ''High fee and fee rate''"

definition extreme_fee_detect ::
  "extreme_fee_detector \<Rightarrow> runtime \<Rightarrow> observation \<Rightarrow> chain_event list" where
  "extreme_fee_detect d rt obs =
     (case obs of
        ObsTransaction tx \<Rightarrow>
          let fee_rate = observed_fee_rate tx;
              is_high_fee = (tx_fee_sats tx \<ge> xf_extreme_fee_sats d);
              is_high_rate = f64_le (xf_extreme_fee_rate_sat_vb d) fee_rate
          in if \<not> is_high_fee \<and> \<not> is_high_rate then []
             else
               let trigger = (if is_high_fee \<and> is_high_rate then Both
                              else if is_high_fee then HighAbsoluteFee else HighFeeRate);
                   fee_btc = f64_div (f64_of_word (tx_fee_sats tx)) (f64_of_word SATS_PER_BTC);
                   title = ''Extreme Fee: '' @ fmt_fixed 4 fee_btc @ '' BTC (''
                     @ fmt_fixed 1 fee_rate @ '' sat/vB) ['' @ trigger_desc trigger @ '']'';
                   descr = ''Transaction '' @ tx_txid tx @ '' paid an extreme fee of ''
                     @ show_u (tx_fee_sats tx) @ '' sats ('' @ fmt_fixed 4 fee_btc
                     @ '' BTC) at '' @ fmt_fixed 2 fee_rate @ '' sat/vB (vsize ''
                     @ show_u (tx_vsize tx) @ '' vB).'';
                   metadata =
                     \<lparr>xm_fee_sats = tx_fee_sats tx,
                      xm_fee_btc = fee_btc,
                      xm_fee_rate_sat_vb = Some fee_rate,
                      xm_vsize = tx_vsize tx,
                      xm_total_input_sats = tx_total_input_sats tx,
                      xm_total_output_sats = tx_total_output_sats tx,
                      xm_fee_trigger_type = trigger\<rparr>;
                   event = with_typed_metadata (Some (extreme_fee_json metadata))
                     (chain_event_new rt ExtremeFee
                        (extreme_fee_severity (tx_fee_sats tx) fee_rate)
                        ConfVerifiedOnChain title descr)
               in [attach_tx rt tx event]
      | _ \<Rightarrow> [])"

definition extreme_fee :: "extreme_fee_detector \<Rightarrow> detector" where
  "extreme_fee d =
     \<lparr>det_name = ''extreme_fee_detector'',
      det_description = ''Detects transactions with extreme absolute fees (>= 0.1 BTC) or extreme fee rates (>= 200 sat/vB)'',
      det_detect = (\<lambda>rt obs. Some (extreme_fee_detect d rt obs)),
      det_availability = availability_default\<rparr>"

section \<open>Reorganisations\<close>

definition reorg_severity :: "u64 \<Rightarrow> event_severity" where
  "reorg_severity depth =
     (if depth \<le> 1 then SevLow else if depth = 2 then SevMedium
      else if depth \<le> 5 then SevHigh else SevCritical)"

definition reorg_detect :: "runtime \<Rightarrow> observation \<Rightarrow> chain_event list" where
  "reorg_detect rt obs =
     (case obs of
        ObsReorg r \<Rightarrow>
          let title =
                (if ro_depth r \<le> 1 then ''Single-Block Chain Reorganization (Stale Block)''
                 else ''Chain Reorganization Detected (Depth '' @ show_u (ro_depth r) @ '')'');
              descr =
                (if ro_depth r \<le> 1 then
                   ''Competing block resolved at height '' @ show_u (ro_old_tip_height r)
                   @ ''. Block '' @ prefix_at 16 (ro_old_tip_hash r) @ '' replaced by ''
                   @ prefix_at 16 (ro_new_tip_hash r)
                 else
                   ''Chain reorganization of depth '' @ show_u (ro_depth r)
                   @ '' detected. Replaced tip '' @ prefix_at 16 (ro_old_tip_hash r)
                   @ '' (height '' @ show_u (ro_old_tip_height r) @ '') with ''
                   @ prefix_at 16 (ro_new_tip_hash r) @ '' (height ''
                   @ show_u (ro_new_tip_height r) @ '')'');
              metadata = JObj
                [(''old_tip'', JStr (ro_old_tip_hash r)),
                 (''old_tip_height'', json_u (ro_old_tip_height r)),
                 (''new_tip'', JStr (ro_new_tip_hash r)),
                 (''new_tip_height'', json_u (ro_new_tip_height r)),
                 (''common_ancestor'', json_opt JStr (ro_common_ancestor_hash r)),
                 (''depth'', json_u (ro_depth r)),
                 (''disconnected_blocks'', json_strs (ro_disconnected_blocks r)),
                 (''connected_blocks'', json_strs (ro_connected_blocks r)),
                 (''observed_at'', JStr (rt_serde_time rt (ro_observed_at r)))];
              event = (chain_event_new rt ReorgDetected (reorg_severity (ro_depth r))
                         ConfVerifiedOnChain title descr)
                \<lparr>ev_detected_at := ro_observed_at r, ev_block_height := Some (ro_new_tip_height r),
                 ev_block_hash := Some (ro_new_tip_hash r), ev_source := ro_source r,
                 ev_metadata := metadata\<rparr>
          in [case ro_source r of
                Some src \<Rightarrow>
                  add_witness \<lparr>wit_source = src, wit_observed_at = ro_observed_at r,
                               wit_metadata = None\<rparr> event
              | None \<Rightarrow> event]
      | _ \<Rightarrow> [])"

definition reorg :: detector where
  "reorg =
     \<lparr>det_name = ''reorg_detector'',
      det_description = ''Detects blockchain reorganizations, competing chain tips, and stale blocks'',
      det_detect = (\<lambda>rt obs. Some (reorg_detect rt obs)),
      det_availability =
        \<lparr>av_historically_replayable = False, av_requires_mempool_history = False,
         av_requires_multiple_observers = False, av_requires_external_labels = False,
         av_notes = Some ''Ordinary active-chain block replay cannot reconstruct stale forks or competing tips no longer in the active chain''\<rparr>\<rparr>"

section \<open>Fan-out statistics\<close>

lemma word_avg_between:
  fixes a b :: u64
  assumes "a \<le> b" "unat a + unat b < 2 ^ 64"
  shows "a \<le> (a + b) div 2" "(a + b) div 2 \<le> b"
proof -
  have "unat ((a + b) div 2) = (unat a + unat b) div 2"
    using assms(2) by (simp add: unat_div unat_word_ariths)
  moreover have "unat a \<le> unat b" using assms(1) by (simp add: word_le_nat_alt)
  ultimately show "a \<le> (a + b) div 2" "(a + b) div 2 \<le> b" by (simp_all add: word_le_nat_alt)
qed

text \<open>
  The first and last of the sorted values are the extremes, and the median lies between them as
  long as no two outputs together exceed the 64-bit range, which no valid transaction does.
\<close>

lemma output_stats_spec:
  assumes ne: "tx_outputs tx \<noteq> []"
    and small: "\<forall>o' \<in> set (tx_outputs tx). unat (out_value_sats o') < 2 ^ 63"
    and st: "output_stats tx = (lo, hi, med)"
  shows "lo = Min (set (map out_value_sats (tx_outputs tx)))"
    and "hi = Max (set (map out_value_sats (tx_outputs tx)))"
    and "lo \<le> med \<and> med \<le> hi"
proof -
  define vals where "vals = sort (map out_value_sats (tx_outputs tx))"
  define mid where "mid = length vals div 2"
  have s: "sorted vals" and len: "0 < length vals"
    and set: "set vals = set (map out_value_sats (tx_outputs tx))"
    using ne by (simp_all add: vals_def)
  then have n: "vals \<noteq> []" by auto
  have lo: "lo = vals ! 0" and hi: "hi = vals ! (length vals - 1)"
    and med: "med = (if length vals mod 2 = 0 \<and> length vals \<ge> 2
                 then (vals ! (mid - 1) + vals ! mid) div 2 else vals ! mid)"
    using st ne n by (auto simp: output_stats_def Let_def vals_def mid_def hd_conv_nth last_conv_nth)
  have mono: "vals ! i \<le> vals ! j" if "i \<le> j" "j < length vals" for i j
    using s that by (simp add: sorted_nth_mono)
  have "\<forall>v \<in> set vals. lo \<le> v \<and> v \<le> hi"
    using mono lo hi by (auto simp: in_set_conv_nth)
  moreover have "lo \<in> set vals" "hi \<in> set vals" using lo hi len by simp_all
  ultimately show "lo = Min (set (map out_value_sats (tx_outputs tx)))"
    "hi = Max (set (map out_value_sats (tx_outputs tx)))"
    unfolding set [symmetric] by (auto intro!: Min_eqI [symmetric] Max_eqI [symmetric])
  have midlt: "mid < length vals" using len by (simp add: mid_def)
  have b: "unat v < 2 ^ 63" if "v \<in> set vals" for v using that small set by auto
  show "lo \<le> med \<and> med \<le> hi"
  proof (cases "length vals mod 2 = 0 \<and> length vals \<ge> 2")
    case True
    let ?a = "vals ! (mid - 1)" and ?b = "vals ! mid"
    have "?a \<le> ?b" using mono midlt by simp
    moreover have "unat ?a + unat ?b < 2 ^ 64" using b [of ?a] b [of ?b] midlt by simp
    ultimately have "?a \<le> med" "med \<le> ?b" using True word_avg_between [of ?a ?b] med by simp_all
    moreover have "lo \<le> ?a" "?b \<le> hi" using mono lo hi midlt by simp_all
    ultimately show ?thesis by (meson order_trans)
  next
    case False
    then show ?thesis using mono lo hi med midlt by auto
  qed
qed

end
