(* ===== verification/Dormant_Coins.thy ===== *)
theory Dormant_Coins
  imports Detectors
begin

text \<open>
  The dormant-coin detector (\<open>dormant.rs\<close>): the age of each spent output, the classification, the
  severity, and the pass over the inputs that accumulates the qualifying value and coin age.
  The lemmas characterise the accumulators as saturated sums over the qualifying inputs and show
  that the severity, computed in floating point, agrees with integer thresholds in satoshis.
\<close>

section \<open>Definitions\<close>

definition EARLY_BITCOIN_TIMESTAMP_CUTOFF_SECS :: int where
  "EARLY_BITCOIN_TIMESTAMP_CUTOFF_SECS = 1293840000"

definition EARLY_BITCOIN_BLOCK_HEIGHT_CUTOFF :: u64 where
  "EARLY_BITCOIN_BLOCK_HEIGHT_CUTOFF = 100000"

record dormant_coin_detector =
  dc_min_age_days :: u64
  dc_min_value_sats :: u64

definition dormant_coin_detector_new :: dormant_coin_detector where
  "dormant_coin_detector_new = \<lparr>dc_min_age_days = 1825, dc_min_value_sats = SATS_PER_BTC\<rparr>"

definition classify :: "u64 \<Rightarrow> datetime option \<Rightarrow> u64 option \<Rightarrow> dormant_classification" where
  "classify oldest_age_days confirmed_at confirmed_height =
     (if (case confirmed_height of None \<Rightarrow> False
          | Some h \<Rightarrow> h \<le> EARLY_BITCOIN_BLOCK_HEIGHT_CUTOFF) then EarlyBitcoin
      else if (case confirmed_at of None \<Rightarrow> False
          | Some ts \<Rightarrow> timestamp_secs ts < EARLY_BITCOIN_TIMESTAMP_CUTOFF_SECS) then EarlyBitcoin
      else if oldest_age_days \<ge> 5475 then Ancient
      else if oldest_age_days \<ge> 3650 then VeryOld
      else Dormant)"

definition determine_severity :: "dormant_classification \<Rightarrow> u64 \<Rightarrow> event_severity" where
  "determine_severity cls total_dormant_sats =
     (let dormant_btc = f64_div (f64_of_word total_dormant_sats) (f64_of_word SATS_PER_BTC)
      in case cls of
           EarlyBitcoin \<Rightarrow>
             if f64_le (f64_lit 50) dormant_btc then SevCritical
             else if f64_le (f64_lit 1) dormant_btc then SevHigh
             else SevMedium
         | Ancient \<Rightarrow>
             if f64_le (f64_lit 100) dormant_btc then SevCritical
             else if f64_le (f64_lit 10) dormant_btc then SevHigh
             else SevMedium
         | VeryOld \<Rightarrow>
             if f64_le (f64_lit 200) dormant_btc then SevCritical
             else if f64_le (f64_lit 50) dormant_btc then SevHigh
             else if f64_le (f64_lit 5) dormant_btc then SevMedium
             else SevLow
         | Dormant \<Rightarrow>
             if f64_le (f64_lit 500) dormant_btc then SevCritical
             else if f64_le (f64_lit 100) dormant_btc then SevHigh
             else if f64_le (f64_lit 10) dormant_btc then SevMedium
             else SevLow)"

text \<open>
  The age of a spent output: from its confirmation time when known, otherwise from the block
  distance at ten minutes a block, otherwise zero.
\<close>

definition utxo_age_secs :: "transaction_observation \<Rightarrow> spent_output_context \<Rightarrow> u64" where
  "utxo_age_secs tx utxo =
     (case soc_confirmed_at utxo of
        Some confirmed_at \<Rightarrow> of_int (max (num_seconds (tx_timestamp tx - confirmed_at)) 0)
      | None \<Rightarrow>
          (case soc_confirmed_height utxo of
             Some confirmed_height \<Rightarrow>
               (case tx_block_height tx of
                  Some tx_height \<Rightarrow>
                    if tx_height > confirmed_height then (tx_height - confirmed_height) * 600 else 0
                | None \<Rightarrow> 0)
           | None \<Rightarrow> 0))"

record dormant_acc =
  da_count :: u32
  da_total :: u64
  da_oldest :: u64
  da_youngest :: u64
  da_coin_age :: u128
  da_oldest_at :: "datetime option"
  da_oldest_height :: "u64 option"

definition dormant_init :: dormant_acc where
  "dormant_init =
     \<lparr>da_count = 0, da_total = 0, da_oldest = 0, da_youngest = - 1, da_coin_age = 0,
      da_oldest_at = None, da_oldest_height = None\<rparr>"

definition dormant_step ::
  "dormant_coin_detector \<Rightarrow> transaction_observation \<Rightarrow> dormant_acc \<Rightarrow> tx_input_observation
     \<Rightarrow> dormant_acc" where
  "dormant_step d tx acc inp =
     (case in_historical_utxo inp of
        None \<Rightarrow> acc
      | Some utxo \<Rightarrow>
          let age_secs = utxo_age_secs tx utxo; age_days = age_secs div 86400
          in if age_days < dc_min_age_days d then acc
             else
               let older = age_secs > da_oldest acc
               in \<lparr>da_count = da_count acc + 1,
                   da_total = saturating_add (da_total acc) (soc_value_sats utxo),
                   da_oldest = (if older then age_secs else da_oldest acc),
                   da_youngest = (if age_secs < da_youngest acc then age_secs else da_youngest acc),
                   da_coin_age = saturating_add (da_coin_age acc)
                     (calculate_satoshi_days (soc_value_sats utxo) age_days),
                   da_oldest_at = (if older then soc_confirmed_at utxo else da_oldest_at acc),
                   da_oldest_height =
                     (if older then soc_confirmed_height utxo else da_oldest_height acc)\<rparr>)"

definition dormant_scan :: "dormant_coin_detector \<Rightarrow> transaction_observation \<Rightarrow> dormant_acc" where
  "dormant_scan d tx = foldl (dormant_step d tx) dormant_init (tx_inputs tx)"

fun class_label :: "dormant_classification \<Rightarrow> string" where
  "class_label EarlyBitcoin = ''Early Bitcoin Era''"
| "class_label Ancient = ''Ancient (15+ Years)''"
| "class_label VeryOld = ''Very Old (10+ Years)''"
| "class_label Dormant = ''Dormant (5+ Years)''"

definition dormant_detect ::
  "dormant_coin_detector \<Rightarrow> runtime \<Rightarrow> observation \<Rightarrow> chain_event list" where
  "dormant_detect d rt obs =
     (case obs of
        ObsTransaction tx \<Rightarrow>
          let acc = dormant_scan d tx
          in if da_count acc = 0 \<or> da_total acc < dc_min_value_sats d then []
             else
               let oldest_age_days = da_oldest acc div 86400;
                   youngest_qualifying_age_days = da_youngest acc div 86400;
                   cls = classify oldest_age_days (da_oldest_at acc) (da_oldest_height acc);
                   total_dormant_btc = f64_div (f64_of_word (da_total acc)) (f64_of_word SATS_PER_BTC);
                   ratio = (if tx_total_input_sats tx > 0
                            then f64_div (f64_of_word (da_total acc))
                                   (f64_of_word (tx_total_input_sats tx))
                            else f64_lit 1);
                   btc_days = satoshi_days_to_btc_days (da_coin_age acc);
                   btc_years = f64_div btc_days (f64_lit (36525 / 100));
                   title = ''Dormant Coins Moved: '' @ fmt_fixed 2 total_dormant_btc @ '' BTC (''
                     @ class_label cls @ '')'';
                   descr = ''Transaction '' @ tx_txid tx @ '' moved ''
                     @ fmt_fixed 4 total_dormant_btc @ '' BTC dormant for ''
                     @ show_u oldest_age_days @ '' days (oldest UTXO) across ''
                     @ show_u (da_count acc) @ '' input(s). Destroyed ''
                     @ show_u (da_coin_age acc) @ '' satoshi-days ('' @ fmt_fixed 2 btc_years
                     @ '' BTC-years).'';
                   metadata =
                     \<lparr>dm_total_dormant_sats = da_total acc,
                      dm_total_dormant_btc = total_dormant_btc,
                      dm_dormant_input_count = da_count acc,
                      dm_total_input_count = of_nat (tx_input_count tx),
                      dm_oldest_input_age_days = oldest_age_days,
                      dm_oldest_input_age_seconds = da_oldest acc,
                      dm_youngest_qualifying_age_days = youngest_qualifying_age_days,
                      dm_total_input_sats = tx_total_input_sats tx,
                      dm_total_output_sats = tx_total_output_sats tx,
                      dm_dormant_ratio = ratio,
                      dm_coin_age_destroyed_sats_days = da_coin_age acc,
                      dm_coin_age_destroyed_btc_days = btc_days,
                      dm_coin_age_destroyed_btc_years = btc_years,
                      dm_classification = cls\<rparr>;
                   event = with_typed_metadata (dormant_coins_json metadata)
                     (chain_event_new rt DormantCoinsMoved
                        (determine_severity cls (da_total acc)) ConfVerifiedOnChain title descr)
               in [attach_tx rt tx event]
      | _ \<Rightarrow> [])"

definition dormant_coin :: "dormant_coin_detector \<Rightarrow> detector" where
  "dormant_coin d =
     \<lparr>det_name = ''dormant_coin_detector'',
      det_description = ''Detects transactions spending Bitcoin UTXOs dormant for 5+ years based on historical confirmation'',
      det_detect = (\<lambda>rt obs. Some (dormant_detect d rt obs)),
      det_availability = availability_default\<rparr>"

section \<open>Severity thresholds are exact\<close>

text \<open>The intended thresholds, in satoshis: critical, high and, for the younger classes, medium.\<close>

fun severity_table :: "dormant_classification \<Rightarrow> nat \<times> nat \<times> nat" where
  "severity_table EarlyBitcoin = (5000000000, 100000000, 0)"
| "severity_table Ancient = (10000000000, 1000000000, 0)"
| "severity_table VeryOld = (20000000000, 5000000000, 500000000)"
| "severity_table Dormant = (50000000000, 10000000000, 1000000000)"

definition severity_spec :: "dormant_classification \<Rightarrow> nat \<Rightarrow> event_severity" where
  "severity_spec cls sats =
     (case severity_table cls of (crit, high, medium) \<Rightarrow>
        if crit \<le> sats then SevCritical else if high \<le> sats then SevHigh
        else if medium \<le> sats then SevMedium else SevLow)"

lemma dormant_btc_ge:
  fixes w :: u64
  assumes "0 < t" "t \<le> 2 ^ 25"
  shows "f64_le (f64_lit (of_nat t)) (f64_div (f64_of_word w) (f64_of_word SATS_PER_BTC)) \<longleftrightarrow>
    t * 100000000 \<le> unat w"
  using sats_f64_ge [of "unat w" t] assms unsigned_less [of w, where 'a = nat]
  by (simp add: sats_f64_def f64_of_nat_def)

lemma determine_severity_exact:
  "determine_severity cls w = severity_spec cls (unat w)"
  using dormant_btc_ge [of 50 w] dormant_btc_ge [of 1 w] dormant_btc_ge [of 100 w]
    dormant_btc_ge [of 10 w] dormant_btc_ge [of 200 w] dormant_btc_ge [of 5 w]
    dormant_btc_ge [of 500 w]
  by (cases cls) (simp_all add: determine_severity_def severity_spec_def)

lemma severity_spec_mono: "m \<le> n \<Longrightarrow> severity_spec cls m \<le> severity_spec cls n"
  by (cases cls) (auto simp: severity_spec_def less_eq_event_severity_def)

section \<open>The accumulated totals\<close>

definition qualifying ::
  "dormant_coin_detector \<Rightarrow> transaction_observation \<Rightarrow> tx_input_observation list
     \<Rightarrow> spent_output_context list" where
  "qualifying d tx inps =
     filter (\<lambda>u. dc_min_age_days d \<le> utxo_age_secs tx u div 86400)
       (List.map_filter in_historical_utxo inps)"

lemma qualifying_snoc:
  "qualifying d tx (inps @ [i]) = qualifying d tx inps @
     (case in_historical_utxo i of None \<Rightarrow> []
      | Some u \<Rightarrow> if dc_min_age_days d \<le> utxo_age_secs tx u div 86400 then [u] else [])"
  by (simp add: qualifying_def map_filter_def split: option.split)

definition coin_days :: "transaction_observation \<Rightarrow> spent_output_context \<Rightarrow> nat" where
  "coin_days tx u = unat (soc_value_sats u) * unat (utxo_age_secs tx u div 86400)"

lemma dormant_step_skip:
  assumes "in_historical_utxo i = Some u" "\<not> dc_min_age_days d \<le> utxo_age_secs tx u div 86400"
  shows "dormant_step d tx a i = a"
  using assms by (simp add: dormant_step_def Let_def not_le)

lemma dormant_step_take:
  assumes "in_historical_utxo i = Some u" "dc_min_age_days d \<le> utxo_age_secs tx u div 86400"
  shows "da_count (dormant_step d tx a i) = da_count a + 1"
    and "unat (da_total (dormant_step d tx a i)) =
           min (unat (da_total a) + unat (soc_value_sats u)) (2 ^ 64 - 1)"
    and "unat (da_coin_age (dormant_step d tx a i)) =
           min (unat (da_coin_age a) + coin_days tx u) (2 ^ 128 - 1)"
    and "da_oldest (dormant_step d tx a i) = max (da_oldest a) (utxo_age_secs tx u)"
    and "da_youngest (dormant_step d tx a i) = min (da_youngest a) (utxo_age_secs tx u)"
  using assms(1) assms(2) [THEN leD]
  by (simp_all add: dormant_step_def Let_def unat_saturating_add coin_days_def
      unat_calculate_satoshi_days)

lemma min_add_min: "min (min a m + b) m = min (a + b) (m :: nat)"
  by auto

lemma dormant_fold:
  fixes d tx inps
  defines "acc \<equiv> foldl (dormant_step d tx) dormant_init inps"
    and "us \<equiv> qualifying d tx inps"
  shows "da_count acc = of_nat (length us)
    \<and> unat (da_total acc) = min (sum_list (map (\<lambda>u. unat (soc_value_sats u)) us)) (2 ^ 64 - 1)
    \<and> unat (da_coin_age acc) = min (sum_list (map (coin_days tx) us)) (2 ^ 128 - 1)
    \<and> da_oldest acc = foldl max 0 (map (utxo_age_secs tx) us)
    \<and> da_youngest acc = foldl min (- 1) (map (utxo_age_secs tx) us)"
  unfolding acc_def us_def
proof (induction inps rule: rev_induct)
  case Nil
  then show ?case by (simp add: qualifying_def map_filter_def dormant_init_def)
next
  case (snoc i inps)
  show ?case
  proof (cases "in_historical_utxo i")
    case None
    with snoc show ?thesis by (simp add: qualifying_snoc dormant_step_def)
  next
    case (Some u)
    show ?thesis
    proof (cases "dc_min_age_days d \<le> utxo_age_secs tx u div 86400")
      case True
      with Some snoc show ?thesis
        by (simp add: qualifying_snoc dormant_step_take [OF Some True] min_add_min)
    next
      case False
      with Some snoc show ?thesis
        by (simp add: qualifying_snoc dormant_step_skip [OF Some False])
    qed
  qed
qed

section \<open>Properties\<close>

text \<open>
  C34. The dormant-coin detector raises its event exactly when some input qualifies by age and the
  qualifying inputs carry at least the configured value, and the severity of the event is the one
  that the satoshi table prescribes for the summed value: neither the saturating sum nor the
  floating-point comparison moves a threshold.
\<close>

theorem dormant_detect_exact:
  assumes "length (tx_inputs tx) < 2 ^ 32"
    and "sum_list (map (\<lambda>u. unat (soc_value_sats u)) (qualifying d tx (tx_inputs tx))) < 2 ^ 64"
  shows "(dormant_detect d rt (ObsTransaction tx) \<noteq> [] \<longleftrightarrow>
      qualifying d tx (tx_inputs tx) \<noteq> [] \<and>
      unat (dc_min_value_sats d) \<le>
        sum_list (map (\<lambda>u. unat (soc_value_sats u)) (qualifying d tx (tx_inputs tx))))
    \<and> (\<forall>e \<in> set (dormant_detect d rt (ObsTransaction tx)).
        ev_severity e = severity_spec
          (classify (da_oldest (dormant_scan d tx) div 86400) (da_oldest_at (dormant_scan d tx))
             (da_oldest_height (dormant_scan d tx)))
          (sum_list (map (\<lambda>u. unat (soc_value_sats u)) (qualifying d tx (tx_inputs tx)))))"
proof -
  let ?us = "qualifying d tx (tx_inputs tx)" and ?acc = "dormant_scan d tx"
  let ?v = "sum_list (map (\<lambda>u. unat (soc_value_sats u)) ?us)"
  have acc: "da_count ?acc = of_nat (length ?us)" "unat (da_total ?acc) = ?v"
    using dormant_fold [of d tx "tx_inputs tx"] assms(2) by (simp_all add: dormant_scan_def)
  have "length ?us \<le> length (tx_inputs tx)"
    by (simp add: qualifying_def map_filter_def)
  then have cnt: "da_count ?acc = 0 \<longleftrightarrow> ?us = []"
    using acc(1) assms(1) unat_of_nat_less [of "length ?us", where 'a = 32]
    by (auto simp: unat_eq_zero [symmetric])
  have tot: "da_total ?acc < dc_min_value_sats d \<longleftrightarrow> ?v < unat (dc_min_value_sats d)"
    by (simp add: word_less_nat_alt acc(2))
  have sev: "ev_severity e = severity_spec
      (classify (da_oldest ?acc div 86400) (da_oldest_at ?acc) (da_oldest_height ?acc)) ?v"
    if "e \<in> set (dormant_detect d rt (ObsTransaction tx))" for e
    using that
    by (auto simp: dormant_detect_def Let_def attach_tx_def with_typed_metadata_def
        chain_event_new_def determine_severity_exact acc(2) split: if_splits option.splits)
  show ?thesis
    using cnt tot sev by (auto simp: dormant_detect_def Let_def not_less)
qed

text \<open>A transaction that spends a 50 BTC output of block 1 in block 800000.\<close>

definition sample_spend :: transaction_observation where
  "sample_spend =
     \<lparr>tx_txid = ''aa'', tx_timestamp = 0, tx_block_hash = None, tx_block_height = Some 800000,
      tx_fee_sats = 1000, tx_size = 200, tx_weight = 800, tx_vsize = 200,
      tx_fee_rate_sat_vb = None, tx_total_input_sats = 5000000000,
      tx_total_output_sats = 4999999000, tx_input_count = 1, tx_output_count = 1,
      tx_inputs =
        [\<lparr>in_txid = ''bb'', in_vout = 0, in_sequence = 0,
          in_prev_out_value_sats = Some 5000000000, in_prev_out_address = None,
          in_is_coinbase = False,
          in_historical_utxo = Some
            \<lparr>soc_txid = ''bb'', soc_vout = 0, soc_value_sats = 5000000000,
             soc_confirmed_height = Some 1, soc_confirmed_at = None\<rparr>\<rparr>],
      tx_outputs = [], tx_is_rbf = False, tx_confirmed = True, tx_source = None\<rparr>"

lemma sample_spend_qualifying:
  "map (\<lambda>u. unat (soc_value_sats u))
     (qualifying dormant_coin_detector_new sample_spend (tx_inputs sample_spend)) = [5000000000]"
  by (simp add: qualifying_def map_filter_def sample_spend_def dormant_coin_detector_new_def
      utxo_age_secs_def word_le_nat_alt)

theorem dormant_detect_exact_witness:
  "dormant_detect dormant_coin_detector_new sample_runtime (ObsTransaction sample_spend) \<noteq> []"
  using dormant_detect_exact [of sample_spend dormant_coin_detector_new sample_runtime]
  by (simp add: sample_spend_qualifying)
    (use sample_spend_qualifying in \<open>auto simp: sample_spend_def dormant_coin_detector_new_def\<close>)

end
