(* ===== verification/Detector_Engine.thy ===== *)
theory Detector_Engine
  imports Dormant_Coins
begin

text \<open>
  The detector engine (\<open>engine.rs\<close>) and the list of detectors the program registers (\<open>main.rs\<close>).
  The engine derives the interval of a block from the block before it, runs the detectors with
  panics isolated, completes the provenance of what they raise and fixes the identifiers.

  The contract a detector keeps towards the engine is the locale \<open>focused_detector\<close>; each of the
  eight detectors is an interpretation of it. From the contract follow that identifiers do not
  depend on whether an observation is live or replayed, and that one observation never raises two
  events with the same key.
\<close>

section \<open>Definitions\<close>

record detector_engine =
  eng_detectors :: "detector list"
  eng_last_block :: "block_observation option"

definition detector_engine_new :: "detector list \<Rightarrow> detector_engine" where
  "detector_engine_new ds = \<lparr>eng_detectors = ds, eng_last_block = None\<rparr>"

definition derive_interval ::
  "block_observation option \<Rightarrow> block_observation \<Rightarrow> block_observation" where
  "derive_interval last_block b =
     (case blk_interval_seconds b of
        Some _ \<Rightarrow> b
      | None \<Rightarrow>
          (case last_block of
             None \<Rightarrow> b
           | Some prev \<Rightarrow>
               if blk_height b > blk_height prev \<or> blk_hash b \<noteq> blk_hash prev then
                 let diff_secs = num_seconds (blk_timestamp b - blk_timestamp prev)
                 in if diff_secs > 0 then b\<lparr>blk_interval_seconds := Some (of_int diff_secs)\<rparr> else b
               else b))"

text \<open>The metadata entries that a replay adds, only when the metadata is an object.\<close>

definition insert_some :: "string \<Rightarrow> json option \<Rightarrow> json \<Rightarrow> json" where
  "insert_some k v m = (case v of None \<Rightarrow> m | Some x \<Rightarrow> json_insert k x m)"

definition replay_metadata :: "runtime \<Rightarrow> observation_context \<Rightarrow> json \<Rightarrow> json" where
  "replay_metadata rt ctx m =
     (case m of
        JObj _ \<Rightarrow>
          let m1 = json_insert ''observation_mode'' (JStr ''historical_replay'') m;
              m2 = insert_some ''replay_job_id''
                     (map_option (\<lambda>j. JStr (uuid_str j)) (cx_replay_job_id ctx)) m1;
              m3 = insert_some ''historical_height''
                     (map_option (\<lambda>h. json_u h) (cx_historical_height ctx)) m2;
              m4 = insert_some ''historical_block_hash''
                     (map_option JStr (cx_historical_block_hash ctx)) m3
          in insert_some ''historical_timestamp''
               (map_option (\<lambda>t. JStr (rt_serde_time rt t)) (cx_historical_timestamp ctx)) m4
      | _ \<Rightarrow> m)"

definition replay_provenance ::
  "runtime \<Rightarrow> observation_context option \<Rightarrow> observation \<Rightarrow> chain_event \<Rightarrow> chain_event" where
  "replay_provenance rt context obs ev =
     (case context of
        None \<Rightarrow> ev
      | Some ctx \<Rightarrow>
          if cx_mode ctx = HistoricalReplay then
            ev\<lparr>ev_detected_at := (case cx_historical_timestamp ctx of
                   Some ts \<Rightarrow> ts | None \<Rightarrow> observation_timestamp obs),
               ev_observation_mode := HistoricalReplay,
               ev_replay_job_id := cx_replay_job_id ctx,
               ev_metadata := replay_metadata rt ctx (ev_metadata ev)\<rparr>
          else ev)"

definition finish_event ::
  "runtime \<Rightarrow> observation_source option \<Rightarrow> observation_context option \<Rightarrow> observation
     \<Rightarrow> chain_event \<Rightarrow> chain_event" where
  "finish_event rt obs_source context obs ev =
     with_deterministic_id rt
       (replay_provenance rt context obs
          (if ev_source ev = None then ev\<lparr>ev_source := obs_source\<rparr> else ev))"

definition run_detector ::
  "runtime \<Rightarrow> observation_source option \<Rightarrow> observation_context option \<Rightarrow> observation
     \<Rightarrow> detector \<Rightarrow> chain_event list" where
  "run_detector rt obs_source context obs det =
     (let is_replay = (case context of None \<Rightarrow> False | Some c \<Rightarrow> cx_mode c = HistoricalReplay)
      in if is_replay \<and> \<not> av_historically_replayable (det_availability det) then []
         else case det_detect det rt obs of
                Some evs \<Rightarrow> map (finish_event rt obs_source context obs) evs
              | None \<Rightarrow> [])"

fun with_interval :: "block_observation option \<Rightarrow> observation \<Rightarrow> observation" where
  "with_interval last_block (ObsBlock b) = ObsBlock (derive_interval last_block b)"
| "with_interval last_block obs = obs"

definition process_observation_with_context ::
  "runtime \<Rightarrow> observation \<Rightarrow> observation_context option \<Rightarrow> detector_engine
     \<Rightarrow> chain_event list \<times> detector_engine" where
  "process_observation_with_context rt obs context eng =
     (let obs_source = observation_source_of obs;
          obs' = with_interval (eng_last_block eng) obs;
          eng' = (case obs' of
                    ObsBlock b \<Rightarrow> eng\<lparr>eng_last_block := Some b\<rparr>
                  | _ \<Rightarrow> eng)
      in (concat (map (run_detector rt obs_source context obs') (eng_detectors eng)), eng'))"

definition process_observation ::
  "runtime \<Rightarrow> observation \<Rightarrow> detector_engine \<Rightarrow> chain_event list \<times> detector_engine" where
  "process_observation rt obs eng = process_observation_with_context rt obs None eng"

text \<open>The detectors registered at start-up, with their configured thresholds.\<close>

record detector_config =
  dcfg_large :: large_transaction_detector
  dcfg_interval :: long_block_interval_detector
  dcfg_dormant :: dormant_coin_detector
  dcfg_consolidation :: consolidation_detector
  dcfg_fan_out :: fan_out_detector
  dcfg_extreme_fee :: extreme_fee_detector

definition registered_detectors :: "detector_config \<Rightarrow> detector list" where
  "registered_detectors c =
     [large_transaction (dcfg_large c), long_block_interval (dcfg_interval c),
      dormant_coin (dcfg_dormant c), consolidation (dcfg_consolidation c),
      fan_out (dcfg_fan_out c), extreme_fee (dcfg_extreme_fee c), rbf, reorg]"

section \<open>The detector contract\<close>

fun observed_target :: "observation \<Rightarrow> event_target option" where
  "observed_target (ObsBlock b) = Some (TargetBlock (blk_hash b))"
| "observed_target (ObsTransaction t) = Some (TargetTx (tx_txid t))"
| "observed_target (ObsMempool m) = None"
| "observed_target (ObsReplacement r) = Some (TargetTx (rp_replacement_txid r))"
| "observed_target (ObsReorg r) = Some (TargetBlock (ro_new_tip_hash r))"

text \<open>
  A focused detector never panics; whether it fires depends on the observation and not on the
  clock; it raises at most one event, of its own type and about the observed entity.
\<close>

locale focused_detector =
  fixes det :: detector and ty :: event_type and fires :: "observation \<Rightarrow> bool"
  assumes total: "\<exists>es. det_detect det rt obs = Some es \<and> length es = (if fires obs then 1 else 0)"
    and about: "det_detect det rt obs = Some es \<Longrightarrow> e \<in> set es \<Longrightarrow>
      ev_type e = ty \<and> Some (event_target e) = observed_target obs"
begin

lemma keys:
  obtains es where "det_detect det rt obs = Some es"
    "map chain_event_key es =
       (if fires obs then [event_type_debug ty @ CHR '':'' # target_str (the (observed_target obs))]
        else [])"
proof -
  obtain es where es: "det_detect det rt obs = Some es" "length es = (if fires obs then 1 else 0)"
    using total by blast
  show ?thesis
  proof (cases es)
    case Nil
    with es that show ?thesis by (auto split: if_splits)
  next
    case (Cons e es')
    with es have "es = [e]" "fires obs" by (auto split: if_splits)
    moreover have "ev_type e = ty" "Some (event_target e) = observed_target obs"
      using about [OF es(1), of e] Cons by auto
    then have "ev_type e = ty" "event_target e = the (observed_target obs)"
      by simp (metis \<open>Some (event_target e) = observed_target obs\<close> option.sel)
    ultimately show ?thesis using that [OF es(1)] by (simp add: chain_event_key_split)
  qed
qed

end

lemmas event_builders =
  attach_tx_def chain_event_new_def with_typed_metadata_def add_witness_def event_target_def

interpretation large_det: focused_detector "large_transaction d" LargeTransfer
  "\<lambda>obs. \<exists>tx. obs = ObsTransaction tx \<and> lt_threshold_sats d \<le> tx_total_output_sats tx" for d
  by unfold_locales
    (auto simp: large_transaction_def large_tx_detect_def event_builders Let_def not_less
      split: observation.splits if_splits)

interpretation interval_det: focused_detector "long_block_interval d" LongBlockInterval
  "\<lambda>obs. \<exists>b i. obs = ObsBlock b \<and> blk_interval_seconds b = Some i \<and> li_threshold_seconds d \<le> i" for d
  by unfold_locales
    (auto simp: long_block_interval_def long_interval_detect_def event_builders Let_def not_less
      split: observation.splits if_splits option.splits)

interpretation consolidation_det: focused_detector "consolidation d" Consolidation
  "\<lambda>obs. \<exists>tx. obs = ObsTransaction tx \<and> unat (cd_min_inputs d) \<le> tx_input_count tx \<and>
     tx_output_count tx \<le> unat (cd_max_outputs d) \<and> cd_min_value_sats d \<le> tx_total_input_sats tx" for d
  by unfold_locales
    (auto simp: consolidation_def consolidation_detect_def event_builders Let_def not_less
      split: observation.splits if_splits)

interpretation fan_out_det: focused_detector "fan_out d" FanOut
  "\<lambda>obs. \<exists>tx. obs = ObsTransaction tx \<and> unat (fo_min_outputs d) \<le> tx_output_count tx \<and>
     fo_min_value_sats d \<le> tx_total_output_sats tx" for d
  by unfold_locales
    (auto simp: fan_out_def fan_out_detect_def event_builders Let_def not_less
      split: observation.splits if_splits prod.splits)

interpretation extreme_fee_det: focused_detector "extreme_fee d" ExtremeFee
  "\<lambda>obs. \<exists>tx. obs = ObsTransaction tx \<and> (xf_extreme_fee_sats d \<le> tx_fee_sats tx \<or>
     f64_le (xf_extreme_fee_rate_sat_vb d) (observed_fee_rate tx))" for d
  by unfold_locales
    (auto simp: extreme_fee_def extreme_fee_detect_def event_builders Let_def
      split: observation.splits if_splits)

interpretation rbf_det: focused_detector rbf TransactionReplacement
  "\<lambda>obs. \<exists>r. obs = ObsReplacement r \<and> rp_replacement_txid r \<noteq> [] \<and> rp_replaced_txids r \<noteq> []"
  by unfold_locales
    (auto simp: rbf_def rbf_detect_def event_builders Let_def
      split: observation.splits if_splits)

interpretation reorg_det: focused_detector reorg ReorgDetected "\<lambda>obs. \<exists>r. obs = ObsReorg r"
  by unfold_locales
    (auto simp: reorg_def reorg_detect_def event_builders Let_def
      split: observation.splits option.splits)

interpretation dormant_det: focused_detector "dormant_coin d" DormantCoinsMoved
  "\<lambda>obs. \<exists>tx. obs = ObsTransaction tx \<and> da_count (dormant_scan d tx) \<noteq> 0 \<and>
     dc_min_value_sats d \<le> da_total (dormant_scan d tx)" for d
  by unfold_locales
    (auto simp: dormant_coin_def dormant_detect_def event_builders Let_def not_less
      split: observation.splits if_splits option.splits)

section \<open>Identifiers\<close>

lemma derive_interval_after:
  assumes "blk_interval_seconds b = None" "blk_hash b \<noteq> blk_hash prev"
  shows "derive_interval (Some prev) b =
    (if 0 < num_seconds (blk_timestamp b - blk_timestamp prev)
     then b\<lparr>blk_interval_seconds := Some (of_int (num_seconds (blk_timestamp b - blk_timestamp prev)))\<rparr>
     else b)"
  using assms by (simp add: derive_interval_def Let_def)

lemma key_frame [simp]:
  "chain_event_key (e\<lparr>ev_id := i\<rparr>) = chain_event_key e"
  "chain_event_key (e\<lparr>ev_source := s\<rparr>) = chain_event_key e"
  "chain_event_key (e\<lparr>ev_metadata := m\<rparr>) = chain_event_key e"
  "chain_event_key (e\<lparr>ev_replay_job_id := j\<rparr>) = chain_event_key e"
  "chain_event_key (e\<lparr>ev_observation_mode := md\<rparr>) = chain_event_key e"
  "chain_event_key (e\<lparr>ev_detected_at := t\<rparr>) = chain_event_key e"
  "chain_event_key (e\<lparr>ev_witnesses := ws\<rparr>) = chain_event_key e"
  by (simp_all add: chain_event_key_def split: option.split)

lemma replay_provenance_key [simp]:
  "chain_event_key (replay_provenance rt ctx obs ev) = chain_event_key ev"
  by (simp add: replay_provenance_def split: option.split)

lemma finish_event_key [simp]: "chain_event_key (finish_event rt src ctx obs ev) = chain_event_key ev"
  by (simp add: finish_event_def with_deterministic_id_def)

lemma finish_event_id:
  "ev_id (finish_event rt src ctx obs ev) = rt_uuid_v5 rt (chain_event_key ev)"
  by (simp add: finish_event_def with_deterministic_id_def chain_event_deterministic_id_def)

abbreviation in_replay :: "observation_context option \<Rightarrow> bool" where
  "in_replay context \<equiv> (case context of None \<Rightarrow> False | Some c \<Rightarrow> cx_mode c = HistoricalReplay)"

lemma run_detector_ids:
  "e \<in> set (run_detector rt src ctx obs det) \<Longrightarrow> ev_id e = rt_uuid_v5 rt (chain_event_key e)"
  by (auto simp: run_detector_def finish_event_id split: if_splits option.splits)

lemma map_finish_keys [simp]:
  "map chain_event_key (map (finish_event rt src ctx obs) es) = map chain_event_key es"
  by simp

lemma run_detector_keys:
  assumes "focused_detector det ty fires"
  shows "map chain_event_key (run_detector rt src ctx obs det) =
    (if in_replay ctx \<and> \<not> av_historically_replayable (det_availability det) \<or> \<not> fires obs then []
     else [event_type_debug ty @ CHR '':'' # target_str (the (observed_target obs))])"
proof -
  obtain es where "det_detect det rt obs = Some es"
    "map chain_event_key es =
       (if fires obs then [event_type_debug ty @ CHR '':'' # target_str (the (observed_target obs))]
        else [])"
    using assms by (rule focused_detector.keys [of det ty fires rt obs])
  then show ?thesis by (auto simp: run_detector_def Let_def comp_def)
qed

lemma ids_of_keys:
  "map ev_id (run_detector rt src ctx obs det) =
     map (rt_uuid_v5 rt) (map chain_event_key (run_detector rt src ctx obs det))"
  by (simp add: run_detector_ids)

text \<open>The keys the engine produces, detector by detector.\<close>

lemma process_keys:
  "map f (fst (process_observation_with_context rt obs ctx eng)) =
     concat (map (\<lambda>d. map f (run_detector rt (observation_source_of obs) ctx
       (with_interval (eng_last_block eng) obs) d)) (eng_detectors eng))"
  by (simp add: process_observation_with_context_def Let_def map_concat comp_def)

text \<open>The types of the registered detectors, in the order of registration.\<close>

definition registered_types :: "event_type list" where
  "registered_types =
     [LargeTransfer, LongBlockInterval, DormantCoinsMoved, Consolidation, FanOut, ExtremeFee,
      TransactionReplacement, ReorgDetected]"

lemma registered_focused:
  "list_all2 (\<lambda>d ty. \<exists>fires. focused_detector d ty fires) (registered_detectors c) registered_types"
  unfolding registered_detectors_def registered_types_def
  using large_det.focused_detector_axioms interval_det.focused_detector_axioms
    dormant_det.focused_detector_axioms consolidation_det.focused_detector_axioms
    fan_out_det.focused_detector_axioms extreme_fee_det.focused_detector_axioms
    rbf_det.focused_detector_axioms reorg_det.focused_detector_axioms
  by (simp, blast)

lemma distinct_concat_keys:
  assumes "list_all2 (\<lambda>d ty. \<exists>fires. focused_detector d ty fires) ds tys" "distinct tys"
  shows "distinct (concat (map (\<lambda>d. map chain_event_key (run_detector rt src ctx obs d)) ds))
    \<and> set (concat (map (\<lambda>d. map chain_event_key (run_detector rt src ctx obs d)) ds))
        \<subseteq> (\<lambda>ty. event_type_debug ty @ CHR '':'' # target_str (the (observed_target obs))) ` set tys"
  using assms
proof (induction rule: list_all2_induct)
  case Nil
  then show ?case by simp
next
  case (Cons d ds ty tys)
  let ?k = "\<lambda>ty. event_type_debug ty @ CHR '':'' # target_str (the (observed_target obs))"
  have glue: "distinct (xs @ ys) \<and> set (xs @ ys) \<subseteq> insert k K"
    if "xs \<in> {[], [k]}" "k \<notin> K" "distinct ys" "set ys \<subseteq> K" for xs ys k and K :: "string set"
    using that by auto
  obtain fires where f: "focused_detector d ty fires" using Cons by blast
  have d: "map chain_event_key (run_detector rt src ctx obs d) \<in> {[], [?k ty]}"
    using run_detector_keys [OF f, of rt src ctx obs] by simp
  have "?k ty \<notin> ?k ` set tys"
    using Cons.prems by (auto simp: append_sep_eq event_type_debug_no_colon event_type_debug_inj)
  moreover note d
  moreover have "distinct (concat (map (\<lambda>d. map chain_event_key (run_detector rt src ctx obs d)) ds))"
    "set (concat (map (\<lambda>d. map chain_event_key (run_detector rt src ctx obs d)) ds)) \<subseteq> ?k ` set tys"
    using Cons.IH Cons.prems by auto
  ultimately show ?case
    unfolding list.map concat.simps list.set image_insert by (intro glue)
qed

lemma run_detector_replay_ids:
  assumes "focused_detector det ty fires" "in_replay ctx" "rt_uuid_v5 rt = rt_uuid_v5 rt'"
  shows "map ev_id (run_detector rt src ctx obs det) =
    (if av_historically_replayable (det_availability det)
     then map ev_id (run_detector rt' src' None obs det) else [])"
  using assms(2,3)
  by (simp add: ids_of_keys run_detector_keys [OF assms(1)] del: list.map_comp)

lemma interval_engine_fires:
  assumes "eng_detectors eng = [long_block_interval d]"
  shows "fst (process_observation rt (ObsBlock b) eng) \<noteq> [] \<longleftrightarrow>
    (\<exists>i. blk_interval_seconds (derive_interval (eng_last_block eng) b) = Some i \<and>
         li_threshold_seconds d \<le> i)"
  using assms
  by (auto simp: process_observation_def process_observation_with_context_def Let_def
      run_detector_def long_block_interval_def long_interval_detect_def not_less
      split: option.splits)

section \<open>Properties\<close>

text \<open>
  C25. A panicking detector is isolated: the events of a batch and the engine's memory of the last
  block are the same as if that detector were not registered.
\<close>

theorem panic_isolated:
  assumes "det_detect bad rt (with_interval (eng_last_block eng) obs) = None"
    and "eng_detectors eng = ds1 @ bad # ds2"
  shows "fst (process_observation_with_context rt obs ctx eng) =
      fst (process_observation_with_context rt obs ctx (eng\<lparr>eng_detectors := ds1 @ ds2\<rparr>))
    \<and> eng_last_block (snd (process_observation_with_context rt obs ctx eng)) =
      eng_last_block (snd (process_observation_with_context rt obs ctx
        (eng\<lparr>eng_detectors := ds1 @ ds2\<rparr>)))"
proof -
  have "run_detector rt (observation_source_of obs) ctx (with_interval (eng_last_block eng) obs) bad = []"
    using assms(1) by (simp add: run_detector_def Let_def)
  then show ?thesis
    using assms(2)
    by (simp add: process_observation_with_context_def Let_def split: observation.split)
qed

text \<open>
  C1. Replaying an observation gives its events the identifiers they had live: a replay of the
  registered detectors yields exactly the identifiers of the live run of those that are
  historically replayable, in the same order, whatever the clocks of the two runs say.
\<close>

theorem replay_ids_match_live:
  assumes "eng_detectors eng = registered_detectors c" "cx_mode ctx = HistoricalReplay"
    and "rt_uuid_v5 rt = rt_uuid_v5 rt'"
  shows "map ev_id (fst (process_observation_with_context rt obs (Some ctx) eng)) =
    map ev_id (fst (process_observation rt' obs
      (eng\<lparr>eng_detectors :=
        filter (\<lambda>d. av_historically_replayable (det_availability d)) (registered_detectors c)\<rparr>)))"
proof -
  have foc: "\<exists>ty fires. focused_detector d ty fires" if "d \<in> set (registered_detectors c)" for d
    using registered_focused [of c] that by (fastforce simp: list_all2_conv_all_nth in_set_conv_nth)
  have step: "map ev_id (run_detector rt src (Some ctx) ob d) =
      (if av_historically_replayable (det_availability d)
       then map ev_id (run_detector rt' src None ob d) else [])"
    if "d \<in> set (registered_detectors c)" for d src ob
  proof -
    obtain ty fires where "focused_detector d ty fires"
      using \<open>d \<in> set (registered_detectors c)\<close> foc by blast
    then show ?thesis by (rule run_detector_replay_ids) (use assms(2,3) in simp_all)
  qed
  have "concat (map (\<lambda>d. map ev_id (run_detector rt src (Some ctx) ob d)) ds) =
      concat (map (\<lambda>d. map ev_id (run_detector rt' src None ob d))
        (filter (\<lambda>d. av_historically_replayable (det_availability d)) ds))"
    if "set ds \<subseteq> set (registered_detectors c)" for ds src ob
    using that by (induction ds) (auto simp: step)
  then show ?thesis
    using assms(1) by (simp add: process_keys process_observation_def)
qed

text \<open>
  One observation never raises two events with the same key, so the deduplicator behind the
  engine never drops an event for another event of the same batch.
\<close>

theorem batch_keys_distinct:
  assumes "eng_detectors eng = registered_detectors c"
  shows "distinct (map chain_event_key (fst (process_observation_with_context rt obs ctx eng)))"
  using distinct_concat_keys [OF registered_focused [of c], of rt "observation_source_of obs" ctx
      "with_interval (eng_last_block eng) obs"] assms
  by (simp add: process_keys registered_types_def)

text \<open>
  The engine's interval tracking end to end: after a block, a following block without an
  interval of its own raises a long-interval event exactly when it is newer by at least one
  second and by at least the threshold.
\<close>

theorem long_interval_between_blocks:
  assumes "blk_interval_seconds b2 = None" "blk_hash b2 \<noteq> blk_hash b1"
    and "blk_timestamp b2 - blk_timestamp b1 < 2 ^ 63 * 1000000000"
    and "eng_detectors eng = [long_block_interval d]"
  shows "fst (process_observation rt2 (ObsBlock b2)
        (snd (process_observation rt1 (ObsBlock b1) eng))) \<noteq> [] \<longleftrightarrow>
    0 < num_seconds (blk_timestamp b2 - blk_timestamp b1) \<and>
    uint (li_threshold_seconds d) \<le> num_seconds (blk_timestamp b2 - blk_timestamp b1)"
proof -
  let ?diff = "num_seconds (blk_timestamp b2 - blk_timestamp b1)"
  let ?b1 = "derive_interval (eng_last_block eng) b1" and ?eng = "snd (process_observation rt1 (ObsBlock b1) eng)"
  have b1: "blk_hash ?b1 = blk_hash b1" "blk_timestamp ?b1 = blk_timestamp b1"
    by (auto simp: derive_interval_def Let_def split: option.splits)
  have eng: "eng_last_block ?eng = Some ?b1" "eng_detectors ?eng = [long_block_interval d]"
    using assms(4) by (simp_all add: process_observation_def process_observation_with_context_def Let_def)
  have small: "?diff < 2 ^ 63"
  proof (cases "0 \<le> blk_timestamp b2 - blk_timestamp b1")
    case True
    then show ?thesis using assms(3) by (simp add: num_seconds_nonneg div_less_iff_less_mult)
  next
    case False
    then have "\<not> 0 < ?diff" by (simp add: num_seconds_pos_iff)
    then show ?thesis by simp
  qed
  have le: "li_threshold_seconds d \<le> of_int ?diff \<longleftrightarrow> uint (li_threshold_seconds d) \<le> ?diff" if "0 < ?diff"
    using that small by (simp add: word_le_def uint_word_of_int_eq take_bit_int_eq_self)
  have "with_interval (eng_last_block ?eng) (ObsBlock b2) =
      ObsBlock (if 0 < ?diff then b2\<lparr>blk_interval_seconds := Some (of_int ?diff)\<rparr> else b2)"
    using assms(1,2) derive_interval_after [of b2 ?b1] by (simp add: eng b1)
  then show ?thesis using interval_engine_fires [OF eng(2)] le assms(1) by auto
qed

text \<open>Concrete inputs: two blocks two hours apart, and a configuration with the defaults.\<close>

definition sample_block :: "string \<Rightarrow> u64 \<Rightarrow> int \<Rightarrow> block_observation" where
  "sample_block h height secs =
     \<lparr>blk_hash = h, blk_height = height, blk_timestamp = from_timestamp secs,
      blk_previous_block_hash = [], blk_tx_count = 1, blk_size_bytes = 1000, blk_weight = 4000,
      blk_difficulty = None, blk_miner_tag = None, blk_interval_seconds = None,
      blk_source = None\<rparr>"

definition sample_config :: detector_config where
  "sample_config =
     \<lparr>dcfg_large = large_transaction_detector_new, dcfg_interval = long_block_interval_detector_new,
      dcfg_dormant = dormant_coin_detector_new, dcfg_consolidation = consolidation_detector_new,
      dcfg_fan_out = fan_out_detector_new, dcfg_extreme_fee = extreme_fee_detector_new\<rparr>"

definition panicking :: detector where
  "panicking = \<lparr>det_name = ''p'', det_description = [], det_detect = (\<lambda>rt obs. None),
                det_availability = availability_default\<rparr>"

theorem panic_isolated_witness:
  "fst (process_observation_with_context sample_runtime (ObsTransaction sample_spend) None
     (detector_engine_new [panicking, dormant_coin dormant_coin_detector_new])) =
   fst (process_observation_with_context sample_runtime (ObsTransaction sample_spend) None
     (detector_engine_new [dormant_coin dormant_coin_detector_new]))"
  using panic_isolated [of panicking sample_runtime
      "detector_engine_new [panicking, dormant_coin dormant_coin_detector_new]"
      "ObsTransaction sample_spend" "[]" "[dormant_coin dormant_coin_detector_new]" None]
  by (simp add: panicking_def detector_engine_new_def)

theorem replay_ids_match_live_witness:
  "map ev_id (fst (process_observation_with_context sample_runtime (ObsTransaction sample_spend)
     (Some (context_historical_replay 1 800000 ''ff'' 0 ''mainnet''))
     (detector_engine_new (registered_detectors sample_config)))) =
   map ev_id (fst (process_observation (sample_runtime\<lparr>rt_now := 5\<rparr>) (ObsTransaction sample_spend)
     (detector_engine_new (filter (\<lambda>d. av_historically_replayable (det_availability d))
       (registered_detectors sample_config)))))"
  using replay_ids_match_live [of "detector_engine_new (registered_detectors sample_config)"
      sample_config "context_historical_replay 1 800000 ''ff'' 0 ''mainnet''" sample_runtime
      "sample_runtime\<lparr>rt_now := 5\<rparr>" "ObsTransaction sample_spend"]
  by (simp add: detector_engine_new_def context_historical_replay_def)

theorem batch_keys_distinct_witness:
  "distinct (map chain_event_key (fst (process_observation_with_context sample_runtime
     (ObsTransaction sample_spend) None (detector_engine_new (registered_detectors sample_config)))))"
  using batch_keys_distinct [of "detector_engine_new (registered_detectors sample_config)" sample_config]
  by (simp add: detector_engine_new_def)

theorem long_interval_between_blocks_witness:
  "fst (process_observation sample_runtime (ObsBlock (sample_block ''b2'' 2 7200))
     (snd (process_observation sample_runtime (ObsBlock (sample_block ''b1'' 1 0))
       (detector_engine_new [long_block_interval long_block_interval_detector_new])))) \<noteq> []"
  using long_interval_between_blocks [of "sample_block ''b2'' 2 7200" "sample_block ''b1'' 1 0"
      "detector_engine_new [long_block_interval long_block_interval_detector_new]"
      long_block_interval_detector_new sample_runtime sample_runtime]
  by (simp add: sample_block_def detector_engine_new_def from_timestamp_def num_seconds_nonneg
      long_block_interval_detector_new_def)

end
