(* ===== verification/Fifo.thy ===== *)
theory Fifo
  imports Prelude
begin

text \<open>
  What the bounded in-memory tables of the program share. A \<open>HashMap\<close> is an association list with
  distinct keys, so that its length is the number of entries; a \<open>VecDeque\<close> of keys records the
  order of insertion; \<open>evict_to\<close> is the loop that pops the oldest keys while the table is full.

  Two contracts are stated as locales: a store whose size never exceeds its capacity, and a cache
  from outpoints to spent-output contexts.
\<close>

section \<open>Eviction\<close>

text \<open>
  The loop \<open>while map.len() >= cap { match order.pop_front() ... }\<close>. It returns the popped keys,
  the remaining order and the remaining table.
\<close>

fun evict_to :: "nat \<Rightarrow> 'k list \<Rightarrow> ('k \<times> 'v) list \<Rightarrow> 'k list \<times> 'k list \<times> ('k \<times> 'v) list" where
  "evict_to cap [] m = ([], [], m)"
| "evict_to cap (k # ks) m =
     (if length m < cap then ([], k # ks, m)
      else case evict_to cap ks (AList.delete k m) of (popped, order, m') \<Rightarrow> (k # popped, order, m'))"

text \<open>A table indexed by its order: distinct keys, all of them recorded.\<close>

definition ordered_table :: "'k list \<Rightarrow> ('k \<times> 'v) list \<Rightarrow> bool" where
  "ordered_table order m \<longleftrightarrow> distinct (map fst m) \<and> fst ` set m \<subseteq> set order"

lemma dom_delete: "fst ` set (AList.delete k m) = fst ` set m - {k}"
  by (auto simp: AList.delete_eq image_iff)

lemma length_update:
  "length (AList.update k v m) = (if k \<in> fst ` set m then length m else Suc (length m))"
  by (induction m) auto

lemma evict_to_spec:
  assumes "ordered_table order m" "evict_to cap order m = (popped, order', m')" "0 < cap"
  shows "ordered_table order' m' \<and> length m' < cap \<and> order = popped @ order'
    \<and> m' = fold AList.delete popped m"
  using assms
proof (induction cap order m arbitrary: popped rule: evict_to.induct)
  case (1 cap m)
  then show ?case by (auto simp: ordered_table_def)
next
  case (2 cap k ks m)
  show ?case
  proof (cases "length m < cap")
    case True
    with 2 show ?thesis by auto
  next
    case False
    obtain p where p: "evict_to cap ks (AList.delete k m) = (p, order', m')" "popped = k # p"
      using 2 False by (auto split: prod.splits)
    have "ordered_table ks (AList.delete k m)"
      using "2.prems"(1) by (auto simp: ordered_table_def dom_delete AList.distinct_delete)
    from "2.IH" [OF False this p(1) "2.prems"(3)] show ?thesis using p(2) by auto
  qed
qed

lemma evict_to_none: "length m < cap \<Longrightarrow> evict_to cap order m = ([], order, m)"
  by (cases order) simp_all

text \<open>Eviction followed by an insertion keeps the table within its capacity.\<close>

lemma evict_insert:
  assumes "ordered_table order m" "evict_to cap order m = (popped, order', m')" "0 < cap"
  shows "ordered_table (order' @ [k]) (AList.update k v m') \<and> length (AList.update k v m') \<le> cap"
proof -
  have "ordered_table order' m'" "length m' < cap" using evict_to_spec [OF assms] by blast+
  then show ?thesis
    by (auto simp: ordered_table_def length_update distinct_update dom_update)
qed

section \<open>Contracts\<close>

locale bounded_store =
  fixes step :: "'op \<Rightarrow> 's \<Rightarrow> 's" and ok :: "'s \<Rightarrow> bool" and size_of :: "'s \<Rightarrow> nat"
    and cap :: "'s \<Rightarrow> nat"
  assumes ok_step: "ok s \<Longrightarrow> ok (step a s)"
    and cap_step: "ok s \<Longrightarrow> cap (step a s) = cap s"
    and ok_bounded: "ok s \<Longrightarrow> size_of s \<le> cap s"
begin

lemma ok_fold: "ok s \<Longrightarrow> ok (fold step ops s)"
  by (induction ops arbitrary: s) (auto intro: ok_step)

lemma cap_fold: "ok s \<Longrightarrow> cap (fold step ops s) = cap s"
  by (induction ops arbitrary: s) (auto simp: cap_step ok_step)

lemma size_fold: "ok s \<Longrightarrow> size_of (fold step ops s) \<le> cap s"
  using ok_bounded [OF ok_fold] cap_fold by metis

end

end
