(* ===== verification/Dedup.thy ===== *)
theory Dedup
  imports Detector_Engine Fifo
begin

text \<open>
  The event deduplicator (\<open>dedup.rs\<close>): a bounded table of event keys with the instant at which
  each was last passed, the witnesses collected per key, and the order of insertion. Instants of
  the monotonic clock and durations are integers in nanoseconds. The two atomic counters are
  fields of the same record; a poisoned lock cannot occur, since nothing panics while it is held.
\<close>

section \<open>Definitions\<close>

record event_deduplicator =
  dd_seen :: "(string \<times> int) list"
  dd_witnesses :: "(string \<times> observation_witness list) list"
  dd_order :: "string list"
  dd_max_capacity :: usize
  dd_ttl :: int
  dd_deduplicated_count :: u64
  dd_passed_count :: u64

definition dedup_new :: "usize \<Rightarrow> int \<Rightarrow> event_deduplicator" where
  "dedup_new max_capacity ttl =
     \<lparr>dd_seen = [], dd_witnesses = [], dd_order = [], dd_max_capacity = max max_capacity 1,
      dd_ttl = ttl, dd_deduplicated_count = 0, dd_passed_count = 0\<rparr>"

definition event_key :: "chain_event \<Rightarrow> string" where
  "event_key e =
     (case ev_txid e of
        Some txid \<Rightarrow> event_type_debug (ev_type e) @ '':tx:'' @ txid
      | None \<Rightarrow>
          (case ev_block_hash e of
             Some bh \<Rightarrow> event_type_debug (ev_type e) @ '':block:'' @ bh
           | None \<Rightarrow>
               (case ev_block_height e of
                  Some h \<Rightarrow> event_type_debug (ev_type e) @ '':height:'' @ show_u h
                | None \<Rightarrow> event_type_debug (ev_type e) @ '':title:'' @ ev_title e)))"

definition witnesses_for :: "event_deduplicator \<Rightarrow> string \<Rightarrow> observation_witness list" where
  "witnesses_for d key = (case map_of (dd_witnesses d) key of Some ws \<Rightarrow> ws | None \<Rightarrow> [])"

text \<open>\<open>entry(key).or_default().push(w)\<close>\<close>

definition push_witness :: "string \<Rightarrow> observation_witness \<Rightarrow> event_deduplicator \<Rightarrow> event_deduplicator" where
  "push_witness key w d =
     d\<lparr>dd_witnesses := AList.update key (witnesses_for d key @ [w]) (dd_witnesses d)\<rparr>"

text \<open>The time since an instant, which is never negative.\<close>

definition duration_since :: "int \<Rightarrow> int \<Rightarrow> int" where
  "duration_since now t = max 0 (now - t)"

definition is_duplicate :: "int \<Rightarrow> event_deduplicator \<Rightarrow> string \<Rightarrow> bool" where
  "is_duplicate now d key =
     (case map_of (dd_seen d) key of
        None \<Rightarrow> False
      | Some seen_at \<Rightarrow> duration_since now seen_at < dd_ttl d)"

definition record_duplicate ::
  "runtime \<Rightarrow> string \<Rightarrow> chain_event \<Rightarrow> event_deduplicator \<Rightarrow> event_deduplicator" where
  "record_duplicate rt key e d =
     (let d1 = (case ev_source e of
                  Some src \<Rightarrow> push_witness key (observation_witness_new (rt_now rt) src) d
                | None \<Rightarrow> d)
      in d1\<lparr>dd_deduplicated_count := dd_deduplicated_count d + 1\<rparr>)"

definition make_room :: "event_deduplicator \<Rightarrow> event_deduplicator" where
  "make_room d =
     (case evict_to (dd_max_capacity d) (dd_order d) (dd_seen d) of (popped, order, seen) \<Rightarrow>
        d\<lparr>dd_seen := seen, dd_order := order,
          dd_witnesses := fold AList.delete popped (dd_witnesses d)\<rparr>)"

definition record_fresh ::
  "runtime \<Rightarrow> int \<Rightarrow> string \<Rightarrow> chain_event \<Rightarrow> event_deduplicator
     \<Rightarrow> chain_event \<times> event_deduplicator" where
  "record_fresh rt now key e d =
     (let d1 = make_room d;
          (e', d2) = (case ev_source e of
             Some src \<Rightarrow>
               let w = observation_witness_new (rt_now rt) src
               in (add_witness w e, push_witness key w d1)
           | None \<Rightarrow> (e, d1))
      in (e', d2\<lparr>dd_seen := AList.update key now (dd_seen d2), dd_order := dd_order d2 @ [key],
                 dd_passed_count := dd_passed_count d2 + 1\<rparr>))"

fun dedup_loop ::
  "runtime \<Rightarrow> int \<Rightarrow> chain_event list \<Rightarrow> event_deduplicator
     \<Rightarrow> chain_event list \<times> event_deduplicator" where
  "dedup_loop rt now [] d = ([], d)"
| "dedup_loop rt now (e # es) d =
     (let key = event_key e
      in if is_duplicate now d key
         then dedup_loop rt now es (record_duplicate rt key e d)
         else let (e', d1) = record_fresh rt now key e d;
                  (fresh, d2) = dedup_loop rt now es d1
              in (e' # fresh, d2))"

definition dedup_filter ::
  "runtime \<Rightarrow> int \<Rightarrow> chain_event list \<Rightarrow> event_deduplicator
     \<Rightarrow> chain_event list \<times> event_deduplicator" where
  "dedup_filter rt now events d = dedup_loop rt now events d"

definition dedup_len :: "event_deduplicator \<Rightarrow> usize" where
  "dedup_len d = length (dd_seen d)"

section \<open>Frame facts\<close>

lemma event_key_chain_event_key: "event_key = chain_event_key"
  by (rule ext) (simp add: event_key_def chain_event_key_def)

lemma push_witness_frame [simp]:
  "dd_seen (push_witness k w d) = dd_seen d" "dd_order (push_witness k w d) = dd_order d"
  "dd_max_capacity (push_witness k w d) = dd_max_capacity d" "dd_ttl (push_witness k w d) = dd_ttl d"
  "dd_deduplicated_count (push_witness k w d) = dd_deduplicated_count d"
  "dd_passed_count (push_witness k w d) = dd_passed_count d"
  by (simp_all add: push_witness_def)

lemma record_duplicate_frame [simp]:
  "dd_seen (record_duplicate rt k e d) = dd_seen d" "dd_order (record_duplicate rt k e d) = dd_order d"
  "dd_max_capacity (record_duplicate rt k e d) = dd_max_capacity d"
  "dd_ttl (record_duplicate rt k e d) = dd_ttl d"
  "dd_deduplicated_count (record_duplicate rt k e d) = dd_deduplicated_count d + 1"
  "dd_passed_count (record_duplicate rt k e d) = dd_passed_count d"
  by (simp_all add: record_duplicate_def Let_def split: option.split)

lemma make_room_frame [simp]:
  "dd_max_capacity (make_room d) = dd_max_capacity d" "dd_ttl (make_room d) = dd_ttl d"
  "dd_deduplicated_count (make_room d) = dd_deduplicated_count d"
  "dd_passed_count (make_room d) = dd_passed_count d"
  by (simp_all add: make_room_def split: prod.split)

lemma add_witness_key [simp]: "chain_event_key (add_witness w e) = chain_event_key e"
  by (simp add: add_witness_def)

lemma record_fresh_frame [simp]:
  "dd_seen (snd (record_fresh rt now k e d)) = AList.update k now (dd_seen (make_room d))"
  "dd_order (snd (record_fresh rt now k e d)) = dd_order (make_room d) @ [k]"
  "dd_max_capacity (snd (record_fresh rt now k e d)) = dd_max_capacity d"
  "dd_ttl (snd (record_fresh rt now k e d)) = dd_ttl d"
  "dd_deduplicated_count (snd (record_fresh rt now k e d)) = dd_deduplicated_count d"
  "dd_passed_count (snd (record_fresh rt now k e d)) = dd_passed_count d + 1"
  "chain_event_key (fst (record_fresh rt now k e d)) = chain_event_key e"
  "event_target (fst (record_fresh rt now k e d)) = event_target e"
  by (simp_all add: record_fresh_def Let_def add_witness_def event_target_def
      split: option.split prod.split)

lemma dedup_loop_Cons:
  "dedup_loop rt now (e # es) d =
     (let key = event_key e
      in if is_duplicate now d key
         then dedup_loop rt now es (record_duplicate rt key e d)
         else (fst (record_fresh rt now key e d) #
                 fst (dedup_loop rt now es (snd (record_fresh rt now key e d))),
               snd (dedup_loop rt now es (snd (record_fresh rt now key e d)))))"
  by (simp add: Let_def case_prod_beta)

section \<open>Bounded size\<close>

definition dedup_ok :: "event_deduplicator \<Rightarrow> bool" where
  "dedup_ok d \<longleftrightarrow> ordered_table (dd_order d) (dd_seen d) \<and> 0 < dd_max_capacity d
     \<and> length (dd_seen d) \<le> dd_max_capacity d"

lemma dedup_ok_new: "dedup_ok (dedup_new c ttl)"
  by (simp add: dedup_ok_def dedup_new_def ordered_table_def)

lemma dedup_ok_fresh:
  assumes "dedup_ok d"
  shows "dedup_ok (snd (record_fresh rt now k e d))"
proof -
  obtain p order seen where ev: "evict_to (dd_max_capacity d) (dd_order d) (dd_seen d) = (p, order, seen)"
    by (metis prod_cases3)
  then have "dd_seen (make_room d) = seen" "dd_order (make_room d) = order"
    by (simp_all add: make_room_def)
  moreover have "ordered_table (dd_order d) (dd_seen d)" "0 < dd_max_capacity d"
    using assms by (simp_all add: dedup_ok_def)
  ultimately show ?thesis using evict_insert [OF _ ev] by (simp add: dedup_ok_def)
qed

lemma dedup_ok_loop:
  "dedup_ok d \<Longrightarrow> dedup_ok (snd (dedup_loop rt now es d))
     \<and> dd_max_capacity (snd (dedup_loop rt now es d)) = dd_max_capacity d"
proof (induction es arbitrary: d)
  case (Cons e es)
  have "dedup_ok (record_duplicate rt k e d)" for k using Cons.prems by (simp add: dedup_ok_def)
  then show ?case
    using Cons.IH dedup_ok_fresh [OF Cons.prems]
    by (simp add: dedup_loop_Cons Let_def del: dedup_loop.simps)
qed simp

text \<open>A batch is a reading of the clock, an instant and the events.\<close>

definition dedup_batch ::
  "runtime \<times> int \<times> chain_event list \<Rightarrow> event_deduplicator \<Rightarrow> event_deduplicator" where
  "dedup_batch b d = (case b of (rt, now, es) \<Rightarrow> snd (dedup_filter rt now es d))"

lemma dedup_ok_len: "dedup_ok d \<Longrightarrow> dedup_len d \<le> dd_max_capacity d"
  by (simp add: dedup_ok_def dedup_len_def)

interpretation dedup_bounded: bounded_store dedup_batch dedup_ok dedup_len dd_max_capacity
  by unfold_locales
    (auto simp: dedup_batch_def dedup_filter_def dedup_ok_loop dedup_ok_len split: prod.splits)

section \<open>What passes\<close>

fun first_occurrences :: "'a list \<Rightarrow> 'a list" where
  "first_occurrences [] = []"
| "first_occurrences (x # xs) = x # filter (\<lambda>y. y \<noteq> x) (first_occurrences xs)"

lemma first_occurrences_filter: "first_occurrences (filter P xs) = filter P (first_occurrences xs)"
  by (induction xs) (auto simp: conj_commute filter_empty_conv intro: filter_cong)

lemma make_room_idle: "length (dd_seen d) < dd_max_capacity d \<Longrightarrow> dd_seen (make_room d) = dd_seen d"
  by (simp add: make_room_def evict_to_none)

lemma is_duplicate_after_fresh:
  assumes "length (dd_seen d) < dd_max_capacity d" "0 < dd_ttl d"
  shows "is_duplicate now (snd (record_fresh rt now k e d)) k' \<longleftrightarrow> k' = k \<or> is_duplicate now d k'"
  using assms
  by (simp add: is_duplicate_def make_room_idle update_conv' duration_since_def split: option.split)

lemma is_duplicate_after_duplicate [simp]:
  "is_duplicate now (record_duplicate rt k e d) k' = is_duplicate now d k'"
  by (simp add: is_duplicate_def split: option.split)

lemma dedup_loop_keys:
  assumes "length (dd_seen d) + length es \<le> dd_max_capacity d" "0 < dd_ttl d"
  shows "map event_key (fst (dedup_loop rt now es d)) =
    first_occurrences (filter (\<lambda>k. \<not> is_duplicate now d k) (map event_key es))"
  using assms
proof (induction es arbitrary: d)
  case (Cons e es)
  let ?k = "event_key e"
  show ?case
  proof (cases "is_duplicate now d ?k")
    case True
    then show ?thesis using Cons by (simp add: Let_def)
  next
    case False
    let ?d = "snd (record_fresh rt now ?k e d)"
    have room: "length (dd_seen d) < dd_max_capacity d" using Cons.prems by simp
    have "length (dd_seen ?d) + length es \<le> dd_max_capacity ?d"
      using Cons.prems room by (simp add: make_room_idle length_update)
    then have "map event_key (fst (dedup_loop rt now es ?d)) =
        first_occurrences (filter (\<lambda>k. \<not> is_duplicate now ?d k) (map event_key es))"
      using Cons.IH [of ?d] Cons.prems by simp
    also have "\<dots> = filter (\<lambda>k. k \<noteq> ?k)
        (first_occurrences (filter (\<lambda>k. \<not> is_duplicate now d k) (map event_key es)))"
      using Cons.prems(2)
      by (simp add: is_duplicate_after_fresh [OF room] first_occurrences_filter [symmetric] conj_commute)
    finally show ?thesis
      using False by (simp add: dedup_loop_Cons Let_def event_key_chain_event_key del: dedup_loop.simps)
  qed
qed simp

lemma dedup_loop_counts:
  "dd_passed_count (snd (dedup_loop rt now es d)) =
     dd_passed_count d + of_nat (length (fst (dedup_loop rt now es d)))
   \<and> dd_deduplicated_count (snd (dedup_loop rt now es d)) + of_nat (length (fst (dedup_loop rt now es d))) =
     dd_deduplicated_count d + of_nat (length es)"
proof (induction es arbitrary: d)
  case (Cons e es)
  show ?case
  proof (cases "is_duplicate now d (event_key e)")
    case True
    then show ?thesis
      using Cons.IH [of "record_duplicate rt (event_key e) e d"] by (simp add: Let_def algebra_simps)
  next
    case False
    then show ?thesis
      using Cons.IH [of "snd (record_fresh rt now (event_key e) e d)"]
      by (simp add: dedup_loop_Cons Let_def algebra_simps del: dedup_loop.simps)
  qed
qed simp

section \<open>Properties\<close>

text \<open>
  The deduplicator is bounded: after any sequence of batches, at any instants, it remembers at
  most as many keys as its configured capacity (at least one).
\<close>

theorem dedup_stays_bounded:
  "dedup_len (fold dedup_batch batches (dedup_new max_capacity ttl)) \<le> max max_capacity 1"
  using dedup_bounded.size_fold [OF dedup_ok_new, of batches max_capacity ttl]
  by (simp add: dedup_new_def)

text \<open>
  C24. Exact filtering: when the table has room for the batch, the events that pass are, in order,
  the first ones of each key that was not seen within the time to live. In particular no key
  passes twice in a batch and no new key is lost.
\<close>

theorem dedup_filter_first_occurrences:
  assumes "length (dd_seen d) + length es \<le> dd_max_capacity d" "0 < dd_ttl d"
  shows "map event_key (fst (dedup_filter rt now es d)) =
    first_occurrences (filter (\<lambda>k. \<not> is_duplicate now d k) (map event_key es))"
  using dedup_loop_keys [OF assms] by (simp add: dedup_filter_def)

definition titled_event :: "string \<Rightarrow> chain_event" where
  "titled_event t = chain_event_new sample_runtime MiningAnomaly SevLow ConfHigh t []"

theorem dedup_filter_first_occurrences_witness:
  "map event_key (fst (dedup_filter sample_runtime 0
      [titled_event ''a'', titled_event ''b'', titled_event ''a''] (dedup_new 5 10))) =
    [''MiningAnomaly:title:a'', ''MiningAnomaly:title:b'']"
  using dedup_filter_first_occurrences [of "dedup_new 5 10"
      "[titled_event ''a'', titled_event ''b'', titled_event ''a'']" sample_runtime 0]
  by (simp add: dedup_new_def titled_event_def chain_event_new_def event_key_def is_duplicate_def)

text \<open>
  Every event of a batch is counted once, either as passed or as deduplicated, and the passed
  counter counts exactly the events returned.
\<close>

theorem dedup_counts_every_event:
  "dd_passed_count (snd (dedup_filter rt now es d)) =
     dd_passed_count d + of_nat (length (fst (dedup_filter rt now es d)))
   \<and> dd_deduplicated_count (snd (dedup_filter rt now es d))
       + of_nat (length (fst (dedup_filter rt now es d))) =
     dd_deduplicated_count d + of_nat (length es)"
  unfolding dedup_filter_def by (rule dedup_loop_counts)

text \<open>
  The insertion order keeps the stale position of a key that expired and was passed again, so the
  refreshed key is evicted before older ones: with capacity 3 and a time to live of 10, a key
  passed at 20 passes again at 21.
\<close>

theorem stale_order_evicts_refreshed_key:
  "map event_key (fst (dedup_filter sample_runtime 21 [titled_event ''a'']
     (fold dedup_batch
        [(sample_runtime, 0, [titled_event ''a'']), (sample_runtime, 15, [titled_event ''b'']),
         (sample_runtime, 20, [titled_event ''a'', titled_event ''c'', titled_event ''d''])]
        (dedup_new 3 10)))) = [''MiningAnomaly:title:a'']"
  by (simp add: dedup_filter_def dedup_batch_def dedup_new_def titled_event_def chain_event_new_def
      event_key_def is_duplicate_def record_fresh_def make_room_def duration_since_def Let_def)

end
