(* ===== verification/Zmq.thy ===== *)
theory Zmq
  imports Events Fifo
begin

text \<open>
  The Bitcoin Core ZeroMQ subscriber (\<open>bitcoin_zmq.rs\<close>): the notification sequence tracker, the
  parsers of multipart messages, raw transactions, raw blocks and sequence notifications, and the
  loop of one topic as a state machine driven by what the socket does.

  Consensus decoding, script classification and address encoding are done by the \<open>bitcoin\<close> crate
  and are fields of \<open>bitcoin_lib\<close>; a decoded transaction or block is a record of what the code reads
  from it. Errors carry the data from which the code renders their texts.
\<close>

section \<open>What the bitcoin crate provides\<close>

record btc_input =
  bi_prev_txid :: string
  bi_prev_vout :: u32
  bi_prev_null :: bool
  bi_sequence :: u32

record btc_output =
  bo_value :: u64
  bo_script :: "u8 list"

record btc_tx =
  bt_txid :: string
  bt_weight :: u64
  bt_vsize :: u64
  bt_total_size :: u64
  bt_inputs :: "btc_input list"
  bt_outputs :: "btc_output list"

record btc_block =
  bb_hash :: string
  bb_prev_hash :: string
  bb_time :: u32
  bb_bip34_height :: "u64 option"
  bb_weight :: u64
  bb_difficulty :: f64
  bb_txdata :: "btc_tx list"

record bitcoin_lib =
  bl_deserialize_tx :: "u8 list \<Rightarrow> string + btc_tx"
  bl_deserialize_block :: "u8 list \<Rightarrow> string + btc_block"
  bl_is_op_return :: "u8 list \<Rightarrow> bool"
  bl_is_p2pkh :: "u8 list \<Rightarrow> bool"
  bl_is_p2sh :: "u8 list \<Rightarrow> bool"
  bl_is_p2wpkh :: "u8 list \<Rightarrow> bool"
  bl_is_p2wsh :: "u8 list \<Rightarrow> bool"
  bl_is_p2tr :: "u8 list \<Rightarrow> bool"
  bl_address :: "u8 list \<Rightarrow> string option"

section \<open>Types\<close>

datatype zmq_malformed =
    FrameCount nat
  | UnexpectedTopic "u8 list"
  | SequenceFrameLength nat
  | SequenceTooShort nat
  | SequenceLength u8 nat

datatype bitcoin_zmq_error =
    PayloadTooLarge usize usize
  | MalformedMessage zmq_malformed
  | Deserialization string
  | InvalidSequenceTag u8

datatype bitcoin_zmq_topic = RawBlock | RawTx | Sequence

fun as_topic_str :: "bitcoin_zmq_topic \<Rightarrow> string" where
  "as_topic_str RawBlock = ''rawblock''"
| "as_topic_str RawTx = ''rawtx''"
| "as_topic_str Sequence = ''sequence''"

record bitcoin_zmq_config =
  zc_rawtx_endpoint :: "string option"
  zc_rawblock_endpoint :: "string option"
  zc_sequence_endpoint :: "string option"
  zc_max_message_size :: usize
  zc_initial_reconnect_ms :: u64
  zc_max_reconnect_ms :: u64

datatype bitcoin_sequence_event =
    BlockConnected string u32
  | BlockDisconnected string u32
  | TransactionAdded string u64 u32
  | TransactionRemoved string u64 u32

fun zmq_sequence :: "bitcoin_sequence_event \<Rightarrow> u32" where
  "zmq_sequence (BlockConnected h q) = q"
| "zmq_sequence (BlockDisconnected h q) = q"
| "zmq_sequence (TransactionAdded t m q) = q"
| "zmq_sequence (TransactionRemoved t m q) = q"

fun mempool_sequence :: "bitcoin_sequence_event \<Rightarrow> u64 option" where
  "mempool_sequence (TransactionAdded t m q) = Some m"
| "mempool_sequence (TransactionRemoved t m q) = Some m"
| "mempool_sequence (BlockConnected h q) = None"
| "mempool_sequence (BlockDisconnected h q) = None"

fun sequence_hash :: "bitcoin_sequence_event \<Rightarrow> string" where
  "sequence_hash (BlockConnected h q) = h"
| "sequence_hash (BlockDisconnected h q) = h"
| "sequence_hash (TransactionAdded t m q) = t"
| "sequence_hash (TransactionRemoved t m q) = t"

datatype bitcoin_zmq_message =
    MsgRawBlock block_observation "transaction_observation list" u32
  | MsgRawTx transaction_observation u32
  | MsgSequence bitcoin_sequence_event
  | MsgSequenceGap bitcoin_zmq_topic u32 u32 u32

section \<open>The sequence tracker\<close>

record zmq_sequence_tracker =
  last_seq :: "u32 option"

definition tracker_new :: zmq_sequence_tracker where
  "tracker_new = \<lparr>last_seq = None\<rparr>"

definition tracker_reset :: "zmq_sequence_tracker \<Rightarrow> zmq_sequence_tracker" where
  "tracker_reset t = t\<lparr>last_seq := None\<rparr>"

datatype sequence_check_result =
    Initial u32
  | Consecutive u32
  | Duplicate u32
  | Gap u32 u32 u32
  | Stale u32 u32

definition observe ::
  "u32 \<Rightarrow> zmq_sequence_tracker \<Rightarrow> sequence_check_result \<times> zmq_sequence_tracker" where
  "observe current t =
     (case last_seq t of
        None \<Rightarrow> (Initial current, t\<lparr>last_seq := Some current\<rparr>)
      | Some prev \<Rightarrow>
          let diff = current - prev
          in if diff = 0 then (Duplicate current, t)
             else if diff = 1 then (Consecutive current, t\<lparr>last_seq := Some current\<rparr>)
             else if diff < 0x80000000
             then (Gap prev current (diff - 1), t\<lparr>last_seq := Some current\<rparr>)
             else (Stale prev current, t))"

section \<open>Parsers\<close>

definition format_zmq_hash :: "u8 list \<Rightarrow> string" where
  "format_zmq_hash bytes = concat (map hex_byte bytes)"

definition bytes_of_string :: "string \<Rightarrow> u8 list" where
  "bytes_of_string s = map (\<lambda>c. of_nat (of_char c)) s"

text \<open>\<open>from_le_bytes\<close>: the first byte is the least significant.\<close>

fun le_value :: "u8 list \<Rightarrow> nat" where
  "le_value [] = 0"
| "le_value (b # bs) = unat b + 256 * le_value bs"

definition validate_and_extract_multipart ::
  "u8 list list \<Rightarrow> bitcoin_zmq_topic \<Rightarrow> bitcoin_zmq_error + (u8 list \<times> u32)" where
  "validate_and_extract_multipart frames expected_topic =
     (if length frames \<noteq> 3 then Inl (MalformedMessage (FrameCount (length frames)))
      else if frames ! 0 \<noteq> bytes_of_string (as_topic_str expected_topic)
      then Inl (MalformedMessage (UnexpectedTopic (frames ! 0)))
      else if length (frames ! 2) \<noteq> 4
      then Inl (MalformedMessage (SequenceFrameLength (length (frames ! 2))))
      else Inr (frames ! 1, of_nat (le_value (frames ! 2))))"

definition script_type :: "bitcoin_lib \<Rightarrow> u8 list \<Rightarrow> string option" where
  "script_type lib s =
     (if bl_is_op_return lib s then Some ''op_return''
      else if bl_is_p2pkh lib s then Some ''p2pkh''
      else if bl_is_p2sh lib s then Some ''p2sh''
      else if bl_is_p2wpkh lib s then Some ''v0_p2wpkh''
      else if bl_is_p2wsh lib s then Some ''v0_p2wsh''
      else if bl_is_p2tr lib s then Some ''v1_p2tr''
      else None)"

definition signals_rbf :: "btc_tx \<Rightarrow> bool" where
  "signals_rbf tx = list_ex (\<lambda>i. bi_sequence i < 0xFFFFFFFE) (bt_inputs tx)"

definition input_observation :: "btc_input \<Rightarrow> tx_input_observation" where
  "input_observation i =
     \<lparr>in_txid = bi_prev_txid i, in_vout = bi_prev_vout i, in_sequence = bi_sequence i,
      in_prev_out_value_sats = None, in_prev_out_address = None,
      in_is_coinbase = bi_prev_null i, in_historical_utxo = None\<rparr>"

definition output_observation :: "bitcoin_lib \<Rightarrow> nat \<Rightarrow> btc_output \<Rightarrow> tx_output_observation" where
  "output_observation lib idx o' =
     \<lparr>out_value_sats = bo_value o', out_n = of_nat idx,
      out_script_pubkey_type = script_type lib (bo_script o'),
      out_address = bl_address lib (bo_script o'),
      out_scriptpubkey_hex = Some (concat (map hex_byte (bo_script o')))\<rparr>"

definition output_observations :: "bitcoin_lib \<Rightarrow> btc_tx \<Rightarrow> tx_output_observation list" where
  "output_observations lib tx =
     map (\<lambda>(i, o'). output_observation lib i o') (enumerate 0 (bt_outputs tx))"

definition total_output :: "btc_tx \<Rightarrow> u64" where
  "total_output tx = foldl (\<lambda>acc o'. saturating_add acc (bo_value o')) 0 (bt_outputs tx)"

definition parse_raw_tx ::
  "bitcoin_lib \<Rightarrow> runtime \<Rightarrow> u8 list \<Rightarrow> string option \<Rightarrow> usize
     \<Rightarrow> bitcoin_zmq_error + transaction_observation" where
  "parse_raw_tx lib rt payload source_endpoint max_size =
     (if length payload > max_size then Inl (PayloadTooLarge (length payload) max_size)
      else case bl_deserialize_tx lib payload of
             Inl e \<Rightarrow> Inl (Deserialization e)
           | Inr tx \<Rightarrow>
               Inr \<lparr>tx_txid = bt_txid tx, tx_timestamp = rt_now rt, tx_block_hash = None,
                    tx_block_height = None, tx_fee_sats = 0, tx_size = of_nat (length payload),
                    tx_weight = bt_weight tx, tx_vsize = bt_vsize tx, tx_fee_rate_sat_vb = None,
                    tx_total_input_sats = 0, tx_total_output_sats = total_output tx,
                    tx_input_count = length (bt_inputs tx),
                    tx_output_count = length (bt_outputs tx),
                    tx_inputs = map input_observation (bt_inputs tx),
                    tx_outputs = output_observations lib tx,
                    tx_is_rbf = signals_rbf tx, tx_confirmed = False,
                    tx_source = Some (bitcoin_core_zmq
                      (case source_endpoint of Some ep \<Rightarrow> ep | None \<Rightarrow> ''zmq:rawtx''))\<rparr>)"

definition block_tx_observation ::
  "bitcoin_lib \<Rightarrow> string \<Rightarrow> u64 \<Rightarrow> datetime \<Rightarrow> observation_source \<Rightarrow> btc_tx
     \<Rightarrow> transaction_observation" where
  "block_tx_observation lib block_hash height timestamp src tx =
     \<lparr>tx_txid = bt_txid tx, tx_timestamp = timestamp, tx_block_hash = Some block_hash,
      tx_block_height = Some height, tx_fee_sats = 0, tx_size = bt_total_size tx,
      tx_weight = bt_weight tx, tx_vsize = bt_vsize tx, tx_fee_rate_sat_vb = None,
      tx_total_input_sats = 0, tx_total_output_sats = total_output tx,
      tx_input_count = length (bt_inputs tx), tx_output_count = length (bt_outputs tx),
      tx_inputs = map input_observation (bt_inputs tx),
      tx_outputs = output_observations lib tx,
      tx_is_rbf = signals_rbf tx, tx_confirmed = True, tx_source = Some src\<rparr>"

definition parse_raw_block ::
  "bitcoin_lib \<Rightarrow> u8 list \<Rightarrow> string option \<Rightarrow> usize
     \<Rightarrow> bitcoin_zmq_error + (block_observation \<times> transaction_observation list)" where
  "parse_raw_block lib payload source_endpoint max_size =
     (if length payload > max_size then Inl (PayloadTooLarge (length payload) max_size)
      else case bl_deserialize_block lib payload of
             Inl e \<Rightarrow> Inl (Deserialization e)
           | Inr block \<Rightarrow>
               let timestamp = from_timestamp (uint (bb_time block));
                   height = (case bb_bip34_height block of Some h \<Rightarrow> h | None \<Rightarrow> 0);
                   src = bitcoin_core_zmq
                     (case source_endpoint of Some ep \<Rightarrow> ep | None \<Rightarrow> ''zmq:rawblock'')
               in Inr (\<lparr>blk_hash = bb_hash block, blk_height = height, blk_timestamp = timestamp,
                        blk_previous_block_hash = bb_prev_hash block,
                        blk_tx_count = length (bb_txdata block),
                        blk_size_bytes = of_nat (length payload), blk_weight = bb_weight block,
                        blk_difficulty = Some (bb_difficulty block), blk_miner_tag = None,
                        blk_interval_seconds = None, blk_source = Some src\<rparr>,
                       map (block_tx_observation lib (bb_hash block) height timestamp src)
                         (bb_txdata block)))"

definition parse_sequence_event ::
  "u8 list \<Rightarrow> u32 \<Rightarrow> bitcoin_zmq_error + bitcoin_sequence_event" where
  "parse_sequence_event payload q =
     (if length payload < 33 then Inl (MalformedMessage (SequenceTooShort (length payload)))
      else
        let tag = payload ! 32;
            hash_display = format_zmq_hash (take 32 payload);
            m = of_nat (le_value (take 8 (drop 33 payload)))
        in if tag = 0x43 then
             if length payload \<noteq> 33 then Inl (MalformedMessage (SequenceLength tag (length payload)))
             else Inr (BlockConnected hash_display q)
           else if tag = 0x44 then
             if length payload \<noteq> 33 then Inl (MalformedMessage (SequenceLength tag (length payload)))
             else Inr (BlockDisconnected hash_display q)
           else if tag = 0x41 then
             if length payload \<noteq> 41 then Inl (MalformedMessage (SequenceLength tag (length payload)))
             else Inr (TransactionAdded hash_display m q)
           else if tag = 0x52 then
             if length payload \<noteq> 41 then Inl (MalformedMessage (SequenceLength tag (length payload)))
             else Inr (TransactionRemoved hash_display m q)
           else Inl (InvalidSequenceTag tag))"

section \<open>The subscriber\<close>

record bitcoin_zmq_endpoints_status =
  zs_rawtx :: source_health_state
  zs_rawblock :: source_health_state
  zs_sequence :: source_health_state

definition zmq_status_new :: "bitcoin_zmq_config \<Rightarrow> bitcoin_zmq_endpoints_status" where
  "zmq_status_new cfg =
     \<lparr>zs_rawtx = (if zc_rawtx_endpoint cfg \<noteq> None then Disconnected else NotConfigured),
      zs_rawblock = (if zc_rawblock_endpoint cfg \<noteq> None then Disconnected else NotConfigured),
      zs_sequence = (if zc_sequence_endpoint cfg \<noteq> None then Disconnected else NotConfigured)\<rparr>"

fun set_topic_status ::
  "bitcoin_zmq_topic \<Rightarrow> source_health_state \<Rightarrow> bitcoin_zmq_endpoints_status
     \<Rightarrow> bitcoin_zmq_endpoints_status" where
  "set_topic_status RawTx st s = s\<lparr>zs_rawtx := st\<rparr>"
| "set_topic_status RawBlock st s = s\<lparr>zs_rawblock := st\<rparr>"
| "set_topic_status Sequence st s = s\<lparr>zs_sequence := st\<rparr>"

text \<open>
  One topic's loop. \<open>Dial\<close> is the top of the outer loop; the socket then fails to connect, fails
  to subscribe, or is subscribed, after which it delivers messages until receiving fails. A
  delivery says how many more messages the receiving end of the channel takes before it is closed;
  the loop returns at the first message it cannot send. The back-off is in milliseconds.
\<close>

datatype loop_phase = Idle | Dialing | Receiving | Stopped

datatype socket_event =
  Dial | ConnectFailed | SubscribeFailed | Subscribed | RecvFailed | Received "u8 list list" nat

record topic_loop =
  tl_phase :: loop_phase
  tl_status :: source_health_state
  tl_backoff :: nat
  tl_tracker :: zmq_sequence_tracker
  tl_sent :: "bitcoin_zmq_message list"

definition topic_loop_init :: "bitcoin_zmq_config \<Rightarrow> topic_loop" where
  "topic_loop_init cfg =
     \<lparr>tl_phase = Idle, tl_status = Disconnected, tl_backoff = unat (zc_initial_reconnect_ms cfg),
      tl_tracker = tracker_new, tl_sent = []\<rparr>"

definition back_off :: "bitcoin_zmq_config \<Rightarrow> topic_loop \<Rightarrow> topic_loop" where
  "back_off cfg s =
     s\<lparr>tl_phase := Idle, tl_status := Disconnected,
       tl_backoff := min (tl_backoff s * 2) (unat (zc_max_reconnect_ms cfg))\<rparr>"

definition parse_payload ::
  "bitcoin_lib \<Rightarrow> runtime \<Rightarrow> bitcoin_zmq_config \<Rightarrow> bitcoin_zmq_topic \<Rightarrow> string \<Rightarrow> u8 list \<Rightarrow> u32
     \<Rightarrow> bitcoin_zmq_message list" where
  "parse_payload lib rt cfg topic ep payload q =
     (case topic of
        RawTx \<Rightarrow>
          (case parse_raw_tx lib rt payload (Some ep) (zc_max_message_size cfg) of
             Inr tx \<Rightarrow> [MsgRawTx tx q] | Inl e \<Rightarrow> [])
      | RawBlock \<Rightarrow>
          (case parse_raw_block lib payload (Some ep) (zc_max_message_size cfg) of
             Inr (b, txs) \<Rightarrow> [MsgRawBlock b txs q] | Inl e \<Rightarrow> [])
      | Sequence \<Rightarrow>
          (case parse_sequence_event payload q of Inr ev \<Rightarrow> [MsgSequence ev] | Inl e \<Rightarrow> []))"

definition receive_message ::
  "bitcoin_lib \<Rightarrow> runtime \<Rightarrow> bitcoin_zmq_config \<Rightarrow> bitcoin_zmq_topic \<Rightarrow> string \<Rightarrow> u8 list list \<Rightarrow> nat
     \<Rightarrow> topic_loop \<Rightarrow> topic_loop" where
  "receive_message lib rt cfg topic ep frames taken s =
     (case validate_and_extract_multipart frames topic of
        Inl e \<Rightarrow> s
      | Inr (payload, q) \<Rightarrow>
          (case observe q (tl_tracker s) of (res, tracker) \<Rightarrow>
             let (gap, status) = (case res of
                   Gap prev cur missed \<Rightarrow> ([MsgSequenceGap topic prev cur missed], Degraded)
                 | _ \<Rightarrow> ([], tl_status s));
                 msgs = gap @ parse_payload lib rt cfg topic ep payload q;
                 s1 = s\<lparr>tl_tracker := tracker, tl_status := status\<rparr>
             in s1\<lparr>tl_sent := tl_sent s @ take taken msgs,
                   tl_phase := (if length msgs \<le> taken then tl_phase s else Stopped)\<rparr>))"

definition run_topic_loop ::
  "bitcoin_lib \<Rightarrow> runtime \<Rightarrow> bitcoin_zmq_config \<Rightarrow> bitcoin_zmq_topic \<Rightarrow> string \<Rightarrow> socket_event
     \<Rightarrow> topic_loop \<Rightarrow> topic_loop" where
  "run_topic_loop lib rt cfg topic ep e s =
     (case (tl_phase s, e) of
        (Idle, Dial) \<Rightarrow> s\<lparr>tl_phase := Dialing, tl_status := Connecting\<rparr>
      | (Dialing, ConnectFailed) \<Rightarrow> back_off cfg s
      | (Dialing, SubscribeFailed) \<Rightarrow> back_off cfg s
      | (Dialing, Subscribed) \<Rightarrow>
          s\<lparr>tl_phase := Receiving, tl_status := Connected,
            tl_backoff := unat (zc_initial_reconnect_ms cfg), tl_tracker := tracker_new\<rparr>
      | (Receiving, RecvFailed) \<Rightarrow> back_off cfg s
      | (Receiving, Received frames taken) \<Rightarrow> receive_message lib rt cfg topic ep frames taken s
      | _ \<Rightarrow> s)"

section \<open>Sequence tracking over a stream\<close>

lemma observe_next:
  fixes prev :: u32
  assumes "last_seq t = Some prev" "0 < k" "k < 2 ^ 31"
  shows "observe (prev + of_nat k) t =
    (if k = 1 then Consecutive (prev + 1) else Gap prev (prev + of_nat k) (of_nat (k - 1)),
     t\<lparr>last_seq := Some (prev + of_nat k)\<rparr>)"
proof -
  have u: "unat (of_nat k :: u32) = k" using assms(3) by (simp add: unat_of_nat_less)
  have "(of_nat k :: u32) \<noteq> 0" using u assms(2) by auto
  moreover have "(of_nat k :: u32) = 1 \<longleftrightarrow> k = 1" using u by (auto simp: word_unat_eq_iff)
  moreover have "(of_nat k :: u32) < 0x80000000" using u assms(3) by (simp add: word_less_nat_alt)
  moreover have "(of_nat k :: u32) - 1 = of_nat (k - 1)" using assms(2) by (simp add: of_nat_diff)
  ultimately show ?thesis using assms(1) by (auto simp: observe_def Let_def)
qed

fun feed :: "u32 list \<Rightarrow> zmq_sequence_tracker \<Rightarrow> sequence_check_result list" where
  "feed [] t = []"
| "feed (q # qs) t = (case observe q t of (r, t') \<Rightarrow> r # feed qs t')"

fun missed_of :: "sequence_check_result \<Rightarrow> nat" where
  "missed_of (Gap prev cur missed) = unat missed"
| "missed_of _ = 0"

text \<open>The positions, in the published stream, of the notifications that arrived.\<close>

fun arrives :: "nat \<Rightarrow> nat list \<Rightarrow> bool" where
  "arrives i [] = True"
| "arrives i (j # js) = (i < j \<and> j - i < 2 ^ 31 \<and> arrives j js)"

lemma feed_missed:
  assumes "last_seq t = Some (base + of_nat i)" "arrives i js"
  shows "sum_list (map missed_of (feed (map (\<lambda>j. base + of_nat j) js) t)) + length js + i =
    last (i # js)"
  using assms
proof (induction js arbitrary: i t)
  case (Cons j js)
  let ?k = "j - i"
  have k: "0 < ?k" "?k < 2 ^ 31" "i < j" using Cons.prems(2) by auto
  have j: "base + of_nat j = base + of_nat i + (of_nat ?k :: u32)"
    using k(3) by (simp add: of_nat_diff)
  define t' where "t' = t\<lparr>last_seq := Some (base + of_nat j)\<rparr>"
  have o: "observe (base + of_nat j) t =
      (if ?k = 1 then Consecutive (base + of_nat i + 1)
       else Gap (base + of_nat i) (base + of_nat j) (of_nat (?k - 1)), t')"
    using observe_next [OF Cons.prems(1) k(1,2)] by (simp add: j t'_def)
  have m: "missed_of (fst (observe (base + of_nat j) t)) = ?k - 1"
    using k(2) by (simp add: o unat_of_nat_less)
  have "sum_list (map missed_of (feed (map (\<lambda>j. base + of_nat j) js) t')) + length js + j = last (j # js)"
    using Cons.prems by (intro Cons.IH) (simp_all add: t'_def)
  with m k(3) show ?case by (simp add: o split: if_splits)
qed simp

section \<open>Byte encodings\<close>

text \<open>The little-endian bytes of a number, as the publisher writes them.\<close>

fun to_le :: "nat \<Rightarrow> nat \<Rightarrow> u8 list" where
  "to_le 0 v = []"
| "to_le (Suc n) v = of_nat (v mod 256) # to_le n (v div 256)"

lemma length_to_le [simp]: "length (to_le n v) = n"
  by (induction n v rule: to_le.induct) simp_all

lemma le_value_to_le: "v < 256 ^ n \<Longrightarrow> le_value (to_le n v) = v"
proof (induction n v rule: to_le.induct)
  case (2 n v)
  have "unat (of_nat (v mod 256) :: u8) = v mod 256" by (simp add: unat_of_nat_less)
  with 2 show ?case by simp
qed simp

lemma le_value_u64: "of_nat (le_value (to_le 8 (unat (m :: u64)))) = m"
  using unsigned_less [of m, where 'a = nat] by (simp add: le_value_to_le)

lemma le_value_u32: "of_nat (le_value (to_le 4 (unat (m :: u32)))) = m"
  using unsigned_less [of m, where 'a = nat] by (simp add: le_value_to_le)

text \<open>A block notification and a mempool notification on the wire.\<close>

definition block_payload :: "u8 list \<Rightarrow> u8 \<Rightarrow> u8 list" where
  "block_payload h tag = h @ [tag]"

definition mempool_payload :: "u8 list \<Rightarrow> u8 \<Rightarrow> u64 \<Rightarrow> u8 list" where
  "mempool_payload h tag m = h @ [tag] @ to_le 8 (unat m)"

lemma payload_parts:
  assumes "length h = 32"
  shows "block_payload h tag ! 32 = tag" "take 32 (block_payload h tag) = h"
    "length (block_payload h tag) = 33" "mempool_payload h tag m ! 32 = tag"
    "take 32 (mempool_payload h tag m) = h" "length (mempool_payload h tag m) = 41"
    "take 8 (drop 33 (mempool_payload h tag m)) = to_le 8 (unat m)"
  using assms by (simp_all add: block_payload_def mempool_payload_def nth_append)

section \<open>Invariant of the loop\<close>

definition loop_ok :: "bitcoin_zmq_config \<Rightarrow> topic_loop \<Rightarrow> bool" where
  "loop_ok cfg s \<longleftrightarrow>
     tl_backoff s \<le> max (unat (zc_initial_reconnect_ms cfg)) (unat (zc_max_reconnect_ms cfg))
     \<and> (case tl_phase s of
          Idle \<Rightarrow> tl_status s = Disconnected
        | Dialing \<Rightarrow> tl_status s = Connecting
        | Receiving \<Rightarrow> tl_status s = Connected
            \<or> tl_status s = Degraded \<and> (\<exists>topic p c m. MsgSequenceGap topic p c m \<in> set (tl_sent s))
        | Stopped \<Rightarrow> tl_status s \<in> {Connected, Degraded})"

lemma loop_ok_init: "loop_ok cfg (topic_loop_init cfg)"
  by (simp add: loop_ok_def topic_loop_init_def)

lemma loop_ok_backoff:
  "loop_ok cfg s \<Longrightarrow>
     tl_backoff s \<le> max (unat (zc_initial_reconnect_ms cfg)) (unat (zc_max_reconnect_ms cfg))"
  by (simp add: loop_ok_def)

lemma loop_ok_receive:
  assumes "loop_ok cfg s" "tl_phase s = Receiving"
  shows "loop_ok cfg (receive_message lib rt cfg topic ep frames taken s)"
proof (cases "validate_and_extract_multipart frames topic")
  case (Inl e)
  then show ?thesis using assms by (simp add: receive_message_def)
next
  case (Inr pq)
  obtain payload q where pq: "pq = (payload, q)" by (cases pq)
  obtain res tr where o: "observe q (tl_tracker s) = (res, tr)" by (cases "observe q (tl_tracker s)")
  show ?thesis
    using assms Inr pq o
    by (cases res) (auto simp: receive_message_def loop_ok_def Let_def)
qed

lemma loop_ok_step:
  assumes "loop_ok cfg s"
  shows "loop_ok cfg (run_topic_loop lib rt cfg topic ep e s)"
proof (cases "tl_phase s = Receiving \<and> (\<exists>f b. e = Received f b)")
  case True
  then show ?thesis using assms loop_ok_receive by (auto simp: run_topic_loop_def)
next
  case False
  have "back_off cfg s = s\<lparr>tl_phase := Idle, tl_status := Disconnected,
      tl_backoff := min (tl_backoff s * 2) (unat (zc_max_reconnect_ms cfg))\<rparr>"
    by (simp add: back_off_def)
  with False assms show ?thesis
    by (cases "tl_phase s"; cases e) (auto simp: run_topic_loop_def loop_ok_def back_off_def)
qed

interpretation topic_machine: bounded_store
  "\<lambda>(rt, e). run_topic_loop lib rt cfg topic ep e" "loop_ok cfg" tl_backoff
  "\<lambda>s. max (unat (zc_initial_reconnect_ms cfg)) (unat (zc_max_reconnect_ms cfg))"
  for lib cfg topic ep
  by unfold_locales (auto simp: loop_ok_step loop_ok_backoff)

section \<open>Properties\<close>

text \<open>
  The tracker accounts for every lost notification: if of a stream of consecutively numbered
  notifications those at the positions i, js arrive, no two successive ones 0x80000000 or more
  apart, then the gaps it reports add up to the number of positions skipped, also when the 32-bit
  counter wraps around.
\<close>

theorem tracker_counts_missed:
  assumes "arrives i js"
  shows "sum_list (map missed_of (feed (map (\<lambda>j. base + of_nat j) (i # js)) tracker_new))
    + length js + i = last (i # js)"
  using feed_missed [of "tracker_new\<lparr>last_seq := Some (base + of_nat i)\<rparr>" base i js] assms
  by (simp add: observe_def tracker_new_def)

theorem tracker_counts_missed_witness:
  "sum_list (map missed_of (feed (map (\<lambda>j. 0xFFFFFFFE + of_nat j) [0, 1, 4]) tracker_new)) + 2 + 0 = 4"
  using tracker_counts_missed [of 0 "[1, 4]" "0xFFFFFFFE"] by simp

text \<open>
  A sequence notification is accepted exactly when it has one of the four documented shapes:
  33 bytes with tag C or D, or 41 bytes with tag A or R; everything else is an error value.
\<close>

theorem parse_sequence_event_accepts:
  "(\<exists>ev. parse_sequence_event p q = Inr ev) \<longleftrightarrow>
     length p = 33 \<and> p ! 32 \<in> {0x43, 0x44} \<or> length p = 41 \<and> p ! 32 \<in> {0x41, 0x52}"
  by (auto simp: parse_sequence_event_def Let_def)

text \<open>
  Parsing inverts the publisher's encoding for all four kinds of notification, keeping the
  hash in display order, the 64-bit mempool sequence and the notification sequence.
\<close>

theorem parse_sequence_event_roundtrip:
  assumes "length h = 32"
  shows "parse_sequence_event (block_payload h 0x43) q = Inr (BlockConnected (format_zmq_hash h) q)
    \<and> parse_sequence_event (block_payload h 0x44) q = Inr (BlockDisconnected (format_zmq_hash h) q)
    \<and> parse_sequence_event (mempool_payload h 0x41 m) q = Inr (TransactionAdded (format_zmq_hash h) m q)
    \<and> parse_sequence_event (mempool_payload h 0x52 m) q = Inr (TransactionRemoved (format_zmq_hash h) m q)"
  by (simp add: parse_sequence_event_def Let_def payload_parts [OF assms] le_value_u64)

theorem parse_sequence_event_roundtrip_witness:
  "parse_sequence_event (mempool_payload (replicate 32 0xAB) 0x41 259) 7 =
     Inr (TransactionAdded (format_zmq_hash (replicate 32 0xAB)) 259 7)"
  using parse_sequence_event_roundtrip [of "replicate 32 0xAB" 7 259] by simp

text \<open>
  A multipart message is accepted exactly when it consists of the expected topic, a body and
  a four-byte counter; the body is passed on unchanged and the counter is its little-endian value.
\<close>

theorem multipart_accepts:
  "validate_and_extract_multipart frames topic = Inr (body, q) \<longleftrightarrow>
     (\<exists>sf. frames = [bytes_of_string (as_topic_str topic), body, sf] \<and> length sf = 4
        \<and> q = of_nat (le_value sf))"
proof
  assume "validate_and_extract_multipart frames topic = Inr (body, q)"
  then have "length frames = 3" "frames ! 0 = bytes_of_string (as_topic_str topic)"
    "length (frames ! 2) = 4" "frames ! 1 = body" "q = of_nat (le_value (frames ! 2))"
    by (simp_all add: validate_and_extract_multipart_def split: if_splits)
  moreover have "frames = [frames ! 0, frames ! 1, frames ! 2]" if "length frames = 3"
    using that by (auto simp: numeral_3_eq_3 length_Suc_conv)
  ultimately show "\<exists>sf. frames = [bytes_of_string (as_topic_str topic), body, sf] \<and> length sf = 4
      \<and> q = of_nat (le_value sf)" by metis
qed (auto simp: validate_and_extract_multipart_def)

text \<open>
  Whatever the socket does, the topic loop keeps its status truthful: disconnected while it
  waits, connecting while it dials, connected while it receives, and degraded only after it has
  reported a gap; and its back-off never exceeds the larger of the two configured delays.
\<close>

theorem topic_loop_invariant:
  "loop_ok cfg (fold (\<lambda>(rt, e). run_topic_loop lib rt cfg topic ep e) events (topic_loop_init cfg))"
  by (rule topic_machine.ok_fold) (rule loop_ok_init)

lemma foldl_saturating:
  "unat (foldl (\<lambda>acc x. saturating_add acc (f x)) a xs) =
     min (unat a + sum_list (map (\<lambda>x. unat (f x)) xs)) (2 ^ LENGTH('a) - 1)"
  for f :: "'b \<Rightarrow> 'a::len word"
proof (induction xs arbitrary: a)
  case Nil
  have "unat a < 2 ^ LENGTH('a)" by (rule unsigned_less)
  then have "unat a \<le> 2 ^ LENGTH('a) - 1" by linarith
  then show ?case by simp
next
  case (Cons x xs)
  then show ?case by (simp add: unat_saturating_add)
qed

text \<open>
  A parsed block is consistent: it counts its transactions, every transaction observation
  carries the block's hash, height and time, is confirmed, numbers its outputs from zero, and
  totals them (up to the 64-bit ceiling); nothing larger than the configured size is parsed.
\<close>

theorem parse_raw_block_consistent:
  assumes "parse_raw_block lib payload ep max_size = Inr (b, txs)"
  shows "length payload \<le> max_size \<and> blk_tx_count b = length txs
    \<and> (\<forall>t \<in> set txs. tx_block_hash t = Some (blk_hash b) \<and> tx_block_height t = Some (blk_height b)
        \<and> tx_timestamp t = blk_timestamp b \<and> tx_confirmed t
        \<and> tx_output_count t = length (tx_outputs t)
        \<and> (\<forall>i < length (tx_outputs t). out_n (tx_outputs t ! i) = of_nat i)
        \<and> unat (tx_total_output_sats t) =
            min (sum_list (map (\<lambda>o'. unat (out_value_sats o')) (tx_outputs t))) (2 ^ 64 - 1))"
proof -
  obtain block where dec: "bl_deserialize_block lib payload = Inr block" "length payload \<le> max_size"
    using assms by (auto simp: parse_raw_block_def split: if_splits sum.splits)
  let ?h = "case bb_bip34_height block of Some h \<Rightarrow> h | None \<Rightarrow> 0"
  let ?t = "from_timestamp (uint (bb_time block))"
  let ?src = "bitcoin_core_zmq (case ep of Some e \<Rightarrow> e | None \<Rightarrow> ''zmq:rawblock'')"
  have b: "blk_hash b = bb_hash block" "blk_height b = ?h" "blk_timestamp b = ?t"
      "blk_tx_count b = length (bb_txdata block)"
    and txs: "txs = map (block_tx_observation lib (bb_hash block) ?h ?t ?src) (bb_txdata block)"
    using assms dec by (auto simp: parse_raw_block_def Let_def)
  have vals: "map (\<lambda>o'. unat (out_value_sats o')) (output_observations lib tx) =
      map (\<lambda>o'. unat (bo_value o')) (bt_outputs tx)" for tx
    by (rule nth_equalityI)
      (simp_all add: output_observations_def output_observation_def nth_enumerate_eq)
  have "out_n (output_observations lib tx ! i) = of_nat i" if "i < length (bt_outputs tx)" for tx i
    using that by (simp add: output_observations_def output_observation_def nth_enumerate_eq)
  moreover have "length (output_observations lib tx) = length (bt_outputs tx)" for tx
    by (simp add: output_observations_def)
  moreover have "unat (total_output tx) =
      min (sum_list (map (\<lambda>o'. unat (bo_value o')) (bt_outputs tx))) (2 ^ 64 - 1)" for tx
    by (simp add: total_output_def foldl_saturating)
  ultimately show ?thesis
    using b dec(2) by (auto simp: txs block_tx_observation_def vals)
qed

text \<open>A decoder that knows one transaction and one block.\<close>

definition sample_lib :: bitcoin_lib where
  "sample_lib =
     (let tx = \<lparr>bt_txid = ''t'', bt_weight = 400, bt_vsize = 100, bt_total_size = 100, bt_inputs = [],
                bt_outputs = [\<lparr>bo_value = 5, bo_script = [0x6A]\<rparr>, \<lparr>bo_value = 6, bo_script = []\<rparr>]\<rparr>
      in \<lparr>bl_deserialize_tx = (\<lambda>p. Inr tx),
          bl_deserialize_block = (\<lambda>p. Inr \<lparr>bb_hash = ''b'', bb_prev_hash = ''a'', bb_time = 9,
             bb_bip34_height = Some 3, bb_weight = 800, bb_difficulty = Finite False 1,
             bb_txdata = [tx]\<rparr>),
          bl_is_op_return = (\<lambda>s. s = [0x6A]), bl_is_p2pkh = (\<lambda>s. False), bl_is_p2sh = (\<lambda>s. False),
          bl_is_p2wpkh = (\<lambda>s. False), bl_is_p2wsh = (\<lambda>s. False), bl_is_p2tr = (\<lambda>s. False),
          bl_address = (\<lambda>s. None)\<rparr>)"

theorem parse_raw_block_consistent_witness:
  "\<exists>b txs. parse_raw_block sample_lib [1, 2] None 10 = Inr (b, txs) \<and> blk_tx_count b = 1
     \<and> length txs = 1 \<and> (\<forall>t \<in> set txs. tx_block_hash t = Some (blk_hash b))"
proof -
  obtain b txs where p: "parse_raw_block sample_lib [1, 2] None 10 = Inr (b, txs)" "blk_tx_count b = 1"
    by (simp add: parse_raw_block_def sample_lib_def Let_def)
  with parse_raw_block_consistent [OF p(1)] show ?thesis by auto
qed

end
