(* ===== verification/Incidents.thy ===== *)
theory Incidents
  imports Events "HOL-Library.Multiset"
begin

text \<open>
  Incident dossiers: the data of \<open>incident.rs\<close>, the validators of \<open>validation.rs\<close> and the builder
  of \<open>builder.rs\<close>, with the report and the address cluster of \<open>obschain-intelligence\<close>.

  A validation error carries the data from which the code renders its text. The lemmas show that
  validation accepts exactly the well-formed dossiers and that no sequence of builder calls mixes
  the tiers of certainty.
\<close>

section \<open>Data\<close>

datatype chain = Bitcoin | Liquid

datatype provenance_classification =
  OnChainVerified | OfficiallyAttributed | ReputableReporting | PHeuristic | Unverified | PDisputed

fun provenance_debug :: "provenance_classification \<Rightarrow> string" where
  "provenance_debug OnChainVerified = ''OnChainVerified''"
| "provenance_debug OfficiallyAttributed = ''OfficiallyAttributed''"
| "provenance_debug ReputableReporting = ''ReputableReporting''"
| "provenance_debug PHeuristic = ''Heuristic''"
| "provenance_debug Unverified = ''Unverified''"
| "provenance_debug PDisputed = ''Disputed''"

definition is_cryptographically_verified :: "provenance_classification \<Rightarrow> bool" where
  "is_cryptographically_verified p = (p = OnChainVerified)"

definition allows_definitive_ownership_claim :: "provenance_classification \<Rightarrow> bool" where
  "allows_definitive_ownership_claim p = (p \<in> {OnChainVerified, OfficiallyAttributed})"

definition allows_verified_identity_claim :: "provenance_classification \<Rightarrow> bool" where
  "allows_verified_identity_claim p = (p = OfficiallyAttributed)"

datatype incident_status =
  Detected | Investigating | Verified | Monitoring | IRecovery | Resolved | Closed
  | IOpen | Mitigated | IDisputed

datatype evidence_type =
  OnChainTransaction | OnChainBlock | MempoolSnapshot | OfficialStatement
  | EOfficialTechnicalReport | ESecurityAdvisory | ESourceRepository | HeuristicCluster
  | DisputedClaim | EIndependentReporting

datatype source_category =
  BitcoinBlockchain | LiquidBlockchain | OfficialTechnicalReport | OfficialPublicStatement
  | SourceRepository | SecurityAdvisory | IndependentReporting

text \<open>A single-precision score is only stored; it is kept as the double of the same value.\<close>

record source =
  src_id :: uuid
  src_publisher :: string
  src_title :: string
  src_url :: "string option"
  src_publication_timestamp :: "datetime option"
  src_retrieved_timestamp :: "datetime option"
  src_category :: source_category
  src_reliability_score :: f64
  src_name :: "string option"

definition source_new ::
  "runtime \<Rightarrow> string \<Rightarrow> string \<Rightarrow> source_category \<Rightarrow> string option \<Rightarrow> f64 \<Rightarrow> source" where
  "source_new rt publisher title category url score =
     \<lparr>src_id = rt_uuid_v4 rt, src_publisher = publisher, src_title = title, src_url = url,
      src_publication_timestamp = Some (rt_now rt), src_retrieved_timestamp = Some (rt_now rt),
      src_category = category, src_reliability_score = score, src_name = Some publisher\<rparr>"

record evidence =
  evi_id :: uuid
  evi_incident_id :: uuid
  evi_type :: evidence_type
  evi_confidence :: provenance_classification
  evi_title :: string
  evi_description :: string
  evi_observed_at :: "datetime option"
  evi_source_id :: "uuid option"
  evi_source_reference :: "string option"
  evi_txid :: "string option"
  evi_block_hash :: "string option"
  evi_block_height :: "u64 option"
  evi_chain :: chain
  evi_verified :: bool
  evi_raw_data :: "json option"
  evi_created_at :: datetime
  evi_reference :: "string option"
  evi_classification :: "provenance_classification option"

datatype transaction_role =
  RExploit | PegOut | Transfer | Forwarding | Return | RRecovery | RCommunication | ROther

record incident_transaction =
  itx_chain :: chain
  itx_txid :: string
  itx_role :: transaction_role
  itx_amount_sats :: "u64 option"
  itx_block_height :: "u64 option"
  itx_block_hash :: "string option"
  itx_confirmed_at :: "datetime option"
  itx_evidence_id :: "uuid option"
  itx_notes :: "string option"

record incident_block =
  ibk_chain :: chain
  ibk_height :: u64
  ibk_hash :: string
  ibk_timestamp :: datetime
  ibk_tx_count :: "usize option"
  ibk_evidence_id :: "uuid option"

record incident_entity =
  ent_id :: uuid
  ent_name :: string
  ent_type :: string
  ent_description :: string
  ent_attribution_confidence :: provenance_classification

record on_chain_message =
  ocm_txid :: string
  ocm_chain :: chain
  ocm_encoding :: string
  ocm_decoded_text :: string
  ocm_raw_hex :: string
  ocm_confirmed_at :: "datetime option"
  ocm_block_height :: "u64 option"
  ocm_attributed_sender :: "string option"
  ocm_sender_attribution_confidence :: provenance_classification

datatype timeline_category =
  TExploit | OnChainMovement | Discovery | Containment | TCommunication | Disclosure | Patch
  | TRecovery | NetworkRestart | TOther

record timeline_entry =
  tle_id :: uuid
  tle_timestamp :: datetime
  tle_title :: string
  tle_description :: string
  tle_category :: timeline_category
  tle_source_id :: "uuid option"
  tle_evidence_ids :: "uuid list"
  tle_transaction_txids :: "string list"
  tle_block_heights :: "u64 list"
  tle_classification :: provenance_classification

record recovery_summary =
  rec_affected_sats :: u64
  rec_recovered_sats :: u64
  rec_outstanding_sats :: u64
  rec_as_of_timestamp :: datetime
  rec_source :: "string option"
  rec_is_estimate :: bool

definition recovery_summary_new :: "u64 \<Rightarrow> u64 \<Rightarrow> datetime \<Rightarrow> recovery_summary" where
  "recovery_summary_new affected recovered as_of =
     \<lparr>rec_affected_sats = affected, rec_recovered_sats = recovered,
      rec_outstanding_sats = saturating_sub affected recovered, rec_as_of_timestamp = as_of,
      rec_source = None, rec_is_estimate = False\<rparr>"

definition recovery_with_source :: "string \<Rightarrow> recovery_summary \<Rightarrow> recovery_summary" where
  "recovery_with_source s r = r\<lparr>rec_source := Some s\<rparr>"

definition recovery_with_estimate :: "bool \<Rightarrow> recovery_summary \<Rightarrow> recovery_summary" where
  "recovery_with_estimate b r = r\<lparr>rec_is_estimate := b\<rparr>"

definition recovery_percentage :: "recovery_summary \<Rightarrow> f64" where
  "recovery_percentage r =
     (if rec_affected_sats r = 0 then f64_lit 0
      else f64_mul (f64_div (f64_of_word (rec_recovered_sats r)) (f64_of_word (rec_affected_sats r)))
             (f64_lit 100))"

definition affected_btc :: "recovery_summary \<Rightarrow> f64" where
  "affected_btc r = f64_div (f64_of_word (rec_affected_sats r)) (f64_lit 100000000)"

definition recovered_btc :: "recovery_summary \<Rightarrow> f64" where
  "recovered_btc r = f64_div (f64_of_word (rec_recovered_sats r)) (f64_lit 100000000)"

definition outstanding_btc :: "recovery_summary \<Rightarrow> f64" where
  "outstanding_btc r = f64_div (f64_of_word (rec_outstanding_sats r)) (f64_lit 100000000)"

record incident_update =
  upd_id :: uuid
  upd_timestamp :: datetime
  upd_title :: string
  upd_summary :: string
  upd_source_id :: "uuid option"
  upd_recovery_state :: "recovery_summary option"

record technical_finding =
  tf_component :: string
  tf_area :: string
  tf_category :: string
  tf_summary :: string
  tf_root_cause_details :: string
  tf_fix_summary :: string
  tf_repository_url :: "string option"
  tf_pull_request_id :: "string option"
  tf_commit_hash :: "string option"

record structured_claims_summary =
  scs_verified_on_chain :: "string list"
  scs_officially_attributed :: "string list"
  scs_reported :: "string list"
  scs_heuristic :: "string list"
  scs_unknown :: "string list"

datatype graph_node_type = NTransaction | NBlock | NAddress | NEntity | NSource | NEvidence

record graph_node =
  gn_id :: string
  gn_label :: string
  gn_node_type :: graph_node_type
  gn_chain :: "chain option"
  gn_metadata :: "json option"

datatype graph_edge_type =
  Spends | ConfirmedIn | ForwardsTo | ReturnsTo | References | Supports | AttributedTo
  | PossiblyRelated

record graph_edge =
  ge_source :: string
  ge_target :: string
  ge_relationship :: graph_edge_type
  ge_confidence :: provenance_classification

record incident_graph =
  ig_nodes :: "graph_node list"
  ig_edges :: "graph_edge list"

definition incident_graph_new :: incident_graph where
  "incident_graph_new = \<lparr>ig_nodes = [], ig_edges = []\<rparr>"

definition graph_add_node :: "graph_node \<Rightarrow> incident_graph \<Rightarrow> incident_graph" where
  "graph_add_node n g =
     (if list_ex (\<lambda>m. gn_id m = gn_id n) (ig_nodes g) then g
      else g\<lparr>ig_nodes := ig_nodes g @ [n]\<rparr>)"

definition graph_add_edge :: "graph_edge \<Rightarrow> incident_graph \<Rightarrow> incident_graph" where
  "graph_add_edge e g = g\<lparr>ig_edges := ig_edges g @ [e]\<rparr>"

record incident =
  ic_id :: uuid
  ic_case_id :: string
  ic_title :: string
  ic_summary :: string
  ic_status :: incident_status
  ic_severity :: event_severity
  ic_recovery :: recovery_summary
  ic_first_observed_at :: datetime
  ic_last_updated_at :: datetime
  ic_structured_claims :: structured_claims_summary
  ic_entities :: "incident_entity list"
  ic_transactions :: "incident_transaction list"
  ic_blocks :: "incident_block list"
  ic_on_chain_messages :: "on_chain_message list"
  ic_timeline :: "timeline_entry list"
  ic_evidence :: "evidence list"
  ic_sources :: "source list"
  ic_technical_findings :: "technical_finding list"
  ic_updates :: "incident_update list"
  ic_graph :: incident_graph
  ic_total_btc_affected :: f64
  ic_total_btc_recovered :: f64
  ic_facts :: "string list"
  ic_reported_claims :: "string list"
  ic_unverified_claims :: "string list"
  ic_associated_txids :: "string list"
  ic_associated_block_heights :: "u64 list"

section \<open>Validation\<close>

datatype validation_reason =
    OwnershipClaim provenance_classification
  | NoOnChainBacking
  | SelfAttributedIdentity
  | DuplicateNode string
  | DanglingSource string
  | DanglingTarget string
  | RecoveredExceedsAffected u64 u64
  | OutstandingMismatch u64 u64
  | TimelineOrder string datetime datetime
  | DuplicateEvidence uuid
  | UpdateOrder string datetime datetime

datatype core_error = ProvenanceViolation validation_reason | Validation validation_reason

type_synonym check = "core_error + unit"

text \<open>The \<open>?\<close> operator on checks: the first error is returned.\<close>

definition and_then :: "check \<Rightarrow> check \<Rightarrow> check" where
  "and_then a b = (case a of Inl e \<Rightarrow> Inl e | Inr _ \<Rightarrow> b)"

definition validate_evidence_claim :: "evidence \<Rightarrow> bool \<Rightarrow> check" where
  "validate_evidence_claim ev is_definitive_ownership_claim =
     (if is_definitive_ownership_claim \<and> \<not> allows_definitive_ownership_claim (evi_confidence ev)
      then Inl (ProvenanceViolation (OwnershipClaim (evi_confidence ev)))
      else Inr ())"

definition require_on_chain_backing :: "provenance_classification \<Rightarrow> check" where
  "require_on_chain_backing p =
     (if \<not> is_cryptographically_verified p then Inl (ProvenanceViolation NoOnChainBacking)
      else Inr ())"

definition validate_sender_identity_claim :: "bool \<Rightarrow> provenance_classification \<Rightarrow> check" where
  "validate_sender_identity_claim is_self_attributed p =
     (if is_self_attributed \<and> is_cryptographically_verified p
      then Inl (ProvenanceViolation SelfAttributedIdentity)
      else Inr ())"

fun check_nodes :: "string set \<Rightarrow> graph_node list \<Rightarrow> check" where
  "check_nodes seen [] = Inr ()"
| "check_nodes seen (n # ns) =
     (if gn_id n \<in> seen then Inl (Validation (DuplicateNode (gn_id n)))
      else check_nodes (insert (gn_id n) seen) ns)"

fun check_edges :: "string set \<Rightarrow> graph_edge list \<Rightarrow> check" where
  "check_edges ids [] = Inr ()"
| "check_edges ids (e # es) =
     (if ge_source e \<notin> ids then Inl (Validation (DanglingSource (ge_source e)))
      else if ge_target e \<notin> ids then Inl (Validation (DanglingTarget (ge_target e)))
      else check_edges ids es)"

definition validate_incident_graph :: "incident_graph \<Rightarrow> check" where
  "validate_incident_graph g =
     and_then (check_nodes {} (ig_nodes g))
       (check_edges (set (map gn_id (ig_nodes g))) (ig_edges g))"

definition validate_fund_arithmetic :: "incident \<Rightarrow> check" where
  "validate_fund_arithmetic i =
     (let r = ic_recovery i in
      if rec_recovered_sats r > rec_affected_sats r
      then Inl (Validation (RecoveredExceedsAffected (rec_recovered_sats r) (rec_affected_sats r)))
      else
        let calculated = saturating_sub (rec_affected_sats r) (rec_recovered_sats r)
        in if \<not> rec_is_estimate r \<and> rec_outstanding_sats r \<noteq> calculated
           then Inl (Validation (OutstandingMismatch (rec_outstanding_sats r) calculated))
           else Inr ())"

fun check_timeline :: "datetime option \<Rightarrow> timeline_entry list \<Rightarrow> check" where
  "check_timeline prev [] = Inr ()"
| "check_timeline prev (e # es) =
     (case prev of
        Some p \<Rightarrow>
          if tle_timestamp e < p
          then Inl (Validation (TimelineOrder (tle_title e) (tle_timestamp e) p))
          else check_timeline (Some (tle_timestamp e)) es
      | None \<Rightarrow> check_timeline (Some (tle_timestamp e)) es)"

fun check_evidence_ids :: "uuid set \<Rightarrow> evidence list \<Rightarrow> check" where
  "check_evidence_ids seen [] = Inr ()"
| "check_evidence_ids seen (e # es) =
     (if evi_id e \<in> seen then Inl (Validation (DuplicateEvidence (evi_id e)))
      else check_evidence_ids (insert (evi_id e) seen) es)"

fun check_messages :: "on_chain_message list \<Rightarrow> check" where
  "check_messages [] = Inr ()"
| "check_messages (m # ms) =
     and_then
       (if ocm_attributed_sender m \<noteq> None
        then validate_sender_identity_claim True (ocm_sender_attribution_confidence m)
        else Inr ())
       (check_messages ms)"

fun check_updates :: "datetime option \<Rightarrow> incident_update list \<Rightarrow> check" where
  "check_updates prev [] = Inr ()"
| "check_updates prev (u # us) =
     (case prev of
        Some p \<Rightarrow>
          if upd_timestamp u < p
          then Inl (Validation (UpdateOrder (upd_title u) (upd_timestamp u) p))
          else check_updates (Some (upd_timestamp u)) us
      | None \<Rightarrow> check_updates (Some (upd_timestamp u)) us)"

definition validate_incident :: "incident \<Rightarrow> check" where
  "validate_incident i =
     and_then (validate_fund_arithmetic i)
    (and_then (validate_incident_graph (ic_graph i))
    (and_then (check_timeline None (ic_timeline i))
    (and_then (check_evidence_ids {} (ic_evidence i))
    (and_then (check_messages (ic_on_chain_messages i))
              (check_updates None (ic_updates i))))))"

section \<open>The builder\<close>

text \<open>The builder wraps the dossier it fills; its calls are functions on the dossier.\<close>

definition builder_new ::
  "runtime \<Rightarrow> string \<Rightarrow> string \<Rightarrow> string \<Rightarrow> event_severity \<Rightarrow> incident" where
  "builder_new rt case_id title summary severity =
     \<lparr>ic_id = rt_uuid_v4 rt, ic_case_id = case_id, ic_title = title, ic_summary = summary,
      ic_status = Detected, ic_severity = severity,
      ic_recovery = recovery_summary_new 0 0 (rt_now rt),
      ic_first_observed_at = rt_now rt, ic_last_updated_at = rt_now rt,
      ic_structured_claims = \<lparr>scs_verified_on_chain = [], scs_officially_attributed = [],
        scs_reported = [], scs_heuristic = [], scs_unknown = []\<rparr>,
      ic_entities = [], ic_transactions = [], ic_blocks = [], ic_on_chain_messages = [],
      ic_timeline = [], ic_evidence = [], ic_sources = [], ic_technical_findings = [],
      ic_updates = [], ic_graph = incident_graph_new,
      ic_total_btc_affected = f64_lit 0, ic_total_btc_recovered = f64_lit 0,
      ic_facts = [], ic_reported_claims = [], ic_unverified_claims = [],
      ic_associated_txids = [], ic_associated_block_heights = []\<rparr>"

definition builder_recovery :: "recovery_summary \<Rightarrow> incident \<Rightarrow> incident" where
  "builder_recovery r i =
     i\<lparr>ic_total_btc_affected := affected_btc r, ic_total_btc_recovered := recovered_btc r,
       ic_recovery := r\<rparr>"

definition add_verified_fact :: "string \<Rightarrow> incident \<Rightarrow> incident" where
  "add_verified_fact t i =
     i\<lparr>ic_structured_claims := (ic_structured_claims i)
         \<lparr>scs_verified_on_chain := scs_verified_on_chain (ic_structured_claims i) @ [t]\<rparr>,
       ic_facts := ic_facts i @ [t]\<rparr>"

definition add_official_claim :: "string \<Rightarrow> incident \<Rightarrow> incident" where
  "add_official_claim t i =
     i\<lparr>ic_structured_claims := (ic_structured_claims i)
         \<lparr>scs_officially_attributed := scs_officially_attributed (ic_structured_claims i) @ [t]\<rparr>,
       ic_reported_claims := ic_reported_claims i @ [t]\<rparr>"

definition add_reported_claim :: "string \<Rightarrow> incident \<Rightarrow> incident" where
  "add_reported_claim t i =
     i\<lparr>ic_structured_claims := (ic_structured_claims i)
         \<lparr>scs_reported := scs_reported (ic_structured_claims i) @ [t]\<rparr>,
       ic_reported_claims := ic_reported_claims i @ [t]\<rparr>"

definition add_heuristic_claim :: "string \<Rightarrow> incident \<Rightarrow> incident" where
  "add_heuristic_claim t i =
     i\<lparr>ic_structured_claims := (ic_structured_claims i)
         \<lparr>scs_heuristic := scs_heuristic (ic_structured_claims i) @ [t]\<rparr>,
       ic_unverified_claims := ic_unverified_claims i @ [t]\<rparr>"

definition add_unknown_claim :: "string \<Rightarrow> incident \<Rightarrow> incident" where
  "add_unknown_claim t i =
     i\<lparr>ic_structured_claims := (ic_structured_claims i)
         \<lparr>scs_unknown := scs_unknown (ic_structured_claims i) @ [t]\<rparr>,
       ic_unverified_claims := ic_unverified_claims i @ [t]\<rparr>"

definition add_transaction :: "incident_transaction \<Rightarrow> incident \<Rightarrow> incident" where
  "add_transaction tx i =
     i\<lparr>ic_associated_txids :=
         (if itx_txid tx \<in> set (ic_associated_txids i) then ic_associated_txids i
          else ic_associated_txids i @ [itx_txid tx]),
       ic_transactions := ic_transactions i @ [tx]\<rparr>"

definition add_block :: "incident_block \<Rightarrow> incident \<Rightarrow> incident" where
  "add_block b i =
     i\<lparr>ic_associated_block_heights :=
         (if ibk_height b \<in> set (ic_associated_block_heights i) then ic_associated_block_heights i
          else ic_associated_block_heights i @ [ibk_height b]),
       ic_blocks := ic_blocks i @ [b]\<rparr>"

definition sort_timeline :: "incident \<Rightarrow> incident" where
  "sort_timeline i = i\<lparr>ic_timeline := sort_key tle_timestamp (ic_timeline i)\<rparr>"

datatype builder_call =
    WithId uuid | Status incident_status | ObservedAt datetime | UpdatedAt datetime
  | Recovery recovery_summary | VerifiedFact string | OfficialClaim string | ReportedClaim string
  | HeuristicClaim string | UnknownClaim string | Entity incident_entity
  | Transaction incident_transaction | Block incident_block | OnChainMsg on_chain_message
  | Timeline timeline_entry | EvidenceItem evidence | SourceItem source
  | Finding technical_finding | Update incident_update
  | Node string string graph_node_type "chain option" "json option"
  | Edge string string graph_edge_type provenance_classification | SortTimeline

fun builder_step :: "builder_call \<Rightarrow> incident \<Rightarrow> incident" where
  "builder_step (WithId u) i = i\<lparr>ic_id := u\<rparr>"
| "builder_step (Status st) i = i\<lparr>ic_status := st\<rparr>"
| "builder_step (ObservedAt t) i = i\<lparr>ic_first_observed_at := t\<rparr>"
| "builder_step (UpdatedAt t) i = i\<lparr>ic_last_updated_at := t\<rparr>"
| "builder_step (Recovery r) i = builder_recovery r i"
| "builder_step (VerifiedFact t) i = add_verified_fact t i"
| "builder_step (OfficialClaim t) i = add_official_claim t i"
| "builder_step (ReportedClaim t) i = add_reported_claim t i"
| "builder_step (HeuristicClaim t) i = add_heuristic_claim t i"
| "builder_step (UnknownClaim t) i = add_unknown_claim t i"
| "builder_step (Entity e) i = i\<lparr>ic_entities := ic_entities i @ [e]\<rparr>"
| "builder_step (Transaction tx) i = add_transaction tx i"
| "builder_step (Block b) i = add_block b i"
| "builder_step (OnChainMsg m) i = i\<lparr>ic_on_chain_messages := ic_on_chain_messages i @ [m]\<rparr>"
| "builder_step (Timeline e) i = i\<lparr>ic_timeline := ic_timeline i @ [e]\<rparr>"
| "builder_step (EvidenceItem e) i = i\<lparr>ic_evidence := ic_evidence i @ [e]\<rparr>"
| "builder_step (SourceItem sr) i = i\<lparr>ic_sources := ic_sources i @ [sr]\<rparr>"
| "builder_step (Finding tf) i = i\<lparr>ic_technical_findings := ic_technical_findings i @ [tf]\<rparr>"
| "builder_step (Update u) i = i\<lparr>ic_updates := ic_updates i @ [u]\<rparr>"
| "builder_step (Node nid label ty ch md) i =
     i\<lparr>ic_graph := graph_add_node \<lparr>gn_id = nid, gn_label = label, gn_node_type = ty, gn_chain = ch,
                                   gn_metadata = md\<rparr> (ic_graph i)\<rparr>"
| "builder_step (Edge a b rel conf) i =
     i\<lparr>ic_graph := graph_add_edge \<lparr>ge_source = a, ge_target = b, ge_relationship = rel,
                                   ge_confidence = conf\<rparr> (ic_graph i)\<rparr>"
| "builder_step SortTimeline i = sort_timeline i"

definition build :: "incident \<Rightarrow> core_error + incident" where
  "build i = (case validate_incident i of Inl e \<Rightarrow> Inl e | Inr _ \<Rightarrow> Inr i)"

section \<open>Reports and clusters\<close>

record observed_report =
  rep_report_id :: uuid
  rep_incident_id :: uuid
  rep_title :: string
  rep_generated_at :: datetime
  rep_executive_summary :: string
  rep_verified_on_chain_facts :: "string list"
  rep_external_claims_and_reporting :: "string list"
  rep_unverified_claims :: "string list"
  rep_total_btc_affected :: f64
  rep_total_btc_recovered :: f64
  rep_methodology_notes :: string

definition report_from_incident :: "runtime \<Rightarrow> incident \<Rightarrow> observed_report" where
  "report_from_incident rt i =
     \<lparr>rep_report_id = rt_uuid_v4 rt, rep_incident_id = ic_id i,
      rep_title = ''ObsChain Observed Report: '' @ ic_title i, rep_generated_at = rt_now rt,
      rep_executive_summary = ic_summary i, rep_verified_on_chain_facts = ic_facts i,
      rep_external_claims_and_reporting = ic_reported_claims i,
      rep_unverified_claims = ic_unverified_claims i,
      rep_total_btc_affected = ic_total_btc_affected i,
      rep_total_btc_recovered = ic_total_btc_recovered i,
      rep_methodology_notes = ''ObsChain separates verified on-chain cryptographical proof from external reporting. External claims do not establish blockchain fact.''\<rparr>"

record address_cluster =
  acl_cluster_id :: string
  acl_primary_addresses :: "string list"
  acl_heuristic_type :: string
  acl_confidence_score :: f64
  acl_classification :: provenance_classification
  acl_caveats :: string

definition address_cluster_new :: "string \<Rightarrow> string list \<Rightarrow> string \<Rightarrow> f64 \<Rightarrow> address_cluster" where
  "address_cluster_new cid addrs ty score =
     \<lparr>acl_cluster_id = cid, acl_primary_addresses = addrs, acl_heuristic_type = ty,
      acl_confidence_score = score, acl_classification = PHeuristic,
      acl_caveats =
        ''Heuristic clustering output. Never represents definitive ownership of addresses.''\<rparr>"

section \<open>What validation accepts\<close>

lemma and_then_ok [simp]: "and_then a b = Inr () \<longleftrightarrow> a = Inr () \<and> b = Inr ()"
  by (cases a) (auto simp: and_then_def)

lemma check_nodes_ok:
  "check_nodes seen ns = Inr () \<longleftrightarrow> distinct (map gn_id ns) \<and> set (map gn_id ns) \<inter> seen = {}"
  by (induction seen ns rule: check_nodes.induct) auto

lemma check_edges_ok:
  "check_edges ids es = Inr () \<longleftrightarrow> (\<forall>e \<in> set es. ge_source e \<in> ids \<and> ge_target e \<in> ids)"
  by (induction es) auto

lemma check_timeline_ok:
  "check_timeline prev es = Inr () \<longleftrightarrow>
     sorted (map tle_timestamp es) \<and> (\<forall>p. prev = Some p \<longrightarrow> (\<forall>e \<in> set es. p \<le> tle_timestamp e))"
proof (induction es arbitrary: prev)
  case (Cons e es)
  show ?case by (cases prev) (auto simp: Cons.IH not_less)
qed simp

lemma check_updates_ok:
  "check_updates prev us = Inr () \<longleftrightarrow>
     sorted (map upd_timestamp us) \<and> (\<forall>p. prev = Some p \<longrightarrow> (\<forall>u \<in> set us. p \<le> upd_timestamp u))"
proof (induction us arbitrary: prev)
  case (Cons u us)
  show ?case by (cases prev) (auto simp: Cons.IH not_less)
qed simp

lemma check_evidence_ok:
  "check_evidence_ids seen es = Inr () \<longleftrightarrow>
     distinct (map evi_id es) \<and> set (map evi_id es) \<inter> seen = {}"
  by (induction seen es rule: check_evidence_ids.induct) auto

lemma check_messages_ok:
  "check_messages ms = Inr () \<longleftrightarrow>
     (\<forall>m \<in> set ms. ocm_attributed_sender m \<noteq> None \<longrightarrow>
        ocm_sender_attribution_confidence m \<noteq> OnChainVerified)"
  by (induction ms) (auto simp: validate_sender_identity_claim_def is_cryptographically_verified_def)

definition funds_ok :: "recovery_summary \<Rightarrow> bool" where
  "funds_ok r \<longleftrightarrow> unat (rec_recovered_sats r) \<le> unat (rec_affected_sats r) \<and>
     (rec_is_estimate r \<or>
        unat (rec_recovered_sats r) + unat (rec_outstanding_sats r) = unat (rec_affected_sats r))"

lemma validate_funds_ok: "validate_fund_arithmetic i = Inr () \<longleftrightarrow> funds_ok (ic_recovery i)"
proof -
  let ?r = "ic_recovery i"
  have "rec_outstanding_sats ?r = saturating_sub (rec_affected_sats ?r) (rec_recovered_sats ?r) \<longleftrightarrow>
      unat (rec_recovered_sats ?r) + unat (rec_outstanding_sats ?r) = unat (rec_affected_sats ?r)"
    if "unat (rec_recovered_sats ?r) \<le> unat (rec_affected_sats ?r)"
    using that by (auto simp: word_unat_eq_iff unat_saturating_sub)
  then show ?thesis
    by (auto simp: validate_fund_arithmetic_def funds_ok_def Let_def word_less_nat_alt not_less)
qed

definition graph_ok :: "incident_graph \<Rightarrow> bool" where
  "graph_ok g \<longleftrightarrow> distinct (map gn_id (ig_nodes g)) \<and>
     (\<forall>e \<in> set (ig_edges g). {ge_source e, ge_target e} \<subseteq> set (map gn_id (ig_nodes g)))"

definition incident_ok :: "incident \<Rightarrow> bool" where
  "incident_ok i \<longleftrightarrow> funds_ok (ic_recovery i) \<and> graph_ok (ic_graph i)
     \<and> sorted (map tle_timestamp (ic_timeline i)) \<and> distinct (map evi_id (ic_evidence i))
     \<and> (\<forall>m \<in> set (ic_on_chain_messages i). ocm_attributed_sender m \<noteq> None \<longrightarrow>
          ocm_sender_attribution_confidence m \<noteq> OnChainVerified)
     \<and> sorted (map upd_timestamp (ic_updates i))"

lemma validate_incident_ok: "validate_incident i = Inr () \<longleftrightarrow> incident_ok i"
  by (simp add: validate_incident_def incident_ok_def validate_funds_ok validate_incident_graph_def
      graph_ok_def check_nodes_ok check_edges_ok check_timeline_ok check_evidence_ok
      check_messages_ok check_updates_ok)

section \<open>What building keeps\<close>

text \<open>
  The legacy lists mirror the structured claims tier by tier, node identifiers stay unique, and
  the association lists are duplicate-free indexes of the transactions and blocks.
\<close>

definition tiers_ok :: "incident \<Rightarrow> bool" where
  "tiers_ok i \<longleftrightarrow>
     ic_facts i = scs_verified_on_chain (ic_structured_claims i)
     \<and> mset (ic_reported_claims i) = mset (scs_officially_attributed (ic_structured_claims i))
         + mset (scs_reported (ic_structured_claims i))
     \<and> mset (ic_unverified_claims i) = mset (scs_heuristic (ic_structured_claims i))
         + mset (scs_unknown (ic_structured_claims i))
     \<and> distinct (map gn_id (ig_nodes (ic_graph i)))
     \<and> distinct (ic_associated_txids i)
     \<and> set (ic_associated_txids i) = itx_txid ` set (ic_transactions i)
     \<and> distinct (ic_associated_block_heights i)
     \<and> set (ic_associated_block_heights i) = ibk_height ` set (ic_blocks i)"

lemma tiers_new: "tiers_ok (builder_new rt c t s sev)"
  by (simp add: tiers_ok_def builder_new_def incident_graph_new_def)

lemma tiers_step: "tiers_ok i \<Longrightarrow> tiers_ok (builder_step call i)"
  by (cases call)
    (auto simp: tiers_ok_def builder_recovery_def add_verified_fact_def add_official_claim_def
      add_reported_claim_def add_heuristic_claim_def add_unknown_claim_def add_transaction_def
      add_block_def sort_timeline_def graph_add_node_def graph_add_edge_def list_ex_iff)

lemma tiers_fold: "tiers_ok i \<Longrightarrow> tiers_ok (fold builder_step calls i)"
  by (induction calls arbitrary: i) (auto intro: tiers_step)

section \<open>Properties\<close>

text \<open>
  Validation accepts a dossier exactly when its funds balance (nothing recovered beyond what
  was affected and, unless estimated, recovered plus outstanding equals affected as numbers), its
  graph has unique nodes and no dangling edge, its timeline and updates are in order, its evidence
  identifiers are unique, and no self-attributed sender is called verified on chain.
\<close>

theorem validate_incident_iff:
  "validate_incident i = Inr () \<longleftrightarrow> incident_ok i"
  by (rule validate_incident_ok)

text \<open>
  No sequence of builder calls mixes the tiers of certainty: the facts of the dossier, and of
  the report made from it, are exactly the claims verified on chain; heuristic and unknown claims
  reach only the unverified list, official and reported ones only the reported list; and building
  it returns it, unchanged, exactly when it is well formed.
\<close>

theorem builder_keeps_tiers:
  "let i = fold builder_step calls (builder_new rt case_id title summary sev) in
     rep_verified_on_chain_facts (report_from_incident rt i) =
       scs_verified_on_chain (ic_structured_claims i)
     \<and> mset (rep_unverified_claims (report_from_incident rt i)) =
         mset (scs_heuristic (ic_structured_claims i)) + mset (scs_unknown (ic_structured_claims i))
     \<and> mset (rep_external_claims_and_reporting (report_from_incident rt i)) =
         mset (scs_officially_attributed (ic_structured_claims i))
         + mset (scs_reported (ic_structured_claims i))
     \<and> (build i = Inr i \<longleftrightarrow> incident_ok i)"
proof -
  let ?i = "fold builder_step calls (builder_new rt case_id title summary sev)"
  have "tiers_ok ?i" by (rule tiers_fold [OF tiers_new])
  moreover have "build ?i = Inr ?i \<longleftrightarrow> incident_ok ?i"
    by (cases "validate_incident ?i") (auto simp: build_def validate_incident_ok [symmetric])
  ultimately show ?thesis by (simp add: Let_def tiers_ok_def report_from_incident_def)
qed

end
