(* ===== verification/Watch.thy ===== *)
theory Watch
  imports Incidents Fifo
begin

text \<open>
  Watch targets, activities and alerts (\<open>watch.rs\<close>) and the engine that correlates observed
  transactions with them (\<open>watch_engine.rs\<close>). Hash maps are association lists with distinct keys;
  shared targets are values. The random identifiers of activities and alerts come from a supply
  indexed by a counter that the run of a handler threads.

  The lemmas show that descendant tracking stays bounded in number and depth, that heuristic
  attributions never become direct evidence, that a registered outpoint is never missed, and that
  removing a target undoes adding it.
\<close>

section \<open>Targets, activities and alerts\<close>

datatype watch_target_kind =
    OutPoint string u32
  | ScriptPubKey string
  | Address string provenance_classification
  | WTransaction string

fun target_type_str :: "watch_target_kind \<Rightarrow> string" where
  "target_type_str (OutPoint t v) = ''OUTPOINT''"
| "target_type_str (ScriptPubKey s) = ''SCRIPT_PUBKEY''"
| "target_type_str (Address a p) = ''ADDRESS''"
| "target_type_str (WTransaction t) = ''TRANSACTION''"

fun target_summary :: "watch_target_kind \<Rightarrow> string" where
  "target_summary (OutPoint t v) = ''OutPoint: '' @ shorten 12 6 t @ '':'' @ show_u v"
| "target_summary (ScriptPubKey s) = ''Script: '' @ shorten 16 8 s"
| "target_summary (Address a p) = ''Address: '' @ shorten 14 6 a @ '' ['' @ provenance_debug p @ '']''"
| "target_summary (WTransaction t) = ''Tx: '' @ shorten 12 6 t"

record watch_target =
  wt_id :: uuid
  wt_incident_id :: uuid
  wt_case_id :: string
  wt_kind :: watch_target_kind
  wt_classification :: provenance_classification
  wt_source :: string
  wt_evidence_id :: "uuid option"
  wt_label :: "string option"
  wt_created_at :: datetime
  wt_active :: bool

definition watch_target_new ::
  "runtime \<Rightarrow> uuid \<Rightarrow> string \<Rightarrow> watch_target_kind \<Rightarrow> provenance_classification \<Rightarrow> string
     \<Rightarrow> string option \<Rightarrow> watch_target" where
  "watch_target_new rt incident_id case_id kind cls src label =
     \<lparr>wt_id = rt_uuid_v4 rt, wt_incident_id = incident_id, wt_case_id = case_id, wt_kind = kind,
      wt_classification = cls, wt_source = src, wt_evidence_id = None, wt_label = label,
      wt_created_at = rt_now rt, wt_active = True\<rparr>"

definition new_outpoint ::
  "runtime \<Rightarrow> uuid \<Rightarrow> string \<Rightarrow> string \<Rightarrow> u32 \<Rightarrow> provenance_classification \<Rightarrow> string
     \<Rightarrow> string option \<Rightarrow> watch_target" where
  "new_outpoint rt i c txid vout cls src label =
     watch_target_new rt i c (OutPoint txid vout) cls src label"

definition new_script ::
  "runtime \<Rightarrow> uuid \<Rightarrow> string \<Rightarrow> string \<Rightarrow> provenance_classification \<Rightarrow> string
     \<Rightarrow> string option \<Rightarrow> watch_target" where
  "new_script rt i c script_hex cls src label =
     watch_target_new rt i c (ScriptPubKey script_hex) cls src label"

definition new_address ::
  "runtime \<Rightarrow> uuid \<Rightarrow> string \<Rightarrow> string \<Rightarrow> provenance_classification \<Rightarrow> string
     \<Rightarrow> string option \<Rightarrow> watch_target" where
  "new_address rt i c addr cls src label =
     watch_target_new rt i c (Address addr cls) cls src label"

definition new_transaction ::
  "runtime \<Rightarrow> uuid \<Rightarrow> string \<Rightarrow> string \<Rightarrow> provenance_classification \<Rightarrow> string
     \<Rightarrow> string option \<Rightarrow> watch_target" where
  "new_transaction rt i c txid cls src label =
     watch_target_new rt i c (WTransaction txid) cls src label"

definition with_evidence_id :: "uuid \<Rightarrow> watch_target \<Rightarrow> watch_target" where
  "with_evidence_id e t = t\<lparr>wt_evidence_id := Some e\<rparr>"

record public_watch_target =
  pw_id :: uuid
  pw_incident_id :: uuid
  pw_case_id :: string
  pw_target_type :: string
  pw_target_summary :: string
  pw_classification :: provenance_classification
  pw_label :: "string option"
  pw_created_at :: datetime
  pw_active :: bool

definition to_public_metadata :: "watch_target \<Rightarrow> public_watch_target" where
  "to_public_metadata t =
     \<lparr>pw_id = wt_id t, pw_incident_id = wt_incident_id t, pw_case_id = wt_case_id t,
      pw_target_type = target_type_str (wt_kind t), pw_target_summary = target_summary (wt_kind t),
      pw_classification = wt_classification t, pw_label = wt_label t,
      pw_created_at = wt_created_at t, pw_active = wt_active t\<rparr>"

datatype incident_activity_type =
    WatchedTransactionObserved | WatchedTransactionConfirmed | WatchedOutpointSpent
  | WatchedScriptReceived | WatchedAddressReceived | WatchedAddressSpent
  | ActTransactionReplacement | NewDescendantObserved

fun activity_type_debug :: "incident_activity_type \<Rightarrow> string" where
  "activity_type_debug WatchedTransactionObserved = ''WatchedTransactionObserved''"
| "activity_type_debug WatchedTransactionConfirmed = ''WatchedTransactionConfirmed''"
| "activity_type_debug WatchedOutpointSpent = ''WatchedOutpointSpent''"
| "activity_type_debug WatchedScriptReceived = ''WatchedScriptReceived''"
| "activity_type_debug WatchedAddressReceived = ''WatchedAddressReceived''"
| "activity_type_debug WatchedAddressSpent = ''WatchedAddressSpent''"
| "activity_type_debug ActTransactionReplacement = ''TransactionReplacement''"
| "activity_type_debug NewDescendantObserved = ''NewDescendantObserved''"

datatype activity_status = StMempool | StConfirmed | StReorgedOut

fun activity_status_debug :: "activity_status \<Rightarrow> string" where
  "activity_status_debug StMempool = ''Mempool''"
| "activity_status_debug StConfirmed = ''Confirmed''"
| "activity_status_debug StReorgedOut = ''ReorgedOut''"

datatype correlation_strength = Direct | Structural | CHeuristic

fun correlation_debug :: "correlation_strength \<Rightarrow> string" where
  "correlation_debug Direct = ''Direct''"
| "correlation_debug Structural = ''Structural''"
| "correlation_debug CHeuristic = ''Heuristic''"

record incident_activity =
  ac_id :: uuid
  ac_incident_id :: uuid
  ac_case_id :: string
  ac_type :: incident_activity_type
  ac_observed_at :: datetime
  ac_trigger_txid :: "string option"
  ac_block_height :: "u64 option"
  ac_block_hash :: "string option"
  ac_value_sats :: "u64 option"
  ac_watch_target_id :: uuid
  ac_confidence :: provenance_classification
  ac_correlation_strength :: correlation_strength
  ac_status :: activity_status
  ac_source :: observation_source
  ac_evidence :: "uuid list"
  ac_description :: string
  ac_details :: "json option"
  ac_dedup_key :: string

definition generate_dedup_key ::
  "uuid \<Rightarrow> incident_activity_type \<Rightarrow> string option \<Rightarrow> uuid \<Rightarrow> string" where
  "generate_dedup_key incident_id ty txid target_id =
     uuid_str incident_id @ '':'' @ activity_type_debug ty @ '':''
       @ (case txid of Some t \<Rightarrow> t | None \<Rightarrow> ''none'') @ '':'' @ uuid_str target_id"

record incident_alert =
  al_id :: uuid
  al_incident_id :: uuid
  al_case_id :: string
  al_incident_title :: string
  al_activity_id :: uuid
  al_severity :: event_severity
  al_title :: string
  al_summary :: string
  al_confidence :: provenance_classification
  al_correlation_strength :: correlation_strength
  al_observed_at :: datetime
  al_value_sats :: "u64 option"
  al_trigger_txid :: "string option"

section \<open>The engine's indexes\<close>

type_synonym outpoint = "string \<times> u32"
type_synonym 'k index = "('k \<times> watch_target list) list"

record tracked_descendant =
  td_incident_id :: uuid
  td_case_id :: string
  td_origin_target_id :: uuid
  td_depth :: usize
  td_confidence :: provenance_classification
  td_created_at :: datetime

record watch_engine =
  we_outpoint_index :: "outpoint index"
  we_script_index :: "string index"
  we_address_index :: "string index"
  we_txid_index :: "string index"
  we_all_targets :: "(uuid \<times> watch_target) list"
  we_descendants :: "(outpoint \<times> tracked_descendant) list"
  we_fifo :: "outpoint list"
  we_max_depth :: usize
  we_max_tracked :: usize
  we_titles :: "(string \<times> string) list"

definition with_follow_depth :: "usize \<Rightarrow> watch_engine" where
  "with_follow_depth max_depth =
     \<lparr>we_outpoint_index = [], we_script_index = [], we_address_index = [], we_txid_index = [],
      we_all_targets = [], we_descendants = [], we_fifo = [],
      we_max_depth = min (max max_depth 1) 5, we_max_tracked = 1000, we_titles = []\<rparr>"

text \<open>The argument is the value of \<open>OBSCHAIN_INCIDENT_FOLLOW_DEPTH\<close>, if set.\<close>

definition watch_engine_from_env :: "string option \<Rightarrow> watch_engine" where
  "watch_engine_from_env v =
     with_follow_depth
       (min (max (case Option.bind v (parse_uint (2 ^ 64)) of Some n \<Rightarrow> n | None \<Rightarrow> 3) 1) 5)"

definition register_incident_title :: "string \<Rightarrow> string \<Rightarrow> watch_engine \<Rightarrow> watch_engine" where
  "register_incident_title case_id title w = w\<lparr>we_titles := AList.update case_id title (we_titles w)\<rparr>"

definition index_get :: "'k index \<Rightarrow> 'k \<Rightarrow> watch_target list" where
  "index_get m k = (case map_of m k of Some ts \<Rightarrow> ts | None \<Rightarrow> [])"

definition index_push :: "'k \<Rightarrow> watch_target \<Rightarrow> 'k index \<Rightarrow> 'k index" where
  "index_push k t m = AList.update k (index_get m k @ [t]) m"

definition index_retain :: "'k \<Rightarrow> uuid \<Rightarrow> 'k index \<Rightarrow> 'k index" where
  "index_retain k tid m =
     (case map_of m k of
        None \<Rightarrow> m
      | Some ts \<Rightarrow>
          let ts' = filter (\<lambda>t. wt_id t \<noteq> tid) ts
          in if ts' = [] then AList.delete k m else AList.update k ts' m)"

definition add_target :: "watch_target \<Rightarrow> watch_engine \<Rightarrow> watch_engine" where
  "add_target t w =
     (if \<not> wt_active t then w
      else
        let w1 = w\<lparr>we_all_targets := AList.update (wt_id t) t (we_all_targets w)\<rparr>
        in case wt_kind t of
             OutPoint txid vout \<Rightarrow>
               w1\<lparr>we_outpoint_index := index_push (to_lowercase txid, vout) t (we_outpoint_index w1)\<rparr>
           | ScriptPubKey script_hex \<Rightarrow>
               w1\<lparr>we_script_index := index_push (to_lowercase script_hex) t (we_script_index w1)\<rparr>
           | Address address p \<Rightarrow>
               w1\<lparr>we_address_index := index_push address t (we_address_index w1)\<rparr>
           | WTransaction txid \<Rightarrow>
               w1\<lparr>we_txid_index := index_push (to_lowercase txid) t (we_txid_index w1)\<rparr>)"

definition load_targets :: "watch_target list \<Rightarrow> watch_engine \<Rightarrow> watch_engine" where
  "load_targets ts w = foldl (\<lambda>w t. add_target t w) w ts"

definition remove_target :: "uuid \<Rightarrow> watch_engine \<Rightarrow> watch_engine" where
  "remove_target tid w =
     (case map_of (we_all_targets w) tid of
        None \<Rightarrow> w
      | Some t \<Rightarrow>
          let w1 = w\<lparr>we_all_targets := AList.delete tid (we_all_targets w)\<rparr>
          in case wt_kind t of
               OutPoint txid vout \<Rightarrow>
                 w1\<lparr>we_outpoint_index := index_retain (to_lowercase txid, vout) tid (we_outpoint_index w1)\<rparr>
             | ScriptPubKey script_hex \<Rightarrow>
                 w1\<lparr>we_script_index := index_retain (to_lowercase script_hex) tid (we_script_index w1)\<rparr>
             | Address address p \<Rightarrow>
                 w1\<lparr>we_address_index := index_retain address tid (we_address_index w1)\<rparr>
             | WTransaction txid \<Rightarrow>
                 w1\<lparr>we_txid_index := index_retain (to_lowercase txid) tid (we_txid_index w1)\<rparr>)"

section \<open>Descendant tracking\<close>

definition enroll_output ::
  "string \<Rightarrow> tracked_descendant \<Rightarrow> watch_engine \<Rightarrow> nat \<times> tx_output_observation \<Rightarrow> watch_engine" where
  "enroll_output txid d w vo =
     (case vo of (vout, out) \<Rightarrow>
        if is_op_return out then w
        else
          let key = (to_lowercase txid, of_nat vout);
              (fifo, desc) =
                (if length (we_fifo w) \<ge> we_max_tracked w then
                   (case we_fifo w of
                      old # rest \<Rightarrow> (rest, AList.delete old (we_descendants w))
                    | [] \<Rightarrow> ([], we_descendants w))
                 else (we_fifo w, we_descendants w))
          in w\<lparr>we_fifo := fifo @ [key], we_descendants := AList.update key d desc\<rparr>)"

definition enroll_descendants ::
  "datetime \<Rightarrow> transaction_observation \<Rightarrow> uuid \<Rightarrow> string \<Rightarrow> uuid \<Rightarrow> usize
     \<Rightarrow> provenance_classification \<Rightarrow> watch_engine \<Rightarrow> watch_engine" where
  "enroll_descendants now tx incident_id case_id origin depth conf w =
     (if depth > we_max_depth w then w
      else
        foldl
          (enroll_output (tx_txid tx)
             \<lparr>td_incident_id = incident_id, td_case_id = case_id, td_origin_target_id = origin,
              td_depth = depth, td_confidence = conf, td_created_at = now\<rparr>)
          w (enumerate 0 (tx_outputs tx)))"

section \<open>Alerts\<close>

definition calculate_alert_severity ::
  "incident_activity_type \<Rightarrow> correlation_strength \<Rightarrow> provenance_classification \<Rightarrow> u64 option
     \<Rightarrow> event_severity" where
  "calculate_alert_severity ty corr conf value_sats =
     (let v = (case value_sats of Some x \<Rightarrow> x | None \<Rightarrow> 0) in
      if ty = WatchedOutpointSpent then
        if v \<ge> 10000000000 then SevCritical
        else if v \<ge> 1000000000 then SevHigh
        else SevHigh
      else if corr = CHeuristic then SevMedium
      else if v \<ge> 10000000000 \<and> corr = Direct then SevCritical
      else if v \<ge> 1000000000 then SevHigh
      else case ty of
             WatchedOutpointSpent \<Rightarrow> SevHigh
           | WatchedScriptReceived \<Rightarrow> SevMedium
           | WatchedAddressReceived \<Rightarrow> SevMedium
           | WatchedAddressSpent \<Rightarrow> SevMedium
           | WatchedTransactionConfirmed \<Rightarrow> SevMedium
           | WatchedTransactionObserved \<Rightarrow> SevLow
           | ActTransactionReplacement \<Rightarrow> SevMedium
           | NewDescendantObserved \<Rightarrow> if v \<ge> 500000000 then SevHigh else SevLow)"

fun alert_title :: "incident_activity_type \<Rightarrow> string" where
  "alert_title WatchedOutpointSpent = ''Watched Outpoint Spent''"
| "alert_title WatchedScriptReceived = ''Watched Script Received Funds''"
| "alert_title WatchedAddressReceived = ''Monitored Address Received Funds''"
| "alert_title WatchedAddressSpent = ''Monitored Address Spent Funds''"
| "alert_title WatchedTransactionConfirmed = ''Watched Transaction Confirmed''"
| "alert_title WatchedTransactionObserved = ''Watched Transaction Observed''"
| "alert_title ActTransactionReplacement = ''Transaction Replacement (RBF)''"
| "alert_title NewDescendantObserved = ''New Descendant Activity''"

definition create_alert_if_significant ::
  "watch_engine \<Rightarrow> uuid \<Rightarrow> incident_activity \<Rightarrow> watch_target \<Rightarrow> incident_alert option" where
  "create_alert_if_significant w aid act t =
     Some \<lparr>al_id = aid, al_incident_id = ac_incident_id act, al_case_id = ac_case_id act,
           al_incident_title = (case map_of (we_titles w) (ac_case_id act) of
              Some x \<Rightarrow> x | None \<Rightarrow> ''Incident '' @ ac_case_id act),
           al_activity_id = ac_id act,
           al_severity = calculate_alert_severity (ac_type act) (ac_correlation_strength act)
              (ac_confidence act) (ac_value_sats act),
           al_title = ''['' @ ac_case_id act @ ''] '' @ alert_title (ac_type act),
           al_summary = ac_description act @ ''. Target: ''
              @ (case wt_label t of Some l \<Rightarrow> l | None \<Rightarrow> target_summary (wt_kind t))
              @ '' (Provenance: '' @ provenance_debug (ac_confidence act) @ '', Strength: ''
              @ correlation_debug (ac_correlation_strength act) @ '')'',
           al_confidence = ac_confidence act,
           al_correlation_strength = ac_correlation_strength act,
           al_observed_at = ac_observed_at act, al_value_sats = ac_value_sats act,
           al_trigger_txid = ac_trigger_txid act\<rparr>"

section \<open>Processing observations\<close>

type_synonym watch_result = "incident_activity \<times> incident_alert option"

text \<open>A run of a handler: the engine, the position in the identifier supply, the results so far.\<close>

record watch_run =
  wr_engine :: watch_engine
  wr_next :: nat
  wr_results :: "watch_result list"

text \<open>An activity is pushed with its alert, which exists when the target does.\<close>

definition emit ::
  "(nat \<Rightarrow> uuid) \<Rightarrow> (uuid \<Rightarrow> incident_activity) \<Rightarrow> watch_target option \<Rightarrow> watch_run \<Rightarrow> watch_run" where
  "emit v4 mk t r =
     (let act = mk (v4 (wr_next r)) in
      case t of
        Some tg \<Rightarrow>
          r\<lparr>wr_next := wr_next r + 2,
            wr_results := wr_results r
              @ [(act, create_alert_if_significant (wr_engine r) (v4 (wr_next r + 1)) act tg)]\<rparr>
      | None \<Rightarrow> r\<lparr>wr_next := wr_next r + 1, wr_results := wr_results r @ [(act, None)]\<rparr>)"

text \<open>The observation that is being processed: its time, place and provenance.\<close>

record watch_frame =
  wf_now :: datetime
  wf_tx :: transaction_observation
  wf_height :: "u64 option"
  wf_hash :: "string option"
  wf_status :: activity_status
  wf_source :: observation_source

definition watch_frame_of ::
  "datetime \<Rightarrow> transaction_observation \<Rightarrow> u64 option \<Rightarrow> string option \<Rightarrow> watch_frame" where
  "watch_frame_of now tx block_height block_hash =
     \<lparr>wf_now = now, wf_tx = tx, wf_height = block_height, wf_hash = block_hash,
      wf_status = (if block_height \<noteq> None then StConfirmed else StMempool),
      wf_source = (case tx_source tx of Some s \<Rightarrow> s
                   | None \<Rightarrow> observation_source_new ''bitcoin'' ''unknown'' None)\<rparr>"

definition target_activity ::
  "watch_frame \<Rightarrow> incident_activity_type \<Rightarrow> u64 option \<Rightarrow> correlation_strength \<Rightarrow> string \<Rightarrow> json
     \<Rightarrow> watch_target \<Rightarrow> uuid \<Rightarrow> incident_activity" where
  "target_activity f ty value strength descr details t aid =
     \<lparr>ac_id = aid, ac_incident_id = wt_incident_id t, ac_case_id = wt_case_id t, ac_type = ty,
      ac_observed_at = wf_now f, ac_trigger_txid = Some (tx_txid (wf_tx f)),
      ac_block_height = wf_height f, ac_block_hash = wf_hash f, ac_value_sats = value,
      ac_watch_target_id = wt_id t, ac_confidence = wt_classification t,
      ac_correlation_strength = strength, ac_status = wf_status f, ac_source = wf_source f,
      ac_evidence = (case wt_evidence_id t of Some e \<Rightarrow> [e] | None \<Rightarrow> []),
      ac_description = descr, ac_details = Some details,
      ac_dedup_key = generate_dedup_key (wt_incident_id t) ty (Some (tx_txid (wf_tx f))) (wt_id t)\<rparr>"

text \<open>Heuristic address matches never become direct proof of ownership.\<close>

fun address_strength :: "provenance_classification \<Rightarrow> correlation_strength" where
  "address_strength OnChainVerified = Direct"
| "address_strength OfficiallyAttributed = Structural"
| "address_strength ReputableReporting = CHeuristic"
| "address_strength PHeuristic = CHeuristic"
| "address_strength Unverified = CHeuristic"
| "address_strength PDisputed = CHeuristic"

definition match_txid :: "(nat \<Rightarrow> uuid) \<Rightarrow> watch_frame \<Rightarrow> watch_run \<Rightarrow> watch_target \<Rightarrow> watch_run" where
  "match_txid v4 f r t =
     (let tx = wf_tx f;
          ty = (if wf_height f \<noteq> None then WatchedTransactionConfirmed else WatchedTransactionObserved)
      in emit v4 (target_activity f ty (Some (tx_total_output_sats tx)) Direct
           (''Monitored transaction '' @ tx_txid tx @ '' observed on-chain (''
              @ activity_status_debug (wf_status f) @ '')'')
           (JObj [(''txid'', JStr (tx_txid tx)),
                  (''total_output_sats'', json_u (tx_total_output_sats tx)),
                  (''fee_sats'', json_u (tx_fee_sats tx)),
                  (''vin_count'', json_nat (length (tx_inputs tx))),
                  (''vout_count'', json_nat (length (tx_outputs tx)))]) t) (Some t) r)"

definition outpoint_json :: "tx_input_observation \<Rightarrow> json" where
  "outpoint_json i = JObj [(''txid'', JStr (in_txid i)), (''vout'', json_u (in_vout i))]"

definition match_outpoint ::
  "(nat \<Rightarrow> uuid) \<Rightarrow> watch_frame \<Rightarrow> nat \<Rightarrow> tx_input_observation \<Rightarrow> watch_run \<Rightarrow> watch_target \<Rightarrow> watch_run" where
  "match_outpoint v4 f vin inp r t =
     (let tx = wf_tx f;
          r1 = emit v4 (target_activity f WatchedOutpointSpent (in_prev_out_value_sats inp) Direct
            (''Watched outpoint '' @ in_txid inp @ '':'' @ show_u (in_vout inp)
               @ '' spent by transaction '' @ tx_txid tx @ '' (input #'' @ show_nat vin @ '')'')
            (JObj [(''spent_outpoint'', outpoint_json inp), (''vin_index'', json_nat vin),
                   (''spending_txid'', JStr (tx_txid tx)),
                   (''value_sats'', json_opt (\<lambda>v. json_u v) (in_prev_out_value_sats inp))]) t)
            (Some t) r
      in r1\<lparr>wr_engine := enroll_descendants (wf_now f) tx (wt_incident_id t) (wt_case_id t) (wt_id t) 1
             (wt_classification t) (wr_engine r1)\<rparr>)"

definition match_descendant ::
  "(nat \<Rightarrow> uuid) \<Rightarrow> watch_frame \<Rightarrow> tx_input_observation \<Rightarrow> watch_run \<Rightarrow> watch_run" where
  "match_descendant v4 f inp r =
     (let tx = wf_tx f; key = (to_lowercase (in_txid inp), in_vout inp); w = wr_engine r in
      case map_of (we_descendants w) key of
        None \<Rightarrow> r
      | Some d \<Rightarrow>
          let w1 = w\<lparr>we_descendants := AList.delete key (we_descendants w)\<rparr>;
              mk = (\<lambda>aid.
                \<lparr>ac_id = aid, ac_incident_id = td_incident_id d, ac_case_id = td_case_id d,
                 ac_type = NewDescendantObserved, ac_observed_at = wf_now f,
                 ac_trigger_txid = Some (tx_txid tx), ac_block_height = wf_height f,
                 ac_block_hash = wf_hash f, ac_value_sats = in_prev_out_value_sats inp,
                 ac_watch_target_id = td_origin_target_id d, ac_confidence = td_confidence d,
                 ac_correlation_strength = Structural, ac_status = wf_status f,
                 ac_source = wf_source f, ac_evidence = [],
                 ac_description = ''Incident descendant outpoint '' @ in_txid inp @ '':''
                   @ show_u (in_vout inp) @ '' (depth '' @ show_nat (td_depth d)
                   @ '') spent by transaction '' @ tx_txid tx,
                 ac_details = Some (JObj [(''descendant_depth'', json_nat (td_depth d)),
                    (''spent_outpoint'', outpoint_json inp), (''spending_txid'', JStr (tx_txid tx))]),
                 ac_dedup_key = generate_dedup_key (td_incident_id d) NewDescendantObserved
                   (Some (tx_txid tx)) (td_origin_target_id d)\<rparr>);
              r1 = emit v4 mk (map_of (we_all_targets w1) (td_origin_target_id d)) (r\<lparr>wr_engine := w1\<rparr>)
          in if td_depth d < we_max_depth w1 then
               r1\<lparr>wr_engine := enroll_descendants (wf_now f) tx (td_incident_id d) (td_case_id d)
                    (td_origin_target_id d) (td_depth d + 1) (td_confidence d) (wr_engine r1)\<rparr>
             else r1)"

definition match_address_spent ::
  "(nat \<Rightarrow> uuid) \<Rightarrow> watch_frame \<Rightarrow> nat \<Rightarrow> tx_input_observation \<Rightarrow> string \<Rightarrow> watch_run \<Rightarrow> watch_target
     \<Rightarrow> watch_run" where
  "match_address_spent v4 f vin inp addr r t =
     (let tx = wf_tx f
      in emit v4 (target_activity f WatchedAddressSpent (in_prev_out_value_sats inp)
           (address_strength (wt_classification t))
           (''Monitored address '' @ addr @ '' spent ''
              @ show_u (case in_prev_out_value_sats inp of Some v \<Rightarrow> v | None \<Rightarrow> 0)
              @ '' sats in tx '' @ tx_txid tx)
           (JObj [(''address'', JStr addr), (''vin_index'', json_nat vin),
                  (''spent_txid'', JStr (tx_txid tx)),
                  (''co_spent_inputs_count'', json_nat (length (tx_inputs tx)))]) t) (Some t) r)"

definition match_input ::
  "(nat \<Rightarrow> uuid) \<Rightarrow> watch_frame \<Rightarrow> watch_run \<Rightarrow> nat \<times> tx_input_observation \<Rightarrow> watch_run" where
  "match_input v4 f r vi =
     (case vi of (vin, inp) \<Rightarrow>
        let key = (to_lowercase (in_txid inp), in_vout inp);
            r1 = foldl (match_outpoint v4 f vin inp) r (index_get (we_outpoint_index (wr_engine r)) key);
            r2 = match_descendant v4 f inp r1
        in case in_prev_out_address inp of
             None \<Rightarrow> r2
           | Some addr \<Rightarrow>
               foldl (match_address_spent v4 f vin inp addr) r2
                 (index_get (we_address_index (wr_engine r2)) addr))"

definition match_script ::
  "(nat \<Rightarrow> uuid) \<Rightarrow> watch_frame \<Rightarrow> nat \<Rightarrow> tx_output_observation \<Rightarrow> string \<Rightarrow> watch_run \<Rightarrow> watch_target
     \<Rightarrow> watch_run" where
  "match_script v4 f vout out script_hex r t =
     (let tx = wf_tx f
      in emit v4 (target_activity f WatchedScriptReceived (Some (out_value_sats out)) Direct
           (''Watched scriptPubKey received '' @ show_u (out_value_sats out) @ '' sats in tx ''
              @ tx_txid tx @ '' (output #'' @ show_nat vout @ '')'')
           (JObj [(''script_pubkey'', JStr script_hex), (''vout_index'', json_nat vout),
                  (''value_sats'', json_u (out_value_sats out))]) t) (Some t) r)"

definition match_address_received ::
  "(nat \<Rightarrow> uuid) \<Rightarrow> watch_frame \<Rightarrow> nat \<Rightarrow> tx_output_observation \<Rightarrow> string \<Rightarrow> watch_run \<Rightarrow> watch_target
     \<Rightarrow> watch_run" where
  "match_address_received v4 f vout out addr r t =
     (let tx = wf_tx f
      in emit v4 (target_activity f WatchedAddressReceived (Some (out_value_sats out))
           (address_strength (wt_classification t))
           (''Monitored address '' @ addr @ '' received '' @ show_u (out_value_sats out)
              @ '' sats in tx '' @ tx_txid tx @ '' (output #'' @ show_nat vout @ '')'')
           (JObj [(''address'', JStr addr), (''vout_index'', json_nat vout),
                  (''value_sats'', json_u (out_value_sats out))]) t) (Some t) r)"

definition match_output ::
  "(nat \<Rightarrow> uuid) \<Rightarrow> watch_frame \<Rightarrow> watch_run \<Rightarrow> nat \<times> tx_output_observation \<Rightarrow> watch_run" where
  "match_output v4 f r vo =
     (case vo of (vout, out) \<Rightarrow>
        let r1 = (case out_scriptpubkey_hex out of
                    None \<Rightarrow> r
                  | Some script_hex \<Rightarrow>
                      foldl (match_script v4 f vout out script_hex) r
                        (index_get (we_script_index (wr_engine r)) (to_lowercase script_hex)))
        in case out_address out of
             None \<Rightarrow> r1
           | Some addr \<Rightarrow>
               foldl (match_address_received v4 f vout out addr) r1
                 (index_get (we_address_index (wr_engine r1)) addr))"

definition process_transaction ::
  "(nat \<Rightarrow> uuid) \<Rightarrow> datetime \<Rightarrow> transaction_observation \<Rightarrow> u64 option \<Rightarrow> string option \<Rightarrow> watch_run
     \<Rightarrow> watch_run" where
  "process_transaction v4 now tx block_height block_hash r =
     (let f = watch_frame_of now tx block_height block_hash;
          r0 = r\<lparr>wr_results := []\<rparr>;
          r1 = foldl (match_txid v4 f) r0
                 (index_get (we_txid_index (wr_engine r0)) (to_lowercase (tx_txid tx)));
          r2 = foldl (match_input v4 f) r1 (enumerate 0 (tx_inputs tx))
      in foldl (match_output v4 f) r2 (enumerate 0 (tx_outputs tx)))"

text \<open>A replacement matches the first target of its own id, else of the first watched replaced id.\<close>

definition replacement_target :: "watch_engine \<Rightarrow> transaction_replacement \<Rightarrow> watch_target option" where
  "replacement_target w repl =
     (let hit = (\<lambda>txid. case map_of (we_txid_index w) (to_lowercase txid) of
                          Some (t # ts) \<Rightarrow> Some (Some t) | Some [] \<Rightarrow> Some None | None \<Rightarrow> None)
      in case hit (rp_replacement_txid repl) of
           Some (Some t) \<Rightarrow> Some t
         | _ \<Rightarrow>
             (case List.map_filter hit (rp_replaced_txids repl) of
                m # ms \<Rightarrow> m
              | [] \<Rightarrow> None))"

definition process_replacement ::
  "(nat \<Rightarrow> uuid) \<Rightarrow> datetime \<Rightarrow> transaction_replacement \<Rightarrow> watch_run \<Rightarrow> watch_run" where
  "process_replacement v4 now repl r =
     (let r0 = r\<lparr>wr_results := []\<rparr> in
      case replacement_target (wr_engine r0) repl of
        None \<Rightarrow> r0
      | Some t \<Rightarrow>
          emit v4 (\<lambda>aid.
            \<lparr>ac_id = aid, ac_incident_id = wt_incident_id t, ac_case_id = wt_case_id t,
             ac_type = ActTransactionReplacement, ac_observed_at = now,
             ac_trigger_txid = Some (rp_replacement_txid repl), ac_block_height = None,
             ac_block_hash = None, ac_value_sats = None, ac_watch_target_id = wt_id t,
             ac_confidence = wt_classification t, ac_correlation_strength = Structural,
             ac_status = StMempool,
             ac_source = (case rp_source repl of Some s \<Rightarrow> s
                          | None \<Rightarrow> observation_source_new ''bitcoin'' ''unknown'' None),
             ac_evidence = (case wt_evidence_id t of Some e \<Rightarrow> [e] | None \<Rightarrow> []),
             ac_description = ''RBF replacement observed for incident tx ''
               @ join_with '', '' (rp_replaced_txids repl) @ '': replaced by ''
               @ rp_replacement_txid repl @ '' (fee delta: '' @ show_int (rp_fee_delta_sats repl)
               @ '' sats)'',
             ac_details = Some (JObj [(''replacement_txid'', JStr (rp_replacement_txid repl)),
                (''replaced_txids'', json_strs (rp_replaced_txids repl)),
                (''fee_delta_sats'', json_int (rp_fee_delta_sats repl))]),
             ac_dedup_key = generate_dedup_key (wt_incident_id t) ActTransactionReplacement
               (Some (rp_replacement_txid repl)) (wt_id t)\<rparr>) (Some t) r0)"

definition watch_process_block :: "block_observation \<Rightarrow> watch_run \<Rightarrow> watch_run" where
  "watch_process_block b r = r\<lparr>wr_results := []\<rparr>"

fun timeline_title :: "incident_activity_type \<Rightarrow> string" where
  "timeline_title WatchedOutpointSpent = ''Watched Incident UTXO Spent''"
| "timeline_title WatchedScriptReceived = ''Incident Script Received Funds''"
| "timeline_title WatchedAddressReceived = ''Monitored Incident Address Received Funds''"
| "timeline_title WatchedAddressSpent = ''Monitored Incident Address Spent Funds''"
| "timeline_title WatchedTransactionConfirmed = ''Incident Transaction Confirmed''"
| "timeline_title WatchedTransactionObserved = ''Incident Transaction Observed in Mempool''"
| "timeline_title ActTransactionReplacement = ''Incident Transaction Replaced (RBF)''"
| "timeline_title NewDescendantObserved = ''New Incident Fund Descendant Observed''"

definition generate_timeline_entry :: "uuid \<Rightarrow> incident_activity \<Rightarrow> timeline_entry" where
  "generate_timeline_entry v4 a =
     \<lparr>tle_id = v4, tle_timestamp = ac_observed_at a, tle_title = timeline_title (ac_type a),
      tle_description = ac_description a, tle_category = OnChainMovement, tle_source_id = None,
      tle_evidence_ids = ac_evidence a,
      tle_transaction_txids = (case ac_trigger_txid a of Some t \<Rightarrow> [t] | None \<Rightarrow> []),
      tle_block_heights = (case ac_block_height a of Some h \<Rightarrow> [h] | None \<Rightarrow> []),
      tle_classification = ac_confidence a\<rparr>"

definition generate_incident_update :: "uuid \<Rightarrow> incident \<Rightarrow> incident_activity \<Rightarrow> incident_update" where
  "generate_incident_update v4 i a =
     \<lparr>upd_id = v4, upd_timestamp = ac_observed_at a,
      upd_title = ''On-Chain Movement: '' @ activity_type_debug (ac_type a),
      upd_summary = ''Observed on-chain activity ('' @ activity_type_debug (ac_type a)
        @ '', confidence: '' @ provenance_debug (ac_confidence a) @ '', strength: ''
        @ correlation_debug (ac_correlation_strength a) @ '') in tx ''
        @ (case ac_trigger_txid a of Some t \<Rightarrow> t | None \<Rightarrow> ''unknown'')
        @ ''. Recovery balance remains unchanged.'',
      upd_source_id = None, upd_recovery_state = Some (ic_recovery i)\<rparr>"

section \<open>Invariant of descendant tracking\<close>

definition watch_ok :: "watch_engine \<Rightarrow> bool" where
  "watch_ok w \<longleftrightarrow> ordered_table (we_fifo w) (we_descendants w) \<and> 0 < we_max_tracked w
     \<and> length (we_fifo w) \<le> we_max_tracked w
     \<and> (\<forall>(k, d) \<in> set (we_descendants w). 1 \<le> td_depth d \<and> td_depth d \<le> we_max_depth w)"

lemma ordered_table_length:
  assumes "ordered_table order m"
  shows "length m \<le> length order"
proof -
  have "length m = card (set (map fst m))"
    using assms distinct_card [of "map fst m"] by (simp add: ordered_table_def)
  also have "\<dots> \<le> card (set order)"
    using assms by (intro card_mono) (auto simp: ordered_table_def)
  finally show ?thesis using card_length [of order] by linarith
qed

lemma ordered_table_enroll:
  "ordered_table order m \<Longrightarrow> ordered_table (order @ [k]) (AList.update k v m)"
  by (auto simp: ordered_table_def distinct_update dom_update)

lemma ordered_table_pop: "ordered_table (k # order) m \<Longrightarrow> ordered_table order (AList.delete k m)"
  by (auto simp: ordered_table_def dom_delete AList.distinct_delete)

lemma set_delete_subset: "set (AList.delete k m) \<subseteq> set m"
  by (auto simp: AList.delete_eq)

lemma set_update_subset: "set (AList.update k v m) \<subseteq> insert (k, v) (set m)"
  by (induction m) auto

lemma enroll_output_ok:
  assumes "watch_ok w" "1 \<le> td_depth d" "td_depth d \<le> we_max_depth w"
  shows "watch_ok (enroll_output txid d w vo)"
proof (cases vo)
  case (Pair vout out)
  define key where "key = (to_lowercase txid, of_nat vout :: u32)"
  obtain fifo desc where fd: "(if length (we_fifo w) \<ge> we_max_tracked w then
         (case we_fifo w of old # rest \<Rightarrow> (rest, AList.delete old (we_descendants w))
          | [] \<Rightarrow> ([], we_descendants w))
       else (we_fifo w, we_descendants w)) = (fifo, desc)"
    by (metis surj_pair)
  have t: "ordered_table (we_fifo w) (we_descendants w)" using assms(1) by (simp add: watch_ok_def)
  have "ordered_table fifo desc \<and> length fifo < we_max_tracked w \<and> set desc \<subseteq> set (we_descendants w)"
  proof (cases "length (we_fifo w) \<ge> we_max_tracked w")
    case True
    then obtain old rest where "we_fifo w = old # rest" using assms(1)
      by (cases "we_fifo w") (auto simp: watch_ok_def)
    then show ?thesis
      using True fd t assms(1) set_delete_subset [of old "we_descendants w"]
      by (auto simp: watch_ok_def intro: ordered_table_pop)
  next
    case False
    then show ?thesis using fd t by auto
  qed
  then have "watch_ok (w\<lparr>we_fifo := fifo @ [key], we_descendants := AList.update key d desc\<rparr>)"
    using assms set_update_subset [of key d desc]
    by (auto simp: watch_ok_def intro: ordered_table_enroll)
  then show ?thesis
    using assms(1) by (simp add: Pair enroll_output_def fd key_def Let_def)
qed

text \<open>What no handler changes: the indexes, the targets, the limits and the titles.\<close>

definition same_indexes :: "watch_engine \<Rightarrow> watch_engine \<Rightarrow> bool" where
  "same_indexes w w' \<longleftrightarrow> w' = w\<lparr>we_fifo := we_fifo w', we_descendants := we_descendants w'\<rparr>"

lemma same_indexes_refl [simp]: "same_indexes w w"
  by (simp add: same_indexes_def)

lemma same_indexes_trans: "same_indexes a b \<Longrightarrow> same_indexes b c \<Longrightarrow> same_indexes a c"
  unfolding same_indexes_def by (cases a; cases b; cases c) simp

lemma same_indexes_fields:
  assumes "same_indexes w w'"
  shows "we_outpoint_index w' = we_outpoint_index w" "we_script_index w' = we_script_index w"
    "we_address_index w' = we_address_index w" "we_txid_index w' = we_txid_index w"
    "we_all_targets w' = we_all_targets w" "we_max_depth w' = we_max_depth w"
    "we_max_tracked w' = we_max_tracked w" "we_titles w' = we_titles w"
  using assms unfolding same_indexes_def by (cases w; cases w'; simp)+

lemma enroll_output_same: "same_indexes w (enroll_output txid d w vo)"
  by (cases vo) (simp add: same_indexes_def enroll_output_def Let_def split: prod.split)

lemma enroll_fold:
  assumes "1 \<le> td_depth d" "td_depth d \<le> we_max_depth w"
  shows "same_indexes w (foldl (enroll_output txid d) w vos)
    \<and> (watch_ok w \<longrightarrow> watch_ok (foldl (enroll_output txid d) w vos))"
  using assms
proof (induction vos arbitrary: w)
  case (Cons vo vos)
  let ?w = "enroll_output txid d w vo"
  have "we_max_depth ?w = we_max_depth w" using same_indexes_fields(6) [OF enroll_output_same] .
  then show ?case
    using Cons.IH [of ?w] Cons.prems enroll_output_ok [of w d txid vo]
      same_indexes_trans [OF enroll_output_same [of w txid d vo]]
    by simp
qed simp

lemma enroll_descendants_ok:
  assumes "1 \<le> depth"
  shows "same_indexes w (enroll_descendants now tx i c t depth conf w)"
    and "watch_ok w \<Longrightarrow> watch_ok (enroll_descendants now tx i c t depth conf w)"
  using enroll_fold [of "\<lparr>td_incident_id = i, td_case_id = c, td_origin_target_id = t,
      td_depth = depth, td_confidence = conf, td_created_at = now\<rparr>" w] assms
  by (auto simp: enroll_descendants_def)

section \<open>What a handler's run guarantees\<close>

text \<open>
  The rule on evidence: an address match is direct only for on-chain verified attributions and
  heuristic for all that do not allow a definitive claim; a heuristic correlation never alerts
  above medium severity.
\<close>

definition sound_result :: "watch_result \<Rightarrow> bool" where
  "sound_result x \<longleftrightarrow>
     (case x of (a, al) \<Rightarrow>
        (ac_type a \<in> {WatchedAddressSpent, WatchedAddressReceived} \<longrightarrow>
           ac_correlation_strength a = address_strength (ac_confidence a))
        \<and> (ac_type a = WatchedOutpointSpent \<longrightarrow> ac_correlation_strength a = Direct)
        \<and> (\<forall>l. al = Some l \<longrightarrow> al_severity l = calculate_alert_severity (ac_type a)
              (ac_correlation_strength a) (ac_confidence a) (ac_value_sats a)
            \<and> al_correlation_strength l = ac_correlation_strength a \<and> al_activity_id l = ac_id a))"

definition extends :: "watch_run \<Rightarrow> watch_run \<Rightarrow> bool" where
  "extends r r' \<longleftrightarrow> same_indexes (wr_engine r) (wr_engine r')
     \<and> (watch_ok (wr_engine r) \<longrightarrow> watch_ok (wr_engine r'))
     \<and> (\<exists>new. wr_results r' = wr_results r @ new \<and> (\<forall>x \<in> set new. sound_result x))"

lemma extends_refl [simp]: "extends r r"
  by (simp add: extends_def)

lemma extends_trans: "extends a b \<Longrightarrow> extends b c \<Longrightarrow> extends a c"
  by (auto simp: extends_def intro: same_indexes_trans)

lemma extends_foldl: "(\<And>r x. extends r (f r x)) \<Longrightarrow> extends r (foldl f r xs)"
  by (induction xs arbitrary: r) (auto intro: extends_trans)

lemma extends_engine:
  assumes "same_indexes (wr_engine r) w" "watch_ok (wr_engine r) \<Longrightarrow> watch_ok w"
  shows "extends r (r\<lparr>wr_engine := w\<rparr>)"
  using assms by (simp add: extends_def)

lemma emit_engine [simp]: "wr_engine (emit v4 mk t r) = wr_engine r"
  by (simp add: emit_def Let_def split: option.split)

lemma emit_results:
  "\<exists>al. wr_results (emit v4 mk t r) = wr_results r @ [(mk (v4 (wr_next r)), al)]
    \<and> (\<forall>l. al = Some l \<longrightarrow> al_severity l = calculate_alert_severity (ac_type (mk (v4 (wr_next r))))
         (ac_correlation_strength (mk (v4 (wr_next r)))) (ac_confidence (mk (v4 (wr_next r))))
         (ac_value_sats (mk (v4 (wr_next r))))
       \<and> al_correlation_strength l = ac_correlation_strength (mk (v4 (wr_next r)))
       \<and> al_activity_id l = ac_id (mk (v4 (wr_next r))))"
  by (auto simp: emit_def Let_def create_alert_if_significant_def split: option.split)

lemma extends_emit:
  assumes "\<And>aid. ac_type (mk aid) \<in> {WatchedAddressSpent, WatchedAddressReceived} \<longrightarrow>
      ac_correlation_strength (mk aid) = address_strength (ac_confidence (mk aid))"
    and "\<And>aid. ac_type (mk aid) = WatchedOutpointSpent \<longrightarrow> ac_correlation_strength (mk aid) = Direct"
  shows "extends r (emit v4 mk t r)"
  using emit_results [of v4 mk t r] assms by (fastforce simp: extends_def sound_result_def)

lemma extends_match_txid: "extends r (match_txid v4 f r t)"
  unfolding match_txid_def Let_def by (rule extends_emit) (simp_all add: target_activity_def)

lemma extends_match_outpoint: "extends r (match_outpoint v4 f vin inp r t)"
  unfolding match_outpoint_def Let_def
  by (rule extends_trans [OF extends_emit extends_engine])
    (simp_all add: target_activity_def enroll_descendants_ok)

lemma extends_match_descendant: "extends r (match_descendant v4 f inp r)"
proof (cases "map_of (we_descendants (wr_engine r)) (to_lowercase (in_txid inp), in_vout inp)")
  case None
  then show ?thesis by (simp add: match_descendant_def Let_def)
next
  case (Some d)
  let ?key = "(to_lowercase (in_txid inp), in_vout inp)" and ?w = "wr_engine r"
  let ?w1 = "?w\<lparr>we_descendants := AList.delete ?key (we_descendants ?w)\<rparr>"
  have "extends r (r\<lparr>wr_engine := ?w1\<rparr>)"
  proof (rule extends_engine)
    show "same_indexes ?w ?w1" by (simp add: same_indexes_def)
    assume "watch_ok ?w"
    then show "watch_ok ?w1"
      using set_delete_subset [of ?key "we_descendants ?w"]
      by (auto simp: watch_ok_def ordered_table_def dom_delete AList.distinct_delete)
  qed
  moreover have "extends (r\<lparr>wr_engine := ?w1\<rparr>) (match_descendant v4 f inp r)"
    unfolding match_descendant_def Let_def
    by (simp add: Some, intro conjI impI)
      (rule extends_trans [OF extends_emit extends_engine] extends_emit;
       simp add: enroll_descendants_ok)+
  ultimately show ?thesis by (rule extends_trans)
qed

lemma extends_match_address_spent: "extends r (match_address_spent v4 f vin inp addr r t)"
  unfolding match_address_spent_def Let_def by (rule extends_emit) (simp_all add: target_activity_def)

lemma extends_match_script: "extends r (match_script v4 f vout out sh r t)"
  unfolding match_script_def Let_def by (rule extends_emit) (simp_all add: target_activity_def)

lemma extends_match_address_received: "extends r (match_address_received v4 f vout out addr r t)"
  unfolding match_address_received_def Let_def
  by (rule extends_emit) (simp_all add: target_activity_def)

lemmas extends_folds =
  extends_foldl [of "match_txid v4 f" for v4 f, OF extends_match_txid]
  extends_foldl [of "match_outpoint v4 f vin inp" for v4 f vin inp, OF extends_match_outpoint]
  extends_foldl [of "match_address_spent v4 f vin inp addr" for v4 f vin inp addr,
    OF extends_match_address_spent]
  extends_foldl [of "match_script v4 f vout out sh" for v4 f vout out sh, OF extends_match_script]
  extends_foldl [of "match_address_received v4 f vout out addr" for v4 f vout out addr,
    OF extends_match_address_received]

lemma extends_match_input: "extends r (match_input v4 f r vi)"
proof (cases vi)
  case (Pair vin inp)
  define r2 where "r2 = match_descendant v4 f inp
    (foldl (match_outpoint v4 f vin inp) r
      (index_get (we_outpoint_index (wr_engine r)) (to_lowercase (in_txid inp), in_vout inp)))"
  have "extends r r2"
    unfolding r2_def by (rule extends_trans [OF extends_folds(2) extends_match_descendant])
  then show ?thesis
    using extends_trans [OF _ extends_folds(3)]
    by (simp add: match_input_def Pair Let_def r2_def [symmetric] split: option.split)
qed

lemma extends_match_output: "extends r (match_output v4 f r vo)"
proof (cases vo)
  case (Pair vout out)
  define r1 where "r1 = (case out_scriptpubkey_hex out of None \<Rightarrow> r
    | Some sh \<Rightarrow> foldl (match_script v4 f vout out sh) r
        (index_get (we_script_index (wr_engine r)) (to_lowercase sh)))"
  have "extends r r1" using extends_folds(4) by (simp add: r1_def split: option.split)
  then show ?thesis
    using extends_trans [OF _ extends_folds(5)]
    by (simp add: match_output_def Pair Let_def r1_def [symmetric] split: option.split)
qed

lemma extends_process_transaction:
  "extends (r\<lparr>wr_results := []\<rparr>) (process_transaction v4 now tx h bh r)"
  unfolding process_transaction_def Let_def
  by (intro extends_trans [OF extends_trans [OF extends_folds(1)
        extends_foldl [OF extends_match_input]] extends_foldl [OF extends_match_output]])

lemma extends_process_replacement:
  "extends (r\<lparr>wr_results := []\<rparr>) (process_replacement v4 now repl r)"
  unfolding process_replacement_def Let_def
  by (auto split: option.split intro!: extends_emit)

lemma watch_ok_new: "watch_ok (with_follow_depth n)"
  by (simp add: watch_ok_def with_follow_depth_def ordered_table_def)

lemma watch_ok_targets:
  "watch_ok (add_target t w) = watch_ok w" "watch_ok (remove_target tid w) = watch_ok w"
  "we_max_tracked (add_target t w) = we_max_tracked w"
  "we_max_tracked (remove_target tid w) = we_max_tracked w"
  "we_max_depth (add_target t w) = we_max_depth w"
  "we_max_depth (remove_target tid w) = we_max_depth w"
  "watch_ok (register_incident_title c s w) = watch_ok w"
  "we_max_tracked (register_incident_title c s w) = we_max_tracked w"
  "we_max_depth (register_incident_title c s w) = we_max_depth w"
  by (auto simp: register_incident_title_def add_target_def remove_target_def watch_ok_def Let_def
      split: watch_target_kind.split option.split)

text \<open>The inputs of the engine over its life.\<close>

datatype watch_input =
    AddTarget watch_target
  | RemoveTarget uuid
  | RegisterTitle string string
  | WatchTx datetime transaction_observation "u64 option" "string option"
  | WatchReplacement datetime transaction_replacement
  | WatchBlock block_observation

fun watch_step :: "(nat \<Rightarrow> uuid) \<Rightarrow> watch_input \<Rightarrow> watch_run \<Rightarrow> watch_run" where
  "watch_step v4 (AddTarget t) r = r\<lparr>wr_engine := add_target t (wr_engine r)\<rparr>"
| "watch_step v4 (RemoveTarget tid) r = r\<lparr>wr_engine := remove_target tid (wr_engine r)\<rparr>"
| "watch_step v4 (RegisterTitle c t) r = r\<lparr>wr_engine := register_incident_title c t (wr_engine r)\<rparr>"
| "watch_step v4 (WatchTx now tx h bh) r = process_transaction v4 now tx h bh r"
| "watch_step v4 (WatchReplacement now repl) r = process_replacement v4 now repl r"
| "watch_step v4 (WatchBlock b) r = watch_process_block b r"

definition run_ok :: "watch_run \<Rightarrow> bool" where
  "run_ok r \<longleftrightarrow> watch_ok (wr_engine r) \<and> (\<forall>x \<in> set (wr_results r). sound_result x)
     \<and> we_max_depth (wr_engine r) \<le> 5"

lemma run_ok_extends:
  assumes "extends (r\<lparr>wr_results := []\<rparr>) r'" "run_ok r"
  shows "run_ok r'" "we_max_tracked (wr_engine r') = we_max_tracked (wr_engine r)"
  using assms same_indexes_fields [of "wr_engine r" "wr_engine r'"]
  by (auto simp: run_ok_def extends_def)

lemma run_ok_step:
  assumes "run_ok r"
  shows "run_ok (watch_step v4 inp r)
    \<and> we_max_tracked (wr_engine (watch_step v4 inp r)) = we_max_tracked (wr_engine r)"
proof (cases inp)
  case (WatchTx now tx h bh)
  then show ?thesis using run_ok_extends [OF extends_process_transaction assms] by simp
next
  case (WatchReplacement now repl)
  then show ?thesis using run_ok_extends [OF extends_process_replacement assms] by simp
qed (use assms in \<open>auto simp: run_ok_def watch_ok_targets watch_process_block_def\<close>)

definition watch_start :: "usize \<Rightarrow> watch_run" where
  "watch_start depth = \<lparr>wr_engine = with_follow_depth depth, wr_next = 0, wr_results = []\<rparr>"

lemma run_ok_start: "run_ok (watch_start d)"
  using watch_ok_new by (simp add: run_ok_def watch_start_def with_follow_depth_def)

interpretation descendants: bounded_store "watch_step v4" run_ok
  "\<lambda>r. length (we_descendants (wr_engine r))" "\<lambda>r. we_max_tracked (wr_engine r)" for v4
proof unfold_locales
  fix r assume "run_ok r"
  then show "length (we_descendants (wr_engine r)) \<le> we_max_tracked (wr_engine r)"
    using ordered_table_length [of "we_fifo (wr_engine r)" "we_descendants (wr_engine r)"]
    by (simp add: run_ok_def watch_ok_def)
qed (simp_all add: run_ok_step)

section \<open>Matching is complete\<close>

lemma extends_keeps: "extends r r' \<Longrightarrow> x \<in> set (wr_results r) \<Longrightarrow> x \<in> set (wr_results r')"
  by (auto simp: extends_def)

lemma foldl_emits:
  assumes "t \<in> set ts" "\<And>r. \<exists>x \<in> set (wr_results (f r t)). Q x" "\<And>r y. extends r (f r y)"
  shows "\<exists>x \<in> set (wr_results (foldl f r ts)). Q x"
  using assms(1)
proof (induction ts arbitrary: r)
  case (Cons y ys)
  show ?case
  proof (cases "t \<in> set ys")
    case True
    then show ?thesis using Cons.IH by simp
  next
    case False
    then have "y = t" using Cons.prems by simp
    then show ?thesis
      using assms(2) [of r] extends_keeps [OF extends_foldl [OF assms(3)]] by fastforce
  qed
qed simp

lemma match_outpoint_emits:
  "\<exists>x \<in> set (wr_results (match_outpoint v4 f vin inp r t)).
     ac_type (fst x) = WatchedOutpointSpent \<and> ac_watch_target_id (fst x) = wt_id t
     \<and> ac_trigger_txid (fst x) = Some (tx_txid (wf_tx f)) \<and> ac_correlation_strength (fst x) = Direct
     \<and> snd x \<noteq> None"
  by (simp add: match_outpoint_def Let_def emit_def target_activity_def create_alert_if_significant_def)

lemma match_input_emits:
  assumes "t \<in> set (index_get (we_outpoint_index (wr_engine r)) (to_lowercase (in_txid inp), in_vout inp))"
  shows "\<exists>x \<in> set (wr_results (match_input v4 f r (vin, inp))).
     ac_type (fst x) = WatchedOutpointSpent \<and> ac_watch_target_id (fst x) = wt_id t
     \<and> ac_trigger_txid (fst x) = Some (tx_txid (wf_tx f)) \<and> ac_correlation_strength (fst x) = Direct
     \<and> snd x \<noteq> None"
    (is "\<exists>x \<in> _. ?Q x")
proof -
  let ?r1 = "foldl (match_outpoint v4 f vin inp) r
    (index_get (we_outpoint_index (wr_engine r)) (to_lowercase (in_txid inp), in_vout inp))"
  have "\<exists>x \<in> set (wr_results ?r1). ?Q x"
    by (rule foldl_emits [OF assms match_outpoint_emits extends_match_outpoint])
  moreover have "extends ?r1 (match_input v4 f r (vin, inp))"
    using extends_match_descendant [of ?r1 v4 f inp] extends_trans [OF extends_match_descendant extends_folds(3)]
    by (simp add: match_input_def Let_def split: option.split)
  ultimately show ?thesis using extends_keeps by blast
qed

lemma add_target_outpoint:
  assumes "wt_active t" "wt_kind t = OutPoint txid vout"
  shows "t \<in> set (index_get (we_outpoint_index (add_target t w)) (to_lowercase txid, vout))"
  using assms by (simp add: add_target_def Let_def index_push_def index_get_def update_conv')

lemma enumerate_split:
  assumes "x \<in> set xs"
  obtains pre i post where "enumerate n xs = pre @ (i, x) # post"
proof -
  obtain k where "k < length xs" "xs ! k = x" using assms by (auto simp: in_set_conv_nth)
  then have "(n + k, x) \<in> set (enumerate n xs)" by (auto simp: in_set_enumerate_eq)
  then show thesis using that by (auto dest: split_list)
qed

lemma process_transaction_outpoint:
  assumes t: "t \<in> set (index_get (we_outpoint_index (wr_engine r)) (to_lowercase (in_txid inp), in_vout inp))"
    and inp: "inp \<in> set (tx_inputs tx)"
  shows "\<exists>x \<in> set (wr_results (process_transaction v4 now tx h bh r)).
     ac_type (fst x) = WatchedOutpointSpent \<and> ac_watch_target_id (fst x) = wt_id t
     \<and> ac_trigger_txid (fst x) = Some (tx_txid tx) \<and> ac_correlation_strength (fst x) = Direct
     \<and> snd x \<noteq> None" (is "\<exists>x \<in> _. ?Q x")
proof -
  let ?f = "watch_frame_of now tx h bh"
  define r1 where "r1 = foldl (match_txid v4 ?f) (r\<lparr>wr_results := []\<rparr>)
    (index_get (we_txid_index (wr_engine r)) (to_lowercase (tx_txid tx)))"
  have idx: "we_outpoint_index (wr_engine r1) = we_outpoint_index (wr_engine r)"
    using extends_folds(1) [of "r\<lparr>wr_results := []\<rparr>" v4 ?f] same_indexes_fields(1)
    by (fastforce simp: r1_def extends_def)
  obtain pre vin post where en: "enumerate 0 (tx_inputs tx) = pre @ (vin, inp) # post"
    using inp by (rule enumerate_split)
  define ra where "ra = foldl (match_input v4 ?f) r1 pre"
  have "extends r1 ra" unfolding ra_def by (rule extends_foldl [OF extends_match_input])
  then have "we_outpoint_index (wr_engine ra) = we_outpoint_index (wr_engine r)"
    using idx same_indexes_fields(1) [of "wr_engine r1" "wr_engine ra"] by (simp add: extends_def)
  then have "\<exists>x \<in> set (wr_results (match_input v4 ?f ra (vin, inp))). ?Q x"
    using match_input_emits [of t ra inp v4 ?f vin] t by (simp add: watch_frame_of_def)
  moreover have "extends (match_input v4 ?f ra (vin, inp)) (process_transaction v4 now tx h bh r)"
    unfolding process_transaction_def Let_def
    by (simp add: en r1_def [symmetric] ra_def [symmetric])
      (rule extends_trans, rule extends_foldl [OF extends_match_input],
        rule extends_foldl [OF extends_match_output])
  ultimately show ?thesis using extends_keeps by blast
qed

lemma delete_update_fresh:
  "k \<notin> set (map fst m) \<Longrightarrow> AList.delete k (AList.update k v m) = m"
  by (induction m) (auto simp: AList.delete_eq)

text \<open>A target stays indexed until it is removed by its own identifier.\<close>

lemma index_get_push: "index_get (index_push k t m) k' = (if k' = k then index_get m k @ [t] else index_get m k')"
  by (simp add: index_push_def index_get_def update_conv')

lemma index_get_retain:
  "index_get (index_retain k tid m) k'
     = (if k' = k then filter (\<lambda>t. wt_id t \<noteq> tid) (index_get m k) else index_get m k')"
  by (auto simp: index_retain_def index_get_def update_conv' AList.delete_conv' Let_def
      split: option.split)

definition watches :: "watch_target \<Rightarrow> outpoint \<Rightarrow> watch_run \<Rightarrow> bool" where
  "watches t k r \<longleftrightarrow> t \<in> set (index_get (we_outpoint_index (wr_engine r)) k)"

lemma watches_extends:
  assumes "extends (r\<lparr>wr_results := []\<rparr>) r'"
  shows "watches t k r' = watches t k r"
  using assms same_indexes_fields(1) [of "wr_engine r" "wr_engine r'"] by (simp add: watches_def extends_def)

lemma watches_step:
  assumes "watches t k r" "inp \<noteq> RemoveTarget (wt_id t)"
  shows "watches t k (watch_step v4 inp r)"
proof (cases inp)
  case (AddTarget t')
  then show ?thesis using assms(1)
    by (auto simp: watches_def add_target_def Let_def index_get_push split: watch_target_kind.split)
next
  case (RemoveTarget tid)
  then show ?thesis using assms
    by (auto simp: watches_def remove_target_def Let_def index_get_retain
        split: watch_target_kind.split option.split)
next
  case (WatchTx now tx h bh)
  then show ?thesis using assms(1) watches_extends [OF extends_process_transaction] by simp
next
  case (WatchReplacement now repl)
  then show ?thesis using assms(1) watches_extends [OF extends_process_replacement] by simp
qed (use assms in \<open>simp_all add: watches_def register_incident_title_def watch_process_block_def\<close>)

lemma watches_fold:
  "watches t k r \<Longrightarrow> RemoveTarget (wt_id t) \<notin> set ops \<Longrightarrow> watches t k (fold (watch_step v4) ops r)"
  by (induction ops arbitrary: r) (auto simp: watches_step)

section \<open>Properties\<close>

text \<open>
  Over any sequence of inputs, from an engine created with any follow depth, the engine follows
  at most a thousand descendant outputs, and none deeper than the follow depth, which is at most 5.
\<close>

theorem descendants_stay_bounded:
  "length (we_descendants (wr_engine (fold (watch_step v4) ops (watch_start d)))) \<le> 1000
   \<and> list_all (\<lambda>(k, x). 1 \<le> td_depth x \<and> td_depth x \<le> 5)
       (we_descendants (wr_engine (fold (watch_step v4) ops (watch_start d))))"
proof -
  have "run_ok (fold (watch_step v4) ops (watch_start d))"
    by (rule descendants.ok_fold [OF run_ok_start])
  then show ?thesis using descendants.size_fold [OF run_ok_start, of v4 ops d]
    by (fastforce simp: list_all_iff run_ok_def watch_ok_def watch_start_def with_follow_depth_def)
qed

text \<open>
  C27. Attribution that is not verified on chain or official never becomes proof of ownership: in
  every run of the engine, an activity on an address of weaker provenance is only heuristic, and
  its alert is of medium severity whatever the value.
\<close>

theorem weak_attribution_stays_heuristic:
  assumes "(act, alert) \<in> set (wr_results (fold (watch_step v4) ops (watch_start d)))"
    and "ac_type act = WatchedAddressSpent \<or> ac_type act = WatchedAddressReceived"
    and "ac_confidence act \<noteq> OnChainVerified" "ac_confidence act \<noteq> OfficiallyAttributed"
  shows "ac_correlation_strength act = CHeuristic
     \<and> map_option al_severity alert \<in> {None, Some SevMedium}"
proof -
  have "run_ok (fold (watch_step v4) ops (watch_start d))"
    by (rule descendants.ok_fold [OF run_ok_start])
  then have snd: "sound_result (act, alert)" using assms(1) by (simp add: run_ok_def)
  have "ac_correlation_strength act = CHeuristic"
    using snd assms(2-4) by (cases "ac_confidence act") (auto simp: sound_result_def)
  then show ?thesis using snd assms(2)
    by (cases alert) (auto simp: sound_result_def calculate_alert_severity_def Let_def)
qed

definition sample_address_target :: watch_target where
  "sample_address_target = new_address sample_runtime 0 ''OBS-1'' ''addr'' PHeuristic ''report'' None"

definition sample_outpoint_target :: watch_target where
  "sample_outpoint_target = new_outpoint sample_runtime 0 ''OBS-1'' ''AB'' 1 OnChainVerified ''chain'' None"

text \<open>A transaction that spends the watched output and pays 200 BTC to the watched address.\<close>

definition sample_watch_tx :: transaction_observation where
  "sample_watch_tx =
     \<lparr>tx_txid = ''cd'', tx_timestamp = 0, tx_block_hash = None, tx_block_height = None,
      tx_fee_sats = 1000, tx_size = 200, tx_weight = 800, tx_vsize = 200,
      tx_fee_rate_sat_vb = None, tx_total_input_sats = 20000001000,
      tx_total_output_sats = 20000000000, tx_input_count = 1, tx_output_count = 1,
      tx_inputs =
        [\<lparr>in_txid = ''ab'', in_vout = 1, in_sequence = 0,
          in_prev_out_value_sats = Some 20000001000, in_prev_out_address = None,
          in_is_coinbase = False, in_historical_utxo = None\<rparr>],
      tx_outputs =
        [\<lparr>out_value_sats = 20000000000, out_n = 0, out_script_pubkey_type = None,
          out_address = Some ''addr'', out_scriptpubkey_hex = None\<rparr>],
      tx_is_rbf = False, tx_confirmed = False, tx_source = None\<rparr>"

definition sample_watch_run :: watch_run where
  "sample_watch_run =
     fold (watch_step of_nat) [AddTarget sample_address_target, WatchTx 0 sample_watch_tx None None]
       (watch_start 3)"

lemma sample_watch_run_eval:
  "map (\<lambda>(a, al). (ac_type a, ac_confidence a, al = None)) (wr_results sample_watch_run)
     = [(WatchedAddressReceived, PHeuristic, False)]"
  by (simp add: sample_watch_run_def sample_watch_tx_def sample_address_target_def new_address_def
      watch_target_new_def watch_start_def with_follow_depth_def add_target_def index_push_def
      index_get_def process_transaction_def match_input_def match_descendant_def match_output_def
      match_address_received_def emit_def target_activity_def create_alert_if_significant_def Let_def)

theorem weak_attribution_stays_heuristic_witness:
  "ac_correlation_strength (fst (hd (wr_results sample_watch_run))) = CHeuristic
   \<and> map_option al_severity (snd (hd (wr_results sample_watch_run))) = Some SevMedium"
proof -
  obtain a al where r: "wr_results sample_watch_run = [(a, al)]"
    and p: "ac_type a = WatchedAddressReceived" "ac_confidence a = PHeuristic" "al \<noteq> None"
    using sample_watch_run_eval by (auto simp: map_eq_Cons_conv)
  have "(a, al) \<in> set (wr_results (fold (watch_step of_nat)
      [AddTarget sample_address_target, WatchTx 0 sample_watch_tx None None] (watch_start 3)))"
    using r by (simp add: sample_watch_run_def)
  then show ?thesis using weak_attribution_stays_heuristic p r by fastforce
qed

text \<open>
  C26. No watched spend is missed: once an active outpoint target is added, whatever inputs follow
  except its own removal, every transaction that spends the outpoint (the case of the identifier
  does not matter) yields a spend activity of that target, directly correlated and with an alert.
\<close>

theorem watched_spend_reported:
  assumes "wt_active t" "wt_kind t = OutPoint txid vout" "RemoveTarget (wt_id t) \<notin> set ops"
    and "inp \<in> set (tx_inputs tx)" "to_lowercase (in_txid inp) = to_lowercase txid" "in_vout inp = vout"
  shows "\<exists>act al. (act, Some al) \<in> set (wr_results (process_transaction v4 now tx h bh
             (fold (watch_step v4) ops (watch_step v4 (AddTarget t) r))))
     \<and> ac_type act = WatchedOutpointSpent \<and> ac_watch_target_id act = wt_id t
     \<and> ac_trigger_txid act = Some (tx_txid tx) \<and> ac_correlation_strength act = Direct"
proof -
  have "watches t (to_lowercase (in_txid inp), in_vout inp) (watch_step v4 (AddTarget t) r)"
    using add_target_outpoint [OF assms(1,2)] assms(5,6) by (simp add: watches_def)
  from watches_fold [OF this assms(3)]
  obtain x where "x \<in> set (wr_results (process_transaction v4 now tx h bh
      (fold (watch_step v4) ops (watch_step v4 (AddTarget t) r))))" and
    "ac_type (fst x) = WatchedOutpointSpent" "ac_watch_target_id (fst x) = wt_id t"
    "ac_trigger_txid (fst x) = Some (tx_txid tx)" "ac_correlation_strength (fst x) = Direct"
    "snd x \<noteq> None"
    unfolding watches_def using process_transaction_outpoint [OF _ assms(4)] by blast
  then show ?thesis by (metis option.exhaust prod.collapse)
qed

theorem watched_spend_reported_witness:
  "\<exists>act al. (act, Some al) \<in> set (wr_results (process_transaction of_nat 0 sample_watch_tx None None
      (fold (watch_step of_nat) [AddTarget sample_address_target]
         (watch_step of_nat (AddTarget sample_outpoint_target) (watch_start 3)))))
     \<and> ac_type act = WatchedOutpointSpent \<and> ac_watch_target_id act = wt_id sample_outpoint_target
     \<and> ac_trigger_txid act = Some ''cd'' \<and> ac_correlation_strength act = Direct"
proof -
  have "to_lowercase ''ab'' = to_lowercase ''AB''" by code_simp
  then show ?thesis
    using watched_spend_reported [of sample_outpoint_target "''AB''" 1 "[AddTarget sample_address_target]"
        "hd (tx_inputs sample_watch_tx)" sample_watch_tx of_nat 0 None None "watch_start 3"]
    by (simp add: sample_outpoint_target_def new_outpoint_def watch_target_new_def sample_watch_tx_def)
qed

text \<open>
  Removing a target undoes its addition: when no indexed target has the identifier yet, adding
  a target and removing it leaves the registry and every lookup of the four indexes as before.
\<close>

theorem remove_target_undoes_add:
  assumes "wt_id t \<notin> set (map fst (we_all_targets w))"
    and "\<forall>k. \<forall>x \<in> set (index_get (we_outpoint_index w) k). wt_id x \<noteq> wt_id t"
    and "\<forall>k. \<forall>x \<in> set (index_get (we_script_index w) k). wt_id x \<noteq> wt_id t"
    and "\<forall>k. \<forall>x \<in> set (index_get (we_address_index w) k). wt_id x \<noteq> wt_id t"
    and "\<forall>k. \<forall>x \<in> set (index_get (we_txid_index w) k). wt_id x \<noteq> wt_id t"
  shows "we_all_targets (remove_target (wt_id t) (add_target t w)) = we_all_targets w
     \<and> index_get (we_outpoint_index (remove_target (wt_id t) (add_target t w))) = index_get (we_outpoint_index w)
     \<and> index_get (we_script_index (remove_target (wt_id t) (add_target t w))) = index_get (we_script_index w)
     \<and> index_get (we_address_index (remove_target (wt_id t) (add_target t w))) = index_get (we_address_index w)
     \<and> index_get (we_txid_index (remove_target (wt_id t) (add_target t w))) = index_get (we_txid_index w)"
proof (cases "wt_active t")
  case True
  have none: "map_of (we_all_targets w) (wt_id t) = None" using assms(1) by (simp add: map_of_eq_None_iff)
  have del: "AList.delete (wt_id t) (AList.update (wt_id t) t (we_all_targets w)) = we_all_targets w"
    using assms(1) by (simp add: delete_update_fresh)
  have undo: "index_get (index_retain k (wt_id t) (index_push k t m)) = index_get m"
    if "\<forall>k. \<forall>x \<in> set (index_get m k). wt_id x \<noteq> wt_id t" for k and m :: "'k index"
    using that by (auto simp: fun_eq_iff index_get_retain index_get_push filter_id_conv)
  show ?thesis using True assms(2-5)
    by (cases "wt_kind t") (simp_all add: add_target_def remove_target_def Let_def update_conv' del undo)
next
  case False
  then show ?thesis using assms(1)
    by (simp add: add_target_def remove_target_def map_of_eq_None_iff [THEN iffD2])
qed

theorem remove_target_undoes_add_witness:
  "we_all_targets (remove_target (wt_id sample_outpoint_target)
      (add_target sample_outpoint_target (with_follow_depth 3))) = []"
  using remove_target_undoes_add [of sample_outpoint_target "with_follow_depth 3"]
  by (simp add: with_follow_depth_def index_get_def)

end
