(* ===== verification/Metrics.thy ===== *)
theory Metrics
  imports Detector_Engine "HOL-Library.Monad_Syntax" "HOL-Library.Product_Lexorder"
begin

text \<open>
  The vocabulary of historical baselines (\<open>obschain-core/src/baseline.rs\<close>): the metrics and their
  registry, metric values with their order and their numeric text, the extraction of metrics from
  events, rarity bands and baseline quality, and the records that a baseline run leaves behind.
  A textual enumeration is read back from the text it prints; that contract is a locale, which
  every enumeration of the file interprets.
\<close>

section \<open>Textual enumerations\<close>

locale text_enum =
  fixes show_enum :: "'a \<Rightarrow> string" and read_enum :: "string \<Rightarrow> string + 'a" and fold_case :: "string \<Rightarrow> string"
  assumes read_show: "read_enum (show_enum x) = Inr x"
    and read_fold: "fold_case s = fold_case t \<Longrightarrow> read_enum s = read_enum t"
begin

lemma show_enum_inj [simp]: "show_enum x = show_enum y \<longleftrightarrow> x = y"
  using read_show by (metis sum.inject(2))

lemma read_any_case: "fold_case s = fold_case (show_enum x) \<Longrightarrow> read_enum s = Inr x"
  using read_fold [of s "show_enum x"] by (simp add: read_show)

end

datatype baseline_metric =
    ValueSats | InputCount | OutputCount | Vsize
  | DormantValueSats | OldestInputAgeDays | AverageInputAgeDays | CoinAgeDestroyedSatoshiDays
  | ConsolidationRatio
  | DistributedValueSats | MedianOutputSats
  | FeeSats | FeeRateSatVb
  | IntervalSeconds

fun metric_str :: "baseline_metric \<Rightarrow> string" where
  "metric_str ValueSats = ''value_sats''"
| "metric_str InputCount = ''input_count''"
| "metric_str OutputCount = ''output_count''"
| "metric_str Vsize = ''vsize''"
| "metric_str DormantValueSats = ''dormant_value_sats''"
| "metric_str OldestInputAgeDays = ''oldest_input_age_days''"
| "metric_str AverageInputAgeDays = ''average_input_age_days''"
| "metric_str CoinAgeDestroyedSatoshiDays = ''coin_age_destroyed_satoshi_days''"
| "metric_str ConsolidationRatio = ''consolidation_ratio''"
| "metric_str DistributedValueSats = ''distributed_value_sats''"
| "metric_str MedianOutputSats = ''median_output_sats''"
| "metric_str FeeSats = ''fee_sats''"
| "metric_str FeeRateSatVb = ''fee_rate_sat_vb''"
| "metric_str IntervalSeconds = ''interval_seconds''"

fun default_definition_version :: "baseline_metric \<Rightarrow> string" where
  "default_definition_version ValueSats = ''transfer-amount-v1''"
| "default_definition_version InputCount = ''input-count-v1''"
| "default_definition_version OutputCount = ''output-count-v1''"
| "default_definition_version Vsize = ''vsize-v1''"
| "default_definition_version DormantValueSats = ''dormant-value-v1''"
| "default_definition_version OldestInputAgeDays = ''oldest-input-age-v1''"
| "default_definition_version AverageInputAgeDays = ''average-input-age-v1''"
| "default_definition_version CoinAgeDestroyedSatoshiDays = ''coin-age-destroyed-v1''"
| "default_definition_version ConsolidationRatio = ''consolidation-ratio-v1''"
| "default_definition_version DistributedValueSats = ''distributed-value-v1''"
| "default_definition_version MedianOutputSats = ''median-output-v1''"
| "default_definition_version FeeSats = ''fee-sats-v1''"
| "default_definition_version FeeRateSatVb = ''fee-rate-v1''"
| "default_definition_version IntervalSeconds = ''block-interval-v1''"

text \<open>A \<open>match\<close> on texts: the value of the first table entry, or the error with the text.\<close>

definition match_text :: "(string \<times> 'a) list \<Rightarrow> string \<Rightarrow> string \<Rightarrow> string + 'a" where
  "match_text table err s = (case map_of table s of Some x \<Rightarrow> Inr x | None \<Rightarrow> Inl (err @ s))"

definition metric_names :: "(string \<times> baseline_metric) list" where
  "metric_names =
     [(''value_sats'', ValueSats), (''total_output_sats'', ValueSats),
      (''input_count'', InputCount), (''inputs_count'', InputCount),
      (''output_count'', OutputCount), (''outputs_count'', OutputCount),
      (''vsize'', Vsize),
      (''dormant_value_sats'', DormantValueSats), (''total_dormant_sats'', DormantValueSats),
      (''oldest_input_age_days'', OldestInputAgeDays),
      (''average_input_age_days'', AverageInputAgeDays),
      (''coin_age_destroyed_satoshi_days'', CoinAgeDestroyedSatoshiDays),
      (''coin_age_destroyed_sats_days'', CoinAgeDestroyedSatoshiDays),
      (''consolidation_ratio'', ConsolidationRatio), (''input_output_ratio'', ConsolidationRatio),
      (''distributed_value_sats'', DistributedValueSats),
      (''total_distributed_sats'', DistributedValueSats),
      (''median_output_sats'', MedianOutputSats),
      (''fee_sats'', FeeSats), (''fee_rate_sat_vb'', FeeRateSatVb),
      (''interval_seconds'', IntervalSeconds)]"

definition metric_from_str :: "string \<Rightarrow> string + baseline_metric" where
  "metric_from_str s = match_text metric_names ''Unknown baseline metric: '' (to_lowercase (trim s))"

datatype metric_unit = Satoshis | SatoshiDays | UCount | Seconds | Days | SatoshisPerVbyte | Ratio

fun metric_unit_str :: "metric_unit \<Rightarrow> string" where
  "metric_unit_str Satoshis = ''satoshis''"
| "metric_unit_str SatoshiDays = ''satoshi_days''"
| "metric_unit_str UCount = ''count''"
| "metric_unit_str Seconds = ''seconds''"
| "metric_unit_str Days = ''days''"
| "metric_unit_str SatoshisPerVbyte = ''sat_vb''"
| "metric_unit_str Ratio = ''ratio''"

definition metric_unit_from_str :: "string \<Rightarrow> string + metric_unit" where
  "metric_unit_from_str s =
     match_text
       [(''satoshis'', Satoshis), (''sats'', Satoshis), (''satoshi_days'', SatoshiDays),
        (''count'', UCount), (''seconds'', Seconds), (''days'', Days),
        (''sat_vb'', SatoshisPerVbyte), (''satoshis_per_vbyte'', SatoshisPerVbyte),
        (''ratio'', Ratio), (''basis_points'', Ratio)]
       ''Unknown MetricUnit: '' (to_lowercase s)"

datatype rarity_direction = HigherIsRarer | LowerIsRarer | TwoSided

datatype percentile_method = ExactEmpiricalCdf | QuantileInterpolationEstimate

fun percentile_method_str :: "percentile_method \<Rightarrow> string" where
  "percentile_method_str ExactEmpiricalCdf = ''EXACT_EMPIRICAL_CDF''"
| "percentile_method_str QuantileInterpolationEstimate = ''QUANTILE_INTERPOLATION_ESTIMATE''"

definition is_exact :: "percentile_method \<Rightarrow> bool" where
  "is_exact m = (m = ExactEmpiricalCdf)"

definition is_estimated :: "percentile_method \<Rightarrow> bool" where
  "is_estimated m = (m = QuantileInterpolationEstimate)"

definition percentile_method_from_str :: "string \<Rightarrow> string + percentile_method" where
  "percentile_method_from_str s =
     match_text [(''EXACT_EMPIRICAL_CDF'', ExactEmpiricalCdf),
                 (''QUANTILE_INTERPOLATION_ESTIMATE'', QuantileInterpolationEstimate)]
       ''Unknown PercentileMethod: '' (to_uppercase s)"

section \<open>The registry\<close>

record metric_definition =
  md_event_type :: event_type
  md_metric :: baseline_metric
  md_unit :: metric_unit
  md_direction :: rarity_direction
  md_is_primary :: bool
  md_version :: string

definition metric_def ::
  "event_type \<Rightarrow> baseline_metric \<Rightarrow> metric_unit \<Rightarrow> rarity_direction \<Rightarrow> bool \<Rightarrow> metric_definition" where
  "metric_def ty m u dir prim =
     \<lparr>md_event_type = ty, md_metric = m, md_unit = u, md_direction = dir, md_is_primary = prim,
      md_version = default_definition_version m\<rparr>"

definition supported_event_types :: "event_type list" where
  "supported_event_types =
     [LargeTransfer, LongBlockInterval, DormantCoinsMoved, Consolidation, FanOut, ExtremeFee]"

definition metrics_for_event_type :: "event_type \<Rightarrow> metric_definition list" where
  "metrics_for_event_type ty =
     (case ty of
        LargeTransfer \<Rightarrow>
          [metric_def ty ValueSats Satoshis HigherIsRarer True,
           metric_def ty InputCount UCount HigherIsRarer False,
           metric_def ty OutputCount UCount HigherIsRarer False,
           metric_def ty Vsize UCount HigherIsRarer False]
      | DormantCoinsMoved \<Rightarrow>
          [metric_def ty DormantValueSats Satoshis HigherIsRarer True,
           metric_def ty OldestInputAgeDays Days HigherIsRarer False,
           metric_def ty CoinAgeDestroyedSatoshiDays SatoshiDays HigherIsRarer False,
           metric_def ty InputCount UCount HigherIsRarer False]
      | Consolidation \<Rightarrow>
          [metric_def ty InputCount UCount HigherIsRarer True,
           metric_def ty OutputCount UCount LowerIsRarer False,
           metric_def ty ValueSats Satoshis HigherIsRarer False,
           metric_def ty ConsolidationRatio Ratio HigherIsRarer False]
      | FanOut \<Rightarrow>
          [metric_def ty OutputCount UCount HigherIsRarer True,
           metric_def ty DistributedValueSats Satoshis HigherIsRarer False,
           metric_def ty MedianOutputSats Satoshis HigherIsRarer False]
      | ExtremeFee \<Rightarrow>
          [metric_def ty FeeRateSatVb SatoshisPerVbyte HigherIsRarer True,
           metric_def ty FeeSats Satoshis HigherIsRarer False]
      | LongBlockInterval \<Rightarrow> [metric_def ty IntervalSeconds Seconds HigherIsRarer True]
      | _ \<Rightarrow> [])"

definition primary_metric :: "event_type \<Rightarrow> metric_definition option" where
  "primary_metric ty = find md_is_primary (metrics_for_event_type ty)"

definition is_replayable_for_baselines :: "event_type \<Rightarrow> bool" where
  "is_replayable_for_baselines ty =
     (ty \<in> {LargeTransfer, LongBlockInterval, DormantCoinsMoved, Consolidation, FanOut, ExtremeFee})"

section \<open>Metric values\<close>

datatype metric_value = U64 u64 | U128 u128 | BasisPoints u32 | DecimalScaled u64 u32

fun metric_scale :: "metric_value \<Rightarrow> u32" where
  "metric_scale (U64 v) = 0"
| "metric_scale (U128 v) = 0"
| "metric_scale (BasisPoints v) = 2"
| "metric_scale (DecimalScaled v s) = s"

fun metric_as_u64 :: "metric_value \<Rightarrow> u64 option" where
  "metric_as_u64 (U64 v) = Some v"
| "metric_as_u64 (BasisPoints v) = Some (ucast v)"
| "metric_as_u64 (DecimalScaled v s) = (if s = 0 then Some v else None)"
| "metric_as_u64 (U128 v) = None"

fun metric_as_u128 :: "metric_value \<Rightarrow> u128 option" where
  "metric_as_u128 (U128 v) = Some v"
| "metric_as_u128 (U64 v) = Some (ucast v)"
| "metric_as_u128 (BasisPoints v) = Some (ucast v)"
| "metric_as_u128 (DecimalScaled v s) = (if s = 0 then Some (ucast v) else None)"

fun metric_to_u128 :: "metric_value \<Rightarrow> u128" where
  "metric_to_u128 (U64 v) = ucast v"
| "metric_to_u128 (U128 v) = v"
| "metric_to_u128 (BasisPoints v) = ucast v"
| "metric_to_u128 (DecimalScaled v s) = ucast v"

text \<open>
  \<open>f64::powi\<close> by repeated squaring, as the compiler's run-time library computes it; the powers of
  ten up to the 22nd are exact.
\<close>

fun powi_loop :: "f64 \<Rightarrow> nat \<Rightarrow> f64 \<Rightarrow> f64" where
  "powi_loop a b r =
     (let r' = (if odd b then f64_mul r a else r)
      in if b div 2 = 0 then r' else powi_loop (f64_mul a a) (b div 2) r')"

declare powi_loop.simps [simp del]

definition f64_powi :: "f64 \<Rightarrow> int \<Rightarrow> f64" where
  "f64_powi a b =
     (let r = powi_loop a (nat \<bar>b\<bar>) (Finite False 1)
      in if b < 0 then f64_div (Finite False 1) r else r)"

fun metric_to_f64 :: "metric_value \<Rightarrow> f64" where
  "metric_to_f64 (U64 v) = f64_of_word v"
| "metric_to_f64 (U128 v) = f64_of_word v"
| "metric_to_f64 (BasisPoints v) = f64_div (f64_of_word v) (f64_lit 100)"
| "metric_to_f64 (DecimalScaled v s) = f64_div (f64_of_word v) (f64_powi (f64_lit 10) (sint s))"

text \<open>
  The numeric text. A power of ten that exceeds 64 bits wraps; scales above 19 do not occur.
\<close>

fun to_numeric_string :: "metric_value \<Rightarrow> string" where
  "to_numeric_string (U64 v) = show_u v"
| "to_numeric_string (U128 v) = show_u v"
| "to_numeric_string (BasisPoints v) = show_u (v div 100) @ ''.'' @ pad_zeros 2 (show_u (v mod 100))"
| "to_numeric_string (DecimalScaled v s) =
     (if s = 0 then show_u v
      else let divisor = 10 ^ unat s
           in show_u (v div divisor) @ ''.'' @ pad_zeros (unat s) (show_u (v mod divisor)))"

text \<open>\<open>{:0<w}\<close>: the text filled with zeros on the right.\<close>

definition pad_right :: "nat \<Rightarrow> string \<Rightarrow> string" where
  "pad_right w s = s @ replicate (w - length s) (CHR ''0'')"

definition or_zero :: "'a::zero option \<Rightarrow> 'a" where
  "or_zero x = (case x of Some v \<Rightarrow> v | None \<Rightarrow> 0)"

definition int_part :: "string \<Rightarrow> string" where
  "int_part s = hd (split_on (CHR ''.'') s)"

definition from_str_and_metric :: "string \<Rightarrow> baseline_metric \<Rightarrow> metric_value" where
  "from_str_and_metric s metric =
     (let clean = trim s in
      case metric of
        CoinAgeDestroyedSatoshiDays \<Rightarrow>
          (case parse_u128 (int_part clean) of
             Some v \<Rightarrow> U128 v
           | None \<Rightarrow> (case parse_u128 clean of Some v \<Rightarrow> U128 v | None \<Rightarrow> U128 0))
      | FeeRateSatVb \<Rightarrow>
          (case split_once (CHR ''.'') clean of
             Some (w, f) \<Rightarrow>
               DecimalScaled (or_zero (parse_u64 w) * 100
                 + or_zero (parse_u64 (pad_right 2 (prefix_at 2 f)))) 2
           | None \<Rightarrow>
               (case parse_u64 clean of
                  Some v \<Rightarrow> DecimalScaled (v * 100) 2 | None \<Rightarrow> DecimalScaled 0 2))
      | ConsolidationRatio \<Rightarrow>
          (case split_once (CHR ''.'') clean of
             Some (w, f) \<Rightarrow>
               BasisPoints (or_zero (parse_u32 w) * 100
                 + or_zero (parse_u32 (pad_right 2 (prefix_at 2 f))))
           | None \<Rightarrow>
               (case parse_u32 clean of
                  Some v \<Rightarrow> BasisPoints (v * 100) | None \<Rightarrow> BasisPoints 0))
      | _ \<Rightarrow>
          (case parse_u64 (int_part clean) of
             Some v \<Rightarrow> U64 v
           | None \<Rightarrow> (case parse_u64 clean of Some v \<Rightarrow> U64 v | None \<Rightarrow> U64 0)))"

definition from_str_scale_and_metric :: "string \<Rightarrow> u32 \<Rightarrow> baseline_metric \<Rightarrow> metric_value" where
  "from_str_scale_and_metric s scale metric =
     (let clean = trim s; width = unat scale in
      if scale = 0 then
        if metric = CoinAgeDestroyedSatoshiDays then U128 (or_zero (parse_u128 (int_part clean)))
        else U64 (or_zero (parse_u64 (int_part clean)))
      else if metric = ConsolidationRatio \<and> scale = 2 then from_str_and_metric clean metric
      else case split_once (CHR ''.'') clean of
             Some (w, f) \<Rightarrow>
               DecimalScaled (or_zero (parse_u64 w) * 10 ^ width
                 + or_zero (parse_u64 (pad_right width (prefix_at width f)))) scale
           | None \<Rightarrow>
               (case parse_u64 clean of
                  Some v \<Rightarrow> DecimalScaled (v * 10 ^ width) scale
                | None \<Rightarrow> DecimalScaled 0 scale))"

text \<open>The derived order: the constructors in their order, then their arguments.\<close>

fun metric_rank :: "metric_value \<Rightarrow> nat \<times> nat \<times> nat" where
  "metric_rank (U64 v) = (0, unat v, 0)"
| "metric_rank (U128 v) = (1, unat v, 0)"
| "metric_rank (BasisPoints v) = (2, unat v, 0)"
| "metric_rank (DecimalScaled v s) = (3, unat v, unat s)"

lemma metric_rank_inj [simp]: "metric_rank x = metric_rank y \<longleftrightarrow> x = y"
  by (cases x; cases y) (simp_all add: word_unat_eq_iff)

instantiation metric_value :: linorder
begin

definition less_eq_metric_value :: "metric_value \<Rightarrow> metric_value \<Rightarrow> bool" where
  "x \<le> y \<longleftrightarrow> metric_rank x \<le> metric_rank y"

definition less_metric_value :: "metric_value \<Rightarrow> metric_value \<Rightarrow> bool" where
  "x < y \<longleftrightarrow> metric_rank x < metric_rank y"

instance
  by standard (auto simp: less_eq_metric_value_def less_metric_value_def less_le_not_le)

end


section \<open>Reading typed metadata back\<close>

text \<open>
  \<open>serde_json::from_value\<close> on the metadata structures: an object is read by field name and
  unknown fields are ignored, an array of the right length is read by position, a number must fit
  its field, and a unit variant is its name or a one-field object of null.
\<close>

definition struct_fields :: "string list \<Rightarrow> json \<Rightarrow> (string \<times> json) list option" where
  "struct_fields names j =
     (case j of
        JObj m \<Rightarrow> Some m
      | JArr vs \<Rightarrow> if length vs = length names then Some (zip names vs) else None
      | _ \<Rightarrow> None)"

fun as_word :: "json \<Rightarrow> 'a::len word option" where
  "as_word (JNum (PosInt n)) = (if n < 2 ^ LENGTH('a) then Some (of_nat n) else None)"
| "as_word _ = None"

fun as_opt :: "(json \<Rightarrow> 'a option) \<Rightarrow> json \<Rightarrow> 'a option option" where
  "as_opt f JNull = Some None"
| "as_opt f j = map_option Some (f j)"

definition as_variant :: "(string \<times> 'a) list \<Rightarrow> json \<Rightarrow> 'a option" where
  "as_variant table j =
     (case j of
        JStr s \<Rightarrow> map_of table s
      | JObj [(s, JNull)] \<Rightarrow> map_of table s
      | _ \<Rightarrow> None)"

definition get_field :: "(string \<times> json) list \<Rightarrow> string \<Rightarrow> (json \<Rightarrow> 'a option) \<Rightarrow> 'a option" where
  "get_field m k f = Option.bind (map_of m k) f"

text \<open>A missing optional field reads as absent, from an object.\<close>

definition get_opt_field :: "(string \<times> json) list \<Rightarrow> string \<Rightarrow> (json \<Rightarrow> 'a option) \<Rightarrow> 'a option option" where
  "get_opt_field m k f = (case map_of m k of None \<Rightarrow> Some None | Some v \<Rightarrow> as_opt f v)"

definition dormant_coins_of_json :: "json \<Rightarrow> dormant_coins_metadata option" where
  "dormant_coins_of_json j =
     do {
       m \<leftarrow> struct_fields
         [''total_dormant_sats'', ''total_dormant_btc'', ''dormant_input_count'',
          ''total_input_count'', ''oldest_input_age_days'', ''oldest_input_age_seconds'',
          ''youngest_qualifying_age_days'', ''total_input_sats'', ''total_output_sats'',
          ''dormant_ratio'', ''coin_age_destroyed_sats_days'', ''coin_age_destroyed_btc_days'',
          ''coin_age_destroyed_btc_years'', ''classification''] j;
       total_dormant \<leftarrow> get_field m ''total_dormant_sats'' as_word;
       dormant_btc \<leftarrow> get_field m ''total_dormant_btc'' as_f64;
       dormant_count \<leftarrow> get_field m ''dormant_input_count'' as_word;
       input_count \<leftarrow> get_field m ''total_input_count'' as_word;
       age_days \<leftarrow> get_field m ''oldest_input_age_days'' as_word;
       age_secs \<leftarrow> get_field m ''oldest_input_age_seconds'' as_word;
       youngest \<leftarrow> get_field m ''youngest_qualifying_age_days'' as_word;
       total_in \<leftarrow> get_field m ''total_input_sats'' as_word;
       total_out \<leftarrow> get_field m ''total_output_sats'' as_word;
       ratio \<leftarrow> get_field m ''dormant_ratio'' as_f64;
       cad \<leftarrow> get_field m ''coin_age_destroyed_sats_days'' as_word;
       btc_days \<leftarrow> get_field m ''coin_age_destroyed_btc_days'' as_f64;
       btc_years \<leftarrow> get_field m ''coin_age_destroyed_btc_years'' as_f64;
       cls \<leftarrow> get_field m ''classification'' (as_variant
         [(''DORMANT'', Dormant), (''VERY_OLD'', VeryOld), (''ANCIENT'', Ancient),
          (''EARLY_BITCOIN'', EarlyBitcoin)]);
       Some \<lparr>dm_total_dormant_sats = total_dormant, dm_total_dormant_btc = dormant_btc,
             dm_dormant_input_count = dormant_count, dm_total_input_count = input_count,
             dm_oldest_input_age_days = age_days, dm_oldest_input_age_seconds = age_secs,
             dm_youngest_qualifying_age_days = youngest, dm_total_input_sats = total_in,
             dm_total_output_sats = total_out, dm_dormant_ratio = ratio,
             dm_coin_age_destroyed_sats_days = cad, dm_coin_age_destroyed_btc_days = btc_days,
             dm_coin_age_destroyed_btc_years = btc_years, dm_classification = cls\<rparr>
     }"

definition consolidation_of_json :: "json \<Rightarrow> consolidation_metadata option" where
  "consolidation_of_json j =
     do {
       m \<leftarrow> struct_fields
         [''input_count'', ''output_count'', ''input_output_ratio'', ''total_input_sats'',
          ''total_output_sats'', ''fee_sats''] j;
       ins \<leftarrow> get_field m ''input_count'' as_word;
       outs \<leftarrow> get_field m ''output_count'' as_word;
       ratio \<leftarrow> get_field m ''input_output_ratio'' as_f64;
       total_in \<leftarrow> get_field m ''total_input_sats'' as_word;
       total_out \<leftarrow> get_field m ''total_output_sats'' as_word;
       fee \<leftarrow> get_field m ''fee_sats'' as_word;
       Some \<lparr>cm_input_count = ins, cm_output_count = outs, cm_input_output_ratio = ratio,
             cm_total_input_sats = total_in, cm_total_output_sats = total_out, cm_fee_sats = fee\<rparr>
     }"

definition fan_out_of_json :: "json \<Rightarrow> fan_out_metadata option" where
  "fan_out_of_json j =
     do {
       m \<leftarrow> struct_fields
         [''input_count'', ''output_count'', ''output_input_ratio'', ''total_distributed_sats'',
          ''total_distributed_btc'', ''median_output_sats'', ''smallest_output_sats'',
          ''largest_output_sats''] j;
       ins \<leftarrow> get_field m ''input_count'' as_word;
       outs \<leftarrow> get_field m ''output_count'' as_word;
       ratio \<leftarrow> get_field m ''output_input_ratio'' as_f64;
       distributed \<leftarrow> get_field m ''total_distributed_sats'' as_word;
       btc \<leftarrow> get_field m ''total_distributed_btc'' as_f64;
       median \<leftarrow> get_field m ''median_output_sats'' as_word;
       smallest \<leftarrow> get_field m ''smallest_output_sats'' as_word;
       largest \<leftarrow> get_field m ''largest_output_sats'' as_word;
       Some \<lparr>fm_input_count = ins, fm_output_count = outs, fm_output_input_ratio = ratio,
             fm_total_distributed_sats = distributed, fm_total_distributed_btc = btc,
             fm_median_output_sats = median, fm_smallest_output_sats = smallest,
             fm_largest_output_sats = largest\<rparr>
     }"

definition extreme_fee_of_json :: "json \<Rightarrow> extreme_fee_metadata option" where
  "extreme_fee_of_json j =
     do {
       m \<leftarrow> struct_fields
         [''fee_sats'', ''fee_btc'', ''fee_rate_sat_vb'', ''vsize'', ''total_input_sats'',
          ''total_output_sats'', ''fee_trigger_type''] j;
       fee \<leftarrow> get_field m ''fee_sats'' as_word;
       btc \<leftarrow> get_field m ''fee_btc'' as_f64;
       rate \<leftarrow> get_opt_field m ''fee_rate_sat_vb'' as_f64;
       vs \<leftarrow> get_field m ''vsize'' as_word;
       total_in \<leftarrow> get_field m ''total_input_sats'' as_word;
       total_out \<leftarrow> get_field m ''total_output_sats'' as_word;
       trig \<leftarrow> get_field m ''fee_trigger_type'' (as_variant
         [(''HIGH_ABSOLUTE_FEE'', HighAbsoluteFee), (''HIGH_FEE_RATE'', HighFeeRate),
          (''BOTH'', Both)]);
       Some \<lparr>xm_fee_sats = fee, xm_fee_btc = btc, xm_fee_rate_sat_vb = rate, xm_vsize = vs,
             xm_total_input_sats = total_in, xm_total_output_sats = total_out,
             xm_fee_trigger_type = trig\<rparr>
     }"

section \<open>Extraction\<close>

text \<open>\<open>get(a).or_else(|| get(b)).and_then(as_u64).map(U64)\<close> for a list of field names.\<close>

fun first_field :: "json \<Rightarrow> string list \<Rightarrow> json option" where
  "first_field j [] = None"
| "first_field j (k # ks) = (case json_get k j of Some v \<Rightarrow> Some v | None \<Rightarrow> first_field j ks)"

definition u64_field :: "json \<Rightarrow> string list \<Rightarrow> metric_value option" where
  "u64_field j ks = map_option U64 (Option.bind (first_field j ks) as_u64)"

definition hundredths :: "f64 \<Rightarrow> f64" where
  "hundredths x = f64_round (f64_mul x (f64_lit 100))"

definition ratio_metric :: "f64 \<Rightarrow> metric_value" where
  "ratio_metric r = BasisPoints (f64_to_u32 (hundredths r))"

definition rate_metric :: "f64 \<Rightarrow> metric_value" where
  "rate_metric r = DecimalScaled (f64_to_u64 (hundredths r)) 2"

definition coin_age_field :: "json \<Rightarrow> u128 option" where
  "coin_age_field v =
     (case as_u64 v of
        Some n \<Rightarrow> Some (ucast n)
      | None \<Rightarrow> Option.bind (as_str v) parse_u128)"

definition extract_metric :: "chain_event \<Rightarrow> baseline_metric \<Rightarrow> metric_value option" where
  "extract_metric ev metric =
     (let j = ev_metadata ev in
      case ev_type ev of
        LargeTransfer \<Rightarrow>
          (case metric of
             ValueSats \<Rightarrow> u64_field j [''total_output_sats'', ''value_sats'']
           | InputCount \<Rightarrow> u64_field j [''inputs_count'', ''input_count'']
           | OutputCount \<Rightarrow> u64_field j [''outputs_count'', ''output_count'']
           | Vsize \<Rightarrow> u64_field j [''vsize'']
           | _ \<Rightarrow> None)
      | DormantCoinsMoved \<Rightarrow>
          (case metric of
             DormantValueSats \<Rightarrow>
               (case dormant_coins_of_json j of
                  Some d \<Rightarrow> Some (U64 (dm_total_dormant_sats d))
                | None \<Rightarrow> u64_field j [''total_dormant_sats'', ''dormant_value_sats''])
           | OldestInputAgeDays \<Rightarrow>
               (case dormant_coins_of_json j of
                  Some d \<Rightarrow> Some (U64 (dm_oldest_input_age_days d))
                | None \<Rightarrow> u64_field j [''oldest_input_age_days''])
           | CoinAgeDestroyedSatoshiDays \<Rightarrow>
               (case dormant_coins_of_json j of
                  Some d \<Rightarrow> Some (U128 (dm_coin_age_destroyed_sats_days d))
                | None \<Rightarrow> map_option U128 (Option.bind
                    (first_field j [''coin_age_destroyed_sats_days'', ''coin_age_destroyed_satoshi_days''])
                    coin_age_field))
           | InputCount \<Rightarrow>
               (case dormant_coins_of_json j of
                  Some d \<Rightarrow> Some (U64 (ucast (dm_dormant_input_count d)))
                | None \<Rightarrow> u64_field j [''dormant_input_count'', ''input_count''])
           | _ \<Rightarrow> None)
      | Consolidation \<Rightarrow>
          (case metric of
             InputCount \<Rightarrow>
               (case consolidation_of_json j of
                  Some c \<Rightarrow> Some (U64 (ucast (cm_input_count c)))
                | None \<Rightarrow> u64_field j [''input_count''])
           | OutputCount \<Rightarrow>
               (case consolidation_of_json j of
                  Some c \<Rightarrow> Some (U64 (ucast (cm_output_count c)))
                | None \<Rightarrow> u64_field j [''output_count''])
           | ValueSats \<Rightarrow>
               (case consolidation_of_json j of
                  Some c \<Rightarrow> Some (U64 (cm_total_input_sats c))
                | None \<Rightarrow> u64_field j [''total_input_sats'', ''value_sats''])
           | ConsolidationRatio \<Rightarrow>
               (case consolidation_of_json j of
                  Some c \<Rightarrow> Some (ratio_metric (cm_input_output_ratio c))
                | None \<Rightarrow> map_option ratio_metric
                    (Option.bind (json_get ''input_output_ratio'' j) as_f64))
           | _ \<Rightarrow> None)
      | FanOut \<Rightarrow>
          (case metric of
             OutputCount \<Rightarrow>
               (case fan_out_of_json j of
                  Some f \<Rightarrow> Some (U64 (ucast (fm_output_count f)))
                | None \<Rightarrow> u64_field j [''output_count''])
           | DistributedValueSats \<Rightarrow>
               (case fan_out_of_json j of
                  Some f \<Rightarrow> Some (U64 (fm_total_distributed_sats f))
                | None \<Rightarrow> u64_field j [''total_distributed_sats''])
           | MedianOutputSats \<Rightarrow>
               (case fan_out_of_json j of
                  Some f \<Rightarrow> Some (U64 (fm_median_output_sats f))
                | None \<Rightarrow> u64_field j [''median_output_sats''])
           | _ \<Rightarrow> None)
      | ExtremeFee \<Rightarrow>
          (case metric of
             FeeRateSatVb \<Rightarrow>
               (case extreme_fee_of_json j of
                  Some e \<Rightarrow> map_option rate_metric (xm_fee_rate_sat_vb e)
                | None \<Rightarrow> map_option rate_metric
                    (Option.bind (json_get ''fee_rate_sat_vb'' j) as_f64))
           | FeeSats \<Rightarrow>
               (case extreme_fee_of_json j of
                  Some e \<Rightarrow> Some (U64 (xm_fee_sats e))
                | None \<Rightarrow> u64_field j [''fee_sats''])
           | _ \<Rightarrow> None)
      | LongBlockInterval \<Rightarrow>
          (case metric of
             IntervalSeconds \<Rightarrow> u64_field j [''interval_seconds'']
           | _ \<Rightarrow> None)
      | _ \<Rightarrow> None)"

record event_metric_value =
  mv_id :: uuid
  mv_event_id :: uuid
  mv_network :: string
  mv_event_type :: event_type
  mv_metric :: baseline_metric
  mv_definition_version :: string
  mv_value :: metric_value
  mv_scale :: u32
  mv_block_height :: u64
  mv_event_time :: datetime
  mv_created_at :: datetime

text \<open>Every record gets a fresh random identifier; the supply is indexed by position.\<close>

definition extract_event_metrics ::
  "(nat \<Rightarrow> uuid) \<Rightarrow> datetime \<Rightarrow> chain_event \<Rightarrow> string option \<Rightarrow> event_metric_value list" where
  "extract_event_metrics v4 now ev version =
     (let version_str = (case version of Some v \<Rightarrow> v | None \<Rightarrow> ''v1'');
          height = (case ev_block_height ev of Some h \<Rightarrow> h | None \<Rightarrow> 0);
          network = (case event_network ev of Some n \<Rightarrow> n | None \<Rightarrow> ''mainnet'');
          found = List.map_filter (\<lambda>d. map_option (\<lambda>v. (md_metric d, v)) (extract_metric ev (md_metric d)))
            (metrics_for_event_type (ev_type ev))
      in map (\<lambda>(i, m, v).
           \<lparr>mv_id = v4 i, mv_event_id = ev_id ev, mv_network = network, mv_event_type = ev_type ev,
            mv_metric = m, mv_definition_version = metric_str m @ ''-'' @ version_str, mv_value = v,
            mv_scale = metric_scale v, mv_block_height = height, mv_event_time = ev_event_time ev,
            mv_created_at = now\<rparr>) (enumerate 0 found))"

section \<open>Bands, quality and records\<close>

record baseline_window =
  bw_start_height :: u64
  bw_end_height :: u64
  bw_start_time :: "datetime option"
  bw_end_time :: "datetime option"
  bw_network :: string

definition baseline_window_new :: "string \<Rightarrow> u64 \<Rightarrow> u64 \<Rightarrow> baseline_window" where
  "baseline_window_new network s e =
     \<lparr>bw_start_height = s, bw_end_height = e, bw_start_time = None, bw_end_time = None,
      bw_network = network\<rparr>"

definition with_time_bounds ::
  "datetime option \<Rightarrow> datetime option \<Rightarrow> baseline_window \<Rightarrow> baseline_window" where
  "with_time_bounds s e w = w\<lparr>bw_start_time := s, bw_end_time := e\<rparr>"

datatype rarity_band = Common | Notable | Unusual | Rare | Extreme | InsufficientData

definition from_percentile :: "f64 \<Rightarrow> u64 \<Rightarrow> u64 \<Rightarrow> rarity_band" where
  "from_percentile percentile sample_count min_sample_size =
     (if sample_count < min_sample_size then InsufficientData
      else if f64_le (f64_lit 99.9) percentile then Extreme
      else if f64_le (f64_lit 99) percentile then Rare
      else if f64_le (f64_lit 95) percentile then Unusual
      else if f64_le (f64_lit 90) percentile then Notable
      else Common)"

fun rarity_band_str :: "rarity_band \<Rightarrow> string" where
  "rarity_band_str Common = ''COMMON''"
| "rarity_band_str Notable = ''NOTABLE''"
| "rarity_band_str Unusual = ''UNUSUAL''"
| "rarity_band_str Rare = ''RARE''"
| "rarity_band_str Extreme = ''EXTREME''"
| "rarity_band_str InsufficientData = ''INSUFFICIENT_DATA''"

definition rarity_band_from_str :: "string \<Rightarrow> string + rarity_band" where
  "rarity_band_from_str s =
     match_text
       [(''COMMON'', Common), (''NOTABLE'', Notable), (''UNUSUAL'', Unusual), (''RARE'', Rare),
        (''EXTREME'', Extreme), (''INSUFFICIENT_DATA'', InsufficientData)]
       ''Unknown RarityBand: '' (to_uppercase s)"

datatype evaluation_mode = Retrospective | PointInTime

fun evaluation_mode_str :: "evaluation_mode \<Rightarrow> string" where
  "evaluation_mode_str Retrospective = ''RETROSPECTIVE''"
| "evaluation_mode_str PointInTime = ''POINT_IN_TIME''"

definition evaluation_mode_from_str :: "string \<Rightarrow> string + evaluation_mode" where
  "evaluation_mode_from_str s =
     match_text [(''RETROSPECTIVE'', Retrospective), (''POINT_IN_TIME'', PointInTime)]
       ''Unknown EvaluationMode: '' (to_uppercase s)"

datatype baseline_quality = QHigh | QModerate | QDegraded | QInsufficient

definition quality_evaluate :: "u64 \<Rightarrow> f64 \<Rightarrow> baseline_quality" where
  "quality_evaluate sample_count coverage =
     (if sample_count \<ge> 500 \<and> f64_le (f64_lit 0.95) coverage then QHigh
      else if sample_count \<ge> 100 \<and> f64_le (f64_lit 0.80) coverage then QModerate
      else if sample_count \<ge> 30 \<and> f64_le (f64_lit 0.50) coverage then QDegraded
      else QInsufficient)"

fun baseline_quality_str :: "baseline_quality \<Rightarrow> string" where
  "baseline_quality_str QHigh = ''HIGH''"
| "baseline_quality_str QModerate = ''MODERATE''"
| "baseline_quality_str QDegraded = ''DEGRADED''"
| "baseline_quality_str QInsufficient = ''INSUFFICIENT''"

definition baseline_quality_from_str :: "string \<Rightarrow> string + baseline_quality" where
  "baseline_quality_from_str s =
     match_text [(''HIGH'', QHigh), (''MODERATE'', QModerate), (''DEGRADED'', QDegraded),
                 (''INSUFFICIENT'', QInsufficient)]
       ''Unknown BaselineQuality: '' (to_uppercase s)"

definition BLOCKS_PER_HALVING :: u64 where
  "BLOCKS_PER_HALVING = 210000"

definition epoch_from_height :: "u64 \<Rightarrow> u32" where
  "epoch_from_height height = ucast (height div BLOCKS_PER_HALVING)"

definition epoch_range :: "u32 \<Rightarrow> u64 \<times> u64" where
  "epoch_range epoch =
     (let start = ucast epoch * BLOCKS_PER_HALVING in (start, start + BLOCKS_PER_HALVING - 1))"

record quantile_distribution =
  qd_sample_count :: u64
  qd_candidate_count :: u64
  qd_missing_count :: u64
  qd_coverage_ratio :: f64
  qd_minimum :: metric_value
  qd_maximum :: metric_value
  qd_mean :: f64
  qd_p50 :: metric_value
  qd_p75 :: metric_value
  qd_p90 :: metric_value
  qd_p95 :: metric_value
  qd_p99 :: metric_value
  qd_p999 :: metric_value
  qd_quality :: baseline_quality

datatype baseline_run_status = BPending | BRunning | BCompleted | BFailed

fun baseline_run_status_str :: "baseline_run_status \<Rightarrow> string" where
  "baseline_run_status_str BPending = ''PENDING''"
| "baseline_run_status_str BRunning = ''RUNNING''"
| "baseline_run_status_str BCompleted = ''COMPLETED''"
| "baseline_run_status_str BFailed = ''FAILED''"

definition baseline_run_status_from_str :: "string \<Rightarrow> string + baseline_run_status" where
  "baseline_run_status_from_str s =
     match_text [(''PENDING'', BPending), (''RUNNING'', BRunning), (''COMPLETED'', BCompleted),
                 (''FAILED'', BFailed)]
       ''Unknown BaselineRunStatus: '' (to_uppercase s)"

record baseline_run =
  br_id :: uuid
  br_network :: string
  br_start_height :: u64
  br_end_height :: u64
  br_started_at :: datetime
  br_completed_at :: "datetime option"
  br_status :: baseline_run_status
  br_algorithm_version :: string
  br_canonical_event_count :: u64
  br_error_message :: "string option"
  br_metadata :: json
  br_created_at :: datetime

record baseline_distribution =
  bd_id :: uuid
  bd_baseline_run_id :: uuid
  bd_event_type :: event_type
  bd_metric :: baseline_metric
  bd_unit :: metric_unit
  bd_sample_count :: u64
  bd_candidate_count :: u64
  bd_missing_count :: u64
  bd_coverage_ratio :: f64
  bd_minimum :: metric_value
  bd_maximum :: metric_value
  bd_mean :: f64
  bd_p50 :: metric_value
  bd_p75 :: metric_value
  bd_p90 :: metric_value
  bd_p95 :: metric_value
  bd_p99 :: metric_value
  bd_p999 :: metric_value
  bd_quality :: baseline_quality
  bd_samples_json :: "json option"
  bd_created_at :: datetime

record event_rarity_result =
  er_event_id :: uuid
  er_baseline_run_id :: uuid
  er_event_type :: event_type
  er_metric :: baseline_metric
  er_value :: metric_value
  er_percentile :: "f64 option"
  er_percentile_method :: percentile_method
  er_estimated :: bool
  er_rarity_band :: rarity_band
  er_population_size :: u64
  er_tail_count :: u64
  er_evaluation_mode :: evaluation_mode

definition frequency_description :: "event_rarity_result \<Rightarrow> string" where
  "frequency_description r =
     (let one_in = (case checked_div (er_population_size r) (er_tail_count r) of
                      Some q \<Rightarrow> q | None \<Rightarrow> er_population_size r)
      in show_u (er_tail_count r) @ '' comparable-or-rarer events across ''
         @ show_u (er_population_size r) @ '' qualifying events (approx. 1 in '' @ show_u one_in @ '')'')"

record impact_component_definition =
  icd_name :: string
  icd_metric :: baseline_metric
  icd_weight :: f64

record impact_model_definition =
  imd_id :: string
  imd_event_type :: event_type
  imd_version :: string
  imd_components :: "impact_component_definition list"

record impact_component =
  imc_component_name :: string
  imc_metric :: baseline_metric
  imc_raw_value :: string
  imc_percentile :: "f64 option"
  imc_weight :: f64
  imc_points_awarded :: f64
  imc_population_size :: u64

record impact_breakdown =
  ib_model_id :: string
  ib_model_version :: string
  ib_event_type :: event_type
  ib_status :: string
  ib_total_score :: "f64 option"
  ib_max_possible_points :: f64
  ib_model_coverage :: f64
  ib_coverage_ratio :: f64
  ib_components :: "impact_component list"

record event_rarity_context =
  rc_baseline_id :: uuid
  rc_baseline_version :: string
  rc_evaluation_mode :: evaluation_mode
  rc_primary :: event_rarity_result
  rc_secondary :: "event_rarity_result list"
  rc_impact :: "impact_breakdown option"


section \<open>Enumerations are read back\<close>

lemma match_text_cong: "s = t \<Longrightarrow> match_text tab err s = match_text tab err t"
  by simp

interpretation metric_enum: text_enum metric_str metric_from_str "\<lambda>s. to_lowercase (trim s)"
proof unfold_locales
  show "metric_from_str (metric_str m) = Inr m" for m by (cases m; hypsubst; code_simp)
qed (simp add: metric_from_str_def)

interpretation unit_enum: text_enum metric_unit_str metric_unit_from_str to_lowercase
proof unfold_locales
  show "metric_unit_from_str (metric_unit_str u) = Inr u" for u by (cases u; hypsubst; code_simp)
qed (simp add: metric_unit_from_str_def)

interpretation method_enum: text_enum percentile_method_str percentile_method_from_str to_uppercase
proof unfold_locales
  show "percentile_method_from_str (percentile_method_str m) = Inr m" for m
    by (cases m; hypsubst; code_simp)
qed (simp add: percentile_method_from_str_def)

interpretation band_enum: text_enum rarity_band_str rarity_band_from_str to_uppercase
proof unfold_locales
  show "rarity_band_from_str (rarity_band_str b) = Inr b" for b by (cases b; hypsubst; code_simp)
qed (simp add: rarity_band_from_str_def)

interpretation mode_enum: text_enum evaluation_mode_str evaluation_mode_from_str to_uppercase
proof unfold_locales
  show "evaluation_mode_from_str (evaluation_mode_str m) = Inr m" for m
    by (cases m; hypsubst; code_simp)
qed (simp add: evaluation_mode_from_str_def)

interpretation quality_enum: text_enum baseline_quality_str baseline_quality_from_str to_uppercase
proof unfold_locales
  show "baseline_quality_from_str (baseline_quality_str q) = Inr q" for q
    by (cases q; hypsubst; code_simp)
qed (simp add: baseline_quality_from_str_def)

interpretation run_status_enum: text_enum baseline_run_status_str baseline_run_status_from_str to_uppercase
proof unfold_locales
  show "baseline_run_status_from_str (baseline_run_status_str s) = Inr s" for s
    by (cases s; hypsubst; code_simp)
qed (simp add: baseline_run_status_from_str_def)

section \<open>Values and their text\<close>

text \<open>Which constructor the extractor uses for which metric.\<close>

fun metric_typed :: "baseline_metric \<Rightarrow> metric_value \<Rightarrow> bool" where
  "metric_typed CoinAgeDestroyedSatoshiDays v = (\<exists>n. v = U128 n)"
| "metric_typed ConsolidationRatio v = (\<exists>n. v = BasisPoints n)"
| "metric_typed FeeRateSatVb v = (\<exists>n. v = DecimalScaled n 2)"
| "metric_typed m v = (\<exists>n. v = U64 n)"

lemma u64_field_typed: "u64_field j ks = Some v \<Longrightarrow> \<exists>n. v = U64 n"
  by (auto simp: u64_field_def)

lemma extract_metric_typed: "extract_metric ev m = Some v \<Longrightarrow> metric_typed m v"
  by (auto simp: extract_metric_def Let_def ratio_metric_def rate_metric_def u64_field_def
      split: event_type.splits baseline_metric.splits option.splits)

lemma digits_no_dot: "list_all is_digit s \<Longrightarrow> CHR ''.'' \<notin> set s"
  by (auto simp: list_all_iff is_digit_def)

lemma split_once_dot: "CHR ''.'' \<notin> set w \<Longrightarrow> split_once (CHR ''.'') (w @ ''.'' @ f) = Some (w, f)"
  by (induction w) auto

lemma split_once_none: "d \<notin> set s \<Longrightarrow> split_once d s = None"
  by (induction s) auto

lemma trim_digits: "list_all is_digit s \<Longrightarrow> trim s = s"
  by (rule trim_solid) (auto simp: list_all_iff digit_not_special)

lemma length_show_nat:
  assumes "n < 10 ^ k" "0 < k"
  shows "length (show_nat n) \<le> k"
proof -
  have "length (show_nat n) \<le> Suc i" if "n < 10 ^ Suc i" for i n
    using that
  proof (induction i arbitrary: n)
    case 0
    then show ?case by (simp add: show_nat.simps [of n])
  next
    case (Suc i)
    have "length (show_nat (n div 10)) \<le> Suc i"
      using Suc by (intro Suc.IH) (simp add: less_mult_imp_div_less)
    then show ?case by (simp add: show_nat.simps [of n])
  qed
  from this [of n "k - 1"] show ?thesis using assms by simp
qed

lemma pad_zeros_facts:
  assumes "n < 10 ^ k" "0 < k"
  shows "length (pad_zeros k (show_nat n)) = k" "list_all is_digit (pad_zeros k (show_nat n))"
    "dec_value (pad_zeros k (show_nat n)) = n"
  using length_show_nat [OF assms] show_nat_facts [of n]
  by (simp_all add: pad_zeros_def dec_value_append)

lemma parse_uint_digits:
  "list_all is_digit s \<Longrightarrow> s \<noteq> [] \<Longrightarrow> dec_value s < bound \<Longrightarrow> parse_uint bound s = Some (dec_value s)"
  by (simp add: parse_uint_def strip_plus_digits)

text \<open>The text of a scaled number splits into the two numbers it was printed from.\<close>

definition scaled_text :: "nat \<Rightarrow> nat \<Rightarrow> string" where
  "scaled_text k v = show_nat (v div 10 ^ k) @ ''.'' @ pad_zeros k (show_nat (v mod 10 ^ k))"

lemma scaled_text_trim:
  assumes "0 < k"
  shows "trim (scaled_text k v) = scaled_text k v"
proof (rule trim_solid)
  have "list_all is_digit (pad_zeros k (show_nat (v mod 10 ^ k)))"
    using assms by (intro pad_zeros_facts(2)) simp_all
  moreover have "list_all is_digit (show_nat (v div 10 ^ k))" by simp
  moreover have "\<not> is_space CHR ''.''" by code_simp
  ultimately show "\<forall>c \<in> set (scaled_text k v). \<not> is_space c"
    unfolding scaled_text_def list_all_iff using digit_not_special(2) by auto
qed

lemma scaled_text_split:
  assumes "v < bound" "0 < k"
  shows "\<exists>w f. split_once (CHR ''.'') (scaled_text k v) = Some (w, f)
    \<and> parse_uint bound w = Some (v div 10 ^ k)
    \<and> parse_uint bound (pad_right k (prefix_at k f)) = Some (v mod 10 ^ k)"
proof -
  let ?f = "pad_zeros k (show_nat (v mod 10 ^ k))"
  have m: "v mod 10 ^ k < 10 ^ k" by simp
  note f = pad_zeros_facts [OF m assms(2)]
  have "split_once (CHR ''.'') (scaled_text k v) = Some (show_nat (v div 10 ^ k), ?f)"
    unfolding scaled_text_def by (rule split_once_dot) (simp add: digits_no_dot)
  moreover have "parse_uint bound (show_nat (v div 10 ^ k)) = Some (v div 10 ^ k)"
    using assms by (intro parse_uint_show_nat) (meson div_le_dividend le_less_trans)
  moreover have "pad_right k (prefix_at k ?f) = ?f" by (simp add: pad_right_def prefix_at_def f(1))
  moreover have "?f \<noteq> []" using f(1) assms(2) by auto
  moreover have "dec_value ?f < bound" using assms f(3) by (metis mod_less_eq_dividend le_less_trans)
  ultimately show ?thesis using parse_uint_digits f(2,3) by metis
qed

lemma word_parts:
  fixes v :: "'a::len word"
  shows "of_nat (unat v div 100) * 100 + of_nat (unat v mod 100) = v"
proof -
  have "of_nat (unat v div 100) * 100 + of_nat (unat v mod 100)
      = (of_nat (unat v div 100 * 100 + unat v mod 100) :: 'a word)"
    by (simp only: of_nat_add of_nat_mult of_nat_numeral)
  also have "\<dots> = v" by (simp only: div_mult_mod_eq) simp
  finally show ?thesis .
qed

lemma read_basis_points:
  "from_str_and_metric (scaled_text 2 (unat v)) ConsolidationRatio = BasisPoints v"
proof -
  have "unat v < 2 ^ 32" using unsigned_less [of v, where 'a = nat] by simp
  from scaled_text_split [OF this, of 2]
  obtain a b where "split_once (CHR ''.'') (scaled_text 2 (unat v)) = Some (a, b)"
      "parse_uint (2 ^ 32) a = Some (unat v div 100)"
      "parse_uint (2 ^ 32) (pad_right 2 (prefix_at 2 b)) = Some (unat v mod 100)" by auto
  then show ?thesis
    by (simp add: from_str_and_metric_def Let_def parse_u32_def or_zero_def scaled_text_trim word_parts)
qed

lemma read_rate:
  "from_str_scale_and_metric (scaled_text 2 (unat v)) 2 FeeRateSatVb = DecimalScaled v 2"
proof -
  have "unat v < 2 ^ 64" using unsigned_less [of v, where 'a = nat] by simp
  from scaled_text_split [OF this, of 2]
  obtain a b where "split_once (CHR ''.'') (scaled_text 2 (unat v)) = Some (a, b)"
      "parse_uint (2 ^ 64) a = Some (unat v div 100)"
      "parse_uint (2 ^ 64) (pad_right 2 (prefix_at 2 b)) = Some (unat v mod 100)" by auto
  then show ?thesis
    by (simp add: from_str_scale_and_metric_def Let_def parse_u64_def or_zero_def scaled_text_trim word_parts)
qed

lemma numeric_string_scaled:
  "to_numeric_string (BasisPoints v) = scaled_text 2 (unat v)"
  "to_numeric_string (DecimalScaled w 2) = scaled_text 2 (unat w)"
  by (simp_all add: scaled_text_def unat_div unat_mod)

lemma read_whole:
  "from_str_scale_and_metric (show_u (v :: u64)) 0 m = (if m = CoinAgeDestroyedSatoshiDays
     then from_str_scale_and_metric (show_u v) 0 m else U64 v)"
  "from_str_scale_and_metric (show_u (w :: u128)) 0 CoinAgeDestroyedSatoshiDays = U128 w"
  by (simp_all add: from_str_scale_and_metric_def Let_def trim_digits int_part_def
      split_on_none digits_no_dot or_zero_def)

lemma read_ratio:
  "from_str_scale_and_metric (scaled_text 2 (unat v)) 2 ConsolidationRatio = BasisPoints v"
  using read_basis_points [of v] by (simp add: from_str_scale_and_metric_def Let_def scaled_text_trim)

lemma typed_text_roundtrip:
  "metric_typed m v \<Longrightarrow> from_str_scale_and_metric (to_numeric_string v) (metric_scale v) m = v"
  using read_whole(1) [of _ m]
  by (cases m) (auto simp: read_whole(2) numeric_string_scaled read_rate read_ratio
      simp del: to_numeric_string.simps(3,4))

section \<open>Extraction reads what the detectors write\<close>

lemma as_word_json_u [simp]: "as_word (json_u (w :: 'a::len word)) = Some w"
  using unsigned_less [of w, where 'a = nat] by (simp add: json_nat_def)

lemma as_f64_json [simp]: "is_finite x \<Longrightarrow> as_f64 (json_f64 x) = Some x"
  by (simp add: json_f64_def)

text \<open>The fields a replay adds do not touch those the extractor reads.\<close>

definition replay_fields :: "string set" where
  "replay_fields = {''observation_mode'', ''replay_job_id'', ''historical_height'',
     ''historical_block_hash'', ''historical_timestamp''}"

lemma json_insert_obj:
  "\<exists>m'. json_insert k v (JObj m) = JObj m' \<and> (\<forall>k'. k' \<noteq> k \<longrightarrow> map_of m' k' = map_of m k')"
  by (simp add: update_conv')

lemma insert_some_obj:
  "\<exists>m'. insert_some k v (JObj m) = JObj m' \<and> (\<forall>k'. k' \<noteq> k \<longrightarrow> map_of m' k' = map_of m k')"
  by (cases v) (simp_all add: insert_some_def update_conv')

lemma replay_metadata_obj:
  "\<exists>m'. replay_metadata rt ctx (JObj m) = JObj m' \<and> (\<forall>k. k \<notin> replay_fields \<longrightarrow> map_of m' k = map_of m k)"
proof -
  obtain m1 where 1: "json_insert ''observation_mode'' (JStr ''historical_replay'') (JObj m) = JObj m1"
    "\<forall>k'. k' \<noteq> ''observation_mode'' \<longrightarrow> map_of m1 k' = map_of m k'" using json_insert_obj by blast
  obtain m2 where 2: "insert_some ''replay_job_id''
      (map_option (\<lambda>j. JStr (uuid_str j)) (cx_replay_job_id ctx)) (JObj m1) = JObj m2"
    "\<forall>k'. k' \<noteq> ''replay_job_id'' \<longrightarrow> map_of m2 k' = map_of m1 k'" using insert_some_obj by blast
  obtain m3 where 3: "insert_some ''historical_height''
      (map_option (\<lambda>h. json_u h) (cx_historical_height ctx)) (JObj m2) = JObj m3"
    "\<forall>k'. k' \<noteq> ''historical_height'' \<longrightarrow> map_of m3 k' = map_of m2 k'" using insert_some_obj by blast
  obtain m4 where 4: "insert_some ''historical_block_hash''
      (map_option JStr (cx_historical_block_hash ctx)) (JObj m3) = JObj m4"
    "\<forall>k'. k' \<noteq> ''historical_block_hash'' \<longrightarrow> map_of m4 k' = map_of m3 k'" using insert_some_obj by blast
  obtain m5 where 5: "insert_some ''historical_timestamp''
      (map_option (\<lambda>t. JStr (rt_serde_time rt t)) (cx_historical_timestamp ctx)) (JObj m4) = JObj m5"
    "\<forall>k'. k' \<noteq> ''historical_timestamp'' \<longrightarrow> map_of m5 k' = map_of m4 k'" using insert_some_obj by blast
  have "replay_metadata rt ctx (JObj m) = JObj m5"
    using 1 2 3 4 5 by (simp add: replay_metadata_def Let_def del: json_insert.simps)
  moreover have "\<forall>k. k \<notin> replay_fields \<longrightarrow> map_of m5 k = map_of m k"
    using 1 2 3 4 5 by (simp add: replay_fields_def)
  ultimately show ?thesis by blast
qed

lemma finish_event_fields:
  assumes "ev_metadata ev = JObj m"
  shows "ev_type (finish_event rt src ctx obs ev) = ev_type ev
    \<and> (\<exists>m'. ev_metadata (finish_event rt src ctx obs ev) = JObj m'
        \<and> (\<forall>k. k \<notin> replay_fields \<longrightarrow> map_of m' k = map_of m k))"
  using assms replay_metadata_obj [of rt _ m]
  by (auto simp: finish_event_def with_deterministic_id_def replay_provenance_def split: option.split)

text \<open>Extraction depends on the type and on those fields only.\<close>

lemma struct_fields_obj [simp]: "struct_fields names (JObj m) = Some m"
  by (simp add: struct_fields_def)

lemma extract_metric_cong:
  assumes "ev_type e = ev_type e'" "ev_metadata e = JObj m" "ev_metadata e' = JObj m'"
    "\<forall>k. k \<notin> replay_fields \<longrightarrow> map_of m k = map_of m' k"
  shows "extract_metric e metric = extract_metric e' metric"
proof -
  have k: "map_of m k = map_of m' k" if "k \<notin> replay_fields" for k using assms(4) that by blast
  have d: "dormant_coins_of_json (JObj m) = dormant_coins_of_json (JObj m')"
    unfolding dormant_coins_of_json_def struct_fields_obj
    by (simp add: get_field_def k replay_fields_def)
  have c: "consolidation_of_json (JObj m) = consolidation_of_json (JObj m')"
    unfolding consolidation_of_json_def struct_fields_obj
    by (simp add: get_field_def k replay_fields_def)
  have f: "fan_out_of_json (JObj m) = fan_out_of_json (JObj m')"
    unfolding fan_out_of_json_def struct_fields_obj
    by (simp add: get_field_def k replay_fields_def)
  have x: "extreme_fee_of_json (JObj m) = extreme_fee_of_json (JObj m')"
    unfolding extreme_fee_of_json_def struct_fields_obj
    by (simp add: get_field_def get_opt_field_def k replay_fields_def)
  have u: "u64_field (JObj m) ks = u64_field (JObj m') ks"
    "first_field (JObj m) ks = first_field (JObj m') ks" if "set ks \<inter> replay_fields = {}" for ks
    using that by (induction ks) (auto simp: u64_field_def k split: option.split)
  show ?thesis
    by (simp add: extract_metric_def Let_def assms(1-3) d c f x u k replay_fields_def
        cong: event_type.case_cong baseline_metric.case_cong option.case_cong)
qed


lemma extract_finished:
  assumes "ev_metadata ev = JObj m"
  shows "extract_metric (finish_event rt src ctx obs ev) metric = extract_metric ev metric"
proof -
  obtain m' where "ev_type (finish_event rt src ctx obs ev) = ev_type ev"
    "ev_metadata (finish_event rt src ctx obs ev) = JObj m'"
    "\<forall>k. k \<notin> replay_fields \<longrightarrow> map_of m' k = map_of m k"
    using finish_event_fields [OF assms] by blast
  then show ?thesis by (intro extract_metric_cong [OF _ _ assms]) simp_all
qed

text \<open>What the extractor has to find in the events of a transaction.\<close>

definition reads_transaction :: "transaction_observation \<Rightarrow> chain_event \<Rightarrow> bool" where
  "reads_transaction tx e \<longleftrightarrow>
     (ev_type e = LargeTransfer \<longrightarrow>
        extract_metric e ValueSats = Some (U64 (tx_total_output_sats tx))
        \<and> extract_metric e InputCount = Some (U64 (of_nat (tx_input_count tx)))
        \<and> extract_metric e OutputCount = Some (U64 (of_nat (tx_output_count tx)))
        \<and> extract_metric e Vsize = Some (U64 (tx_vsize tx)))
     \<and> (ev_type e = Consolidation \<longrightarrow>
        extract_metric e InputCount = Some (U64 (of_nat (tx_input_count tx)))
        \<and> extract_metric e OutputCount = Some (U64 (of_nat (tx_output_count tx)))
        \<and> extract_metric e ValueSats = Some (U64 (tx_total_input_sats tx)))
     \<and> (ev_type e = FanOut \<longrightarrow>
        extract_metric e OutputCount = Some (U64 (of_nat (tx_output_count tx)))
        \<and> extract_metric e DistributedValueSats = Some (U64 (tx_total_output_sats tx)))
     \<and> (ev_type e = ExtremeFee \<longrightarrow> extract_metric e FeeSats = Some (U64 (tx_fee_sats tx)))"

lemma reads_finished:
  "ev_metadata e = JObj m \<Longrightarrow> reads_transaction tx (finish_event rt src ctx obs e) = reads_transaction tx e"
  using finish_event_fields [of e m] by (simp add: reads_transaction_def extract_finished)

lemma json_nat_u64: "n < 2 ^ 32 \<Longrightarrow> as_u64 (json_nat n) = Some (of_nat n)"
  by (simp add: json_nat_def)

lemma json_u32_u64: "as_u64 (json_u (w :: u32)) = Some (ucast w)"
  using unsigned_less [of w, where 'a = nat] by (simp add: json_nat_def)

lemma ucast_of_nat32: "n < 2 ^ 32 \<Longrightarrow> (ucast (of_nat n :: u32) :: u64) = of_nat n"
  by (simp add: word_unat_eq_iff unsigned_ucast_eq unsigned_of_nat take_bit_nat_eq_self)

lemma consolidation_fields:
  "ev_type e = Consolidation \<Longrightarrow> ev_metadata e = consolidation_json c \<Longrightarrow>
     extract_metric e InputCount = Some (U64 (ucast (cm_input_count c)))
     \<and> extract_metric e OutputCount = Some (U64 (ucast (cm_output_count c)))
     \<and> extract_metric e ValueSats = Some (U64 (cm_total_input_sats c))"
  by (auto simp: extract_metric_def consolidation_of_json_def consolidation_json_def get_field_def
      u64_field_def json_u32_u64 bind_eq_Some_conv split: option.split)


lemma fan_out_fields:
  "ev_type e = FanOut \<Longrightarrow> ev_metadata e = fan_out_json f \<Longrightarrow>
     extract_metric e OutputCount = Some (U64 (ucast (fm_output_count f)))
     \<and> extract_metric e DistributedValueSats = Some (U64 (fm_total_distributed_sats f))"
  by (auto simp: extract_metric_def fan_out_of_json_def fan_out_json_def get_field_def
      u64_field_def json_u32_u64 bind_eq_Some_conv split: option.split)

lemma extreme_fee_fields:
  "ev_type e = ExtremeFee \<Longrightarrow> ev_metadata e = extreme_fee_json x \<Longrightarrow>
     extract_metric e FeeSats = Some (U64 (xm_fee_sats x))"
  by (auto simp: extract_metric_def extreme_fee_of_json_def extreme_fee_json_def get_field_def
      u64_field_def bind_eq_Some_conv split: option.split)

lemma large_reads:
  assumes "e \<in> set (large_tx_detect d rt (ObsTransaction tx))" "tx_input_count tx < 2 ^ 32" "tx_output_count tx < 2 ^ 32"
  shows "reads_transaction tx e \<and> (\<exists>m. ev_metadata e = JObj m)"
  using assms
  by (auto simp: large_tx_detect_def Let_def reads_transaction_def extract_metric_def u64_field_def
      attach_tx_def chain_event_new_def json_nat_u64 split: if_splits)

lemma consolidation_reads:
  assumes "e \<in> set (consolidation_detect d rt (ObsTransaction tx))" "tx_input_count tx < 2 ^ 32" "tx_output_count tx < 2 ^ 32"
  shows "reads_transaction tx e \<and> (\<exists>m. ev_metadata e = JObj m)"
proof -
  obtain c where "ev_type e = Consolidation" "ev_metadata e = consolidation_json c"
    "cm_input_count c = of_nat (tx_input_count tx)" "cm_output_count c = of_nat (tx_output_count tx)"
    "cm_total_input_sats c = tx_total_input_sats tx"
    using assms(1) by (auto simp: consolidation_detect_def Let_def event_builders split: if_splits)
  then show ?thesis using consolidation_fields [of e c] assms(2,3)
    by (auto simp: reads_transaction_def ucast_of_nat32 consolidation_json_def)
qed

lemma fan_out_reads:
  assumes "e \<in> set (fan_out_detect d rt (ObsTransaction tx))" "tx_output_count tx < 2 ^ 32"
  shows "reads_transaction tx e \<and> (\<exists>m. ev_metadata e = JObj m)"
proof -
  obtain f where "ev_type e = FanOut" "ev_metadata e = fan_out_json f"
    "fm_output_count f = of_nat (tx_output_count tx)"
    "fm_total_distributed_sats f = tx_total_output_sats tx"
    using assms(1) by (auto simp: fan_out_detect_def Let_def event_builders split: if_splits prod.splits)
  then show ?thesis using fan_out_fields [of e f] assms(2)
    by (auto simp: reads_transaction_def ucast_of_nat32 fan_out_json_def)
qed

lemma extreme_fee_reads:
  assumes "e \<in> set (extreme_fee_detect d rt (ObsTransaction tx))"
  shows "reads_transaction tx e \<and> (\<exists>m. ev_metadata e = JObj m)"
proof -
  obtain x where "ev_type e = ExtremeFee" "ev_metadata e = extreme_fee_json x"
    "xm_fee_sats x = tx_fee_sats tx"
    using assms by (auto simp: extreme_fee_detect_def Let_def event_builders split: if_splits)
  then show ?thesis using extreme_fee_fields [of e x]
    by (auto simp: reads_transaction_def extreme_fee_json_def)
qed

lemma dormant_reads:
  assumes "e \<in> set (dormant_detect d rt (ObsTransaction tx))"
  shows "reads_transaction tx e \<and> (\<exists>m. ev_metadata e = JObj m)"
  using assms
  by (auto simp: dormant_detect_def Let_def event_builders reads_transaction_def dormant_coins_json_def
      split: if_splits option.splits)

lemma run_detector_reads:
  assumes "d \<in> set (registered_detectors c)" "e \<in> set (run_detector rt src ctx (ObsTransaction tx) d)"
    "tx_input_count tx < 2 ^ 32" "tx_output_count tx < 2 ^ 32"
  shows "reads_transaction tx e"
proof -
  obtain es e0 where es: "det_detect d rt (ObsTransaction tx) = Some es" "e0 \<in> set es"
    "e = finish_event rt src ctx (ObsTransaction tx) e0"
    using assms(2) by (cases "det_detect d rt (ObsTransaction tx)")
      (auto simp: run_detector_def Let_def split: if_splits)
  have "reads_transaction tx e0 \<and> (\<exists>m. ev_metadata e0 = JObj m)"
    using assms(1) es(1,2)
    by (auto simp: registered_detectors_def large_transaction_def long_block_interval_def
        dormant_coin_def consolidation_def fan_out_def extreme_fee_def rbf_def reorg_def
        long_interval_detect_def rbf_detect_def reorg_detect_def
        dest: large_reads [OF _ assms(3,4)] consolidation_reads [OF _ assms(3,4)]
          fan_out_reads [OF _ assms(4)] extreme_fee_reads dormant_reads)
  then show ?thesis using es(3) reads_finished by blast
qed

section \<open>Properties\<close>


definition sample_engine :: detector_engine where
  "sample_engine = detector_engine_new (registered_detectors
     \<lparr>dcfg_large = large_transaction_detector_new, dcfg_interval = long_block_interval_detector_new,
      dcfg_dormant = dormant_coin_detector_new, dcfg_consolidation = consolidation_detector_new,
      dcfg_fan_out = fan_out_detector_new, dcfg_extreme_fee = extreme_fee_detector_new\<rparr>)"

definition sample_large_tx :: transaction_observation where
  "sample_large_tx = sample_spend\<lparr>tx_total_output_sats := 12000000000\<rparr>"


text \<open>
  Metric values survive storage as text: an extracted value, printed as its numeric text and
  read back with its scale and metric, is the value; no digit of the 64 and 128-bit numbers or of
  the two decimals is lost.
\<close>

theorem metric_text_roundtrip:
  assumes "extract_metric ev m = Some v"
  shows "from_str_scale_and_metric (to_numeric_string v) (metric_scale v) m = v"
  by (rule typed_text_roundtrip) (rule extract_metric_typed [OF assms])

theorem metric_text_roundtrip_witness:
  "from_str_scale_and_metric (to_numeric_string (U64 5)) (metric_scale (U64 5)) Vsize = U64 5"
  by (rule metric_text_roundtrip
      [of "(chain_event_new sample_runtime LargeTransfer SevLow ConfVerifiedOnChain [] [])
         \<lparr>ev_metadata := JObj [(''vsize'', json_nat 5)]\<rparr>"])
    (simp add: extract_metric_def chain_event_new_def u64_field_def json_nat_def)


end
