(* ===== verification/Rarity.thy ===== *)
theory Rarity
  imports Metrics "HOL-Library.Multiset"
begin

text \<open>
  Historical baselines (\<open>obschain-intelligence/src/baseline.rs\<close>): quantile distributions of metric
  samples, the exact empirical rank of a value and its estimate from the stored quantiles, the
  impact models and their score, and the evaluation of an event against a baseline run.
\<close>

section \<open>Definitions\<close>

definition ALGORITHM_VERSION_V2 :: string where
  "ALGORITHM_VERSION_V2 = ''obschain-baseline-v2''"

definition DEFAULT_MIN_SAMPLE_SIZE :: u64 where
  "DEFAULT_MIN_SAMPLE_SIZE = 100"

definition quantile_at :: "metric_value list \<Rightarrow> f64 \<Rightarrow> metric_value" where
  "quantile_at xs q =
     (let n = length xs;
          rank = f64_to_usize (f64_ceil (f64_mul q (f64_of_nat n)));
          idx = (if rank = 0 then 0 else min (rank - 1) (n - 1))
      in xs ! idx)"

definition compute_distribution :: "metric_value list \<Rightarrow> u64 \<Rightarrow> quantile_distribution option" where
  "compute_distribution values candidate_count =
     (if values = [] then None
      else
        let xs = sort values;
            n = length xs;
            sample_count = of_nat n;
            coverage = (if candidate_count > 0
                        then f64_div (f64_of_word (sample_count :: u64)) (f64_of_word candidate_count)
                        else f64_lit 1);
            mean = f64_div (f64_sum (map metric_to_f64 xs)) (f64_of_nat n)
        in Some
          \<lparr>qd_sample_count = sample_count, qd_candidate_count = candidate_count,
           qd_missing_count = saturating_sub candidate_count sample_count,
           qd_coverage_ratio = coverage, qd_minimum = xs ! 0, qd_maximum = xs ! (n - 1),
           qd_mean = mean,
           qd_p50 = quantile_at xs (f64_lit 0.50), qd_p75 = quantile_at xs (f64_lit 0.75),
           qd_p90 = quantile_at xs (f64_lit 0.90), qd_p95 = quantile_at xs (f64_lit 0.95),
           qd_p99 = quantile_at xs (f64_lit 0.99), qd_p999 = quantile_at xs (f64_lit 0.999),
           qd_quality = quality_evaluate sample_count coverage\<rparr>)"

definition rank_value :: "metric_value list \<Rightarrow> metric_value \<Rightarrow> rarity_direction \<Rightarrow> f64 \<times> u64" where
  "rank_value sorted_samples x direction =
     (if sorted_samples = [] then (f64_lit 0, 0)
      else
        let n = length sorted_samples;
            le = length (filter (\<lambda>v. v \<le> x) sorted_samples);
            ge = length (filter (\<lambda>v. x \<le> v) sorted_samples)
        in case direction of
             LowerIsRarer \<Rightarrow>
               (f64_mul (f64_div (f64_of_nat ge) (f64_of_nat n)) (f64_lit 100), of_nat le)
           | _ \<Rightarrow>
               (f64_mul (f64_div (f64_of_nat le) (f64_of_nat n)) (f64_lit 100), of_nat ge))"

text \<open>The machine epsilon of binary64.\<close>

definition f64_epsilon :: f64 where
  "f64_epsilon = Finite False (1 / 2 ^ 52)"

fun interpolate :: "f64 \<Rightarrow> (f64 \<times> f64) list \<Rightarrow> f64" where
  "interpolate val_f ((q_low, v_low) # (q_high, v_high) # rest) =
     (if f64_le v_low val_f \<and> f64_le val_f v_high then
        if f64_lt (f64_abs (f64_sub v_high v_low)) f64_epsilon then q_high
        else let fraction = f64_div (f64_sub val_f v_low) (f64_sub v_high v_low)
             in f64_add q_low (f64_mul fraction (f64_sub q_high q_low))
      else interpolate val_f ((q_high, v_high) # rest))"
| "interpolate val_f _ = f64_lit 50"

definition quantile_table :: "baseline_distribution \<Rightarrow> (f64 \<times> f64) list" where
  "quantile_table bdist =
     [(f64_lit 0, metric_to_f64 (bd_minimum bdist)), (f64_lit 50, metric_to_f64 (bd_p50 bdist)),
      (f64_lit 75, metric_to_f64 (bd_p75 bdist)), (f64_lit 90, metric_to_f64 (bd_p90 bdist)),
      (f64_lit 95, metric_to_f64 (bd_p95 bdist)), (f64_lit 99, metric_to_f64 (bd_p99 bdist)),
      (f64_lit 99.9, metric_to_f64 (bd_p999 bdist)), (f64_lit 100, metric_to_f64 (bd_maximum bdist))]"

definition rank_from_distribution ::
  "baseline_distribution \<Rightarrow> metric_value \<Rightarrow> rarity_direction \<Rightarrow> f64 \<times> u64" where
  "rank_from_distribution bdist x direction =
     (let n = bd_sample_count bdist in
      if n = 0 then (f64_lit 0, 0)
      else
        let val_f = metric_to_f64 x;
            min_f = metric_to_f64 (bd_minimum bdist);
            max_f = metric_to_f64 (bd_maximum bdist)
        in if f64_le val_f min_f
           then ((if direction = LowerIsRarer then f64_lit 100 else f64_lit 0), n)
           else if f64_le max_f val_f
           then ((if direction = LowerIsRarer then f64_lit 0 else f64_lit 100), 1)
           else
             let percentile = interpolate val_f (quantile_table bdist)
             in (percentile,
                 f64_to_u64 (f64_max (f64_ceil (f64_mul
                   (f64_div (f64_sub (f64_lit 100) percentile) (f64_lit 100)) (f64_of_word n)))
                   (f64_lit 1))))"

section \<open>Impact\<close>

definition icd :: "string \<Rightarrow> baseline_metric \<Rightarrow> nat \<Rightarrow> impact_component_definition" where
  "icd name m w = \<lparr>icd_name = name, icd_metric = m, icd_weight = f64_lit (of_nat w)\<rparr>"

definition impact_model :: "string \<Rightarrow> event_type \<Rightarrow> impact_component_definition list \<Rightarrow> impact_model_definition" where
  "impact_model i ty cs =
     \<lparr>imd_id = i, imd_event_type = ty, imd_version = ''v1'', imd_components = cs\<rparr>"

definition model_for_event_type :: "event_type \<Rightarrow> impact_model_definition option" where
  "model_for_event_type ty =
     (case ty of
        LargeTransfer \<Rightarrow> Some (impact_model ''obschain-impact-large-transfer-v1'' ty
          [icd ''Value rarity'' ValueSats 60, icd ''Input count structure'' InputCount 15,
           icd ''Output count structure'' OutputCount 15, icd ''Transaction size anomaly'' Vsize 10])
      | DormantCoinsMoved \<Rightarrow> Some (impact_model ''obschain-impact-dormant-coins-v1'' ty
          [icd ''Dormant value rarity'' DormantValueSats 35, icd ''Coin-age rarity'' OldestInputAgeDays 30,
           icd ''Coin-age-destroyed rarity'' CoinAgeDestroyedSatoshiDays 25,
           icd ''Input count structure'' InputCount 10])
      | LongBlockInterval \<Rightarrow> Some (impact_model ''obschain-impact-long-block-interval-v1'' ty
          [icd ''Network interval rarity'' IntervalSeconds 100])
      | Consolidation \<Rightarrow> Some (impact_model ''obschain-impact-consolidation-v1'' ty
          [icd ''Input count structure'' InputCount 40,
           icd ''Consolidation ratio rarity'' ConsolidationRatio 30,
           icd ''Consolidation value rarity'' ValueSats 20, icd ''Output count structure'' OutputCount 10])
      | FanOut \<Rightarrow> Some (impact_model ''obschain-impact-fan-out-v1'' ty
          [icd ''Output count structure'' OutputCount 40,
           icd ''Distributed volume rarity'' DistributedValueSats 35,
           icd ''Median output size anomaly'' MedianOutputSats 25])
      | ExtremeFee \<Rightarrow> Some (impact_model ''obschain-impact-extreme-fee-v1'' ty
          [icd ''Fee rate rarity'' FeeRateSatVb 60, icd ''Absolute fee rarity'' FeeSats 40])
      | _ \<Rightarrow> None)"

definition two_decimals :: "f64 \<Rightarrow> f64" where
  "two_decimals x = f64_div (f64_round (f64_mul x (f64_lit 100))) (f64_lit 100)"

definition award_points :: "f64 \<Rightarrow> f64 option \<Rightarrow> f64" where
  "award_points weight percentile =
     (case percentile of
        Some p \<Rightarrow>
          if f64_le (f64_lit 50) p
          then f64_mul weight (f64_div (f64_sub p (f64_lit 50)) (f64_lit 50))
          else f64_lit 0
      | None \<Rightarrow> f64_lit 0)"

definition impact_component_of ::
  "event_rarity_result list \<Rightarrow> impact_component_definition \<Rightarrow> impact_component option" where
  "impact_component_of rarity_results d =
     map_option (\<lambda>res.
       \<lparr>imc_component_name = icd_name d, imc_metric = icd_metric d,
        imc_raw_value = to_numeric_string (er_value res), imc_percentile = er_percentile res,
        imc_weight = icd_weight d,
        imc_points_awarded = two_decimals (award_points (icd_weight d) (er_percentile res)),
        imc_population_size = er_population_size res\<rparr>)
     (find (\<lambda>r. er_metric r = icd_metric d) rarity_results)"

definition calculate_impact ::
  "event_type \<Rightarrow> event_rarity_result list \<Rightarrow> string option \<Rightarrow> impact_breakdown" where
  "calculate_impact ty rarity_results model_version =
     (let model = (case model_for_event_type ty of Some m \<Rightarrow> m
                   | None \<Rightarrow> impact_model ''obschain-impact-generic-v1'' ty []);
          version = (case model_version of Some v \<Rightarrow> v | None \<Rightarrow> imd_version model);
          components = List.map_filter (impact_component_of rarity_results) (imd_components model);
          expected = length (imd_components model);
          available = length components;
          insufficient = list_ex (\<lambda>c. imc_population_size c < DEFAULT_MIN_SAMPLE_SIZE) components;
          coverage = (if expected > 0 then f64_div (f64_of_nat available) (f64_of_nat expected)
                      else f64_lit 0);
          total_score =
            (if insufficient \<or> available = 0 \<or> f64_lt coverage (f64_lit 0.50) then None
             else
               let raw = f64_sum (map imc_points_awarded components);
                   clamped = (if f64_lt (f64_lit 100.00000001) raw then f64_lit 100 else raw)
               in Some (two_decimals clamped))
      in \<lparr>ib_model_id = imd_id model, ib_model_version = version, ib_event_type = ty,
          ib_status = ''EXPERIMENTAL'', ib_total_score = total_score,
          ib_max_possible_points = f64_lit 100, ib_model_coverage = coverage,
          ib_coverage_ratio = coverage, ib_components = components\<rparr>)"

section \<open>The baseline engine\<close>

definition create_run_record :: "runtime \<Rightarrow> string \<Rightarrow> u64 \<Rightarrow> u64 \<Rightarrow> string \<Rightarrow> baseline_run" where
  "create_run_record rt network start_height end_height version =
     \<lparr>br_id = rt_uuid_v4 rt, br_network = network, br_start_height = start_height,
      br_end_height = end_height, br_started_at = rt_now rt, br_completed_at = None,
      br_status = BRunning, br_algorithm_version = version, br_canonical_event_count = 0,
      br_error_message = None,
      br_metadata = JObj [(''halving_epoch_start'', json_u (epoch_from_height start_height)),
                          (''halving_epoch_end'', json_u (epoch_from_height end_height))],
      br_created_at = rt_now rt\<rparr>"

text \<open>One distribution, for one type and metric, when there is at least one sample.\<close>

definition distribution_for ::
  "uuid \<Rightarrow> uuid \<Rightarrow> datetime \<Rightarrow> chain_event list \<Rightarrow> metric_definition \<Rightarrow> baseline_distribution option" where
  "distribution_for i run_id now events_of_type d =
     map_option (\<lambda>q.
       \<lparr>bd_id = i, bd_baseline_run_id = run_id, bd_event_type = md_event_type d,
        bd_metric = md_metric d, bd_unit = md_unit d, bd_sample_count = qd_sample_count q,
        bd_candidate_count = qd_candidate_count q, bd_missing_count = qd_missing_count q,
        bd_coverage_ratio = qd_coverage_ratio q, bd_minimum = qd_minimum q,
        bd_maximum = qd_maximum q, bd_mean = qd_mean q, bd_p50 = qd_p50 q, bd_p75 = qd_p75 q,
        bd_p90 = qd_p90 q, bd_p95 = qd_p95 q, bd_p99 = qd_p99 q, bd_p999 = qd_p999 q,
        bd_quality = qd_quality q, bd_samples_json = None, bd_created_at = now\<rparr>)
     (compute_distribution (List.map_filter (\<lambda>ev. extract_metric ev (md_metric d)) events_of_type)
        (of_nat (length events_of_type)))"

definition generate_distributions ::
  "(nat \<Rightarrow> uuid) \<Rightarrow> datetime \<Rightarrow> uuid \<Rightarrow> chain_event list \<Rightarrow> event_type list option
     \<Rightarrow> baseline_distribution list" where
  "generate_distributions v4 now run_id events targets =
     (let types = (case targets of Some ts \<Rightarrow> ts | None \<Rightarrow> supported_event_types);
          jobs = concat (map (\<lambda>ty. map (Pair (filter (\<lambda>e. ev_type e = ty) events))
                   (metrics_for_event_type ty)) types)
      in List.map_filter (\<lambda>(i, evs, d). distribution_for (v4 i) run_id now evs d) (enumerate 0 jobs))"

record rarity_rank =
  rr_percentile :: "f64 option"
  rr_method :: percentile_method
  rr_estimated :: bool
  rr_tail :: u64
  rr_population :: u64
  rr_band :: rarity_band

definition rank_metric ::
  "event_type \<Rightarrow> baseline_distribution list \<Rightarrow> (baseline_metric \<times> f64 \<times> u64 \<times> u64) list \<Rightarrow> u64
     \<Rightarrow> metric_definition \<Rightarrow> metric_value \<Rightarrow> rarity_rank" where
  "rank_metric ty distributions exact_ranks min_sample_size d x =
     (let known = (\<lambda>b p. if b = InsufficientData then None else Some p) in
      case (case map_of exact_ranks (md_metric d) of
              Some (p, tail, pop) \<Rightarrow> if min_sample_size \<le> pop then Some (p, tail, pop) else None
            | None \<Rightarrow> None) of
        Some (p, tail, pop) \<Rightarrow>
          let b = from_percentile p pop min_sample_size
          in \<lparr>rr_percentile = known b p, rr_method = ExactEmpiricalCdf, rr_estimated = False,
              rr_tail = tail, rr_population = pop, rr_band = b\<rparr>
      | None \<Rightarrow>
          (case find (\<lambda>bdist. bd_event_type bdist = ty \<and> bd_metric bdist = md_metric d) distributions of
             Some bdist \<Rightarrow>
               let (p, tail) = rank_from_distribution bdist x (md_direction d);
                   b = from_percentile p (bd_sample_count bdist) min_sample_size
               in \<lparr>rr_percentile = known b p, rr_method = QuantileInterpolationEstimate,
                   rr_estimated = True, rr_tail = tail, rr_population = bd_sample_count bdist,
                   rr_band = b\<rparr>
           | None \<Rightarrow>
               \<lparr>rr_percentile = None, rr_method = QuantileInterpolationEstimate, rr_estimated = True,
                rr_tail = 0, rr_population = 0, rr_band = InsufficientData\<rparr>))"

definition evaluation_mode_for :: "chain_event \<Rightarrow> baseline_run \<Rightarrow> evaluation_mode" where
  "evaluation_mode_for ev run =
     (if (case ev_block_height ev of Some h \<Rightarrow> h \<le> br_end_height run | None \<Rightarrow> True)
      then Retrospective else PointInTime)"

definition rarity_result ::
  "chain_event \<Rightarrow> baseline_run \<Rightarrow> baseline_metric \<Rightarrow> metric_value \<Rightarrow> rarity_rank \<Rightarrow> event_rarity_result" where
  "rarity_result ev run m x r =
     \<lparr>er_event_id = ev_id ev, er_baseline_run_id = br_id run, er_event_type = ev_type ev,
      er_metric = m, er_value = x, er_percentile = rr_percentile r,
      er_percentile_method = rr_method r, er_estimated = rr_estimated r,
      er_rarity_band = rr_band r, er_population_size = rr_population r, er_tail_count = rr_tail r,
      er_evaluation_mode = evaluation_mode_for ev run\<rparr>"

definition evaluate_event_rarity_with_exact_ranks ::
  "chain_event \<Rightarrow> baseline_run \<Rightarrow> baseline_distribution list
     \<Rightarrow> (baseline_metric \<times> f64 \<times> u64 \<times> u64) list \<Rightarrow> u64 \<Rightarrow> event_rarity_context" where
  "evaluate_event_rarity_with_exact_ranks ev run distributions exact_ranks min_sample_size =
     (let results = List.map_filter (\<lambda>d. map_option (\<lambda>x.
            (md_is_primary d, rarity_result ev run (md_metric d) x
               (rank_metric (ev_type ev) distributions exact_ranks min_sample_size d x)))
            (extract_metric ev (md_metric d)))
            (metrics_for_event_type (ev_type ev));
          primary = (case find fst results of
            Some (prim, res) \<Rightarrow> res
          | None \<Rightarrow>
              rarity_result ev run
                (case primary_metric (ev_type ev) of Some d \<Rightarrow> md_metric d | None \<Rightarrow> ValueSats) (U64 0)
                \<lparr>rr_percentile = None, rr_method = ExactEmpiricalCdf, rr_estimated = False,
                 rr_tail = 0, rr_population = 0, rr_band = InsufficientData\<rparr>);
          secondary = map snd (filter (\<lambda>x. \<not> fst x) results)
      in \<lparr>rc_baseline_id = br_id run, rc_baseline_version = br_algorithm_version run,
          rc_evaluation_mode = evaluation_mode_for ev run, rc_primary = primary,
          rc_secondary = secondary,
          rc_impact = Some (calculate_impact (ev_type ev) (primary # secondary)
            (Some (br_algorithm_version run)))\<rparr>)"

definition evaluate_event_rarity ::
  "chain_event \<Rightarrow> baseline_run \<Rightarrow> baseline_distribution list \<Rightarrow> u64 \<Rightarrow> event_rarity_context" where
  "evaluate_event_rarity ev run distributions min_sample_size =
     evaluate_event_rarity_with_exact_ranks ev run distributions [] min_sample_size"

section \<open>Quantiles\<close>

lemma quantile_idx_mono:
  assumes "0 \<le> p" "p \<le> q" "q \<le> 1" "n < 2 ^ 53"
  shows "f64_to_usize (f64_ceil (f64_mul (f64_lit p) (f64_of_nat n)))
    \<le> f64_to_usize (f64_ceil (f64_mul (f64_lit q) (f64_of_nat n)))"
proof -
  have q: "round_mag x * of_nat n \<le> 2 ^ 200" if "x \<le> 1" for x
  proof -
    have "round_mag x \<le> 1" using round_mag_mono [OF that] by simp
    then have "round_mag x * of_nat n \<le> of_nat n" by (simp add: mult_left_le_one_le)
    also have "(of_nat n :: rat) \<le> of_nat (2 ^ 53)" using assms(4) by (simp only: of_nat_le_iff)
    finally show ?thesis by simp
  qed
  have lit: "f64_lit x = Finite False (round_mag x)" if "0 \<le> x" "x \<le> 1" for x
    using that by (simp add: f64_of_rat_nonneg mk_f64_finite)
  have "f64_mul (f64_lit x) (f64_of_nat n) = Finite False (round_mag (round_mag x * of_nat n))"
    if "0 \<le> x" "x \<le> 1" for x
    using that q [of x] assms(4) by (simp add: lit f64_of_nat_exact mk_f64_finite)
  moreover have "round_mag (round_mag p * of_nat n) \<le> round_mag (round_mag q * of_nat n)"
    using assms(2) by (intro round_mag_mono mult_right_mono) simp_all
  ultimately show ?thesis using assms by (simp add: f64_to_usize_def min_le_iff_disj ceiling_mono floor_mono nat_mono)
qed


lemma sorted_count_le:
  fixes xs :: "'a::linorder list"
  assumes "sorted xs" "i < length xs"
  shows "i < length (filter (\<lambda>v. v \<le> xs ! i) xs)"
proof -
  have "filter (\<lambda>v. v \<le> xs ! i) (take (Suc i) xs) = take (Suc i) xs"
    using assms by (auto simp: filter_id_conv in_set_conv_nth sorted_nth_mono)
  then have "Suc i = length (filter (\<lambda>v. v \<le> xs ! i) (take (Suc i) xs))"
    using assms(2) by (metis Suc_leI length_take min.absorb2)
  also have "\<dots> \<le> length (filter (\<lambda>v. v \<le> xs ! i) (take (Suc i) xs @ drop (Suc i) xs))"
    unfolding filter_append by simp
  finally show ?thesis by simp
qed

lemma sorted_count_less:
  fixes xs :: "'a::linorder list"
  assumes "sorted xs" "i < length xs"
  shows "length (filter (\<lambda>v. v < xs ! i) xs) \<le> i"
proof -
  have "filter (\<lambda>v. v < xs ! i) (drop i xs) = []"
    using assms by (auto simp: filter_empty_conv in_set_conv_nth not_less sorted_nth_mono)
  then have "filter (\<lambda>v. v < xs ! i) (take i xs @ drop i xs) = filter (\<lambda>v. v < xs ! i) (take i xs)"
    unfolding filter_append by simp
  then show ?thesis using length_filter_le [of "\<lambda>v. v < xs ! i" "take i xs"] by simp
qed

lemma filter_sort_length: "length (filter P (sort xs)) = length (filter P xs)"
  by (metis mset_filter mset_sort size_mset)

definition quantile_idx :: "nat \<Rightarrow> rat \<Rightarrow> nat" where
  "quantile_idx n q =
     (let rank = f64_to_usize (f64_ceil (f64_mul (f64_lit q) (f64_of_nat n)))
      in if rank = 0 then 0 else min (rank - 1) (n - 1))"

lemma quantile_at_idx: "quantile_at xs (f64_lit q) = xs ! quantile_idx (length xs) q"
  by (simp add: quantile_at_def quantile_idx_def Let_def)

lemma quantile_idx_less: "0 < n \<Longrightarrow> quantile_idx n q < n"
  by (auto simp: quantile_idx_def Let_def)

lemma quantile_idx_le:
  "0 \<le> p \<Longrightarrow> p \<le> q \<Longrightarrow> q \<le> 1 \<Longrightarrow> n < 2 ^ 53 \<Longrightarrow> quantile_idx n p \<le> quantile_idx n q"
  using quantile_idx_mono [of p q n] by (auto simp: quantile_idx_def Let_def)

lemma quantile_at_mono:
  assumes "xs \<noteq> []" "0 \<le> p" "p \<le> q" "q \<le> 1" "length xs < 2 ^ 53"
  shows "quantile_at (sort xs) (f64_lit p) \<le> quantile_at (sort xs) (f64_lit q)"
  using assms quantile_idx_le [of p q "length xs"] quantile_idx_less [of "length xs" q]
  by (simp add: quantile_at_idx sorted_nth_mono)

lemma quantile_at_range:
  assumes "xs \<noteq> []"
  shows "quantile_at (sort xs) (f64_lit q) \<in> set xs" "sort xs ! 0 \<le> quantile_at (sort xs) (f64_lit q)"
    "quantile_at (sort xs) (f64_lit q) \<le> sort xs ! (length xs - 1)"
  using quantile_idx_less [of "length xs" q] assms
  by (auto simp: quantile_at_idx sorted_nth_mono)
    (metis length_greater_0_conv length_sort nth_mem set_sort)

lemma half_rank:
  assumes "0 < n" "n < 2 ^ 53"
  shows "quantile_idx n (1 / 2) = (n + 1) div 2 - 1"
proof -
  have "int n \<le> int (2 ^ 53)" using assms(2) by (simp only: of_nat_le_iff less_imp_le)
  then have half: "round_mag (of_nat n / 2) = of_nat n / 2"
    by (intro round_mag_exact [where m = "int n" and k = "- 1"]) (auto simp: pow2_def)
  have lit: "f64_lit (1 / 2) = Finite False (1 / 2)"
  proof -
    have "round_mag (1 / 2) = 1 / 2"
      by (rule round_mag_exact [where m = 1 and k = "- 1"]) (auto simp: pow2_def)
    then show ?thesis by (simp add: f64_of_rat_nonneg mk_f64_finite)
  qed
  have "of_nat n / 2 \<le> (2 ^ 200 :: rat)"
  proof -
    have "(of_nat n :: rat) \<le> of_nat (2 ^ 53)" using assms(2) by (simp only: of_nat_le_iff less_imp_le)
    then show ?thesis by simp
  qed
  then have mul: "f64_mul (f64_lit (1 / 2)) (f64_of_nat n) = Finite False (of_nat n / 2)"
    using assms(2) half unfolding lit by (simp add: f64_of_nat_exact mk_f64_finite)
  have ceil: "\<lceil>(of_nat n / 2 :: rat)\<rceil> = int ((n + 1) div 2)"
  proof (rule ceiling_unique)
    have "2 * ((n + 1) div 2) \<le> n + 1" "n \<le> 2 * ((n + 1) div 2)" by auto
    then have "(of_nat (2 * ((n + 1) div 2)) :: rat) \<le> of_nat (n + 1)"
      "(of_nat n :: rat) \<le> of_nat (2 * ((n + 1) div 2))" by (simp_all only: of_nat_le_iff)
    then show "of_int (int ((n + 1) div 2)) - 1 < (of_nat n / 2 :: rat)"
      "(of_nat n / 2 :: rat) \<le> of_int (int ((n + 1) div 2))" by simp_all
  qed
  have "f64_to_usize (f64_ceil (f64_mul (f64_lit (1 / 2)) (f64_of_nat n))) = (n + 1) div 2"
    unfolding mul using ceil assms(2) by (simp add: f64_to_usize_def)
  then show ?thesis using assms(1) by (auto simp: quantile_idx_def Let_def)
qed

lemma compute_distribution_fields:
  assumes "compute_distribution values c = Some q"
  shows "values \<noteq> []" "qd_minimum q = sort values ! 0" "qd_maximum q = sort values ! (length values - 1)"
    "qd_p50 q = quantile_at (sort values) (f64_lit (1 / 2))"
    "qd_p75 q = quantile_at (sort values) (f64_lit (3 / 4))"
    "qd_p90 q = quantile_at (sort values) (f64_lit (9 / 10))"
    "qd_p95 q = quantile_at (sort values) (f64_lit (19 / 20))"
    "qd_p99 q = quantile_at (sort values) (f64_lit (99 / 100))"
    "qd_p999 q = quantile_at (sort values) (f64_lit (999 / 1000))"
    "qd_missing_count q = saturating_sub c (of_nat (length values))"
proof -
  show ne: "values \<noteq> []" using assms by (auto simp: compute_distribution_def)
  have "q = the (compute_distribution values c)" using assms by simp
  with ne show "qd_minimum q = sort values ! 0" "qd_maximum q = sort values ! (length values - 1)"
    "qd_p50 q = quantile_at (sort values) (f64_lit (1 / 2))"
    "qd_p75 q = quantile_at (sort values) (f64_lit (3 / 4))"
    "qd_p90 q = quantile_at (sort values) (f64_lit (9 / 10))"
    "qd_p95 q = quantile_at (sort values) (f64_lit (19 / 20))"
    "qd_p99 q = quantile_at (sort values) (f64_lit (99 / 100))"
    "qd_p999 q = quantile_at (sort values) (f64_lit (999 / 1000))"
    "qd_missing_count q = saturating_sub c (of_nat (length values))"
    by (simp_all add: compute_distribution_def Let_def)
qed

section \<open>Bounded floats\<close>

text \<open>Non-negative floats up to a small whole number, closed under the rounded operations.\<close>

definition f64_upto :: "nat \<Rightarrow> f64 \<Rightarrow> bool" where
  "f64_upto n x \<longleftrightarrow> (\<exists>m. x = Finite False m \<and> 0 \<le> m \<and> m \<le> of_nat n)"

lemma f64_upto_mk: "0 \<le> q \<Longrightarrow> q \<le> of_nat n \<Longrightarrow> n \<le> 2 ^ 53 \<Longrightarrow> f64_upto n (mk_f64 False q)"
proof -
  assume q: "0 \<le> q" "q \<le> of_nat n" "n \<le> 2 ^ 53"
  have "(of_nat n :: rat) \<le> of_nat (2 ^ 53)" using q(3) by (simp only: of_nat_le_iff)
  with q(2) have "q \<le> 2 ^ 200" by simp
  then show ?thesis using q by (simp add: f64_upto_def mk_f64_finite round_mag_le_nat)
qed

lemma f64_upto_lit: "k \<le> n \<Longrightarrow> n \<le> 2 ^ 53 \<Longrightarrow> f64_upto n (f64_lit (of_nat k))"
  by (simp add: f64_upto_def f64_lit_nat)

lemma f64_upto_mono: "f64_upto m x \<Longrightarrow> m \<le> n \<Longrightarrow> f64_upto n x"
  unfolding f64_upto_def by (metis of_nat_le_iff order_trans)

lemma f64_upto_add: "f64_upto a x \<Longrightarrow> f64_upto b y \<Longrightarrow> a + b \<le> 2 ^ 53 \<Longrightarrow> f64_upto (a + b) (f64_add x y)"
  by (auto simp: f64_upto_def [of a] f64_upto_def [of b] sval_def Let_def f64_of_rat_nonneg f64_upto_mk)
    (simp add: f64_upto_def)

lemma f64_upto_mul: "f64_upto a x \<Longrightarrow> f64_upto b y \<Longrightarrow> a * b \<le> 2 ^ 53 \<Longrightarrow> f64_upto (a * b) (f64_mul x y)"
  by (auto simp: f64_upto_def [of a] f64_upto_def [of b] intro!: f64_upto_mk mult_mono)

lemma f64_upto_div:
  assumes "f64_upto (a * k) x" "0 < k" "k \<le> 2 ^ 53" "a \<le> 2 ^ 53"
  shows "f64_upto a (f64_div x (f64_lit (of_nat k)))"
proof -
  obtain m where m: "x = Finite False m" "0 \<le> m" "m \<le> of_nat a * of_nat k"
    using assms(1) by (auto simp: f64_upto_def)
  have "m / of_nat k \<le> of_nat a" using m assms(2) by (simp add: divide_le_eq)
  then show ?thesis using m assms by (simp add: f64_lit_nat f64_upto_mk)
qed

lemma f64_upto_round: "f64_upto n x \<Longrightarrow> f64_upto n (f64_round x)"
proof -
  assume "f64_upto n x"
  then obtain m where m: "x = Finite False m" "0 \<le> m" "m \<le> of_nat n" by (auto simp: f64_upto_def)
  then have "m + 1 / 2 < of_int (int n + 1)" by simp
  then have "\<lfloor>m + 1 / 2\<rfloor> < int n + 1" by (simp only: floor_less_iff)
  then have "\<lfloor>m + 1 / 2\<rfloor> \<le> int n" by simp
  then have "(of_int \<lfloor>m + 1 / 2\<rfloor> :: rat) \<le> of_int (int n)" by (simp only: of_int_le_iff)
  moreover have "0 \<le> \<lfloor>m + 1 / 2\<rfloor>" using m by simp
  ultimately show ?thesis using m by (simp add: f64_upto_def)
qed

lemma f64_upto_two_decimals: "f64_upto n x \<Longrightarrow> n \<le> 1000 \<Longrightarrow> f64_upto n (two_decimals x)"
proof -
  assume x: "f64_upto n x" "n \<le> 1000"
  have "f64_upto (n * 100) (f64_mul x (f64_lit 100))"
    using f64_upto_mul [OF x(1) f64_upto_lit [of 100 100]] x(2) by simp
  then have "f64_upto (n * 100) (f64_round (f64_mul x (f64_lit 100)))" by (rule f64_upto_round)
  then show ?thesis using f64_upto_div [of n 100] x(2) by (simp add: two_decimals_def)
qed

lemma f64_upto_le: "f64_upto n x \<Longrightarrow> n \<le> 2 ^ 53 \<Longrightarrow> f64_le (f64_lit 0) x \<and> f64_le x (f64_lit (of_nat n))"
  by (auto simp: f64_upto_def f64_lit_nat sval_def)

lemma f64_upto_minus_50:
  assumes "f64_le (f64_lit 50) p" "f64_upto 100 p"
  shows "f64_upto 50 (f64_sub p (f64_lit 50))"
proof -
  have l: "f64_lit 50 = Finite False 50" by (simp add: f64_lit_numeral)
  obtain m where p: "p = Finite False m" "50 \<le> m" "m \<le> 100"
    using assms by (auto simp: f64_upto_def f64_lit_numeral sval_def)
  then have "f64_sub p (f64_lit 50) = (if m = 50 then Finite False 0 else mk_f64 False (m - 50))"
    using l by (simp add: f64_sub_def Let_def sval_def f64_of_rat_nonneg)
  then show ?thesis using p f64_upto_mk [of "m - 50" 50] by (simp add: f64_upto_def [of _ "Finite _ _"])
qed

lemma award_points_upto:
  assumes "\<forall>p. pc = Some p \<longrightarrow> f64_upto 100 p" "w \<le> 1000"
  shows "f64_upto w (award_points (f64_lit (of_nat w)) pc)"
proof -
  have z: "f64_upto w (f64_lit 0)" by (simp add: f64_upto_def)
  have "f64_upto w (f64_mul (f64_lit (of_nat w)) (f64_div (f64_sub p (f64_lit 50)) (f64_lit 50)))"
    if "f64_le (f64_lit 50) p" "f64_upto 100 p" for p
  proof -
    have "f64_upto 1 (f64_div (f64_sub p (f64_lit (of_nat 50))) (f64_lit (of_nat 50)))"
      using f64_upto_minus_50 [OF that] by (intro f64_upto_div) simp_all
    then show ?thesis using f64_upto_mul [OF f64_upto_lit [of w w]] assms(2) by fastforce
  qed
  then show ?thesis using assms(1) z by (auto simp: award_points_def split: option.split)
qed

lemma f64_upto_sum:
  assumes "list_all2 f64_upto ws xs" "sum_list ws + b \<le> 2 ^ 53" "f64_upto b a"
  shows "f64_upto (sum_list ws + b) (foldl f64_add a xs)"
  using assms
proof (induction arbitrary: a b rule: list_all2_induct)
  case (Cons w ws x xs)
  have "f64_upto (b + w) (f64_add a x)" using Cons by (intro f64_upto_add) simp_all
  from Cons.IH [OF _ this] Cons.prems show ?case by (simp add: ac_simps)
qed simp

text \<open>The weights of every impact model add up to 100.\<close>

definition icd_total :: "impact_component_definition list \<Rightarrow> nat list \<Rightarrow> bool" where
  "icd_total cs ws \<longleftrightarrow> map icd_weight cs = map (\<lambda>w. f64_lit (of_nat w)) ws \<and> sum_list ws \<le> 100"

lemma model_weights:
  assumes "model_for_event_type ty = Some model"
  shows "\<exists>ws. icd_total (imd_components model) ws"
proof (cases ty)
  case LargeTransfer
  then show ?thesis using assms
    by (intro exI [of _ "[60, 15, 15, 10]"]) (auto simp: model_for_event_type_def impact_model_def icd_def icd_total_def)
next
  case DormantCoinsMoved
  then show ?thesis using assms
    by (intro exI [of _ "[35, 30, 25, 10]"]) (auto simp: model_for_event_type_def impact_model_def icd_def icd_total_def)
next
  case Consolidation
  then show ?thesis using assms
    by (intro exI [of _ "[40, 30, 20, 10]"]) (auto simp: model_for_event_type_def impact_model_def icd_def icd_total_def)
next
  case FanOut
  then show ?thesis using assms
    by (intro exI [of _ "[40, 35, 25]"]) (auto simp: model_for_event_type_def impact_model_def icd_def icd_total_def)
next
  case ExtremeFee
  then show ?thesis using assms
    by (intro exI [of _ "[60, 40]"]) (auto simp: model_for_event_type_def impact_model_def icd_def icd_total_def)
next
  case LongBlockInterval
  then show ?thesis using assms
    by (intro exI [of _ "[100]"]) (auto simp: model_for_event_type_def impact_model_def icd_def icd_total_def)
qed (use assms in \<open>simp_all add: model_for_event_type_def\<close>)

definition percentiles_ok :: "event_rarity_result list \<Rightarrow> bool" where
  "percentiles_ok rs \<longleftrightarrow> (\<forall>r \<in> set rs. \<forall>p. er_percentile r = Some p \<longrightarrow> f64_upto 100 p)"

lemma points_total:
  assumes "map icd_weight cs = map (\<lambda>w. f64_lit (of_nat w)) ws" "percentiles_ok rs" "\<forall>w \<in> set ws. w \<le> 100"
  shows "\<exists>vs. list_all2 f64_upto vs (map imc_points_awarded (List.map_filter (impact_component_of rs) cs))
    \<and> sum_list vs \<le> sum_list ws"
  using assms(1,3)
proof (induction cs arbitrary: ws)
  case Nil
  then show ?case by (simp add: map_filter_simps)
next
  case (Cons c cs)
  then obtain w ws' where ws: "ws = w # ws'" "icd_weight c = f64_lit (of_nat w)"
    "map icd_weight cs = map (\<lambda>w. f64_lit (of_nat w)) ws'" "w \<le> 100" "\<forall>w \<in> set ws'. w \<le> 100"
    by (auto simp: Cons_eq_map_conv)
  obtain vs where vs: "list_all2 f64_upto vs (map imc_points_awarded (List.map_filter (impact_component_of rs) cs))"
    "sum_list vs \<le> sum_list ws'" using Cons.IH [OF ws(3,5)] by blast
  show ?case
  proof (cases "find (\<lambda>r. er_metric r = icd_metric c) rs")
    case None
    then show ?thesis using vs ws(1)
      by (intro exI [of _ vs]) (simp add: map_filter_simps impact_component_of_def [of rs c])
  next
    case (Some r)
    then have "r \<in> set rs" by (auto simp: find_Some_iff)
    then have "f64_upto w (award_points (icd_weight c) (er_percentile r))"
      unfolding ws(2) using assms(2) ws(4) by (intro award_points_upto) (auto simp: percentiles_ok_def)
    then have "f64_upto w (two_decimals (award_points (icd_weight c) (er_percentile r)))"
      using ws(4) by (intro f64_upto_two_decimals) simp_all
    then show ?thesis using vs ws(1) Some
      by (intro exI [of _ "w # vs"]) (simp add: map_filter_simps impact_component_of_def [of rs c])
  qed
qed

lemma impact_score_upto:
  assumes "percentiles_ok rs" "ib_total_score (calculate_impact ty rs v) = Some s"
  shows "f64_upto 100 s"
proof -
  let ?comps = "\<lambda>m. map imc_points_awarded (List.map_filter (impact_component_of rs) (imd_components m))"
  obtain model where m: "model_for_event_type ty = Some model"
    using assms(2) by (cases "model_for_event_type ty")
      (auto simp: calculate_impact_def Let_def impact_model_def map_filter_simps split: if_splits)
  obtain ws where ws: "icd_total (imd_components model) ws" using model_weights [OF m] by blast
  then have "sum_list ws \<le> 100" by (simp add: icd_total_def)
  then have "\<forall>w \<in> set ws. w \<le> 100" by (auto dest: member_le_sum_list)
  with points_total [OF _ assms(1), of "imd_components model" ws] ws
  obtain vs where vs: "list_all2 f64_upto vs (?comps model)" "sum_list vs \<le> sum_list ws"
    by (auto simp: icd_total_def)
  have total: "sum_list vs \<le> 100" using vs(2) ws by (simp add: icd_total_def)
  have "f64_upto (sum_list vs + 0) (f64_sum (?comps model))"
    unfolding f64_sum_def using vs(1) total by (intro f64_upto_sum) (simp_all add: f64_upto_def)
  then have raw: "f64_upto 100 (f64_sum (?comps model))" using total f64_upto_mono by simp
  have "s = two_decimals (f64_lit 100) \<or> s = two_decimals (f64_sum (?comps model))"
    using assms(2) by (auto simp: calculate_impact_def Let_def m split: if_splits)
  moreover have "f64_upto 100 (two_decimals (f64_lit 100))"
    using f64_upto_two_decimals [OF f64_upto_lit [of 100 100]] by simp
  moreover have "f64_upto 100 (two_decimals (f64_sum (?comps model)))"
    using raw by (rule f64_upto_two_decimals) simp
  ultimately show ?thesis by blast
qed


section \<open>Estimated percentiles\<close>

text \<open>Sample values as floats: finite, non-negative and far from overflow.\<close>

definition sane :: "f64 \<Rightarrow> bool" where
  "sane x \<longleftrightarrow> (\<exists>m. x = Finite False m \<and> 0 \<le> m \<and> m \<le> 2 ^ 150)"

lemma sane_sub:
  assumes "sane x" "sane y" "f64_le y x"
  shows "\<exists>a b. x = Finite False a \<and> y = Finite False b \<and> b \<le> a
    \<and> f64_sub x y = Finite False (round_mag (a - b))"
proof -
  obtain a b where ab: "x = Finite False a" "y = Finite False b" "b \<le> a" "a \<le> 2 ^ 150" "0 \<le> b"
    using assms by (auto simp: sane_def sval_def)
  then have "a - b \<le> 2 ^ 200" by simp
  then have "f64_sub x y = Finite False (round_mag (a - b))"
    using ab by (simp add: f64_sub_def sval_def Let_def f64_of_rat_nonneg mk_f64_finite)
  with ab show ?thesis by blast
qed

lemma fraction_upto:
  assumes "sane v" "sane l" "sane h" "f64_le l v" "f64_le v h"
    "\<not> f64_lt (f64_abs (f64_sub h l)) f64_epsilon"
  shows "f64_upto 1 (f64_div (f64_sub v l) (f64_sub h l))"
proof -
  have "f64_le l h" using assms(4,5) by (rule f64_le_trans)
  obtain a b where ab: "v = Finite False a" "l = Finite False b" "b \<le> a"
    "f64_sub v l = Finite False (round_mag (a - b))" using sane_sub [OF assms(1,2,4)] by blast
  obtain c where c: "h = Finite False c" "f64_sub h l = Finite False (round_mag (c - b))"
    using sane_sub [OF assms(3,2) \<open>f64_le l h\<close>] ab by auto
  have "round_mag (a - b) \<le> round_mag (c - b)"
    using assms(5) ab(1) c(1) by (intro round_mag_mono) (simp add: sval_def)
  moreover have "0 < round_mag (c - b)"
  proof -
    have "1 / 2 ^ 52 \<le> round_mag (c - b)" using assms(6) c(2) by (simp add: f64_epsilon_def sval_def not_less)
    then show ?thesis by (rule less_le_trans [rotated]) simp
  qed
  ultimately have "round_mag (a - b) / round_mag (c - b) \<le> of_nat 1" by (simp add: divide_le_eq)
  then have "f64_upto 1 (mk_f64 False (round_mag (a - b) / round_mag (c - b)))"
    by (intro f64_upto_mk) simp_all
  then show ?thesis using \<open>0 < round_mag (c - b)\<close> ab(4) c(2) by simp
qed

definition good_step :: "f64 \<Rightarrow> f64 \<Rightarrow> bool" where
  "good_step ql qh \<longleftrightarrow> f64_upto 100 qh
     \<and> (\<forall>f. f64_upto 1 f \<longrightarrow> f64_upto 100 (f64_add ql (f64_mul f (f64_sub qh ql))))"

fun good_table :: "(f64 \<times> f64) list \<Rightarrow> bool" where
  "good_table ((ql, vl) # (qh, vh) # rest) =
     (sane vl \<and> sane vh \<and> good_step ql qh \<and> good_table ((qh, vh) # rest))"
| "good_table _ = True"

lemma interpolate_upto:
  assumes "sane v" "good_table tab"
  shows "f64_upto 100 (interpolate v tab)"
  using assms
proof (induction v tab rule: interpolate.induct)
  case (1 val_f ql vl qh vh rest)
  then show ?case using fraction_upto [of val_f vl vh] by (auto simp: good_step_def Let_def)
qed (use f64_upto_lit [of 50 100] in simp_all)

lemma good_step_int:
  assumes "l \<le> h" "h \<le> 100"
  shows "good_step (f64_lit (of_nat l)) (f64_lit (of_nat h))"
proof -
  have lit: "f64_lit (of_nat k) = Finite False (of_nat k)" if "k \<le> 100" for k
    using that by (intro f64_lit_nat) simp
  have "f64_sub (Finite False (of_nat h)) (Finite False (of_nat l)) = Finite False (of_nat (h - l))"
    using assms f64_of_nat_exact [of "h - l"] by (simp add: f64_sub_def sval_def Let_def f64_of_nat_def of_nat_diff)
  then have sub: "f64_upto (h - l) (f64_sub (f64_lit (of_nat h)) (f64_lit (of_nat l)))"
    using assms by (simp add: lit f64_upto_def)
  have "f64_upto h (f64_add (f64_lit (of_nat l)) (f64_mul f (f64_sub (f64_lit (of_nat h)) (f64_lit (of_nat l)))))"
    if "f64_upto 1 f" for f
    using f64_upto_add [OF f64_upto_lit [of l l] f64_upto_mul [OF that sub]] assms by simp
  then show ?thesis using assms f64_upto_mono f64_upto_lit [of h 100] unfolding good_step_def by fastforce
qed

text \<open>The literal 99.9 is a multiple of its unit in the last place, so 100 minus it is exact.\<close>

lemma lit_999:
  obtains k where "f64_lit 99.9 = Finite False (of_int k * pow2 (- 46))" "99 \<le> of_int k * pow2 (- 46)"
    "of_int k * pow2 (- 46) \<le> 100"
proof -
  have r: "f64_lit 99.9 = Finite False (round_mag 99.9)" by (simp add: f64_of_rat_nonneg mk_f64_finite)
  have "pow2 (ilog2 99.9) \<le> 99.9" "99.9 < pow2 (ilog2 99.9 + 1)"
    using ilog2_bounds [of "99.9"] by simp_all
  then have "pow2 (ilog2 99.9) < pow2 7" "pow2 6 < pow2 (ilog2 99.9 + 1)" by (simp_all add: pow2_def)
  then have "ilog2 99.9 = 6" by (simp add: pow2_less_iff)
  then have "quantum_exp 99.9 = - 46" by (simp add: quantum_exp_def)
  then have "round_mag 99.9 = of_int (round_half_even (99.9 / pow2 (- 46))) * pow2 (- 46)"
    by (simp add: round_mag_def)
  moreover have "round_mag 99.9 \<le> of_nat 100" by (rule round_mag_le_nat) simp_all
  moreover have "of_nat 99 \<le> round_mag 99.9" by (rule round_mag_ge_nat) simp_all
  ultimately show thesis using that r by (metis of_nat_numeral)
qed

lemma good_step_999: "good_step (f64_lit 99) (f64_lit 99.9)" "good_step (f64_lit 99.9) (f64_lit 100)"
proof -
  obtain k where k: "f64_lit 99.9 = Finite False (of_int k * pow2 (- 46))" "99 \<le> of_int k * pow2 (- 46)"
    "of_int k * pow2 (- 46) \<le> 100" using lit_999 by blast
  let ?m = "of_int k * pow2 (- 46)"
  have l: "f64_lit 99 = Finite False 99" "f64_lit 100 = Finite False 100" by (simp_all add: f64_lit_numeral)
  have "f64_upto 1 (f64_sub (f64_lit 99.9) (f64_lit 99))"
    using k f64_upto_mk [of "?m - 99" 1] l(1)
    by (simp add: f64_sub_def sval_def Let_def f64_of_rat_nonneg f64_upto_def [of _ "Finite _ _"])
  then have "f64_upto 100 (f64_add (f64_lit 99) (f64_mul f (f64_sub (f64_lit 99.9) (f64_lit 99))))"
    if "f64_upto 1 f" for f
    using f64_upto_add [OF f64_upto_lit [of 99 99] f64_upto_mul [OF that]] by fastforce
  then show "good_step (f64_lit 99) (f64_lit 99.9)"
    using k unfolding good_step_def by (simp add: f64_upto_def [of _ "Finite _ _"])
  have diff: "100 - ?m = of_int (100 * 2 ^ 46 - k) * pow2 (- 46)"
    by (simp add: algebra_simps pow2_def)
  have kb: "k \<le> 100 * 2 ^ 46" "0 \<le> k"
  proof -
    have "(of_int k :: rat) \<le> of_int (100 * 2 ^ 46)" "(0 :: rat) \<le> of_int k"
      using k(2,3) by (simp_all add: pow2_def field_simps)
    then show "k \<le> 100 * 2 ^ 46" "0 \<le> k" by (simp_all only: of_int_le_iff of_int_0_le_iff)
  qed
  have ex: "round_mag (100 - ?m) = 100 - ?m"
    using kb k(3) by (intro round_mag_exact [OF diff]) (simp_all add: abs_le_iff)
  have sub: "f64_sub (f64_lit 100) (f64_lit 99.9) = Finite False (100 - ?m)"
    using k ex l(2) by (simp add: f64_sub_def sval_def Let_def f64_of_rat_nonneg mk_f64_finite)
  have "f64_upto 100 (f64_add (f64_lit 99.9) (f64_mul f (f64_sub (f64_lit 100) (f64_lit 99.9))))"
    if f: "f64_upto 1 f" for f
  proof -
    obtain x where x: "f = Finite False x" "0 \<le> x" "x \<le> 1" using f by (auto simp: f64_upto_def)
    have "x * (100 - ?m) \<le> 100 - ?m" using x k(3) by (simp add: mult_left_le_one_le)
    then have "round_mag (x * (100 - ?m)) \<le> 100 - ?m" using round_mag_mono ex by metis
    moreover have "f64_mul f (f64_sub (f64_lit 100) (f64_lit 99.9)) = Finite False (round_mag (x * (100 - ?m)))"
      using \<open>x * (100 - ?m) \<le> 100 - ?m\<close> k(2) x(1) sub by (simp add: mk_f64_finite)
    ultimately show ?thesis
      using k f64_upto_mk [of "?m + round_mag (x * (100 - ?m))" 100]
      by (simp add: sval_def Let_def f64_of_rat_nonneg f64_upto_def [of _ "Finite _ _"])
  qed
  then show "good_step (f64_lit 99.9) (f64_lit 100)"
    unfolding good_step_def using f64_upto_lit [of 100 100] by simp
qed

definition sane_distribution :: "baseline_distribution \<Rightarrow> bool" where
  "sane_distribution d \<longleftrightarrow> list_all (\<lambda>v. sane (metric_to_f64 v))
     [bd_minimum d, bd_p50 d, bd_p75 d, bd_p90 d, bd_p95 d, bd_p99 d, bd_p999 d, bd_maximum d]"

lemma rank_from_distribution_upto:
  assumes "sane_distribution d" "sane (metric_to_f64 x)"
  shows "f64_upto 100 (fst (rank_from_distribution d x dir))"
proof -
  have steps: "good_step (f64_lit 0) (f64_lit 50)" "good_step (f64_lit 50) (f64_lit 75)"
    "good_step (f64_lit 75) (f64_lit 90)" "good_step (f64_lit 90) (f64_lit 95)"
    "good_step (f64_lit 95) (f64_lit 99)"
    using good_step_int [of 0 50] good_step_int [of 50 75] good_step_int [of 75 90]
      good_step_int [of 90 95] good_step_int [of 95 99] by simp_all
  have "good_table (quantile_table d)"
    using assms(1) steps good_step_999 by (simp add: quantile_table_def sane_distribution_def del: f64_lit_0)
  then have "f64_upto 100 (interpolate (metric_to_f64 x) (quantile_table d))"
    by (rule interpolate_upto [OF assms(2)])
  moreover have "f64_upto 100 (f64_lit 0)" "f64_upto 100 (f64_lit 100)"
    using f64_upto_lit [of 0 100] f64_upto_lit [of 100 100] by simp_all
  ultimately show ?thesis by (simp add: rank_from_distribution_def Let_def del: f64_lit_0)
qed


section \<open>Generated distributions\<close>

lemma in_map_filter: "y \<in> set (List.map_filter f xs) \<longleftrightarrow> (\<exists>x \<in> set xs. f x = Some y)"
  by (force simp: map_filter_def)

lemma typed_sane:
  assumes "metric_typed m v"
  shows "sane (metric_to_f64 v)"
proof -
  have bound: "round_mag (of_nat n) \<le> 2 ^ 150" if "n \<le> 2 ^ 150" for n
  proof -
    have "(of_nat n :: rat) \<le> of_nat (2 ^ 150)" using that by (simp only: of_nat_le_iff)
    then have "round_mag (of_nat n) \<le> round_mag (2 ^ 150)" by (intro round_mag_mono) simp
    also have "round_mag (2 ^ 150) = 2 ^ 150"
      by (rule round_mag_exact [where m = 1 and k = 150]) (simp_all add: pow2_def)
    finally show ?thesis .
  qed
  have small: "unat (w :: u64) \<le> 2 ^ 150" "unat (u :: u128) \<le> 2 ^ 150" "unat (t :: u32) \<le> 2 ^ 150" for w u t
    using unsigned_less [of w, where 'a = nat] unsigned_less [of u, where 'a = nat]
      unsigned_less [of t, where 'a = nat] by simp_all
  have nat: "f64_of_nat n = Finite False (round_mag (of_nat n))" if "n \<le> 2 ^ 150" for n
    using that by (intro f64_of_nat_finite) simp
  have whole: "sane (f64_of_nat n)" if "n \<le> 2 ^ 150" for n
    unfolding nat [OF that] sane_def using bound [OF that] by auto
  have div: "sane (f64_div (Finite False (round_mag (of_nat n))) (Finite False 100))" if "n \<le> 2 ^ 150" for n
  proof -
    have "round_mag (of_nat n) / 100 \<le> round_mag (of_nat n)" using round_mag_nonneg [of "of_nat n"] by linarith
    with bound [OF that] have le: "round_mag (of_nat n) / 100 \<le> 2 ^ 150" by linarith
    then have "round_mag (round_mag (of_nat n) / 100) \<le> round_mag (2 ^ 150)" by (rule round_mag_mono)
    also have "round_mag (2 ^ 150) = 2 ^ 150"
      by (rule round_mag_exact [where m = 1 and k = 150]) (simp_all add: pow2_def)
    finally show ?thesis using le by (simp add: sane_def mk_f64_finite)
  qed
  have hundred: "f64_powi (f64_lit 10) 2 = Finite False 100"
    by (simp add: f64_powi_def powi_loop.simps f64_lit_numeral mk_f64_finite round_mag_numeral)
  consider (u64) n where "v = U64 n" | (u128) n where "v = U128 n" | (bps) n where "v = BasisPoints n"
    | (dec) n where "v = DecimalScaled n 2" using assms by (cases m) auto
  then show ?thesis
  proof cases
    case dec
    then show ?thesis using div [OF small(1)] hundred by (simp add: nat [OF small(1)])
  next
    case bps
    then show ?thesis using div [OF small(3)] by (simp add: nat [OF small(3)] f64_lit_numeral)
  next
    case u64
    then show ?thesis using whole [OF small(1)] by simp
  next
    case u128
    then show ?thesis using whole [OF small(2)] by simp
  qed
qed

lemma compute_distribution_members:
  assumes "compute_distribution values c = Some q"
  shows "set [qd_minimum q, qd_p50 q, qd_p75 q, qd_p90 q, qd_p95 q, qd_p99 q, qd_p999 q, qd_maximum q] \<subseteq> set values"
proof -
  note f = compute_distribution_fields [OF assms]
  have "sort values ! 0 \<in> set values" "sort values ! (length values - 1) \<in> set values"
    using f(1) by (metis length_greater_0_conv length_sort nth_mem set_sort diff_less zero_less_one)+
  then show ?thesis using quantile_at_range(1) [OF f(1)] by (simp add: f(2-9))
qed

lemma distribution_for_sane:
  assumes "distribution_for i run_id now evs d = Some b"
  shows "sane_distribution b \<and> bd_metric b = md_metric d \<and> bd_event_type b = md_event_type d"
proof -
  let ?vs = "List.map_filter (\<lambda>ev. extract_metric ev (md_metric d)) evs"
  obtain q where q: "compute_distribution ?vs (of_nat (length evs)) = Some q"
    and b: "bd_metric b = md_metric d" "bd_event_type b = md_event_type d"
      "[bd_minimum b, bd_p50 b, bd_p75 b, bd_p90 b, bd_p95 b, bd_p99 b, bd_p999 b, bd_maximum b] =
       [qd_minimum q, qd_p50 q, qd_p75 q, qd_p90 q, qd_p95 q, qd_p99 q, qd_p999 q, qd_maximum q]"
    using assms by (auto simp: distribution_for_def)
  have "sane (metric_to_f64 v)" if "v \<in> set ?vs" for v
    using that by (auto simp: in_map_filter dest: extract_metric_typed intro: typed_sane)
  then show ?thesis using compute_distribution_members [OF q] b
    unfolding sane_distribution_def by (auto simp: list_all_iff)
qed

lemma generated_sane:
  "b \<in> set (generate_distributions v4 now run_id events targets) \<Longrightarrow> sane_distribution b"
  by (auto simp: generate_distributions_def Let_def in_map_filter dest: distribution_for_sane)

lemma rank_metric_upto:
  assumes "list_all sane_distribution ds" "sane (metric_to_f64 x)"
    "\<forall>(m, p, r) \<in> set exact. f64_upto 100 p" "rr_percentile (rank_metric ty ds exact k d x) = Some p"
  shows "f64_upto 100 p"
proof (cases "rr_method (rank_metric ty ds exact k d x)")
  case ExactEmpiricalCdf
  then obtain tail pop where "map_of exact (md_metric d) = Some (p, tail, pop)"
    using assms(4) by (auto simp: rank_metric_def Let_def split: option.splits prod.splits if_splits)
  then show ?thesis using assms(3) by (auto dest: map_of_SomeD)
next
  case QuantileInterpolationEstimate
  then obtain b where b: "find (\<lambda>b. bd_event_type b = ty \<and> bd_metric b = md_metric d) ds = Some b"
    and p: "p = fst (rank_from_distribution b x (md_direction d))"
    using assms(4) by (auto simp: rank_metric_def Let_def split: option.splits prod.splits if_splits)
  have "b \<in> set ds" using b by (auto simp: find_Some_iff)
  then have "sane_distribution b" using assms(1) by (auto simp: list_all_iff)
  then show ?thesis unfolding p by (rule rank_from_distribution_upto [OF _ assms(2)])
qed

lemma evaluated_score_upto:
  assumes "list_all sane_distribution ds" "\<forall>(m, p, r) \<in> set exact. f64_upto 100 p"
    "ib_total_score (the (rc_impact (evaluate_event_rarity_with_exact_ranks ev run ds exact k))) = Some s"
  shows "f64_upto 100 s"
proof -
  define results where "results = List.map_filter (\<lambda>d. map_option (\<lambda>x.
      (md_is_primary d, rarity_result ev run (md_metric d) x (rank_metric (ev_type ev) ds exact k d x)))
      (extract_metric ev (md_metric d))) (metrics_for_event_type (ev_type ev))"
  have ok: "f64_upto 100 p" if r: "r \<in> snd ` set results" "er_percentile r = Some p" for r p
  proof -
    obtain d x where x: "extract_metric ev (md_metric d) = Some x"
      "rr_percentile (rank_metric (ev_type ev) ds exact k d x) = Some p"
      using r by (auto simp: results_def in_map_filter rarity_result_def)
    show ?thesis
      by (rule rank_metric_upto [OF assms(1) typed_sane [OF extract_metric_typed [OF x(1)]] assms(2) x(2)])
  qed
  let ?c = "evaluate_event_rarity_with_exact_ranks ev run ds exact k"
  have "set (rc_secondary ?c) \<subseteq> snd ` set results"
    by (auto simp: evaluate_event_rarity_with_exact_ranks_def Let_def results_def)
  moreover have "rc_primary ?c \<in> snd ` set results \<or> er_percentile (rc_primary ?c) = None"
  proof (cases "find fst results")
    case None
    then show ?thesis
      by (simp add: evaluate_event_rarity_with_exact_ranks_def Let_def results_def rarity_result_def)
  next
    case (Some r)
    then have "r \<in> set results" by (auto simp: find_Some_iff)
    moreover have "rc_primary ?c = snd r" using Some
      by (simp add: evaluate_event_rarity_with_exact_ranks_def Let_def results_def [symmetric] case_prod_unfold)
    ultimately show ?thesis by simp
  qed
  ultimately have "percentiles_ok (rc_primary ?c # rc_secondary ?c)"
    using ok unfolding percentiles_ok_def by fastforce
  moreover have "rc_impact ?c = Some (calculate_impact (ev_type ev) (rc_primary ?c # rc_secondary ?c)
      (Some (br_algorithm_version run)))"
    by (simp add: evaluate_event_rarity_with_exact_ranks_def Let_def)
  ultimately show ?thesis using impact_score_upto assms(3) by simp
qed

section \<open>Properties\<close>

text \<open>
  C36. The quantiles of a distribution are observed samples in order, from the minimum to the
  maximum of the samples, and the middle one is a median: at least half of the samples are at most
  it and at most half are below it; samples and missing values add up to the candidates.
\<close>

theorem distribution_quantiles:
  assumes "compute_distribution values c = Some q" "length values < 2 ^ 53"
  shows "sorted [qd_minimum q, qd_p50 q, qd_p75 q, qd_p90 q, qd_p95 q, qd_p99 q, qd_p999 q, qd_maximum q]
    \<and> set [qd_minimum q, qd_p50 q, qd_p75 q, qd_p90 q, qd_p95 q, qd_p99 q, qd_p999 q, qd_maximum q] \<subseteq> set values
    \<and> qd_minimum q = Min (set values) \<and> qd_maximum q = Max (set values)
    \<and> length values \<le> 2 * length (filter (\<lambda>v. v \<le> qd_p50 q) values)
    \<and> 2 * length (filter (\<lambda>v. v < qd_p50 q) values) \<le> length values
    \<and> unat (qd_missing_count q) = unat c - length values"
proof -
  let ?n = "length values"
  note f = compute_distribution_fields [OF assms(1)]
  then have n: "0 < ?n" by simp
  have mm: "sort values ! 0 = Min (set values)" "sort values ! (?n - 1) = Max (set values)"
  proof -
    have m: "sort values ! i \<in> set values" if "i < ?n" for i
      using that by (metis length_sort nth_mem set_sort)
    have nth: "\<exists>i < ?n. y = sort values ! i" if "y \<in> set values" for y
      using that by (metis in_set_conv_nth length_sort set_sort)
    have "sort values ! 0 \<le> y \<and> y \<le> sort values ! (?n - 1)" if "y \<in> set values" for y
      using nth [OF that] by (auto simp: sorted_nth_mono)
    then show "sort values ! 0 = Min (set values)" "sort values ! (?n - 1) = Max (set values)"
      using n m by (auto intro: Min_eqI [symmetric] Max_eqI [symmetric])
  qed
  have ord: "sorted [qd_minimum q, qd_p50 q, qd_p75 q, qd_p90 q, qd_p95 q, qd_p99 q, qd_p999 q, qd_maximum q]"
    using quantile_at_range(2,3) [OF f(1)] assms(2) f(1)
    by (auto simp: f(2-9) intro: quantile_at_mono order_trans)
  have p50: "qd_p50 q = sort values ! ((?n + 1) div 2 - 1)"
    using f(4) half_rank [OF n assms(2)] by (simp add: quantile_at_idx)
  have i: "(?n + 1) div 2 - 1 < length (sort values)" using n unfolding length_sort by linarith
  have "?n \<le> 2 * length (filter (\<lambda>v. v \<le> qd_p50 q) values)"
    using sorted_count_le [OF sorted_sort i] unfolding p50 filter_sort_length by linarith
  moreover have "2 * length (filter (\<lambda>v. v < qd_p50 q) values) \<le> ?n"
    using sorted_count_less [OF sorted_sort i] unfolding p50 filter_sort_length by linarith
  moreover have "unat (qd_missing_count q) = unat c - ?n"
    using f(10) assms(2) by (simp add: unat_saturating_sub unat_of_nat_less)
  ultimately show ?thesis
    using ord compute_distribution_members [OF assms(1)] mm f(2,3) by simp
qed

theorem distribution_quantiles_witness:
  "\<exists>q. compute_distribution [U64 30, U64 10, U64 20] 5 = Some q
     \<and> qd_minimum q = U64 10 \<and> qd_maximum q = U64 30 \<and> unat (qd_missing_count q) = 2"
proof -
  obtain q where q: "compute_distribution [U64 30, U64 10, U64 20] 5 = Some q"
    by (simp add: compute_distribution_def Let_def)
  have "U64 10 \<le> U64 20" "U64 20 \<le> U64 30" "U64 10 \<le> U64 30"
    by (simp_all add: less_eq_metric_value_def)
  then have "Min (set [U64 30, U64 10, U64 20]) = U64 10" "Max (set [U64 30, U64 10, U64 20]) = U64 30"
    by (simp_all add: min_def max_def)
  then show ?thesis using distribution_quantiles [OF q] q by auto
qed

lemma filter_mono_length: "(\<And>v. P v \<Longrightarrow> Q v) \<Longrightarrow> length (filter P xs) \<le> length (filter Q xs)"
  by (induction xs) (auto simp: le_SucI)

text \<open>
  The exact rank is an empirical distribution function: it lies between 0 and 100, grows with
  the value while the tail shrinks (the other way round when lower is rarer), and a value that
  dominates all samples ranks 100.
\<close>

theorem rank_value_monotone:
  assumes "samples \<noteq> []" "length samples < 2 ^ 64" "x \<le> y"
  shows "f64_le (f64_lit 0) (fst (rank_value samples x dir)) \<and> f64_le (fst (rank_value samples x dir)) (f64_lit 100)
    \<and> f64_le (fst (rank_value samples x HigherIsRarer)) (fst (rank_value samples y HigherIsRarer))
    \<and> snd (rank_value samples y HigherIsRarer) \<le> snd (rank_value samples x HigherIsRarer)
    \<and> f64_le (fst (rank_value samples y LowerIsRarer)) (fst (rank_value samples x LowerIsRarer))
    \<and> snd (rank_value samples x LowerIsRarer) \<le> snd (rank_value samples y LowerIsRarer)
    \<and> fst (rank_value samples (Max (set samples)) HigherIsRarer) = f64_lit 100"
proof -
  let ?n = "length samples"
  let ?le = "\<lambda>x. length (filter (\<lambda>v. v \<le> x) samples)" and ?ge = "\<lambda>x. length (filter (\<lambda>v. x \<le> v) samples)"
  have le_n: "?le z \<le> ?n" "?ge z \<le> ?n" for z by simp_all
  have n: "0 < ?n" "?n \<le> 2 ^ 64" using assms by simp_all
  have hi: "rank_value samples z HigherIsRarer = (f64_percent (?le z) ?n, of_nat (?ge z))"
    "rank_value samples z TwoSided = (f64_percent (?le z) ?n, of_nat (?ge z))"
    "rank_value samples z LowerIsRarer = (f64_percent (?ge z) ?n, of_nat (?le z))" for z
    using assms(1) by (simp_all add: rank_value_def Let_def f64_percent_def)
  have mono: "?le x \<le> ?le y" "?ge y \<le> ?ge x"
    using assms(3) order_trans by (intro filter_mono_length; blast)+
  have word: "(of_nat a :: u64) \<le> of_nat b" if "a \<le> b" "b \<le> ?n" for a b
    using that assms(2) by (simp add: word_le_nat_alt unat_of_nat_less)
  have bnd: "f64_le (f64_lit 0) (f64_percent a ?n) \<and> f64_le (f64_percent a ?n) (f64_lit 100)" if a: "a \<le> ?n" for a
  proof -
    obtain r where "f64_percent a ?n = Finite False r" "0 \<le> r" "r \<le> 100"
      using f64_percent_finite [OF a n] by metis
    then show ?thesis by (simp add: f64_lit_numeral sval_def)
  qed
  have "f64_le (f64_lit 0) (fst (rank_value samples x dir)) \<and> f64_le (fst (rank_value samples x dir)) (f64_lit 100)"
    using bnd [OF le_n(1) [of x]] bnd [OF le_n(2) [of x]] by (cases dir) (simp_all only: hi fst_conv)
  moreover have "?le (Max (set samples)) = ?n" by (simp add: filter_id_conv)
  then have "fst (rank_value samples (Max (set samples)) HigherIsRarer) = f64_lit 100"
    using f64_percent_all [OF n] by (simp only: hi fst_conv) (simp add: f64_lit_numeral)
  ultimately show ?thesis
    using f64_percent_mono [OF mono(1) le_n(1) n] f64_percent_mono [OF mono(2) le_n(2) n]
      word [OF mono(1) le_n(1)] word [OF mono(2) le_n(2)]
    by (simp only: hi fst_conv snd_conv)
qed

theorem rank_value_monotone_witness:
  "f64_le (fst (rank_value [U64 1, U64 2] (U64 1) HigherIsRarer)) (fst (rank_value [U64 1, U64 2] (U64 2) HigherIsRarer))
   \<and> fst (rank_value [U64 1, U64 2] (Max (set [U64 1, U64 2])) HigherIsRarer) = f64_lit 100"
  using rank_value_monotone [of "[U64 1, U64 2]" "U64 1" "U64 2" HigherIsRarer]
  by (simp add: less_eq_metric_value_def)

text \<open>
  The impact score never leaves its scale: for any events a baseline was generated from and
  any event evaluated against it, the score, when there is one, lies between 0 and 100, whatever
  the rounding of the interpolated percentiles and of the weighted points.
\<close>

theorem impact_score_in_scale:
  "pred_option (\<lambda>s. f64_le (f64_lit 0) s \<and> f64_le s (f64_lit 100))
     (ib_total_score (the (rc_impact (evaluate_event_rarity ev run
        (generate_distributions v4 now run_id events targets) min_sample_size))))"
proof -
  have "list_all sane_distribution (generate_distributions v4 now run_id events targets)"
    using generated_sane by (auto simp: list_all_iff)
  then have "f64_le (f64_lit 0) s \<and> f64_le s (f64_lit 100)"
    if "ib_total_score (the (rc_impact (evaluate_event_rarity ev run
        (generate_distributions v4 now run_id events targets) min_sample_size))) = Some s" for s
    using evaluated_score_upto [where exact = "[]"] that f64_upto_le [of 100 s]
    unfolding evaluate_event_rarity_def by simp
  then show ?thesis by (auto simp: pred_option_def elem_set)
qed

text \<open>
  Between the extremes of a distribution the estimated rank ignores the direction: a value
  strictly inside the range ranks the same whether higher or lower values are the rarer ones,
  although at the extremes the two directions are mirrored.
\<close>

theorem interior_rank_ignores_direction:
  assumes "f64_lt (metric_to_f64 (bd_minimum b)) (metric_to_f64 x)"
    "f64_lt (metric_to_f64 x) (metric_to_f64 (bd_maximum b))"
  shows "rank_from_distribution b x LowerIsRarer = rank_from_distribution b x HigherIsRarer"
proof -
  have "\<not> f64_le (metric_to_f64 x) (metric_to_f64 (bd_minimum b))"
    "\<not> f64_le (metric_to_f64 (bd_maximum b)) (metric_to_f64 x)"
    using assms by (cases "metric_to_f64 x"; cases "metric_to_f64 (bd_minimum b)"; cases "metric_to_f64 (bd_maximum b)"; auto)+
  then show ?thesis by (simp add: rank_from_distribution_def Let_def)
qed

definition sample_distribution :: baseline_distribution where
  "sample_distribution =
     \<lparr>bd_id = 1, bd_baseline_run_id = 2, bd_event_type = Consolidation, bd_metric = OutputCount,
      bd_unit = UCount, bd_sample_count = 200, bd_candidate_count = 200, bd_missing_count = 0,
      bd_coverage_ratio = f64_lit 1, bd_minimum = U64 1, bd_maximum = U64 5, bd_mean = f64_lit 2,
      bd_p50 = U64 2, bd_p75 = U64 3, bd_p90 = U64 4, bd_p95 = U64 4, bd_p99 = U64 5,
      bd_p999 = U64 5, bd_quality = QModerate, bd_samples_json = None, bd_created_at = 0\<rparr>"

theorem interior_rank_ignores_direction_witness:
  "rank_from_distribution sample_distribution (U64 2) LowerIsRarer
     = rank_from_distribution sample_distribution (U64 2) HigherIsRarer"
  by (rule interior_rank_ignores_direction)
    (simp_all add: sample_distribution_def f64_of_nat_def f64_lit_numeral sval_def)

end
