(* ===== verification/Storage.thy ===== *)
theory Storage
  imports Watch Rarity
begin

text \<open>
  The in-memory storage (\<open>obschain-storage/src/repository.rs\<close>): events with bounded retention and
  their observations, incident dossiers, watch targets, activities and alerts, replay jobs and
  checkpoints, baseline runs with their distributions, rarity results and metrics. Every lock is
  taken for one operation and no operation panics while it holds one, so the poisoned-lock error
  does not arise and an operation is a function of the state; the errors left are those of the
  updates that need an existing entity.

  Two contracts structure the lemmas: a keyed store returns what was saved last under a key, and
  the event log refines a first-in first-out map with conservative merging.
\<close>

section \<open>State\<close>

text \<open>The serialisation error carries the message of \<open>serde_json\<close>.\<close>

datatype storage_error = Database string | NotFound string | Serialization string

definition u64_to_i64_checked :: "u64 \<Rightarrow> storage_error + int" where
  "u64_to_i64_checked v =
     (if unat v < 2 ^ 63 then Inr (int (unat v))
      else Inl (Database (''Value '' @ show_u v @ '' exceeds signed 64-bit integer limit'')))"

definition i64_to_u64_checked :: "int \<Rightarrow> storage_error + u64" where
  "i64_to_u64_checked v =
     (if 0 \<le> v then Inr (of_int v)
      else Inl (Database (''Negative integer '' @ show_int v @ '' cannot convert to u64'')))"

record event_filter =
  ef_from_height :: "u64 option"
  ef_to_height :: "u64 option"
  ef_from_time :: "datetime option"
  ef_to_time :: "datetime option"
  ef_event_type :: "event_type option"
  ef_severity :: "event_severity option"
  ef_observation_mode :: "observation_mode option"
  ef_replay_job_id :: "uuid option"
  ef_txid :: "string option"
  ef_block_hash :: "string option"
  ef_limit :: "usize option"
  ef_offset :: "usize option"

record in_memory_storage =
  st_events :: "chain_event list"
  st_event_observations :: "event_observation list"
  st_incidents :: "incident list"
  st_watch_targets :: "watch_target list"
  st_activities :: "incident_activity list"
  st_alerts :: "incident_alert list"
  st_replay_jobs :: "replay_job list"
  st_replay_checkpoints :: "replay_checkpoint list"
  st_baseline_runs :: "baseline_run list"
  st_baseline_distributions :: "baseline_distribution list"
  st_event_rarity :: "(event_rarity_result \<times> impact_breakdown option) list"
  st_event_metrics :: "event_metric_value list"
  st_max_events :: usize
  st_max_activities :: usize

definition empty_storage :: "usize \<Rightarrow> usize \<Rightarrow> in_memory_storage" where
  "empty_storage max_events max_activities =
     \<lparr>st_events = [], st_event_observations = [], st_incidents = [], st_watch_targets = [],
      st_activities = [], st_alerts = [], st_replay_jobs = [], st_replay_checkpoints = [],
      st_baseline_runs = [], st_baseline_distributions = [], st_event_rarity = [],
      st_event_metrics = [], st_max_events = max_events, st_max_activities = max_activities\<rparr>"

text \<open>
  Seeding takes the canonical dossier and its watch targets as arguments; both are only stored
  when nothing equivalent is there.
\<close>

definition seed_target :: "watch_target \<Rightarrow> watch_target list \<Rightarrow> watch_target list" where
  "seed_target t ts =
     (if list_ex (\<lambda>x. wt_id x = wt_id t \<or> wt_incident_id x = wt_incident_id t \<and> wt_kind x = wt_kind t) ts
      then ts else ts @ [t])"

definition seed_canonical_incidents ::
  "incident \<Rightarrow> watch_target list \<Rightarrow> in_memory_storage \<Rightarrow> in_memory_storage" where
  "seed_canonical_incidents liquid targets s =
     s\<lparr>st_incidents := (if list_ex (\<lambda>i. ic_case_id i = ic_case_id liquid) (st_incidents s)
                        then st_incidents s else st_incidents s @ [liquid]),
       st_watch_targets := fold seed_target targets (st_watch_targets s)\<rparr>"

definition mock_transfer :: "runtime \<Rightarrow> chain_event" where
  "mock_transfer rt =
     (chain_event_new rt LargeTransfer SevHigh ConfVerifiedOnChain ''Large Transfer: 2,450.00 BTC''
        ''Observed transfer of 2,450.00 BTC across 2 outputs in block 884920.'')
     \<lparr>ev_id := 0xa0000000000000000000000000000001,
      ev_txid := Some ''4a5e1e4baab89f3a32518a88c31bc87f618f76673e2cc77ab2127b7afdeda33b'',
      ev_block_height := Some 884920,
      ev_block_hash := Some ''000000000000000000021b34e56997427ce090ef6d38e2195ec4188b449102c1'',
      ev_event_time := rt_now rt - 15 * 60 * 1000000000,
      ev_first_observed_at := rt_now rt - 15 * 60 * 1000000000,
      ev_detected_at := rt_now rt - 15 * 60 * 1000000000,
      ev_metadata := JObj [(''is_mock'', JBool True), (''btc_volume'', json_f64 (f64_lit 2450)),
        (''fee_sats'', json_nat 3410), (''fee_rate_sat_vb'', json_f64 (f64_lit 16.2))]\<rparr>"

definition mock_interval :: "runtime \<Rightarrow> chain_event" where
  "mock_interval rt =
     (chain_event_new rt LongBlockInterval SevMedium ConfVerifiedOnChain
        ''Long Block Interval: 74 min at height 884918''
        ''Block interval of 4,440 seconds observed between heights 884917 and 884918.'')
     \<lparr>ev_id := 0xa0000000000000000000000000000002,
      ev_block_height := Some 884918,
      ev_block_hash := Some ''00000000000000000001f37e42d87e07663f73367809bfccb34ba85df1176b66'',
      ev_event_time := rt_now rt - 2 * 3600 * 1000000000,
      ev_first_observed_at := rt_now rt - 2 * 3600 * 1000000000,
      ev_detected_at := rt_now rt - 2 * 3600 * 1000000000,
      ev_metadata := JObj [(''is_mock'', JBool True), (''interval_seconds'', json_nat 4440),
        (''expected_interval_seconds'', json_nat 600), (''miner_tag'', JStr ''AntPool'')]\<rparr>"

definition mock_fee :: "runtime \<Rightarrow> chain_event" where
  "mock_fee rt =
     (chain_event_new rt ExtremeFee SevLow ConfVerifiedOnChain
        ''Mempool Fee Spike: Median > 85 sat/vB''
        ''Mempool congestion spike observed following rapid sequential transactions.'')
     \<lparr>ev_id := 0xa0000000000000000000000000000003,
      ev_event_time := rt_now rt - 5 * 3600 * 1000000000,
      ev_first_observed_at := rt_now rt - 5 * 3600 * 1000000000,
      ev_detected_at := rt_now rt - 5 * 3600 * 1000000000,
      ev_metadata := JObj [(''is_mock'', JBool True), (''median_fee_rate'', json_f64 (f64_lit 85.4)),
        (''mempool_vsize_mb'', json_f64 (f64_lit 142.5))]\<rparr>"

definition mock_observation :: "runtime \<Rightarrow> chain_event \<Rightarrow> event_observation" where
  "mock_observation rt e =
     event_observation_live rt (ev_id e) (bitcoin_core_rpc ''http://127.0.0.1:18443'') KConfirmed
       (ev_detected_at e) (Some (ev_detected_at e)) (ev_block_height e) (ev_block_hash e)"

definition seed_mock_data :: "runtime \<Rightarrow> in_memory_storage \<Rightarrow> in_memory_storage" where
  "seed_mock_data rt s =
     (let mocks = [mock_transfer rt, mock_interval rt, mock_fee rt]
      in s\<lparr>st_events := st_events s @ mocks,
           st_event_observations := st_event_observations s @ map (mock_observation rt) mocks\<rparr>)"

definition with_limits ::
  "runtime \<Rightarrow> incident \<Rightarrow> watch_target list \<Rightarrow> usize \<Rightarrow> usize \<Rightarrow> in_memory_storage" where
  "with_limits rt liquid targets max_events max_activities =
     seed_mock_data rt (seed_canonical_incidents liquid targets (empty_storage max_events max_activities))"

definition new_empty :: "incident \<Rightarrow> watch_target list \<Rightarrow> usize \<Rightarrow> in_memory_storage" where
  "new_empty liquid targets max_events =
     seed_canonical_incidents liquid targets (empty_storage max_events 5000)"

definition clear_events :: "in_memory_storage \<Rightarrow> in_memory_storage" where
  "clear_events s = s\<lparr>st_events := [], st_event_observations := []\<rparr>"

definition clear_activities :: "in_memory_storage \<Rightarrow> in_memory_storage" where
  "clear_activities s = s\<lparr>st_activities := []\<rparr>"

definition clear_alerts :: "in_memory_storage \<Rightarrow> in_memory_storage" where
  "clear_alerts s = s\<lparr>st_alerts := []\<rparr>"

section \<open>Events\<close>

definition same_metric :: "event_metric_value \<Rightarrow> event_metric_value \<Rightarrow> bool" where
  "same_metric m x \<longleftrightarrow> mv_event_id x = mv_event_id m \<and> mv_metric x = mv_metric m
     \<and> mv_definition_version x = mv_definition_version m"

definition save_event_metrics :: "event_metric_value list \<Rightarrow> in_memory_storage \<Rightarrow> in_memory_storage" where
  "save_event_metrics ms s =
     s\<lparr>st_event_metrics := fold (\<lambda>m. upsert (same_metric m) m) ms (st_event_metrics s)\<rparr>"

definition get_event_metrics :: "uuid \<Rightarrow> in_memory_storage \<Rightarrow> event_metric_value list" where
  "get_event_metrics event_id s = filter (\<lambda>m. mv_event_id m = event_id) (st_event_metrics s)"

text \<open>The conservative merge keeps everything but the texts and the metadata.\<close>

definition merge_event :: "chain_event \<Rightarrow> chain_event \<Rightarrow> chain_event" where
  "merge_event e existing =
     existing\<lparr>ev_title := ev_title e, ev_description := ev_description e, ev_metadata := ev_metadata e\<rparr>"

text \<open>A push on a bounded deque: the front goes first when the deque is full.\<close>

definition push_bounded :: "usize \<Rightarrow> 'a \<Rightarrow> 'a list \<Rightarrow> 'a list" where
  "push_bounded cap x xs = (if cap \<le> length xs then drop 1 xs else xs) @ [x]"

definition save_event ::
  "(nat \<Rightarrow> uuid) \<Rightarrow> datetime \<Rightarrow> chain_event \<Rightarrow> in_memory_storage \<Rightarrow> in_memory_storage" where
  "save_event v4 now e s =
     (case position (\<lambda>x. ev_id x = ev_id e) (st_events s) of
        Some pos \<Rightarrow> s\<lparr>st_events := (st_events s)[pos := merge_event e (st_events s ! pos)]\<rparr>
      | None \<Rightarrow>
          let obs = (if st_max_events s \<le> length (st_events s) then
                       case st_events s of
                         p # _ \<Rightarrow> filter (\<lambda>o'. eo_event_id o' \<noteq> ev_id p) (st_event_observations s)
                       | [] \<Rightarrow> st_event_observations s
                     else st_event_observations s);
              s1 = s\<lparr>st_event_observations := obs,
                     st_events := push_bounded (st_max_events s) e (st_events s)\<rparr>;
              extracted = extract_event_metrics v4 now e None
          in if extracted \<noteq> [] then save_event_metrics extracted s1 else s1)"

definition list_events :: "usize \<Rightarrow> usize \<Rightarrow> in_memory_storage \<Rightarrow> chain_event list" where
  "list_events limit offset s = page limit offset (rev (st_events s))"

definition get_event_by_id :: "uuid \<Rightarrow> in_memory_storage \<Rightarrow> chain_event option" where
  "get_event_by_id i s =
     map_option (\<lambda>e. e\<lparr>ev_observations := filter (\<lambda>o'. eo_event_id o' = i) (st_event_observations s)\<rparr>)
       (find (\<lambda>e. ev_id e = i) (st_events s))"

definition event_matches :: "event_observation list \<Rightarrow> event_filter \<Rightarrow> chain_event \<Rightarrow> bool" where
  "event_matches obs f e \<longleftrightarrow>
     (case ef_from_height f of None \<Rightarrow> True
      | Some h0 \<Rightarrow> (case ev_block_height e of Some h \<Rightarrow> \<not> h < h0 | None \<Rightarrow> False))
     \<and> (case ef_to_height f of None \<Rightarrow> True
        | Some h1 \<Rightarrow> (case ev_block_height e of Some h \<Rightarrow> \<not> h > h1 | None \<Rightarrow> False))
     \<and> (case ef_from_time f of None \<Rightarrow> True | Some t \<Rightarrow> \<not> ev_detected_at e < t)
     \<and> (case ef_to_time f of None \<Rightarrow> True | Some t \<Rightarrow> \<not> ev_detected_at e > t)
     \<and> (case ef_event_type f of None \<Rightarrow> True | Some ty \<Rightarrow> ev_type e = ty)
     \<and> (case ef_severity f of None \<Rightarrow> True | Some sv \<Rightarrow> ev_severity e = sv)
     \<and> (case ef_observation_mode f of None \<Rightarrow> True
        | Some mode \<Rightarrow> list_ex (\<lambda>o'. eo_event_id o' = ev_id e \<and> eo_mode o' = mode) obs
            \<or> ev_observation_mode e = mode)
     \<and> (case ef_replay_job_id f of None \<Rightarrow> True
        | Some j \<Rightarrow> list_ex (\<lambda>o'. eo_event_id o' = ev_id e \<and> eo_replay_job_id o' = Some j) obs
            \<or> ev_replay_job_id e = Some j)
     \<and> (case ef_txid f of None \<Rightarrow> True | Some t \<Rightarrow> ev_txid e = Some t)
     \<and> (case ef_block_hash f of None \<Rightarrow> True | Some b \<Rightarrow> ev_block_hash e = Some b)"

definition query_events :: "event_filter \<Rightarrow> in_memory_storage \<Rightarrow> chain_event list" where
  "query_events f s =
     (let limit = min (max (case ef_limit f of Some l \<Rightarrow> l | None \<Rightarrow> 100) 1) 1000;
          offset = (case ef_offset f of Some k \<Rightarrow> k | None \<Rightarrow> 0)
      in page limit offset (filter (event_matches (st_event_observations s) f) (rev (st_events s))))"

definition same_observation :: "event_observation \<Rightarrow> event_observation \<Rightarrow> bool" where
  "same_observation n x \<longleftrightarrow>
     eo_id x = eo_id n
     \<or> (eo_mode n = HistoricalReplay \<and> eo_event_id x = eo_event_id n
        \<and> eo_replay_job_id x = eo_replay_job_id n \<and> eo_replay_job_id n \<noteq> None)
     \<or> (eo_mode n = Live \<and> eo_event_id x = eo_event_id n \<and> eo_mode x = Live
        \<and> provider (eo_source x) = provider (eo_source n)
        \<and> transport (eo_source x) = transport (eo_source n)
        \<and> eo_kind x = eo_kind n \<and> eo_block_hash x = eo_block_hash n
        \<and> eo_source_sequence x = eo_source_sequence n
        \<and> eo_mempool_sequence x = eo_mempool_sequence n
        \<and> eo_confirmation_status x = eo_confirmation_status n)"

definition save_event_observation :: "event_observation \<Rightarrow> in_memory_storage \<Rightarrow> in_memory_storage" where
  "save_event_observation n s =
     s\<lparr>st_event_observations := upsert (same_observation n) n (st_event_observations s)\<rparr>"

definition list_event_observations :: "uuid \<Rightarrow> in_memory_storage \<Rightarrow> event_observation list" where
  "list_event_observations i s = filter (\<lambda>o'. eo_event_id o' = i) (st_event_observations s)"

definition count_event_observations :: "uuid option \<Rightarrow> in_memory_storage \<Rightarrow> usize" where
  "count_event_observations i s =
     (case i of Some k \<Rightarrow> length (filter (\<lambda>o'. eo_event_id o' = k) (st_event_observations s))
      | None \<Rightarrow> length (st_event_observations s))"

section \<open>Dossiers, targets, activities and alerts\<close>

definition save_incident :: "incident \<Rightarrow> in_memory_storage \<Rightarrow> in_memory_storage" where
  "save_incident i s = s\<lparr>st_incidents := upsert (\<lambda>x. ic_id x = ic_id i) i (st_incidents s)\<rparr>"

definition list_incidents :: "usize \<Rightarrow> usize \<Rightarrow> in_memory_storage \<Rightarrow> incident list" where
  "list_incidents limit offset s = page limit offset (rev (st_incidents s))"

definition get_incident_by_id :: "uuid \<Rightarrow> in_memory_storage \<Rightarrow> incident option" where
  "get_incident_by_id i s = find (\<lambda>x. ic_id x = i) (st_incidents s)"

text \<open>The argument \<open>parse\<close> stands for \<open>Uuid::parse_str\<close>.\<close>

definition get_incident_by_id_or_case_id ::
  "(string \<Rightarrow> uuid option) \<Rightarrow> string \<Rightarrow> in_memory_storage \<Rightarrow> incident option" where
  "get_incident_by_id_or_case_id parse ident s =
     (case Option.bind (parse ident) (\<lambda>u. find (\<lambda>x. ic_id x = u) (st_incidents s)) of
        Some i \<Rightarrow> Some i
      | None \<Rightarrow> find (\<lambda>x. to_lowercase (ic_case_id x) = to_lowercase ident) (st_incidents s))"

definition save_watch_target :: "watch_target \<Rightarrow> in_memory_storage \<Rightarrow> in_memory_storage" where
  "save_watch_target t s = s\<lparr>st_watch_targets := upsert (\<lambda>x. wt_id x = wt_id t) t (st_watch_targets s)\<rparr>"

definition list_watch_targets ::
  "uuid option \<Rightarrow> usize \<Rightarrow> usize \<Rightarrow> in_memory_storage \<Rightarrow> watch_target list" where
  "list_watch_targets incident_id limit offset s =
     page limit offset (filter (\<lambda>t. case incident_id of Some i \<Rightarrow> wt_incident_id t = i | None \<Rightarrow> True)
       (st_watch_targets s))"

definition get_watch_target_by_id :: "uuid \<Rightarrow> in_memory_storage \<Rightarrow> watch_target option" where
  "get_watch_target_by_id i s = find (\<lambda>x. wt_id x = i) (st_watch_targets s)"

definition save_activity :: "incident_activity \<Rightarrow> in_memory_storage \<Rightarrow> in_memory_storage" where
  "save_activity a s =
     (case position (\<lambda>x. ac_dedup_key x = ac_dedup_key a) (st_activities s) of
        Some pos \<Rightarrow> s\<lparr>st_activities := (st_activities s)[pos := a]\<rparr>
      | None \<Rightarrow> s\<lparr>st_activities := push_bounded (st_max_activities s) a (st_activities s)\<rparr>)"

definition list_activities ::
  "uuid option \<Rightarrow> activity_status option \<Rightarrow> usize \<Rightarrow> usize \<Rightarrow> in_memory_storage \<Rightarrow> incident_activity list" where
  "list_activities incident_id status limit offset s =
     page limit offset (filter (\<lambda>a.
         (case incident_id of Some i \<Rightarrow> ac_incident_id a = i | None \<Rightarrow> True)
         \<and> (case status of Some st \<Rightarrow> ac_status a = st | None \<Rightarrow> True)) (rev (st_activities s)))"

definition get_activity_by_id :: "uuid \<Rightarrow> in_memory_storage \<Rightarrow> incident_activity option" where
  "get_activity_by_id i s = find (\<lambda>a. ac_id a = i) (st_activities s)"

definition get_activity_by_dedup_key :: "string \<Rightarrow> in_memory_storage \<Rightarrow> incident_activity option" where
  "get_activity_by_dedup_key k s = find (\<lambda>a. ac_dedup_key a = k) (st_activities s)"

definition save_alert :: "incident_alert \<Rightarrow> in_memory_storage \<Rightarrow> in_memory_storage" where
  "save_alert a s =
     (if list_ex (\<lambda>x. al_id x = al_id a) (st_alerts s) then s
      else s\<lparr>st_alerts := push_bounded (st_max_activities s) a (st_alerts s)\<rparr>)"

definition list_alerts :: "uuid option \<Rightarrow> usize \<Rightarrow> usize \<Rightarrow> in_memory_storage \<Rightarrow> incident_alert list" where
  "list_alerts incident_id limit offset s =
     page limit offset (filter (\<lambda>a. case incident_id of Some i \<Rightarrow> al_incident_id a = i | None \<Rightarrow> True)
       (rev (st_alerts s)))"

definition get_alert_by_id :: "uuid \<Rightarrow> in_memory_storage \<Rightarrow> incident_alert option" where
  "get_alert_by_id i s = find (\<lambda>a. al_id a = i) (st_alerts s)"

section \<open>Replay jobs\<close>

definition create_job :: "replay_job \<Rightarrow> in_memory_storage \<Rightarrow> in_memory_storage" where
  "create_job j s = s\<lparr>st_replay_jobs := upsert (\<lambda>x. rj_id x = rj_id j) j (st_replay_jobs s)\<rparr>"

definition get_job :: "uuid \<Rightarrow> in_memory_storage \<Rightarrow> replay_job option" where
  "get_job i s = find (\<lambda>x. rj_id x = i) (st_replay_jobs s)"

definition update_job :: "replay_job \<Rightarrow> in_memory_storage \<Rightarrow> storage_error + in_memory_storage" where
  "update_job j s =
     (case position (\<lambda>x. rj_id x = rj_id j) (st_replay_jobs s) of
        Some pos \<Rightarrow> Inr (s\<lparr>st_replay_jobs := (st_replay_jobs s)[pos := j]\<rparr>)
      | None \<Rightarrow> Inl (NotFound (''ReplayJob '' @ uuid_str (rj_id j) @ '' not found'')))"

definition list_jobs :: "usize \<Rightarrow> usize \<Rightarrow> in_memory_storage \<Rightarrow> replay_job list" where
  "list_jobs limit offset s =
     page limit offset (sort_key (\<lambda>j. - rj_created_at j) (st_replay_jobs s))"

definition save_checkpoint :: "replay_checkpoint \<Rightarrow> in_memory_storage \<Rightarrow> in_memory_storage" where
  "save_checkpoint c s = s\<lparr>st_replay_checkpoints := st_replay_checkpoints s @ [c]\<rparr>"

text \<open>\<open>max_by_key\<close>: the last of the greatest.\<close>

definition last_max_by :: "('a \<Rightarrow> 'k::linorder) \<Rightarrow> 'a list \<Rightarrow> 'a option" where
  "last_max_by key xs =
     foldl (\<lambda>acc x. case acc of Some y \<Rightarrow> if key x < key y then Some y else Some x | None \<Rightarrow> Some x) None xs"

definition get_latest_checkpoint :: "uuid \<Rightarrow> in_memory_storage \<Rightarrow> replay_checkpoint option" where
  "get_latest_checkpoint job s =
     last_max_by cp_completed_height (filter (\<lambda>c. cp_job_id c = job) (st_replay_checkpoints s))"

section \<open>Baselines\<close>

definition create_baseline_run :: "baseline_run \<Rightarrow> in_memory_storage \<Rightarrow> in_memory_storage" where
  "create_baseline_run r s = s\<lparr>st_baseline_runs := upsert (\<lambda>x. br_id x = br_id r) r (st_baseline_runs s)\<rparr>"

definition update_baseline_run_status ::
  "uuid \<Rightarrow> baseline_run_status \<Rightarrow> datetime option \<Rightarrow> u64 \<Rightarrow> string option \<Rightarrow> in_memory_storage
     \<Rightarrow> storage_error + in_memory_storage" where
  "update_baseline_run_status i status completed n_events err s =
     (case position (\<lambda>r. br_id r = i) (st_baseline_runs s) of
        Some pos \<Rightarrow>
          Inr (s\<lparr>st_baseline_runs := (st_baseline_runs s)[pos :=
            (st_baseline_runs s ! pos)\<lparr>br_status := status, br_completed_at := completed,
              br_canonical_event_count := n_events, br_error_message := err\<rparr>]\<rparr>)
      | None \<Rightarrow> Inl (NotFound (''BaselineRun '' @ uuid_str i @ '' not found'')))"

definition get_baseline_run :: "uuid \<Rightarrow> in_memory_storage \<Rightarrow> baseline_run option" where
  "get_baseline_run i s = find (\<lambda>r. br_id r = i) (st_baseline_runs s)"

definition list_baseline_runs ::
  "string option \<Rightarrow> usize \<Rightarrow> usize \<Rightarrow> in_memory_storage \<Rightarrow> baseline_run list" where
  "list_baseline_runs network limit offset s =
     page limit offset (sort_key (\<lambda>r. - br_created_at r)
       (filter (\<lambda>r. case network of Some n \<Rightarrow> br_network r = n | None \<Rightarrow> True) (st_baseline_runs s)))"

definition compatible_run :: "string \<Rightarrow> u64 option \<Rightarrow> string option \<Rightarrow> baseline_run \<Rightarrow> bool" where
  "compatible_run network height version r \<longleftrightarrow>
     br_network r = network \<and> br_status r = BCompleted
     \<and> (case height of Some h \<Rightarrow> br_start_height r \<le> h | None \<Rightarrow> True)
     \<and> (case version of Some v \<Rightarrow> br_algorithm_version r = v | None \<Rightarrow> True)"

text \<open>Highest end first, then the most recently completed; an absent time is the least.\<close>

definition run_order :: "baseline_run \<Rightarrow> int \<times> int \<times> int" where
  "run_order r =
     (- int (unat (br_end_height r)),
      (case br_completed_at r of Some t \<Rightarrow> (0, - t) | None \<Rightarrow> (1, 0)))"

definition get_latest_compatible_baseline_run ::
  "string \<Rightarrow> u64 option \<Rightarrow> string option \<Rightarrow> in_memory_storage \<Rightarrow> baseline_run option" where
  "get_latest_compatible_baseline_run network height version s =
     (case sort_key run_order (filter (compatible_run network height version) (st_baseline_runs s)) of
        r # _ \<Rightarrow> Some r | [] \<Rightarrow> None)"

definition same_distribution :: "baseline_distribution \<Rightarrow> baseline_distribution \<Rightarrow> bool" where
  "same_distribution d x \<longleftrightarrow> bd_baseline_run_id x = bd_baseline_run_id d
     \<and> bd_event_type x = bd_event_type d \<and> bd_metric x = bd_metric d"

definition save_baseline_distributions ::
  "baseline_distribution list \<Rightarrow> in_memory_storage \<Rightarrow> in_memory_storage" where
  "save_baseline_distributions ds s =
     s\<lparr>st_baseline_distributions :=
         fold (\<lambda>d. upsert (same_distribution d) d) ds (st_baseline_distributions s)\<rparr>"

definition get_baseline_distributions :: "uuid \<Rightarrow> in_memory_storage \<Rightarrow> baseline_distribution list" where
  "get_baseline_distributions run s =
     filter (\<lambda>d. bd_baseline_run_id d = run) (st_baseline_distributions s)"

definition query_distributions ::
  "event_type option \<Rightarrow> baseline_metric option \<Rightarrow> usize \<Rightarrow> in_memory_storage \<Rightarrow> baseline_distribution list" where
  "query_distributions ty metric limit s =
     take limit (filter (\<lambda>d. (case ty of Some t \<Rightarrow> bd_event_type d = t | None \<Rightarrow> True)
       \<and> (case metric of Some m \<Rightarrow> bd_metric d = m | None \<Rightarrow> True)) (st_baseline_distributions s))"

definition same_rarity :: "event_rarity_result \<Rightarrow> event_rarity_result \<times> 'b \<Rightarrow> bool" where
  "same_rarity r x \<longleftrightarrow> er_event_id (fst x) = er_event_id r
     \<and> er_baseline_run_id (fst x) = er_baseline_run_id r \<and> er_metric (fst x) = er_metric r"

definition save_event_rarity ::
  "event_rarity_result \<Rightarrow> impact_breakdown option \<Rightarrow> in_memory_storage \<Rightarrow> in_memory_storage" where
  "save_event_rarity r impact s =
     s\<lparr>st_event_rarity := upsert (same_rarity r) (r, impact) (st_event_rarity s)\<rparr>"

definition get_event_rarity :: "uuid \<Rightarrow> uuid option \<Rightarrow> in_memory_storage \<Rightarrow> event_rarity_result list" where
  "get_event_rarity event_id run s =
     filter (\<lambda>r. er_event_id r = event_id
         \<and> (case run of Some b \<Rightarrow> er_baseline_run_id r = b | None \<Rightarrow> True))
       (map fst (st_event_rarity s))"

definition query_events_for_baseline ::
  "event_type option \<Rightarrow> u64 \<Rightarrow> u64 \<Rightarrow> in_memory_storage \<Rightarrow> chain_event list" where
  "query_events_for_baseline ty start_height end_height s =
     filter (\<lambda>e. case ev_block_height e of
         Some h \<Rightarrow> start_height \<le> h \<and> h \<le> end_height
           \<and> (case ty of Some t \<Rightarrow> ev_type e = t | None \<Rightarrow> True)
       | None \<Rightarrow> False) (st_events s)"

definition rank_population ::
  "string \<Rightarrow> event_type \<Rightarrow> baseline_metric \<Rightarrow> string \<Rightarrow> u64 \<Rightarrow> u64 \<Rightarrow> in_memory_storage
     \<Rightarrow> event_metric_value list" where
  "rank_population network ty metric version start_height end_height s =
     filter (\<lambda>m. mv_network m = network \<and> mv_event_type m = ty \<and> mv_metric m = metric
         \<and> mv_definition_version m = version \<and> start_height \<le> mv_block_height m
         \<and> mv_block_height m \<le> end_height) (st_event_metrics s)"

definition rank_within ::
  "event_metric_value list \<Rightarrow> metric_value \<Rightarrow> rarity_direction \<Rightarrow> f64 \<times> u64 \<times> u64" where
  "rank_within ms x direction =
     (let n = length ms;
          le = length (filter (\<lambda>m. mv_value m \<le> x) ms);
          ge = length (filter (\<lambda>m. x \<le> mv_value m) ms)
      in case direction of
           LowerIsRarer \<Rightarrow>
             (f64_mul (f64_div (f64_of_nat ge) (f64_of_nat n)) (f64_lit 100), of_nat le, of_nat n)
         | _ \<Rightarrow>
             (f64_mul (f64_div (f64_of_nat le) (f64_of_nat n)) (f64_lit 100), of_nat ge, of_nat n))"

text \<open>
  Without stored metrics the events in range are extracted first; that changes the state. The
  supply gives each extracted event its own identifiers.
\<close>

definition get_exact_empirical_rank ::
  "(nat \<Rightarrow> nat \<Rightarrow> uuid) \<Rightarrow> datetime \<Rightarrow> string \<Rightarrow> event_type \<Rightarrow> baseline_metric \<Rightarrow> string \<Rightarrow> u64 \<Rightarrow> u64
     \<Rightarrow> metric_value \<Rightarrow> rarity_direction \<Rightarrow> in_memory_storage
     \<Rightarrow> (f64 \<times> u64 \<times> u64) option \<times> in_memory_storage" where
  "get_exact_empirical_rank v4 now network ty metric version start_height end_height x direction s =
     (let population = rank_population network ty metric version start_height end_height;
          matching = population s
      in if matching = [] then
           let events = filter (\<lambda>e. ev_type e = ty \<and> (case ev_block_height e of
                  Some h \<Rightarrow> start_height \<le> h \<and> h \<le> end_height | None \<Rightarrow> False)) (st_events s);
               s' = fold (\<lambda>(i, e). save_event_metrics (extract_event_metrics (v4 i) now e None))
                      (enumerate 0 events) s;
               matching2 = population s'
           in if matching2 = [] then (None, s') else (Some (rank_within matching2 x direction), s')
         else (Some (rank_within matching x direction), s))"

section \<open>Operations as a whole\<close>

text \<open>
  Every call that can change the storage, with the values the runtime supplies to it. A refused
  update leaves the storage as it is.
\<close>

datatype storage_op =
    SaveEvent "nat \<Rightarrow> uuid" datetime chain_event
  | SaveObservation event_observation
  | SaveIncident incident
  | SaveTarget watch_target
  | SaveActivity incident_activity
  | SaveAlert incident_alert
  | CreateJob replay_job
  | UpdateJob replay_job
  | SaveCheckpoint replay_checkpoint
  | CreateRun baseline_run
  | UpdateRun uuid baseline_run_status "datetime option" u64 "string option"
  | SaveDistributions "baseline_distribution list"
  | SaveRarity event_rarity_result "impact_breakdown option"
  | SaveMetrics "event_metric_value list"
  | ExactRank "nat \<Rightarrow> nat \<Rightarrow> uuid" datetime string event_type baseline_metric string u64 u64
      metric_value rarity_direction
  | ClearEvents
  | ClearActivities
  | ClearAlerts

definition or_unchanged :: "'s \<Rightarrow> 'e + 's \<Rightarrow> 's" where
  "or_unchanged s r = (case r of Inr s' \<Rightarrow> s' | Inl _ \<Rightarrow> s)"

fun run_op :: "storage_op \<Rightarrow> in_memory_storage \<Rightarrow> in_memory_storage" where
  "run_op (SaveEvent v4 now e) s = save_event v4 now e s"
| "run_op (SaveObservation n) s = save_event_observation n s"
| "run_op (SaveIncident i) s = save_incident i s"
| "run_op (SaveTarget t) s = save_watch_target t s"
| "run_op (SaveActivity a) s = save_activity a s"
| "run_op (SaveAlert a) s = save_alert a s"
| "run_op (CreateJob j) s = create_job j s"
| "run_op (UpdateJob j) s = or_unchanged s (update_job j s)"
| "run_op (SaveCheckpoint c) s = save_checkpoint c s"
| "run_op (CreateRun r) s = create_baseline_run r s"
| "run_op (UpdateRun i st t n err) s = or_unchanged s (update_baseline_run_status i st t n err s)"
| "run_op (SaveDistributions ds) s = save_baseline_distributions ds s"
| "run_op (SaveRarity r i) s = save_event_rarity r i s"
| "run_op (SaveMetrics ms) s = save_event_metrics ms s"
| "run_op (ExactRank v4 now net ty m ver a b x d) s =
     snd (get_exact_empirical_rank v4 now net ty m ver a b x d s)"
| "run_op ClearEvents s = clear_events s"
| "run_op ClearActivities s = clear_activities s"
| "run_op ClearAlerts s = clear_alerts s"

text \<open>What the operations leave alone.\<close>

named_theorems storage_frame \<open>which fields an operation leaves alone\<close>

lemma save_event_metrics_frame [storage_frame]:
  "st_events (save_event_metrics ms s) = st_events s"
  "st_event_observations (save_event_metrics ms s) = st_event_observations s"
  "st_activities (save_event_metrics ms s) = st_activities s"
  "st_alerts (save_event_metrics ms s) = st_alerts s"
  "st_replay_jobs (save_event_metrics ms s) = st_replay_jobs s"
  "st_max_events (save_event_metrics ms s) = st_max_events s"
  "st_max_activities (save_event_metrics ms s) = st_max_activities s"
  by (simp_all add: save_event_metrics_def)

text \<open>What \<open>save_event\<close> does to the deque alone.\<close>

definition log_event :: "usize \<Rightarrow> chain_event \<Rightarrow> chain_event list \<Rightarrow> chain_event list" where
  "log_event cap e es =
     (case position (\<lambda>x. ev_id x = ev_id e) es of
        Some pos \<Rightarrow> es[pos := merge_event e (es ! pos)]
      | None \<Rightarrow> push_bounded cap e es)"

lemma save_event_frame [storage_frame]:
  "st_events (save_event v4 now e s) = log_event (st_max_events s) e (st_events s)"
  "st_activities (save_event v4 now e s) = st_activities s"
  "st_alerts (save_event v4 now e s) = st_alerts s"
  "st_replay_jobs (save_event v4 now e s) = st_replay_jobs s"
  "st_max_events (save_event v4 now e s) = st_max_events s"
  "st_max_activities (save_event v4 now e s) = st_max_activities s"
  by (simp_all add: save_event_def log_event_def Let_def storage_frame split: option.split)

lemma extraction_frame:
  assumes "\<And>ms s. g (save_event_metrics ms s) = g s"
  shows "g (fold (\<lambda>(i, e). save_event_metrics (f i e)) xs s) = g s"
  by (induction xs arbitrary: s) (auto simp: assms split: prod.splits)

lemma exact_rank_frame [storage_frame]:
  assumes "\<And>ms s. g (save_event_metrics ms s) = g s"
  shows "g (snd (get_exact_empirical_rank v4 now net ty m ver a b x d s)) = g s"
  by (simp add: get_exact_empirical_rank_def Let_def extraction_frame [OF assms])

lemmas storage_op_defs =
  save_event_observation_def save_incident_def save_watch_target_def create_job_def update_job_def
  save_checkpoint_def create_baseline_run_def update_baseline_run_status_def
  save_baseline_distributions_def save_event_rarity_def clear_events_def clear_activities_def
  clear_alerts_def or_unchanged_def

lemma run_op_events:
  "st_events (run_op a s) =
     (case a of SaveEvent v4 now e \<Rightarrow> log_event (st_max_events s) e (st_events s)
      | ClearEvents \<Rightarrow> [] | _ \<Rightarrow> st_events s)"
  by (cases a)
    (auto simp: storage_op_defs save_activity_def save_alert_def storage_frame split: option.split)

lemma run_op_limits [simp]:
  "st_max_events (run_op a s) = st_max_events s"
  "st_max_activities (run_op a s) = st_max_activities s"
  by (cases a;
      simp add: storage_op_defs save_activity_def save_alert_def storage_frame split: option.split)+

definition log_activity :: "usize \<Rightarrow> incident_activity \<Rightarrow> incident_activity list \<Rightarrow> incident_activity list" where
  "log_activity cap a as =
     (case position (\<lambda>x. ac_dedup_key x = ac_dedup_key a) as of
        Some pos \<Rightarrow> as[pos := a] | None \<Rightarrow> push_bounded cap a as)"

definition log_alert :: "usize \<Rightarrow> incident_alert \<Rightarrow> incident_alert list \<Rightarrow> incident_alert list" where
  "log_alert cap a as = (if list_ex (\<lambda>x. al_id x = al_id a) as then as else push_bounded cap a as)"

lemma run_op_activities:
  "st_activities (run_op a s) =
     (case a of SaveActivity c \<Rightarrow> log_activity (st_max_activities s) c (st_activities s)
      | ClearActivities \<Rightarrow> [] | _ \<Rightarrow> st_activities s)"
  by (cases a) (auto simp: storage_op_defs save_activity_def save_alert_def log_activity_def storage_frame
      split: option.split)

lemma run_op_alerts:
  "st_alerts (run_op a s) =
     (case a of SaveAlert c \<Rightarrow> log_alert (st_max_activities s) c (st_alerts s)
      | ClearAlerts \<Rightarrow> [] | _ \<Rightarrow> st_alerts s)"
  by (cases a) (auto simp: storage_op_defs save_activity_def save_alert_def log_alert_def storage_frame
      split: option.split)

section \<open>Bounded retention\<close>

lemma length_push_bounded: "length (push_bounded cap x xs) \<le> max (max 1 cap) (length xs)"
  by (cases xs) (auto simp: push_bounded_def)

lemma distinct_push_bounded:
  assumes "distinct (map f xs)" "\<forall>y \<in> set xs. f y \<noteq> f x"
  shows "distinct (map f (push_bounded cap x xs))"
  using assms by (cases xs) (auto simp: push_bounded_def)

lemma length_log_event: "length (log_event cap e es) \<le> max (max 1 cap) (length es)"
  by (auto simp: log_event_def length_push_bounded simp del: One_nat_def split: option.split)

lemma length_log_activity: "length (log_activity cap a as) \<le> max (max 1 cap) (length as)"
  by (auto simp: log_activity_def length_push_bounded simp del: One_nat_def split: option.split)

lemma length_log_alert: "length (log_alert cap a as) \<le> max (max 1 cap) (length as)"
  by (simp add: log_alert_def length_push_bounded del: One_nat_def)

text \<open>
  The three deques are bounded stores: the contract of the caches, with a limit that allows for
  what the store was seeded with.
\<close>

definition retained :: "nat \<Rightarrow> ('s \<Rightarrow> 'a list) \<Rightarrow> ('s \<Rightarrow> usize) \<Rightarrow> 's \<Rightarrow> bool" where
  "retained seeded xs cap s \<longleftrightarrow> length (xs s) \<le> max (max 1 (cap s)) seeded"

interpretation event_log: bounded_store run_op "retained n st_events st_max_events"
    "\<lambda>s. length (st_events s)" "\<lambda>s. max (max 1 (st_max_events s)) n" for n
  by unfold_locales
    (auto simp: retained_def run_op_events split: storage_op.split
      intro: order_trans [OF length_log_event])

interpretation activity_log: bounded_store run_op "retained n st_activities st_max_activities"
    "\<lambda>s. length (st_activities s)" "\<lambda>s. max (max 1 (st_max_activities s)) n" for n
  by unfold_locales
    (auto simp: retained_def run_op_activities split: storage_op.split
      intro: order_trans [OF length_log_activity])

interpretation alert_log: bounded_store run_op "retained n st_alerts st_max_activities"
    "\<lambda>s. length (st_alerts s)" "\<lambda>s. max (max 1 (st_max_activities s)) n" for n
  by unfold_locales
    (auto simp: retained_def run_op_alerts split: storage_op.split
      intro: order_trans [OF length_log_alert])

text \<open>
  Whatever calls reach the storage, the event, activity and alert deques never grow past their
  configured limits (a limit of zero acts as one), nor past what was seeded before the first call.
\<close>

theorem retention_is_bounded:
  "length (st_events (fold run_op ops s)) \<le> max (max 1 (st_max_events s)) (length (st_events s))
   \<and> length (st_activities (fold run_op ops s))
       \<le> max (max 1 (st_max_activities s)) (length (st_activities s))
   \<and> length (st_alerts (fold run_op ops s)) \<le> max (max 1 (st_max_activities s)) (length (st_alerts s))"
  using event_log.size_fold activity_log.size_fold alert_log.size_fold by (simp add: retained_def)

section \<open>Keyed stores\<close>

text \<open>
  The contract of the tables that replace by identifier: a lookup returns what was saved last under
  the key, and saves under other keys do not matter.
\<close>

locale keyed_store =
  fixes save :: "'a \<Rightarrow> 's \<Rightarrow> 's" and get :: "'k \<Rightarrow> 's \<Rightarrow> 'a option" and key :: "'a \<Rightarrow> 'k"
  assumes get_save: "get k (save x s) = (if k = key x then Some x else get k s)"
begin

lemma get_fold:
  "get k (fold save xs s) =
     (case find (\<lambda>x. key x = k) (rev xs) of Some x \<Rightarrow> Some x | None \<Rightarrow> get k s)"
proof (induction xs rule: rev_induct)
  case Nil
  then show ?case by simp
next
  case (snoc x xs)
  then show ?case by (simp add: get_save)
qed

lemma saves_commute: "key x \<noteq> key y \<Longrightarrow> get k (save x (save y s)) = get k (save y (save x s))"
  by (simp add: get_save)

lemma save_overwrites: "key x = key y \<Longrightarrow> get k (save x (save y s)) = get k (save x s)"
  by (simp add: get_save)

end

interpretation incidents: keyed_store save_incident get_incident_by_id ic_id
  by unfold_locales (simp add: save_incident_def get_incident_by_id_def find_upsert)

interpretation targets: keyed_store save_watch_target get_watch_target_by_id wt_id
  by unfold_locales (simp add: save_watch_target_def get_watch_target_by_id_def find_upsert)

interpretation jobs: keyed_store create_job get_job rj_id
  by unfold_locales (simp add: create_job_def get_job_def find_upsert)

interpretation runs: keyed_store create_baseline_run get_baseline_run br_id
  by unfold_locales (simp add: create_baseline_run_def get_baseline_run_def find_upsert)

text \<open>
  The dossiers, watch targets, replay jobs and baseline runs are maps: after any sequence of
  saves a lookup by identifier returns the last one saved under it, and what was there before when
  none was.
\<close>

theorem lookups_return_last_saved:
  "get_incident_by_id i (fold save_incident is s) =
     (case find (\<lambda>x. ic_id x = i) (rev is) of Some x \<Rightarrow> Some x | None \<Rightarrow> get_incident_by_id i s)
   \<and> get_watch_target_by_id i (fold save_watch_target ts s) =
     (case find (\<lambda>x. wt_id x = i) (rev ts) of Some x \<Rightarrow> Some x | None \<Rightarrow> get_watch_target_by_id i s)
   \<and> get_job i (fold create_job js s) =
     (case find (\<lambda>x. rj_id x = i) (rev js) of Some x \<Rightarrow> Some x | None \<Rightarrow> get_job i s)
   \<and> get_baseline_run i (fold create_baseline_run rs s) =
     (case find (\<lambda>x. br_id x = i) (rev rs) of Some x \<Rightarrow> Some x | None \<Rightarrow> get_baseline_run i s)"
  by (intro conjI incidents.get_fold targets.get_fold jobs.get_fold runs.get_fold)

lemma position_update_same:
  "position P xs = Some i \<Longrightarrow> upsert P x xs = xs[i := x]"
  by (simp add: upsert_def)

lemma position_iff_find: "(\<exists>i. position P xs = Some i) \<longleftrightarrow> find P xs \<noteq> None"
  by (induction xs) auto

text \<open>
  Updating a job is creating it again, except that an unknown job is refused and nothing changes.
\<close>

lemma update_job_spec:
  "update_job j s =
     (if get_job (rj_id j) s = None
      then Inl (NotFound (''ReplayJob '' @ uuid_str (rj_id j) @ '' not found''))
      else Inr (create_job j s))"
  using position_iff_find [of "\<lambda>x. rj_id x = rj_id j" "st_replay_jobs s"]
  by (auto simp: update_job_def get_job_def create_job_def position_update_same split: option.split)

section \<open>The event log refines a first-in first-out map\<close>

text \<open>
  The specification keeps a map from identifiers to events and the order of first insertion. Saving
  under a known identifier merges in place; saving a new one evicts the oldest when full.
\<close>

type_synonym event_map = "uuid list \<times> (uuid \<Rightarrow> chain_event option)"

definition spec_evict :: "usize \<Rightarrow> event_map \<Rightarrow> event_map" where
  "spec_evict cap m =
     (if cap \<le> length (fst m) then
        case fst m of [] \<Rightarrow> m | k # ks \<Rightarrow> (ks, (snd m)(k := None))
      else m)"

definition spec_save :: "usize \<Rightarrow> chain_event \<Rightarrow> event_map \<Rightarrow> event_map" where
  "spec_save cap e m =
     (case snd m (ev_id e) of
        Some old \<Rightarrow> (fst m, (snd m)(ev_id e \<mapsto> merge_event e old))
      | None \<Rightarrow> case spec_evict cap m of (order, f) \<Rightarrow> (order @ [ev_id e], f(ev_id e \<mapsto> e)))"

definition abs_log :: "chain_event list \<Rightarrow> event_map" where
  "abs_log es = (map ev_id es, \<lambda>i. find (\<lambda>e. ev_id e = i) es)"

lemma find_append: "find P (xs @ ys) = (case find P xs of Some x \<Rightarrow> Some x | None \<Rightarrow> find P ys)"
  by (induction xs) auto

lemma find_position:
  "find P xs = map_option (\<lambda>i. xs ! i) (position P xs)"
  by (induction xs) (auto simp: option.map_comp o_def)

lemma merge_event_id [simp]: "ev_id (merge_event e old) = ev_id old"
  by (simp add: merge_event_def)

lemma find_merged:
  assumes "position (\<lambda>x. f x = k) es = Some pos" "f y = k"
  shows "find (\<lambda>x. f x = i) (es[pos := y]) = (if i = k then Some y else find (\<lambda>x. f x = i) es)"
  using find_upsert [of f i y es] assms by (simp add: upsert_def)

lemma find_evicted:
  assumes "distinct (map f (x # xs))"
  shows "find (\<lambda>y. f y = f x) xs = None"
  using assms by (auto simp: find_None_iff image_iff)

lemma find_snoc_new:
  "find (\<lambda>x. f x = i) (xs @ [y]) =
     (if i = f y then (case find (\<lambda>x. f x = i) xs of Some x \<Rightarrow> Some x | None \<Rightarrow> Some y)
      else find (\<lambda>x. f x = i) xs)"
  by (auto simp: find_append split: option.split)

lemma log_event_refines:
  assumes "distinct (map ev_id es)"
  shows "abs_log (log_event cap e es) = spec_save cap e (abs_log es)"
proof (cases "position (\<lambda>x. ev_id x = ev_id e) es")
  case (Some pos)
  then have pos: "pos < length es" "ev_id (es ! pos) = ev_id e" by (simp_all add: position_Some)
  then have "map ev_id (es[pos := merge_event e (es ! pos)]) = map ev_id es"
    by (simp add: map_update list_update_same_conv)
  then show ?thesis
    using Some pos find_merged [OF Some, of "merge_event e (es ! pos)"]
    by (auto simp: abs_log_def log_event_def spec_save_def find_position)
next
  case None
  then have new: "find (\<lambda>x. ev_id x = ev_id e) es = None" by (simp add: find_position)
  have *: "find (\<lambda>x. ev_id x = i) (push_bounded cap e es) =
      (if i = ev_id e then Some e
       else if cap \<le> length es \<and> es \<noteq> [] \<and> i = ev_id (hd es) then None
       else find (\<lambda>x. ev_id x = i) es)" for i
    using new assms find_evicted [of ev_id "hd es" "tl es"]
    by (cases es) (auto simp: push_bounded_def find_snoc_new split: if_splits)
  show ?thesis
  proof (cases es)
    case Nil
    then show ?thesis
      by (simp add: abs_log_def log_event_def spec_save_def spec_evict_def push_bounded_def fun_eq_iff)
  next
    case (Cons x xs)
    have ids: "map ev_id (push_bounded cap e es) = (if cap \<le> length es then map ev_id xs else map ev_id es) @ [ev_id e]"
      by (simp add: Cons push_bounded_def)
    show ?thesis
      using new None
      by (simp add: abs_log_def log_event_def spec_save_def spec_evict_def ids * fun_eq_iff)
        (auto simp: Cons fun_eq_iff split: if_splits)
  qed
qed

lemma distinct_log_event:
  assumes "distinct (map ev_id es)"
  shows "distinct (map ev_id (log_event cap e es))"
proof (cases "position (\<lambda>x. ev_id x = ev_id e) es")
  case (Some pos)
  then have "map ev_id (es[pos := merge_event e (es ! pos)]) = map ev_id es"
    by (simp add: map_update list_update_same_conv position_Some)
  with Some assms show ?thesis by (simp add: log_event_def)
next
  case None
  then show ?thesis
    using assms distinct_push_bounded [of ev_id es e cap] position_None [THEN iffD1, OF None]
    by (simp add: log_event_def)
qed

lemma distinct_events_op: "distinct (map ev_id (st_events s)) \<Longrightarrow> distinct (map ev_id (st_events (run_op a s)))"
  by (simp add: run_op_events distinct_log_event split: storage_op.split)

fun spec_op :: "usize \<Rightarrow> storage_op \<Rightarrow> event_map \<Rightarrow> event_map" where
  "spec_op cap (SaveEvent v4 now e) m = spec_save cap e m"
| "spec_op cap ClearEvents m = ([], \<lambda>_. None)"
| "spec_op cap _ m = m"

lemma run_op_refines:
  assumes "distinct (map ev_id (st_events s))"
  shows "abs_log (st_events (run_op a s)) = spec_op (st_max_events s) a (abs_log (st_events s))"
  using assms unfolding run_op_events
  by (cases a) (simp_all add: log_event_refines abs_log_def [of "[]"])

text \<open>
  C2. The stored events refine a first-in first-out map: over any sequence of storage calls the
  deque and its linear searches behave as a map from identifiers to events with an insertion order,
  where a known event is merged in place, a new one evicts the oldest when the log is full, and no
  other call touches the log; a lookup by identifier reads this map.
\<close>

theorem event_log_refines_fifo_map:
  assumes "distinct (map ev_id (st_events s))"
  shows "abs_log (st_events (fold run_op ops s)) =
      fold (spec_op (st_max_events s)) ops (abs_log (st_events s))
    \<and> get_event_by_id i (fold run_op ops s) =
      map_option (\<lambda>e. e\<lparr>ev_observations := list_event_observations i (fold run_op ops s)\<rparr>)
        (snd (fold (spec_op (st_max_events s)) ops (abs_log (st_events s))) i)"
proof -
  have "abs_log (st_events (fold run_op ops s)) =
      fold (spec_op (st_max_events s)) ops (abs_log (st_events s))"
    using assms
    by (induction ops arbitrary: s) (simp_all add: run_op_refines distinct_events_op)
  moreover have "get_event_by_id i t =
      map_option (\<lambda>e. e\<lparr>ev_observations := list_event_observations i t\<rparr>) (snd (abs_log (st_events t)) i)"
    for t by (simp add: get_event_by_id_def abs_log_def list_event_observations_def)
  ultimately show ?thesis by simp
qed

lemma distinct_events_fold:
  "distinct (map ev_id (st_events s)) \<Longrightarrow> distinct (map ev_id (st_events (fold run_op ops s)))"
  by (induction ops arbitrary: s) (simp_all add: distinct_events_op)

lemma find_Some_iff_mem: "find (\<lambda>x. f x = i) xs \<noteq> None \<longleftrightarrow> i \<in> f ` set xs"
  by (auto simp: find_None_iff)

text \<open>Equal up to the texts and the metadata.\<close>

definition same_provenance :: "chain_event \<Rightarrow> chain_event \<Rightarrow> bool" where
  "same_provenance e e' \<longleftrightarrow>
     e' = e\<lparr>ev_title := ev_title e', ev_description := ev_description e', ev_metadata := ev_metadata e'\<rparr>"

lemma same_provenance_refl [simp]: "same_provenance e e"
  by (simp add: same_provenance_def)

lemma same_provenance_merge [simp]: "same_provenance old (merge_event e old)"
  by (simp add: same_provenance_def merge_event_def)

lemma same_provenance_trans: "same_provenance a b \<Longrightarrow> same_provenance b c \<Longrightarrow> same_provenance a c"
  unfolding same_provenance_def by (cases a; cases b; cases c; simp)

lemma spec_op_keeps_event:
  assumes "snd m i = Some e" "snd (spec_op cap a m) i = Some e'"
  shows "same_provenance e e'"
proof (cases a)
  case (SaveEvent v4 now x)
  with assms show ?thesis
    by (auto simp: spec_save_def spec_evict_def split: option.splits if_splits list.splits prod.splits)
qed (use assms in auto)

lemma run_op_keeps_event:
  assumes "distinct (map ev_id (st_events s))" "find (\<lambda>e. ev_id e = i) (st_events s) = Some e"
    and "i \<in> ev_id ` set (st_events (run_op a s))"
  shows "\<exists>e'. find (\<lambda>e. ev_id e = i) (st_events (run_op a s)) = Some e' \<and> same_provenance e e'"
proof -
  obtain e' where e': "find (\<lambda>e. ev_id e = i) (st_events (run_op a s)) = Some e'"
    using assms(3) by (metis find_Some_iff_mem option.exhaust)
  moreover have "snd (abs_log (st_events s)) i = Some e"
    using assms(2) by (simp add: abs_log_def)
  moreover have "snd (spec_op (st_max_events s) a (abs_log (st_events s))) i = Some e'"
    unfolding run_op_refines [OF assms(1), symmetric] using e' by (simp add: abs_log_def)
  ultimately show ?thesis using spec_op_keeps_event [of "abs_log (st_events s)" i e] by blast
qed

text \<open>
  C3. Provenance is written once: as long as an event stays in the log, no sequence of storage calls
  changes anything of it but its title, description and metadata; in particular its first observation
  time, observation mode and replay job are those it was first stored with.
\<close>

theorem stored_provenance_is_immutable:
  assumes "distinct (map ev_id (st_events s))"
    and "find (\<lambda>e. ev_id e = i) (st_events s) = Some e"
    and "\<forall>n \<le> length ops. i \<in> ev_id ` set (st_events (fold run_op (take n ops) s))"
  shows "\<exists>e'. find (\<lambda>e. ev_id e = i) (st_events (fold run_op ops s)) = Some e' \<and> same_provenance e e'"
  using assms(3)
proof (induction ops rule: rev_induct)
  case Nil
  then show ?case using assms(2) by simp
next
  case (snoc a ops)
  let ?t = "fold run_op ops s"
  have "i \<in> ev_id ` set (st_events (fold run_op (take n ops) s))" if n: "n \<le> length ops" for n
    using snoc.prems [rule_format, of n] n by simp
  then obtain e1 where e1: "find (\<lambda>e. ev_id e = i) (st_events ?t) = Some e1" "same_provenance e e1"
    using snoc.IH by blast
  moreover have "i \<in> ev_id ` set (st_events (run_op a ?t))"
    using snoc.prems [rule_format, of "Suc (length ops)"] by simp
  ultimately obtain e2 where
    "find (\<lambda>e. ev_id e = i) (st_events (run_op a ?t)) = Some e2" "same_provenance e1 e2"
    using run_op_keeps_event [OF distinct_events_fold [OF assms(1)], of i ops e1 a] by blast
  then show ?case using e1 same_provenance_trans by auto
qed

text \<open>Two small events and a log of one place, for concrete runs.\<close>

definition sample_stored :: "uuid \<Rightarrow> chain_event" where
  "sample_stored i = (mock_fee sample_runtime)\<lparr>ev_id := i\<rparr>"

lemma sample_stored_id [simp]: "ev_id (sample_stored i) = i"
  by (simp add: sample_stored_def)

text \<open>The second event evicts the first.\<close>

theorem event_log_refines_fifo_map_witness:
  "get_event_by_id 1 (fold run_op [SaveEvent of_nat 0 (sample_stored 1), SaveEvent of_nat 0 (sample_stored 2)]
     (empty_storage 1 1)) = None
   \<and> get_event_by_id 2 (fold run_op [SaveEvent of_nat 0 (sample_stored 1), SaveEvent of_nat 0 (sample_stored 2)]
     (empty_storage 1 1)) \<noteq> None"
  using event_log_refines_fifo_map [of "empty_storage 1 1"
      "[SaveEvent of_nat 0 (sample_stored 1), SaveEvent of_nat 0 (sample_stored 2)]" 1]
    event_log_refines_fifo_map [of "empty_storage 1 1"
      "[SaveEvent of_nat 0 (sample_stored 1), SaveEvent of_nat 0 (sample_stored 2)]" 2]
  by (simp add: empty_storage_def abs_log_def spec_save_def spec_evict_def)

text \<open>Saving the event again with another first observation time does not change that time.\<close>

theorem stored_provenance_is_immutable_witness:
  "\<exists>e'. find (\<lambda>e. ev_id e = 1) (st_events (fold run_op
      [SaveEvent of_nat 0 ((sample_stored 1)\<lparr>ev_first_observed_at := 77\<rparr>), ClearAlerts]
      ((empty_storage 1 1)\<lparr>st_events := [sample_stored 1]\<rparr>))) = Some e'
    \<and> ev_first_observed_at e' = ev_first_observed_at (sample_stored 1)"
proof -
  let ?s = "(empty_storage 1 1)\<lparr>st_events := [sample_stored 1]\<rparr>"
  let ?ops = "[SaveEvent of_nat 0 ((sample_stored 1)\<lparr>ev_first_observed_at := 77\<rparr>), ClearAlerts]"
  have "1 \<in> ev_id ` set (st_events (fold run_op (take n ?ops) ?s))" if n: "n \<le> length ?ops" for n
  proof -
    have "n = 0 \<or> n = 1 \<or> n = 2" using n by auto
    then show ?thesis
      by (auto simp: storage_frame log_event_def clear_alerts_def eval_nat_numeral)
  qed
  then have "\<exists>e'. find (\<lambda>e. ev_id e = 1) (st_events (fold run_op ?ops ?s)) = Some e'
      \<and> same_provenance (sample_stored 1) e'"
    using stored_provenance_is_immutable [of ?s 1 "sample_stored 1" ?ops] by simp
  moreover have "ev_first_observed_at e' = ev_first_observed_at (sample_stored 1)"
    if "same_provenance (sample_stored 1) e'" for e'
    using that unfolding same_provenance_def by (cases e') (auto simp: sample_stored_def)
  ultimately show ?thesis by blast
qed

section \<open>Saving twice, evicting, paging\<close>

lemma merge_event_merge [simp]: "merge_event e (merge_event e x) = merge_event e x" "merge_event e e = e"
  by (simp_all add: merge_event_def)

lemma position_snoc_new:
  assumes "position P xs = None" "P x"
  shows "position P (push_bounded cap x xs) = Some (length (push_bounded cap x xs) - 1)"
    and "push_bounded cap x xs ! (length (push_bounded cap x xs) - 1) = x"
proof -
  have snoc: "position P (ys @ [x]) = Some (length ys)" if "\<forall>y \<in> set ys. \<not> P y" for ys
    using that assms(2) by (induction ys) auto
  have "\<forall>y \<in> set (drop n xs). \<not> P y" for n
    using assms(1) by (auto simp: position_None dest: in_set_dropD)
  from this [of 1] this [of 0]
  show "position P (push_bounded cap x xs) = Some (length (push_bounded cap x xs) - 1)"
    by (simp add: push_bounded_def snoc)
  show "push_bounded cap x xs ! (length (push_bounded cap x xs) - 1) = x"
    by (simp add: push_bounded_def nth_append)
qed

lemma log_event_again:
  "\<exists>pos. position (\<lambda>x. ev_id x = ev_id e) (log_event cap e es) = Some pos
     \<and> merge_event e (log_event cap e es ! pos) = log_event cap e es ! pos"
proof (cases "position (\<lambda>x. ev_id x = ev_id e) es")
  case (Some pos)
  then have "pos < length es" "ev_id (es ! pos) = ev_id e" "\<forall>j < pos. ev_id (es ! j) \<noteq> ev_id e"
    by (simp_all add: position_Some)
  then have "position (\<lambda>x. ev_id x = ev_id e) (es[pos := merge_event e (es ! pos)]) = Some pos"
    by (auto simp: position_Some)
  with Some \<open>pos < length es\<close> show ?thesis by (auto simp: log_event_def)
next
  case None
  show ?thesis using position_snoc_new [OF None, of e cap] None by (auto simp: log_event_def)
qed

text \<open>
  Saving an event twice is saving it once, whatever identifiers and times the second attempt
  draws: the second save neither duplicates the event, evicts another one, nor extracts its metrics
  again.
\<close>

theorem save_event_idempotent:
  "save_event v4' now' e (save_event v4 now e s) = save_event v4 now e s"
proof -
  obtain pos where pos: "position (\<lambda>x. ev_id x = ev_id e) (log_event (st_max_events s) e (st_events s)) = Some pos"
    "merge_event e (log_event (st_max_events s) e (st_events s) ! pos) = log_event (st_max_events s) e (st_events s) ! pos"
    using log_event_again by blast
  let ?t = "save_event v4 now e s"
  have "save_event v4' now' e ?t = ?t\<lparr>st_events := st_events ?t\<rparr>"
    using pos by (simp add: save_event_def [of v4' now' e ?t] storage_frame)
  then show ?thesis by simp
qed

lemma page_step: "page n 0 xs @ take (m * n) (drop n xs) = take (Suc m * n) xs"
  by (simp add: page_def take_add)

lemma concat_pages: "concat (map (\<lambda>k. page n (k * n) xs) [0..<m]) = take (m * n) xs"
proof (induction m)
  case 0
  then show ?case by simp
next
  case (Suc m)
  then show ?case by (simp add: page_def add.commute [of n] take_add)
qed

lemma event_matches_paging [simp]:
  "event_matches obs (f\<lparr>ef_offset := a\<rparr>) = event_matches obs f"
  "event_matches obs (f\<lparr>ef_limit := b\<rparr>) = event_matches obs f"
  by (simp_all add: event_matches_def fun_eq_iff)

text \<open>
  Paging through a query loses and repeats nothing: with a page length the service allows,
  consecutive pages put together are the matching events, newest first, up to the last page.
\<close>

theorem query_pages_partition:
  assumes "1 \<le> l" "l \<le> 1000"
  shows "concat (map (\<lambda>k. query_events (f\<lparr>ef_limit := Some l, ef_offset := Some (k * l)\<rparr>) s) [0..<m]) =
    take (m * l) (filter (event_matches (st_event_observations s) f) (rev (st_events s)))"
  using assms concat_pages by (simp add: query_events_def min_absorb1 max_absorb1)

definition any_event :: event_filter where
  "any_event = \<lparr>ef_from_height = None, ef_to_height = None, ef_from_time = None, ef_to_time = None,
     ef_event_type = None, ef_severity = None, ef_observation_mode = None, ef_replay_job_id = None,
     ef_txid = None, ef_block_hash = None, ef_limit = None, ef_offset = None\<rparr>"

theorem query_pages_partition_witness:
  "concat (map (\<lambda>k. query_events (any_event\<lparr>ef_limit := Some 1, ef_offset := Some (k * 1)\<rparr>)
      ((empty_storage 5 5)\<lparr>st_events := [sample_stored 1, sample_stored 2, sample_stored 3]\<rparr>)) [0..<2]) =
    [sample_stored 3, sample_stored 2]"
  using query_pages_partition [of 1 any_event
      "(empty_storage 5 5)\<lparr>st_events := [sample_stored 1, sample_stored 2, sample_stored 3]\<rparr>" 2]
  by (simp add: event_matches_def any_event_def empty_storage_def)

section \<open>Selecting runs and checkpoints\<close>

lemma last_max_by_spec:
  "last_max_by key xs = Some y \<Longrightarrow> y \<in> set xs \<and> (\<forall>x \<in> set xs. key x \<le> key y)"
proof (induction xs arbitrary: y rule: rev_induct)
  case Nil
  then show ?case by (simp add: last_max_by_def)
next
  case (snoc x xs)
  show ?case
  proof (cases "last_max_by key xs")
    case None
    then have "xs = []"
      by (induction xs rule: rev_induct) (auto simp: last_max_by_def split: option.splits if_splits)
    with snoc show ?thesis by (simp add: last_max_by_def)
  next
    case (Some z)
    with snoc.IH [OF Some] snoc.prems show ?thesis
      by (fastforce simp: last_max_by_def split: if_splits)
  qed
qed

lemma hd_sort_key:
  assumes "sort_key f xs = y # ys"
  shows "y \<in> set xs" "\<forall>x \<in> set xs. f y \<le> f x"
proof -
  have *: "set (y # ys) = set xs" "sorted (map f (y # ys))"
    using set_sort [of f xs] sorted_sort_key [of f xs] by (simp_all add: assms)
  from * show "y \<in> set xs" by auto
  from * show "\<forall>x \<in> set xs. f y \<le> f x" by (metis order_refl set_ConsD sorted_simps(2) list.simps(9) image_eqI list.set_map)
qed

text \<open>
  Events are ranked against the right baseline: the run selected for a network, height and
  algorithm version is a stored, completed run of that network and version that does not start above
  the height, and no such run reaches a higher block; none is selected only when there is none.
\<close>

theorem latest_compatible_run_selected:
  "case get_latest_compatible_baseline_run network height version s of
     Some r \<Rightarrow> r \<in> set (st_baseline_runs s) \<and> br_network r = network \<and> br_status r = BCompleted
       \<and> (\<forall>h. height = Some h \<longrightarrow> br_start_height r \<le> h)
       \<and> (\<forall>v. version = Some v \<longrightarrow> br_algorithm_version r = v)
       \<and> (\<forall>r' \<in> set (st_baseline_runs s). compatible_run network height version r' \<longrightarrow>
            br_end_height r' \<le> br_end_height r)
   | None \<Rightarrow> \<forall>r \<in> set (st_baseline_runs s). \<not> compatible_run network height version r"
proof (cases "sort_key run_order (filter (compatible_run network height version) (st_baseline_runs s))")
  case Nil
  then have "filter (compatible_run network height version) (st_baseline_runs s) = []"
    by (metis set_empty set_sort)
  with Nil show ?thesis by (simp add: get_latest_compatible_baseline_run_def filter_empty_conv)
next
  case (Cons r rs)
  have "br_end_height r' \<le> br_end_height r" if "run_order r \<le> run_order r'" for r'
    using that by (auto simp: run_order_def less_eq_prod_def word_le_def)
  with hd_sort_key [OF Cons] have "r \<in> set (st_baseline_runs s)" "compatible_run network height version r"
    "\<forall>r' \<in> set (st_baseline_runs s). compatible_run network height version r' \<longrightarrow>
       br_end_height r' \<le> br_end_height r"
    by simp_all
  with Cons show ?thesis
    by (auto simp: get_latest_compatible_baseline_run_def compatible_run_def split: option.splits)
qed

text \<open>Of three runs the completed one that reaches highest is taken, not the one still running.\<close>

definition sample_run :: "baseline_run_status \<Rightarrow> u64 \<Rightarrow> baseline_run" where
  "sample_run st h = (create_run_record sample_runtime ''mainnet'' 0 h ''v1'')\<lparr>br_status := st\<rparr>"

lemma sample_run_simps [simp]:
  "br_status (sample_run st h) = st" "br_end_height (sample_run st h) = h"
  "br_start_height (sample_run st h) = 0" "br_network (sample_run st h) = ''mainnet''"
  "br_algorithm_version (sample_run st h) = ''v1''"
  by (simp_all add: sample_run_def create_run_record_def)

theorem latest_compatible_run_selected_witness:
  "map_option br_end_height (get_latest_compatible_baseline_run ''mainnet'' (Some 15) (Some ''v1'')
     ((empty_storage 5 5)\<lparr>st_baseline_runs :=
        [sample_run BCompleted 10, sample_run BCompleted 20, sample_run BRunning 30]\<rparr>)) = Some 20"
  using latest_compatible_run_selected [where network = "''mainnet''" and height = "Some 15"
      and version = "Some ''v1''" and s = "(empty_storage 5 5)\<lparr>st_baseline_runs :=
        [sample_run BCompleted 10, sample_run BCompleted 20, sample_run BRunning 30]\<rparr>"]
  by (auto simp: compatible_run_def split: option.splits)

text \<open>Resuming a job starts after the highest block it has completed.\<close>

lemma latest_checkpoint_is_highest:
  assumes "get_latest_checkpoint job s = Some c"
  shows "cp_job_id c = job \<and> (\<forall>c' \<in> set (st_replay_checkpoints s). cp_job_id c' = job \<longrightarrow>
    cp_completed_height c' \<le> cp_completed_height c)"
  using last_max_by_spec [OF assms [unfolded get_latest_checkpoint_def]] by auto

end
