(* ===== verification/Rpc.thy ===== *)
theory Rpc
  imports Metrics
begin

text \<open>
  The Bitcoin Core JSON-RPC client (\<open>obschain-ingest/src/bitcoin_rpc.rs\<close>): credentials from the
  configuration or from the cookie file, one retry after a 401, classification of the error
  payloads, the typed methods and the inspection of the node.

  The HTTP transport, the node behind it and the cookie file are outside the program. They are the
  fields of \<open>rpc_world\<close>: what the n-th request is answered with and what the n-th read of the cookie
  file returns, so that answers may change over time. The client counts both.
\<close>

section \<open>Errors, configuration and results\<close>

datatype bitcoin_rpc_error =
    Http string
  | RpcError int string
  | JsonError
  | AuthError string
  | InvalidUrl string
  | NodeWarmingUp string
  | NetworkMismatch string string
  | TxIndexUnavailable

record bitcoin_rpc_config =
  rpc_url :: string
  rpc_user :: "string option"
  rpc_password :: "string option"
  cookie_file :: "string option"
  rpc_timeout :: int
  expected_network :: "string option"

definition bitcoin_rpc_config_default :: bitcoin_rpc_config where
  "bitcoin_rpc_config_default =
     \<lparr>rpc_url = ''http://127.0.0.1:8332'', rpc_user = None, rpc_password = None, cookie_file = None,
      rpc_timeout = 15, expected_network = None\<rparr>"

record bitcoin_node_capabilities =
  nc_network :: string
  nc_version :: u64
  nc_subversion :: string
  nc_blocks :: u64
  nc_headers :: u64
  nc_verification_progress :: f64
  nc_initial_block_download :: bool
  nc_pruned :: bool
  nc_prune_height :: "u64 option"
  nc_txindex_available :: bool
  nc_zmq_rawtx :: bool
  nc_zmq_rawblock :: bool
  nc_zmq_sequence :: bool

record get_blockchain_info_result =
  bi_chain :: string
  bi_blocks :: u64
  bi_headers :: u64
  bi_bestblockhash :: string
  bi_difficulty :: f64
  bi_verificationprogress :: f64
  bi_initialblockdownload :: bool
  bi_pruned :: bool
  bi_pruneheight :: "u64 option"

record get_network_info_result =
  ni_version :: u64
  ni_subversion :: string
  ni_protocolversion :: u64
  ni_connections :: u64
  ni_networkactive :: bool

record get_mempool_info_result =
  mi_loaded :: "bool option"
  mi_size :: u64
  mi_bytes :: u64
  mi_usage :: u64
  mi_total_fee :: "f64 option"
  mi_mempoolminfee :: "f64 option"
  mi_minrelaytxfee :: "f64 option"

record get_tx_out_script_pubkey =
  sp_asm :: "string option"
  sp_hex :: string
  sp_type :: "string option"
  sp_address :: "string option"

record get_tx_out_result =
  to_bestblock :: string
  to_confirmations :: u64
  to_value :: f64
  to_script_pubkey :: get_tx_out_script_pubkey
  to_coinbase :: bool

record get_raw_transaction_vout =
  rv_value :: f64
  rv_n :: u32
  rv_script_pubkey :: "get_tx_out_script_pubkey option"

record get_raw_transaction_verbose_result =
  rx_txid :: string
  rx_hash :: "string option"
  rx_size :: "u64 option"
  rx_vsize :: "u64 option"
  rx_weight :: "u64 option"
  rx_version :: "int option"
  rx_locktime :: "u32 option"
  rx_blockhash :: "string option"
  rx_confirmations :: "u64 option"
  rx_time :: "int option"
  rx_blocktime :: "int option"
  rx_vout :: "get_raw_transaction_vout list"

record get_block_header_result =
  bh_hash :: string
  bh_confirmations :: int
  bh_height :: u64
  bh_version :: int
  bh_merkleroot :: string
  bh_time :: u64
  bh_nonce :: u64
  bh_bits :: string
  bh_difficulty :: f64
  bh_previousblockhash :: "string option"
  bh_nextblockhash :: "string option"

record get_block_verbose_result =
  bv_hash :: string
  bv_confirmations :: int
  bv_size :: u64
  bv_weight :: u64
  bv_height :: u64
  bv_version :: int
  bv_merkleroot :: string
  bv_tx :: "string list"
  bv_time :: u64
  bv_nonce :: u64
  bv_bits :: string
  bv_difficulty :: f64
  bv_previousblockhash :: "string option"
  bv_nextblockhash :: "string option"

record chain_tip =
  ct_height :: u64
  ct_hash :: string
  ct_branchlen :: u64
  ct_status :: string

section \<open>Decoding\<close>

fun as_bool :: "json \<Rightarrow> bool option" where
  "as_bool (JBool b) = Some b"
| "as_bool _ = None"

text \<open>A signed field of the given width.\<close>

fun as_signed :: "nat \<Rightarrow> json \<Rightarrow> int option" where
  "as_signed w (JNum (PosInt n)) = (if n < 2 ^ (w - 1) then Some (int n) else None)"
| "as_signed w (JNum (NegInt i)) = (if - (2 ^ (w - 1)) \<le> i then Some i else None)"
| "as_signed w _ = None"

text \<open>\<open>#[serde(default)]\<close>: a missing field takes the default, a present one must decode.\<close>

definition get_default_field :: "(string \<times> json) list \<Rightarrow> string \<Rightarrow> 'a \<Rightarrow> (json \<Rightarrow> 'a option) \<Rightarrow> 'a option" where
  "get_default_field m k d f = (case map_of m k of None \<Rightarrow> Some d | Some v \<Rightarrow> f v)"

fun as_list :: "(json \<Rightarrow> 'a option) \<Rightarrow> json \<Rightarrow> 'a list option" where
  "as_list f (JArr xs) = those (map f xs)"
| "as_list f _ = None"

definition blockchain_info_of_json :: "json \<Rightarrow> get_blockchain_info_result option" where
  "blockchain_info_of_json j =
     do {
       m \<leftarrow> struct_fields [''chain'', ''blocks'', ''headers'', ''bestblockhash'', ''difficulty'',
         ''verificationprogress'', ''initialblockdownload'', ''pruned'', ''pruneheight''] j;
       chain \<leftarrow> get_field m ''chain'' as_str;
       blocks \<leftarrow> get_field m ''blocks'' as_word;
       headers \<leftarrow> get_field m ''headers'' as_word;
       best \<leftarrow> get_field m ''bestblockhash'' as_str;
       difficulty \<leftarrow> get_field m ''difficulty'' as_f64;
       progress \<leftarrow> get_field m ''verificationprogress'' as_f64;
       ibd \<leftarrow> get_field m ''initialblockdownload'' as_bool;
       pruned \<leftarrow> get_field m ''pruned'' as_bool;
       pruneheight \<leftarrow> get_opt_field m ''pruneheight'' as_word;
       Some \<lparr>bi_chain = chain, bi_blocks = blocks, bi_headers = headers, bi_bestblockhash = best,
             bi_difficulty = difficulty, bi_verificationprogress = progress,
             bi_initialblockdownload = ibd, bi_pruned = pruned, bi_pruneheight = pruneheight\<rparr>
     }"

definition network_info_of_json :: "json \<Rightarrow> get_network_info_result option" where
  "network_info_of_json j =
     do {
       m \<leftarrow> struct_fields [''version'', ''subversion'', ''protocolversion'', ''connections'',
         ''networkactive''] j;
       version \<leftarrow> get_field m ''version'' as_word;
       subversion \<leftarrow> get_field m ''subversion'' as_str;
       protocol \<leftarrow> get_field m ''protocolversion'' as_word;
       connections \<leftarrow> get_field m ''connections'' as_word;
       active \<leftarrow> get_default_field m ''networkactive'' False as_bool;
       Some \<lparr>ni_version = version, ni_subversion = subversion, ni_protocolversion = protocol,
             ni_connections = connections, ni_networkactive = active\<rparr>
     }"

definition mempool_info_of_json :: "json \<Rightarrow> get_mempool_info_result option" where
  "mempool_info_of_json j =
     do {
       m \<leftarrow> struct_fields [''loaded'', ''size'', ''bytes'', ''usage'', ''total_fee'',
         ''mempoolminfee'', ''minrelaytxfee''] j;
       loaded \<leftarrow> get_opt_field m ''loaded'' as_bool;
       n \<leftarrow> get_field m ''size'' as_word;
       bytes \<leftarrow> get_field m ''bytes'' as_word;
       usage \<leftarrow> get_field m ''usage'' as_word;
       fee \<leftarrow> get_opt_field m ''total_fee'' as_f64;
       minfee \<leftarrow> get_opt_field m ''mempoolminfee'' as_f64;
       relay \<leftarrow> get_opt_field m ''minrelaytxfee'' as_f64;
       Some \<lparr>mi_loaded = loaded, mi_size = n, mi_bytes = bytes, mi_usage = usage,
             mi_total_fee = fee, mi_mempoolminfee = minfee, mi_minrelaytxfee = relay\<rparr>
     }"

definition script_pubkey_of_json :: "json \<Rightarrow> get_tx_out_script_pubkey option" where
  "script_pubkey_of_json j =
     do {
       m \<leftarrow> struct_fields [''asm'', ''hex'', ''type'', ''address''] j;
       asm \<leftarrow> get_opt_field m ''asm'' as_str;
       hex \<leftarrow> get_field m ''hex'' as_str;
       ty \<leftarrow> get_opt_field m ''type'' as_str;
       address \<leftarrow> get_opt_field m ''address'' as_str;
       Some \<lparr>sp_asm = asm, sp_hex = hex, sp_type = ty, sp_address = address\<rparr>
     }"

definition tx_out_of_json :: "json \<Rightarrow> get_tx_out_result option" where
  "tx_out_of_json j =
     do {
       m \<leftarrow> struct_fields [''bestblock'', ''confirmations'', ''value'', ''scriptPubKey'', ''coinbase''] j;
       best \<leftarrow> get_field m ''bestblock'' as_str;
       confirmations \<leftarrow> get_field m ''confirmations'' as_word;
       v \<leftarrow> get_field m ''value'' as_f64;
       script \<leftarrow> get_field m ''scriptPubKey'' script_pubkey_of_json;
       coinbase \<leftarrow> get_field m ''coinbase'' as_bool;
       Some \<lparr>to_bestblock = best, to_confirmations = confirmations, to_value = v,
             to_script_pubkey = script, to_coinbase = coinbase\<rparr>
     }"

definition raw_vout_of_json :: "json \<Rightarrow> get_raw_transaction_vout option" where
  "raw_vout_of_json j =
     do {
       m \<leftarrow> struct_fields [''value'', ''n'', ''scriptPubKey''] j;
       v \<leftarrow> get_field m ''value'' as_f64;
       n \<leftarrow> get_field m ''n'' as_word;
       script \<leftarrow> get_opt_field m ''scriptPubKey'' script_pubkey_of_json;
       Some \<lparr>rv_value = v, rv_n = n, rv_script_pubkey = script\<rparr>
     }"

definition raw_transaction_of_json :: "json \<Rightarrow> get_raw_transaction_verbose_result option" where
  "raw_transaction_of_json j =
     do {
       m \<leftarrow> struct_fields [''txid'', ''hash'', ''size'', ''vsize'', ''weight'', ''version'',
         ''locktime'', ''blockhash'', ''confirmations'', ''time'', ''blocktime'', ''vout''] j;
       txid \<leftarrow> get_field m ''txid'' as_str;
       hash \<leftarrow> get_opt_field m ''hash'' as_str;
       n \<leftarrow> get_opt_field m ''size'' as_word;
       vs \<leftarrow> get_opt_field m ''vsize'' as_word;
       weight \<leftarrow> get_opt_field m ''weight'' as_word;
       version \<leftarrow> get_opt_field m ''version'' (as_signed 32);
       locktime \<leftarrow> get_opt_field m ''locktime'' as_word;
       blockhash \<leftarrow> get_opt_field m ''blockhash'' as_str;
       confirmations \<leftarrow> get_opt_field m ''confirmations'' as_word;
       time \<leftarrow> get_opt_field m ''time'' (as_signed 64);
       blocktime \<leftarrow> get_opt_field m ''blocktime'' (as_signed 64);
       vout \<leftarrow> get_default_field m ''vout'' [] (as_list raw_vout_of_json);
       Some \<lparr>rx_txid = txid, rx_hash = hash, rx_size = n, rx_vsize = vs, rx_weight = weight,
             rx_version = version, rx_locktime = locktime, rx_blockhash = blockhash,
             rx_confirmations = confirmations, rx_time = time, rx_blocktime = blocktime,
             rx_vout = vout\<rparr>
     }"

definition block_header_of_json :: "json \<Rightarrow> get_block_header_result option" where
  "block_header_of_json j =
     do {
       m \<leftarrow> struct_fields [''hash'', ''confirmations'', ''height'', ''version'', ''merkleroot'',
         ''time'', ''nonce'', ''bits'', ''difficulty'', ''previousblockhash'', ''nextblockhash''] j;
       hash \<leftarrow> get_field m ''hash'' as_str;
       confirmations \<leftarrow> get_field m ''confirmations'' (as_signed 64);
       height \<leftarrow> get_field m ''height'' as_word;
       version \<leftarrow> get_field m ''version'' (as_signed 32);
       merkle \<leftarrow> get_field m ''merkleroot'' as_str;
       time \<leftarrow> get_field m ''time'' as_word;
       nonce \<leftarrow> get_field m ''nonce'' as_word;
       bits \<leftarrow> get_field m ''bits'' as_str;
       difficulty \<leftarrow> get_field m ''difficulty'' as_f64;
       prev \<leftarrow> get_opt_field m ''previousblockhash'' as_str;
       nxt \<leftarrow> get_opt_field m ''nextblockhash'' as_str;
       Some \<lparr>bh_hash = hash, bh_confirmations = confirmations, bh_height = height,
             bh_version = version, bh_merkleroot = merkle, bh_time = time, bh_nonce = nonce,
             bh_bits = bits, bh_difficulty = difficulty, bh_previousblockhash = prev,
             bh_nextblockhash = nxt\<rparr>
     }"

definition block_verbose_of_json :: "json \<Rightarrow> get_block_verbose_result option" where
  "block_verbose_of_json j =
     do {
       m \<leftarrow> struct_fields [''hash'', ''confirmations'', ''size'', ''weight'', ''height'', ''version'',
         ''merkleroot'', ''tx'', ''time'', ''nonce'', ''bits'', ''difficulty'',
         ''previousblockhash'', ''nextblockhash''] j;
       hash \<leftarrow> get_field m ''hash'' as_str;
       confirmations \<leftarrow> get_field m ''confirmations'' (as_signed 64);
       n \<leftarrow> get_field m ''size'' as_word;
       weight \<leftarrow> get_field m ''weight'' as_word;
       height \<leftarrow> get_field m ''height'' as_word;
       version \<leftarrow> get_field m ''version'' (as_signed 32);
       merkle \<leftarrow> get_field m ''merkleroot'' as_str;
       txs \<leftarrow> get_field m ''tx'' (as_list as_str);
       time \<leftarrow> get_field m ''time'' as_word;
       nonce \<leftarrow> get_field m ''nonce'' as_word;
       bits \<leftarrow> get_field m ''bits'' as_str;
       difficulty \<leftarrow> get_field m ''difficulty'' as_f64;
       prev \<leftarrow> get_opt_field m ''previousblockhash'' as_str;
       nxt \<leftarrow> get_opt_field m ''nextblockhash'' as_str;
       Some \<lparr>bv_hash = hash, bv_confirmations = confirmations, bv_size = n, bv_weight = weight,
             bv_height = height, bv_version = version, bv_merkleroot = merkle, bv_tx = txs,
             bv_time = time, bv_nonce = nonce, bv_bits = bits, bv_difficulty = difficulty,
             bv_previousblockhash = prev, bv_nextblockhash = nxt\<rparr>
     }"

definition chain_tip_of_json :: "json \<Rightarrow> chain_tip option" where
  "chain_tip_of_json j =
     do {
       m \<leftarrow> struct_fields [''height'', ''hash'', ''branchlen'', ''status''] j;
       height \<leftarrow> get_field m ''height'' as_word;
       hash \<leftarrow> get_field m ''hash'' as_str;
       branchlen \<leftarrow> get_field m ''branchlen'' as_word;
       status \<leftarrow> get_field m ''status'' as_str;
       Some \<lparr>ct_height = height, ct_hash = hash, ct_branchlen = branchlen, ct_status = status\<rparr>
     }"

section \<open>The client\<close>

record http_response =
  hr_status :: nat
  hr_body :: "string + json"

record rpc_world =
  rw_connect :: "string option"
  rw_post :: "nat \<Rightarrow> (string \<times> string) option \<Rightarrow> json \<Rightarrow> string + http_response"
  rw_read_cookie :: "nat \<Rightarrow> string + string"

record rpc_client =
  rc_config :: bitcoin_rpc_config
  rc_cached_cookie :: "(string \<times> string) option"
  rc_requests :: nat
  rc_cookie_reads :: nat

definition rpc_client_new :: "rpc_world \<Rightarrow> bitcoin_rpc_config \<Rightarrow> bitcoin_rpc_error + rpc_client" where
  "rpc_client_new w config =
     (if \<not> starts_with (rpc_url config) ''http://'' \<and> \<not> starts_with (rpc_url config) ''https://''
      then Inl (InvalidUrl ''Bitcoin Core RPC URL must use http:// or https:// scheme'')
      else case rw_connect w of
             Some e \<Rightarrow> Inl (Http e)
           | None \<Rightarrow> Inr \<lparr>rc_config = config, rc_cached_cookie = None, rc_requests = 0, rc_cookie_reads = 0\<rparr>)"

text \<open>An operation of the client: a result or an error, and the client after it.\<close>

type_synonym 'a rpc = "rpc_client \<Rightarrow> (bitcoin_rpc_error + 'a) \<times> rpc_client"

definition rpc_return :: "'a \<Rightarrow> 'a rpc" where
  "rpc_return x c = (Inr x, c)"

definition rpc_bind :: "'a rpc \<Rightarrow> ('a \<Rightarrow> 'b rpc) \<Rightarrow> 'b rpc" where
  "rpc_bind m f c = (case m c of (Inl e, c') \<Rightarrow> (Inl e, c') | (Inr x, c') \<Rightarrow> f x c')"

definition cookie_of_content :: "string + string \<Rightarrow> bitcoin_rpc_error + (string \<times> string)" where
  "cookie_of_content r =
     (case r of
        Inl e \<Rightarrow> Inl (AuthError (''Failed to read Bitcoin Core cookie file: '' @ e))
      | Inr content \<Rightarrow>
          (case split_once (CHR '':'') (trim content) of
             None \<Rightarrow> Inl (AuthError ''Malformed Bitcoin Core cookie file format (expected user:password)'')
           | Some auth \<Rightarrow> Inr auth))"

definition read_cookie_file :: "rpc_world \<Rightarrow> (string \<times> string) rpc" where
  "read_cookie_file w c =
     (cookie_of_content (rw_read_cookie w (rc_cookie_reads c)), c\<lparr>rc_cookie_reads := Suc (rc_cookie_reads c)\<rparr>)"

definition resolve_auth :: "rpc_world \<Rightarrow> (string \<times> string) option rpc" where
  "resolve_auth w c =
     (case (rpc_user (rc_config c), rpc_password (rc_config c)) of
        (Some u, Some p) \<Rightarrow> (Inr (Some (u, p)), c)
      | _ \<Rightarrow>
          (case cookie_file (rc_config c) of
             None \<Rightarrow> (Inr None, c)
           | Some _ \<Rightarrow>
               (case rc_cached_cookie c of
                  Some auth \<Rightarrow> (Inr (Some auth), c)
                | None \<Rightarrow>
                    (case read_cookie_file w c of
                       (Inl e, c') \<Rightarrow> (Inl e, c')
                     | (Inr auth, c') \<Rightarrow> (Inr (Some auth), c'\<lparr>rc_cached_cookie := Some auth\<rparr>)))))"

definition send :: "rpc_world \<Rightarrow> (string \<times> string) option \<Rightarrow> json \<Rightarrow> http_response rpc" where
  "send w auth req c =
     (case rw_post w (rc_requests c) auth req of Inl e \<Rightarrow> Inl (Http e) | Inr r \<Rightarrow> Inr r,
      c\<lparr>rc_requests := Suc (rc_requests c)\<rparr>)"

fun has_infix :: "string \<Rightarrow> string \<Rightarrow> bool" where
  "has_infix pat [] = (pat = [])"
| "has_infix pat (x # xs) = (starts_with (x # xs) pat \<or> has_infix pat xs)"

definition error_of_payload :: "int \<Rightarrow> string \<Rightarrow> bitcoin_rpc_error" where
  "error_of_payload code message =
     (if code = -28 then NodeWarmingUp message
      else if code = -5 \<and> has_infix ''No such mempool or blockchain transaction'' message
           then TxIndexUnavailable
      else RpcError code message)"

definition error_payload_of_json :: "json \<Rightarrow> (int \<times> string) option" where
  "error_payload_of_json j =
     do {
       m \<leftarrow> struct_fields [''code'', ''message''] j;
       code \<leftarrow> get_field m ''code'' (as_signed 64);
       message \<leftarrow> get_field m ''message'' as_str;
       Some (code, message)
     }"

text \<open>The envelope \<open>RpcResponse\<close>: both fields optional, null counts as absent.\<close>

definition envelope_of_json :: "(json \<Rightarrow> 'a option) \<Rightarrow> json \<Rightarrow> ('a option \<times> (int \<times> string) option) option" where
  "envelope_of_json decode j =
     do {
       m \<leftarrow> struct_fields [''result'', ''error''] j;
       result \<leftarrow> get_opt_field m ''result'' decode;
       err \<leftarrow> get_opt_field m ''error'' error_payload_of_json;
       Some (result, err)
     }"

definition parse_response :: "(json \<Rightarrow> 'a option) \<Rightarrow> http_response \<Rightarrow> bitcoin_rpc_error + 'a" where
  "parse_response decode resp =
     (if hr_status resp = 401
      then Inl (AuthError ''Bitcoin Core RPC authentication failed (401 Unauthorized)'')
      else case hr_body resp of
             Inl e \<Rightarrow> Inl (Http e)
           | Inr body \<Rightarrow>
               (case envelope_of_json decode body of
                  None \<Rightarrow> Inl (Http ''error decoding response body'')
                | Some (_, Some (code, message)) \<Rightarrow> Inl (error_of_payload code message)
                | Some (Some x, None) \<Rightarrow> Inr x
                | Some (None, None) \<Rightarrow> Inl (RpcError (-1) ''Empty result in RPC response'')))"

definition rpc_request :: "string \<Rightarrow> json list \<Rightarrow> json" where
  "rpc_request meth params =
     JObj [(''jsonrpc'', JStr ''1.0''), (''id'', JStr ''obschain''), (''method'', JStr meth),
           (''params'', JArr params)]"

definition call :: "rpc_world \<Rightarrow> (json \<Rightarrow> 'a option) \<Rightarrow> string \<Rightarrow> json list \<Rightarrow> 'a rpc" where
  "call w decode meth params =
     rpc_bind (resolve_auth w) (\<lambda>auth.
     rpc_bind (send w auth (rpc_request meth params)) (\<lambda>resp c.
       if hr_status resp = 401 \<and> cookie_file (rc_config c) \<noteq> None then
         rpc_bind (resolve_auth w) (\<lambda>new_auth.
         rpc_bind (send w new_auth (rpc_request meth params)) (\<lambda>retry c'.
           (parse_response decode retry, c'))) (c\<lparr>rc_cached_cookie := None\<rparr>)
       else (parse_response decode resp, c)))"

section \<open>Methods\<close>

definition get_blockchain_info :: "rpc_world \<Rightarrow> get_blockchain_info_result rpc" where
  "get_blockchain_info w = call w blockchain_info_of_json ''getblockchaininfo'' []"

definition get_network_info :: "rpc_world \<Rightarrow> get_network_info_result rpc" where
  "get_network_info w = call w network_info_of_json ''getnetworkinfo'' []"

definition get_mempool_info :: "rpc_world \<Rightarrow> get_mempool_info_result rpc" where
  "get_mempool_info w = call w mempool_info_of_json ''getmempoolinfo'' []"

definition get_raw_mempool :: "rpc_world \<Rightarrow> string list rpc" where
  "get_raw_mempool w = call w (as_list as_str) ''getrawmempool'' [JBool False]"

definition get_block_hash :: "rpc_world \<Rightarrow> u64 \<Rightarrow> string rpc" where
  "get_block_hash w height = call w as_str ''getblockhash'' [json_u height]"

definition get_block_header :: "rpc_world \<Rightarrow> string \<Rightarrow> get_block_header_result rpc" where
  "get_block_header w hash = call w block_header_of_json ''getblockheader'' [JStr hash, JBool True]"

definition get_block :: "rpc_world \<Rightarrow> string \<Rightarrow> get_block_verbose_result rpc" where
  "get_block w hash = call w block_verbose_of_json ''getblock'' [JStr hash, json_nat 1]"

definition get_block_raw_hex :: "rpc_world \<Rightarrow> string \<Rightarrow> string rpc" where
  "get_block_raw_hex w hash = call w as_str ''getblock'' [JStr hash, json_nat 0]"

definition get_raw_transaction_hex :: "rpc_world \<Rightarrow> string \<Rightarrow> string rpc" where
  "get_raw_transaction_hex w txid = call w as_str ''getrawtransaction'' [JStr txid, JBool False]"

definition get_raw_transaction_verbose :: "rpc_world \<Rightarrow> string \<Rightarrow> get_raw_transaction_verbose_result rpc" where
  "get_raw_transaction_verbose w txid =
     call w raw_transaction_of_json ''getrawtransaction'' [JStr txid, JBool True]"

text \<open>
  The result is read as a plain value first. A null result is absent in the envelope, so a spent
  output is reported as the empty-result error and not as \<open>None\<close>.
\<close>

definition get_tx_out :: "rpc_world \<Rightarrow> string \<Rightarrow> u32 \<Rightarrow> bool \<Rightarrow> get_tx_out_result option rpc" where
  "get_tx_out w txid vout include_mempool =
     rpc_bind (call w Some ''gettxout'' [JStr txid, json_u vout, JBool include_mempool]) (\<lambda>res c.
       if res = JNull then (Inr None, c)
       else case tx_out_of_json res of
              None \<Rightarrow> (Inl JsonError, c)
            | Some parsed \<Rightarrow> (Inr (Some parsed), c))"

definition get_chain_tips :: "rpc_world \<Rightarrow> chain_tip list rpc" where
  "get_chain_tips w = call w (as_list chain_tip_of_json) ''getchaintips'' []"

definition normalized_network :: "string \<Rightarrow> string" where
  "normalized_network expected =
     (let e = to_lowercase expected
      in if e = ''bitcoin'' \<or> e = ''mainnet'' then ''main''
         else if e = ''testnet'' then ''test''
         else e)"

definition network_mismatch :: "bitcoin_rpc_config \<Rightarrow> string \<Rightarrow> bitcoin_rpc_error option" where
  "network_mismatch config chain =
     (case expected_network config of
        None \<Rightarrow> None
      | Some expected \<Rightarrow>
          if to_lowercase chain \<noteq> normalized_network expected
          then Some (NetworkMismatch expected chain) else None)"

definition inspect_capabilities :: "rpc_world \<Rightarrow> bitcoin_node_capabilities rpc" where
  "inspect_capabilities w =
     rpc_bind (get_blockchain_info w) (\<lambda>btc.
     rpc_bind (get_network_info w) (\<lambda>net c.
       case network_mismatch (rc_config c) (bi_chain btc) of
         Some e \<Rightarrow> (Inl e, c)
       | None \<Rightarrow>
           (case call w Some ''getindexinfo'' [] c of (indices, c') \<Rightarrow>
             (Inr \<lparr>nc_network = bi_chain btc, nc_version = ni_version net,
                   nc_subversion = ni_subversion net, nc_blocks = bi_blocks btc,
                   nc_headers = bi_headers btc,
                   nc_verification_progress = bi_verificationprogress btc,
                   nc_initial_block_download = bi_initialblockdownload btc,
                   nc_pruned = bi_pruned btc, nc_prune_height = bi_pruneheight btc,
                   nc_txindex_available =
                     (case indices of Inr j \<Rightarrow> json_get ''txindex'' j \<noteq> None | Inl _ \<Rightarrow> False),
                   nc_zmq_rawtx = True, nc_zmq_rawblock = True, nc_zmq_sequence = True\<rparr>, c'))))"

section \<open>What every operation keeps\<close>

text \<open>An operation sends at most \<open>n\<close> requests and does not touch the configuration.\<close>

definition sends_at_most :: "nat \<Rightarrow> 'a rpc \<Rightarrow> bool" where
  "sends_at_most n m \<longleftrightarrow> (\<forall>c. rc_requests (snd (m c)) \<le> rc_requests c + n \<and> rc_config (snd (m c)) = rc_config c)"

named_theorems sends \<open>how many requests an operation sends\<close>

lemma sends_bind:
  assumes "sends_at_most n m" "\<And>x. sends_at_most k (f x)"
  shows "sends_at_most (n + k) (rpc_bind m f)"
  unfolding sends_at_most_def
proof
  fix c
  obtain r c1 where m: "m c = (r, c1)" by (cases "m c") auto
  then have 1: "rc_requests c1 \<le> rc_requests c + n" "rc_config c1 = rc_config c"
    using assms(1) by (auto simp: sends_at_most_def dest: spec [of _ c])
  show "rc_requests (snd (rpc_bind m f c)) \<le> rc_requests c + (n + k)
      \<and> rc_config (snd (rpc_bind m f c)) = rc_config c"
  proof (cases r)
    case (Inl e)
    with m 1 show ?thesis by (simp add: rpc_bind_def)
  next
    case (Inr x)
    have "rc_requests (snd (f x c1)) \<le> rc_requests c1 + k \<and> rc_config (snd (f x c1)) = rc_config c1"
      using assms(2) by (simp add: sends_at_most_def)
    with m 1 Inr show ?thesis by (simp add: rpc_bind_def)
  qed
qed

lemma sends_resolve_auth: "sends_at_most 0 (resolve_auth w)"
  by (auto simp: sends_at_most_def resolve_auth_def read_cookie_file_def split: option.splits sum.splits)

lemma sends_send: "sends_at_most 1 (send w auth req)"
  by (simp add: sends_at_most_def send_def)

lemma sends_pure: "sends_at_most n (\<lambda>c. (r, c))"
  by (simp add: sends_at_most_def)

lemma sends_if:
  assumes "sends_at_most n m" "sends_at_most n m'"
  shows "sends_at_most n (\<lambda>c. if P c then m (c\<lparr>rc_cached_cookie := None\<rparr>) else m' c)"
proof -
  have "rc_requests (snd (m (c\<lparr>rc_cached_cookie := None\<rparr>))) \<le> rc_requests c + n
      \<and> rc_config (snd (m (c\<lparr>rc_cached_cookie := None\<rparr>))) = rc_config c" for c
    using assms(1) [unfolded sends_at_most_def, rule_format, of "c\<lparr>rc_cached_cookie := None\<rparr>"] by simp
  with assms(2) show ?thesis by (simp add: sends_at_most_def)
qed

lemma sends_call [sends]: "sends_at_most 2 (call w decode meth params)"
proof -
  have attempt: "sends_at_most 1 (rpc_bind (resolve_auth w) (\<lambda>a. rpc_bind (send w a req) (\<lambda>r c. (g r, c))))"
    for req g
    using sends_bind [OF sends_resolve_auth sends_bind [OF sends_send sends_pure [of 0]]] by simp
  have "sends_at_most (0 + (1 + 1)) (call w decode meth params)"
    unfolding call_def
    by (intro sends_bind sends_resolve_auth sends_send sends_if attempt sends_pure)
  then show ?thesis by (simp add: numeral_2_eq_2)
qed

text \<open>The methods are calls.\<close>

lemmas rpc_method_defs =
  get_blockchain_info_def get_network_info_def get_mempool_info_def get_raw_mempool_def
  get_block_hash_def get_block_header_def get_block_def get_block_raw_hex_def
  get_raw_transaction_hex_def get_raw_transaction_verbose_def get_chain_tips_def

lemma sends_methods [sends]:
  "sends_at_most 2 (get_blockchain_info w)" "sends_at_most 2 (get_network_info w)"
  "sends_at_most 2 (get_block_hash w h)" "sends_at_most 2 (get_block_raw_hex w b)"
  "sends_at_most 2 (get_block_header w b)" "sends_at_most 2 (get_raw_transaction_verbose w t)"
  "sends_at_most 2 (get_chain_tips w)"
  by (simp_all add: rpc_method_defs sends)

lemma keeps_config: "sends_at_most n m \<Longrightarrow> rc_config (snd (m c)) = rc_config c"
  by (simp add: sends_at_most_def)

section \<open>Retry, network check and spent outputs\<close>

lemma resolve_auth_reads:
  assumes "resolve_auth w c = (Inr auth, c')" "rc_cached_cookie c = None" "cookie_file (rc_config c) \<noteq> None"
    and "rpc_user (rc_config c) = None \<or> rpc_password (rc_config c) = None"
  shows "\<exists>a. auth = Some a \<and> cookie_of_content (rw_read_cookie w (rc_cookie_reads c)) = Inr a
    \<and> rc_cached_cookie c' = Some a \<and> rc_cookie_reads c' = Suc (rc_cookie_reads c)
    \<and> rc_requests c' = rc_requests c"
  using assms
  by (auto simp: resolve_auth_def read_cookie_file_def split: option.splits sum.splits)

lemma resolve_auth_reads_mono:
  "resolve_auth w c = (r, c') \<Longrightarrow> rc_cookie_reads c \<le> rc_cookie_reads c' \<and> rc_requests c' = rc_requests c
     \<and> rc_config c' = rc_config c"
  by (auto simp: resolve_auth_def read_cookie_file_def split: option.splits sum.splits)


text \<open>A node that rotated its cookie: the cached credentials are stale, the file holds the new ones.\<close>

definition rotated_world :: rpc_world where
  "rotated_world =
     \<lparr>rw_connect = None,
      rw_post = (\<lambda>n auth req. if auth = Some (''user'', ''new'')
        then Inr \<lparr>hr_status = 200, hr_body = Inr (JObj [(''result'', JStr ''abc'')])\<rparr>
        else Inr \<lparr>hr_status = 401, hr_body = Inl []\<rparr>),
      rw_read_cookie = (\<lambda>n. Inr ''user:new'')\<rparr>"

definition stale_client :: rpc_client where
  "stale_client =
     \<lparr>rc_config = bitcoin_rpc_config_default\<lparr>cookie_file := Some ''.cookie''\<rparr>,
      rc_cached_cookie = Some (''user'', ''old''), rc_requests = 0, rc_cookie_reads = 0\<rparr>"

lemmas rpc_sample_defs = rotated_world_def stale_client_def bitcoin_rpc_config_default_def

lemma user_new_cookie: "cookie_of_content (Inr ''user:new'') = Inr (''user'', ''new'')"
  by (simp add: cookie_of_content_def trim_def is_space_def)


text \<open>
  Capabilities are only reported for the configured network: when a network is expected, a node
  on another chain is refused, whatever else it answers, and inspecting a node takes at most six
  requests.
\<close>

theorem capabilities_match_expected_network:
  "(case fst (inspect_capabilities w c) of
      Inr caps \<Rightarrow> (case expected_network (rc_config c) of
         Some expected \<Rightarrow> to_lowercase (nc_network caps) = normalized_network expected | None \<Rightarrow> True)
    | Inl _ \<Rightarrow> True)
   \<and> rc_requests (snd (inspect_capabilities w c)) \<le> rc_requests c + 6"
proof -
  obtain r1 c1 where m1: "get_blockchain_info w c = (r1, c1)" by fastforce
  obtain r2 c2 where m2: "get_network_info w c1 = (r2, c2)" by fastforce
  obtain r3 c3 where m3: "call w Some ''getindexinfo'' [] c2 = (r3, c3)" by fastforce
  have "rc_requests c1 \<le> rc_requests c + 2" "rc_config c1 = rc_config c"
    "rc_requests c2 \<le> rc_requests c1 + 2" "rc_config c2 = rc_config c1"
    "rc_requests c3 \<le> rc_requests c2 + 2"
    using sends_methods(1) [of w, unfolded sends_at_most_def, rule_format, of c]
      sends_methods(2) [of w, unfolded sends_at_most_def, rule_format, of c1]
      sends_call [of w Some "''getindexinfo''" "[]", unfolded sends_at_most_def, rule_format, of c2] m1 m2 m3
    by simp_all
  then show ?thesis
    unfolding inspect_capabilities_def rpc_bind_def
    using m1 m2 m3 by (cases r1; cases r2) (simp_all add: network_mismatch_def split: option.split)
qed

lemma envelope_never_null:
  "envelope_of_json Some j = Some (Some x, e) \<Longrightarrow> x \<noteq> JNull"
  by (auto simp: envelope_of_json_def get_opt_field_def split: option.splits Option.bind_splits
      elim!: as_opt.elims)

lemma parse_response_never_null: "parse_response Some resp \<noteq> Inr JNull"
  using envelope_never_null by (auto simp: parse_response_def split: sum.splits option.splits)

text \<open>
  A spent output is never reported as such: the node answers a query for a spent output with a
  null result, which the response envelope reads as no result at all, so the lookup fails with the
  empty-result error and None is not returned for any answer.
\<close>

theorem get_tx_out_never_none:
  "fst (get_tx_out w txid vout include_mempool c) \<noteq> Inr None
   \<and> parse_response Some \<lparr>hr_status = 200, hr_body = Inr (JObj [(''result'', JNull), (''error'', JNull)])\<rparr>
       = Inl (RpcError (-1) ''Empty result in RPC response'')"
proof
  have "fst (call w Some meth params c) \<noteq> Inr JNull" for meth params
    using parse_response_never_null
    by (auto simp: call_def rpc_bind_def split: prod.splits sum.splits)
  then show "fst (get_tx_out w txid vout include_mempool c) \<noteq> Inr None"
    by (auto simp: get_tx_out_def rpc_bind_def split: prod.splits sum.splits option.splits if_splits)
      (metis fst_conv)+
  show "parse_response Some \<lparr>hr_status = 200, hr_body = Inr (JObj [(''result'', JNull), (''error'', JNull)])\<rparr>
       = Inl (RpcError (-1) ''Empty result in RPC response'')"
    by (simp add: parse_response_def envelope_of_json_def struct_fields_def get_opt_field_def)
qed

end
