(* ===== verification/Tx_Caches.thy ===== *)
theory Tx_Caches
  imports Observations Fifo
begin

text \<open>
  The two caches of previous transactions: \<open>UtxoCache\<close> (\<open>utxo_cache.rs\<close>), bounded and with a time
  to live, used by the live enricher; \<open>HistoricalTxCache\<close> (\<open>historical_replay.rs\<close>), bounded,
  used by the replay. Both map an outpoint to the context of the output it names, and both
  interpret the contract \<open>outpoint_cache\<close>.
\<close>

section \<open>The contract\<close>

locale outpoint_cache =
  fixes ins :: "'tx \<Rightarrow> 's \<Rightarrow> 's"
    and lookup :: "string \<Rightarrow> u32 \<Rightarrow> 's \<Rightarrow> spent_output_context option"
    and key :: "'tx \<Rightarrow> string"
    and outp :: "'tx \<Rightarrow> u32 \<Rightarrow> spent_output_context option"
    and ok :: "'s \<Rightarrow> bool" and size_of :: "'s \<Rightarrow> nat" and cap :: "'s \<Rightarrow> nat"
  assumes ok_insert: "ok s \<Longrightarrow> ok (ins t s)"
    and cap_insert: "ok s \<Longrightarrow> cap (ins t s) = cap s"
    and bounded: "ok s \<Longrightarrow> size_of s \<le> cap s"
    and lookup_insert: "ok s \<Longrightarrow> lookup (key t) v (ins t s) = outp t v"
    and lookup_outpoint: "ok s \<Longrightarrow> lookup txid v s = Some c \<Longrightarrow> soc_txid c = txid \<and> soc_vout c = v"

text \<open>Inserting is a step of a bounded store, whatever the cache does besides.\<close>

sublocale outpoint_cache \<subseteq> bounded_store ins ok size_of cap
  by unfold_locales (simp_all add: ok_insert cap_insert bounded)

context outpoint_cache
begin

text \<open>The transaction inserted last is always found, however many came before it.\<close>

lemma last_inserted_found:
  "ok s \<Longrightarrow> lookup (key t) v (fold ins (ts @ [t]) s) = outp t v \<and>
     size_of (fold ins (ts @ [t]) s) \<le> cap s"
  using lookup_insert [OF ok_fold [of s ts], of t v] size_fold [of s "ts @ [t]"] by simp

end

section \<open>The live cache\<close>

record cached_tx_outputs =
  co_confirmed :: bool
  co_block_height :: "u64 option"
  co_confirmed_at :: "datetime option"
  co_outputs :: "(u32 \<times> u64) list"

record cache_entry =
  ce_data :: cached_tx_outputs
  ce_inserted_at :: int

record utxo_cache =
  uc_map :: "(string \<times> cache_entry) list"
  uc_order :: "string list"
  uc_max_capacity :: usize
  uc_ttl :: int
  uc_hits :: u64
  uc_misses :: u64
  uc_evictions :: u64

definition utxo_cache_new :: "usize \<Rightarrow> int \<Rightarrow> utxo_cache" where
  "utxo_cache_new max_capacity ttl =
     \<lparr>uc_map = [], uc_order = [], uc_max_capacity = max max_capacity 1, uc_ttl = ttl,
      uc_hits = 0, uc_misses = 0, uc_evictions = 0\<rparr>"

definition elapsed :: "int \<Rightarrow> cache_entry \<Rightarrow> int" where
  "elapsed now e = max 0 (now - ce_inserted_at e)"

definition clean_expired :: "int \<Rightarrow> utxo_cache \<Rightarrow> utxo_cache" where
  "clean_expired now c =
     (let expired_keys = map fst (filter (\<lambda>(k, e). elapsed now e \<ge> uc_ttl c) (uc_map c))
      in foldl (\<lambda>c k. c\<lparr>uc_map := AList.delete k (uc_map c),
                        uc_order := filter (\<lambda>x. x \<noteq> k) (uc_order c)\<rparr>) c expired_keys)"

definition utxo_get ::
  "int \<Rightarrow> string \<Rightarrow> u32 \<Rightarrow> utxo_cache \<Rightarrow> spent_output_context option \<times> utxo_cache" where
  "utxo_get now txid vout c =
     (case map_of (uc_map c) txid of
        Some entry \<Rightarrow>
          if elapsed now entry < uc_ttl c then
            (map_option (\<lambda>(idx, val).
               \<lparr>soc_txid = txid, soc_vout = vout, soc_value_sats = val,
                soc_confirmed_height = co_block_height (ce_data entry),
                soc_confirmed_at = co_confirmed_at (ce_data entry)\<rparr>)
             (find (\<lambda>(idx, val). idx = vout) (co_outputs (ce_data entry))),
             c\<lparr>uc_hits := uc_hits c + 1\<rparr>)
          else
            (None, c\<lparr>uc_map := AList.delete txid (uc_map c),
                     uc_order := filter (\<lambda>k. k \<noteq> txid) (uc_order c),
                     uc_misses := uc_misses c + 1\<rparr>)
      | None \<Rightarrow> (None, c\<lparr>uc_misses := uc_misses c + 1\<rparr>))"

definition utxo_insert :: "int \<Rightarrow> string \<Rightarrow> cached_tx_outputs \<Rightarrow> utxo_cache \<Rightarrow> utxo_cache" where
  "utxo_insert now txid tx_info c =
     (let c1 = (if length (uc_map c) \<ge> uc_max_capacity c then clean_expired now c else c)
      in case evict_to (uc_max_capacity c1) (uc_order c1) (uc_map c1) of (popped, order, m) \<Rightarrow>
           c1\<lparr>uc_map := AList.update txid \<lparr>ce_data = tx_info, ce_inserted_at = now\<rparr> m,
              uc_order := order @ [txid],
              uc_evictions := uc_evictions c1 + of_nat (length popped)\<rparr>)"

definition utxo_ok :: "utxo_cache \<Rightarrow> bool" where
  "utxo_ok c \<longleftrightarrow> ordered_table (uc_order c) (uc_map c) \<and> 0 < uc_max_capacity c \<and> 0 < uc_ttl c
     \<and> length (uc_map c) \<le> uc_max_capacity c"

lemma length_delete: "length (AList.delete k m) \<le> length m"
  by (simp add: AList.delete_eq)

lemma ordered_table_drop:
  "ordered_table order m \<Longrightarrow> ordered_table (filter (\<lambda>x. x \<noteq> k) order) (AList.delete k m)"
  by (auto simp: ordered_table_def dom_delete AList.distinct_delete)

lemma utxo_drop_ok:
  "utxo_ok c \<Longrightarrow> utxo_ok (c\<lparr>uc_map := AList.delete k (uc_map c),
                              uc_order := filter (\<lambda>x. x \<noteq> k) (uc_order c)\<rparr>)"
  using length_delete [of k "uc_map c"] by (auto simp: utxo_ok_def intro: ordered_table_drop)

lemma utxo_ok_frame [simp]:
  "utxo_ok (c\<lparr>uc_hits := h\<rparr>) = utxo_ok c" "utxo_ok (c\<lparr>uc_misses := h\<rparr>) = utxo_ok c"
  by (simp_all add: utxo_ok_def)

lemma clean_expired_ok:
  assumes "utxo_ok c"
  shows "utxo_ok (clean_expired now c)" and "uc_max_capacity (clean_expired now c) = uc_max_capacity c"
    and "uc_ttl (clean_expired now c) = uc_ttl c"
proof -
  let ?f = "\<lambda>c k. c\<lparr>uc_map := AList.delete k (uc_map c), uc_order := filter (\<lambda>x. x \<noteq> k) (uc_order c)\<rparr>"
  have "utxo_ok (foldl ?f d ks) \<and> uc_max_capacity (foldl ?f d ks) = uc_max_capacity d
      \<and> uc_ttl (foldl ?f d ks) = uc_ttl d" if "utxo_ok d" for ks d
    using that
  proof (induction ks arbitrary: d)
    case (Cons k ks)
    then show ?case using utxo_drop_ok [OF Cons.prems, of k] by simp
  qed simp
  then show "utxo_ok (clean_expired now c)" "uc_max_capacity (clean_expired now c) = uc_max_capacity c"
    "uc_ttl (clean_expired now c) = uc_ttl c"
    using assms by (simp_all add: clean_expired_def Let_def)
qed

lemma utxo_insert_ok:
  assumes "utxo_ok c"
  shows "utxo_ok (utxo_insert now txid info c)"
    and "uc_max_capacity (utxo_insert now txid info c) = uc_max_capacity c"
    and "uc_ttl (utxo_insert now txid info c) = uc_ttl c"
    and "map_of (uc_map (utxo_insert now txid info c)) txid = Some \<lparr>ce_data = info, ce_inserted_at = now\<rparr>"
proof -
  define c1 where "c1 = (if length (uc_map c) \<ge> uc_max_capacity c then clean_expired now c else c)"
  have c1: "utxo_ok c1" "uc_max_capacity c1 = uc_max_capacity c" "uc_ttl c1 = uc_ttl c"
    using assms clean_expired_ok [OF assms] by (simp_all add: c1_def)
  obtain p ord m where ev: "evict_to (uc_max_capacity c1) (uc_order c1) (uc_map c1) = (p, ord, m)"
    by (metis prod_cases3)
  have e: "utxo_insert now txid info c =
      c1\<lparr>uc_map := AList.update txid \<lparr>ce_data = info, ce_inserted_at = now\<rparr> m,
         uc_order := ord @ [txid], uc_evictions := uc_evictions c1 + of_nat (length p)\<rparr>"
    by (simp add: utxo_insert_def c1_def [symmetric] ev Let_def)
  have "ordered_table (uc_order c1) (uc_map c1)" "0 < uc_max_capacity c1"
    using c1(1) by (simp_all add: utxo_ok_def)
  from evict_insert [OF this(1) ev this(2)] c1
  show "utxo_ok (utxo_insert now txid info c)"
    "uc_max_capacity (utxo_insert now txid info c) = uc_max_capacity c"
    "uc_ttl (utxo_insert now txid info c) = uc_ttl c"
    "map_of (uc_map (utxo_insert now txid info c)) txid = Some \<lparr>ce_data = info, ce_inserted_at = now\<rparr>"
    by (simp_all add: e utxo_ok_def update_conv')
qed

lemma utxo_get_ok:
  assumes "utxo_ok c"
  shows "utxo_ok (snd (utxo_get now txid vout c))"
    and "uc_max_capacity (snd (utxo_get now txid vout c)) = uc_max_capacity c"
    and "uc_ttl (snd (utxo_get now txid vout c)) = uc_ttl c"
  using assms utxo_drop_ok [OF assms, of txid]
  by (auto simp: utxo_get_def utxo_ok_def split: option.splits)

text \<open>The output that a cached transaction gives for an index.\<close>

definition cached_output :: "string \<times> cached_tx_outputs \<Rightarrow> u32 \<Rightarrow> spent_output_context option" where
  "cached_output t vout =
     map_option (\<lambda>(idx, val).
       \<lparr>soc_txid = fst t, soc_vout = vout, soc_value_sats = val,
        soc_confirmed_height = co_block_height (snd t), soc_confirmed_at = co_confirmed_at (snd t)\<rparr>)
     (find (\<lambda>(idx, val). idx = vout) (co_outputs (snd t)))"

lemma utxo_get_Some:
  assumes "fst (utxo_get now txid vout c) = Some ctx"
  obtains e where "map_of (uc_map c) txid = Some e" "elapsed now e < uc_ttl c"
    "cached_output (txid, ce_data e) vout = Some ctx"
  using assms that by (auto simp: utxo_get_def cached_output_def split: option.splits if_splits)

interpretation live_cache: outpoint_cache
  "\<lambda>t. utxo_insert now (fst t) (snd t)" "\<lambda>txid v c. fst (utxo_get now txid v c)" fst cached_output
  utxo_ok "\<lambda>c. length (uc_map c)" uc_max_capacity for now
proof unfold_locales
  fix c :: utxo_cache and t :: "string \<times> cached_tx_outputs" and v
  assume ok: "utxo_ok c"
  show "utxo_ok (utxo_insert now (fst t) (snd t) c)"
    and "uc_max_capacity (utxo_insert now (fst t) (snd t) c) = uc_max_capacity c"
    using utxo_insert_ok [OF ok] by simp_all
  show "length (uc_map c) \<le> uc_max_capacity c" using ok by (simp add: utxo_ok_def)
  have "0 < uc_ttl c" using ok by (simp add: utxo_ok_def)
  then show "fst (utxo_get now (fst t) v (utxo_insert now (fst t) (snd t) c)) = cached_output t v"
    using utxo_insert_ok [OF ok, of now "fst t" "snd t"]
    by (simp add: utxo_get_def cached_output_def elapsed_def)
next
  fix c :: utxo_cache and txid v ctx
  assume "fst (utxo_get now txid v c) = Some ctx"
  then show "soc_txid ctx = txid \<and> soc_vout ctx = v"
    by (elim utxo_get_Some) (auto simp: cached_output_def)
qed

section \<open>The replay cache\<close>

record cached_tx_output =
  to_value_sats :: u64
  to_address :: "string option"
  to_confirmed_height :: u64
  to_confirmed_time :: datetime

record cached_tx =
  ct_txid :: string
  ct_confirmed_height :: u64
  ct_confirmed_time :: datetime
  ct_outputs :: "cached_tx_output list"

record cache_metrics =
  cmx_hits :: u64
  cmx_misses :: u64
  cmx_rpc_lookups :: u64
  cmx_evictions :: u64
  cmx_size :: usize
  cmx_capacity :: usize
  cmx_hit_rate_percent :: f64

record historical_tx_cache =
  hc_capacity :: usize
  hc_entries :: "(string \<times> cached_tx) list"
  hc_order :: "string list"
  hc_hits :: u64
  hc_misses :: u64
  hc_rpc_lookups :: u64
  hc_evictions :: u64

definition historical_tx_cache_new :: "usize \<Rightarrow> historical_tx_cache" where
  "historical_tx_cache_new capacity =
     \<lparr>hc_capacity = max capacity 1, hc_entries = [], hc_order = [], hc_hits = 0, hc_misses = 0,
      hc_rpc_lookups = 0, hc_evictions = 0\<rparr>"

definition tx_output_context :: "cached_tx \<Rightarrow> u32 \<Rightarrow> spent_output_context option" where
  "tx_output_context tx vout =
     (if unat vout < length (ct_outputs tx) then
        let out = ct_outputs tx ! unat vout
        in Some \<lparr>soc_txid = ct_txid tx, soc_vout = vout, soc_value_sats = to_value_sats out,
                 soc_confirmed_height = Some (to_confirmed_height out),
                 soc_confirmed_at = Some (to_confirmed_time out)\<rparr>
      else None)"

definition historical_get ::
  "string \<Rightarrow> u32 \<Rightarrow> historical_tx_cache \<Rightarrow> spent_output_context option \<times> historical_tx_cache" where
  "historical_get txid vout c =
     (case Option.bind (map_of (hc_entries c) txid) (\<lambda>tx. tx_output_context (tx\<lparr>ct_txid := txid\<rparr>) vout) of
        Some ctx \<Rightarrow> (Some ctx, c\<lparr>hc_hits := hc_hits c + 1\<rparr>)
      | None \<Rightarrow> (None, c\<lparr>hc_misses := hc_misses c + 1\<rparr>))"

definition historical_insert :: "cached_tx \<Rightarrow> historical_tx_cache \<Rightarrow> historical_tx_cache" where
  "historical_insert tx c =
     (if map_of (hc_entries c) (ct_txid tx) \<noteq> None
      then c\<lparr>hc_entries := AList.update (ct_txid tx) tx (hc_entries c)\<rparr>
      else case evict_to (hc_capacity c) (hc_order c) (hc_entries c) of (popped, order, m) \<Rightarrow>
             c\<lparr>hc_order := order @ [ct_txid tx],
               hc_entries := AList.update (ct_txid tx) tx m,
               hc_evictions := hc_evictions c + of_nat (length popped)\<rparr>)"

definition record_rpc_lookup :: "historical_tx_cache \<Rightarrow> historical_tx_cache" where
  "record_rpc_lookup c = c\<lparr>hc_rpc_lookups := hc_rpc_lookups c + 1\<rparr>"

definition historical_metrics :: "historical_tx_cache \<Rightarrow> cache_metrics" where
  "historical_metrics c =
     (let tot = hc_hits c + hc_misses c
      in \<lparr>cmx_hits = hc_hits c, cmx_misses = hc_misses c, cmx_rpc_lookups = hc_rpc_lookups c,
          cmx_evictions = hc_evictions c, cmx_size = length (hc_entries c),
          cmx_capacity = hc_capacity c,
          cmx_hit_rate_percent =
            (if tot > 0
             then f64_mul (f64_div (f64_of_word (hc_hits c)) (f64_of_word tot)) (f64_lit 100)
             else f64_lit 0)\<rparr>)"

text \<open>Here the order lists every stored key exactly once.\<close>

definition historical_ok :: "historical_tx_cache \<Rightarrow> bool" where
  "historical_ok c \<longleftrightarrow> distinct (map fst (hc_entries c)) \<and> distinct (hc_order c)
     \<and> set (hc_order c) = fst ` set (hc_entries c) \<and> 0 < hc_capacity c
     \<and> length (hc_entries c) \<le> hc_capacity c"

lemma fold_delete_dom: "fst ` set (fold AList.delete ks m) = fst ` set m - set ks"
  by (induction ks arbitrary: m) (auto simp: dom_delete)

lemma historical_insert_ok:
  assumes ok: "historical_ok c"
  shows "historical_ok (historical_insert tx c)"
    and "hc_capacity (historical_insert tx c) = hc_capacity c"
    and "map_of (hc_entries (historical_insert tx c)) (ct_txid tx) = Some tx"
proof -
  show "map_of (hc_entries (historical_insert tx c)) (ct_txid tx) = Some tx"
    and "hc_capacity (historical_insert tx c) = hc_capacity c"
    by (simp_all add: historical_insert_def update_conv' split: prod.split)
  show "historical_ok (historical_insert tx c)"
  proof (cases "ct_txid tx \<in> fst ` set (hc_entries c)")
    case True
    with ok show ?thesis
      by (auto simp: historical_insert_def historical_ok_def map_of_eq_None_iff dom_update
          distinct_update length_update)
  next
    case False
    obtain p ord m where ev: "evict_to (hc_capacity c) (hc_order c) (hc_entries c) = (p, ord, m)"
      by (metis prod_cases3)
    have t: "ordered_table (hc_order c) (hc_entries c)" "0 < hc_capacity c"
      using ok by (simp_all add: historical_ok_def ordered_table_def)
    have spec: "hc_order c = p @ ord" "m = fold AList.delete p (hc_entries c)"
      using evict_to_spec [OF t(1) ev t(2)] by blast+
    have "fst ` set m = set ord" "distinct ord" "ct_txid tx \<notin> set ord"
      using ok spec False by (auto simp: historical_ok_def fold_delete_dom)
    moreover note evict_insert [OF t(1) ev t(2), of "ct_txid tx" tx]
    ultimately show ?thesis
      using False t(2) by (simp add: historical_insert_def ev historical_ok_def map_of_eq_None_iff
          ordered_table_def dom_update)
  qed
qed

interpretation replay_cache: outpoint_cache historical_insert "\<lambda>txid v c. fst (historical_get txid v c)"
  ct_txid tx_output_context historical_ok "\<lambda>c. length (hc_entries c)" hc_capacity
proof unfold_locales
  fix c :: historical_tx_cache and t v
  assume ok: "historical_ok c"
  show "historical_ok (historical_insert t c)" "hc_capacity (historical_insert t c) = hc_capacity c"
    using historical_insert_ok [OF ok] by simp_all
  show "length (hc_entries c) \<le> hc_capacity c" using ok by (simp add: historical_ok_def)
  show "fst (historical_get (ct_txid t) v (historical_insert t c)) = tx_output_context t v"
    using historical_insert_ok [OF ok, of t] by (simp add: historical_get_def split: option.split)
next
  fix c :: historical_tx_cache and txid v ctx
  assume "fst (historical_get txid v c) = Some ctx"
  then show "soc_txid ctx = txid \<and> soc_vout ctx = v"
    by (auto simp: historical_get_def tx_output_context_def Let_def bind_eq_Some_conv
        split: option.splits if_splits)
qed

section \<open>Properties\<close>

datatype cache_op = CacheGet int string u32 | CacheInsert int string cached_tx_outputs

fun cache_step :: "cache_op \<Rightarrow> utxo_cache \<Rightarrow> utxo_cache" where
  "cache_step (CacheGet now txid v) c = snd (utxo_get now txid v c)"
| "cache_step (CacheInsert now txid info) c = utxo_insert now txid info c"

interpretation live_ops: bounded_store cache_step utxo_ok "\<lambda>c. length (uc_map c)" uc_max_capacity
proof unfold_locales
  fix c op assume ok: "utxo_ok c"
  show "utxo_ok (cache_step op c)" "uc_max_capacity (cache_step op c) = uc_max_capacity c"
    using utxo_get_ok [OF ok] utxo_insert_ok [OF ok] by (cases op; simp)+
qed (simp add: utxo_ok_def)

text \<open>
  The live UTXO cache never outgrows its capacity, whatever lookups and insertions it serves
  and at whatever instants.
\<close>

theorem utxo_cache_stays_bounded:
  assumes "0 < ttl"
  shows "length (uc_map (fold cache_step ops (utxo_cache_new n ttl))) \<le> max n 1"
proof -
  have "utxo_ok (utxo_cache_new n ttl)"
    using assms by (simp add: utxo_ok_def utxo_cache_new_def ordered_table_def)
  from live_ops.size_fold [OF this] show ?thesis by (simp add: utxo_cache_new_def)
qed

theorem utxo_cache_stays_bounded_witness:
  "length (uc_map (fold cache_step
     [CacheInsert 0 ''a'' \<lparr>co_confirmed = True, co_block_height = None, co_confirmed_at = None,
                           co_outputs = [(0, 5)]\<rparr>,
      CacheInsert 1 ''b'' \<lparr>co_confirmed = True, co_block_height = None, co_confirmed_at = None,
                           co_outputs = [(0, 6)]\<rparr>] (utxo_cache_new 1 10))) \<le> 1"
  using utxo_cache_stays_bounded [of 10
      "[CacheInsert 0 ''a'' \<lparr>co_confirmed = True, co_block_height = None, co_confirmed_at = None,
                             co_outputs = [(0, 5)]\<rparr>,
        CacheInsert 1 ''b'' \<lparr>co_confirmed = True, co_block_height = None, co_confirmed_at = None,
                             co_outputs = [(0, 6)]\<rparr>]" 1]
  by simp

text \<open>
  An inserted transaction answers for its outputs until its time to live has passed and for
  nothing afterwards, in whatever state the cache was.
\<close>

theorem utxo_get_after_insert:
  assumes "utxo_ok c"
  shows "fst (utxo_get later txid v (utxo_insert now txid info c)) =
    (if max 0 (later - now) < uc_ttl c then cached_output (txid, info) v else None)"
  using utxo_insert_ok [OF assms, of now txid info]
  by (simp add: utxo_get_def cached_output_def elapsed_def)

theorem utxo_get_after_insert_witness:
  "fst (utxo_get 20 ''a'' 0 (utxo_insert 5 ''a''
     \<lparr>co_confirmed = True, co_block_height = Some 1, co_confirmed_at = None, co_outputs = [(0, 5)]\<rparr>
     (utxo_cache_new 2 10))) = None
   \<and> fst (utxo_get 14 ''a'' 0 (utxo_insert 5 ''a''
     \<lparr>co_confirmed = True, co_block_height = Some 1, co_confirmed_at = None, co_outputs = [(0, 5)]\<rparr>
     (utxo_cache_new 2 10))) =
     Some \<lparr>soc_txid = ''a'', soc_vout = 0, soc_value_sats = 5, soc_confirmed_height = Some 1,
           soc_confirmed_at = None\<rparr>"
proof -
  have ok: "utxo_ok (utxo_cache_new 2 10)"
    by (simp add: utxo_ok_def utxo_cache_new_def ordered_table_def)
  show ?thesis
    by (simp add: utxo_get_after_insert [OF ok] cached_output_def) (simp add: utxo_cache_new_def)
qed

text \<open>
  In the replay cache the transaction inserted last is found with exactly its own outputs,
  however many insertions, replacements and evictions came before, and the cache stays within its
  capacity.
\<close>

theorem replay_cache_finds_last:
  "fst (historical_get (ct_txid t) v (fold historical_insert (ts @ [t]) (historical_tx_cache_new n))) =
     tx_output_context t v
   \<and> length (hc_entries (fold historical_insert (ts @ [t]) (historical_tx_cache_new n))) \<le> max n 1"
proof -
  have "historical_ok (historical_tx_cache_new n)"
    by (simp add: historical_ok_def historical_tx_cache_new_def)
  from replay_cache.last_inserted_found [OF this, of t v ts] show ?thesis
    by (simp add: historical_tx_cache_new_def)
qed

end
