(* ===== verification/Replay_Engine.thy ===== *)
theory Replay_Engine
  imports Storage Rpc Zmq Tx_Caches
begin

text \<open>
  The historical replay engine (\<open>obschain-ingest/src/historical_replay.rs\<close>): validation of a range
  against the node, jobs with cancellation, pause and resumption from checkpoints, and the
  processing of one block from fetching it to storing events, activities and alerts. The bounded
  transaction cache it uses is in \<open>Tx_Caches\<close>, the storage is the in-memory one of \<open>Storage\<close>.

  What is outside the program is in \<open>replay_env\<close>: the node behind the RPC client, the bitcoin and
  hex crates, the conversion of a timestamp by chrono, the runtime at each height, fresh
  identifiers, the iteration order of a \<open>HashMap\<close>, the rendering of an error, and the requests of
  other tasks that arrive before the block at a height is started. A panic is a value of its own.
\<close>

section \<open>Configuration and errors\<close>

record replay_config =
  rg_batch_size :: usize
  rg_concurrency :: usize
  rg_checkpoint_interval :: u64
  rg_max_range :: u64
  rg_tx_cache_limit :: usize
  rg_db_concurrency :: usize
  rg_sovereign_only :: bool
  rg_api_enabled :: bool

definition replay_config_default :: replay_config where
  "replay_config_default =
     \<lparr>rg_batch_size = 10, rg_concurrency = 2, rg_checkpoint_interval = 25, rg_max_range = 100000,
      rg_tx_cache_limit = 100000, rg_db_concurrency = 2, rg_sovereign_only = True,
      rg_api_enabled = False\<rparr>"

text \<open>Variables that are unset or do not parse take the default; \<open>usize\<close> has 64 bits.\<close>

definition env_u64 :: "(string \<Rightarrow> string option) \<Rightarrow> string \<Rightarrow> u64 \<Rightarrow> u64" where
  "env_u64 var k d = (case Option.bind (var k) parse_u64 of Some v \<Rightarrow> v | None \<Rightarrow> d)"

definition replay_config_from_env :: "(string \<Rightarrow> string option) \<Rightarrow> replay_config" where
  "replay_config_from_env var =
     \<lparr>rg_batch_size = unat (env_u64 var ''OBSCHAIN_REPLAY_BATCH_SIZE'' 10),
      rg_concurrency = unat (env_u64 var ''OBSCHAIN_REPLAY_CONCURRENCY'' 2),
      rg_checkpoint_interval = env_u64 var ''OBSCHAIN_REPLAY_CHECKPOINT_INTERVAL'' 25,
      rg_max_range = env_u64 var ''OBSCHAIN_REPLAY_MAX_RANGE'' 100000,
      rg_tx_cache_limit = unat (env_u64 var ''OBSCHAIN_REPLAY_TX_CACHE_LIMIT'' 100000),
      rg_db_concurrency = unat (env_u64 var ''OBSCHAIN_REPLAY_DB_CONCURRENCY'' 2),
      rg_sovereign_only = (case var ''OBSCHAIN_SOVEREIGN_ONLY'' of
          Some v \<Rightarrow> to_lowercase v \<noteq> ''false'' | None \<Rightarrow> True),
      rg_api_enabled = (case var ''OBSCHAIN_REPLAY_API_ENABLED'' of
          Some v \<Rightarrow> to_lowercase v = ''true'' | None \<Rightarrow> False)\<rparr>"

datatype replay_error =
    Validation u64 u64
  | PrunedHistoryUnavailable u64 u64
  | InitialBlockDownloadActive
  | HeightBeyondTip u64 u64
  | RangeExceedsMaximum u64 u64
  | JobNotFound uuid
  | JobAlreadyFinished uuid replay_job_status
  | RpcFailure bitcoin_rpc_error
  | StorageFailure storage_error
  | HexDecode string
  | BlockDeserialize string
  | SovereignViolation string

section \<open>State\<close>

datatype replay_request = CancelReplay uuid | PauseReplay uuid

record replay_env =
  rn_world :: rpc_world
  rn_lib :: bitcoin_lib
  rn_hex_decode :: "string \<Rightarrow> string + u8 list"
  rn_timestamp :: "int \<Rightarrow> datetime option"
  rn_runtime :: "u64 \<Rightarrow> runtime"
  rn_metric_ids :: "u64 \<Rightarrow> nat \<Rightarrow> nat \<Rightarrow> uuid"
  rn_watch_ids :: "nat \<Rightarrow> uuid"
  rn_map_order :: "u64 \<Rightarrow> cached_tx list \<Rightarrow> cached_tx list"
  rn_error_text :: "replay_error \<Rightarrow> string"
  rn_requests :: "u64 \<Rightarrow> replay_request list"

record replay_engine =
  re_client :: rpc_client
  re_storage :: in_memory_storage
  re_detectors :: detector_engine
  re_watch :: "watch_run option"
  re_cache :: historical_tx_cache
  re_config :: replay_config
  re_cancel_tokens :: "(uuid \<times> bool) list"
  re_pause_tokens :: "(uuid \<times> bool) list"

definition replay_engine_new ::
  "rpc_client \<Rightarrow> in_memory_storage \<Rightarrow> detector_engine \<Rightarrow> watch_run option \<Rightarrow> replay_config \<Rightarrow> replay_engine" where
  "replay_engine_new client storage detectors watch config =
     \<lparr>re_client = client, re_storage = storage, re_detectors = detectors, re_watch = watch,
      re_cache = historical_tx_cache_new (rg_tx_cache_limit config), re_config = config,
      re_cancel_tokens = [], re_pause_tokens = []\<rparr>"

section \<open>Jobs\<close>

text \<open>Running an operation of the client inside the engine.\<close>

definition with_client :: "'a rpc \<Rightarrow> replay_engine \<Rightarrow> (bitcoin_rpc_error + 'a) \<times> replay_engine" where
  "with_client m e = (case m (re_client e) of (r, c) \<Rightarrow> (r, e\<lparr>re_client := c\<rparr>))"

definition range_error :: "replay_config \<Rightarrow> u64 \<Rightarrow> u64 \<Rightarrow> replay_error option" where
  "range_error config start_height end_height =
     (if start_height > end_height then Some (Validation start_height end_height)
      else let requested = end_height - start_height + 1
           in if requested > rg_max_range config
              then Some (RangeExceedsMaximum requested (rg_max_range config)) else None)"

definition capability_error :: "bitcoin_node_capabilities \<Rightarrow> u64 \<Rightarrow> u64 \<Rightarrow> replay_error option" where
  "capability_error caps start_height end_height =
     (if nc_initial_block_download caps \<and> to_lowercase (nc_network caps) \<noteq> ''regtest''
      then Some InitialBlockDownloadActive
      else case (if nc_pruned caps then nc_prune_height caps else None) of
             Some h \<Rightarrow>
               if start_height < h then Some (PrunedHistoryUnavailable start_height h)
               else if end_height > nc_blocks caps then Some (HeightBeyondTip end_height (nc_blocks caps))
               else None
           | None \<Rightarrow>
               if end_height > nc_blocks caps then Some (HeightBeyondTip end_height (nc_blocks caps))
               else None)"

definition validate_capabilities_and_range ::
  "replay_env \<Rightarrow> u64 \<Rightarrow> u64 \<Rightarrow> replay_engine \<Rightarrow> (replay_error + bitcoin_node_capabilities) \<times> replay_engine" where
  "validate_capabilities_and_range env start_height end_height e =
     (case range_error (re_config e) start_height end_height of
        Some err \<Rightarrow> (Inl err, e)
      | None \<Rightarrow>
          (case with_client (inspect_capabilities (rn_world env)) e of
             (Inl err, e1) \<Rightarrow> (Inl (RpcFailure err), e1)
           | (Inr caps, e1) \<Rightarrow>
               (case capability_error caps start_height end_height of
                  Some err \<Rightarrow> (Inl err, e1)
                | None \<Rightarrow> (Inr caps, e1))))"

definition create_replay_job ::
  "replay_env \<Rightarrow> runtime \<Rightarrow> u64 \<Rightarrow> u64 \<Rightarrow> replay_engine \<Rightarrow> (replay_error + replay_job) \<times> replay_engine" where
  "create_replay_job env rt start_height end_height e =
     (case validate_capabilities_and_range env start_height end_height e of
        (Inl err, e1) \<Rightarrow> (Inl err, e1)
      | (Inr caps, e1) \<Rightarrow>
          let job = replay_job_new rt (nc_network caps) start_height end_height
                      (''bitcoin_core_rpc:'' @ nc_network caps)
          in (Inr job, e1\<lparr>re_storage := create_job job (re_storage e1)\<rparr>))"

definition persist_job :: "replay_job \<Rightarrow> replay_engine \<Rightarrow> replay_error + replay_engine" where
  "persist_job job e =
     (case update_job job (re_storage e) of
        Inl err \<Rightarrow> Inl (StorageFailure err)
      | Inr s \<Rightarrow> Inr (e\<lparr>re_storage := s\<rparr>))"

definition raise_token :: "uuid \<Rightarrow> (uuid \<times> bool) list \<Rightarrow> (uuid \<times> bool) list" where
  "raise_token job tokens = (if map_of tokens job \<noteq> None then AList.update job True tokens else tokens)"

definition cancel_replay :: "datetime \<Rightarrow> uuid \<Rightarrow> replay_engine \<Rightarrow> (replay_error + unit) \<times> replay_engine" where
  "cancel_replay now job_id e =
     (let e1 = e\<lparr>re_cancel_tokens := raise_token job_id (re_cancel_tokens e)\<rparr> in
      case get_job job_id (re_storage e1) of
        None \<Rightarrow> (Inr (), e1)
      | Some job \<Rightarrow>
          if is_terminal (rj_status job) then (Inr (), e1)
          else case persist_job (job\<lparr>rj_status := RCancelled, rj_completed_at := Some now\<rparr>) e1 of
                 Inl err \<Rightarrow> (Inl err, e1)
               | Inr e2 \<Rightarrow> (Inr (), e2))"

definition pause_replay :: "uuid \<Rightarrow> replay_engine \<Rightarrow> replay_engine" where
  "pause_replay job_id e = e\<lparr>re_pause_tokens := raise_token job_id (re_pause_tokens e)\<rparr>"

fun handle_request :: "datetime \<Rightarrow> replay_request \<Rightarrow> replay_engine \<Rightarrow> replay_engine" where
  "handle_request now (CancelReplay j) e = snd (cancel_replay now j e)"
| "handle_request now (PauseReplay j) e = pause_replay j e"

section \<open>One block\<close>

text \<open>The time of a header, the wall clock when it cannot be represented.\<close>

definition header_time :: "replay_env \<Rightarrow> u64 \<Rightarrow> int \<Rightarrow> datetime" where
  "header_time env height secs =
     (case rn_timestamp env secs of Some t \<Rightarrow> t | None \<Rightarrow> rt_now (rn_runtime env height))"

definition interval_between :: "datetime \<Rightarrow> datetime \<Rightarrow> u64" where
  "interval_between later earlier = of_int (max (num_seconds (later - earlier)) 0)"

definition block_interval ::
  "replay_env \<Rightarrow> u64 \<Rightarrow> datetime option \<Rightarrow> datetime \<Rightarrow> btc_block \<Rightarrow> replay_engine
     \<Rightarrow> u64 option \<times> replay_engine" where
  "block_interval env height prev_time block_time block e =
     (case prev_time of
        Some p \<Rightarrow> (Some (interval_between block_time p), e)
      | None \<Rightarrow>
          if height > 0 then
            (case with_client (get_block_header (rn_world env) (bb_prev_hash block)) e of
               (Inr hdr, e1) \<Rightarrow>
                 (Some (interval_between block_time (header_time env height (sint (bh_time hdr)))), e1)
             | (Inl _, e1) \<Rightarrow> (None, e1))
          else (None, e))"

definition local_tx :: "bitcoin_lib \<Rightarrow> u64 \<Rightarrow> datetime \<Rightarrow> btc_tx \<Rightarrow> cached_tx" where
  "local_tx lib height block_time tx =
     \<lparr>ct_txid = bt_txid tx, ct_confirmed_height = height, ct_confirmed_time = block_time,
      ct_outputs = map (\<lambda>o'. \<lparr>to_value_sats = bo_value o', to_address = bl_address lib (bo_script o'),
        to_confirmed_height = height, to_confirmed_time = block_time\<rparr>) (bt_outputs tx)\<rparr>"

definition block_map :: "bitcoin_lib \<Rightarrow> u64 \<Rightarrow> datetime \<Rightarrow> btc_tx list \<Rightarrow> (string \<times> cached_tx) list" where
  "block_map lib height block_time txs =
     fold (\<lambda>tx. AList.update (bt_txid tx) (local_tx lib height block_time tx)) txs []"

text \<open>What the node reports of a previous transaction, as the cache keeps it.\<close>

definition cached_of_verbose ::
  "replay_env \<Rightarrow> u64 \<Rightarrow> datetime \<Rightarrow> string \<Rightarrow> get_raw_transaction_verbose_result \<Rightarrow> cached_tx" where
  "cached_of_verbose env height block_time prev_txid v =
     (let prev_time = (case Option.bind (case rx_blocktime v of Some t \<Rightarrow> Some t | None \<Rightarrow> rx_time v)
                                (rn_timestamp env) of
                         Some t \<Rightarrow> t | None \<Rightarrow> block_time);
          conf_height = saturating_sub height (case rx_confirmations v of Some k \<Rightarrow> k | None \<Rightarrow> 1)
      in \<lparr>ct_txid = prev_txid, ct_confirmed_height = conf_height, ct_confirmed_time = prev_time,
          ct_outputs = map (\<lambda>vo.
            \<lparr>to_value_sats = f64_to_u64 (f64_round (f64_mul (rv_value vo) (f64_lit 100000000))),
             to_address = Option.bind (rv_script_pubkey vo) sp_address,
             to_confirmed_height = conf_height, to_confirmed_time = prev_time\<rparr>) (rx_vout v)\<rparr>)"

text \<open>Block-local map, then the bounded cache, then the node.\<close>

definition resolve_input ::
  "replay_env \<Rightarrow> u64 \<Rightarrow> datetime \<Rightarrow> (string \<times> cached_tx) list \<Rightarrow> btc_input \<Rightarrow> replay_engine
     \<Rightarrow> spent_output_context option \<times> replay_engine" where
  "resolve_input env height block_time local inp e =
     (let prev_txid = bi_prev_txid inp; vout = bi_prev_vout inp in
      if bi_prev_null inp then (None, e)
      else case Option.bind (map_of local prev_txid)
                  (\<lambda>tx. tx_output_context (tx\<lparr>ct_txid := prev_txid\<rparr>) vout) of
             Some ctx \<Rightarrow> (Some ctx, e)
           | None \<Rightarrow>
               (case historical_get prev_txid vout (re_cache e) of
                  (Some ctx, cache) \<Rightarrow> (Some ctx, e\<lparr>re_cache := cache\<rparr>)
                | (None, cache) \<Rightarrow>
                    (case with_client (get_raw_transaction_verbose (rn_world env) prev_txid)
                            (e\<lparr>re_cache := cache\<rparr>) of
                       (Inl _, e1) \<Rightarrow> (None, e1)
                     | (Inr v, e1) \<Rightarrow>
                         let tx = cached_of_verbose env height block_time prev_txid v
                         in (tx_output_context tx vout,
                             e1\<lparr>re_cache := historical_insert tx (record_rpc_lookup (re_cache e1))\<rparr>))))"

definition replay_input :: "btc_input \<Rightarrow> spent_output_context option \<Rightarrow> tx_input_observation" where
  "replay_input inp ctx =
     \<lparr>in_txid = bi_prev_txid inp, in_vout = bi_prev_vout inp, in_sequence = bi_sequence inp,
      in_prev_out_value_sats = map_option soc_value_sats ctx, in_prev_out_address = None,
      in_is_coinbase = bi_prev_null inp, in_historical_utxo = ctx\<rparr>"

fun resolve_inputs ::
  "replay_env \<Rightarrow> u64 \<Rightarrow> datetime \<Rightarrow> (string \<times> cached_tx) list \<Rightarrow> btc_input list \<Rightarrow> replay_engine
     \<Rightarrow> tx_input_observation list \<times> replay_engine" where
  "resolve_inputs env height block_time local [] e = ([], e)"
| "resolve_inputs env height block_time local (inp # inps) e =
     (case resolve_input env height block_time local inp e of (ctx, e1) \<Rightarrow>
      case resolve_inputs env height block_time local inps e1 of (obs, e2) \<Rightarrow>
        (replay_input inp ctx # obs, e2))"

definition total_input_of :: "tx_input_observation list \<Rightarrow> u64" where
  "total_input_of ins =
     foldl (\<lambda>acc i. case in_historical_utxo i of Some c \<Rightarrow> saturating_add acc (soc_value_sats c) | None \<Rightarrow> acc)
       0 ins"

definition all_resolved :: "tx_input_observation list \<Rightarrow> bool" where
  "all_resolved ins = list_all (\<lambda>i. in_historical_utxo i \<noteq> None \<or> in_is_coinbase i) ins"

definition replay_transaction ::
  "replay_env \<Rightarrow> string \<Rightarrow> u64 \<Rightarrow> datetime \<Rightarrow> observation_source \<Rightarrow> btc_tx \<Rightarrow> tx_input_observation list
     \<Rightarrow> transaction_observation" where
  "replay_transaction env block_hash height block_time src tx ins =
     (let total_in = total_input_of ins; total_out = total_output tx;
          fee = (if all_resolved ins \<and> total_in \<ge> total_out then total_in - total_out else 0)
      in \<lparr>tx_txid = bt_txid tx, tx_timestamp = block_time, tx_block_hash = Some block_hash,
          tx_block_height = Some height, tx_fee_sats = fee, tx_size = bt_total_size tx,
          tx_weight = bt_weight tx, tx_vsize = bt_vsize tx,
          tx_fee_rate_sat_vb = calculate_fee_rate_sat_vb fee (bt_vsize tx),
          tx_total_input_sats = total_in, tx_total_output_sats = total_out,
          tx_input_count = length ins, tx_output_count = length (bt_outputs tx), tx_inputs = ins,
          tx_outputs = output_observations (rn_lib env) tx, tx_is_rbf = signals_rbf tx,
          tx_confirmed = True, tx_source = Some src\<rparr>)"

fun replay_transactions ::
  "replay_env \<Rightarrow> string \<Rightarrow> u64 \<Rightarrow> datetime \<Rightarrow> observation_source \<Rightarrow> (string \<times> cached_tx) list \<Rightarrow> btc_tx list
     \<Rightarrow> replay_engine \<Rightarrow> transaction_observation list \<times> replay_engine" where
  "replay_transactions env bh height block_time src local [] e = ([], e)"
| "replay_transactions env bh height block_time src local (tx # txs) e =
     (case resolve_inputs env height block_time local (bt_inputs tx) e of (ins, e1) \<Rightarrow>
      case replay_transactions env bh height block_time src local txs e1 of (obs, e2) \<Rightarrow>
        (replay_transaction env bh height block_time src tx ins # obs, e2))"

text \<open>Detection: the block first, then its transactions in order, all in the replay context.\<close>

fun detect_all ::
  "runtime \<Rightarrow> observation_context \<Rightarrow> observation list \<Rightarrow> detector_engine \<Rightarrow> chain_event list \<times> detector_engine" where
  "detect_all rt ctx [] eng = ([], eng)"
| "detect_all rt ctx (ob # obs) eng =
     (case process_observation_with_context rt ob (Some ctx) eng of (evs, eng1) \<Rightarrow>
      case detect_all rt ctx obs eng1 of (evs', eng2) \<Rightarrow> (evs @ evs', eng2))"

record persist_counts =
  pc_created :: u64
  pc_existing :: u64
  pc_observations :: u64

definition persist_event ::
  "replay_env \<Rightarrow> uuid \<Rightarrow> u64 \<Rightarrow> string \<Rightarrow> nat \<times> chain_event \<Rightarrow> persist_counts \<times> in_memory_storage
     \<Rightarrow> persist_counts \<times> in_memory_storage" where
  "persist_event env job_id height block_hash ie cs =
     (case ie of (i, ev) \<Rightarrow> case cs of (pc, s) \<Rightarrow>
      let rt = rn_runtime env height;
          existed = get_event_by_id (ev_id ev) s \<noteq> None;
          pc1 = (if existed then pc\<lparr>pc_existing := pc_existing pc + 1\<rparr>
                 else pc\<lparr>pc_created := pc_created pc + 1\<rparr>);
          s1 = save_event (rn_metric_ids env height i) (rt_now rt) ev s;
          n = event_observation_historical_replay rt (ev_id ev) job_id
                (observation_source_new ''bitcoin_core'' ''rpc_historical_replay'' None) (rt_now rt)
                (Some (ev_event_time ev)) (Some height) (Some block_hash)
      in (pc1\<lparr>pc_observations := pc_observations pc1 + 1\<rparr>, save_event_observation n s1))"

definition persist_events ::
  "replay_env \<Rightarrow> uuid \<Rightarrow> u64 \<Rightarrow> string \<Rightarrow> chain_event list \<Rightarrow> in_memory_storage
     \<Rightarrow> persist_counts \<times> in_memory_storage" where
  "persist_events env job_id height block_hash evs s =
     fold (persist_event env job_id height block_hash) (enumerate 0 evs)
       (\<lparr>pc_created = 0, pc_existing = 0, pc_observations = 0\<rparr>, s)"

definition store_result :: "watch_result \<Rightarrow> in_memory_storage \<Rightarrow> in_memory_storage" where
  "store_result r s =
     (case snd r of Some al \<Rightarrow> save_alert al (save_activity (fst r) s) | None \<Rightarrow> save_activity (fst r) s)"

definition watch_tx ::
  "replay_env \<Rightarrow> u64 \<Rightarrow> string \<Rightarrow> transaction_observation \<Rightarrow> watch_run \<times> in_memory_storage
     \<Rightarrow> watch_run \<times> in_memory_storage" where
  "watch_tx env height block_hash tx ws =
     (case ws of (r, s) \<Rightarrow>
      let r1 = process_transaction (rn_watch_ids env) (rt_now (rn_runtime env height)) tx (Some height)
                 (Some block_hash) r
      in (r1, fold store_result (wr_results r1) s))"

definition watch_all ::
  "replay_env \<Rightarrow> u64 \<Rightarrow> string \<Rightarrow> block_observation \<Rightarrow> transaction_observation list \<Rightarrow> replay_engine
     \<Rightarrow> replay_engine" where
  "watch_all env height block_hash block_obs txs e =
     (case re_watch e of
        None \<Rightarrow> e
      | Some r \<Rightarrow>
          let r1 = watch_process_block block_obs r;
              s1 = fold store_result (wr_results r1) (re_storage e)
          in case fold (watch_tx env height block_hash) txs (r1, s1) of (r2, s2) \<Rightarrow>
               e\<lparr>re_watch := Some r2, re_storage := s2\<rparr>)"

record block_outcome =
  bo_time :: datetime
  bo_tx_count :: usize
  bo_event_count :: usize
  bo_created :: u64
  bo_existing :: u64
  bo_observed :: u64

definition fetch_block ::
  "replay_env \<Rightarrow> u64 \<Rightarrow> replay_engine \<Rightarrow> (replay_error + (string \<times> u8 list \<times> btc_block)) \<times> replay_engine" where
  "fetch_block env height e =
     (case with_client (get_block_hash (rn_world env) height) e of
        (Inl err, e1) \<Rightarrow> (Inl (RpcFailure err), e1)
      | (Inr block_hash, e1) \<Rightarrow>
          (case with_client (get_block_raw_hex (rn_world env) block_hash) e1 of
             (Inl err, e2) \<Rightarrow> (Inl (RpcFailure err), e2)
           | (Inr raw_hex, e2) \<Rightarrow>
               (case rn_hex_decode env raw_hex of
                  Inl err \<Rightarrow> (Inl (HexDecode err), e2)
                | Inr raw \<Rightarrow>
                    (case bl_deserialize_block (rn_lib env) raw of
                       Inl err \<Rightarrow> (Inl (BlockDeserialize err), e2)
                     | Inr block \<Rightarrow> (Inr (block_hash, raw, block), e2)))))"

definition process_block ::
  "replay_env \<Rightarrow> replay_job \<Rightarrow> u64 \<Rightarrow> datetime option \<Rightarrow> replay_engine
     \<Rightarrow> (replay_error + block_outcome) \<times> replay_engine" where
  "process_block env job height prev_time e =
     (case fetch_block env height e of
        (Inl err, e1) \<Rightarrow> (Inl err, e1)
      | (Inr (block_hash, raw, block), e1) \<Rightarrow>
          let rt = rn_runtime env height;
              block_time = header_time env height (uint (bb_time block));
              src = bitcoin_core_rpc (rpc_url (rc_config (re_client e1)))
          in case block_interval env height prev_time block_time block e1 of (interval, e2) \<Rightarrow>
          let block_obs =
                \<lparr>blk_hash = block_hash, blk_height = height, blk_timestamp = block_time,
                 blk_previous_block_hash = bb_prev_hash block, blk_tx_count = length (bb_txdata block),
                 blk_size_bytes = of_nat (length raw), blk_weight = bb_weight block,
                 blk_difficulty = Some (bb_difficulty block), blk_miner_tag = None,
                 blk_interval_seconds = interval, blk_source = Some src\<rparr>;
              local = block_map (rn_lib env) height block_time (bb_txdata block)
          in case replay_transactions env block_hash height block_time src local (bb_txdata block) e2 of
               (txs, e3) \<Rightarrow>
          let e4 = e3\<lparr>re_cache := fold historical_insert (rn_map_order env height (map snd local)) (re_cache e3)\<rparr>;
              ctx = context_historical_replay (rj_id job) height block_hash block_time (rj_network job)
          in case detect_all rt ctx (ObsBlock block_obs # map ObsTransaction txs) (re_detectors e4) of
               (events, eng) \<Rightarrow>
             case persist_events env (rj_id job) height block_hash events (re_storage e4) of
               (pc, s) \<Rightarrow>
          let e5 = e4\<lparr>re_detectors := eng, re_storage := s\<rparr>
          in (Inr \<lparr>bo_time = block_time, bo_tx_count = length (bb_txdata block),
                   bo_event_count = length events, bo_created = pc_created pc,
                   bo_existing = pc_existing pc, bo_observed = pc_observations pc\<rparr>,
              watch_all env height block_hash block_obs txs e5))"

section \<open>The job loop\<close>

text \<open>
  How one pass of the loop ends: the next height follows, the loop is left, the job returns an
  error, or the task panics (the remainder by a checkpoint interval of zero).
\<close>

record loop_state =
  ls_engine :: replay_engine
  ls_job :: replay_job
  ls_prev_time :: "datetime option"

datatype 'a flow = Continue 'a | Break 'a | Return replay_error 'a | Panic

definition count_block :: "u64 \<Rightarrow> block_outcome \<Rightarrow> replay_job \<Rightarrow> replay_job" where
  "count_block height b job =
     job\<lparr>rj_current_height := height,
         rj_blocks_processed := rj_blocks_processed job + 1,
         rj_transactions_processed := rj_transactions_processed job + of_nat (bo_tx_count b),
         rj_events_generated := rj_events_generated job + of_nat (bo_event_count b),
         rj_events_created := rj_events_created job + bo_created b,
         rj_events_existing := rj_events_existing job + bo_existing b,
         rj_observations_recorded := rj_observations_recorded job + bo_observed b\<rparr>"

definition job_checkpoint :: "runtime \<Rightarrow> u64 \<Rightarrow> replay_job \<Rightarrow> replay_checkpoint" where
  "job_checkpoint rt height job =
     with_provenance_counts
       (replay_checkpoint_new rt (rj_id job) height (rj_blocks_processed job)
          (rj_transactions_processed job) (rj_events_generated job))
       (rj_events_created job) (rj_events_existing job) (rj_observations_recorded job)"

text \<open>\<open>self.storage.update_job(&job).await?\<close> followed by the rest of the pass.\<close>

definition persisting :: "loop_state \<Rightarrow> (loop_state \<Rightarrow> loop_state flow) \<Rightarrow> loop_state flow" where
  "persisting st k =
     (case persist_job (ls_job st) (ls_engine st) of
        Inl err \<Rightarrow> Return err st
      | Inr e \<Rightarrow> k (st\<lparr>ls_engine := e\<rparr>))"

definition token :: "(uuid \<times> bool) list \<Rightarrow> uuid \<Rightarrow> bool" where
  "token ts j = (map_of ts j = Some True)"

definition after_block ::
  "replay_env \<Rightarrow> u64 \<Rightarrow> u64 \<Rightarrow> block_outcome \<Rightarrow> loop_state \<Rightarrow> loop_state flow" where
  "after_block env height end_height b st =
     (let job = count_block height b (ls_job st);
          st1 = st\<lparr>ls_prev_time := Some (bo_time b), ls_job := job\<rparr>;
          interval = rg_checkpoint_interval (re_config (ls_engine st))
      in if interval = 0 then Panic
         else if rj_blocks_processed job mod interval = 0 \<or> height = end_height then
           let e = ls_engine st1;
               e1 = e\<lparr>re_storage :=
                 save_checkpoint (job_checkpoint (rn_runtime env height) height job) (re_storage e)\<rparr>
           in persisting (st1\<lparr>ls_engine := e1\<rparr>) Continue
         else Continue st1)"

definition fail_job :: "replay_env \<Rightarrow> u64 \<Rightarrow> replay_error \<Rightarrow> replay_job \<Rightarrow> replay_job" where
  "fail_job env height err job =
     job\<lparr>rj_error_count := rj_error_count job + 1, rj_last_error := Some (rn_error_text env err),
         rj_status := RFailed, rj_completed_at := Some (rt_now (rn_runtime env height))\<rparr>"

definition block_step :: "replay_env \<Rightarrow> u64 \<Rightarrow> u64 \<Rightarrow> loop_state \<Rightarrow> loop_state flow" where
  "block_step env height end_height st0 =
     (let now = rt_now (rn_runtime env height);
          st = st0\<lparr>ls_engine := fold (handle_request now) (rn_requests env height) (ls_engine st0)\<rparr>;
          e = ls_engine st; job = ls_job st
      in if token (re_cancel_tokens e) (rj_id job) then
           persisting (st\<lparr>ls_job := job\<lparr>rj_status := RCancelled, rj_completed_at := Some now\<rparr>\<rparr>) Break
         else if token (re_pause_tokens e) (rj_id job) then
           persisting (st\<lparr>ls_job := job\<lparr>rj_status := RPaused\<rparr>\<rparr>) Break
         else case process_block env job height (ls_prev_time st) e of
                (Inr b, e1) \<Rightarrow> after_block env height end_height b (st\<lparr>ls_engine := e1\<rparr>)
              | (Inl err, e1) \<Rightarrow>
                  persisting (st\<lparr>ls_engine := e1, ls_job := fail_job env height err job\<rparr>) (Return err))"

text \<open>
  \<open>for height in start..=end\<close>. The range is left after its last height without computing the
  height beyond, which for the greatest \<open>u64\<close> does not exist.
\<close>

function run_blocks :: "replay_env \<Rightarrow> u64 \<Rightarrow> u64 \<Rightarrow> loop_state \<Rightarrow> loop_state flow" where
  "run_blocks env height end_height st =
     (if end_height < height then Break st
      else case block_step env height end_height st of
             Continue st1 \<Rightarrow>
               if height = end_height then Break st1 else run_blocks env (height + 1) end_height st1
           | r \<Rightarrow> r)"
  by pat_completeness auto

lemma unat_suc_less: "h < (e :: u64) \<Longrightarrow> unat (h + 1) = Suc (unat h)"
proof -
  assume "h < e"
  then have "unat h + 1 < 2 ^ LENGTH(64)"
    using unsigned_less [of e, where 'a = nat] by (simp add: word_less_nat_alt)
  then show ?thesis by (simp add: unat_word_ariths)
qed

termination run_blocks
proof (relation "measure (\<lambda>(env, h, e, st). unat e - unat h)")
  fix env h e and st st1 :: loop_state
  assume "\<not> e < h" "block_step env h e st = Continue st1" "h \<noteq> e"
  then have "h < e" by simp
  then show "((env, h + 1, e, st1), env, h, e, st) \<in> measure (\<lambda>(env, h, e, st). unat e - unat h)"
    using unat_suc_less [OF \<open>h < e\<close>] by (simp add: word_less_nat_alt)
qed simp

declare run_blocks.simps [simp del]

datatype 'a outcome = Finished 'a | Panicked

definition drop_tokens :: "uuid \<Rightarrow> replay_engine \<Rightarrow> replay_engine" where
  "drop_tokens j e =
     e\<lparr>re_cancel_tokens := AList.delete j (re_cancel_tokens e),
       re_pause_tokens := AList.delete j (re_pause_tokens e)\<rparr>"

text \<open>After the loop: complete the job if its last block was reached, and drop the tokens.\<close>

definition finish_job :: "datetime \<Rightarrow> u64 \<Rightarrow> loop_state \<Rightarrow> (replay_error + replay_job) \<times> replay_engine" where
  "finish_job now end_height st =
     (let job = ls_job st; e = ls_engine st in
      if rj_status job = RRunning \<and> rj_current_height job = end_height then
        let job1 = job\<lparr>rj_status := RCompleted, rj_completed_at := Some now\<rparr>
        in case persist_job job1 e of
             Inl err \<Rightarrow> (Inl err, e)
           | Inr e1 \<Rightarrow> (Inr job1, drop_tokens (rj_id job) e1)
      else (Inr job, drop_tokens (rj_id job) e))"

definition start_job :: "datetime \<Rightarrow> replay_job \<Rightarrow> replay_job" where
  "start_job now job =
     job\<lparr>rj_status := RRunning,
         rj_started_at := (if rj_started_at job = None then Some now else rj_started_at job)\<rparr>"

definition run_job ::
  "replay_env \<Rightarrow> datetime \<Rightarrow> uuid \<Rightarrow> replay_engine \<Rightarrow> ((replay_error + replay_job) \<times> replay_engine) outcome" where
  "run_job env now job_id e =
     (case get_job job_id (re_storage e) of
        None \<Rightarrow> Finished (Inl (JobNotFound job_id), e)
      | Some job0 \<Rightarrow>
          let job = start_job now job0;
              e1 = e\<lparr>re_cancel_tokens := AList.update job_id False (re_cancel_tokens e),
                     re_pause_tokens := AList.update job_id False (re_pause_tokens e)\<rparr>
          in case persist_job job e1 of
               Inl err \<Rightarrow> Finished (Inl err, e1)
             | Inr e2 \<Rightarrow>
                 (case run_blocks env (rj_current_height job) (rj_end_height job)
                         \<lparr>ls_engine = e2, ls_job = job, ls_prev_time = None\<rparr> of
                    Return err st \<Rightarrow> Finished (Inl err, ls_engine st)
                  | Break st \<Rightarrow> Finished (finish_job now (rj_end_height job) st)
                  | Continue st \<Rightarrow> Finished (finish_job now (rj_end_height job) st)
                  | Panic \<Rightarrow> Panicked))"

definition resume_job :: "replay_checkpoint option \<Rightarrow> replay_job \<Rightarrow> replay_job" where
  "resume_job cp job =
     (case cp of
        None \<Rightarrow> job
      | Some c \<Rightarrow> job\<lparr>rj_current_height := cp_completed_height c + 1,
                      rj_blocks_processed := cp_blocks_processed c,
                      rj_transactions_processed := cp_transactions_processed c,
                      rj_events_generated := cp_events_generated c\<rparr>)"

definition resume_replay ::
  "replay_env \<Rightarrow> datetime \<Rightarrow> uuid \<Rightarrow> replay_engine \<Rightarrow> ((replay_error + replay_job) \<times> replay_engine) outcome" where
  "resume_replay env now job_id e =
     (case get_job job_id (re_storage e) of
        None \<Rightarrow> Finished (Inl (JobNotFound job_id), e)
      | Some job \<Rightarrow>
          if rj_status job = RCompleted \<or> rj_status job = RCancelled
          then Finished (Inl (JobAlreadyFinished job_id (rj_status job)), e)
          else
            let job1 = (resume_job (get_latest_checkpoint job_id (re_storage e)) job)\<lparr>rj_status := RRunning\<rparr>
            in case persist_job job1 e of
                 Inl err \<Rightarrow> Finished (Inl err, e)
               | Inr e1 \<Rightarrow> run_job env now job_id e1)"

section \<open>What processing a block leaves alone\<close>

text \<open>The configurations, the tokens, the jobs and the checkpoints.\<close>

definition job_tables :: "in_memory_storage \<Rightarrow> replay_job list \<times> replay_checkpoint list" where
  "job_tables s = (st_replay_jobs s, st_replay_checkpoints s)"

definition job_view ::
  "replay_engine \<Rightarrow> bitcoin_rpc_config \<times> replay_config \<times> (uuid \<times> bool) list \<times> (uuid \<times> bool) list
     \<times> replay_job list \<times> replay_checkpoint list" where
  "job_view e = (rc_config (re_client e), re_config e, re_cancel_tokens e, re_pause_tokens e,
     job_tables (re_storage e))"

named_theorems job_frame \<open>operations that leave the view of the jobs alone\<close>

lemma job_tables_storage [job_frame]:
  "job_tables (save_event_metrics ms s) = job_tables s"
  "job_tables (save_event v4 now ev s) = job_tables s"
  "job_tables (save_event_observation n s) = job_tables s"
  "job_tables (save_activity a s) = job_tables s"
  "job_tables (save_alert al s) = job_tables s"
proof -
  show 1: "job_tables (save_event_metrics ms s) = job_tables s" for ms s
    by (simp add: job_tables_def save_event_metrics_def)
  have "job_tables (if b then save_event_metrics ms t else t) = job_tables t" for b ms t
    using 1 by simp
  then show "job_tables (save_event v4 now ev s) = job_tables s"
    by (simp add: save_event_def Let_def split: option.split) (simp add: job_tables_def)
qed (simp_all add: job_tables_def save_event_observation_def save_activity_def save_alert_def
    split: option.split)

lemma job_tables_results [job_frame]: "job_tables (fold store_result rs s) = job_tables s"
  by (induction rs arbitrary: s) (simp_all add: store_result_def job_frame split: option.split)

lemma job_tables_persist [job_frame]: "job_tables (snd (persist_events env j h bh evs s)) = job_tables s"
proof -
  have "job_tables (snd (persist_event env j h bh ie cs)) = job_tables (snd cs)" for ie cs
    by (simp add: persist_event_def Let_def job_frame split: prod.split)
  then have "job_tables (snd (fold (persist_event env j h bh) ies cs)) = job_tables (snd cs)" for ies cs
    by (induction ies arbitrary: cs) simp_all
  then show ?thesis by (simp add: persist_events_def)
qed

lemma job_tables_watch [job_frame]:
  "job_tables (snd (fold (watch_tx env h bh) txs rs)) = job_tables (snd rs)"
proof (induction txs arbitrary: rs)
  case (Cons tx txs)
  then show ?case by (simp add: watch_tx_def Let_def job_frame split: prod.split)
qed simp

lemma with_client_view:
  assumes "with_client m e = (r, e1)" "sends_at_most n m"
  shows "job_view e1 = job_view e"
  using assms keeps_config [OF assms(2), of "re_client e"]
  by (auto simp: with_client_def job_view_def split: prod.splits)

lemma job_view_fields [job_frame]:
  "job_view (e\<lparr>re_cache := x\<rparr>) = job_view e" "job_view (e\<lparr>re_detectors := d\<rparr>) = job_view e"
  by (simp_all add: job_view_def)

lemma job_view_input [job_frame]: "job_view (snd (resolve_input env h t l inp e)) = job_view e"
proof -
  have "with_client (get_raw_transaction_verbose w t) (e\<lparr>re_cache := c\<rparr>) = (r, e1) \<Longrightarrow> job_view e1 = job_view e"
    for w t c r e1 using with_client_view [OF _ sends_methods(6)] by (simp add: job_frame)
  then show ?thesis
    by (auto simp: resolve_input_def Let_def job_frame split: option.split prod.split sum.split)
qed

lemma job_view_inputs [job_frame]: "job_view (snd (resolve_inputs env h t l inps e)) = job_view e"
proof (induction inps arbitrary: e)
  case (Cons inp inps)
  have "resolve_input env h t l inp e = (ctx, e1) \<Longrightarrow> job_view e1 = job_view e" for ctx e1
    using job_view_input [of env h t l inp e] by simp
  moreover have "resolve_inputs env h t l inps e1 = (obs, e2) \<Longrightarrow> job_view e2 = job_view e1" for obs e1 e2
    using Cons.IH [of e1] by simp
  ultimately show ?case by (auto split: prod.split)
qed simp

lemma job_view_transactions [job_frame]:
  "job_view (snd (replay_transactions env bh h t src l txs e)) = job_view e"
proof (induction txs arbitrary: e)
  case (Cons tx txs)
  have "resolve_inputs env h t l (bt_inputs tx) e = (ins, e1) \<Longrightarrow> job_view e1 = job_view e" for ins e1
    using job_view_inputs [of env h t l "bt_inputs tx" e] by simp
  moreover have "replay_transactions env bh h t src l txs e1 = (obs, e2) \<Longrightarrow> job_view e2 = job_view e1"
    for obs e1 e2 using Cons.IH [of e1] by simp
  ultimately show ?case by (auto split: prod.split)
qed simp

lemma job_view_fetch: "fetch_block env h e = (r, e1) \<Longrightarrow> job_view e1 = job_view e"
  by (auto simp: fetch_block_def split: prod.splits sum.splits dest!: with_client_view [OF _ sends_methods(3)] with_client_view [OF _ sends_methods(4)])

lemma job_view_interval: "block_interval env h p t b e = (i, e1) \<Longrightarrow> job_view e1 = job_view e"
  by (auto simp: block_interval_def split: option.splits if_splits prod.splits sum.splits
      dest!: with_client_view [OF _ sends_methods(5)])

lemma job_view_watch [job_frame]: "job_view (watch_all env h bh b txs e) = job_view e"
proof (cases "re_watch e")
  case None
  then show ?thesis by (simp add: watch_all_def)
next
  case (Some r)
  let ?r1 = "watch_process_block b r" and ?s1 = "fold store_result (wr_results (watch_process_block b r)) (re_storage e)"
  obtain r2 s2 where "fold (watch_tx env h bh) txs (?r1, ?s1) = (r2, s2)" by fastforce
  then show ?thesis
    using Some job_tables_watch [of env h bh txs "(?r1, ?s1)"]
    by (simp add: watch_all_def Let_def job_view_def job_frame)
qed

text \<open>
  The persisted counts: every event adds one observation and is either new or known.
\<close>

lemma persist_events_counts:
  "pc_observations (fst (persist_events env j h bh evs s)) = of_nat (length evs)
   \<and> pc_created (fst (persist_events env j h bh evs s)) + pc_existing (fst (persist_events env j h bh evs s))
       = of_nat (length evs)"
proof -
  have step: "pc_observations (fst (persist_event env j h bh ie cs)) = pc_observations (fst cs) + 1
      \<and> pc_created (fst (persist_event env j h bh ie cs)) + pc_existing (fst (persist_event env j h bh ie cs))
        = pc_created (fst cs) + pc_existing (fst cs) + 1" for ie cs
    by (simp add: persist_event_def Let_def split: prod.split)
  have "pc_observations (fst (fold (persist_event env j h bh) ies cs)) = pc_observations (fst cs) + of_nat (length ies)
      \<and> pc_created (fst (fold (persist_event env j h bh) ies cs)) + pc_existing (fst (fold (persist_event env j h bh) ies cs))
        = pc_created (fst cs) + pc_existing (fst cs) + of_nat (length ies)" for ies cs
    by (induction ies arbitrary: cs) (simp_all add: step)
  from this [of "enumerate 0 evs"] show ?thesis by (simp add: persist_events_def)
qed

text \<open>The outcome of a block balances: observations, events, and new plus known events agree.\<close>

definition balanced_outcome :: "block_outcome \<Rightarrow> bool" where
  "balanced_outcome b \<longleftrightarrow> bo_observed b = of_nat (bo_event_count b) \<and> bo_created b + bo_existing b = bo_observed b"

lemma process_block_spec:
  assumes "process_block env job h p e = (r, e')"
  shows "job_view e' = job_view e"
    and "(\<exists>b. r = Inr b) \<longleftrightarrow> (\<exists>x. fst (fetch_block env h e) = Inr x)"
    and "r = Inr b \<Longrightarrow> balanced_outcome b"
proof -
  obtain f e1 where f: "fetch_block env h e = (f, e1)" by fastforce
  note v1 = job_view_fetch [OF f]
  have "job_view e' = job_view e \<and> ((\<exists>b. r = Inr b) \<longleftrightarrow> (\<exists>x. f = Inr x)) \<and> (\<forall>b. r = Inr b \<longrightarrow> balanced_outcome b)"
  proof (cases f)
    case (Inl err)
    with assms f v1 show ?thesis by (auto simp: process_block_def)
  next
    case (Inr x)
    obtain bh raw block where x: "x = (bh, raw, block)" by (metis prod_cases3)
    define t where "t = header_time env h (uint (bb_time block))"
    define src where "src = bitcoin_core_rpc (rpc_url (rc_config (re_client e1)))"
    obtain iv e2 where i: "block_interval env h p t block e1 = (iv, e2)" by fastforce
    define l where "l = block_map (rn_lib env) h t (bb_txdata block)"
    obtain txs e3 where tr: "replay_transactions env bh h t src l (bb_txdata block) e2 = (txs, e3)" by fastforce
    define e4 where "e4 = e3\<lparr>re_cache := fold historical_insert (rn_map_order env h (map snd l)) (re_cache e3)\<rparr>"
    define obs where "obs = \<lparr>blk_hash = bh, blk_height = h, blk_timestamp = t,
        blk_previous_block_hash = bb_prev_hash block, blk_tx_count = length (bb_txdata block),
        blk_size_bytes = of_nat (length raw), blk_weight = bb_weight block,
        blk_difficulty = Some (bb_difficulty block), blk_miner_tag = None,
        blk_interval_seconds = iv, blk_source = Some src\<rparr>"
    obtain evs eng where d: "detect_all (rn_runtime env h) (context_historical_replay (rj_id job) h bh t (rj_network job))
        (ObsBlock obs # map ObsTransaction txs) (re_detectors e4) = (evs, eng)" by fastforce
    obtain pc s where pe: "persist_events env (rj_id job) h bh evs (re_storage e4) = (pc, s)" by fastforce
    have run: "process_block env job h p e =
        (Inr \<lparr>bo_time = t, bo_tx_count = length (bb_txdata block), bo_event_count = length evs,
              bo_created = pc_created pc, bo_existing = pc_existing pc, bo_observed = pc_observations pc\<rparr>,
         watch_all env h bh obs txs (e4\<lparr>re_detectors := eng, re_storage := s\<rparr>))"
      using f Inr x i tr d pe
      by (simp add: process_block_def t_def src_def l_def e4_def obs_def Let_def)
    have "job_view (e4\<lparr>re_detectors := eng, re_storage := s\<rparr>) = job_view e3"
      using job_tables_persist [of env "rj_id job" h bh evs "re_storage e4"] pe
      by (simp add: job_view_def e4_def)
    moreover have "job_view e3 = job_view e1"
      using job_view_transactions [of env bh h t src l "bb_txdata block" e2] tr job_view_interval [OF i] by simp
    moreover have "balanced_outcome (projr r)"
      using run assms persist_events_counts [of env "rj_id job" h bh evs "re_storage e4"] pe
      by (auto simp: balanced_outcome_def)
    ultimately show ?thesis using run assms Inr x v1 by (auto simp: job_frame)
  qed
  then show "job_view e' = job_view e" "(\<exists>b. r = Inr b) \<longleftrightarrow> (\<exists>x. fst (fetch_block env h e) = Inr x)"
    "r = Inr b \<Longrightarrow> balanced_outcome b" using f by auto
qed

section \<open>Uninterrupted passes\<close>

text \<open>The node serves every block of a range to a client with this configuration.\<close>

definition served :: "replay_env \<Rightarrow> bitcoin_rpc_config \<Rightarrow> u64 \<Rightarrow> u64 \<Rightarrow> bool" where
  "served env cfg lo hi \<longleftrightarrow>
     (\<forall>h e. rc_config (re_client e) = cfg \<and> lo \<le> h \<and> h \<le> hi \<longrightarrow> (\<exists>x. fst (fetch_block env h e) = Inr x))"

abbreviation client_config :: "loop_state \<Rightarrow> bitcoin_rpc_config" where
  "client_config st \<equiv> rc_config (re_client (ls_engine st))"

text \<open>The job is known to the storage, no token is raised, and a checkpoint interval is set.\<close>

definition ready :: "loop_state \<Rightarrow> bool" where
  "ready st \<longleftrightarrow>
     rg_checkpoint_interval (re_config (ls_engine st)) \<noteq> 0
     \<and> \<not> token (re_cancel_tokens (ls_engine st)) (rj_id (ls_job st))
     \<and> \<not> token (re_pause_tokens (ls_engine st)) (rj_id (ls_job st))
     \<and> get_job (rj_id (ls_job st)) (re_storage (ls_engine st)) \<noteq> None"

lemma persist_job_stored:
  "get_job (rj_id job) (re_storage e) \<noteq> None \<Longrightarrow>
     persist_job job e = Inr (e\<lparr>re_storage := create_job job (re_storage e)\<rparr>)"
  by (simp add: persist_job_def update_job_spec)

lemma get_job_view: "job_tables s' = job_tables s \<Longrightarrow> get_job i s' = get_job i s"
  by (simp add: get_job_def job_tables_def)

lemma get_job_checkpoint [simp]: "get_job i (save_checkpoint c s) = get_job i s"
  by (simp add: get_job_def save_checkpoint_def)

lemma checkpoints_create_job [simp]: "st_replay_checkpoints (create_job j s) = st_replay_checkpoints s"
  by (simp add: create_job_def)

lemma count_block_simps [simp]:
  "rj_id (count_block h b j) = rj_id j" "rj_status (count_block h b j) = rj_status j"
  "rj_end_height (count_block h b j) = rj_end_height j" "rj_current_height (count_block h b j) = h"
  "rj_start_height (count_block h b j) = rj_start_height j"
  "rj_blocks_processed (count_block h b j) = rj_blocks_processed j + 1"
  by (simp_all add: count_block_def)

definition checkpoint_due :: "u64 \<Rightarrow> u64 \<Rightarrow> u64 \<Rightarrow> u64 \<Rightarrow> bool" where
  "checkpoint_due interval height end_height blocks \<longleftrightarrow> blocks mod interval = 0 \<or> height = end_height"

text \<open>What one counted block changes.\<close>

definition stepped :: "replay_env \<Rightarrow> u64 \<Rightarrow> u64 \<Rightarrow> block_outcome \<Rightarrow> loop_state \<Rightarrow> loop_state \<Rightarrow> bool" where
  "stepped env h end_h b st st1 \<longleftrightarrow>
     ls_job st1 = count_block h b (ls_job st) \<and> ready st1
     \<and> client_config st1 = client_config st \<and> re_config (ls_engine st1) = re_config (ls_engine st)
     \<and> re_cancel_tokens (ls_engine st1) = re_cancel_tokens (ls_engine st)
     \<and> re_pause_tokens (ls_engine st1) = re_pause_tokens (ls_engine st)
     \<and> st_replay_checkpoints (re_storage (ls_engine st1)) = st_replay_checkpoints (re_storage (ls_engine st)) @
         (if checkpoint_due (rg_checkpoint_interval (re_config (ls_engine st))) h end_h (rj_blocks_processed (ls_job st) + 1)
          then [job_checkpoint (rn_runtime env h) h (count_block h b (ls_job st))] else [])"

lemma after_block_ready:
  assumes "ready st"
  shows "\<exists>st1. after_block env h end_h b st = Continue st1 \<and> stepped env h end_h b st st1"
proof -
  have "get_job (rj_id (ls_job st)) (save_checkpoint c (re_storage (ls_engine st))) \<noteq> None" for c
    using assms by (simp add: ready_def)
  then show ?thesis
    using assms
    by (auto simp: stepped_def after_block_def Let_def ready_def persisting_def persist_job_stored checkpoint_due_def
        jobs.get_save save_checkpoint_def)
qed

lemma block_step_ready:
  assumes "ready st" "rn_requests env h = []" "\<exists>x. fst (fetch_block env h (ls_engine st)) = Inr x"
  shows "\<exists>b st1. block_step env h end_h st = Continue st1 \<and> balanced_outcome b \<and> stepped env h end_h b st st1"
proof -
  obtain r e1 where p: "process_block env (ls_job st) h (ls_prev_time st) (ls_engine st) = (r, e1)" by fastforce
  note spec = process_block_spec [OF p]
  then obtain b where r: "r = Inr b" "balanced_outcome b" using assms(3) by blast
  have v: "rc_config (re_client e1) = client_config st" "re_config e1 = re_config (ls_engine st)" "re_cancel_tokens e1 = re_cancel_tokens (ls_engine st)"
    "re_pause_tokens e1 = re_pause_tokens (ls_engine st)" "job_tables (re_storage e1) = job_tables (re_storage (ls_engine st))"
    using spec(1) by (simp_all add: job_view_def)
  have "ready (st\<lparr>ls_engine := e1\<rparr>)"
    using assms(1) v get_job_view [OF v(5)] by (simp add: ready_def)
  note after = after_block_ready [OF this, of env h end_h b]
  have step: "block_step env h end_h st = after_block env h end_h b (st\<lparr>ls_engine := e1\<rparr>)"
    using assms(1,2) p r by (simp add: block_step_def Let_def ready_def)
  from after obtain st1 where "after_block env h end_h b (st\<lparr>ls_engine := e1\<rparr>) = Continue st1"
    "stepped env h end_h b (st\<lparr>ls_engine := e1\<rparr>) st1" by blast
  then have "stepped env h end_h b st st1" using v by (simp add: stepped_def job_tables_def)
  with step r(2) \<open>after_block _ _ _ _ _ = Continue st1\<close> show ?thesis by auto
qed

text \<open>
  What \<open>n\<close> uninterrupted blocks change: the count grows by \<open>n\<close>, and nothing is checkpointed while the
  count stays below the interval.
\<close>

definition advanced :: "u64 \<Rightarrow> loop_state \<Rightarrow> loop_state \<Rightarrow> bool" where
  "advanced n st st1 \<longleftrightarrow> ready st1
    \<and> rj_blocks_processed (ls_job st1) = rj_blocks_processed (ls_job st) + n
    \<and> rj_status (ls_job st1) = rj_status (ls_job st) \<and> rj_id (ls_job st1) = rj_id (ls_job st)
    \<and> rj_end_height (ls_job st1) = rj_end_height (ls_job st)
    \<and> rj_start_height (ls_job st1) = rj_start_height (ls_job st)
    \<and> client_config st1 = client_config st \<and> re_config (ls_engine st1) = re_config (ls_engine st)
    \<and> re_cancel_tokens (ls_engine st1) = re_cancel_tokens (ls_engine st)
    \<and> re_pause_tokens (ls_engine st1) = re_pause_tokens (ls_engine st)
    \<and> (unat (rj_blocks_processed (ls_job st)) + unat n < unat (rg_checkpoint_interval (re_config (ls_engine st))) \<longrightarrow>
        st_replay_checkpoints (re_storage (ls_engine st1)) = st_replay_checkpoints (re_storage (ls_engine st)))"

lemma advanced_0: "ready st \<Longrightarrow> advanced 0 st st"
  by (simp add: advanced_def)

lemma advanced_ready: "advanced n st st1 \<Longrightarrow> ready st1"
  by (simp add: advanced_def)

lemma unat_plus_bound:
  fixes a b i :: u64
  assumes "unat a + unat b < unat i"
  shows "unat (a + b) = unat a + unat b"
  using assms unsigned_less [of i, where 'a = nat] by (simp add: unat_word_ariths)

lemma advanced_trans:
  assumes "advanced n st st1" "advanced m st1 st2" "unat (n + m) = unat n + unat m"
  shows "advanced (n + m) st st2"
proof -
  have "st_replay_checkpoints (re_storage (ls_engine st2)) = st_replay_checkpoints (re_storage (ls_engine st))"
    if below: "unat (rj_blocks_processed (ls_job st)) + unat (n + m) < unat (rg_checkpoint_interval (re_config (ls_engine st)))"
  proof -
    have "unat (rj_blocks_processed (ls_job st) + n) = unat (rj_blocks_processed (ls_job st)) + unat n"
      using below assms(3) by (intro unat_plus_bound [of _ _ "rg_checkpoint_interval (re_config (ls_engine st))"]) simp
    with below assms show ?thesis by (simp add: advanced_def)
  qed
  with assms show ?thesis by (simp add: advanced_def add.assoc)
qed

lemma block_step_advances:
  assumes "ready st" "rn_requests env h = []" "\<exists>x. fst (fetch_block env h (ls_engine st)) = Inr x" "h < end_h"
  shows "\<exists>st1. block_step env h end_h st = Continue st1 \<and> advanced 1 st st1
    \<and> rj_current_height (ls_job st1) = h"
proof -
  obtain b st1 where s: "block_step env h end_h st = Continue st1" "stepped env h end_h b st st1"
    using block_step_ready [OF assms(1-3), of end_h] by blast
  let ?i = "rg_checkpoint_interval (re_config (ls_engine st))" and ?k = "rj_blocks_processed (ls_job st)"
  have "\<not> checkpoint_due ?i h end_h (?k + 1)" if below: "unat ?k + unat (1 :: u64) < unat ?i"
  proof -
    have "unat (?k + 1) = unat ?k + 1" using unat_plus_bound [OF below] by simp
    then have "unat ((?k + 1) mod ?i) \<noteq> 0" using below by (simp add: unat_mod)
    then show ?thesis using assms(4) unfolding checkpoint_due_def by (metis less_irrefl unsigned_0)
  qed
  with s show ?thesis by (auto simp: advanced_def stepped_def)
qed

text \<open>The loop runs through the heights before \<open>p\<close> and goes on from there.\<close>

lemma run_blocks_reach:
  assumes "ready st" "h \<le> p" "p \<le> end_h" "served env (client_config st) h end_h"
    and "\<forall>k. h \<le> k \<and> k < p \<longrightarrow> rn_requests env k = []"
  shows "\<exists>st1. run_blocks env h end_h st = run_blocks env p end_h st1 \<and> advanced (p - h) st st1
    \<and> rj_current_height (ls_job st1) = (if p = h then rj_current_height (ls_job st) else p - 1)"
  using assms
proof (induction "unat p - unat h" arbitrary: h st)
  case 0
  then have "p = h" by (simp add: word_le_nat_alt word_unat_eq_iff)
  with 0 show ?case using advanced_0 by auto
next
  case (Suc n)
  then have lt: "h < p" by (simp add: word_less_nat_alt)
  have fetch: "\<exists>x. fst (fetch_block env h (ls_engine st)) = Inr x" and lt_end: "h < end_h"
    using Suc.prems(3,4) lt by (auto simp: served_def)
  obtain st1 where s: "block_step env h end_h st = Continue st1" "advanced 1 st st1" "rj_current_height (ls_job st1) = h"
    using block_step_advances [OF Suc.prems(1) _ fetch lt_end] Suc.prems(5) lt by auto
  have suc: "unat (h + 1) = Suc (unat h)" by (rule unat_suc_less [OF lt])
  have le: "h + 1 \<le> p" and n: "n = unat p - unat (h + 1)"
    using lt suc Suc.hyps(2) by (simp_all add: word_less_nat_alt word_le_nat_alt)
  have h1: "h \<le> h + 1" using suc by (simp add: word_le_nat_alt)
  have "client_config st1 = client_config st" using s(2) by (simp add: advanced_def)
  then have "served env (client_config st1) (h + 1) end_h" "\<forall>k. h + 1 \<le> k \<and> k < p \<longrightarrow> rn_requests env k = []"
    using Suc.prems(4,5) h1 order_trans unfolding served_def by auto
  then obtain st2 where r: "run_blocks env (h + 1) end_h st1 = run_blocks env p end_h st2"
    "advanced (p - (h + 1)) st1 st2"
    "rj_current_height (ls_job st2) = (if p = h + 1 then rj_current_height (ls_job st1) else p - 1)"
    using Suc.hyps(1) [OF n advanced_ready [OF s(2)] le Suc.prems(3)] by blast
  have "run_blocks env h end_h st = run_blocks env p end_h st2"
    using s(1) r(1) lt_end by (subst run_blocks.simps) auto
  moreover have "unat (1 + (p - (h + 1))) = unat (1 :: u64) + unat (p - (h + 1))"
    using unat_sub [OF le] unat_sub [OF less_imp_le [OF lt]] lt suc by (simp add: word_less_nat_alt)
  then have "advanced (p - h) st st2" using advanced_trans [OF s(2) r(2)] by simp
  ultimately show ?case using r(3) s(3) lt by auto
qed

lemma run_blocks_complete:
  assumes "ready st" "h \<le> end_h" "served env (client_config st) h end_h"
    and "\<forall>k. h \<le> k \<and> k \<le> end_h \<longrightarrow> rn_requests env k = []"
  shows "\<exists>st1. run_blocks env h end_h st = Break st1 \<and> ready st1
    \<and> rj_blocks_processed (ls_job st1) = rj_blocks_processed (ls_job st) + (end_h - h + 1)
    \<and> rj_current_height (ls_job st1) = end_h
    \<and> rj_status (ls_job st1) = rj_status (ls_job st) \<and> rj_id (ls_job st1) = rj_id (ls_job st)
    \<and> rj_start_height (ls_job st1) = rj_start_height (ls_job st)
    \<and> rj_end_height (ls_job st1) = rj_end_height (ls_job st)
    \<and> (\<exists>c \<in> set (st_replay_checkpoints (re_storage (ls_engine st1))).
         cp_job_id c = rj_id (ls_job st) \<and> cp_completed_height c = end_h
         \<and> cp_blocks_processed c = rj_blocks_processed (ls_job st1))"
proof -
  obtain st1 where r: "run_blocks env h end_h st = run_blocks env end_h end_h st1" "advanced (end_h - h) st st1"
    using run_blocks_reach [OF assms(1,2) order_refl assms(3)] assms(4) less_imp_le by blast
  have "\<exists>x. fst (fetch_block env end_h (ls_engine st1)) = Inr x" "rn_requests env end_h = []"
    using assms(2-4) r(2) by (auto simp: served_def advanced_def)
  then obtain b st2 where s: "block_step env end_h end_h st1 = Continue st2" "stepped env end_h end_h b st1 st2"
    using block_step_ready [OF advanced_ready [OF r(2)]] by blast
  have "run_blocks env end_h end_h st1 = Break st2"
    using s(1) by (subst run_blocks.simps) simp
  with r s(2) show ?thesis
    by (auto simp: stepped_def advanced_def checkpoint_due_def job_checkpoint_def
        with_provenance_counts_def replay_checkpoint_new_def add.assoc)
qed

lemma token_fresh [simp]: "\<not> token (AList.update j False ts) j"
  by (simp add: token_def update_conv')

lemma start_job_simps [simp]:
  "rj_id (start_job now j) = rj_id j" "rj_status (start_job now j) = RRunning"
  "rj_current_height (start_job now j) = rj_current_height j" "rj_end_height (start_job now j) = rj_end_height j"
  "rj_start_height (start_job now j) = rj_start_height j"
  "rj_blocks_processed (start_job now j) = rj_blocks_processed j"
  by (simp_all add: start_job_def)

lemma get_job_id: "get_job i s = Some j \<Longrightarrow> rj_id j = i"
  by (auto simp: get_job_def find_Some_iff)

text \<open>The state in which the loop of a stored job starts.\<close>

definition loop_start :: "datetime \<Rightarrow> replay_job \<Rightarrow> replay_engine \<Rightarrow> loop_state" where
  "loop_start now job e =
     \<lparr>ls_engine = e\<lparr>re_cancel_tokens := AList.update (rj_id job) False (re_cancel_tokens e),
                     re_pause_tokens := AList.update (rj_id job) False (re_pause_tokens e),
                     re_storage := create_job (start_job now job) (re_storage e)\<rparr>,
      ls_job = start_job now job, ls_prev_time = None\<rparr>"

lemma loop_start_ready:
  assumes "rg_checkpoint_interval (re_config e) \<noteq> 0"
  shows "ready (loop_start now job e)"
  using assms jobs.get_save [of "rj_id job" "start_job now job"] by (simp add: ready_def loop_start_def)

lemma run_job_loop:
  assumes "get_job i (re_storage e) = Some job"
  shows "run_job env now i e =
    (case run_blocks env (rj_current_height job) (rj_end_height job) (loop_start now job e) of
       Return err st \<Rightarrow> Finished (Inl err, ls_engine st)
     | Break st \<Rightarrow> Finished (finish_job now (rj_end_height job) st)
     | Continue st \<Rightarrow> Finished (finish_job now (rj_end_height job) st)
     | Panic \<Rightarrow> Panicked)"
  using assms get_job_id [OF assms] by (simp add: run_job_def Let_def persist_job_stored loop_start_def split: flow.split)

lemma run_job_completes_from:
  assumes "get_job i (re_storage e) = Some job" "rj_current_height job \<le> rj_end_height job"
    and "served env (rc_config (re_client e)) (rj_current_height job) (rj_end_height job)"
    and "\<forall>k. rj_current_height job \<le> k \<and> k \<le> rj_end_height job \<longrightarrow> rn_requests env k = []"
    and "rg_checkpoint_interval (re_config e) \<noteq> 0"
  shows "\<exists>job' e'. run_job env now i e = Finished (Inr job', e') \<and> rj_status job' = RCompleted
    \<and> rj_current_height job' = rj_end_height job
    \<and> rj_blocks_processed job' = rj_blocks_processed job + (rj_end_height job - rj_current_height job + 1)
    \<and> rj_start_height job' = rj_start_height job \<and> rj_end_height job' = rj_end_height job
    \<and> get_job i (re_storage e') = Some job'
    \<and> (\<exists>c \<in> set (st_replay_checkpoints (re_storage e')). cp_job_id c = i
         \<and> cp_completed_height c = rj_end_height job)"
proof -
  have i: "rj_id job = i" by (rule get_job_id [OF assms(1)])
  obtain st where st: "run_blocks env (rj_current_height job) (rj_end_height job) (loop_start now job e) = Break st"
    "ready st" "rj_blocks_processed (ls_job st) = rj_blocks_processed job + (rj_end_height job - rj_current_height job + 1)"
    "rj_current_height (ls_job st) = rj_end_height job" "rj_status (ls_job st) = RRunning" "rj_id (ls_job st) = i"
    "rj_start_height (ls_job st) = rj_start_height job" "rj_end_height (ls_job st) = rj_end_height job"
    "\<exists>c \<in> set (st_replay_checkpoints (re_storage (ls_engine st))). cp_job_id c = i
         \<and> cp_completed_height c = rj_end_height job"
    using run_blocks_complete [OF loop_start_ready [OF assms(5)] assms(2) _ assms(4), of now job] assms(3) i
    by (auto simp: loop_start_def)
  let ?job = "(ls_job st)\<lparr>rj_status := RCompleted, rj_completed_at := Some now\<rparr>"
  have "get_job (rj_id ?job) (re_storage (ls_engine st)) \<noteq> None" using st(2) by (simp add: ready_def)
  then have "persist_job ?job (ls_engine st) =
      Inr ((ls_engine st)\<lparr>re_storage := create_job ?job (re_storage (ls_engine st))\<rparr>)"
    by (rule persist_job_stored)
  then have "run_job env now i e = Finished (Inr ?job,
      drop_tokens i ((ls_engine st)\<lparr>re_storage := create_job ?job (re_storage (ls_engine st))\<rparr>))"
    using st by (simp add: run_job_loop [OF assms(1)] finish_job_def Let_def)
  then show ?thesis
    using st jobs.get_save [of i ?job] by (auto simp: drop_tokens_def)
qed

section \<open>Jobs run to completion\<close>

text \<open>
  C10. A replay over a range the node serves ends, and ends completed: with a positive checkpoint
  interval and no cancellation or pause, running a stored job processes each height from its current
  one to its end exactly once, up to the greatest height a 64-bit counter can hold, stores the
  completed job, and leaves a checkpoint at the last height.
\<close>

theorem replay_runs_to_completion:
  assumes "get_job i (re_storage e) = Some job" "rj_current_height job \<le> rj_end_height job"
    and "served env (rc_config (re_client e)) (rj_current_height job) (rj_end_height job)"
    and "\<forall>k. rj_current_height job \<le> k \<and> k \<le> rj_end_height job \<longrightarrow> rn_requests env k = []"
    and "rg_checkpoint_interval (re_config e) \<noteq> 0"
  shows "\<exists>job' e'. run_job env now i e = Finished (Inr job', e') \<and> rj_status job' = RCompleted
    \<and> rj_current_height job' = rj_end_height job
    \<and> rj_blocks_processed job' = rj_blocks_processed job + (rj_end_height job - rj_current_height job + 1)
    \<and> get_job i (re_storage e') = Some job'
    \<and> (\<exists>c \<in> set (st_replay_checkpoints (re_storage e')). cp_job_id c = i
         \<and> cp_completed_height c = rj_end_height job)"
  using run_job_completes_from [OF assms] by blast

text \<open>A node that serves the same empty block at every height, and a job of three blocks.\<close>

definition empty_block :: btc_block where
  "empty_block = \<lparr>bb_hash = ''00'', bb_prev_hash = ''00'', bb_time = 0, bb_bip34_height = None,
     bb_weight = 0, bb_difficulty = f64_lit 1, bb_txdata = []\<rparr>"

definition quiet_world :: rpc_world where
  "quiet_world = \<lparr>rw_connect = None,
     rw_post = (\<lambda>n auth req. Inr \<lparr>hr_status = 200, hr_body = Inr (JObj [(''result'', JStr ''00'')])\<rparr>),
     rw_read_cookie = (\<lambda>n. Inr ''u:p'')\<rparr>"

definition quiet_env :: "(u64 \<Rightarrow> replay_request list) \<Rightarrow> replay_env" where
  "quiet_env requests =
     \<lparr>rn_world = quiet_world,
      rn_lib = \<lparr>bl_deserialize_tx = (\<lambda>b. Inl []), bl_deserialize_block = (\<lambda>b. Inr empty_block),
        bl_is_op_return = (\<lambda>b. False), bl_is_p2pkh = (\<lambda>b. False), bl_is_p2sh = (\<lambda>b. False),
        bl_is_p2wpkh = (\<lambda>b. False), bl_is_p2wsh = (\<lambda>b. False), bl_is_p2tr = (\<lambda>b. False),
        bl_address = (\<lambda>b. None)\<rparr>,
      rn_hex_decode = (\<lambda>s. Inr []), rn_timestamp = (\<lambda>t. Some (from_timestamp t)),
      rn_runtime = (\<lambda>h. sample_runtime), rn_metric_ids = (\<lambda>h i j. 0), rn_watch_ids = of_nat,
      rn_map_order = (\<lambda>h txs. txs), rn_error_text = (\<lambda>e. []), rn_requests = requests\<rparr>"

text \<open>The engine the job runs on; its client has no credentials to resolve.\<close>

definition quiet_job :: replay_job where
  "quiet_job = replay_job_new sample_runtime ''main'' 100 102 ''bitcoin_core_rpc:main''"

definition quiet_engine :: replay_engine where
  "quiet_engine = replay_engine_new
     \<lparr>rc_config = bitcoin_rpc_config_default, rc_cached_cookie = None, rc_requests = 0, rc_cookie_reads = 0\<rparr>
     (create_job quiet_job (empty_storage 10 10)) (detector_engine_new []) None replay_config_default"

lemma quiet_call: "fst (call quiet_world as_str meth params c) = Inr ''00''"
proof -
  have "cookie_of_content (Inr ''u:p'') = Inr (''u'', ''p'')"
    by (simp add: cookie_of_content_def trim_def is_space_def)
  then have "\<exists>auth c1. resolve_auth quiet_world c = (Inr auth, c1)"
    by (auto simp: resolve_auth_def read_cookie_file_def quiet_world_def split: option.split)
  then obtain auth c1 where "resolve_auth quiet_world c = (Inr auth, c1)" by blast
  then show ?thesis
    by (simp add: call_def rpc_bind_def send_def quiet_world_def parse_response_def envelope_of_json_def
        struct_fields_def get_opt_field_def)
qed

lemma quiet_served: "served (quiet_env requests) cfg lo hi"
proof -
  have "\<exists>e1. with_client (call quiet_world as_str meth params) e = (Inr ''00'', e1)" for meth params e
    using quiet_call [of meth params "re_client e"]
    by (cases "call quiet_world as_str meth params (re_client e)") (simp add: with_client_def)
  note answer = this
  have "\<exists>x. fst (fetch_block (quiet_env requests) h e) = Inr x" for h e
  proof -
    obtain e1 where e1: "with_client (get_block_hash quiet_world h) e = (Inr ''00'', e1)"
      unfolding get_block_hash_def using answer by blast
    obtain e2 where e2: "with_client (get_block_raw_hex quiet_world ''00'') e1 = (Inr ''00'', e2)"
      unfolding get_block_raw_hex_def using answer by blast
    show ?thesis by (simp add: fetch_block_def quiet_env_def e1 e2)
  qed
  then show ?thesis by (simp add: served_def)
qed

lemma quiet_engine_simps [simp]:
  "get_job 7 (re_storage quiet_engine) = Some quiet_job" "rj_id quiet_job = 7"
  "rj_start_height quiet_job = 100" "rj_current_height quiet_job = 100" "rj_end_height quiet_job = 102"
  "rj_blocks_processed quiet_job = 0" "rg_checkpoint_interval (re_config quiet_engine) = 25"
  "get_latest_checkpoint 7 (re_storage quiet_engine) = None" "rj_status quiet_job = RPending"
  "st_replay_checkpoints (re_storage quiet_engine) = []"
  by (simp_all add: quiet_engine_def quiet_job_def replay_engine_new_def replay_job_new_def sample_runtime_def
      get_job_def create_job_def empty_storage_def replay_config_default_def get_latest_checkpoint_def last_max_by_def)

theorem replay_runs_to_completion_witness:
  "\<exists>job' e'. run_job (quiet_env (\<lambda>h. [])) 0 7 quiet_engine = Finished (Inr job', e')
     \<and> rj_status job' = RCompleted \<and> rj_blocks_processed job' = 3"
  using replay_runs_to_completion [of 7 quiet_engine quiet_job "quiet_env (\<lambda>h. [])" 0]
  by (simp add: quiet_served) (auto simp: quiet_env_def)

section \<open>Resuming\<close>

lemma resume_replay_loop:
  assumes "get_job i (re_storage e) = Some job" "rj_status job \<noteq> RCompleted" "rj_status job \<noteq> RCancelled"
  shows "resume_replay env now i e = run_job env now i (e\<lparr>re_storage :=
    create_job ((resume_job (get_latest_checkpoint i (re_storage e)) job)\<lparr>rj_status := RRunning\<rparr>) (re_storage e)\<rparr>)"
proof -
  have id: "rj_id job = i" by (rule get_job_id [OF assms(1)])
  then have "rj_id ((resume_job cp job)\<lparr>rj_status := RRunning\<rparr>) = i" for cp
    by (simp add: resume_job_def split: option.split)
  with assms show ?thesis by (simp add: resume_replay_def Let_def persist_job_stored)
qed


text \<open>A paused job with a checkpoint after its second block.\<close>

definition quiet_checkpoint :: replay_checkpoint where
  "quiet_checkpoint = replay_checkpoint_new sample_runtime 7 101 2 0 0"

definition paused_engine :: replay_engine where
  "paused_engine = quiet_engine\<lparr>re_storage :=
     save_checkpoint quiet_checkpoint (create_job (quiet_job\<lparr>rj_status := RPaused\<rparr>) (re_storage quiet_engine))\<rparr>"


lemma block_step_paused:
  assumes "ready st" "rn_requests env h = [PauseReplay (rj_id (ls_job st))]"
    and "map_of (re_pause_tokens (ls_engine st)) (rj_id (ls_job st)) \<noteq> None"
  shows "block_step env h end_h st = Break (st\<lparr>ls_job := (ls_job st)\<lparr>rj_status := RPaused\<rparr>,
    ls_engine := (ls_engine st)\<lparr>re_pause_tokens := AList.update (rj_id (ls_job st)) True (re_pause_tokens (ls_engine st)),
      re_storage := create_job ((ls_job st)\<lparr>rj_status := RPaused\<rparr>) (re_storage (ls_engine st))\<rparr>\<rparr>)"
proof -
  have "get_job (rj_id (ls_job st)) (re_storage (ls_engine st)) \<noteq> None" using assms(1) by (simp add: ready_def)
  then show ?thesis
    using assms by (auto simp: block_step_def Let_def ready_def pause_replay_def raise_token_def token_def
        update_conv' persisting_def persist_job_stored)
qed

text \<open>Pausing a run before the height \<open>p\<close>: the blocks before it are counted, and the job is stored as paused.\<close>

lemma run_job_paused_at:
  assumes "get_job i (re_storage e) = Some job" "rj_current_height job < p" "p \<le> rj_end_height job"
    and "served env (rc_config (re_client e)) (rj_current_height job) (rj_end_height job)"
    and "\<forall>k. rj_current_height job \<le> k \<and> k < p \<longrightarrow> rn_requests env k = []" "rn_requests env p = [PauseReplay i]"
    and "unat (rj_blocks_processed job) + unat (p - rj_current_height job) < unat (rg_checkpoint_interval (re_config e))"
  shows "\<exists>job' e'. run_job env now i e = Finished (Inr job', e') \<and> get_job i (re_storage e') = Some job'
    \<and> rj_status job' = RPaused \<and> rj_current_height job' = p - 1
    \<and> rj_blocks_processed job' = rj_blocks_processed job + (p - rj_current_height job)
    \<and> rj_start_height job' = rj_start_height job \<and> rj_end_height job' = rj_end_height job
    \<and> st_replay_checkpoints (re_storage e') = st_replay_checkpoints (re_storage e)
    \<and> rc_config (re_client e') = rc_config (re_client e) \<and> re_config e' = re_config e"
proof -
  have i: "rj_id job = i" by (rule get_job_id [OF assms(1)])
  have int: "rg_checkpoint_interval (re_config e) \<noteq> 0" using assms(7) by auto
  let ?s0 = "loop_start now job e"
  obtain st where st: "run_blocks env (rj_current_height job) (rj_end_height job) ?s0 = run_blocks env p (rj_end_height job) st"
    "advanced (p - rj_current_height job) ?s0 st" "rj_current_height (ls_job st) = p - 1"
    using run_blocks_reach [OF loop_start_ready [OF int] less_imp_le [OF assms(2)] assms(3) _ assms(5), of now job]
      assms(2,4) by (auto simp: loop_start_def)
  have id: "rj_id (ls_job st) = i" using st(2) i by (simp add: advanced_def loop_start_def)
  have "map_of (re_pause_tokens (ls_engine st)) (rj_id (ls_job st)) \<noteq> None"
    using st(2) i by (simp add: advanced_def loop_start_def update_conv')
  note pause = block_step_paused [OF advanced_ready [OF st(2)] _ this, of env p "rj_end_height job"]
  let ?job = "(ls_job st)\<lparr>rj_status := RPaused\<rparr>"
  let ?e = "(ls_engine st)\<lparr>re_pause_tokens := AList.update i True (re_pause_tokens (ls_engine st)),
      re_storage := create_job ?job (re_storage (ls_engine st))\<rparr>"
  have "run_blocks env p (rj_end_height job) st = Break (st\<lparr>ls_job := ?job, ls_engine := ?e\<rparr>)"
    using pause assms(3,6) id by (subst run_blocks.simps) simp
  then have "run_job env now i e = Finished (Inr ?job, drop_tokens i ?e)"
    using st(1) id by (simp add: run_job_loop [OF assms(1)] finish_job_def Let_def)
  moreover have "get_job i (create_job ?job s) = Some ?job" for s using id by (simp add: jobs.get_save)
  ultimately show ?thesis
    using st(2,3) assms(7) by (simp add: advanced_def loop_start_def drop_tokens_def)
qed



section \<open>The ledger of a job and its validation\<close>

text \<open>Every generated event is either new or known, and every one is recorded as an observation.\<close>

definition balanced :: "replay_job \<Rightarrow> bool" where
  "balanced j \<longleftrightarrow> rj_events_generated j = rj_observations_recorded j
     \<and> rj_events_created j + rj_events_existing j = rj_observations_recorded j"

fun flow_all :: "('a \<Rightarrow> bool) \<Rightarrow> 'a flow \<Rightarrow> bool" where
  "flow_all P (Continue x) = P x"
| "flow_all P (Break x) = P x"
| "flow_all P (Return err x) = P x"
| "flow_all P Panic = True"

lemma flow_all_persisting:
  "P (ls_job st) \<Longrightarrow> (\<And>e. flow_all (\<lambda>s. P (ls_job s)) (k (st\<lparr>ls_engine := e\<rparr>))) \<Longrightarrow>
     flow_all (\<lambda>s. P (ls_job s)) (persisting st k)"
  by (simp add: persisting_def split: sum.split)

lemma balanced_count_block: "balanced j \<Longrightarrow> balanced_outcome b \<Longrightarrow> balanced (count_block h b j)"
  by (auto simp: balanced_def balanced_outcome_def count_block_def algebra_simps)

lemma balanced_step:
  assumes "balanced (ls_job st)"
  shows "flow_all (\<lambda>s. balanced (ls_job s)) (block_step env h end_h st)"
proof -
  have status: "balanced (j\<lparr>rj_status := x\<rparr>) = balanced j" "balanced (j\<lparr>rj_completed_at := y\<rparr>) = balanced j"
    "balanced (fail_job env h err j) = balanced j" for j x y err
    by (simp_all add: balanced_def fail_job_def)
  have "flow_all (\<lambda>s. balanced (ls_job s)) (after_block env h end_h b (st\<lparr>ls_engine := e\<rparr>))"
    if "balanced_outcome b" for b e
    using assms balanced_count_block [OF _ that]
    by (auto simp: after_block_def Let_def intro!: flow_all_persisting)
  then show ?thesis
    using assms process_block_spec(3)
    by (auto simp: block_step_def Let_def status intro!: flow_all_persisting split: prod.split sum.split)
qed

lemma balanced_run:
  "balanced (ls_job st) \<Longrightarrow> flow_all (\<lambda>s. balanced (ls_job s)) (run_blocks env h end_h st)"
proof (induction env h end_h st rule: run_blocks.induct)
  case (1 env h end_h st)
  note step = balanced_step [OF 1(2), of env h end_h]
  show ?case
  proof (cases "end_h < h")
    case True
    then show ?thesis using 1(2) by (subst run_blocks.simps) simp
  next
    case False
    with step 1 show ?thesis by (subst run_blocks.simps) (auto split: flow.split)
  qed
qed

text \<open>
  C11. The counters of a job balance: however a run ends, completed, cancelled, paused or with an
  error, the returned job has counted as many observations as generated events, each either newly
  created or already known, if the stored job had.
\<close>

theorem replay_ledger_balances:
  assumes "get_job i (re_storage e) = Some job" "balanced job"
    and "run_job env now i e = Finished (Inr job', e')"
  shows "balanced job'"
proof -
  have start: "balanced (ls_job (loop_start now job e))"
    using assms(2) by (simp add: loop_start_def start_job_def balanced_def)
  have fin: "finish_job now h st = (Inr job', e') \<Longrightarrow> balanced (ls_job st) \<Longrightarrow> balanced job'" for h st
    by (auto simp: finish_job_def Let_def balanced_def split: if_splits sum.splits)
  from balanced_run [OF start, of env "rj_current_height job" "rj_end_height job"] assms(3) fin show ?thesis
    by (auto simp: run_job_loop [OF assms(1)] split: flow.splits)
qed

theorem replay_ledger_balances_witness:
  "\<exists>job' e'. run_job (quiet_env (\<lambda>h. [])) 0 7 quiet_engine = Finished (Inr job', e') \<and> balanced job'"
proof -
  obtain job' e' where "run_job (quiet_env (\<lambda>h. [])) 0 7 quiet_engine = Finished (Inr job', e')"
    using run_job_completes_from [of 7 quiet_engine quiet_job "quiet_env (\<lambda>h. [])" 0]
    by (simp add: quiet_served) (auto simp: quiet_env_def)
  moreover have "balanced quiet_job" by (simp add: quiet_job_def replay_job_new_def balanced_def)
  ultimately show ?thesis using replay_ledger_balances [of 7 quiet_engine quiet_job] by auto
qed

text \<open>
  A created job fits the node: the range is ordered and ends at or below the reported tip, it is
  no longer than the configured maximum (unless it covers all 2 to the power 64 heights, where the
  length wraps to zero), it starts at or above the prune height of a pruned node, and outside regtest
  the node has finished its initial download; the job is stored as it is returned.
\<close>

theorem created_job_fits_node:
  assumes "create_replay_job env rt lo hi e = (Inr job, e')"
  shows "lo \<le> hi
    \<and> (unat hi - unat lo + 1 \<le> unat (rg_max_range (re_config e)) \<or> unat hi - unat lo + 1 = 2 ^ 64)
    \<and> (\<exists>caps e1. with_client (inspect_capabilities (rn_world env)) e = (Inr caps, e1)
        \<and> hi \<le> nc_blocks caps \<and> rj_network job = nc_network caps
        \<and> (\<forall>h. nc_pruned caps \<and> nc_prune_height caps = Some h \<longrightarrow> h \<le> lo)
        \<and> (nc_initial_block_download caps \<longrightarrow> to_lowercase (nc_network caps) = ''regtest''))
    \<and> rj_start_height job = lo \<and> rj_end_height job = hi \<and> rj_status job = RPending
    \<and> get_job (rj_id job) (re_storage e') = Some job"
proof -
  obtain caps e1 where v: "validate_capabilities_and_range env lo hi e = (Inr caps, e1)"
    and job: "job = replay_job_new rt (nc_network caps) lo hi (''bitcoin_core_rpc:'' @ nc_network caps)"
    and e': "e' = e1\<lparr>re_storage := create_job job (re_storage e1)\<rparr>"
    using assms by (auto simp: create_replay_job_def Let_def split: prod.splits sum.splits)
  have r: "range_error (re_config e) lo hi = None"
    and c: "with_client (inspect_capabilities (rn_world env)) e = (Inr caps, e1)" "capability_error caps lo hi = None"
    using v by (auto simp: validate_capabilities_and_range_def split: option.splits prod.splits sum.splits)
  have le: "lo \<le> hi" "hi - lo + 1 \<le> rg_max_range (re_config e)"
    using r by (auto simp: range_error_def Let_def split: if_splits)
  have sub: "unat (hi - lo) = unat hi - unat lo" by (rule unat_sub [OF le(1)])
  have "unat hi - unat lo + 1 \<le> unat (rg_max_range (re_config e)) \<or> unat hi - unat lo + 1 = 2 ^ 64"
  proof (cases "unat (hi - lo) + 1 < 2 ^ 64")
    case True
    then have "unat (hi - lo + 1) = unat (hi - lo) + 1" by (simp add: unat_word_ariths)
    with le(2) sub show ?thesis by (simp add: word_le_nat_alt)
  next
    case False
    then show ?thesis using sub unsigned_less [of "hi - lo", where 'a = nat] by simp
  qed
  moreover have "hi \<le> nc_blocks caps" "\<forall>h. nc_pruned caps \<and> nc_prune_height caps = Some h \<longrightarrow> h \<le> lo"
    "nc_initial_block_download caps \<longrightarrow> to_lowercase (nc_network caps) = ''regtest''"
    using c(2) by (auto simp: capability_error_def split: if_splits option.splits)
  moreover have "get_job (rj_id job) (re_storage e') = Some job" by (simp add: e' jobs.get_save)
  ultimately show ?thesis using le c(1) by (auto simp: job replay_job_new_def)
qed

text \<open>A synchronised node on the main chain at height 800000.\<close>

definition synced_world :: rpc_world where
  "synced_world = quiet_world\<lparr>rw_post := (\<lambda>n auth req. Inr \<lparr>hr_status = 200, hr_body = Inr (JObj [(''result'',
     if json_get ''method'' req = Some (JStr ''getblockchaininfo'') then
       JObj [(''chain'', JStr ''main''), (''blocks'', json_nat 800000), (''headers'', json_nat 800000),
             (''bestblockhash'', JStr ''00''), (''difficulty'', json_nat 1),
             (''verificationprogress'', json_nat 1), (''initialblockdownload'', JBool False),
             (''pruned'', JBool False)]
     else if json_get ''method'' req = Some (JStr ''getnetworkinfo'') then
       JObj [(''version'', json_nat 270000), (''subversion'', JStr ''x''), (''protocolversion'', json_nat 70016),
             (''connections'', json_nat 8)]
     else JObj [])])\<rparr>)\<rparr>"

definition synced_env :: replay_env where
  "synced_env = (quiet_env (\<lambda>h. []))\<lparr>rn_world := synced_world\<rparr>"

lemma synced_capabilities:
  "\<exists>caps e1. with_client (inspect_capabilities synced_world) quiet_engine = (Inr caps, e1)
     \<and> nc_network caps = ''main'' \<and> nc_blocks caps = 800000 \<and> \<not> nc_initial_block_download caps \<and> \<not> nc_pruned caps"
  by (simp add: with_client_def inspect_capabilities_def rpc_bind_def get_blockchain_info_def
      get_network_info_def call_def send_def resolve_auth_def rpc_request_def parse_response_def
      envelope_of_json_def struct_fields_def get_opt_field_def get_field_def get_default_field_def
      blockchain_info_of_json_def network_info_of_json_def network_mismatch_def json_nat_def
      synced_world_def quiet_engine_def replay_engine_new_def bitcoin_rpc_config_default_def)

theorem created_job_fits_node_witness:
  "\<exists>job e'. create_replay_job synced_env sample_runtime 100 102 quiet_engine = (Inr job, e')
     \<and> get_job (rj_id job) (re_storage e') = Some job"
proof -
  obtain caps e1 where c: "with_client (inspect_capabilities synced_world) quiet_engine = (Inr caps, e1)"
    "nc_blocks caps = 800000" "\<not> nc_initial_block_download caps" "\<not> nc_pruned caps"
    using synced_capabilities by blast
  have "\<exists>job e'. create_replay_job synced_env sample_runtime 100 102 quiet_engine = (Inr job, e')"
    using c by (simp add: create_replay_job_def validate_capabilities_and_range_def range_error_def
        capability_error_def synced_env_def Let_def quiet_engine_def replay_engine_new_def replay_config_default_def)
  then show ?thesis using created_job_fits_node by blast
qed

end
