(* ===== verification/Mempool.thy ===== *)
theory Mempool
  imports Rpc
begin

text \<open>
  The mempool.space sources (\<open>obschain-ingest/src/mempool_types.rs\<close>, \<open>mempool_rest.rs\<close>,
  \<open>mempool_ws.rs\<close>): decoded payloads and their conversion to observations, the REST client with its
  bounded retries, and the WebSocket supervisor as a transition function of what the socket, the
  timer and the shutdown channel do.

  The HTTP transport is an argument that gives the reply to the n-th request; parsing a text as JSON
  is an argument too. The timestamp conversion of chrono may fail and is an argument \<open>ts\<close>.
\<close>

section \<open>Payloads\<close>

record mempool_block =
  mb_id :: string
  mb_height :: u64
  mb_version :: u32
  mb_timestamp :: int
  mb_tx_count :: usize
  mb_size :: u64
  mb_weight :: u64
  mb_merkle_root :: "string option"
  mb_previousblockhash :: "string option"
  mb_mediantime :: "int option"
  mb_nonce :: "u64 option"
  mb_bits :: "u32 option"
  mb_difficulty :: "f64 option"

definition timestamp_or_now :: "(int \<Rightarrow> datetime option) \<Rightarrow> datetime \<Rightarrow> int \<Rightarrow> datetime" where
  "timestamp_or_now ts now s = (case ts s of Some t \<Rightarrow> t | None \<Rightarrow> now)"

definition block_into_observation ::
  "(int \<Rightarrow> datetime option) \<Rightarrow> datetime \<Rightarrow> mempool_block \<Rightarrow> string \<Rightarrow> block_observation" where
  "block_into_observation ts now b ep =
     \<lparr>blk_hash = mb_id b, blk_height = mb_height b, blk_timestamp = timestamp_or_now ts now (mb_timestamp b),
      blk_previous_block_hash = (case mb_previousblockhash b of Some h \<Rightarrow> h | None \<Rightarrow> []),
      blk_tx_count = mb_tx_count b, blk_size_bytes = mb_size b, blk_weight = mb_weight b,
      blk_difficulty = mb_difficulty b, blk_miner_tag = None, blk_interval_seconds = None,
      blk_source = Some (mempool_rest ep)\<rparr>"

record mempool_tx_status =
  ms_confirmed :: bool
  ms_block_height :: "u64 option"
  ms_block_hash :: "string option"
  ms_block_time :: "int option"

record mempool_tx_prevout =
  po_scriptpubkey :: "string option"
  po_scriptpubkey_asm :: "string option"
  po_scriptpubkey_type :: "string option"
  po_scriptpubkey_address :: "string option"
  po_value :: u64

record mempool_tx_vin =
  vi_txid :: string
  vi_vout :: u32
  vi_prevout :: "mempool_tx_prevout option"
  vi_scriptsig :: "string option"
  vi_scriptsig_asm :: "string option"
  vi_witness :: "string list option"
  vi_is_coinbase :: bool
  vi_sequence :: u32

record mempool_tx_vout =
  vo_scriptpubkey :: "string option"
  vo_scriptpubkey_asm :: "string option"
  vo_scriptpubkey_type :: "string option"
  vo_scriptpubkey_address :: "string option"
  vo_value :: u64

record mempool_tx =
  mt_txid :: string
  mt_version :: int
  mt_locktime :: u32
  mt_vin :: "mempool_tx_vin list"
  mt_vout :: "mempool_tx_vout list"
  mt_size :: u64
  mt_weight :: u64
  mt_fee :: "u64 option"
  mt_status :: mempool_tx_status

definition vin_observation :: "mempool_tx_vin \<Rightarrow> tx_input_observation" where
  "vin_observation v =
     \<lparr>in_txid = vi_txid v, in_vout = vi_vout v, in_sequence = vi_sequence v,
      in_prev_out_value_sats = map_option po_value (vi_prevout v),
      in_prev_out_address = Option.bind (vi_prevout v) po_scriptpubkey_address,
      in_is_coinbase = vi_is_coinbase v, in_historical_utxo = None\<rparr>"

definition vout_observation :: "nat \<Rightarrow> mempool_tx_vout \<Rightarrow> tx_output_observation" where
  "vout_observation n v =
     \<lparr>out_value_sats = vo_value v, out_n = of_nat n, out_script_pubkey_type = vo_scriptpubkey_type v,
      out_address = vo_scriptpubkey_address v, out_scriptpubkey_hex = vo_scriptpubkey v\<rparr>"

text \<open>The running totals that saturate.\<close>

definition saturating_total :: "u64 list \<Rightarrow> u64" where
  "saturating_total vs = foldl saturating_add 0 vs"

definition tx_into_observation ::
  "(int \<Rightarrow> datetime option) \<Rightarrow> datetime \<Rightarrow> mempool_tx \<Rightarrow> string \<Rightarrow> transaction_observation" where
  "tx_into_observation ts now t ep =
     (let fee = (case mt_fee t of Some f \<Rightarrow> f | None \<Rightarrow> 0);
          vs = calculate_vsize_from_weight (mt_weight t);
          ins = map vin_observation (mt_vin t);
          outs = map (\<lambda>(n, v). vout_observation n v) (enumerate 0 (mt_vout t))
      in \<lparr>tx_txid = mt_txid t,
          tx_timestamp = (case Option.bind (ms_block_time (mt_status t)) ts of Some x \<Rightarrow> x | None \<Rightarrow> now),
          tx_block_hash = ms_block_hash (mt_status t), tx_block_height = ms_block_height (mt_status t),
          tx_fee_sats = fee, tx_size = mt_size t, tx_weight = mt_weight t, tx_vsize = vs,
          tx_fee_rate_sat_vb = calculate_fee_rate_sat_vb fee vs,
          tx_total_input_sats = saturating_total (List.map_filter in_prev_out_value_sats ins),
          tx_total_output_sats = saturating_total (map vo_value (mt_vout t)),
          tx_input_count = length ins, tx_output_count = length outs, tx_inputs = ins, tx_outputs = outs,
          tx_is_rbf = list_ex (\<lambda>i. in_sequence i < 0xFFFFFFFE) ins,
          tx_confirmed = ms_confirmed (mt_status t), tx_source = Some (mempool_rest ep)\<rparr>)"

record mempool_stats =
  mst_count :: usize
  mst_vsize :: u64
  mst_total_fee :: u64

definition stats_into_observation :: "datetime \<Rightarrow> mempool_stats \<Rightarrow> string \<Rightarrow> mempool_observation" where
  "stats_into_observation now m ep =
     \<lparr>mp_count = mst_count m, mp_vsize_bytes = mst_vsize m, mp_total_fee_sats = mst_total_fee m,
      mp_min_fee_rate_sat_vb = None, mp_timestamp = now, mp_source = Some (mempool_rest ep)\<rparr>"

record mempool_recent_tx =
  mr_txid :: string
  mr_fee :: u64
  mr_vsize :: u64
  mr_value :: u64

definition saturating_mul :: "'a::len word \<Rightarrow> 'a word \<Rightarrow> 'a word" where
  "saturating_mul x y = (case checked_mul x y of Some z \<Rightarrow> z | None \<Rightarrow> - 1)"

definition recent_into_observation :: "datetime \<Rightarrow> mempool_recent_tx \<Rightarrow> string \<Rightarrow> transaction_observation" where
  "recent_into_observation now t ep =
     \<lparr>tx_txid = mr_txid t, tx_timestamp = now, tx_block_hash = None, tx_block_height = None,
      tx_fee_sats = mr_fee t, tx_size = mr_vsize t, tx_weight = saturating_mul (mr_vsize t) 4,
      tx_vsize = mr_vsize t, tx_fee_rate_sat_vb = calculate_fee_rate_sat_vb (mr_fee t) (mr_vsize t),
      tx_total_input_sats = saturating_add (mr_value t) (mr_fee t), tx_total_output_sats = mr_value t,
      tx_input_count = 1, tx_output_count = 1, tx_inputs = [], tx_outputs = [], tx_is_rbf = False,
      tx_confirmed = False, tx_source = Some (mempool_rest ep)\<rparr>"

record mempool_recommended_fees =
  rf_fastest_fee :: u32
  rf_half_hour_fee :: u32
  rf_hour_fee :: u32
  rf_minimum_fee :: u32
  rf_economy_fee :: "u32 option"

section \<open>Decoding\<close>

text \<open>\<open>usize\<close> has 64 bits.\<close>

definition as_usize :: "json \<Rightarrow> usize option" where
  "as_usize j = map_option unat (as_word j :: u64 option)"

definition mempool_block_of_json :: "json \<Rightarrow> mempool_block option" where
  "mempool_block_of_json j =
     do {
       m \<leftarrow> struct_fields [''id'', ''height'', ''version'', ''timestamp'', ''tx_count'', ''size'', ''weight'',
         ''merkle_root'', ''previousblockhash'', ''mediantime'', ''nonce'', ''bits'', ''difficulty''] j;
       i \<leftarrow> get_field m ''id'' as_str;
       height \<leftarrow> get_field m ''height'' as_word;
       version \<leftarrow> get_field m ''version'' as_word;
       time \<leftarrow> get_field m ''timestamp'' (as_signed 64);
       n \<leftarrow> get_field m ''tx_count'' as_usize;
       sz \<leftarrow> get_field m ''size'' as_word;
       weight \<leftarrow> get_field m ''weight'' as_word;
       merkle \<leftarrow> get_opt_field m ''merkle_root'' as_str;
       prev \<leftarrow> get_opt_field m ''previousblockhash'' as_str;
       median \<leftarrow> get_opt_field m ''mediantime'' (as_signed 64);
       nonce \<leftarrow> get_opt_field m ''nonce'' as_word;
       bits \<leftarrow> get_opt_field m ''bits'' as_word;
       difficulty \<leftarrow> get_opt_field m ''difficulty'' as_f64;
       Some \<lparr>mb_id = i, mb_height = height, mb_version = version, mb_timestamp = time, mb_tx_count = n,
             mb_size = sz, mb_weight = weight, mb_merkle_root = merkle, mb_previousblockhash = prev,
             mb_mediantime = median, mb_nonce = nonce, mb_bits = bits, mb_difficulty = difficulty\<rparr>
     }"

definition tx_status_of_json :: "json \<Rightarrow> mempool_tx_status option" where
  "tx_status_of_json j =
     do {
       m \<leftarrow> struct_fields [''confirmed'', ''block_height'', ''block_hash'', ''block_time''] j;
       confirmed \<leftarrow> get_field m ''confirmed'' as_bool;
       height \<leftarrow> get_opt_field m ''block_height'' as_word;
       hash \<leftarrow> get_opt_field m ''block_hash'' as_str;
       time \<leftarrow> get_opt_field m ''block_time'' (as_signed 64);
       Some \<lparr>ms_confirmed = confirmed, ms_block_height = height, ms_block_hash = hash, ms_block_time = time\<rparr>
     }"

definition prevout_of_json :: "json \<Rightarrow> mempool_tx_prevout option" where
  "prevout_of_json j =
     do {
       m \<leftarrow> struct_fields [''scriptpubkey'', ''scriptpubkey_asm'', ''scriptpubkey_type'',
         ''scriptpubkey_address'', ''value''] j;
       script \<leftarrow> get_opt_field m ''scriptpubkey'' as_str;
       asm \<leftarrow> get_opt_field m ''scriptpubkey_asm'' as_str;
       ty \<leftarrow> get_opt_field m ''scriptpubkey_type'' as_str;
       address \<leftarrow> get_opt_field m ''scriptpubkey_address'' as_str;
       v \<leftarrow> get_default_field m ''value'' 0 as_word;
       Some \<lparr>po_scriptpubkey = script, po_scriptpubkey_asm = asm, po_scriptpubkey_type = ty,
             po_scriptpubkey_address = address, po_value = v\<rparr>
     }"

definition vin_of_json :: "json \<Rightarrow> mempool_tx_vin option" where
  "vin_of_json j =
     do {
       m \<leftarrow> struct_fields [''txid'', ''vout'', ''prevout'', ''scriptsig'', ''scriptsig_asm'', ''witness'',
         ''is_coinbase'', ''sequence''] j;
       txid \<leftarrow> get_field m ''txid'' as_str;
       vout \<leftarrow> get_field m ''vout'' as_word;
       prevout \<leftarrow> get_opt_field m ''prevout'' prevout_of_json;
       script \<leftarrow> get_opt_field m ''scriptsig'' as_str;
       asm \<leftarrow> get_opt_field m ''scriptsig_asm'' as_str;
       witness \<leftarrow> get_opt_field m ''witness'' (as_list as_str);
       coinbase \<leftarrow> get_default_field m ''is_coinbase'' False as_bool;
       q \<leftarrow> get_field m ''sequence'' as_word;
       Some \<lparr>vi_txid = txid, vi_vout = vout, vi_prevout = prevout, vi_scriptsig = script,
             vi_scriptsig_asm = asm, vi_witness = witness, vi_is_coinbase = coinbase, vi_sequence = q\<rparr>
     }"

definition vout_of_json :: "json \<Rightarrow> mempool_tx_vout option" where
  "vout_of_json j =
     do {
       m \<leftarrow> struct_fields [''scriptpubkey'', ''scriptpubkey_asm'', ''scriptpubkey_type'',
         ''scriptpubkey_address'', ''value''] j;
       script \<leftarrow> get_opt_field m ''scriptpubkey'' as_str;
       asm \<leftarrow> get_opt_field m ''scriptpubkey_asm'' as_str;
       ty \<leftarrow> get_opt_field m ''scriptpubkey_type'' as_str;
       address \<leftarrow> get_opt_field m ''scriptpubkey_address'' as_str;
       v \<leftarrow> get_field m ''value'' as_word;
       Some \<lparr>vo_scriptpubkey = script, vo_scriptpubkey_asm = asm, vo_scriptpubkey_type = ty,
             vo_scriptpubkey_address = address, vo_value = v\<rparr>
     }"

definition mempool_tx_of_json :: "json \<Rightarrow> mempool_tx option" where
  "mempool_tx_of_json j =
     do {
       m \<leftarrow> struct_fields [''txid'', ''version'', ''locktime'', ''vin'', ''vout'', ''size'', ''weight'', ''fee'',
         ''status''] j;
       txid \<leftarrow> get_field m ''txid'' as_str;
       version \<leftarrow> get_default_field m ''version'' 0 (as_signed 32);
       locktime \<leftarrow> get_default_field m ''locktime'' 0 as_word;
       vin \<leftarrow> get_default_field m ''vin'' [] (as_list vin_of_json);
       vout \<leftarrow> get_default_field m ''vout'' [] (as_list vout_of_json);
       sz \<leftarrow> get_default_field m ''size'' 0 as_word;
       weight \<leftarrow> get_default_field m ''weight'' 0 as_word;
       fee \<leftarrow> get_opt_field m ''fee'' as_word;
       status \<leftarrow> get_default_field m ''status''
         \<lparr>ms_confirmed = False, ms_block_height = None, ms_block_hash = None, ms_block_time = None\<rparr>
         tx_status_of_json;
       Some \<lparr>mt_txid = txid, mt_version = version, mt_locktime = locktime, mt_vin = vin, mt_vout = vout,
             mt_size = sz, mt_weight = weight, mt_fee = fee, mt_status = status\<rparr>
     }"

definition mempool_stats_of_json :: "json \<Rightarrow> mempool_stats option" where
  "mempool_stats_of_json j =
     do {
       m \<leftarrow> struct_fields [''count'', ''vsize'', ''total_fee''] j;
       n \<leftarrow> get_field m ''count'' as_usize;
       vs \<leftarrow> get_field m ''vsize'' as_word;
       fee \<leftarrow> get_field m ''total_fee'' as_word;
       Some \<lparr>mst_count = n, mst_vsize = vs, mst_total_fee = fee\<rparr>
     }"

definition recent_tx_of_json :: "json \<Rightarrow> mempool_recent_tx option" where
  "recent_tx_of_json j =
     do {
       m \<leftarrow> struct_fields [''txid'', ''fee'', ''vsize'', ''value''] j;
       txid \<leftarrow> get_field m ''txid'' as_str;
       fee \<leftarrow> get_field m ''fee'' as_word;
       vs \<leftarrow> get_field m ''vsize'' as_word;
       v \<leftarrow> get_field m ''value'' as_word;
       Some \<lparr>mr_txid = txid, mr_fee = fee, mr_vsize = vs, mr_value = v\<rparr>
     }"

definition recommended_fees_of_json :: "json \<Rightarrow> mempool_recommended_fees option" where
  "recommended_fees_of_json j =
     do {
       m \<leftarrow> struct_fields [''fastestFee'', ''halfHourFee'', ''hourFee'', ''minimumFee'', ''economyFee''] j;
       fastest \<leftarrow> get_field m ''fastestFee'' as_word;
       half \<leftarrow> get_field m ''halfHourFee'' as_word;
       hour \<leftarrow> get_field m ''hourFee'' as_word;
       minimum \<leftarrow> get_field m ''minimumFee'' as_word;
       economy \<leftarrow> get_opt_field m ''economyFee'' as_word;
       Some \<lparr>rf_fastest_fee = fastest, rf_half_hour_fee = half, rf_hour_fee = hour,
             rf_minimum_fee = minimum, rf_economy_fee = economy\<rparr>
     }"

section \<open>The REST client\<close>

datatype mempool_rest_error =
    RestHttp string
  | RestStatus nat string
  | RestNotFound string
  | ResponseTooLarge usize
  | RestJson
  | RestParse string

record mempool_rest_config =
  mc_base_url :: string
  mc_timeout :: nat
  mc_connect_timeout :: nat
  mc_max_retries :: u32
  mc_max_response_bytes :: usize

definition mempool_rest_config_default :: mempool_rest_config where
  "mempool_rest_config_default =
     \<lparr>mc_base_url = ''https://mempool.space/api'', mc_timeout = 10, mc_connect_timeout = 5,
      mc_max_retries = 3, mc_max_response_bytes = 10 * 1024 * 1024\<rparr>"

text \<open>
  The reply to a request: a transport failure (with whether it is a timeout or a failure to
  connect), or a status with an announced length and a body that may fail to arrive.
\<close>

datatype rest_reply =
    TransportFailure bool string
  | Reply nat "nat option" "string + string"

record rest_world =
  rs_get :: "nat \<Rightarrow> string \<Rightarrow> rest_reply"
  rs_json :: "string \<Rightarrow> json option"

definition is_success :: "nat \<Rightarrow> bool" where
  "is_success status \<longleftrightarrow> 200 \<le> status \<and> status < 300"

definition is_server_error :: "nat \<Rightarrow> bool" where
  "is_server_error status \<longleftrightarrow> 500 \<le> status \<and> status < 600"

definition body_or_empty :: "string + string \<Rightarrow> string" where
  "body_or_empty body = (case body of Inr t \<Rightarrow> t | Inl _ \<Rightarrow> [])"

definition decode_body ::
  "rest_world \<Rightarrow> (json \<Rightarrow> 'a option) \<Rightarrow> usize \<Rightarrow> nat option \<Rightarrow> string + string \<Rightarrow> mempool_rest_error + 'a" where
  "decode_body w decode limit announced body =
     (if (case announced of Some n \<Rightarrow> n > limit | None \<Rightarrow> False) then Inl (ResponseTooLarge limit)
      else case body of
             Inl e \<Rightarrow> Inl (RestHttp e)
           | Inr bytes \<Rightarrow>
               if length bytes > limit then Inl (ResponseTooLarge limit)
               else case Option.bind (rs_json w bytes) decode of
                      None \<Rightarrow> Inl RestJson
                    | Some x \<Rightarrow> Inr x)"

text \<open>Which replies are tried again, and what any other reply means.\<close>

fun transient :: "rest_reply \<Rightarrow> bool" where
  "transient (TransportFailure network e) = network"
| "transient (Reply status announced body) =
     (status \<noteq> 404 \<and> \<not> is_success status \<and> (is_server_error status \<or> status = 429))"

fun reply_result ::
  "rest_world \<Rightarrow> mempool_rest_config \<Rightarrow> (json \<Rightarrow> 'a option) \<Rightarrow> string \<Rightarrow> rest_reply \<Rightarrow> mempool_rest_error + 'a" where
  "reply_result w cfg decode ep (TransportFailure network e) = Inl (RestHttp e)"
| "reply_result w cfg decode ep (Reply status announced body) =
     (if status = 404 then Inl (RestNotFound ep)
      else if \<not> is_success status then Inl (RestStatus status (body_or_empty body))
      else decode_body w decode (mc_max_response_bytes cfg) announced body)"

text \<open>
  The loop, on the number of attempts already made (it stays below the 32-bit limit on retries), the
  delay in nanoseconds, which saturates, and the index of the next request. The result is returned
  with the delays slept and the index of the next request.
\<close>

definition duration_max :: nat where
  "duration_max = (2 ^ 64 - 1) * 10 ^ 9 + 999999999"

function get_loop ::
  "rest_world \<Rightarrow> mempool_rest_config \<Rightarrow> (json \<Rightarrow> 'a option) \<Rightarrow> string \<Rightarrow> nat \<Rightarrow> nat \<Rightarrow> nat
     \<Rightarrow> (mempool_rest_error + 'a) \<times> nat list \<times> nat" where
  "get_loop w cfg decode ep attempts delay n =
     (let reply = rs_get w n (mc_base_url cfg @ ep) in
      if transient reply \<and> Suc attempts < unat (mc_max_retries cfg) then
        (case get_loop w cfg decode ep (Suc attempts) (min (2 * delay) duration_max) (Suc n) of
           (r, ds, n') \<Rightarrow> (r, delay # ds, n'))
      else (reply_result w cfg decode ep reply, [], Suc n))"
  by pat_completeness auto

termination get_loop
  by (relation "measure (\<lambda>(w, cfg, decode, ep, attempts, delay, n). unat (mc_max_retries cfg) - attempts)") auto

declare get_loop.simps [simp del]

definition execute_get_with_retry ::
  "rest_world \<Rightarrow> mempool_rest_config \<Rightarrow> (json \<Rightarrow> 'a option) \<Rightarrow> string \<Rightarrow> nat
     \<Rightarrow> (mempool_rest_error + 'a) \<times> nat list \<times> nat" where
  "execute_get_with_retry w cfg decode ep n = get_loop w cfg decode ep 0 (200 * 10 ^ 6) n"

text \<open>The two plain-text endpoints are asked once.\<close>

definition plain_get :: "rest_world \<Rightarrow> mempool_rest_config \<Rightarrow> string \<Rightarrow> nat \<Rightarrow> mempool_rest_error + string" where
  "plain_get w cfg ep n =
     (case rs_get w n (mc_base_url cfg @ ep) of
        TransportFailure network e \<Rightarrow> Inl (RestHttp e)
      | Reply status announced body \<Rightarrow>
          if \<not> is_success status then Inl (RestStatus status (body_or_empty body))
          else case body of Inl e \<Rightarrow> Inl (RestHttp e) | Inr t \<Rightarrow> Inr (trim t))"

definition get_tip_height :: "rest_world \<Rightarrow> mempool_rest_config \<Rightarrow> nat \<Rightarrow> mempool_rest_error + u64" where
  "get_tip_height w cfg n =
     (case plain_get w cfg ''/blocks/tip/height'' n of
        Inl e \<Rightarrow> Inl e
      | Inr t \<Rightarrow> (case parse_u64 t of Some h \<Rightarrow> Inr h | None \<Rightarrow> Inl (RestParse t)))"

definition get_tip_hash :: "rest_world \<Rightarrow> mempool_rest_config \<Rightarrow> nat \<Rightarrow> mempool_rest_error + string" where
  "get_tip_hash w cfg n = plain_get w cfg ''/blocks/tip/hash'' n"

definition rest_get_block ::
  "rest_world \<Rightarrow> mempool_rest_config \<Rightarrow> string \<Rightarrow> nat \<Rightarrow> (mempool_rest_error + mempool_block) \<times> nat list \<times> nat" where
  "rest_get_block w cfg hash = execute_get_with_retry w cfg mempool_block_of_json (''/block/'' @ hash)"

definition get_block_txs ::
  "rest_world \<Rightarrow> mempool_rest_config \<Rightarrow> string \<Rightarrow> nat \<Rightarrow> (mempool_rest_error + mempool_tx list) \<times> nat list \<times> nat" where
  "get_block_txs w cfg hash =
     execute_get_with_retry w cfg (as_list mempool_tx_of_json) (''/block/'' @ hash @ ''/txs'')"

definition get_tx ::
  "rest_world \<Rightarrow> mempool_rest_config \<Rightarrow> string \<Rightarrow> nat \<Rightarrow> (mempool_rest_error + mempool_tx) \<times> nat list \<times> nat" where
  "get_tx w cfg txid = execute_get_with_retry w cfg mempool_tx_of_json (''/tx/'' @ txid)"

definition get_mempool ::
  "rest_world \<Rightarrow> mempool_rest_config \<Rightarrow> nat \<Rightarrow> (mempool_rest_error + mempool_stats) \<times> nat list \<times> nat" where
  "get_mempool w cfg = execute_get_with_retry w cfg mempool_stats_of_json ''/mempool''"

definition get_mempool_recent ::
  "rest_world \<Rightarrow> mempool_rest_config \<Rightarrow> nat \<Rightarrow> (mempool_rest_error + mempool_recent_tx list) \<times> nat list \<times> nat" where
  "get_mempool_recent w cfg = execute_get_with_retry w cfg (as_list recent_tx_of_json) ''/mempool/recent''"

definition get_recommended_fees ::
  "rest_world \<Rightarrow> mempool_rest_config \<Rightarrow> nat \<Rightarrow> (mempool_rest_error + mempool_recommended_fees) \<times> nat list \<times> nat" where
  "get_recommended_fees w cfg = execute_get_with_retry w cfg recommended_fees_of_json ''/v1/fees/recommended''"

section \<open>WebSocket messages\<close>

record mempool_ws_block =
  wb_id :: string
  wb_height :: u64
  wb_version :: "u32 option"
  wb_timestamp :: int
  wb_tx_count :: usize
  wb_size :: u64
  wb_weight :: u64
  wb_difficulty :: "f64 option"

text \<open>The product that replaces a missing weight wraps.\<close>

definition ws_block_into_observation ::
  "(int \<Rightarrow> datetime option) \<Rightarrow> datetime \<Rightarrow> mempool_ws_block \<Rightarrow> string \<Rightarrow> block_observation" where
  "ws_block_into_observation ts now b ep =
     \<lparr>blk_hash = wb_id b, blk_height = wb_height b, blk_timestamp = timestamp_or_now ts now (wb_timestamp b),
      blk_previous_block_hash = [], blk_tx_count = wb_tx_count b, blk_size_bytes = wb_size b,
      blk_weight = (if wb_weight b > 0 then wb_weight b else wb_size b * 4),
      blk_difficulty = wb_difficulty b, blk_miner_tag = None, blk_interval_seconds = None,
      blk_source = Some (mempool_ws ep)\<rparr>"

record mempool_ws_info =
  wi_size :: usize
  wi_bytes :: u64
  wi_total_fee :: "f64 option"

definition ws_info_into_observation :: "datetime \<Rightarrow> mempool_ws_info \<Rightarrow> string \<Rightarrow> mempool_observation" where
  "ws_info_into_observation now i ep =
     \<lparr>mp_count = wi_size i, mp_vsize_bytes = wi_bytes i,
      mp_total_fee_sats = (case wi_total_fee i of
          Some btc \<Rightarrow> (case safe_btc_f64_to_sats btc of Inr s \<Rightarrow> s | Inl _ \<Rightarrow> 0) | None \<Rightarrow> 0),
      mp_min_fee_rate_sat_vb = None, mp_timestamp = now, mp_source = Some (mempool_ws ep)\<rparr>"

record mempool_ws_rbf_tx =
  wx_txid :: string
  wx_replaces :: "string list"
  wx_replaced_txid :: "string option"
  wx_fee :: "u64 option"
  wx_old_fee :: "u64 option"
  wx_vsize :: "u64 option"
  wx_old_vsize :: "u64 option"
  wx_value :: "u64 option"

text \<open>The fee delta is a difference of \<open>i64\<close> values and wraps.\<close>

definition ws_rbf_into_observation :: "datetime \<Rightarrow> mempool_ws_rbf_tx \<Rightarrow> string \<Rightarrow> transaction_replacement" where
  "ws_rbf_into_observation now r ep =
     (let replaced = (if wx_replaces r = [] then (case wx_replaced_txid r of Some t \<Rightarrow> [t] | None \<Rightarrow> [])
                      else wx_replaces r);
          new_fee = (case wx_fee r of Some f \<Rightarrow> f | None \<Rightarrow> 0);
          old_fee = (case wx_old_fee r of Some f \<Rightarrow> f | None \<Rightarrow> 0)
      in \<lparr>rp_replaced_txids = replaced, rp_replacement_txid = wx_txid r, rp_old_fee_sats = old_fee,
          rp_new_fee_sats = new_fee, rp_fee_delta_sats = sint (new_fee - old_fee),
          rp_old_vsize = wx_old_vsize r, rp_new_vsize = wx_vsize r,
          rp_old_fee_rate_sat_vb = Option.bind (wx_old_vsize r) (calculate_fee_rate_sat_vb old_fee),
          rp_new_fee_rate_sat_vb = Option.bind (wx_vsize r) (calculate_fee_rate_sat_vb new_fee),
          rp_observed_at = now, rp_source = Some (mempool_ws ep)\<rparr>)"

record mempool_ws_envelope =
  we_block :: "mempool_ws_block option"
  we_blocks :: "mempool_ws_block list option"
  we_mempool_info :: "mempool_ws_info option"
  we_tx :: "mempool_tx option"
  we_transactions :: "mempool_tx list option"
  we_rbf_transaction :: "mempool_ws_rbf_tx option"
  we_rbf_transactions :: "mempool_ws_rbf_tx list option"

definition ws_block_of_json :: "json \<Rightarrow> mempool_ws_block option" where
  "ws_block_of_json j =
     do {
       m \<leftarrow> struct_fields [''id'', ''height'', ''version'', ''timestamp'', ''tx_count'', ''size'', ''weight'', ''difficulty''] j;
       i \<leftarrow> get_field m ''id'' as_str;
       height \<leftarrow> get_field m ''height'' as_word;
       version \<leftarrow> get_opt_field m ''version'' as_word;
       time \<leftarrow> get_field m ''timestamp'' (as_signed 64);
       n \<leftarrow> get_field m ''tx_count'' as_usize;
       sz \<leftarrow> get_field m ''size'' as_word;
       weight \<leftarrow> get_default_field m ''weight'' 0 as_word;
       difficulty \<leftarrow> get_opt_field m ''difficulty'' as_f64;
       Some \<lparr>wb_id = i, wb_height = height, wb_version = version, wb_timestamp = time, wb_tx_count = n,
             wb_size = sz, wb_weight = weight, wb_difficulty = difficulty\<rparr>
     }"

definition ws_info_of_json :: "json \<Rightarrow> mempool_ws_info option" where
  "ws_info_of_json j =
     do {
       m \<leftarrow> struct_fields [''size'', ''bytes'', ''total_fee''] j;
       n \<leftarrow> get_field m ''size'' as_usize;
       bytes \<leftarrow> get_field m ''bytes'' as_word;
       fee \<leftarrow> get_opt_field m ''total_fee'' as_f64;
       Some \<lparr>wi_size = n, wi_bytes = bytes, wi_total_fee = fee\<rparr>
     }"

definition ws_rbf_of_json :: "json \<Rightarrow> mempool_ws_rbf_tx option" where
  "ws_rbf_of_json j =
     do {
       m \<leftarrow> struct_fields [''txid'', ''replaces'', ''replaced_txid'', ''fee'', ''old_fee'', ''vsize'', ''old_vsize'', ''value''] j;
       txid \<leftarrow> get_field m ''txid'' as_str;
       replaces \<leftarrow> get_default_field m ''replaces'' [] (as_list as_str);
       replaced \<leftarrow> get_opt_field m ''replaced_txid'' as_str;
       fee \<leftarrow> get_opt_field m ''fee'' as_word;
       old_fee \<leftarrow> get_opt_field m ''old_fee'' as_word;
       vs \<leftarrow> get_opt_field m ''vsize'' as_word;
       old_vs \<leftarrow> get_opt_field m ''old_vsize'' as_word;
       v \<leftarrow> get_opt_field m ''value'' as_word;
       Some \<lparr>wx_txid = txid, wx_replaces = replaces, wx_replaced_txid = replaced, wx_fee = fee,
             wx_old_fee = old_fee, wx_vsize = vs, wx_old_vsize = old_vs, wx_value = v\<rparr>
     }"

definition ws_envelope_of_json :: "json \<Rightarrow> mempool_ws_envelope option" where
  "ws_envelope_of_json j =
     do {
       m \<leftarrow> struct_fields [''block'', ''blocks'', ''mempoolInfo'', ''tx'', ''transactions'', ''rbfTransaction'', ''rbfTransactions''] j;
       block \<leftarrow> get_opt_field m ''block'' ws_block_of_json;
       blocks \<leftarrow> get_opt_field m ''blocks'' (as_list ws_block_of_json);
       info \<leftarrow> get_opt_field m ''mempoolInfo'' ws_info_of_json;
       tx \<leftarrow> get_opt_field m ''tx'' mempool_tx_of_json;
       txs \<leftarrow> get_opt_field m ''transactions'' (as_list mempool_tx_of_json);
       rbf \<leftarrow> get_opt_field m ''rbfTransaction'' ws_rbf_of_json;
       rbfs \<leftarrow> get_opt_field m ''rbfTransactions'' (as_list ws_rbf_of_json);
       Some \<lparr>we_block = block, we_blocks = blocks, we_mempool_info = info, we_tx = tx,
             we_transactions = txs, we_rbf_transaction = rbf, we_rbf_transactions = rbfs\<rparr>
     }"

definition opt_list :: "'a option \<Rightarrow> 'a list" where
  "opt_list x = (case x of Some v \<Rightarrow> [v] | None \<Rightarrow> [])"

definition opt_concat :: "'a list option \<Rightarrow> 'a list" where
  "opt_concat x = (case x of Some vs \<Rightarrow> vs | None \<Rightarrow> [])"

definition envelope_observations ::
  "(int \<Rightarrow> datetime option) \<Rightarrow> datetime \<Rightarrow> string \<Rightarrow> mempool_ws_envelope \<Rightarrow> observation list" where
  "envelope_observations ts now ep v =
     map (\<lambda>b. ObsBlock (ws_block_into_observation ts now b ep)) (opt_list (we_block v) @ opt_concat (we_blocks v))
     @ map (\<lambda>i. ObsMempool (ws_info_into_observation now i ep)) (opt_list (we_mempool_info v))
     @ map (\<lambda>t. ObsTransaction (tx_into_observation ts now t ep)) (opt_list (we_tx v) @ opt_concat (we_transactions v))
     @ map (\<lambda>r. ObsReplacement (ws_rbf_into_observation now r ep))
         (opt_list (we_rbf_transaction v) @ opt_concat (we_rbf_transactions v))"

definition parse_ws_frame ::
  "(string \<Rightarrow> json option) \<Rightarrow> (int \<Rightarrow> datetime option) \<Rightarrow> datetime \<Rightarrow> string \<Rightarrow> string \<Rightarrow> observation list option" where
  "parse_ws_frame parse ts now text ep =
     map_option (envelope_observations ts now ep) (Option.bind (parse text) ws_envelope_of_json)"

section \<open>The WebSocket supervisor\<close>

text \<open>
  \<open>AtTop\<close> is the test of the outer loop; then the connection is dialled, the two handshake messages
  are sent, messages are read, and after a failure the supervisor sleeps for the back-off (in
  seconds). The shutdown value changes at any time; it is read at the top of the loop, and wakes the
  reading and sleeping phases when it changes. A text frame comes with the number of observations
  the channel still takes.
\<close>

datatype ws_phase = AtTop | Dialling | Handshaking | Reading | Sleeping | Returned

datatype ws_event =
    TopOfLoop
  | DialResult bool
  | InitSent bool
  | WantSent bool
  | ShutdownChanged bool
  | TextFrame string nat
  | PingFrame
  | CloseFrame
  | ReadError
  | StreamEnded
  | OtherFrame
  | SleepElapsed

record ws_supervisor =
  wp_phase :: ws_phase
  wp_connected :: bool
  wp_backoff :: nat
  wp_shutdown :: bool
  wp_init_sent :: bool
  wp_sent :: "observation list"
  wp_pongs :: nat

definition ws_supervisor_new :: ws_supervisor where
  "ws_supervisor_new =
     \<lparr>wp_phase = AtTop, wp_connected = False, wp_backoff = 1, wp_shutdown = False, wp_init_sent = False,
      wp_sent = [], wp_pongs = 0\<rparr>"

definition ws_text ::
  "(string \<Rightarrow> json option) \<Rightarrow> (int \<Rightarrow> datetime option) \<Rightarrow> datetime \<Rightarrow> string \<Rightarrow> string \<Rightarrow> nat
     \<Rightarrow> ws_supervisor \<Rightarrow> ws_supervisor" where
  "ws_text parse ts now ep text taken s =
     (if length text > 16 * 1024 * 1024 then s
      else case parse_ws_frame parse ts now text ep of
             None \<Rightarrow> s
           | Some obs \<Rightarrow>
               let s1 = s\<lparr>wp_sent := wp_sent s @ take taken obs\<rparr>
               in if length obs \<le> taken then s1 else s1\<lparr>wp_connected := False, wp_phase := Returned\<rparr>)"

definition ws_disconnect :: "ws_phase \<Rightarrow> ws_supervisor \<Rightarrow> ws_supervisor" where
  "ws_disconnect next_phase s = s\<lparr>wp_connected := False, wp_phase := next_phase\<rparr>"

definition run_supervisor ::
  "(string \<Rightarrow> json option) \<Rightarrow> (int \<Rightarrow> datetime option) \<Rightarrow> datetime \<Rightarrow> string \<Rightarrow> ws_event \<Rightarrow> ws_supervisor
     \<Rightarrow> ws_supervisor" where
  "run_supervisor parse ts now ep e s =
     (case (wp_phase s, e) of
        (AtTop, TopOfLoop) \<Rightarrow> s\<lparr>wp_phase := (if wp_shutdown s then Returned else Dialling)\<rparr>
      | (Dialling, DialResult ok) \<Rightarrow>
          if ok then s\<lparr>wp_connected := True, wp_backoff := 1, wp_phase := Handshaking, wp_init_sent := False\<rparr>
          else ws_disconnect Sleeping s
      | (Handshaking, InitSent ok) \<Rightarrow>
          if wp_init_sent s then s
          else if ok then s\<lparr>wp_init_sent := True\<rparr> else ws_disconnect AtTop s
      | (Handshaking, WantSent ok) \<Rightarrow>
          if \<not> wp_init_sent s then s
          else if ok then s\<lparr>wp_phase := Reading\<rparr> else ws_disconnect AtTop s
      | (Reading, ShutdownChanged b) \<Rightarrow>
          let s1 = s\<lparr>wp_shutdown := b\<rparr> in if b then ws_disconnect Returned s1 else s1
      | (Reading, TextFrame text taken) \<Rightarrow> ws_text parse ts now ep text taken s
      | (Reading, PingFrame) \<Rightarrow> s\<lparr>wp_pongs := Suc (wp_pongs s)\<rparr>
      | (Reading, CloseFrame) \<Rightarrow> ws_disconnect Sleeping s
      | (Reading, ReadError) \<Rightarrow> ws_disconnect Sleeping s
      | (Reading, StreamEnded) \<Rightarrow> ws_disconnect Sleeping s
      | (Sleeping, ShutdownChanged b) \<Rightarrow>
          s\<lparr>wp_shutdown := b, wp_phase := (if b then Returned else AtTop)\<rparr>
      | (Sleeping, SleepElapsed) \<Rightarrow> s\<lparr>wp_backoff := min (wp_backoff s * 2) 30, wp_phase := AtTop\<rparr>
      | (_, ShutdownChanged b) \<Rightarrow> s\<lparr>wp_shutdown := b\<rparr>
      | _ \<Rightarrow> s)"

section \<open>Totals and retries\<close>

lemma unat_saturating_total:
  "unat (saturating_total vs) = min (sum_list (map unat vs)) (2 ^ 64 - 1)"
proof -
  have "unat (foldl saturating_add a vs) = min (unat a + sum_list (map unat vs)) (2 ^ 64 - 1)" for a :: u64
    using unsigned_less [of a, where 'a = nat]
    by (induction vs arbitrary: a) (auto simp: unat_saturating_add)
  from this [of 0] show ?thesis by (simp add: saturating_total_def)
qed

lemma get_loop_spec:
  assumes "get_loop w cfg decode ep attempts delay n = (r, ds, n')"
  shows "n < n' \<and> n' = n + length ds + 1
    \<and> length ds + attempts < max (Suc attempts) (unat (mc_max_retries cfg))
    \<and> (\<forall>k. n \<le> k \<and> Suc k < n' \<longrightarrow> transient (rs_get w k (mc_base_url cfg @ ep)))
    \<and> r = reply_result w cfg decode ep (rs_get w (n' - 1) (mc_base_url cfg @ ep))
    \<and> (transient (rs_get w (n' - 1) (mc_base_url cfg @ ep)) \<longrightarrow>
         max (Suc attempts) (unat (mc_max_retries cfg)) \<le> Suc (length ds + attempts))"
  using assms
proof (induction w cfg decode ep attempts delay n arbitrary: r ds n' rule: get_loop.induct)
  case (1 w cfg decode ep attempts delay n)
  show ?case
  proof (cases "transient (rs_get w n (mc_base_url cfg @ ep)) \<and> Suc attempts < unat (mc_max_retries cfg)")
    case True
    obtain r1 ds1 n1 where rec: "get_loop w cfg decode ep (Suc attempts) (min (2 * delay) duration_max) (Suc n) = (r1, ds1, n1)"
      by (metis prod_cases3)
    with True 1(2) have eq: "r = r1" "ds = delay # ds1" "n' = n1"
      by (subst (asm) get_loop.simps, simp)+
    have ih: "Suc n < n1 \<and> n1 = Suc n + length ds1 + 1
        \<and> length ds1 + Suc attempts < max (Suc (Suc attempts)) (unat (mc_max_retries cfg))
        \<and> (\<forall>k. Suc n \<le> k \<and> Suc k < n1 \<longrightarrow> transient (rs_get w k (mc_base_url cfg @ ep)))
        \<and> r1 = reply_result w cfg decode ep (rs_get w (n1 - 1) (mc_base_url cfg @ ep))
        \<and> (transient (rs_get w (n1 - 1) (mc_base_url cfg @ ep)) \<longrightarrow>
             max (Suc (Suc attempts)) (unat (mc_max_retries cfg)) \<le> Suc (length ds1 + Suc attempts))"
      using 1(1) [OF refl True rec] .
    have "transient (rs_get w k (mc_base_url cfg @ ep))" if "n \<le> k \<and> Suc k < n'" for k
      using that ih True eq by (cases "k = n") auto
    with ih eq True show ?thesis by auto
  next
    case False
    then have "get_loop w cfg decode ep attempts delay n =
        (reply_result w cfg decode ep (rs_get w n (mc_base_url cfg @ ep)), [], Suc n)"
      by (subst get_loop.simps) (auto simp: Let_def)
    with 1(2) False show ?thesis by auto
  qed
qed

text \<open>
  A REST request ends after a bounded number of attempts: at most the configured number is sent
  (one when it is zero), every attempt but the last failed in a way that is worth repeating, the
  result is what the last reply means, and repeating stops early only for a reply that is not
  transient.
\<close>

theorem rest_retries_bounded:
  "case execute_get_with_retry w cfg decode ep n of (r, delays, n') \<Rightarrow>
     n' = n + length delays + 1
     \<and> r = reply_result w cfg decode ep (rs_get w (n' - 1) (mc_base_url cfg @ ep))
     \<and> list_all (\<lambda>k. transient (rs_get w k (mc_base_url cfg @ ep))) [n ..< n' - 1]
     \<and> (if transient (rs_get w (n' - 1) (mc_base_url cfg @ ep))
        then length delays + 1 = max 1 (unat (mc_max_retries cfg))
        else length delays + 1 \<le> max 1 (unat (mc_max_retries cfg)))"
  using get_loop_spec [of w cfg decode ep 0 "200 * 10 ^ 6" n]
  by (auto simp: execute_get_with_retry_def list_all_iff split: prod.split)

section \<open>The supervisor\<close>

text \<open>
  The connected flag is only up between a successful dial and the next loss; the back-off stays
  between one and thirty seconds.
\<close>

definition ws_ok :: "ws_supervisor \<Rightarrow> bool" where
  "ws_ok s \<longleftrightarrow> (wp_connected s \<longleftrightarrow> wp_phase s \<in> {Handshaking, Reading}) \<and> 1 \<le> wp_backoff s \<and> wp_backoff s \<le> 30"

lemma ws_ok_step: "ws_ok s \<Longrightarrow> ws_ok (run_supervisor parse ts now ep e s)"
  by (cases "wp_phase s"; cases e)
    (auto simp: ws_ok_def run_supervisor_def ws_disconnect_def ws_text_def Let_def split: option.split)

text \<open>A failed connection attempt, from the top of the loop to the top again.\<close>

definition failed_dial :: "ws_event list" where
  "failed_dial = [TopOfLoop, DialResult False, SleepElapsed]"

lemma failed_dial_run:
  assumes "wp_phase s = AtTop" "\<not> wp_shutdown s"
  shows "fold (run_supervisor parse ts now ep) failed_dial s =
    s\<lparr>wp_connected := False, wp_backoff := min (wp_backoff s * 2) 30\<rparr>"
  using assms by (simp add: failed_dial_def run_supervisor_def ws_disconnect_def)

lemma min_double:
  "min (min x 30 * 2 ^ k) 30 = min (x * 2 ^ k) (30 :: nat)"
proof (cases "x \<le> 30")
  case False
  have "30 * 1 \<le> (30 :: nat) * 2 ^ k" "30 * 1 \<le> x * 2 ^ k"
    using False by (intro mult_le_mono one_le_power; simp)+
  with False show ?thesis by simp
qed simp

lemma failed_dials_run:
  assumes "wp_phase s = AtTop" "\<not> wp_shutdown s" "wp_backoff s \<le> 30"
  shows "wp_backoff (fold (run_supervisor parse ts now ep) (concat (replicate k failed_dial)) s)
    = min (wp_backoff s * 2 ^ k) 30"
  using assms
proof (induction k arbitrary: s)
  case (Suc k)
  let ?s = "s\<lparr>wp_connected := False, wp_backoff := min (wp_backoff s * 2) 30\<rparr>"
  have "wp_phase ?s = AtTop" "\<not> wp_shutdown ?s" "wp_backoff ?s \<le> 30" using Suc.prems by simp_all
  from Suc.IH [OF this] show ?case
    by (simp add: failed_dial_run [OF Suc.prems(1,2)] min_double mult.assoc)
qed simp

lemma ws_ok_fold: "ws_ok s \<Longrightarrow> ws_ok (fold (run_supervisor parse ts now ep) es s)"
  by (induction es arbitrary: s) (simp_all add: ws_ok_step)

lemma returned_absorbs:
  "wp_phase s = Returned \<Longrightarrow> wp_phase (fold (run_supervisor parse ts now ep) es s) = Returned
     \<and> wp_sent (fold (run_supervisor parse ts now ep) es s) = wp_sent s"
proof (induction es arbitrary: s)
  case (Cons e es)
  have "wp_phase (run_supervisor parse ts now ep e s) = Returned" "wp_sent (run_supervisor parse ts now ep e s) = wp_sent s"
    using Cons.prems by (cases e; simp add: run_supervisor_def)+
  with Cons.IH show ?case by simp
qed simp

text \<open>
  The WebSocket supervisor reports its state truthfully and backs off: whatever the socket, the
  timer and the shutdown channel do, the connected flag is up exactly while a dialled connection is
  in use and the back-off stays between one and thirty seconds; after k failed dials in a row it is
  2 to the power k seconds, at most thirty; and once the supervisor has returned it sends nothing more.
\<close>

theorem ws_supervisor_state:
  "ws_ok (fold (run_supervisor parse ts now ep) es ws_supervisor_new)
   \<and> wp_backoff (fold (run_supervisor parse ts now ep) (concat (replicate k failed_dial)) ws_supervisor_new)
       = min (2 ^ k) 30
   \<and> wp_sent (fold (run_supervisor parse ts now ep) es (s\<lparr>wp_phase := Returned\<rparr>)) = wp_sent s"
proof -
  have "ws_ok ws_supervisor_new" by (simp add: ws_ok_def ws_supervisor_new_def)
  then show ?thesis
    using ws_ok_fold failed_dials_run [of ws_supervisor_new] returned_absorbs [of "s\<lparr>wp_phase := Returned\<rparr>"]
    by (simp add: ws_supervisor_new_def)
qed

text \<open>
  A connection that is accepted and then refuses the handshake is dialled again at once: the
  supervisor is back at the top of the loop without having slept, with the shortest back-off.
\<close>

lemma refused_handshake_does_not_sleep:
  assumes "wp_phase s = AtTop" "\<not> wp_shutdown s"
  shows "fold (run_supervisor parse ts now ep) [TopOfLoop, DialResult True, InitSent False] s =
    s\<lparr>wp_connected := False, wp_backoff := 1, wp_init_sent := False\<rparr>"
  using assms by (simp add: run_supervisor_def ws_disconnect_def)

end
