(* ===== verification/Enricher.thy ===== *)
theory Enricher
  imports Mempool Tx_Caches
begin

text \<open>
  The transaction enricher (\<open>obschain-ingest/src/enricher.rs\<close>): the inputs of a live transaction get
  the context of the outputs they spend, from the cache, from Bitcoin Core, and from mempool.space
  unless sovereign mode forbids it.

  The lookups of one transaction run as tasks; they are taken one after the other in an order the
  environment chooses, which also stands for the iteration order of the set of identifiers. The
  clock may differ at every access to the cache.
\<close>

record enricher_config =
  ec_max_input_enrichment :: usize
  ec_lookup_concurrency :: usize
  ec_request_timeout :: nat

definition enricher_config_default :: enricher_config where
  "enricher_config_default =
     \<lparr>ec_max_input_enrichment = 500, ec_lookup_concurrency = 16, ec_request_timeout = 5\<rparr>"

record enricher_env =
  ee_rpc :: rpc_world
  ee_rest :: rest_world
  ee_timestamp :: "int \<Rightarrow> datetime option"
  ee_clock :: "nat \<Rightarrow> nat \<Rightarrow> int"
  ee_order :: "string list \<Rightarrow> string list"

record transaction_enricher =
  en_rpc :: "rpc_client option"
  en_rest :: "mempool_rest_config option"
  en_rest_requests :: nat
  en_sovereign_only :: bool
  en_cache :: utxo_cache
  en_config :: enricher_config
  en_transactions_enriched :: u64
  en_lookup_failures :: u64

definition new_with_sources ::
  "rpc_client option \<Rightarrow> mempool_rest_config option \<Rightarrow> bool \<Rightarrow> utxo_cache \<Rightarrow> enricher_config \<Rightarrow> transaction_enricher" where
  "new_with_sources rpc rest sovereign cache config =
     \<lparr>en_rpc = rpc, en_rest = rest, en_rest_requests = 0, en_sovereign_only = sovereign,
      en_cache = cache, en_config = config, en_transactions_enriched = 0, en_lookup_failures = 0\<rparr>"

definition enricher_new :: "mempool_rest_config \<Rightarrow> utxo_cache \<Rightarrow> enricher_config \<Rightarrow> transaction_enricher" where
  "enricher_new rest cache config = new_with_sources None (Some rest) False cache config"

section \<open>Lookups\<close>

definition outputs_of_verbose :: "(int \<Rightarrow> datetime option) \<Rightarrow> get_raw_transaction_verbose_result \<Rightarrow> cached_tx_outputs" where
  "outputs_of_verbose ts v =
     \<lparr>co_confirmed = ((case rx_confirmations v of Some k \<Rightarrow> k | None \<Rightarrow> 0) > 0), co_block_height = None,
      co_confirmed_at = Option.bind (rx_blocktime v) ts,
      co_outputs = map (\<lambda>o'. (rv_n o', f64_to_u64 (f64_round (f64_mul (rv_value o') (f64_lit 100000000))))) (rx_vout v)\<rparr>"

definition outputs_of_mempool_tx :: "(int \<Rightarrow> datetime option) \<Rightarrow> mempool_tx \<Rightarrow> cached_tx_outputs" where
  "outputs_of_mempool_tx ts t =
     \<lparr>co_confirmed = ms_confirmed (mt_status t), co_block_height = ms_block_height (mt_status t),
      co_confirmed_at = Option.bind (ms_block_time (mt_status t)) ts,
      co_outputs = map (\<lambda>(i, o'). (of_nat i, vo_value o')) (enumerate 0 (mt_vout t))\<rparr>"

definition lookup_failed :: "transaction_enricher \<Rightarrow> transaction_enricher" where
  "lookup_failed en = en\<lparr>en_lookup_failures := en_lookup_failures en + 1\<rparr>"

definition ask_node ::
  "enricher_env \<Rightarrow> string \<Rightarrow> transaction_enricher \<Rightarrow> cached_tx_outputs option \<times> transaction_enricher" where
  "ask_node env txid en =
     (case en_rpc en of
        None \<Rightarrow> (None, en)
      | Some c \<Rightarrow>
          (case get_raw_transaction_verbose (ee_rpc env) txid c of
             (Inr v, c') \<Rightarrow> (Some (outputs_of_verbose (ee_timestamp env) v), en\<lparr>en_rpc := Some c'\<rparr>)
           | (Inl _, c') \<Rightarrow> (None, en\<lparr>en_rpc := Some c'\<rparr>)))"

definition ask_third_party ::
  "enricher_env \<Rightarrow> string \<Rightarrow> transaction_enricher \<Rightarrow> cached_tx_outputs option \<times> transaction_enricher" where
  "ask_third_party env txid en =
     (if en_sovereign_only en then (None, lookup_failed en)
      else case en_rest en of
             None \<Rightarrow> (None, lookup_failed en)
           | Some cfg \<Rightarrow>
               (case get_tx (ee_rest env) cfg txid (en_rest_requests en) of
                  (Inr t, ds, n) \<Rightarrow> (Some (outputs_of_mempool_tx (ee_timestamp env) t), en\<lparr>en_rest_requests := n\<rparr>)
                | (Inl _, ds, n) \<Rightarrow> (None, lookup_failed (en\<lparr>en_rest_requests := n\<rparr>))))"

definition lookup ::
  "enricher_env \<Rightarrow> string \<Rightarrow> transaction_enricher \<Rightarrow> cached_tx_outputs option \<times> transaction_enricher" where
  "lookup env txid en =
     (case ask_node env txid en of
        (Some info, en1) \<Rightarrow> (Some info, en1)
      | (None, en1) \<Rightarrow> ask_third_party env txid en1)"

definition fetch_and_cache :: "enricher_env \<Rightarrow> nat \<times> string \<Rightarrow> transaction_enricher \<Rightarrow> transaction_enricher" where
  "fetch_and_cache env it en =
     (case it of (i, txid) \<Rightarrow>
      case lookup env txid en of
        (Some info, en1) \<Rightarrow> en1\<lparr>en_cache := utxo_insert (ee_clock env 2 i) txid info (en_cache en1)\<rparr>
      | (None, en1) \<Rightarrow> en1)"

section \<open>The passes\<close>

text \<open>First pass: cached contexts, and the identifiers that are missing.\<close>

definition first_pass_input ::
  "enricher_env \<Rightarrow> usize \<Rightarrow> nat \<times> tx_input_observation \<Rightarrow> tx_input_observation list \<times> string list \<times> utxo_cache
     \<Rightarrow> tx_input_observation list \<times> string list \<times> utxo_cache" where
  "first_pass_input env limit ii acc =
     (case ii of (i, inp) \<Rightarrow> case acc of (done, missing, cache) \<Rightarrow>
      if in_is_coinbase inp \<or> in_txid inp = [] then (done @ [inp], missing, cache)
      else case utxo_get (ee_clock env 1 i) (in_txid inp) (in_vout inp) cache of
             (Some ctx, cache1) \<Rightarrow> (done @ [inp\<lparr>in_historical_utxo := Some ctx\<rparr>], missing, cache1)
           | (None, cache1) \<Rightarrow>
               (done @ [inp],
                if length missing < limit then List.insert (in_txid inp) missing else missing,
                cache1))"

definition first_pass ::
  "enricher_env \<Rightarrow> usize \<Rightarrow> tx_input_observation list \<Rightarrow> utxo_cache
     \<Rightarrow> tx_input_observation list \<times> string list \<times> utxo_cache" where
  "first_pass env limit ins cache = fold (first_pass_input env limit) (enumerate 0 ins) ([], [], cache)"

text \<open>Third pass: contexts that are cached by now, and the values the inputs spend.\<close>

definition third_pass_input ::
  "enricher_env \<Rightarrow> nat \<times> tx_input_observation \<Rightarrow> tx_input_observation list \<times> utxo_cache
     \<Rightarrow> tx_input_observation list \<times> utxo_cache" where
  "third_pass_input env ii acc =
     (case ii of (i, inp) \<Rightarrow> case acc of (done, cache) \<Rightarrow>
      if in_is_coinbase inp then (done @ [inp], cache)
      else case utxo_get (ee_clock env 3 i) (in_txid inp) (in_vout inp) cache of
             (Some ctx, cache1) \<Rightarrow>
               (done @ [inp\<lparr>in_historical_utxo := Some ctx,
                  in_prev_out_value_sats := (case in_prev_out_value_sats inp of
                    Some v \<Rightarrow> Some v | None \<Rightarrow> Some (soc_value_sats ctx))\<rparr>], cache1)
           | (None, cache1) \<Rightarrow> (done @ [inp], cache1))"

definition third_pass ::
  "enricher_env \<Rightarrow> tx_input_observation list \<Rightarrow> utxo_cache \<Rightarrow> tx_input_observation list \<times> utxo_cache" where
  "third_pass env ins cache = fold (third_pass_input env) (enumerate 0 ins) ([], cache)"

text \<open>Totals and fee, when every input has a value; the sum of the inputs wraps.\<close>

definition price :: "transaction_observation \<Rightarrow> transaction_observation" where
  "price tx =
     (if tx_total_input_sats tx = 0
         \<and> list_all (\<lambda>i. in_prev_out_value_sats i \<noteq> None \<or> in_is_coinbase i) (tx_inputs tx) then
        let total_in = sum_list (List.map_filter in_prev_out_value_sats (tx_inputs tx));
            tx1 = tx\<lparr>tx_total_input_sats := total_in\<rparr>
        in if total_in \<ge> tx_total_output_sats tx then
             let fee = total_in - tx_total_output_sats tx;
                 tx2 = tx1\<lparr>tx_fee_sats := fee\<rparr>
             in if tx_vsize tx > 0 \<and> tx_fee_rate_sat_vb tx = None
                then tx2\<lparr>tx_fee_rate_sat_vb := Some (f64_div (f64_of_word fee) (f64_of_word (tx_vsize tx)))\<rparr>
                else tx2
           else tx1
      else tx)"

definition count_enriched :: "transaction_enricher \<Rightarrow> transaction_enricher" where
  "count_enriched en = en\<lparr>en_transactions_enriched := en_transactions_enriched en + 1\<rparr>"

definition enrich_transaction ::
  "enricher_env \<Rightarrow> transaction_observation \<Rightarrow> transaction_enricher \<Rightarrow> transaction_observation \<times> transaction_enricher" where
  "enrich_transaction env tx en =
     (if tx_inputs tx = [] then (tx, en)
      else case first_pass env (ec_max_input_enrichment (en_config en)) (tx_inputs tx) (en_cache en) of
             (ins, missing, cache) \<Rightarrow>
               let tx1 = tx\<lparr>tx_inputs := ins\<rparr>; en1 = en\<lparr>en_cache := cache\<rparr> in
               if missing = [] then (tx1, count_enriched en1)
               else
                 let en2 = fold (fetch_and_cache env) (enumerate 0 (ee_order env missing)) en1 in
                 case third_pass env (tx_inputs tx1) (en_cache en2) of
                   (ins3, cache3) \<Rightarrow>
                     (price (tx1\<lparr>tx_inputs := ins3\<rparr>), count_enriched (en2\<lparr>en_cache := cache3\<rparr>)))"

section \<open>Sovereign mode\<close>

lemma fetch_sovereign:
  assumes "en_sovereign_only en"
  shows "fetch_and_cache (env\<lparr>ee_rest := r\<rparr>) it en = fetch_and_cache env it en"
    and "en_sovereign_only (fetch_and_cache env it en)"
    and "en_rest_requests (fetch_and_cache env it en) = en_rest_requests en"
  using assms
  by (auto simp: fetch_and_cache_def lookup_def ask_node_def ask_third_party_def lookup_failed_def
      split: prod.splits option.splits sum.splits)

lemma fetches_sovereign:
  assumes "en_sovereign_only en"
  shows "fold (fetch_and_cache (env\<lparr>ee_rest := r\<rparr>)) its en = fold (fetch_and_cache env) its en
    \<and> en_rest_requests (fold (fetch_and_cache env) its en) = en_rest_requests en"
  using assms by (induction its arbitrary: en) (simp_all add: fetch_sovereign)

lemma pass_steps_ignore_rest:
  "first_pass_input (env\<lparr>ee_rest := r\<rparr>) = first_pass_input env"
  "third_pass_input (env\<lparr>ee_rest := r\<rparr>) = third_pass_input env"
  by (intro ext, simp add: first_pass_input_def third_pass_input_def split: prod.split)+

lemma passes_ignore_rest [simp]:
  "first_pass (env\<lparr>ee_rest := r\<rparr>) = first_pass env" "third_pass (env\<lparr>ee_rest := r\<rparr>) = third_pass env"
  by (intro ext, simp add: first_pass_def third_pass_def pass_steps_ignore_rest)+

text \<open>
  Sovereign mode never contacts the third party: with it on, enriching a transaction sends no
  request to mempool.space, and the transaction, the cache and all counters come out the same
  whatever the third party would have answered.
\<close>

theorem sovereign_enrichment_is_private:
  assumes "en_sovereign_only en"
  shows "enrich_transaction (env\<lparr>ee_rest := r\<rparr>) tx en = enrich_transaction env tx en
    \<and> en_rest_requests (snd (enrich_transaction env tx en)) = en_rest_requests en"
proof -
  have s: "en_sovereign_only (en\<lparr>en_cache := c\<rparr>)" for c using assms by simp
  show ?thesis
    using fetches_sovereign [OF s]
    by (simp add: enrich_transaction_def Let_def count_enriched_def split: prod.split)
qed


text \<open>A transaction with one input that nobody knows, in sovereign mode.\<close>

definition sample_enricher :: transaction_enricher where
  "sample_enricher =
     new_with_sources None (Some mempool_rest_config_default) True (utxo_cache_new 10 60) enricher_config_default"

definition sample_enricher_env :: enricher_env where
  "sample_enricher_env =
     \<lparr>ee_rpc = \<lparr>rw_connect = None, rw_post = (\<lambda>n auth req. Inl ''down''), rw_read_cookie = (\<lambda>n. Inl ''none'')\<rparr>,
      ee_rest = \<lparr>rs_get = (\<lambda>n url. TransportFailure True ''down''), rs_json = (\<lambda>t. None)\<rparr>,
      ee_timestamp = (\<lambda>t. None), ee_clock = (\<lambda>p i. 0), ee_order = (\<lambda>xs. xs)\<rparr>"

theorem sovereign_enrichment_is_private_witness:
  "enrich_transaction (sample_enricher_env\<lparr>ee_rest := \<lparr>rs_get = (\<lambda>n url. Reply 200 None (Inr ''{}'')), rs_json = (\<lambda>t. Some (JObj []))\<rparr>\<rparr>)
      sample_spend sample_enricher = enrich_transaction sample_enricher_env sample_spend sample_enricher
   \<and> en_rest_requests (snd (enrich_transaction sample_enricher_env sample_spend sample_enricher)) = en_rest_requests sample_enricher"
  by (rule sovereign_enrichment_is_private) (simp add: sample_enricher_def new_with_sources_def)

section \<open>What enrichment changes\<close>

text \<open>An enriched input is the same input: only its context and a value it lacked are filled in.\<close>

definition same_input :: "tx_input_observation \<Rightarrow> tx_input_observation \<Rightarrow> bool" where
  "same_input i j \<longleftrightarrow>
     in_txid j = in_txid i \<and> in_vout j = in_vout i \<and> in_sequence j = in_sequence i
     \<and> in_is_coinbase j = in_is_coinbase i
     \<and> (in_prev_out_value_sats i \<noteq> None \<longrightarrow> in_prev_out_value_sats j = in_prev_out_value_sats i)
     \<and> (in_is_coinbase i \<longrightarrow> j = i)"

lemma same_input_refl [simp]: "same_input i i"
  by (simp add: same_input_def)

lemma same_input_trans: "same_input i j \<Longrightarrow> same_input j k \<Longrightarrow> same_input i k"
  by (auto simp: same_input_def)

lemma first_pass_fold:
  "\<exists>new missing' cache'. fold (first_pass_input env limit) its (done, missing, cache) = (done @ new, missing', cache')
     \<and> list_all2 same_input (map snd its) new
     \<and> map in_prev_out_value_sats new = map (in_prev_out_value_sats \<circ> snd) its"
proof (induction its arbitrary: "done" missing cache)
  case (Cons it its)
  obtain i inp where it: "it = (i, inp)" by (cases it)
  have "\<exists>j missing1 cache1. first_pass_input env limit it (done, missing, cache) = (done @ [j], missing1, cache1)
      \<and> same_input inp j \<and> in_prev_out_value_sats j = in_prev_out_value_sats inp"
    by (cases "utxo_get (ee_clock env 1 i) (in_txid inp) (in_vout inp) cache")
      (auto simp: it first_pass_input_def same_input_def split: option.split)
  then obtain j missing1 cache1 where step: "first_pass_input env limit it (done, missing, cache) = (done @ [j], missing1, cache1)"
    and j: "same_input inp j" "in_prev_out_value_sats j = in_prev_out_value_sats inp" by blast
  from Cons.IH [of "done @ [j]" missing1 cache1] show ?case
    using step j by (force simp: it)
qed simp

lemma third_pass_fold:
  "\<exists>new cache'. fold (third_pass_input env) its (done, cache) = (done @ new, cache')
     \<and> list_all2 same_input (map snd its) new"
proof (induction its arbitrary: "done" cache)
  case (Cons it its)
  obtain i inp where it: "it = (i, inp)" by (cases it)
  have "\<exists>j cache1. third_pass_input env it (done, cache) = (done @ [j], cache1) \<and> same_input inp j"
    by (cases "utxo_get (ee_clock env 3 i) (in_txid inp) (in_vout inp) cache")
      (auto simp: it third_pass_input_def same_input_def split: option.split)
  then obtain j cache1 where step: "third_pass_input env it (done, cache) = (done @ [j], cache1)"
    and j: "same_input inp j" by blast
  from Cons.IH [of "done @ [j]" cache1] show ?case
    using step j by (force simp: it)
qed simp


lemma first_pass_keeps:
  assumes "first_pass env limit ins cache = (ins', missing, cache')"
  shows "list_all2 same_input ins ins'" "map in_prev_out_value_sats ins' = map in_prev_out_value_sats ins"
  using assms first_pass_fold [of env limit "enumerate 0 ins" "[]" "[]" cache]
  by (auto simp: first_pass_def simp flip: map_map)

lemma third_pass_keeps:
  assumes "third_pass env ins cache = (ins', cache')"
  shows "list_all2 same_input ins ins'"
  using assms third_pass_fold [of env "enumerate 0 ins" "[]" cache] by (auto simp: third_pass_def)

text \<open>The totals and the fee of a transaction follow from its inputs, or are what they were.\<close>

definition priced_from :: "transaction_observation \<Rightarrow> transaction_observation \<Rightarrow> bool" where
  "priced_from tx tx' \<longleftrightarrow>
     (tx_total_input_sats tx' = tx_total_input_sats tx
      \<or> tx_total_input_sats tx = 0
        \<and> tx_total_input_sats tx' = sum_list (List.map_filter in_prev_out_value_sats (tx_inputs tx')))
     \<and> (tx_fee_sats tx' = tx_fee_sats tx
        \<or> tx_total_output_sats tx' \<le> tx_total_input_sats tx'
          \<and> tx_fee_sats tx' = tx_total_input_sats tx' - tx_total_output_sats tx')
     \<and> (tx_fee_rate_sat_vb tx \<noteq> None \<longrightarrow> tx_fee_rate_sat_vb tx' = tx_fee_rate_sat_vb tx)"

lemma price_priced_from: "priced_from tx (price tx)" "tx_inputs (price tx) = tx_inputs tx"
  by (auto simp: priced_from_def price_def Let_def)

lemma price_only:
  "(price tx)\<lparr>tx_inputs := a, tx_total_input_sats := b, tx_fee_sats := c, tx_fee_rate_sat_vb := d\<rparr>
     = tx\<lparr>tx_inputs := a, tx_total_input_sats := b, tx_fee_sats := c, tx_fee_rate_sat_vb := d\<rparr>"
  by (simp add: price_def Let_def)

lemma enrich_cases:
  assumes "tx_inputs tx \<noteq> []"
  obtains ins missing cache where
    "first_pass env (ec_max_input_enrichment (en_config en)) (tx_inputs tx) (en_cache en) = (ins, missing, cache)"
    "missing = []" "fst (enrich_transaction env tx en) = tx\<lparr>tx_inputs := ins\<rparr>"
  | ins missing cache ins3 cache2 cache3 where
    "first_pass env (ec_max_input_enrichment (en_config en)) (tx_inputs tx) (en_cache en) = (ins, missing, cache)"
    "missing \<noteq> []" "third_pass env ins cache2 = (ins3, cache3)"
    "fst (enrich_transaction env tx en) = price (tx\<lparr>tx_inputs := ins3\<rparr>)"
proof -
  obtain ins missing cache where
    f: "first_pass env (ec_max_input_enrichment (en_config en)) (tx_inputs tx) (en_cache en) = (ins, missing, cache)"
    by (cases "first_pass env (ec_max_input_enrichment (en_config en)) (tx_inputs tx) (en_cache en)")
  show ?thesis
  proof (cases "missing = []")
    case True
    with f assms show ?thesis by (intro that(1)) (auto simp: enrich_transaction_def Let_def)
  next
    case False
    let ?c = "en_cache (fold (fetch_and_cache env) (enumerate 0 (ee_order env missing)) (en\<lparr>en_cache := cache\<rparr>))"
    obtain ins3 cache3 where t: "third_pass env ins ?c = (ins3, cache3)"
      by (cases "third_pass env ins ?c")
    with f False assms show ?thesis by (intro that(2)) (auto simp: enrich_transaction_def Let_def)
  qed
qed


text \<open>
  A transaction all of whose inputs are already cached gets their contexts but no values, total or
  fee: these are only filled in on the path that looked something up.
\<close>

lemma cached_transaction_stays_unpriced:
  assumes "first_pass env (ec_max_input_enrichment (en_config en)) (tx_inputs tx) (en_cache en) = (ins, [], cache)"
  shows "map in_prev_out_value_sats (tx_inputs (fst (enrich_transaction env tx en))) = map in_prev_out_value_sats (tx_inputs tx)
    \<and> tx_total_input_sats (fst (enrich_transaction env tx en)) = tx_total_input_sats tx
    \<and> tx_fee_sats (fst (enrich_transaction env tx en)) = tx_fee_sats tx"
  using assms first_pass_keeps(2) [OF assms] by (simp add: enrich_transaction_def)

end
