(* ===== verification/Coordinator.thy ===== *)
theory Coordinator
  imports Zmq Rpc "HOL-Library.Sublist"
begin

text \<open>
  The node coordinator (\<open>obschain-ingest/src/bitcoin_coordinator.rs\<close>): it forwards the blocks and
  transactions of the ZeroMQ subscriber, follows the tip of the chain, reports reorganisations, and
  fetches the blocks it missed over RPC.

  The channel of observations is the list of what was sent; sending fails once its receiver is
  dropped. The message loop and the polling task are transition functions of the events they wait
  for; a run interleaves them.
\<close>

section \<open>State\<close>

record bitcoin_coordinator_config =
  cc_reconcile_max_blocks :: u64
  cc_health_poll_interval_secs :: u64

definition bitcoin_coordinator_config_default :: bitcoin_coordinator_config where
  "bitcoin_coordinator_config_default = \<lparr>cc_reconcile_max_blocks = 100, cc_health_poll_interval_secs = 10\<rparr>"

record bitcoin_coordinator_status =
  bs_enabled :: bool
  bs_rpc_health :: source_health_state
  bs_capabilities :: "bitcoin_node_capabilities option"
  bs_zmq_status :: bitcoin_zmq_endpoints_status

record coordinator_env =
  ke_world :: rpc_world
  ke_lib :: bitcoin_lib
  ke_from_hex :: "string \<Rightarrow> u8 list option"
  ke_now :: datetime

record bitcoin_coordinator =
  bc_rpc :: rpc_client
  bc_zmq :: bitcoin_zmq_endpoints_status
  bc_config :: bitcoin_coordinator_config
  bc_last_tip_hash :: "string option"
  bc_last_tip_height :: u64
  bc_status :: bitcoin_coordinator_status
  bc_reorgs_detected :: u64
  bc_gap_blocks_reconciled :: u64
  bc_zmq_transactions_received :: u64
  bc_zmq_blocks_received :: u64
  bc_zmq_sequence_gaps_total :: u64
  bc_zmq_notifications_missed_estimate :: u64
  bc_rpc_requests_total :: u64
  bc_rpc_errors_total :: u64
  bc_sent :: "observation list"
  bc_open :: bool

definition coordinator_new ::
  "rpc_client \<Rightarrow> bitcoin_zmq_endpoints_status \<Rightarrow> bitcoin_coordinator_config \<Rightarrow> bitcoin_coordinator" where
  "coordinator_new rpc zmq config =
     \<lparr>bc_rpc = rpc, bc_zmq = zmq, bc_config = config, bc_last_tip_hash = None, bc_last_tip_height = 0,
      bc_status = \<lparr>bs_enabled = True, bs_rpc_health = Connecting, bs_capabilities = None,
        bs_zmq_status = \<lparr>zs_rawtx = Connecting, zs_rawblock = Connecting, zs_sequence = Connecting\<rparr>\<rparr>,
      bc_reorgs_detected = 0, bc_gap_blocks_reconciled = 0, bc_zmq_transactions_received = 0,
      bc_zmq_blocks_received = 0, bc_zmq_sequence_gaps_total = 0, bc_zmq_notifications_missed_estimate = 0,
      bc_rpc_requests_total = 0, bc_rpc_errors_total = 0, bc_sent = [], bc_open = True\<rparr>"

definition set_tip :: "u64 \<Rightarrow> string \<Rightarrow> bitcoin_coordinator \<Rightarrow> bitcoin_coordinator" where
  "set_tip height hash c = c\<lparr>bc_last_tip_height := height, bc_last_tip_hash := Some hash\<rparr>"

definition coordinator_get_status :: "bitcoin_coordinator \<Rightarrow> bitcoin_coordinator_status" where
  "coordinator_get_status c = (bc_status c)\<lparr>bs_zmq_status := bc_zmq c\<rparr>"

text \<open>\<open>obs_tx.send(..).await\<close>, its result ignored.\<close>

definition emit_obs :: "observation \<Rightarrow> bitcoin_coordinator \<Rightarrow> bitcoin_coordinator" where
  "emit_obs obs c = (if bc_open c then c\<lparr>bc_sent := bc_sent c @ [obs]\<rparr> else c)"

definition emit_block ::
  "block_observation \<Rightarrow> transaction_observation list \<Rightarrow> bitcoin_coordinator \<Rightarrow> bitcoin_coordinator" where
  "emit_block b txs c = fold emit_obs (ObsBlock b # map ObsTransaction txs) c"

text \<open>A call of the RPC client.\<close>

definition with_rpc ::
  "'a rpc \<Rightarrow> bitcoin_coordinator \<Rightarrow> (bitcoin_rpc_error + 'a) \<times> bitcoin_coordinator" where
  "with_rpc m c = (case m (bc_rpc c) of (r, cl) \<Rightarrow> (r, c\<lparr>bc_rpc := cl\<rparr>))"

definition count_request :: "bitcoin_coordinator \<Rightarrow> bitcoin_coordinator" where
  "count_request c = c\<lparr>bc_rpc_requests_total := bc_rpc_requests_total c + 1\<rparr>"

definition count_error :: "bitcoin_coordinator \<Rightarrow> bitcoin_coordinator" where
  "count_error c = c\<lparr>bc_rpc_errors_total := bc_rpc_errors_total c + 1\<rparr>"

definition set_rpc_health :: "source_health_state \<Rightarrow> bitcoin_coordinator \<Rightarrow> bitcoin_coordinator" where
  "set_rpc_health h c = c\<lparr>bc_status := (bc_status c)\<lparr>bs_rpc_health := h\<rparr>\<rparr>"

definition sync_health :: "bool \<Rightarrow> source_health_state" where
  "sync_health ibd = (if ibd then Syncing else Connected)"

definition initialize ::
  "coordinator_env \<Rightarrow> bitcoin_coordinator
     \<Rightarrow> (bitcoin_rpc_error + bitcoin_node_capabilities) \<times> bitcoin_coordinator" where
  "initialize env c =
     (case with_rpc (inspect_capabilities (ke_world env)) (count_request c) of
        (Inl e, c1) \<Rightarrow> (Inl e, set_rpc_health Disconnected (count_error c1))
      | (Inr caps, c1) \<Rightarrow>
          let c2 = c1\<lparr>bc_status := (bc_status c1)\<lparr>bs_rpc_health := sync_health (nc_initial_block_download caps),
                     bs_capabilities := Some caps\<rparr>,
                   bc_last_tip_height := nc_blocks caps\<rparr>
          in case with_rpc (get_block_hash (ke_world env) (nc_blocks caps)) c2 of
               (Inl _, c3) \<Rightarrow> (Inr caps, c3)
             | (Inr hash, c3) \<Rightarrow> (Inr caps, c3\<lparr>bc_last_tip_hash := Some hash\<rparr>))"

section \<open>Reorganisations\<close>

text \<open>
  The search for the common ancestor walks both branches down in step, asking for both headers at
  every step, for at most a hundred steps. The result is the ancestor, the depth, the disconnected
  and the connected blocks.
\<close>

fun trace_ancestor ::
  "coordinator_env \<Rightarrow> nat \<Rightarrow> string \<Rightarrow> string \<Rightarrow> u64 \<Rightarrow> string list \<Rightarrow> string list \<Rightarrow> bitcoin_coordinator
     \<Rightarrow> (string option \<times> u64 \<times> string list \<times> string list) \<times> bitcoin_coordinator" where
  "trace_ancestor env 0 current_old current_new depth disc conn c =
     ((None, depth, disc, conn), c)"
| "trace_ancestor env (Suc k) current_old current_new depth disc conn c =
     (if current_old = current_new then ((Some current_old, depth, disc, conn), c)
      else
        let disc' = disc @ [current_old]; conn' = conn @ [current_new] in
        case with_rpc (get_block_header (ke_world env) current_old) c of (old_hdr, c1) \<Rightarrow>
        case with_rpc (get_block_header (ke_world env) current_new) c1 of (new_hdr, c2) \<Rightarrow>
        case (old_hdr, new_hdr) of
          (Inr o', Inr n) \<Rightarrow>
            (case (bh_previousblockhash o', bh_previousblockhash n) of
               (Some op, Some np) \<Rightarrow> trace_ancestor env k op np (depth + 1) disc' conn' c2
             | _ \<Rightarrow> ((None, depth, disc', conn'), c2))
        | _ \<Rightarrow> ((None, depth, disc', conn'), c2))"

definition handle_potential_reorg ::
  "coordinator_env \<Rightarrow> string \<Rightarrow> string \<Rightarrow> u64 \<Rightarrow> string \<Rightarrow> bitcoin_coordinator \<Rightarrow> bitcoin_coordinator" where
  "handle_potential_reorg env old_tip new_tip new_height new_prev c =
     (let c0 = count_request c; old_height = bc_last_tip_height c0 in
      case trace_ancestor env 100 old_tip new_prev 1 [] [new_tip] c0 of
        ((ancestor, depth, disc, conn), c1) \<Rightarrow>
          emit_obs
            (ObsReorg \<lparr>ro_old_tip_hash = old_tip, ro_old_tip_height = old_height, ro_new_tip_hash = new_tip,
               ro_new_tip_height = new_height, ro_common_ancestor_hash = ancestor, ro_depth = depth,
               ro_disconnected_blocks = disc, ro_connected_blocks = conn,
               ro_observed_at = ke_now env, ro_source = Some (bitcoin_core_zmq ''zmq:sequence'')\<rparr>)
            (c1\<lparr>bc_reorgs_detected := bc_reorgs_detected c1 + 1\<rparr>))"

definition process_zmq_block ::
  "coordinator_env \<Rightarrow> block_observation \<Rightarrow> transaction_observation list \<Rightarrow> bitcoin_coordinator
     \<Rightarrow> bitcoin_coordinator" where
  "process_zmq_block env b txs c =
     (case bc_last_tip_hash c of
        Some expected_prev \<Rightarrow>
          if blk_previous_block_hash b = expected_prev then
            emit_block b txs (set_tip (blk_height b) (blk_hash b) c)
          else
            emit_block b txs (set_tip (blk_height b) (blk_hash b)
              (handle_potential_reorg env expected_prev (blk_hash b) (blk_height b)
                 (blk_previous_block_hash b) c))
      | None \<Rightarrow> emit_block b txs (set_tip (blk_height b) (blk_hash b) c))"

definition investigate_chain_tips :: "coordinator_env \<Rightarrow> bitcoin_coordinator \<Rightarrow> bitcoin_coordinator" where
  "investigate_chain_tips env c =
     (case with_rpc (get_chain_tips (ke_world env)) (count_request c) of
        (Inl _, c1) \<Rightarrow> count_error c1
      | (Inr tips, c1) \<Rightarrow>
          (case find (\<lambda>t. ct_status t = ''active'') tips of
             None \<Rightarrow> c1
           | Some active \<Rightarrow>
               (case bc_last_tip_hash c1 of
                  None \<Rightarrow> c1
                | Some last_tip \<Rightarrow>
                    if last_tip \<noteq> ct_hash active then
                      set_tip (ct_height active) (ct_hash active)
                        (handle_potential_reorg env last_tip (ct_hash active) (ct_height active) '''' c1)
                    else c1)))"

section \<open>Reconciliation\<close>

text \<open>A missed block: fetched, parsed, placed at its height and forwarded, if all of that works.\<close>

definition backfill :: "coordinator_env \<Rightarrow> u64 \<Rightarrow> string \<Rightarrow> bitcoin_coordinator \<Rightarrow> bitcoin_coordinator" where
  "backfill env height hash c =
     (case with_rpc (get_block_raw_hex (ke_world env) hash) c of
        (Inl _, c1) \<Rightarrow> c1
      | (Inr hex_str, c1) \<Rightarrow>
          (case ke_from_hex env hex_str of
             None \<Rightarrow> c1
           | Some bytes \<Rightarrow>
               (case parse_raw_block (ke_lib env) bytes (Some ''rpc:gap_reconciliation'') (16 * 1024 * 1024) of
                  Inl _ \<Rightarrow> c1
                | Inr (b, txs) \<Rightarrow>
                    let c2 = emit_block (b\<lparr>blk_height := height\<rparr>)
                          (map (\<lambda>tx. tx\<lparr>tx_block_height := Some height, tx_block_hash := Some hash\<rparr>) txs) c1
                    in c2\<lparr>bc_gap_blocks_reconciled := bc_gap_blocks_reconciled c2 + 1\<rparr>)))"

definition reconcile_block :: "coordinator_env \<Rightarrow> u64 \<Rightarrow> bitcoin_coordinator \<Rightarrow> bitcoin_coordinator" where
  "reconcile_block env height c =
     (case with_rpc (get_block_hash (ke_world env) height) (count_request c) of
        (Inl _, c1) \<Rightarrow> c1
      | (Inr hash, c1) \<Rightarrow> set_tip height hash (backfill env height hash c1))"

definition missing_heights :: "u64 \<Rightarrow> u64 \<Rightarrow> u64 list" where
  "missing_heights stored tip = map of_nat [Suc (unat stored) ..< Suc (unat tip)]"

definition refresh_status :: "get_blockchain_info_result \<Rightarrow> bitcoin_coordinator \<Rightarrow> bitcoin_coordinator" where
  "refresh_status info c =
     c\<lparr>bc_status := (bc_status c)
        \<lparr>bs_rpc_health := sync_health (bi_initialblockdownload info),
         bs_capabilities := map_option (\<lambda>caps. caps\<lparr>nc_blocks := bi_blocks info, nc_headers := bi_headers info,
           nc_verification_progress := bi_verificationprogress info,
           nc_initial_block_download := bi_initialblockdownload info\<rparr>) (bs_capabilities (bc_status c))\<rparr>\<rparr>"

definition reconcile_tip_and_gap :: "coordinator_env \<Rightarrow> bitcoin_coordinator \<Rightarrow> bitcoin_coordinator" where
  "reconcile_tip_and_gap env c =
     (case with_rpc (get_blockchain_info (ke_world env)) (count_request c) of
        (Inl _, c1) \<Rightarrow> set_rpc_health Disconnected (count_error c1)
      | (Inr info, c1) \<Rightarrow>
          let c2 = refresh_status info c1; stored = bc_last_tip_height c2; tip = bi_blocks info in
          if tip > stored \<and> stored > 0 then
            if tip - stored \<le> cc_reconcile_max_blocks (bc_config c2) then
              fold (reconcile_block env) (missing_heights stored tip) c2
            else
              (case with_rpc (get_block_hash (ke_world env) tip) (c2\<lparr>bc_last_tip_height := tip\<rparr>) of
                 (Inl _, c3) \<Rightarrow> c3
               | (Inr hash, c3) \<Rightarrow> c3\<lparr>bc_last_tip_hash := Some hash\<rparr>)
          else c2)"

definition handle_sequence_gap ::
  "coordinator_env \<Rightarrow> bitcoin_zmq_topic \<Rightarrow> u32 \<Rightarrow> u32 \<Rightarrow> u32 \<Rightarrow> bitcoin_coordinator \<Rightarrow> bitcoin_coordinator" where
  "handle_sequence_gap env topic previous current missed c =
     (let c1 = c\<lparr>bc_zmq_sequence_gaps_total := bc_zmq_sequence_gaps_total c + 1,
            bc_zmq_notifications_missed_estimate := bc_zmq_notifications_missed_estimate c + ucast missed,
            bc_zmq := set_topic_status topic Degraded (bc_zmq c),
            bc_status := (bc_status c)\<lparr>bs_zmq_status :=
              set_topic_status topic Degraded (bs_zmq_status (bc_status c))\<rparr>\<rparr>
      in case topic of
           RawTx \<Rightarrow> snd (with_rpc (get_mempool_info (ke_world env)) c1)
         | _ \<Rightarrow> reconcile_tip_and_gap env c1)"

section \<open>The tasks\<close>

datatype coordinator_event =
    ZmqMessage bitcoin_zmq_message
  | ZmqClosed
  | CoordinatorShutdown bool
  | PollTimer
  | ReceiverDropped

record coordinator_tasks =
  kt_coordinator :: bitcoin_coordinator
  kt_loop_running :: bool
  kt_poll_running :: bool

fun handle_message ::
  "coordinator_env \<Rightarrow> bitcoin_zmq_message \<Rightarrow> coordinator_tasks \<Rightarrow> coordinator_tasks" where
  "handle_message env (MsgRawTx tx _) t =
     (let c = kt_coordinator t;
          c1 = c\<lparr>bc_zmq_transactions_received := bc_zmq_transactions_received c + 1\<rparr>
      in t\<lparr>kt_coordinator := emit_obs (ObsTransaction tx) c1, kt_loop_running := bc_open c\<rparr>)"
| "handle_message env (MsgRawBlock b txs _) t =
     (let c = kt_coordinator t;
          c1 = c\<lparr>bc_zmq_blocks_received := bc_zmq_blocks_received c + 1\<rparr>
      in t\<lparr>kt_coordinator := process_zmq_block env b txs c1\<rparr>)"
| "handle_message env (MsgSequence seq) t =
     (case seq of
        BlockDisconnected _ _ \<Rightarrow> t\<lparr>kt_coordinator := investigate_chain_tips env (kt_coordinator t)\<rparr>
      | _ \<Rightarrow> t)"
| "handle_message env (MsgSequenceGap topic previous current missed) t =
     t\<lparr>kt_coordinator := handle_sequence_gap env topic previous current missed (kt_coordinator t)\<rparr>"

definition coordinator_step ::
  "coordinator_env \<Rightarrow> coordinator_event \<Rightarrow> coordinator_tasks \<Rightarrow> coordinator_tasks" where
  "coordinator_step env e t =
     (case e of
        ZmqMessage m \<Rightarrow> if kt_loop_running t then handle_message env m t else t
      | ZmqClosed \<Rightarrow> t\<lparr>kt_loop_running := False\<rparr>
      | CoordinatorShutdown b \<Rightarrow> t\<lparr>kt_loop_running := kt_loop_running t \<and> \<not> b, kt_poll_running := False\<rparr>
      | PollTimer \<Rightarrow>
          if kt_poll_running t then t\<lparr>kt_coordinator := reconcile_tip_and_gap env (kt_coordinator t)\<rparr> else t
      | ReceiverDropped \<Rightarrow> t\<lparr>kt_coordinator := (kt_coordinator t)\<lparr>bc_open := False\<rparr>\<rparr>)"


section \<open>Frames\<close>

named_theorems coord_frame

lemma with_rpc_frame [coord_frame]:
  assumes "with_rpc m c = (r, c')"
  shows "bc_sent c' = bc_sent c" "bc_open c' = bc_open c" "bc_last_tip_hash c' = bc_last_tip_hash c"
    "bc_last_tip_height c' = bc_last_tip_height c" "bc_config c' = bc_config c"
    "bc_reorgs_detected c' = bc_reorgs_detected c" "bc_gap_blocks_reconciled c' = bc_gap_blocks_reconciled c"
    "bc_status c' = bc_status c"
  using assms by (auto simp: with_rpc_def split: prod.splits)

lemma emit_obs_frame [simp]:
  "bc_open (emit_obs x c) = bc_open c" "bc_last_tip_hash (emit_obs x c) = bc_last_tip_hash c"
  "bc_last_tip_height (emit_obs x c) = bc_last_tip_height c" "bc_config (emit_obs x c) = bc_config c"
  "bc_reorgs_detected (emit_obs x c) = bc_reorgs_detected c" "bc_rpc (emit_obs x c) = bc_rpc c"
  "bc_gap_blocks_reconciled (emit_obs x c) = bc_gap_blocks_reconciled c"
  by (simp_all add: emit_obs_def)

lemma bc_sent_emit: "bc_sent (emit_obs x c) = bc_sent c @ (if bc_open c then [x] else [])"
  by (simp add: emit_obs_def)

lemma emit_fold_frame [simp]:
  "bc_open (fold emit_obs xs c) = bc_open c" "bc_last_tip_hash (fold emit_obs xs c) = bc_last_tip_hash c"
  "bc_last_tip_height (fold emit_obs xs c) = bc_last_tip_height c" "bc_config (fold emit_obs xs c) = bc_config c"
  "bc_reorgs_detected (fold emit_obs xs c) = bc_reorgs_detected c" "bc_rpc (fold emit_obs xs c) = bc_rpc c"
  "bc_gap_blocks_reconciled (fold emit_obs xs c) = bc_gap_blocks_reconciled c"
  by (induction xs arbitrary: c) simp_all

lemma bc_sent_emit_fold: "bc_sent (fold emit_obs xs c) = bc_sent c @ (if bc_open c then xs else [])"
  by (induction xs arbitrary: c) (simp_all add: bc_sent_emit)

lemma count_frame [simp]:
  "bc_sent (count_request c) = bc_sent c" "bc_open (count_request c) = bc_open c"
  "bc_last_tip_hash (count_request c) = bc_last_tip_hash c" "bc_last_tip_height (count_request c) = bc_last_tip_height c"
  "bc_config (count_request c) = bc_config c" "bc_reorgs_detected (count_request c) = bc_reorgs_detected c"
  "bc_rpc (count_request c) = bc_rpc c" "bc_gap_blocks_reconciled (count_request c) = bc_gap_blocks_reconciled c"
  by (simp_all add: count_request_def)

lemma set_tip_frame [simp]:
  "bc_sent (set_tip h x c) = bc_sent c" "bc_open (set_tip h x c) = bc_open c"
  "bc_config (set_tip h x c) = bc_config c" "bc_reorgs_detected (set_tip h x c) = bc_reorgs_detected c"
  "bc_last_tip_hash (set_tip h x c) = Some x" "bc_last_tip_height (set_tip h x c) = h"
  "bc_rpc (set_tip h x c) = bc_rpc c" "bc_gap_blocks_reconciled (set_tip h x c) = bc_gap_blocks_reconciled c"
  by (simp_all add: set_tip_def)

section \<open>A chain that only grows\<close>

text \<open>Blocks that extend the tip one after the other.\<close>

fun linked :: "string \<Rightarrow> (block_observation \<times> transaction_observation list) list \<Rightarrow> bool" where
  "linked h [] = True"
| "linked h ((b, txs) # bs) \<longleftrightarrow> blk_previous_block_hash b = h \<and> linked (blk_hash b) bs"

lemma process_extension:
  assumes "bc_last_tip_hash c = Some (blk_previous_block_hash b)"
  shows "process_zmq_block env b txs c = emit_block b txs (set_tip (blk_height b) (blk_hash b) c)"
  using assms by (simp add: process_zmq_block_def)

text \<open>
  A growing chain is forwarded as it is: blocks that extend the known tip one after the other are
  sent on in order, each followed by its transactions and nothing else, no reorganisation is
  reported, no request goes to the node, and the tip ends at the last block.
\<close>

theorem growing_chain_forwarded:
  assumes "bc_last_tip_hash c = Some h" "linked h bs" "bc_open c"
  shows "let c' = fold (\<lambda>(b, txs). process_zmq_block env b txs) bs c in
    bc_sent c' = bc_sent c @ concat (map (\<lambda>(b, txs). ObsBlock b # map ObsTransaction txs) bs)
    \<and> bc_reorgs_detected c' = bc_reorgs_detected c \<and> bc_rpc c' = bc_rpc c
    \<and> bc_last_tip_hash c' = Some (if bs = [] then h else blk_hash (fst (last bs)))
    \<and> bc_last_tip_height c' = (if bs = [] then bc_last_tip_height c else blk_height (fst (last bs)))"
  using assms
proof (induction bs arbitrary: c h)
  case (Cons bt bs)
  obtain b txs where bt: "bt = (b, txs)" by (cases bt)
  let ?c = "emit_block b txs (set_tip (blk_height b) (blk_hash b) c)"
  have p: "process_zmq_block env b txs c = ?c"
    using Cons.prems by (intro process_extension) (simp add: bt)
  have sent: "bc_sent ?c = bc_sent c @ ObsBlock b # map ObsTransaction txs"
    using Cons.prems(3) unfolding emit_block_def bc_sent_emit_fold by simp
  have f: "bc_open ?c" "bc_last_tip_hash ?c = Some (blk_hash b)" "bc_last_tip_height ?c = blk_height b"
    "bc_reorgs_detected ?c = bc_reorgs_detected c" "bc_rpc ?c = bc_rpc c"
    using Cons.prems(3) unfolding emit_block_def by (simp_all del: fold_simps)
  from Cons.prems(2) have "linked (blk_hash b) bs" by (simp add: bt)
  from Cons.IH [OF f(2) this f(1)] show ?case
    by (simp add: bt p Let_def sent f)
qed simp


definition sample_zmq_block :: "string \<Rightarrow> string \<Rightarrow> u64 \<Rightarrow> block_observation" where
  "sample_zmq_block prev hash height =
     \<lparr>blk_hash = hash, blk_height = height, blk_timestamp = 0, blk_previous_block_hash = prev, blk_tx_count = 0,
      blk_size_bytes = 80, blk_weight = 320, blk_difficulty = None, blk_miner_tag = None,
      blk_interval_seconds = None, blk_source = None\<rparr>"

definition sample_coordinator :: bitcoin_coordinator where
  "sample_coordinator =
     coordinator_new \<lparr>rc_config = bitcoin_rpc_config_default, rc_cached_cookie = None, rc_requests = 0, rc_cookie_reads = 0\<rparr>
       \<lparr>zs_rawtx = Connected, zs_rawblock = Connected, zs_sequence = Connected\<rparr> bitcoin_coordinator_config_default"

section \<open>Tracing a reorganisation\<close>

text \<open>The node says that the block before \<open>h\<close> is \<open>p\<close>, whatever it was asked before.\<close>

definition header_link :: "coordinator_env \<Rightarrow> bitcoin_rpc_config \<Rightarrow> string \<Rightarrow> string \<Rightarrow> bool" where
  "header_link env cfg h p \<longleftrightarrow>
     (\<forall>cl. rc_config cl = cfg \<longrightarrow>
        (\<exists>hdr cl'. get_block_header (ke_world env) h cl = (Inr hdr, cl') \<and> bh_previousblockhash hdr = Some p))"

text \<open>A branch, from its tip down to the block above the ancestor.\<close>

fun branch :: "coordinator_env \<Rightarrow> bitcoin_rpc_config \<Rightarrow> string list \<Rightarrow> string \<Rightarrow> bool" where
  "branch env cfg [] a = True"
| "branch env cfg (h # hs) a \<longleftrightarrow> header_link env cfg h (hd (hs @ [a])) \<and> branch env cfg hs a"

lemma header_link_step:
  assumes "header_link env (rc_config (bc_rpc c)) h p"
  obtains hdr c' where "with_rpc (get_block_header (ke_world env) h) c = (Inr hdr, c')"
    "bh_previousblockhash hdr = Some p" "rc_config (bc_rpc c') = rc_config (bc_rpc c)"
proof -
  obtain hdr cl' where g: "get_block_header (ke_world env) h (bc_rpc c) = (Inr hdr, cl')"
    "bh_previousblockhash hdr = Some p"
    using assms unfolding header_link_def by blast
  then have "rc_config cl' = rc_config (bc_rpc c)"
    using keeps_config [OF sends_methods(5), of "ke_world env" h "bc_rpc c"] by simp
  with g that show ?thesis by (simp add: with_rpc_def)
qed

lemma trace_aligned:
  assumes "branch env (rc_config (bc_rpc c)) olds a" "branch env (rc_config (bc_rpc c)) news a"
    and "list_all2 (\<noteq>) olds news" "length olds < k"
  shows "\<exists>c'. trace_ancestor env k (hd (olds @ [a])) (hd (news @ [a])) d disc conn c
    = ((Some a, d + of_nat (length olds), disc @ olds, conn @ news), c')"
  using assms
proof (induction olds arbitrary: news k d disc conn c)
  case Nil
  then show ?case by (cases k) auto
next
  case (Cons x olds)
  obtain y news' where news: "news = y # news'" "x \<noteq> y" "list_all2 (\<noteq>) olds news'"
    using Cons.prems(3) by (cases news) auto
  obtain k' where k: "k = Suc k'" "length olds < k'" using Cons.prems(4) by (cases k) auto
  obtain oh c1 where o: "with_rpc (get_block_header (ke_world env) x) c = (Inr oh, c1)"
    "bh_previousblockhash oh = Some (hd (olds @ [a]))" "rc_config (bc_rpc c1) = rc_config (bc_rpc c)"
    using header_link_step [of env c x "hd (olds @ [a])"] Cons.prems(1) by auto
  obtain nh c2 where n: "with_rpc (get_block_header (ke_world env) y) c1 = (Inr nh, c2)"
    "bh_previousblockhash nh = Some (hd (news' @ [a]))" "rc_config (bc_rpc c2) = rc_config (bc_rpc c)"
    using header_link_step [of env c1 y "hd (news' @ [a])"] Cons.prems(2) o(3) by (auto simp: news)
  have "branch env (rc_config (bc_rpc c2)) olds a" "branch env (rc_config (bc_rpc c2)) news' a"
    using Cons.prems(1,2) n(3) by (auto simp: news)
  from Cons.IH [OF this news(3) k(2), of "d + 1" "disc @ [x]" "conn @ [y]"] show ?case
    using news o n by (auto simp: k add_ac)
qed

lemma trace_frame:
  assumes "trace_ancestor env k x y d disc conn c = (r, c')"
  shows "bc_sent c' = bc_sent c \<and> bc_open c' = bc_open c \<and> bc_reorgs_detected c' = bc_reorgs_detected c"
  using assms
proof (induction k arbitrary: x y d disc conn c)
  case (Suc k)
  obtain ro c1 where o: "with_rpc (get_block_header (ke_world env) x) c = (ro, c1)"
    by (cases "with_rpc (get_block_header (ke_world env) x) c")
  obtain rn c2 where n: "with_rpc (get_block_header (ke_world env) y) c1 = (rn, c2)"
    by (cases "with_rpc (get_block_header (ke_world env) y) c1")
  show ?case
    using Suc.prems Suc.IH with_rpc_frame [OF o] with_rpc_frame [OF n]
    by (auto simp: o n Let_def split: if_splits sum.splits option.splits)
qed simp



text \<open>A node that serves the headers of a list of links and answers anything else with an error.\<close>

definition header_reply :: "string \<Rightarrow> json" where
  "header_reply p =
     JObj [(''hash'', JStr ''''), (''confirmations'', json_nat 1), (''height'', json_nat 1), (''version'', json_nat 1),
       (''merkleroot'', JStr ''''), (''time'', json_nat 1), (''nonce'', json_nat 1), (''bits'', JStr ''''),
       (''difficulty'', json_nat 1), (''previousblockhash'', JStr p)]"

definition header_of :: "string \<Rightarrow> get_block_header_result" where
  "header_of p =
     \<lparr>bh_hash = '''', bh_confirmations = 1, bh_height = 1, bh_version = 1, bh_merkleroot = '''', bh_time = 1,
      bh_nonce = 1, bh_bits = '''', bh_difficulty = f64_of_nat 1, bh_previousblockhash = Some p, bh_nextblockhash = None\<rparr>"

definition header_world :: "(string \<times> string) list \<Rightarrow> rpc_world" where
  "header_world links =
     \<lparr>rw_connect = None,
      rw_post = (\<lambda>n auth req.
        case find (\<lambda>(h, p). req = rpc_request ''getblockheader'' [JStr h, JBool True]) links of
          Some (h, p) \<Rightarrow> Inr \<lparr>hr_status = 200, hr_body = Inr (JObj [(''result'', header_reply p)])\<rparr>
        | None \<Rightarrow> Inl ''unknown block''),
      rw_read_cookie = (\<lambda>n. Inl ''no cookie'')\<rparr>"

definition header_env :: "(string \<times> string) list \<Rightarrow> coordinator_env" where
  "header_env links = \<lparr>ke_world = header_world links, ke_lib = sample_lib, ke_from_hex = (\<lambda>t. None), ke_now = 0\<rparr>"

lemma header_reply_read: "block_header_of_json (header_reply p) = Some (header_of p)"
  by (simp add: block_header_of_json_def header_reply_def header_of_def struct_fields_def get_field_def
      get_opt_field_def json_nat_def)

lemma header_reply_opt: "as_opt block_header_of_json (header_reply p) = Some (Some (header_of p))"
  using header_reply_read [of p] by (simp add: header_reply_def)

lemma get_header_sample:
  assumes "rc_config cl = bitcoin_rpc_config_default"
  shows "get_block_header (header_world links) h cl =
    (case map_of links h of Some p \<Rightarrow> Inr (header_of p) | None \<Rightarrow> Inl (Http ''unknown block''),
     cl\<lparr>rc_requests := Suc (rc_requests cl)\<rparr>)"
proof -
  have f: "find (\<lambda>(x, p). rpc_request ''getblockheader'' [JStr h, JBool True] = rpc_request ''getblockheader'' [JStr x, JBool True]) ls
      = map_option (\<lambda>p. (h, p)) (map_of ls h)" for ls
    by (induction ls) (auto simp: rpc_request_def)
  have a: "resolve_auth (header_world links) cl = (Inr None, cl)"
    using assms by (simp add: resolve_auth_def bitcoin_rpc_config_default_def)
  show ?thesis
    using assms unfolding get_block_header_def call_def rpc_bind_def send_def a
    by (simp add: header_world_def f parse_response_def envelope_of_json_def struct_fields_def get_opt_field_def
        header_reply_opt bitcoin_rpc_config_default_def split: option.split)
qed


theorem growing_chain_forwarded_witness:
  "bc_sent (fold (\<lambda>(b, txs). process_zmq_block (header_env []) b txs)
      [(sample_zmq_block ''g'' ''a'' 1, []), (sample_zmq_block ''a'' ''b'' 2, [])] (set_tip 0 ''g'' sample_coordinator))
    = [ObsBlock (sample_zmq_block ''g'' ''a'' 1), ObsBlock (sample_zmq_block ''a'' ''b'' 2)]"
  using growing_chain_forwarded [of "set_tip 0 ''g'' sample_coordinator" "''g''"
      "[(sample_zmq_block ''g'' ''a'' 1, []), (sample_zmq_block ''a'' ''b'' 2, [])]" "header_env []"]
  by (simp add: Let_def sample_zmq_block_def sample_coordinator_def coordinator_new_def)


section \<open>Branches of different height\<close>

text \<open>The node's headers are consistent with the heights of the blocks.\<close>

definition heights_agree :: "coordinator_env \<Rightarrow> bitcoin_rpc_config \<Rightarrow> (string \<Rightarrow> nat) \<Rightarrow> bool" where
  "heights_agree env cfg ht \<longleftrightarrow>
     (\<forall>h cl hdr cl' p. rc_config cl = cfg \<and> get_block_header (ke_world env) h cl = (Inr hdr, cl')
        \<and> bh_previousblockhash hdr = Some p \<longrightarrow> ht h = Suc (ht p))"

lemma header_config:
  "with_rpc (get_block_header w h) c = (r, c') \<Longrightarrow> rc_config (bc_rpc c') = rc_config (bc_rpc c)"
  using keeps_config [OF sends_methods(5), of w h "bc_rpc c"] by (auto simp: with_rpc_def split: prod.splits)

lemma trace_uneven:
  assumes "heights_agree env (rc_config (bc_rpc c)) ht" "ht x \<noteq> ht y"
  shows "fst (fst (trace_ancestor env k x y d disc conn c)) = None"
  using assms
proof (induction k arbitrary: x y d disc conn c)
  case (Suc k)
  obtain ro c1 where o: "with_rpc (get_block_header (ke_world env) x) c = (ro, c1)"
    by (cases "with_rpc (get_block_header (ke_world env) x) c")
  obtain rn c2 where n: "with_rpc (get_block_header (ke_world env) y) c1 = (rn, c2)"
    by (cases "with_rpc (get_block_header (ke_world env) y) c1")
  have cfg: "rc_config (bc_rpc c1) = rc_config (bc_rpc c)" "rc_config (bc_rpc c2) = rc_config (bc_rpc c)"
    using header_config [OF o] header_config [OF n] by simp_all
  have "ht x = Suc (ht op)" if "ro = Inr oh" "bh_previousblockhash oh = Some op" for oh op
    using o that Suc.prems(1) by (auto simp: with_rpc_def heights_agree_def split: prod.splits)
  moreover have "ht y = Suc (ht np)" if "rn = Inr nh" "bh_previousblockhash nh = Some np" for nh np
    using n that Suc.prems(1) cfg(1) by (auto simp: with_rpc_def heights_agree_def split: prod.splits)
  ultimately show ?case
    using Suc.prems Suc.IH [of c2] cfg(2) by (auto simp: o n Let_def split: sum.split option.split)
qed simp

text \<open>
  C33. The two branches are compared block by block from their tips, so the search only works for
  branches that end one apart: when the headers of the node are consistent with the heights and the
  new tip is not exactly one above the old one, no common ancestor is ever reported.
\<close>

theorem uneven_reorg_untraced:
  assumes "heights_agree env (rc_config (bc_rpc c)) ht" "ht new_prev \<noteq> ht old_tip" "bc_open c"
  shows "\<exists>ro. bc_sent (handle_potential_reorg env old_tip new_tip new_height new_prev c) = bc_sent c @ [ObsReorg ro]
    \<and> ro_common_ancestor_hash ro = None"
proof -
  obtain r c1 where t: "trace_ancestor env 100 old_tip new_prev 1 [] [new_tip] (count_request c) = (r, c1)"
    by (cases "trace_ancestor env 100 old_tip new_prev 1 [] [new_tip] (count_request c)")
  obtain a d dc cn where r: "r = (a, d, dc, cn)" by (cases r) auto
  have "a = None"
    using trace_uneven [of env "count_request c" ht old_tip new_prev 100 1 "[]" "[new_tip]"] assms(1,2)
    by (simp add: t r)
  then show ?thesis
    using trace_frame [OF t] assms(3) unfolding handle_potential_reorg_def Let_def t r
    by (simp add: bc_sent_emit)
qed


text \<open>
  The old tip is one block above the fork, the new one three: both branches are served, and yet no
  ancestor is found.
\<close>

theorem uneven_reorg_untraced_witness:
  "\<exists>ro. bc_sent (handle_potential_reorg (header_env [(''a1'', ''g''), (''b2'', ''b1''), (''b1'', ''g'')])
       ''a1'' ''b3'' 8 ''b2'' sample_coordinator) = bc_sent sample_coordinator @ [ObsReorg ro]
     \<and> ro_common_ancestor_hash ro = None"
proof (rule uneven_reorg_untraced)
  let ?ht = "\<lambda>h. if h = ''g'' then 0 else if h = ''b2'' then 2 else (1 :: nat)"
  show "heights_agree (header_env [(''a1'', ''g''), (''b2'', ''b1''), (''b1'', ''g'')])
      (rc_config (bc_rpc sample_coordinator)) ?ht"
    using get_header_sample
    by (auto simp: heights_agree_def header_env_def sample_coordinator_def coordinator_new_def header_of_def
        split: if_splits)
  show "?ht ''b2'' \<noteq> ?ht ''a1''" by simp
qed (simp add: sample_coordinator_def coordinator_new_def)


section \<open>Catching up\<close>

definition block_heights :: "observation list \<Rightarrow> u64 list" where
  "block_heights = List.map_filter (\<lambda>obs. case obs of ObsBlock b \<Rightarrow> Some (blk_height b) | _ \<Rightarrow> None)"

lemma block_heights_simps [simp]:
  "block_heights [] = []" "block_heights (ObsBlock b # xs) = blk_height b # block_heights xs"
  "block_heights (map ObsTransaction txs) = []" "block_heights (xs @ ys) = block_heights xs @ block_heights ys"
  by (induction txs) (simp_all add: block_heights_def map_filter_def)

text \<open>One catch-up step: what it sends and where it leaves the tip.\<close>

definition caught_up :: "u64 list \<Rightarrow> bitcoin_coordinator \<Rightarrow> bitcoin_coordinator \<Rightarrow> bool" where
  "caught_up hs c c' \<longleftrightarrow>
     (\<exists>new. bc_sent c' = bc_sent c @ new \<and> subseq (block_heights new) hs
        \<and> list_all (\<lambda>h. h \<le> bc_last_tip_height c') (block_heights new))
     \<and> bc_last_tip_height c \<le> bc_last_tip_height c' \<and> bc_last_tip_height c' \<in> set (bc_last_tip_height c # hs)
     \<and> bc_config c' = bc_config c \<and> bc_open c' = bc_open c \<and> bc_reorgs_detected c' = bc_reorgs_detected c"

lemma backfill_spec:
  "(\<exists>new. bc_sent (backfill env h x c) = bc_sent c @ new \<and> block_heights new \<in> {[], [h]})
   \<and> bc_last_tip_height (backfill env h x c) = bc_last_tip_height c \<and> bc_config (backfill env h x c) = bc_config c
   \<and> bc_open (backfill env h x c) = bc_open c \<and> bc_reorgs_detected (backfill env h x c) = bc_reorgs_detected c"
proof -
  obtain r c1 where r: "with_rpc (get_block_raw_hex (ke_world env) x) c = (r, c1)"
    by (cases "with_rpc (get_block_raw_hex (ke_world env) x) c")
  have e: "bc_sent (emit_block b txs c1) = bc_sent c1 @ (if bc_open c1 then ObsBlock b # map ObsTransaction txs else [])"
    "bc_last_tip_height (emit_block b txs c1) = bc_last_tip_height c1" "bc_config (emit_block b txs c1) = bc_config c1"
    "bc_open (emit_block b txs c1) = bc_open c1" "bc_reorgs_detected (emit_block b txs c1) = bc_reorgs_detected c1" for b txs
    unfolding emit_block_def bc_sent_emit_fold by (simp_all del: fold_simps)
  show ?thesis
    unfolding backfill_def r
    by (auto simp: with_rpc_frame [OF r] e Let_def split: sum.split option.split prod.split simp del: map_map)
qed

lemma reconcile_block_spec:
  assumes "bc_last_tip_height c < h"
  shows "caught_up [h] c (reconcile_block env h c)"
proof -
  obtain r c1 where r: "with_rpc (get_block_hash (ke_world env) h) (count_request c) = (r, c1)"
    by (cases "with_rpc (get_block_hash (ke_world env) h) (count_request c)")
  note f = with_rpc_frame [OF r]
  show ?thesis
  proof (cases r)
    case (Inl e)
    then show ?thesis using f by (auto simp: reconcile_block_def r caught_up_def)
  next
    case (Inr x)
    obtain new where new: "bc_sent (backfill env h x c1) = bc_sent c1 @ new" "block_heights new \<in> {[], [h]}"
      using backfill_spec by blast
    have "reconcile_block env h c = set_tip h x (backfill env h x c1)" by (simp add: reconcile_block_def r Inr)
    then show ?thesis
      unfolding caught_up_def using new f assms backfill_spec [of env h x c1]
      by (auto intro!: exI [of _ new])
  qed
qed

lemma caught_up_trans:
  assumes "caught_up [h] c c1" "caught_up hs c1 c2"
  shows "caught_up (h # hs) c c2"
proof -
  obtain new1 where 1: "bc_sent c1 = bc_sent c @ new1" "subseq (block_heights new1) [h]"
    "list_all (\<lambda>h. h \<le> bc_last_tip_height c1) (block_heights new1)"
    using assms(1) unfolding caught_up_def by blast
  obtain new2 where 2: "bc_sent c2 = bc_sent c1 @ new2" "subseq (block_heights new2) hs"
    "list_all (\<lambda>h. h \<le> bc_last_tip_height c2) (block_heights new2)"
    using assms(2) unfolding caught_up_def by blast
  have "bc_last_tip_height c1 \<le> bc_last_tip_height c2" using assms(2) by (simp add: caught_up_def)
  with 1(3) have "list_all (\<lambda>h. h \<le> bc_last_tip_height c2) (block_heights new1)"
    by (auto simp: list_all_iff)
  then have "bc_sent c2 = bc_sent c @ (new1 @ new2) \<and> subseq (block_heights (new1 @ new2)) (h # hs)
      \<and> list_all (\<lambda>h. h \<le> bc_last_tip_height c2) (block_heights (new1 @ new2))"
    using 1 2 list_emb_append_mono [OF 1(2) 2(2)] by simp
  then show ?thesis using assms unfolding caught_up_def by (auto intro: order_trans)
qed

lemma reconcile_fold:
  assumes "sorted_wrt (<) (bc_last_tip_height c # hs)"
  shows "caught_up hs c (fold (reconcile_block env) hs c)"
  using assms
proof (induction hs arbitrary: c)
  case Nil
  show ?case by (simp add: caught_up_def)
next
  case (Cons h hs)
  let ?c = "reconcile_block env h c"
  have s: "caught_up [h] c ?c" using Cons.prems by (intro reconcile_block_spec) simp
  then have "bc_last_tip_height ?c \<in> {bc_last_tip_height c, h}" by (auto simp: caught_up_def)
  then have "sorted_wrt (<) (bc_last_tip_height ?c # hs)" using Cons.prems by auto
  from caught_up_trans [OF s Cons.IH [OF this]] show ?case by simp
qed


lemma missing_heights_facts:
  assumes "stored \<le> tip"
  shows "sorted_wrt (<) (stored # missing_heights stored tip)"
    and "length (missing_heights stored tip) = unat (tip - stored)"
    and "set (missing_heights stored tip) \<subseteq> {stored <.. tip}"
proof -
  have le: "unat stored \<le> unat tip" using assms by (simp add: word_le_nat_alt)
  have u: "unat (of_nat k :: u64) = k" if "k \<le> unat tip" for k
    using that unsigned_less [of tip, where 'a = nat] by (intro unat_of_nat_less) (simp add: le_less_trans)
  then show "set (missing_heights stored tip) \<subseteq> {stored <.. tip}"
    by (auto simp: missing_heights_def word_less_nat_alt word_le_nat_alt less_Suc_eq_le)
  moreover have "sorted_wrt (<) (missing_heights stored tip)"
    unfolding missing_heights_def sorted_wrt_map
    by (rule sorted_wrt_mono_rel [OF _ sorted_wrt_upt]) (use u in \<open>auto simp: word_less_nat_alt less_Suc_eq_le\<close>)
  ultimately show "sorted_wrt (<) (stored # missing_heights stored tip)" by auto
  show "length (missing_heights stored tip) = unat (tip - stored)"
    using le by (auto simp: missing_heights_def unat_sub assms)
qed

lemma subseq_set: "subseq xs ys \<Longrightarrow> set xs \<subseteq> set ys"
  by (auto dest: list_emb_set)

lemma subseq_sorted_wrt: "subseq xs ys \<Longrightarrow> sorted_wrt P ys \<Longrightarrow> sorted_wrt P xs"
  by (induction rule: list_emb.induct) (auto dest: subseq_set)

lemma reconcile_missing:
  assumes "bc_last_tip_height c = stored" "stored < tip" "unat (tip - stored) \<le> n"
    and "c' = fold (reconcile_block env) (missing_heights stored tip) c"
  shows "\<exists>new. bc_sent c' = bc_sent c @ new \<and> length (block_heights new) \<le> n
    \<and> sorted_wrt (<) (block_heights new)
    \<and> list_all (\<lambda>h. stored < h \<and> h \<le> bc_last_tip_height c') (block_heights new)"
    and "stored \<le> bc_last_tip_height c'" "bc_reorgs_detected c' = bc_reorgs_detected c"
proof -
  let ?hs = "missing_heights stored tip"
  have m: "sorted_wrt (<) (stored # ?hs)" "length ?hs = unat (tip - stored)" "set ?hs \<subseteq> {stored <.. tip}"
    using missing_heights_facts [of stored tip] assms(2) by simp_all
  have cu: "caught_up ?hs c c'" using reconcile_fold [of c ?hs env] m(1) assms(1,4) by simp
  then show "stored \<le> bc_last_tip_height c'" "bc_reorgs_detected c' = bc_reorgs_detected c"
    using assms(1) by (simp_all add: caught_up_def)
  obtain new where new: "bc_sent c' = bc_sent c @ new" "subseq (block_heights new) ?hs"
    "list_all (\<lambda>h. h \<le> bc_last_tip_height c') (block_heights new)"
    using cu unfolding caught_up_def by blast
  have "length (block_heights new) \<le> n" using list_emb_length [OF new(2)] m(2) assms(3) by simp
  moreover have "sorted_wrt (<) (block_heights new)" using m(1) subseq_sorted_wrt [OF new(2)] by simp
  moreover have "set (block_heights new) \<subseteq> {stored <.. tip}" using subseq_set [OF new(2)] m(3) by blast
  ultimately show "\<exists>new. bc_sent c' = bc_sent c @ new \<and> length (block_heights new) \<le> n
    \<and> sorted_wrt (<) (block_heights new)
    \<and> list_all (\<lambda>h. stored < h \<and> h \<le> bc_last_tip_height c') (block_heights new)"
    using new by (auto simp: list_all_iff)
qed

text \<open>
  C31. Catching up is bounded and ordered: whatever the node answers, one reconciliation sends at most
  the configured number of blocks, in strictly increasing height, all above the tip known before and
  none above the tip known afterwards; the tip never moves down and no reorganisation is reported.
\<close>

theorem reconciliation_bounded:
  "let c' = reconcile_tip_and_gap env c in
   \<exists>new. bc_sent c' = bc_sent c @ new
     \<and> length (block_heights new) \<le> unat (cc_reconcile_max_blocks (bc_config c))
     \<and> sorted_wrt (<) (block_heights new)
     \<and> list_all (\<lambda>h. bc_last_tip_height c < h \<and> h \<le> bc_last_tip_height c') (block_heights new)
     \<and> bc_last_tip_height c \<le> bc_last_tip_height c' \<and> bc_reorgs_detected c' = bc_reorgs_detected c"
proof -
  obtain r c1 where r: "with_rpc (get_blockchain_info (ke_world env)) (count_request c) = (r, c1)"
    by (cases "with_rpc (get_blockchain_info (ke_world env)) (count_request c)")
  note f = with_rpc_frame [OF r]
  show ?thesis
  proof (cases r)
    case (Inl e)
    then show ?thesis
      using f by (simp add: reconcile_tip_and_gap_def r Let_def set_rpc_health_def count_error_def)
  next
    case (Inr info)
    define c2 where "c2 = refresh_status info c1"
    define stored where "stored = bc_last_tip_height c"
    define tip where "tip = bi_blocks info"
    have f2: "bc_sent c2 = bc_sent c" "bc_last_tip_height c2 = stored" "bc_config c2 = bc_config c"
      "bc_reorgs_detected c2 = bc_reorgs_detected c"
      using f by (simp_all add: c2_def refresh_status_def stored_def)
    consider (small) "stored < tip" "tip - stored \<le> cc_reconcile_max_blocks (bc_config c)" "stored > 0"
      | (large) "stored < tip" "\<not> tip - stored \<le> cc_reconcile_max_blocks (bc_config c)" "stored > 0"
      | (none) "\<not> (tip > stored \<and> stored > 0)" by blast
    then show ?thesis
    proof cases
      case small
      have "reconcile_tip_and_gap env c = fold (reconcile_block env) (missing_heights stored tip) c2"
        using small by (simp add: reconcile_tip_and_gap_def r Inr Let_def c2_def [symmetric] tip_def [symmetric] f2)
      from reconcile_missing [OF f2(2) small(1) _ this, of "unat (cc_reconcile_max_blocks (bc_config c))"]
      show ?thesis using small(2) by (simp add: f2 Let_def stored_def word_le_nat_alt)
    next
      case large
      obtain r2 c3 where r2: "with_rpc (get_block_hash (ke_world env) tip) (c2\<lparr>bc_last_tip_height := tip\<rparr>) = (r2, c3)"
        by (cases "with_rpc (get_block_hash (ke_world env) tip) (c2\<lparr>bc_last_tip_height := tip\<rparr>)")
      have "bc_sent (reconcile_tip_and_gap env c) = bc_sent c
          \<and> bc_last_tip_height (reconcile_tip_and_gap env c) = tip
          \<and> bc_reorgs_detected (reconcile_tip_and_gap env c) = bc_reorgs_detected c"
        using large with_rpc_frame [OF r2] f2
        by (simp add: reconcile_tip_and_gap_def r Inr Let_def c2_def [symmetric] tip_def [symmetric] r2
            split: sum.split)
      then show ?thesis using large by (simp add: Let_def stored_def)
    next
      case none
      then have "reconcile_tip_and_gap env c = c2"
        using f2 by (auto simp: reconcile_tip_and_gap_def r Inr Let_def c2_def [symmetric] tip_def [symmetric])
      then show ?thesis using f2 by (simp add: Let_def stored_def)
    qed
  qed
qed

end
