(* ===== verification/Pipeline.thy ===== *)
theory Pipeline
  imports Dedup Enricher Coordinator Config
begin

text \<open>
  The daemon (\<open>src/main.rs\<close>): the settings of its parts, and the pipeline worker, which takes each
  observation through enrichment, incident watching, detection and deduplication to the storage and
  the broadcast channels. Writes to the storage are retried.

  The storage is the in-memory one behind a connection that may be down: \<open>pv_outage\<close> says which write
  attempts fail, and a failed attempt changes nothing. Broadcast channels are the lists of what was
  sent. Each observation has its own runtime, clock and environment.
\<close>

section \<open>Telemetry\<close>

record pipeline_metrics =
  pm_transactions_observed :: u64
  pm_blocks_observed :: u64
  pm_transactions_enriched :: u64
  pm_utxo_lookup_failures :: u64
  pm_cache_hits :: u64
  pm_cache_misses :: u64
  pm_events_generated :: u64
  pm_events_deduplicated :: u64
  pm_incident_activities_detected :: u64
  pm_incident_alerts_emitted :: u64
  pm_storage_write_errors :: u64
  pm_rpc_requests_total :: u64
  pm_rpc_errors_total :: u64
  pm_zmq_transactions_received :: u64
  pm_zmq_blocks_received :: u64
  pm_zmq_reconnects :: u64
  pm_zmq_sequence_gaps_total :: u64
  pm_zmq_notifications_missed_estimate :: u64
  pm_gap_blocks_reconciled :: u64
  pm_reorgs_detected :: u64
  pm_source_disagreements :: u64
  pm_bitcoin_core_tip :: u64
  pm_bitcoin_core_sync_progress :: u64

definition pipeline_metrics_default :: pipeline_metrics where
  "pipeline_metrics_default =
     \<lparr>pm_transactions_observed = 0, pm_blocks_observed = 0, pm_transactions_enriched = 0,
      pm_utxo_lookup_failures = 0, pm_cache_hits = 0, pm_cache_misses = 0, pm_events_generated = 0,
      pm_events_deduplicated = 0, pm_incident_activities_detected = 0, pm_incident_alerts_emitted = 0,
      pm_storage_write_errors = 0, pm_rpc_requests_total = 0, pm_rpc_errors_total = 0,
      pm_zmq_transactions_received = 0, pm_zmq_blocks_received = 0, pm_zmq_reconnects = 0,
      pm_zmq_sequence_gaps_total = 0, pm_zmq_notifications_missed_estimate = 0, pm_gap_blocks_reconciled = 0,
      pm_reorgs_detected = 0, pm_source_disagreements = 0, pm_bitcoin_core_tip = 0,
      pm_bitcoin_core_sync_progress = 0\<rparr>"

datatype web_socket_broadcast =
    WsChainEvent chain_event chain_event
  | WsIncidentActivity incident_activity
  | WsIncidentAlert incident_alert

definition ws_chain_event :: "chain_event \<Rightarrow> web_socket_broadcast" where
  "ws_chain_event e = WsChainEvent e e"

section \<open>Settings of the parts\<close>

definition rpc_config_of :: "int \<Rightarrow> app_config \<Rightarrow> bitcoin_rpc_config" where
  "rpc_config_of timeout c =
     \<lparr>rpc_url = app_bitcoin_rpc_url c, rpc_user = app_bitcoin_rpc_user c, rpc_password = app_bitcoin_rpc_password c,
      cookie_file = app_bitcoin_cookie_file c, rpc_timeout = timeout,
      expected_network = Some (app_bitcoin_network c)\<rparr>"

definition coordinator_config_of :: "app_config \<Rightarrow> bitcoin_coordinator_config" where
  "coordinator_config_of c =
     \<lparr>cc_reconcile_max_blocks = app_reconcile_max_blocks c, cc_health_poll_interval_secs = 10\<rparr>"

text \<open>There is no third-party client in sovereign mode, or when it cannot be built.\<close>

definition rest_config_of :: "bool \<Rightarrow> app_config \<Rightarrow> mempool_rest_config option" where
  "rest_config_of buildable c =
     (if app_sovereign_only c \<or> \<not> buildable then None
      else Some \<lparr>mc_base_url = app_mempool_api_url c, mc_timeout = 10, mc_connect_timeout = 5, mc_max_retries = 3,
                 mc_max_response_bytes = 10 * 1024 * 1024\<rparr>)"

definition enricher_config_of :: "app_config \<Rightarrow> enricher_config" where
  "enricher_config_of c =
     \<lparr>ec_max_input_enrichment = app_max_input_enrichment c,
      ec_lookup_concurrency = app_utxo_lookup_concurrency c, ec_request_timeout = 5\<rparr>"

definition enricher_of :: "rpc_client option \<Rightarrow> bool \<Rightarrow> app_config \<Rightarrow> transaction_enricher" where
  "enricher_of rpc buildable c =
     new_with_sources rpc (rest_config_of buildable c) (app_sovereign_only c)
       (utxo_cache_new (app_utxo_cache_limit c) (uint (app_utxo_cache_ttl_seconds c) * 1000000000))
       (enricher_config_of c)"

definition zmq_config_of :: "app_config \<Rightarrow> bitcoin_zmq_config" where
  "zmq_config_of c =
     \<lparr>zc_rawtx_endpoint = app_bitcoin_zmq_rawtx c, zc_rawblock_endpoint = app_bitcoin_zmq_rawblock c,
      zc_sequence_endpoint = app_bitcoin_zmq_sequence c, zc_max_message_size = 16 * 1024 * 1024,
      zc_initial_reconnect_ms = 500, zc_max_reconnect_ms = 10000\<rparr>"

definition dedup_of :: "app_config \<Rightarrow> event_deduplicator" where
  "dedup_of c = dedup_new (app_dedup_cache_capacity c) (uint (app_dedup_cache_ttl_seconds c) * 1000000000)"

definition detectors_of :: "app_config \<Rightarrow> detector list" where
  "detectors_of c = registered_detectors
     \<lparr>dcfg_large = \<lparr>lt_threshold_sats = app_large_tx_threshold_sats c\<rparr>,
      dcfg_interval = \<lparr>li_threshold_seconds = app_long_block_interval_seconds c\<rparr>,
      dcfg_dormant = \<lparr>dc_min_age_days = app_dormant_min_age_days c, dc_min_value_sats = app_dormant_min_value_sats c\<rparr>,
      dcfg_consolidation = \<lparr>cd_min_inputs = app_consolidation_min_inputs c,
        cd_max_outputs = app_consolidation_max_outputs c, cd_min_value_sats = app_consolidation_min_value_sats c\<rparr>,
      dcfg_fan_out = \<lparr>fo_min_outputs = app_fanout_min_outputs c, fo_min_value_sats = app_fanout_min_value_sats c\<rparr>,
      dcfg_extreme_fee = \<lparr>xf_extreme_fee_sats = app_extreme_fee_sats c,
        xf_extreme_fee_rate_sat_vb = app_extreme_fee_rate_sat_vb c\<rparr>\<rparr>"

text \<open>The watch engine starts with the canonical targets and the title of their dossier.\<close>

definition watch_of :: "environment \<Rightarrow> watch_target list \<Rightarrow> string \<Rightarrow> watch_run" where
  "watch_of var targets case_id =
     \<lparr>wr_engine = register_incident_title case_id ''Liquid Network Security Incident''
        (load_targets targets (watch_engine_from_env (var ''OBSCHAIN_INCIDENT_FOLLOW_DEPTH''))),
      wr_next = 0, wr_results = []\<rparr>"

definition replay_config_of :: "app_config \<Rightarrow> replay_config" where
  "replay_config_of c =
     \<lparr>rg_batch_size = app_replay_batch_size c, rg_concurrency = app_replay_concurrency c,
      rg_checkpoint_interval = app_replay_checkpoint_interval c, rg_max_range = app_replay_max_range c,
      rg_tx_cache_limit = app_replay_tx_cache_limit c, rg_db_concurrency = app_replay_db_concurrency c,
      rg_sovereign_only = app_sovereign_only c, rg_api_enabled = app_replay_api_enabled c\<rparr>"

section \<open>The pipeline worker\<close>

record pipeline =
  pl_storage :: in_memory_storage
  pl_writes :: nat
  pl_slept :: nat
  pl_engine :: detector_engine
  pl_dedup :: event_deduplicator
  pl_watch :: watch_run
  pl_enricher :: transaction_enricher
  pl_metrics :: pipeline_metrics
  pl_tip_height :: u64
  pl_events_detected :: u64
  pl_broadcast :: "chain_event list"
  pl_ws :: "web_socket_broadcast list"
  pl_running :: bool

record pipeline_env =
  pv_enricher :: enricher_env
  pv_runtime :: runtime
  pv_clock :: int
  pv_metric_ids :: "nat \<Rightarrow> nat \<Rightarrow> uuid"
  pv_watch_ids :: "nat \<Rightarrow> uuid"
  pv_outage :: "nat \<Rightarrow> bool"

definition pipeline_new ::
  "in_memory_storage \<Rightarrow> watch_run \<Rightarrow> transaction_enricher \<Rightarrow> app_config \<Rightarrow> pipeline" where
  "pipeline_new s w en c =
     \<lparr>pl_storage = s, pl_writes = 0, pl_slept = 0, pl_engine = detector_engine_new (detectors_of c),
      pl_dedup = dedup_of c, pl_watch = w, pl_enricher = en, pl_metrics = pipeline_metrics_default,
      pl_tip_height = 0, pl_events_detected = 0, pl_broadcast = [], pl_ws = [], pl_running = True\<rparr>"

subsection \<open>Writes with retries\<close>

text \<open>One attempt to write: it fails, changing nothing, or the storage does the write.\<close>

definition try_write ::
  "(nat \<Rightarrow> bool) \<Rightarrow> (in_memory_storage \<Rightarrow> in_memory_storage) \<Rightarrow> pipeline \<Rightarrow> bool \<times> pipeline" where
  "try_write outage write p =
     (let p1 = p\<lparr>pl_writes := pl_writes p + 1\<rparr>
      in if outage (pl_writes p) then (False, p1)
         else (True, p1\<lparr>pl_storage := write (pl_storage p1)\<rparr>))"

definition count_write_error :: "pipeline \<Rightarrow> pipeline" where
  "count_write_error p =
     p\<lparr>pl_metrics := (pl_metrics p)\<lparr>pm_storage_write_errors := pm_storage_write_errors (pl_metrics p) + 1\<rparr>\<rparr>"

text \<open>The loop of the three saving functions; \<open>stored\<close> is what follows a successful write.\<close>

function save_loop ::
  "(nat \<Rightarrow> bool) \<Rightarrow> (in_memory_storage \<Rightarrow> in_memory_storage) \<Rightarrow> (pipeline \<Rightarrow> pipeline) \<Rightarrow> nat \<Rightarrow> nat \<Rightarrow> pipeline
     \<Rightarrow> pipeline" where
  "save_loop outage write stored attempts delay p =
     (case try_write outage write p of
        (True, p1) \<Rightarrow> stored p1
      | (False, p1) \<Rightarrow>
          if attempts + 1 \<ge> 3 then count_write_error p1
          else save_loop outage write stored (attempts + 1) (delay * 2) (p1\<lparr>pl_slept := pl_slept p1 + delay\<rparr>))"
  by pat_completeness auto

termination save_loop
  by (relation "measure (\<lambda>(outage, write, stored, attempts, delay, p). 3 - attempts)") auto

declare save_loop.simps [simp del]

definition save_activity_with_retry :: "pipeline_env \<Rightarrow> incident_activity \<Rightarrow> pipeline \<Rightarrow> pipeline" where
  "save_activity_with_retry env a = save_loop (pv_outage env) (save_activity a) id 0 50"

definition save_alert_with_retry :: "pipeline_env \<Rightarrow> incident_alert \<Rightarrow> pipeline \<Rightarrow> pipeline" where
  "save_alert_with_retry env a = save_loop (pv_outage env) (save_alert a) id 0 50"

definition canonical_observation :: "runtime \<Rightarrow> chain_event \<Rightarrow> event_observation" where
  "canonical_observation rt e =
     event_observation_live rt (ev_id e)
       (case ev_source e of Some s \<Rightarrow> s | None \<Rightarrow> observation_source_new ''bitcoin_core'' ''zmq'' None)
       (if ev_block_hash e \<noteq> None then KConfirmed else MempoolSeen)
       (rt_now rt) (Some (ev_event_time e)) (ev_block_height e) (ev_block_hash e)"

definition witness_observation :: "runtime \<Rightarrow> chain_event \<Rightarrow> observation_witness \<Rightarrow> event_observation" where
  "witness_observation rt e w =
     \<lparr>eo_id = observation_deterministic_id rt (ev_id e) Live (wit_source w) Witnessed None
        (Some (build_discriminator (ev_block_hash e) None None None)),
      eo_event_id = ev_id e, eo_mode = Live, eo_kind = Witnessed, eo_source = wit_source w,
      eo_observed_at = wit_observed_at w, eo_bitcoin_time = Some (ev_event_time e), eo_replay_job_id = None,
      eo_block_height = ev_block_height e, eo_block_hash = ev_block_hash e, eo_confirmation_status = None,
      eo_source_sequence = None, eo_mempool_sequence = None, eo_witness = Some w\<rparr>"

definition live_observations :: "runtime \<Rightarrow> chain_event \<Rightarrow> event_observation list" where
  "live_observations rt e =
     (if ev_witnesses e = [] then [canonical_observation rt e]
      else map (witness_observation rt e) (ev_witnesses e))"

text \<open>A provenance record is written once; a failure is ignored.\<close>

definition record_observation :: "(nat \<Rightarrow> bool) \<Rightarrow> event_observation \<Rightarrow> pipeline \<Rightarrow> pipeline" where
  "record_observation outage n p = snd (try_write outage (save_event_observation n) p)"

definition save_event_with_retry :: "pipeline_env \<Rightarrow> nat \<Rightarrow> chain_event \<Rightarrow> pipeline \<Rightarrow> pipeline" where
  "save_event_with_retry env i e =
     save_loop (pv_outage env) (save_event (pv_metric_ids env i) (rt_now (pv_runtime env)) e)
       (fold (record_observation (pv_outage env)) (live_observations (pv_runtime env) e)) 0 50"

subsection \<open>One observation\<close>

definition observe_block :: "block_observation \<Rightarrow> pipeline \<Rightarrow> pipeline" where
  "observe_block b p =
     p\<lparr>pl_metrics := (pl_metrics p)\<lparr>pm_blocks_observed := pm_blocks_observed (pl_metrics p) + 1\<rparr>,
       pl_tip_height := blk_height b, pl_watch := watch_process_block b (pl_watch p)\<rparr>"

definition observe_transaction ::
  "pipeline_env \<Rightarrow> transaction_observation \<Rightarrow> pipeline \<Rightarrow> transaction_observation \<times> pipeline" where
  "observe_transaction env tx p =
     (case enrich_transaction (pv_enricher env) tx (pl_enricher p) of (tx1, en) \<Rightarrow>
      let m = pl_metrics p;
          m1 = m\<lparr>pm_transactions_observed := pm_transactions_observed m + 1,
                 pm_transactions_enriched := pm_transactions_enriched m
                   + (if list_ex (\<lambda>i. in_historical_utxo i \<noteq> None) (tx_inputs tx1) then 1 else 0),
                 pm_utxo_lookup_failures := en_lookup_failures en,
                 pm_cache_hits := uc_hits (en_cache en), pm_cache_misses := uc_misses (en_cache en)\<rparr>
      in (tx1, p\<lparr>pl_metrics := m1, pl_enricher := en,
                 pl_watch := process_transaction (pv_watch_ids env) (rt_now (pv_runtime env)) tx1
                   (tx_block_height tx1) (tx_block_hash tx1) (pl_watch p)\<rparr>))"

definition observe_replacement :: "pipeline_env \<Rightarrow> transaction_replacement \<Rightarrow> pipeline \<Rightarrow> pipeline" where
  "observe_replacement env r p =
     p\<lparr>pl_watch := process_replacement (pv_watch_ids env) (rt_now (pv_runtime env)) r (pl_watch p)\<rparr>"

definition observe_reorg :: "pipeline \<Rightarrow> pipeline" where
  "observe_reorg p =
     p\<lparr>pl_metrics := (pl_metrics p)\<lparr>pm_reorgs_detected := pm_reorgs_detected (pl_metrics p) + 1\<rparr>\<rparr>"

text \<open>The observation, its incident matches and the pipeline after the first stage.\<close>

fun observe_stage ::
  "pipeline_env \<Rightarrow> observation \<Rightarrow> pipeline \<Rightarrow> observation \<times> watch_result list \<times> pipeline" where
  "observe_stage env (ObsBlock b) p =
     (let p1 = observe_block b p in (ObsBlock b, wr_results (pl_watch p1), p1))"
| "observe_stage env (ObsTransaction tx) p =
     (case observe_transaction env tx p of (tx1, p1) \<Rightarrow> (ObsTransaction tx1, wr_results (pl_watch p1), p1))"
| "observe_stage env (ObsReplacement r) p =
     (let p1 = observe_replacement env r p in (ObsReplacement r, wr_results (pl_watch p1), p1))"
| "observe_stage env (ObsMempool m) p = (ObsMempool m, [], p)"
| "observe_stage env (ObsReorg r) p = (ObsReorg r, [], observe_reorg p)"

definition count_activity :: "incident_activity \<Rightarrow> pipeline \<Rightarrow> pipeline" where
  "count_activity a p =
     p\<lparr>pl_metrics := (pl_metrics p)
         \<lparr>pm_incident_activities_detected := pm_incident_activities_detected (pl_metrics p) + 1\<rparr>,
       pl_ws := pl_ws p @ [WsIncidentActivity a]\<rparr>"

definition count_alert :: "incident_alert \<Rightarrow> pipeline \<Rightarrow> pipeline" where
  "count_alert a p =
     p\<lparr>pl_metrics := (pl_metrics p)
         \<lparr>pm_incident_alerts_emitted := pm_incident_alerts_emitted (pl_metrics p) + 1\<rparr>,
       pl_ws := pl_ws p @ [WsIncidentAlert a]\<rparr>"

definition report_match :: "pipeline_env \<Rightarrow> watch_result \<Rightarrow> pipeline \<Rightarrow> pipeline" where
  "report_match env m p =
     (let p1 = count_activity (fst m) (save_activity_with_retry env (fst m) p)
      in case snd m of Some al \<Rightarrow> count_alert al (save_alert_with_retry env al p1) | None \<Rightarrow> p1)"

definition detect_stage :: "pipeline_env \<Rightarrow> observation \<Rightarrow> pipeline \<Rightarrow> chain_event list \<times> pipeline" where
  "detect_stage env obs p =
     (case process_observation (pv_runtime env) obs (pl_engine p) of (detected, eng) \<Rightarrow>
      case dedup_filter (pv_runtime env) (pv_clock env) detected (pl_dedup p) of (fresh, dd) \<Rightarrow>
        let m = pl_metrics p
        in (fresh, p\<lparr>pl_engine := eng, pl_dedup := dd,
              pl_metrics := m\<lparr>pm_events_deduplicated := dd_deduplicated_count dd,
                pm_events_generated := pm_events_generated m + of_nat (length fresh)\<rparr>\<rparr>))"

definition publish_event :: "pipeline_env \<Rightarrow> nat \<times> chain_event \<Rightarrow> pipeline \<Rightarrow> pipeline" where
  "publish_event env ie p =
     (let p1 = save_event_with_retry env (fst ie) (snd ie) p
      in p1\<lparr>pl_events_detected := pl_events_detected p1 + 1, pl_broadcast := pl_broadcast p1 @ [snd ie]\<rparr>)"

definition pipeline_step :: "pipeline_env \<Rightarrow> observation \<Rightarrow> pipeline \<Rightarrow> pipeline" where
  "pipeline_step env obs p =
     (case observe_stage env obs p of (obs1, matches, p1) \<Rightarrow>
      case detect_stage env obs1 (fold (report_match env) matches p1) of (fresh, p2) \<Rightarrow>
        fold (publish_event env) (enumerate 0 fresh) p2)"

text \<open>The worker waits for the shutdown flag to change or for the next observation.\<close>

datatype worker_input = ShutdownChanged bool | Received observation | ChannelClosed

definition stop_worker :: "pipeline \<Rightarrow> pipeline" where
  "stop_worker p = p\<lparr>pl_running := False\<rparr>"

definition worker_step :: "pipeline_env \<times> worker_input \<Rightarrow> pipeline \<Rightarrow> pipeline" where
  "worker_step x p =
     (if \<not> pl_running p then p
      else case snd x of
             ShutdownChanged flag \<Rightarrow> if flag then stop_worker p else p
           | Received obs \<Rightarrow> pipeline_step (fst x) obs p
           | ChannelClosed \<Rightarrow> stop_worker p)"

definition run_worker :: "(pipeline_env \<times> worker_input) list \<Rightarrow> pipeline \<Rightarrow> pipeline" where
  "run_worker xs = fold worker_step xs"


section \<open>The retry loop\<close>

text \<open>
  Writes are retried a bounded number of times: at most three attempts, with pauses of 50 and 100
  milliseconds. The write takes effect at the first attempt that gets through, followed by what
  depends on it (the provenance of an event); when three attempts fail the storage keeps what it had
  and exactly one write error is counted.
\<close>

theorem save_retries_bounded:
  "save_loop down write stored 0 50 p =
     (let k = pl_writes p;
          finish = (\<lambda>n pause. stored (p\<lparr>pl_slept := pl_slept p + pause, pl_writes := n,
                                         pl_storage := write (pl_storage p)\<rparr>)) in
      if \<not> down k then finish (k + 1) 0
      else if \<not> down (k + 1) then finish (k + 2) 50
      else if \<not> down (k + 2) then finish (k + 3) 150
      else count_write_error (p\<lparr>pl_slept := pl_slept p + 150, pl_writes := k + 3\<rparr>))"
  by (subst save_loop.simps, subst save_loop.simps, subst save_loop.simps)
     (simp add: try_write_def Let_def count_write_error_def numeral_3_eq_3 add.commute)

section \<open>The feed does not depend on the storage\<close>

text \<open>
  The feed is the pipeline without its storage, its write attempts and the count of write errors; it has
  the same stages, less the writes.
\<close>

definition live_feed :: "pipeline \<Rightarrow> pipeline" where
  "live_feed p = p\<lparr>pl_storage := empty_storage 0 0, pl_writes := 0, pl_slept := 0,
     pl_metrics := (pl_metrics p)\<lparr>pm_storage_write_errors := 0\<rparr>\<rparr>"

definition feed_match :: "watch_result \<Rightarrow> pipeline \<Rightarrow> pipeline" where
  "feed_match m p =
     (let p1 = count_activity (fst m) p in case snd m of Some al \<Rightarrow> count_alert al p1 | None \<Rightarrow> p1)"

definition feed_event :: "chain_event \<Rightarrow> pipeline \<Rightarrow> pipeline" where
  "feed_event e p = p\<lparr>pl_events_detected := pl_events_detected p + 1, pl_broadcast := pl_broadcast p @ [e]\<rparr>"

definition feed_step :: "pipeline_env \<Rightarrow> observation \<Rightarrow> pipeline \<Rightarrow> pipeline" where
  "feed_step env obs p =
     (case observe_stage env obs p of (obs1, matches, p1) \<Rightarrow>
      case detect_stage env obs1 (fold feed_match matches p1) of (fresh, p2) \<Rightarrow> fold feed_event fresh p2)"

lemma feed_simps [simp]:
  "pl_engine (live_feed p) = pl_engine p" "pl_dedup (live_feed p) = pl_dedup p" "pl_watch (live_feed p) = pl_watch p"
  "pl_enricher (live_feed p) = pl_enricher p" "pl_tip_height (live_feed p) = pl_tip_height p"
  "pl_events_detected (live_feed p) = pl_events_detected p" "pl_broadcast (live_feed p) = pl_broadcast p"
  "pl_ws (live_feed p) = pl_ws p" "pl_running (live_feed p) = pl_running p"
  "pl_metrics (live_feed p) = (pl_metrics p)\<lparr>pm_storage_write_errors := 0\<rparr>"
  "live_feed (live_feed p) = live_feed p"
  by (simp_all add: live_feed_def)

lemma feed_try_write: "try_write outage write p = (ok, p1) \<Longrightarrow> live_feed p1 = live_feed p"
  by (auto simp: try_write_def live_feed_def Let_def split: if_splits)

lemma feed_count_write_error: "live_feed (count_write_error p) = live_feed p"
  by (simp add: live_feed_def count_write_error_def)

lemma feed_save_loop:
  "(\<And>q. live_feed (stored q) = live_feed q) \<Longrightarrow> live_feed (save_loop outage write stored attempts delay p) = live_feed p"
proof (induction outage "write" stored attempts delay p rule: save_loop.induct)
  case (1 outage w stored attempts delay p)
  obtain ok p1 where t: "try_write outage w p = (ok, p1)" by fastforce
  have slept: "live_feed (p1\<lparr>pl_slept := k\<rparr>) = live_feed p1" for k by (simp add: live_feed_def)
  show ?case
  proof (cases "ok \<or> attempts + 1 \<ge> 3")
    case True
    then show ?thesis using t feed_try_write [OF t] 1
      by (subst save_loop.simps) (auto simp: feed_count_write_error split: bool.split)
  next
    case False
    then show ?thesis using 1(1) [OF t [symmetric]] 1(2) t feed_try_write [OF t]
      by (subst save_loop.simps) (auto simp: slept split: bool.split)
  qed
qed

lemma feed_record_observation: "live_feed (record_observation outage n p) = live_feed p"
  unfolding record_observation_def by (metis feed_try_write prod.collapse)

lemma feed_record_observations:
  "live_feed (fold (record_observation outage) ns p) = live_feed p"
  by (induction ns arbitrary: p) (simp_all add: feed_record_observation)

lemma feed_saves [simp]:
  "live_feed (save_activity_with_retry env a p) = live_feed p"
  "live_feed (save_alert_with_retry env al p) = live_feed p"
  "live_feed (save_event_with_retry env i e p) = live_feed p"
  by (simp_all add: save_activity_with_retry_def save_alert_with_retry_def save_event_with_retry_def
      feed_save_loop feed_record_observations)

lemma feed_counts:
  "live_feed (count_activity a p) = count_activity a (live_feed p)"
  "live_feed (count_alert al p) = count_alert al (live_feed p)"
  "live_feed (feed_event e p) = feed_event e (live_feed p)"
  by (simp_all add: live_feed_def count_activity_def count_alert_def feed_event_def)

lemma feed_report_match: "live_feed (report_match env m p) = feed_match m (live_feed p)"
  by (simp add: report_match_def feed_match_def Let_def feed_counts split: option.split)

lemma feed_report_matches:
  "live_feed (fold (report_match env) ms p) = fold feed_match ms (live_feed p)"
  by (induction ms arbitrary: p) (simp_all add: feed_report_match)

lemma publish_event_alt:
  "publish_event env ie p = feed_event (snd ie) (save_event_with_retry env (fst ie) (snd ie) p)"
  by (simp add: publish_event_def feed_event_def Let_def)

lemma feed_publish:
  "live_feed (fold (publish_event env) ies p) = fold feed_event (map snd ies) (live_feed p)"
  by (induction ies arbitrary: p) (simp_all add: publish_event_alt feed_counts)

lemma feed_observe_stage:
  "observe_stage env obs p = (obs1, ms, p1) \<Longrightarrow> observe_stage env obs (live_feed p) = (obs1, ms, live_feed p1)"
  by (cases obs)
     (auto simp: Let_def observe_block_def observe_transaction_def observe_replacement_def observe_reorg_def
        live_feed_def split: prod.splits)

lemma feed_detect_stage:
  "detect_stage env obs p = (fresh, p1) \<Longrightarrow> detect_stage env obs (live_feed p) = (fresh, live_feed p1)"
  by (auto simp: detect_stage_def Let_def live_feed_def split: prod.splits)

lemma feed_pipeline_step: "live_feed (pipeline_step env obs p) = feed_step env obs (live_feed p)"
proof -
  obtain obs1 ms p1 where o: "observe_stage env obs p = (obs1, ms, p1)" by (metis prod_cases3)
  obtain fresh p2 where d: "detect_stage env obs1 (fold (report_match env) ms p1) = (fresh, p2)" by fastforce
  have "detect_stage env obs1 (fold feed_match ms (live_feed p1)) = (fresh, live_feed p2)"
    using feed_detect_stage [OF d] by (simp add: feed_report_matches)
  then show ?thesis
    by (simp add: pipeline_step_def feed_step_def o d feed_observe_stage [OF o] feed_publish)
qed

text \<open>An environment in which every write gets through.\<close>

definition calm :: "pipeline_env \<Rightarrow> pipeline_env" where
  "calm env = env\<lparr>pv_outage := \<lambda>k. False\<rparr>"

lemma feed_step_calm: "feed_step (calm env) obs p = feed_step env obs p"
proof -
  have "observe_stage (calm env) obs p = observe_stage env obs p"
    by (cases obs) (simp_all add: calm_def observe_transaction_def observe_replacement_def)
  moreover have "detect_stage (calm env) ob q = detect_stage env ob q" for ob q
    by (simp add: calm_def detect_stage_def)
  ultimately show ?thesis by (simp add: feed_step_def)
qed

lemma feed_stop_worker: "live_feed (stop_worker p) = stop_worker (live_feed p)"
  by (rule pipeline.equality) (simp_all add: stop_worker_def live_feed_def)

lemma feed_worker_step:
  assumes "live_feed p = live_feed q"
  shows "live_feed (worker_step x p) = live_feed (worker_step (apfst calm x) q)"
proof -
  have r: "pl_running p = pl_running q" using assms by (metis feed_simps(9))
  have stop: "live_feed (stop_worker p) = live_feed (stop_worker q)"
    using assms by (simp add: feed_stop_worker)
  show ?thesis
    using assms r stop
    by (cases x) (simp add: worker_step_def feed_pipeline_step feed_step_calm split: worker_input.split)
qed

text \<open>
  C14. A broken database does not disturb the live feed: whatever writes fail, the worker broadcasts the
  same events, activities and alerts in the same order, keeps the same detector, watch, cache and
  deduplication state and counts the same, except for the write errors, as when every write succeeds.
\<close>

theorem feed_survives_outages:
  "live_feed (run_worker xs p) = live_feed (run_worker (map (apfst calm) xs) p)"
proof -
  have "live_feed (fold worker_step xs p) = live_feed (fold worker_step (map (apfst calm) xs) q)"
    if "live_feed p = live_feed q" for p q
    using that
  proof (induction xs arbitrary: p q)
    case (Cons x xs)
    from Cons.IH [OF feed_worker_step [OF Cons.prems]] show ?case by simp
  qed simp
  then show ?thesis by (simp only: run_worker_def)
qed

section \<open>The ledger\<close>

fun is_activity :: "web_socket_broadcast \<Rightarrow> bool" where
  "is_activity (WsIncidentActivity a) = True"
| "is_activity b = False"

fun is_alert :: "web_socket_broadcast \<Rightarrow> bool" where
  "is_alert (WsIncidentAlert a) = True"
| "is_alert b = False"

definition ledger :: "pipeline \<Rightarrow> bool" where
  "ledger p \<longleftrightarrow>
     (let m = pl_metrics p; n = of_nat (length (pl_broadcast p)) in
      pm_events_generated m = n \<and> pl_events_detected p = n \<and> dd_passed_count (pl_dedup p) = n
      \<and> pm_events_deduplicated m = dd_deduplicated_count (pl_dedup p)
      \<and> pm_incident_activities_detected m = of_nat (length (filter is_activity (pl_ws p)))
      \<and> pm_incident_alerts_emitted m = of_nat (length (filter is_alert (pl_ws p))))"

lemma ledger_feed: "ledger (live_feed p) = ledger p"
  by (simp add: ledger_def Let_def)

lemma ledger_observe_stage: "observe_stage env obs p = (obs1, ms, p1) \<Longrightarrow> ledger p1 = ledger p"
  by (cases obs)
     (auto simp: Let_def observe_block_def observe_transaction_def observe_replacement_def observe_reorg_def
        ledger_def split: prod.splits)

lemma ledger_matches: "ledger p \<Longrightarrow> ledger (fold feed_match ms p)"
  by (induction ms arbitrary: p)
     (simp_all add: feed_match_def count_activity_def count_alert_def ledger_def Let_def split: option.split)

text \<open>Publishing the fresh events settles what detection counted.\<close>

lemma feed_events:
  "fold feed_event es p = p\<lparr>pl_events_detected := pl_events_detected p + of_nat (length es),
     pl_broadcast := pl_broadcast p @ es\<rparr>"
  by (induction es arbitrary: p) (simp_all add: feed_event_def ac_simps)

lemma ledger_feed_step:
  assumes "ledger p" shows "ledger (feed_step env obs p)"
proof -
  obtain obs1 ms p1 where o: "observe_stage env obs p = (obs1, ms, p1)" by (metis prod_cases3)
  let ?q = "fold feed_match ms p1"
  have q: "ledger ?q" using assms ledger_observe_stage [OF o] by (simp add: ledger_matches)
  obtain detected eng where e: "process_observation (pv_runtime env) obs1 (pl_engine ?q) = (detected, eng)"
    by fastforce
  obtain fresh dd where f: "dedup_filter (pv_runtime env) (pv_clock env) detected (pl_dedup ?q) = (fresh, dd)"
    by fastforce
  have "dd_passed_count dd = dd_passed_count (pl_dedup ?q) + of_nat (length fresh)"
    using dedup_loop_counts [of "pv_runtime env" "pv_clock env" detected "pl_dedup ?q"] f
    by (simp add: dedup_filter_def)
  with q show ?thesis
    by (simp add: feed_step_def o detect_stage_def e f Let_def feed_events ledger_def)
qed

lemma ledger_pipeline_step: "ledger p \<Longrightarrow> ledger (pipeline_step env obs p)"
  using ledger_feed_step [of "live_feed p" env obs] ledger_feed [of "pipeline_step env obs p"]
  by (simp add: ledger_feed feed_pipeline_step)

lemma ledger_worker_step: "ledger p \<Longrightarrow> ledger (worker_step x p)"
proof -
  assume p: "ledger p"
  then have "ledger (stop_worker p)" by (simp add: ledger_def stop_worker_def)
  with p show ?thesis by (simp add: worker_step_def ledger_pipeline_step split: worker_input.split)
qed

text \<open>
  C15. The telemetry of the daemon balances: from its start and over any observations, shutdown signals and
  failing writes, the events counted as generated, as detected and as passed by the deduplicator are
  the events broadcast, the suppressed ones are those the deduplicator counted, and the activities
  and alerts counted are those sent to the clients.
\<close>

theorem pipeline_ledger_balances: "ledger (run_worker xs (pipeline_new s w en c))"
proof -
  have "ledger (pipeline_new s w en c)"
    by (simp add: ledger_def pipeline_new_def pipeline_metrics_default_def dedup_of_def dedup_new_def Let_def)
  then show ?thesis
    unfolding run_worker_def by (induction xs arbitrary: s rule: rev_induct) (simp_all add: ledger_worker_step)
qed

section \<open>Sovereign mode\<close>

lemma enrich_keeps_sovereign:
  assumes "en_sovereign_only en"
  shows "en_sovereign_only (snd (enrich_transaction env tx en))"
proof -
  have "en_sovereign_only (fold (fetch_and_cache env) its en')" if "en_sovereign_only en'" for its en'
    using that by (induction its arbitrary: en') (simp_all add: fetch_sovereign)
  then show ?thesis
    using assms by (simp add: enrich_transaction_def count_enriched_def Let_def split: prod.split)
qed

lemmas enrich_sovereign = sovereign_enrichment_is_private [THEN conjunct1] sovereign_enrichment_is_private [THEN conjunct2]

text \<open>Only the transactions among the observations reach the enricher.\<close>

lemma step_enricher:
  "pl_enricher (pipeline_step env obs p) =
     (case obs of ObsTransaction tx \<Rightarrow> snd (enrich_transaction (pv_enricher env) tx (pl_enricher p))
      | _ \<Rightarrow> pl_enricher p)"
proof -
  have matches: "pl_enricher (fold feed_match ms q) = pl_enricher q" for ms q
    by (induction ms arbitrary: q) (simp_all add: feed_match_def count_activity_def count_alert_def Let_def split: option.split)
  have detect: "pl_enricher (snd (detect_stage env ob q)) = pl_enricher q" for ob q
    by (simp add: detect_stage_def Let_def split: prod.split)
  have "pl_enricher (feed_step env obs q) = pl_enricher (snd (snd (observe_stage env obs q)))" for q
    using detect by (auto simp: feed_step_def feed_events matches split: prod.split) (metis matches snd_conv)
  then have "pl_enricher (pipeline_step env obs p) = pl_enricher (snd (snd (observe_stage env obs (live_feed p))))"
    by (metis feed_pipeline_step feed_simps(4))
  then show ?thesis
    by (cases obs) (simp_all add: Let_def observe_block_def observe_transaction_def observe_replacement_def
        observe_reorg_def split: prod.split)
qed

definition third_party :: "rest_world \<Rightarrow> pipeline_env \<Rightarrow> pipeline_env" where
  "third_party r env = env\<lparr>pv_enricher := (pv_enricher env)\<lparr>ee_rest := r\<rparr>\<rparr>"

definition private_state :: "pipeline \<Rightarrow> bool" where
  "private_state p \<longleftrightarrow> en_sovereign_only (pl_enricher p) \<and> en_rest_requests (pl_enricher p) = 0"

lemma step_third_party:
  assumes "en_sovereign_only (pl_enricher p)"
  shows "pipeline_step (third_party r env) obs p = pipeline_step env obs p"
proof -
  have saves: "save_activity_with_retry (third_party r env) = save_activity_with_retry env"
    "save_alert_with_retry (third_party r env) = save_alert_with_retry env"
    "save_event_with_retry (third_party r env) = save_event_with_retry env"
    by (intro ext, simp add: third_party_def save_activity_with_retry_def save_alert_with_retry_def
        save_event_with_retry_def)+
  have "report_match (third_party r env) = report_match env" "publish_event (third_party r env) = publish_event env"
    by (intro ext, simp add: report_match_def publish_event_def saves Let_def split: option.split)+
  moreover have "observe_stage (third_party r env) obs p = observe_stage env obs p"
    using assms by (cases obs) (simp_all add: third_party_def observe_transaction_def observe_replacement_def enrich_sovereign)
  moreover have "detect_stage (third_party r env) = detect_stage env"
    by (intro ext) (simp add: third_party_def detect_stage_def)
  ultimately show ?thesis by (simp add: pipeline_step_def)
qed

lemma private_step: "private_state p \<Longrightarrow> private_state (worker_step x p)"
  by (cases "snd x")
     (auto simp: worker_step_def private_state_def stop_worker_def step_enricher enrich_keeps_sovereign
        enrich_sovereign split: observation.split)

text \<open>
  C16. With the sovereign setting on, the whole daemon is private: over any inputs the pipeline built from the
  settings has no third-party client and sends it no request, and everything it stores, counts and
  broadcasts is the same whatever the third party would have answered.
\<close>

theorem sovereign_daemon_is_private:
  assumes "app_sovereign_only c"
  shows "rest_config_of buildable c = None
    \<and> en_rest_requests (pl_enricher (run_worker xs (pipeline_new s w (enricher_of rpc buildable c) c))) = 0
    \<and> run_worker (map (apfst (third_party r)) xs) (pipeline_new s w (enricher_of rpc buildable c) c)
      = run_worker xs (pipeline_new s w (enricher_of rpc buildable c) c)"
proof -
  let ?p = "pipeline_new s w (enricher_of rpc buildable c) c"
  have start: "private_state ?p"
    using assms by (simp add: private_state_def pipeline_new_def enricher_of_def new_with_sources_def)
  have stays: "private_state (fold worker_step xs p)" if "private_state p" for p
    using that by (induction xs arbitrary: p) (simp_all add: private_step)
  have same: "fold worker_step (map (apfst (third_party r)) xs) p = fold worker_step xs p" if "private_state p" for p
    using that
  proof (induction xs arbitrary: p)
    case (Cons x xs)
    have "worker_step (apfst (third_party r) x) p = worker_step x p"
      using Cons.prems
      by (cases x) (simp add: worker_step_def private_state_def step_third_party split: worker_input.split)
    with Cons.IH [OF private_step [OF Cons.prems]] show ?case by simp
  qed simp
  show ?thesis
    using assms stays [OF start] same [OF start] by (simp add: run_worker_def rest_config_of_def private_state_def)
qed

section \<open>What is broadcast has been stored\<close>

lemma try_write_calm: "\<not> outage (pl_writes p) \<Longrightarrow>
    try_write outage write p = (True, p\<lparr>pl_writes := pl_writes p + 1, pl_storage := write (pl_storage p)\<rparr>)"
  by (simp add: try_write_def Let_def)

lemma record_calm:
  assumes "\<forall>k. \<not> outage k"
  shows "pl_storage (fold (record_observation outage) ns p) = fold save_event_observation ns (pl_storage p)"
  using assms
  by (induction ns arbitrary: p) (simp_all add: record_observation_def try_write_calm)

lemma save_event_calm:
  assumes "\<forall>k. \<not> pv_outage env k"
  shows "pl_storage (save_event_with_retry env i e p) =
    fold save_event_observation (live_observations (pv_runtime env) e)
      (save_event (pv_metric_ids env i) (rt_now (pv_runtime env)) e (pl_storage p))"
  using assms unfolding save_event_with_retry_def
  by (subst save_loop.simps) (simp add: try_write_calm record_calm)

lemma observations_keep_events:
  "st_events (fold save_event_observation ns s) = st_events s"
  by (induction ns arbitrary: s) (simp_all add: save_event_observation_def)

lemma last_observation_stored:
  "ns \<noteq> [] \<Longrightarrow> last ns \<in> set (st_event_observations (fold save_event_observation ns s))"
proof (induction ns rule: rev_induct)
  case (snoc n ns)
  then show ?case by (simp add: save_event_observation_def upsert_mem)
qed simp

lemma saved_event_present: "\<exists>x \<in> set (st_events (save_event v4 now e s)). ev_id x = ev_id e"
proof (cases "position (\<lambda>x. ev_id x = ev_id e) (st_events s)")
  case None
  then show ?thesis
    by (auto simp: save_event_def Let_def save_event_metrics_def push_bounded_def)
next
  case (Some i)
  then have "i < length (st_events s)" "ev_id (st_events s ! i) = ev_id e" by (auto dest: position_SomeD)
  then show ?thesis
    using Some by (auto simp: save_event_def merge_event_def intro!: bexI [OF _ set_update_memI])
qed

lemma live_observations_facts:
  "live_observations rt e \<noteq> []"
  "n \<in> set (live_observations rt e) \<Longrightarrow> eo_event_id n = ev_id e \<and> eo_mode n = Live"
  by (auto simp: live_observations_def canonical_observation_def witness_observation_def
      event_observation_live_def Let_def split: if_splits)

text \<open>
  C17. A client that hears of an event can look it up: when the storage accepts writes, publishing an event
  first stores it, so that at the moment it is broadcast the storage answers for its identifier, with
  at least one live observation as provenance, whatever the retention limit.
\<close>

theorem broadcast_event_is_stored:
  assumes "\<forall>k. \<not> pv_outage env k"
  shows "pl_broadcast (publish_event env (i, e) p) = pl_broadcast p @ [e]
    \<and> (\<exists>x n. get_event_by_id (ev_id e) (pl_storage (publish_event env (i, e) p)) = Some x
         \<and> n \<in> set (ev_observations x) \<and> eo_mode n = Live)"
proof
  let ?ns = "live_observations (pv_runtime env) e"
  let ?s = "pl_storage (publish_event env (i, e) p)"
  have s: "?s = fold save_event_observation ?ns
      (save_event (pv_metric_ids env i) (rt_now (pv_runtime env)) e (pl_storage p))"
    using assms by (simp add: publish_event_def Let_def save_event_calm)
  show "pl_broadcast (publish_event env (i, e) p) = pl_broadcast p @ [e]"
    using arg_cong [OF feed_publish [of env "[(i, e)]" p], of pl_broadcast] by (simp add: feed_event_def)
  obtain y where "find (\<lambda>x. ev_id x = ev_id e) (st_events ?s) = Some y"
    using saved_event_present unfolding s observations_keep_events
    by (metis (mono_tags, lifting) find_None_iff not_None_eq)
  moreover have "last ?ns \<in> set (st_event_observations ?s)"
    unfolding s by (rule last_observation_stored) (rule live_observations_facts)
  ultimately show "\<exists>x n. get_event_by_id (ev_id e) ?s = Some x \<and> n \<in> set (ev_observations x) \<and> eo_mode n = Live"
    using live_observations_facts(1) live_observations_facts(2) [OF last_in_set]
    by (auto simp: get_event_by_id_def)
qed


text \<open>A pipeline with the default settings but in sovereign mode, and an environment without outages.\<close>

definition sample_settings :: environment where
  "sample_settings = [''OBSCHAIN_SOVEREIGN_ONLY'' \<mapsto> ''true'']"

definition sample_pipeline :: pipeline where
  "sample_pipeline =
     (let c = app_config_from_env sample_settings
      in pipeline_new (empty_storage 10 10) (watch_start 3) (enricher_of None True c) c)"

definition sample_pipeline_env :: pipeline_env where
  "sample_pipeline_env =
     \<lparr>pv_enricher = sample_enricher_env, pv_runtime = sample_runtime, pv_clock = 0, pv_metric_ids = (\<lambda>i j. 0),
      pv_watch_ids = (\<lambda>i. 0), pv_outage = (\<lambda>k. False)\<rparr>"

lemma sample_sovereign: "app_sovereign_only (app_config_from_env sample_settings)"
  by (simp add: app_config_from_env_def sample_settings_def flag_setting_def to_lowercase_def lower_char_def)

theorem sovereign_daemon_is_private_witness:
  "app_sovereign_only (app_config_from_env sample_settings)
   \<and> en_rest_requests (pl_enricher (run_worker
       [(sample_pipeline_env, Received (ObsTransaction sample_spend)), (sample_pipeline_env, ShutdownChanged True)]
       sample_pipeline)) = 0"
  using sovereign_daemon_is_private [OF sample_sovereign, where buildable = True and rpc = None
      and s = "empty_storage 10 10" and w = "watch_start 3"
      and xs = "[(sample_pipeline_env, Received (ObsTransaction sample_spend)), (sample_pipeline_env, ShutdownChanged True)]"]
    sample_sovereign
  by (simp add: sample_pipeline_def Let_def)

theorem broadcast_event_is_stored_witness:
  "(\<forall>k. \<not> pv_outage sample_pipeline_env k)
   \<and> pl_broadcast (publish_event sample_pipeline_env (0, titled_event ''a'') sample_pipeline) = [titled_event ''a'']
   \<and> get_event_by_id (ev_id (titled_event ''a''))
       (pl_storage (publish_event sample_pipeline_env (0, titled_event ''a'') sample_pipeline)) \<noteq> None"
proof -
  have calm: "\<forall>k. \<not> pv_outage sample_pipeline_env k" by (simp add: sample_pipeline_env_def)
  have "pl_broadcast sample_pipeline = []" by (simp add: sample_pipeline_def pipeline_new_def Let_def)
  with calm broadcast_event_is_stored [OF calm, of 0 "titled_event ''a''" sample_pipeline] show ?thesis by auto
qed

section \<open>The status task of the coordinator\<close>

record bitcoin_core_zmq_status_response =
  bz_rawtx :: string
  bz_rawblock :: string
  bz_sequence :: string

record bitcoin_core_status_response =
  bsr_enabled :: bool
  bsr_connected :: bool
  bsr_network :: "string option"
  bsr_blocks :: "u64 option"
  bsr_headers :: "u64 option"
  bsr_ibd :: "bool option"
  bsr_verification_progress :: "f64 option"
  bsr_pruned :: "bool option"
  bsr_txindex :: "bool option"
  bsr_zmq_sequence_gaps :: "u64 option"
  bsr_zmq_notifications_missed :: "u64 option"
  bsr_zmq :: bitcoin_core_zmq_status_response

record sources_status =
  ss_mempool_rest :: string
  ss_mempool_websocket :: string
  ss_bitcoin_core :: string
  ss_bitcoin_core_rpc :: "string option"
  ss_bitcoin_core_zmq :: "string option"

definition sources_status_new :: sources_status where
  "sources_status_new =
     \<lparr>ss_mempool_rest = ''configured'', ss_mempool_websocket = ''disconnected'',
      ss_bitcoin_core = ''not_configured'', ss_bitcoin_core_rpc = None, ss_bitcoin_core_zmq = None\<rparr>"

definition core_status_of :: "bitcoin_coordinator \<Rightarrow> bitcoin_core_status_response" where
  "core_status_of c =
     (let st = coordinator_get_status c; z = bs_zmq_status st; caps = bs_capabilities st in
      \<lparr>bsr_enabled = True, bsr_connected = (bs_rpc_health st = Connected),
       bsr_network = map_option nc_network caps, bsr_blocks = map_option nc_blocks caps,
       bsr_headers = map_option nc_headers caps, bsr_ibd = map_option nc_initial_block_download caps,
       bsr_verification_progress = map_option nc_verification_progress caps,
       bsr_pruned = map_option nc_pruned caps, bsr_txindex = map_option nc_txindex_available caps,
       bsr_zmq_sequence_gaps = Some (bc_zmq_sequence_gaps_total c),
       bsr_zmq_notifications_missed = Some (bc_zmq_notifications_missed_estimate c),
       bsr_zmq = \<lparr>bz_rawtx = source_health_str (zs_rawtx z), bz_rawblock = source_health_str (zs_rawblock z),
         bz_sequence = source_health_str (zs_sequence z)\<rparr>\<rparr>)"

definition sync_sources :: "bitcoin_coordinator \<Rightarrow> sources_status \<Rightarrow> sources_status" where
  "sync_sources c s =
     (let st = coordinator_get_status c; rpc = source_health_str (bs_rpc_health st) in
      s\<lparr>ss_bitcoin_core := rpc, ss_bitcoin_core_rpc := Some rpc,
        ss_bitcoin_core_zmq := Some (source_health_str (zs_rawblock (bs_zmq_status st)))\<rparr>)"

definition sync_metrics :: "bitcoin_coordinator \<Rightarrow> pipeline_metrics \<Rightarrow> pipeline_metrics" where
  "sync_metrics c m =
     m\<lparr>pm_reorgs_detected := bc_reorgs_detected c, pm_gap_blocks_reconciled := bc_gap_blocks_reconciled c,
       pm_zmq_transactions_received := bc_zmq_transactions_received c,
       pm_zmq_blocks_received := bc_zmq_blocks_received c,
       pm_zmq_sequence_gaps_total := bc_zmq_sequence_gaps_total c,
       pm_zmq_notifications_missed_estimate := bc_zmq_notifications_missed_estimate c,
       pm_rpc_requests_total := bc_rpc_requests_total c, pm_rpc_errors_total := bc_rpc_errors_total c,
       pm_bitcoin_core_tip := bc_last_tip_height c\<rparr>"

section \<open>The REST poller\<close>

text \<open>
  The task that follows the tip over REST: a first look that also forwards the recent transactions, then one
  look every thirty seconds. \<open>po_requests\<close> numbers the requests.
\<close>

record rest_poller =
  po_source :: string
  po_tip :: u64
  po_last :: u64
  po_sent :: "observation list"
  po_requests :: nat

record poll_env =
  pe_rest :: rest_world
  pe_timestamp :: "int \<Rightarrow> datetime option"
  pe_now :: datetime

definition poll_height :: "poll_env \<Rightarrow> mempool_rest_config \<Rightarrow> rest_poller \<Rightarrow> (mempool_rest_error + u64) \<times> rest_poller" where
  "poll_height env cfg q =
     (get_tip_height (pe_rest env) cfg (po_requests q), q\<lparr>po_requests := po_requests q + 1\<rparr>)"

definition poll_tip_block :: "poll_env \<Rightarrow> mempool_rest_config \<Rightarrow> rest_poller \<Rightarrow> rest_poller" where
  "poll_tip_block env cfg q =
     (let q1 = q\<lparr>po_requests := po_requests q + 1\<rparr> in
      case get_tip_hash (pe_rest env) cfg (po_requests q) of
        Inl err \<Rightarrow> q1
      | Inr hash \<Rightarrow>
          (case rest_get_block (pe_rest env) cfg hash (po_requests q1) of (res, pauses, n) \<Rightarrow>
             (case res of
                Inl err \<Rightarrow> q1\<lparr>po_requests := n\<rparr>
              | Inr b \<Rightarrow>
                  q1\<lparr>po_requests := n,
                     po_sent := po_sent q
                       @ [ObsBlock (block_into_observation (pe_timestamp env) (pe_now env) b (mc_base_url cfg))]\<rparr>)))"

definition poll_recent :: "poll_env \<Rightarrow> mempool_rest_config \<Rightarrow> rest_poller \<Rightarrow> rest_poller" where
  "poll_recent env cfg q =
     (case get_mempool_recent (pe_rest env) cfg (po_requests q) of (res, pauses, n) \<Rightarrow>
        (case res of
           Inl err \<Rightarrow> q\<lparr>po_requests := n\<rparr>
         | Inr txs \<Rightarrow>
             q\<lparr>po_requests := n,
               po_sent := po_sent q
                 @ map (\<lambda>t. ObsTransaction (recent_into_observation (pe_now env) t (mc_base_url cfg))) txs\<rparr>))"

definition poll_start :: "poll_env \<Rightarrow> mempool_rest_config \<Rightarrow> rest_poller \<Rightarrow> rest_poller" where
  "poll_start env cfg q =
     (case poll_height env cfg q of
        (Inl err, q1) \<Rightarrow> q1\<lparr>po_last := 0, po_source := ''error''\<rparr>
      | (Inr h, q1) \<Rightarrow>
          poll_recent env cfg (poll_tip_block env cfg (q1\<lparr>po_tip := h, po_last := h, po_source := ''connected''\<rparr>)))"

definition poll_tick :: "poll_env \<Rightarrow> mempool_rest_config \<Rightarrow> rest_poller \<Rightarrow> rest_poller" where
  "poll_tick env cfg q =
     (case poll_height env cfg q of
        (Inl err, q1) \<Rightarrow> q1\<lparr>po_source := ''error''\<rparr>
      | (Inr h, q1) \<Rightarrow>
          let q2 = q1\<lparr>po_source := ''connected''\<rparr> in
          if h > po_last q2 then poll_tip_block env cfg (q2\<lparr>po_tip := h, po_last := h\<rparr>) else q2)"

lemma poll_tip_block_frame:
  "po_tip (poll_tip_block env cfg q) = po_tip q" "po_last (poll_tip_block env cfg q) = po_last q"
  "\<exists>bs. po_sent (poll_tip_block env cfg q) = po_sent q @ map ObsBlock bs \<and> length bs \<le> 1"
proof -
  show "po_tip (poll_tip_block env cfg q) = po_tip q" "po_last (poll_tip_block env cfg q) = po_last q"
    by (auto simp: poll_tip_block_def Let_def split: sum.split prod.split)
  have "po_sent (poll_tip_block env cfg q) = po_sent q
    \<or> (\<exists>b. po_sent (poll_tip_block env cfg q) = po_sent q @ [ObsBlock b])"
    by (auto simp: poll_tip_block_def Let_def split: sum.split prod.split)
  then show "\<exists>bs. po_sent (poll_tip_block env cfg q) = po_sent q @ map ObsBlock bs \<and> length bs \<le> 1"
    by (elim disjE exE) (auto intro: exI [of _ "[]"] exI [of _ "[b]" for b])
qed

text \<open>
  Once the poller has started, each look moves the tip only upwards, keeps it equal to the last
  polled height, and forwards at most one block, and none unless the tip has risen.
\<close>

lemma poller_follows_tip_upwards:
  assumes "po_tip q = po_last q"
  shows "po_tip (poll_tick env cfg q) = po_last (poll_tick env cfg q)
    \<and> po_last q \<le> po_last (poll_tick env cfg q)
    \<and> (\<exists>bs. po_sent (poll_tick env cfg q) = po_sent q @ map ObsBlock bs
         \<and> length bs \<le> (if po_last q < po_last (poll_tick env cfg q) then 1 else 0))"
proof (cases "get_tip_height (pe_rest env) cfg (po_requests q)")
  case (Inl err)
  then show ?thesis using assms by (simp add: poll_tick_def poll_height_def)
next
  case (Inr h)
  let ?q = "q\<lparr>po_requests := po_requests q + 1, po_source := ''connected'', po_tip := h, po_last := h\<rparr>"
  show ?thesis
    using assms Inr poll_tip_block_frame [of env cfg ?q] by (auto simp: poll_tick_def poll_height_def Let_def)
qed

end
