(* ===== verification/Commands.thy ===== *)
theory Commands
  imports Pipeline
begin

text \<open>
  The commands of the daemon (\<open>src/main.rs\<close>): setting up the storage, replaying a range, generating a
  baseline and ranking an event against one. A command ends with a result or an error and with the
  storage it leaves behind; what it prints is left out.

  \<open>connect\<close> stands for opening a PostgreSQL database: an error text, or the tables it holds, on which
  the repository operations are those of the in-memory back end. \<open>liquid\<close> and \<open>targets\<close> are the
  canonical dossier and its watch targets, \<open>json\<close> is the JSON parser.
\<close>

section \<open>Errors and storage\<close>

datatype cli_error =
    HeightsReversed u64 u64
  | UnknownEventType string
  | DatabaseUrlMissing
  | DatabaseFailed string
  | EventNotFound uuid
  | BaselineRunNotFound uuid
  | NoCompatibleBaseline string "u64 option"
  | RarityNetworkMismatch string string
  | CommandStorage storage_error
  | CommandRpc bitcoin_rpc_error
  | CommandReplay replay_error

definition setup_storage ::
  "runtime \<Rightarrow> incident \<Rightarrow> watch_target list \<Rightarrow> (string \<Rightarrow> string + in_memory_storage) \<Rightarrow> app_config
     \<Rightarrow> cli_error + in_memory_storage" where
  "setup_storage rt liquid targets connect c =
     (case app_storage_backend c of
        BackendMemory \<Rightarrow>
          Inr (if app_mock_feed c then with_limits rt liquid targets (app_event_store_limit c) 5000
               else new_empty liquid targets (app_event_store_limit c))
      | BackendPostgres \<Rightarrow>
          (case app_database_url c of
             None \<Rightarrow> Inl DatabaseUrlMissing
           | Some url \<Rightarrow> (case connect url of Inl e \<Rightarrow> Inl (DatabaseFailed e) | Inr s \<Rightarrow> Inr s)))"

definition setup_bitcoin_rpc :: "rpc_world \<Rightarrow> app_config \<Rightarrow> cli_error + rpc_client" where
  "setup_bitcoin_rpc w c =
     (case rpc_client_new w (rpc_config_of 30 c) of Inl e \<Rightarrow> Inl (CommandRpc e) | Inr r \<Rightarrow> Inr r)"

section \<open>Replay\<close>

definition replay_config_for :: "app_config \<Rightarrow> u64 option \<Rightarrow> u64 option \<Rightarrow> replay_config" where
  "replay_config_for c batch_size checkpoint_interval =
     (replay_config_of c)
       \<lparr>rg_batch_size := (case batch_size of Some b \<Rightarrow> unat b | None \<Rightarrow> app_replay_batch_size c),
        rg_checkpoint_interval := (case checkpoint_interval of Some k \<Rightarrow> k | None \<Rightarrow> app_replay_checkpoint_interval c),
        rg_api_enabled := True\<rparr>"

definition replay_engine_for ::
  "rpc_client \<Rightarrow> in_memory_storage \<Rightarrow> watch_run \<Rightarrow> app_config \<Rightarrow> u64 option \<Rightarrow> u64 option \<Rightarrow> replay_engine" where
  "replay_engine_for rpc s w c batch_size checkpoint_interval =
     replay_engine_new rpc s (detector_engine_new (detectors_of c)) (Some w)
       (replay_config_for c batch_size checkpoint_interval)"

definition run_replay ::
  "replay_env \<Rightarrow> runtime \<Rightarrow> datetime \<Rightarrow> in_memory_storage \<Rightarrow> watch_run \<Rightarrow> app_config \<Rightarrow> u64 \<Rightarrow> u64 \<Rightarrow> u64 option
     \<Rightarrow> u64 option \<Rightarrow> ((cli_error + replay_job) \<times> in_memory_storage) outcome" where
  "run_replay env rt now s w c start_height end_height batch_size checkpoint_interval =
     (case setup_bitcoin_rpc (rn_world env) c of
        Inl e \<Rightarrow> Finished (Inl e, s)
      | Inr rpc \<Rightarrow>
          (case validate_capabilities_and_range env start_height end_height
                  (replay_engine_for rpc s w c batch_size checkpoint_interval) of
             (Inl e, eng) \<Rightarrow> Finished (Inl (CommandReplay e), re_storage eng)
           | (Inr caps, eng) \<Rightarrow>
               (case create_replay_job env rt start_height end_height eng of
                  (Inl e, eng1) \<Rightarrow> Finished (Inl (CommandReplay e), re_storage eng1)
                | (Inr job, eng1) \<Rightarrow>
                    (case run_job env now (rj_id job) eng1 of
                       Panicked \<Rightarrow> Panicked
                     | Finished (Inl e, eng2) \<Rightarrow> Finished (Inl (CommandReplay e), re_storage eng2)
                     | Finished (Inr done_job, eng2) \<Rightarrow> Finished (Inr done_job, re_storage eng2)))))"

section \<open>Baselines\<close>

text \<open>The names of \<open>serde\<close> for an event type, with the aliases of older names.\<close>

definition event_type_of_serde :: "string \<Rightarrow> event_type option" where
  "event_type_of_serde t =
     map_of [(''LARGE_TRANSFER'', LargeTransfer), (''DORMANT_COINS_MOVED'', DormantCoinsMoved),
       (''DORMANT_UTXO_SPENT'', DormantCoinsMoved), (''CONSOLIDATION'', Consolidation), (''FAN_OUT'', FanOut),
       (''EXTREME_FEE'', ExtremeFee), (''FEE_SPIKE'', ExtremeFee),
       (''TRANSACTION_REPLACEMENT'', TransactionReplacement), (''RBF_REPLACEMENT'', TransactionReplacement),
       (''LONG_BLOCK_INTERVAL'', LongBlockInterval), (''REORG_DETECTED'', ReorgDetected),
       (''MINING_ANOMALY'', MiningAnomaly), (''UNUSUAL_FEE_RATIO'', UnusualFeeRatio)] t"

definition event_type_of_flag :: "string \<Rightarrow> event_type option" where
  "event_type_of_flag t =
     map_of [(''large_transfer'', LargeTransfer), (''large_transaction'', LargeTransfer),
       (''long_block_interval'', LongBlockInterval), (''dormant_coins_moved'', DormantCoinsMoved),
       (''dormant_coins'', DormantCoinsMoved), (''consolidation'', Consolidation), (''fan_out'', FanOut),
       (''fanout'', FanOut), (''extreme_fee'', ExtremeFee)]
       (map (\<lambda>ch. if ch = CHR ''-'' then CHR ''_'' else ch) (to_lowercase t))"

definition parse_event_type :: "(string \<Rightarrow> json option) \<Rightarrow> string \<Rightarrow> cli_error + event_type" where
  "parse_event_type json t =
     (case Option.bind (Option.bind (json (CHR 0x22 # t @ [CHR 0x22])) as_str) event_type_of_serde of
        Some ty \<Rightarrow> Inr ty
      | None \<Rightarrow> (case event_type_of_flag t of Some ty \<Rightarrow> Inr ty | None \<Rightarrow> Inl (UnknownEventType t)))"

definition target_types :: "(string \<Rightarrow> json option) \<Rightarrow> string option \<Rightarrow> cli_error + event_type list option" where
  "target_types json flag =
     (case flag of
        None \<Rightarrow> Inr None
      | Some t \<Rightarrow> (case parse_event_type json t of Inl e \<Rightarrow> Inl e | Inr ty \<Rightarrow> Inr (Some [ty])))"

text \<open>
  The generation itself. The queries and the write of the distributions cannot fail on these
  tables, so only the status update has an error.
\<close>

definition generate_baseline ::
  "runtime \<Rightarrow> (nat \<Rightarrow> uuid) \<Rightarrow> datetime \<Rightarrow> string \<Rightarrow> string \<Rightarrow> u64 \<Rightarrow> u64 \<Rightarrow> event_type list option \<Rightarrow> in_memory_storage
     \<Rightarrow> (cli_error + baseline_run) \<times> in_memory_storage" where
  "generate_baseline rt v4 done_at network version start_height end_height types s =
     (let run = create_run_record rt network start_height end_height version;
          s1 = create_baseline_run run s;
          events = query_events_for_baseline None start_height end_height s1;
          n = of_nat (length events);
          s2 = save_baseline_distributions (generate_distributions v4 done_at (br_id run) events types) s1;
          run' = run\<lparr>br_status := BCompleted, br_completed_at := Some done_at, br_canonical_event_count := n\<rparr>
      in case update_baseline_run_status (br_id run) BCompleted (Some done_at) n None s2 of
           Inl e \<Rightarrow> (Inl (CommandStorage e), s2)
         | Inr s3 \<Rightarrow> (Inr run', s3))"

definition run_baseline ::
  "(string \<Rightarrow> json option) \<Rightarrow> runtime \<Rightarrow> (nat \<Rightarrow> uuid) \<Rightarrow> datetime \<Rightarrow> app_config \<Rightarrow> u64 \<Rightarrow> u64 \<Rightarrow> string option
     \<Rightarrow> string option \<Rightarrow> string option \<Rightarrow> in_memory_storage \<Rightarrow> (cli_error + baseline_run) \<times> in_memory_storage" where
  "run_baseline json rt v4 done_at c start_height end_height type_flag network version s =
     (if start_height > end_height then (Inl (HeightsReversed start_height end_height), s)
      else case target_types json type_flag of
             Inl e \<Rightarrow> (Inl e, s)
           | Inr types \<Rightarrow>
               generate_baseline rt v4 done_at
                 (case network of Some n \<Rightarrow> n | None \<Rightarrow> app_bitcoin_network c)
                 (case version of Some v \<Rightarrow> v | None \<Rightarrow> app_baseline_default_algorithm_version c)
                 start_height end_height types s)"

section \<open>Rarity\<close>

definition select_run ::
  "app_config \<Rightarrow> uuid option \<Rightarrow> chain_event \<Rightarrow> in_memory_storage \<Rightarrow> cli_error + baseline_run" where
  "select_run c baseline ev s =
     (case baseline of
        Some b \<Rightarrow> (case get_baseline_run b s of Some r \<Rightarrow> Inr r | None \<Rightarrow> Inl (BaselineRunNotFound b))
      | None \<Rightarrow>
          let network = (case event_network ev of Some n \<Rightarrow> n | None \<Rightarrow> app_bitcoin_network c) in
          case get_latest_compatible_baseline_run network (ev_block_height ev)
                 (Some (app_baseline_default_algorithm_version c)) s of
            Some r \<Rightarrow> Inr r
          | None \<Rightarrow> Inl (NoCompatibleBaseline network (ev_block_height ev)))"

definition network_conflict :: "chain_event \<Rightarrow> baseline_run \<Rightarrow> bool" where
  "network_conflict ev run =
     (case event_network ev of Some n \<Rightarrow> n \<noteq> [] \<and> n \<noteq> br_network run | None \<Rightarrow> False)"

type_synonym exact_ranks = "(baseline_metric \<times> f64 \<times> u64 \<times> u64) list"

definition rank_step ::
  "(nat \<Rightarrow> nat \<Rightarrow> nat \<Rightarrow> uuid) \<Rightarrow> datetime \<Rightarrow> chain_event \<Rightarrow> baseline_run \<Rightarrow> nat \<times> metric_definition
     \<Rightarrow> exact_ranks \<times> in_memory_storage \<Rightarrow> exact_ranks \<times> in_memory_storage" where
  "rank_step v4 now ev run nd st =
     (case nd of (i, d) \<Rightarrow> case st of (ranks, s) \<Rightarrow>
      case extract_metric ev (md_metric d) of
        None \<Rightarrow> (ranks, s)
      | Some x \<Rightarrow>
          (case get_exact_empirical_rank (v4 i) now (br_network run) (ev_type ev) (md_metric d)
                  (metric_str (md_metric d) @ ''-v1'') (br_start_height run) (br_end_height run) x
                  (md_direction d) s of
             (None, s1) \<Rightarrow> (ranks, s1)
           | (Some r, s1) \<Rightarrow> (AList.update (md_metric d) r ranks, s1)))"

definition collect_ranks ::
  "(nat \<Rightarrow> nat \<Rightarrow> nat \<Rightarrow> uuid) \<Rightarrow> datetime \<Rightarrow> chain_event \<Rightarrow> baseline_run \<Rightarrow> in_memory_storage
     \<Rightarrow> exact_ranks \<times> in_memory_storage" where
  "collect_ranks v4 now ev run s =
     fold (rank_step v4 now ev run) (enumerate 0 (metrics_for_event_type (ev_type ev))) ([], s)"

definition save_context :: "event_rarity_context \<Rightarrow> in_memory_storage \<Rightarrow> in_memory_storage" where
  "save_context ctx s =
     fold (\<lambda>r. save_event_rarity r (rc_impact ctx)) (rc_primary ctx # rc_secondary ctx) s"

definition run_rarity ::
  "(nat \<Rightarrow> nat \<Rightarrow> nat \<Rightarrow> uuid) \<Rightarrow> datetime \<Rightarrow> app_config \<Rightarrow> uuid \<Rightarrow> uuid option \<Rightarrow> in_memory_storage
     \<Rightarrow> (cli_error + event_rarity_context) \<times> in_memory_storage" where
  "run_rarity v4 now c event_id baseline s =
     (case get_event_by_id event_id s of
        None \<Rightarrow> (Inl (EventNotFound event_id), s)
      | Some ev \<Rightarrow>
          (case select_run c baseline ev s of
             Inl e \<Rightarrow> (Inl e, s)
           | Inr run \<Rightarrow>
               if network_conflict ev run then
                 (Inl (RarityNetworkMismatch (case event_network ev of Some n \<Rightarrow> n | None \<Rightarrow> []) (br_network run)), s)
               else
                 let distributions = get_baseline_distributions (br_id run) s in
                 case collect_ranks v4 now ev run s of (ranks, s1) \<Rightarrow>
                   let ctx = evaluate_event_rarity_with_exact_ranks ev run distributions ranks
                               (app_baseline_min_sample_size c)
                   in (Inr ctx, save_context ctx s1)))"

section \<open>What a baseline command leaves behind\<close>

lemma fold_upsert_fresh:
  assumes "distinct (map k ds)" "\<forall>d \<in> set ds. \<forall>x \<in> set xs. k x \<noteq> k d"
  shows "fold (\<lambda>d. upsert (\<lambda>x. k x = k d) d) ds xs = xs @ ds"
  using assms
proof (induction ds arbitrary: xs)
  case (Cons d ds)
  have "fold (\<lambda>d. upsert (\<lambda>x. k x = k d) d) ds (xs @ [d]) = (xs @ [d]) @ ds"
    using Cons.prems by (intro Cons.IH) auto
  then show ?case using Cons.prems by simp
qed simp

lemma upsert_keeps_other: "d \<in> set xs \<Longrightarrow> \<not> P d \<Longrightarrow> d \<in> set (upsert P x xs)"
proof (cases "position P xs")
  case (Some i)
  assume d: "d \<in> set xs" "\<not> P d"
  from Some have i: "i < length xs" "P (xs ! i)" by (auto dest: position_SomeD)
  obtain j where "j < length xs" "xs ! j = d" using d(1) by (auto simp: in_set_conv_nth)
  then show ?thesis using i d(2) Some
    by (auto simp: upsert_def in_set_conv_nth nth_list_update intro!: exI [of _ j])
qed (auto simp: upsert_def)

lemma fold_upsert_keeps:
  "y \<in> set ys \<Longrightarrow> \<forall>e \<in> set es. g y \<noteq> k e \<Longrightarrow> y \<in> set (fold (\<lambda>d. upsert (\<lambda>x. g x = k d) (f d)) es ys)"
  by (induction es arbitrary: ys) (simp_all add: upsert_keeps_other)

lemma fold_upsert_mem:
  assumes "distinct (map k ds)" "d \<in> set ds" "\<And>e. g (f e) = k e"
  shows "f d \<in> set (fold (\<lambda>d. upsert (\<lambda>x. g x = k d) (f d)) ds xs)"
  using assms(1,2)
proof (induction ds arbitrary: xs)
  case (Cons e es)
  show ?case
  proof (cases "d = e")
    case True
    have "\<forall>e' \<in> set es. g (f d) \<noteq> k e'" using Cons.prems assms(3) True by force
    then show ?thesis using True by (simp add: fold_upsert_keeps upsert_mem)
  next
    case False
    then show ?thesis using Cons by auto
  qed
qed simp

lemma find_list_update:
  assumes "position P xs = Some i" "P y"
  shows "find P (xs[i := y]) = Some y" and "find P xs = Some (xs ! i)"
proof -
  from assms have i: "i < length xs" "P (xs ! i)" "\<forall>j < i. \<not> P (xs ! j)" by (simp_all add: position_Some)
  show "find P (xs[i := y]) = Some y" using i assms(2) by (auto simp: find_Some_iff intro!: exI [of _ i])
  show "find P xs = Some (xs ! i)" using i by (auto simp: find_Some_iff intro!: exI [of _ i])
qed

text \<open>The distributions of one run differ in their type or metric.\<close>

lemma registry_keys_distinct:
  assumes "target_types json flag = Inr types"
  shows "distinct (concat (map (\<lambda>ty. map (\<lambda>d. (md_event_type d, md_metric d)) (metrics_for_event_type ty))
    (case types of Some ts \<Rightarrow> ts | None \<Rightarrow> supported_event_types)))"
proof -
  have one: "distinct (map (\<lambda>d. (md_event_type d, md_metric d)) (metrics_for_event_type ty))" for ty
    by (cases ty) (simp_all add: metrics_for_event_type_def metric_def_def)
  have all: "distinct (concat (map (\<lambda>ty. map (\<lambda>d. (md_event_type d, md_metric d)) (metrics_for_event_type ty))
      supported_event_types))"
    by (simp add: supported_event_types_def metrics_for_event_type_def metric_def_def)
  from assms one all show ?thesis
    by (auto simp: target_types_def split: option.splits sum.splits)
qed

lemma distinct_map_filter_keys:
  assumes "distinct (map k xs)" "\<And>x y. f x = Some y \<Longrightarrow> g y = k x"
  shows "distinct (map g (List.map_filter f xs))"
  using assms
proof (induction xs)
  case (Cons x xs)
  have "g ` set (List.map_filter f xs) \<subseteq> k ` set xs"
    using Cons.prems(2) by (force simp: List.map_filter_def)
  with Cons show ?case by (auto simp: List.map_filter_simps split: option.split)
qed (simp add: List.map_filter_simps)

lemma distribution_for_key:
  "distribution_for i run now evs d = Some b
     \<Longrightarrow> bd_event_type b = md_event_type d \<and> bd_metric b = md_metric d \<and> bd_baseline_run_id b = run"
  by (auto simp: distribution_for_def)

lemma generated_keys:
  assumes "target_types json flag = Inr types"
  shows "distinct (map (\<lambda>b. (bd_baseline_run_id b, bd_event_type b, bd_metric b))
      (generate_distributions v4 now run events types))"
    and "\<forall>b \<in> set (generate_distributions v4 now run events types). bd_baseline_run_id b = run"
proof -
  let ?key = "\<lambda>(i :: nat, evs :: chain_event list, d). (run, md_event_type d, md_metric d)"
  let ?types = "case types of Some ts \<Rightarrow> ts | None \<Rightarrow> supported_event_types"
  let ?jobs = "concat (map (\<lambda>ty. map (Pair (filter (\<lambda>e. ev_type e = ty) events)) (metrics_for_event_type ty)) ?types)"
  have "map ?key (enumerate 0 ?jobs) = map (Pair run) (map (\<lambda>(evs, d). (md_event_type d, md_metric d)) ?jobs)"
    by (rule nth_equalityI) (simp_all add: nth_enumerate_eq split: prod.split)
  also have "map (\<lambda>(evs, d). (md_event_type d, md_metric d)) ?jobs
      = concat (map (\<lambda>ty. map (\<lambda>d. (md_event_type d, md_metric d)) (metrics_for_event_type ty)) ?types)"
    by (simp add: map_concat o_def)
  finally have "distinct (map ?key (enumerate 0 ?jobs))"
    using registry_keys_distinct [OF assms] by (simp add: distinct_map inj_on_def)
  then show "distinct (map (\<lambda>b. (bd_baseline_run_id b, bd_event_type b, bd_metric b))
      (generate_distributions v4 now run events types))"
    unfolding generate_distributions_def Let_def
    by (rule distinct_map_filter_keys) (auto dest: distribution_for_key)
  show "\<forall>b \<in> set (generate_distributions v4 now run events types). bd_baseline_run_id b = run"
    by (auto simp: generate_distributions_def Let_def in_map_filter dest!: distribution_for_key)
qed




section \<open>What a rarity command compares\<close>

lemma latest_compatible_in:
  assumes "get_latest_compatible_baseline_run network h v s = Some r"
  shows "r \<in> set (st_baseline_runs s)" and "compatible_run network h v r"
proof -
  let ?runs = "filter (compatible_run network h v) (st_baseline_runs s)"
  obtain rs where "sort_key run_order ?runs = r # rs"
    using assms by (auto simp: get_latest_compatible_baseline_run_def split: list.splits)
  from hd_sort_key(1) [OF this] show "r \<in> set (st_baseline_runs s)" "compatible_run network h v r" by auto
qed

lemma select_run_spec:
  assumes "select_run c baseline ev s = Inr run"
  shows "run \<in> set (st_baseline_runs s)"
    and "case baseline of Some b \<Rightarrow> br_id run = b
      | None \<Rightarrow> br_status run = BCompleted \<and> br_algorithm_version run = app_baseline_default_algorithm_version c"
  using assms latest_compatible_in
  by (auto simp: select_run_def get_baseline_run_def find_Some_iff Let_def compatible_run_def
      split: option.splits dest!: latest_compatible_in)

lemma rank_step_frame:
  "st_events (snd (rank_step v4 now ev run nd st)) = st_events (snd st)
   \<and> st_event_rarity (snd (rank_step v4 now ev run nd st)) = st_event_rarity (snd st)"
proof -
  have "st_events (snd (get_exact_empirical_rank v now net ty m ver a b x d s)) = st_events s"
    "st_event_rarity (snd (get_exact_empirical_rank v now net ty m ver a b x d s)) = st_event_rarity s"
    for v net ty m ver a b x d s
    by (rule exact_rank_frame; simp add: save_event_metrics_def)+
  note frame = this
  obtain i d where nd: "nd = (i, d)" by fastforce
  obtain ranks s where st: "st = (ranks, s)" by fastforce
  show ?thesis
  proof (cases "extract_metric ev (md_metric d)")
    case (Some x)
    obtain r s1 where g: "get_exact_empirical_rank (v4 i) now (br_network run) (ev_type ev) (md_metric d)
        (metric_str (md_metric d) @ ''-v1'') (br_start_height run) (br_end_height run) x (md_direction d) s = (r, s1)"
      by fastforce
    have "st_events s1 = st_events s" "st_event_rarity s1 = st_event_rarity s"
      using frame [of "v4 i" "br_network run" "ev_type ev" "md_metric d" "metric_str (md_metric d) @ ''-v1''"
          "br_start_height run" "br_end_height run" x "md_direction d" s] g by simp_all
    then show ?thesis using Some g by (simp add: rank_step_def nd st split: option.split)
  qed (simp add: rank_step_def nd st)
qed

lemma collect_ranks_frame:
  "st_events (snd (collect_ranks v4 now ev run s)) = st_events s"
proof -
  have "st_events (snd (fold (rank_step v4 now ev run) nds st)) = st_events (snd st)" for nds st
    by (induction nds arbitrary: st) (simp_all add: rank_step_frame)
  then show ?thesis by (simp add: collect_ranks_def)
qed

lemma registry_facts:
  "distinct (map md_metric (metrics_for_event_type ty))"
  "\<lbrakk>d \<in> set (metrics_for_event_type ty); e \<in> set (metrics_for_event_type ty); md_is_primary d;
    md_metric d = md_metric e\<rbrakk> \<Longrightarrow> md_is_primary e"
  "e \<in> set (metrics_for_event_type ty) \<Longrightarrow> primary_metric ty \<noteq> None"
proof -
  show dist: "distinct (map md_metric (metrics_for_event_type ty))"
    by (cases ty) (simp_all add: metrics_for_event_type_def metric_def_def)
  show "md_is_primary e" if "d \<in> set (metrics_for_event_type ty)" "e \<in> set (metrics_for_event_type ty)"
    "md_is_primary d" "md_metric d = md_metric e"
    using that dist by (metis distinct_map inj_onD)
  show "primary_metric ty \<noteq> None" if "e \<in> set (metrics_for_event_type ty)"
    using that by (cases ty) (simp_all add: metrics_for_event_type_def metric_def_def primary_metric_def)
qed

text \<open>The results of an evaluation concern the event and the run, one for each metric.\<close>

lemma context_results:
  fixes ev run ds ranks k
  defines "ctx \<equiv> evaluate_event_rarity_with_exact_ranks ev run ds ranks k"
  shows "rc_baseline_id ctx = br_id run"
    and "\<forall>r \<in> set (rc_primary ctx # rc_secondary ctx). er_event_id r = ev_id ev \<and> er_baseline_run_id r = br_id run"
    and "distinct (map er_metric (rc_primary ctx # rc_secondary ctx))"
proof -
  let ?defs = "metrics_for_event_type (ev_type ev)"
  let ?f = "\<lambda>d. map_option (\<lambda>x. (md_is_primary d, rarity_result ev run (md_metric d) x
      (rank_metric (ev_type ev) ds ranks k d x))) (extract_metric ev (md_metric d))"
  define results where "results = List.map_filter ?f ?defs"
  have sec: "rc_secondary ctx = map snd (filter (\<lambda>x. \<not> fst x) results)"
    by (simp add: ctx_def evaluate_event_rarity_with_exact_ranks_def Let_def results_def)
  show "rc_baseline_id ctx = br_id run"
    by (simp add: ctx_def evaluate_event_rarity_with_exact_ranks_def Let_def)
  have res: "\<exists>d \<in> set ?defs. p = md_is_primary d \<and> er_metric r = md_metric d \<and> er_event_id r = ev_id ev
      \<and> er_baseline_run_id r = br_id run" if "(p, r) \<in> set results" for p r
    using that by (auto simp: results_def in_map_filter rarity_result_def)
  have prim: "(\<exists>r. (True, r) \<in> set results \<and> rc_primary ctx = r)
      \<or> (er_metric (rc_primary ctx) = (case primary_metric (ev_type ev) of Some d \<Rightarrow> md_metric d | None \<Rightarrow> ValueSats)
          \<and> er_event_id (rc_primary ctx) = ev_id ev \<and> er_baseline_run_id (rc_primary ctx) = br_id run)"
  proof (cases "find fst results")
    case None
    then show ?thesis
      by (simp add: ctx_def evaluate_event_rarity_with_exact_ranks_def Let_def rarity_result_def results_def)
  next
    case (Some pr)
    then have pr: "pr \<in> set results" "fst pr" by (auto simp: find_Some_iff)
    have "(True, snd pr) = pr" using pr(2) by (simp add: prod_eq_iff)
    with pr(1) have "(True, snd pr) \<in> set results" by (simp only:)
    moreover have "rc_primary ctx = snd pr"
      using Some by (simp add: ctx_def evaluate_event_rarity_with_exact_ranks_def Let_def results_def split: prod.split)
    ultimately show ?thesis by blast
  qed
  show "\<forall>r \<in> set (rc_primary ctx # rc_secondary ctx). er_event_id r = ev_id ev \<and> er_baseline_run_id r = br_id run"
    using prim by (auto simp: sec dest!: res)
  have dist: "distinct (map md_metric ?defs)"
    and one: "\<And>d e. d \<in> set ?defs \<Longrightarrow> e \<in> set ?defs \<Longrightarrow> md_is_primary d \<Longrightarrow> md_metric d = md_metric e \<Longrightarrow> md_is_primary e"
    and def: "\<And>e. e \<in> set ?defs \<Longrightarrow> primary_metric (ev_type ev) \<noteq> None"
    using registry_facts by blast+
  have keys: "distinct (map (er_metric \<circ> snd) results)"
    unfolding results_def by (rule distinct_map_filter_keys [OF dist]) (auto simp: rarity_result_def)
  then have "distinct (map er_metric (rc_secondary ctx))"
    unfolding sec map_map by (rule distinct_map_filter)
  moreover have "er_metric (rc_primary ctx) \<notin> er_metric ` set (rc_secondary ctx)"
  proof
    assume "er_metric (rc_primary ctx) \<in> er_metric ` set (rc_secondary ctx)"
    then obtain r where r: "(False, r) \<in> set results" "er_metric r = er_metric (rc_primary ctx)"
      by (auto simp: sec)
    then obtain d where d: "d \<in> set ?defs" "\<not> md_is_primary d" "md_metric d = er_metric (rc_primary ctx)"
      using res by force
    have "\<exists>e \<in> set ?defs. md_is_primary e \<and> md_metric e = er_metric (rc_primary ctx)"
    proof -
      obtain e where e: "primary_metric (ev_type ev) = Some e" using def [OF d(1)] by blast
      then have "e \<in> set ?defs" "md_is_primary e" by (auto simp: primary_metric_def find_Some_iff)
      with prim e show ?thesis by (elim disjE exE conjE) (auto dest!: res)
    qed
    then obtain e where "e \<in> set ?defs" "md_is_primary e" "md_metric e = md_metric d" using d(3) by auto
    then show False using one [OF _ d(1)] d(2) by blast
  qed
  ultimately show "distinct (map er_metric (rc_primary ctx # rc_secondary ctx))" by simp
qed


lemma save_context_results:
  assumes "distinct (map er_metric (rc_primary ctx # rc_secondary ctx))"
    and "\<forall>r \<in> set (rc_primary ctx # rc_secondary ctx). er_event_id r = i \<and> er_baseline_run_id r = b"
  shows "\<forall>r \<in> set (rc_primary ctx # rc_secondary ctx). r \<in> set (get_event_rarity i (Some b) (save_context ctx s))"
proof
  let ?rs = "rc_primary ctx # rc_secondary ctx"
  let ?k = "\<lambda>r. (er_event_id r, er_baseline_run_id r, er_metric r)"
  have saved: "st_event_rarity (fold (\<lambda>r. save_event_rarity r (rc_impact ctx)) rs t)
      = fold (\<lambda>r. upsert (\<lambda>x. ?k (fst x) = ?k r) (r, rc_impact ctx)) rs (st_event_rarity t)" for rs t
    by (induction rs arbitrary: t) (simp_all add: save_event_rarity_def same_rarity_def [abs_def])
  fix r assume r: "r \<in> set ?rs"
  have "distinct (map ?k ?rs)"
    using assms(1) by (simp only: distinct_map inj_on_def) blast
  from fold_upsert_mem [OF this r, of "\<lambda>x. ?k (fst x)" "\<lambda>r. (r, rc_impact ctx)" "st_event_rarity s"]
  have "(r, rc_impact ctx) \<in> set (st_event_rarity (save_context ctx s))"
    unfolding save_context_def saved by simp
  then have "r \<in> set (map fst (st_event_rarity (save_context ctx s)))" by force
  then show "r \<in> set (get_event_rarity i (Some b) (save_context ctx s))"
    using assms(2) r by (auto simp: get_event_rarity_def)
qed


text \<open>
  The in-memory back end starts empty for each command: without the mock feed a rarity command on
  it never finds its event.
\<close>

lemma memory_rarity_finds_nothing:
  assumes "app_storage_backend c = BackendMemory" "\<not> app_mock_feed c"
  shows "\<exists>s. setup_storage rt liquid targets connect c = Inr s
    \<and> run_rarity v4 now c event_id baseline s = (Inl (EventNotFound event_id), s)"
  using assms
  by (simp add: setup_storage_def run_rarity_def get_event_by_id_def new_empty_def seed_canonical_incidents_def
      empty_storage_def)

section \<open>What a replay command does\<close>

text \<open>A range that does not fit the settings is refused before the node is asked, and no job is created.\<close>

lemma replay_command_refuses_range:
  assumes "range_error (replay_config_for c batch_size interval) start_height end_height = Some err"
    and "setup_bitcoin_rpc (rn_world env) c = Inr rpc"
  shows "run_replay env rt now s w c start_height end_height batch_size interval
    = Finished (Inl (CommandReplay err), s)"
  using assms
  by (simp add: run_replay_def replay_engine_for_def replay_engine_new_def validate_capabilities_and_range_def)


definition sample_ranked_event :: chain_event where
  "sample_ranked_event = (titled_event ''a'')\<lparr>ev_metadata := JObj [(''network'', JStr ''mainnet'')]\<rparr>"

definition sample_rarity_storage :: in_memory_storage where
  "sample_rarity_storage =
     (empty_storage 5 5)\<lparr>st_events := [sample_ranked_event], st_baseline_runs := [sample_run BCompleted 10]\<rparr>"


end
