(* ===== verification/Api.thy ===== *)
theory Api
  imports Commands
begin

text \<open>
  The HTTP and WebSocket interface (\<open>src/api.rs\<close>): the shared state, every handler of the router and the
  loop that serves a WebSocket client. A handler returns its HTTP status with a typed body in place of
  the JSON text; a request is a value of \<open>api_request\<close>, after axum has matched the route and decoded
  path, query and payload.

  The replay engine shares the storage of the state, so its operations run on that storage. Background
  tasks that a handler spawns are recorded in \<open>as_spawned\<close>; running them is \<open>Replay_Engine\<close>. Fresh
  identifiers, the clock, the texts of replay errors and the UUID parser are in \<open>api_env\<close>.
\<close>

section \<open>State and responses\<close>

datatype spawned_task = RunReplayJob uuid | ResumeReplayJob uuid

record app_state =
  as_storage :: in_memory_storage
  as_detectors :: "detector list"
  as_started_at :: datetime
  as_is_mock_feed :: bool
  as_watch_engine :: watch_engine
  as_tip_height :: u64
  as_events_detected :: u64
  as_sources :: sources_status
  as_metrics :: pipeline_metrics
  as_bitcoin_core_status :: "bitcoin_core_status_response option"
  as_replay_engine :: "replay_engine option"
  as_replay_api_enabled :: bool
  as_baseline_api_enabled :: bool
  as_baseline_default_algorithm_version :: string
  as_impact_default_model_version :: string
  as_baseline_min_sample_size :: u64
  as_spawned :: "spawned_task list"

definition with_metrics_and_watch_engine ::
  "in_memory_storage \<Rightarrow> detector list \<Rightarrow> bool \<Rightarrow> pipeline_metrics \<Rightarrow> watch_engine \<Rightarrow> datetime \<Rightarrow> app_state" where
  "with_metrics_and_watch_engine s ds mock m w now =
     \<lparr>as_storage = s, as_detectors = ds, as_started_at = now, as_is_mock_feed = mock, as_watch_engine = w,
      as_tip_height = 0, as_events_detected = 0, as_sources = sources_status_new, as_metrics = m,
      as_bitcoin_core_status = None, as_replay_engine = None, as_replay_api_enabled = False,
      as_baseline_api_enabled = False, as_baseline_default_algorithm_version = ''obschain-baseline-v1'',
      as_impact_default_model_version = ''obschain-impact-v1'', as_baseline_min_sample_size = 100,
      as_spawned = []\<rparr>"

definition with_replay :: "replay_engine option \<Rightarrow> bool \<Rightarrow> app_state \<Rightarrow> app_state" where
  "with_replay e enabled st = st\<lparr>as_replay_engine := e, as_replay_api_enabled := enabled\<rparr>"

definition with_baseline :: "bool \<Rightarrow> string \<Rightarrow> string \<Rightarrow> u64 \<Rightarrow> app_state \<Rightarrow> app_state" where
  "with_baseline enabled version impact n st =
     st\<lparr>as_baseline_api_enabled := enabled, as_baseline_default_algorithm_version := version,
        as_impact_default_model_version := impact, as_baseline_min_sample_size := n\<rparr>"

record api_env =
  av_runtime :: runtime
  av_replay :: replay_env
  av_parse_uuid :: "string \<Rightarrow> uuid option"
  av_rank_ids :: "nat \<Rightarrow> nat \<Rightarrow> nat \<Rightarrow> uuid"
  av_distribution_ids :: "nat \<Rightarrow> uuid"

record api_error_response =
  ae_error :: string
  ae_code :: nat

record 'a page_response =
  pr_items :: "'a list"
  pr_count :: nat
  pr_limit :: usize
  pr_offset :: usize

record storage_status_response =
  sr_backend :: string
  sr_status :: string
  sr_events_persisted :: usize
  sr_incidents_persisted :: usize
  sr_incident_activities_persisted :: usize
  sr_watch_targets_loaded :: usize

record pipeline_metrics_response =
  mr_counters :: pipeline_metrics
  mr_sync_progress :: f64

record status_response =
  sp_uptime_seconds :: int
  sp_sources :: sources_status
  sp_tip_height :: u64
  sp_events_detected :: u64
  sp_active_detectors :: "string list"
  sp_storage_backend :: string
  sp_storage :: storage_status_response
  sp_is_mock_feed :: bool
  sp_metrics :: pipeline_metrics_response
  sp_active_incident_watchers :: usize
  sp_incident_watch_targets :: usize
  sp_incident_activities_detected :: u64
  sp_incident_alerts_emitted :: u64
  sp_bitcoin_core :: bitcoin_core_status_response

record rarity_response =
  ry_event :: chain_event
  ry_run :: baseline_run
  ry_quality :: string
  ry_context :: event_rarity_context

datatype api_body =
    BodyHealth string string
  | BodyStatus status_response
  | BodyEvents "chain_event page_response" bool
  | BodyEvent chain_event "(uuid \<times> event_rarity_result \<times> event_rarity_result list) option"
  | BodyObservations uuid "event_observation list"
  | BodyIncidents "incident page_response" bool
  | BodyIncident incident
  | BodyTimeline uuid string "timeline_entry list"
  | BodyEvidence uuid string "evidence list"
  | BodyGraph incident_graph
  | BodyActivity "(uuid \<times> string) option" "incident_activity page_response"
  | BodyTargets uuid string "public_watch_target list"
  | BodyAlerts "(uuid \<times> string) option" "incident_alert page_response"
  | BodyJobs "replay_job page_response"
  | BodyJob replay_job "replay_checkpoint option"
  | BodyJobCreated replay_job
  | BodyJobStatus string "replay_job option"
  | BodyBaselines "baseline_run page_response"
  | BodyBaseline baseline_run "baseline_distribution list"
  | BodyBaselineCreated baseline_run nat u64
  | BodyDistributions "baseline_distribution list"
  | BodyRarity rarity_response

type_synonym api_result = "(nat \<times> api_error_response) + (nat \<times> api_body)"

definition api_error :: "nat \<Rightarrow> string \<Rightarrow> api_result" where
  "api_error code msg = Inl (code, \<lparr>ae_error = msg, ae_code = code\<rparr>)"

definition api_ok :: "api_body \<Rightarrow> api_result" where
  "api_ok b = Inr (200, b)"

definition storage_error_text :: "storage_error \<Rightarrow> string" where
  "storage_error_text e =
     (case e of Database msg \<Rightarrow> ''Database error: '' @ msg | NotFound msg \<Rightarrow> ''Entity not found: '' @ msg
      | Serialization msg \<Rightarrow> ''Serialization error: '' @ msg)"

definition map_storage_error :: "storage_error \<Rightarrow> api_result" where
  "map_storage_error e =
     (case e of
        Database msg \<Rightarrow> api_error 503 (''Storage service unavailable: '' @ msg)
      | other \<Rightarrow> api_error 500 (storage_error_text other))"

text \<open>\<open>unwrap_or(50).clamp(1, 100)\<close>\<close>

definition page_limit :: "usize option \<Rightarrow> usize" where
  "page_limit l = min (max (case l of Some k \<Rightarrow> k | None \<Rightarrow> 50) 1) 100"

definition page_offset :: "usize option \<Rightarrow> usize" where
  "page_offset off = (case off of Some k \<Rightarrow> k | None \<Rightarrow> 0)"

definition page_of :: "usize \<Rightarrow> usize \<Rightarrow> 'a list \<Rightarrow> 'a page_response" where
  "page_of limit offset xs = \<lparr>pr_items = xs, pr_count = length xs, pr_limit = limit, pr_offset = offset\<rparr>"

section \<open>Health and status\<close>

definition backend_name :: string where
  "backend_name = ''memory''"

definition telemetry_counts :: "in_memory_storage \<Rightarrow> usize \<times> usize \<times> usize \<times> usize" where
  "telemetry_counts s = (length (st_events s), 1, 0, length (st_watch_targets s))"

definition metrics_snapshot :: "pipeline_metrics \<Rightarrow> pipeline_metrics_response" where
  "metrics_snapshot m =
     \<lparr>mr_counters = m,
      mr_sync_progress = f64_div (f64_of_nat (unat (pm_bitcoin_core_sync_progress m))) (f64_lit 1000000)\<rparr>"

definition health_handler :: "app_state \<Rightarrow> api_result" where
  "health_handler st = api_ok (BodyHealth backend_name ''connected'')"

definition core_status_default :: bitcoin_core_status_response where
  "core_status_default =
     \<lparr>bsr_enabled = False, bsr_connected = False, bsr_network = None, bsr_blocks = None, bsr_headers = None,
      bsr_ibd = None, bsr_verification_progress = None, bsr_pruned = None, bsr_txindex = None,
      bsr_zmq_sequence_gaps = None, bsr_zmq_notifications_missed = None,
      bsr_zmq = \<lparr>bz_rawtx = ''not_configured'', bz_rawblock = ''not_configured'', bz_sequence = ''not_configured''\<rparr>\<rparr>"

definition status_handler :: "api_env \<Rightarrow> app_state \<Rightarrow> api_result" where
  "status_handler env st =
     (case telemetry_counts (as_storage st) of (events, incidents, activities, targets) \<Rightarrow>
      api_ok (BodyStatus
        \<lparr>sp_uptime_seconds = num_seconds (rt_now (av_runtime env) - as_started_at st),
         sp_sources = as_sources st, sp_tip_height = as_tip_height st,
         sp_events_detected = as_events_detected st, sp_active_detectors = map det_name (as_detectors st),
         sp_storage_backend = ''in-memory (bounded VecDeque)'',
         sp_storage = \<lparr>sr_backend = backend_name, sr_status = ''connected'', sr_events_persisted = events,
           sr_incidents_persisted = incidents, sr_incident_activities_persisted = activities,
           sr_watch_targets_loaded = targets\<rparr>,
         sp_is_mock_feed = as_is_mock_feed st, sp_metrics = metrics_snapshot (as_metrics st),
         sp_active_incident_watchers = 1,
         sp_incident_watch_targets = length (we_all_targets (as_watch_engine st)),
         sp_incident_activities_detected = pm_incident_activities_detected (as_metrics st),
         sp_incident_alerts_emitted = pm_incident_alerts_emitted (as_metrics st),
         sp_bitcoin_core = (case as_bitcoin_core_status st of Some b \<Rightarrow> b | None \<Rightarrow> core_status_default)\<rparr>))"

section \<open>Events\<close>

text \<open>The decoded query: an event filter whose limit and offset are those the client asked for.\<close>

definition list_events_handler :: "event_filter \<Rightarrow> app_state \<Rightarrow> api_result" where
  "list_events_handler q st =
     (let limit = page_limit (ef_limit q); offset = page_offset (ef_offset q);
          events = query_events (q\<lparr>ef_limit := Some limit, ef_offset := Some offset\<rparr>) (as_storage st)
      in api_ok (BodyEvents (page_of limit offset events) (as_is_mock_feed st)))"

definition event_missing :: "uuid \<Rightarrow> api_result" where
  "event_missing i = api_error 404 (''Event '' @ uuid_str i @ '' not found'')"

definition latest_run_for :: "chain_event \<Rightarrow> app_state \<Rightarrow> baseline_run option" where
  "latest_run_for ev st =
     get_latest_compatible_baseline_run (case event_network ev of Some n \<Rightarrow> n | None \<Rightarrow> ''mainnet'')
       (ev_block_height ev) (Some (as_baseline_default_algorithm_version st)) (as_storage st)"

definition get_event_handler :: "api_env \<Rightarrow> uuid \<Rightarrow> app_state \<Rightarrow> api_result \<times> app_state" where
  "get_event_handler env i st =
     (case get_event_by_id i (as_storage st) of
        None \<Rightarrow> (event_missing i, st)
      | Some ev \<Rightarrow>
          (case latest_run_for ev st of
             None \<Rightarrow> (api_ok (BodyEvent ev None), st)
           | Some run \<Rightarrow>
               let dists = get_baseline_distributions (br_id run) (as_storage st) in
               if dists = [] then (api_ok (BodyEvent ev None), st)
               else
                 case collect_ranks (av_rank_ids env) (rt_now (av_runtime env)) ev run (as_storage st) of (ranks, s1) \<Rightarrow>
                   let ctx = evaluate_event_rarity_with_exact_ranks ev run dists ranks (as_baseline_min_sample_size st)
                   in (api_ok (BodyEvent ev (Some (br_id run, rc_primary ctx, rc_secondary ctx))),
                       st\<lparr>as_storage := s1\<rparr>)))"

definition get_event_observations_handler :: "uuid \<Rightarrow> app_state \<Rightarrow> api_result" where
  "get_event_observations_handler i st =
     (case get_event_by_id i (as_storage st) of
        None \<Rightarrow> event_missing i
      | Some ev \<Rightarrow> api_ok (BodyObservations i (list_event_observations i (as_storage st))))"

section \<open>Incidents\<close>

definition list_incidents_handler :: "usize option \<Rightarrow> usize option \<Rightarrow> app_state \<Rightarrow> api_result" where
  "list_incidents_handler l off st =
     (let limit = page_limit l; offset = page_offset off
      in api_ok (BodyIncidents (page_of limit offset (list_incidents limit offset (as_storage st))) (as_is_mock_feed st)))"

definition incident_missing :: "string \<Rightarrow> api_result" where
  "incident_missing ident = api_error 404 (''Incident '' @ [CHR 0x27] @ ident @ [CHR 0x27] @ '' not found'')"

definition with_incident :: "api_env \<Rightarrow> string \<Rightarrow> app_state \<Rightarrow> (incident \<Rightarrow> api_body) \<Rightarrow> api_result" where
  "with_incident env ident st body =
     (case get_incident_by_id_or_case_id (av_parse_uuid env) ident (as_storage st) of
        None \<Rightarrow> incident_missing ident
      | Some i \<Rightarrow> api_ok (body i))"

definition get_incident_handler :: "api_env \<Rightarrow> string \<Rightarrow> app_state \<Rightarrow> api_result" where
  "get_incident_handler env ident st = with_incident env ident st BodyIncident"

definition get_incident_timeline_handler :: "api_env \<Rightarrow> string \<Rightarrow> app_state \<Rightarrow> api_result" where
  "get_incident_timeline_handler env ident st =
     with_incident env ident st (\<lambda>i. BodyTimeline (ic_id i) (ic_case_id i) (ic_timeline i))"

definition get_incident_evidence_handler :: "api_env \<Rightarrow> string \<Rightarrow> app_state \<Rightarrow> api_result" where
  "get_incident_evidence_handler env ident st =
     with_incident env ident st (\<lambda>i. BodyEvidence (ic_id i) (ic_case_id i) (ic_evidence i))"

definition get_incident_graph_handler :: "api_env \<Rightarrow> string \<Rightarrow> app_state \<Rightarrow> api_result" where
  "get_incident_graph_handler env ident st = with_incident env ident st (\<lambda>i. BodyGraph (ic_graph i))"

definition get_incident_activity_handler ::
  "api_env \<Rightarrow> string \<Rightarrow> activity_status option \<Rightarrow> usize option \<Rightarrow> usize option \<Rightarrow> app_state \<Rightarrow> api_result" where
  "get_incident_activity_handler env ident status l off st =
     with_incident env ident st (\<lambda>i.
       let limit = page_limit l; offset = page_offset off
       in BodyActivity (Some (ic_id i, ic_case_id i))
            (page_of limit offset (list_activities (Some (ic_id i)) status limit offset (as_storage st))))"

definition get_incident_watch_targets_handler :: "api_env \<Rightarrow> string \<Rightarrow> app_state \<Rightarrow> api_result" where
  "get_incident_watch_targets_handler env ident st =
     with_incident env ident st (\<lambda>i.
       BodyTargets (ic_id i) (ic_case_id i)
         (map to_public_metadata (list_watch_targets (Some (ic_id i)) 100 0 (as_storage st))))"

definition get_incident_alerts_handler ::
  "api_env \<Rightarrow> string \<Rightarrow> usize option \<Rightarrow> usize option \<Rightarrow> app_state \<Rightarrow> api_result" where
  "get_incident_alerts_handler env ident l off st =
     with_incident env ident st (\<lambda>i.
       let limit = page_limit l; offset = page_offset off
       in BodyAlerts (Some (ic_id i, ic_case_id i))
            (page_of limit offset (list_alerts (Some (ic_id i)) limit offset (as_storage st))))"

definition list_incident_activity_handler ::
  "activity_status option \<Rightarrow> usize option \<Rightarrow> usize option \<Rightarrow> app_state \<Rightarrow> api_result" where
  "list_incident_activity_handler status l off st =
     (let limit = page_limit l; offset = page_offset off
      in api_ok (BodyActivity None (page_of limit offset (list_activities None status limit offset (as_storage st)))))"

definition list_incident_alerts_handler :: "usize option \<Rightarrow> usize option \<Rightarrow> app_state \<Rightarrow> api_result" where
  "list_incident_alerts_handler l off st =
     (let limit = page_limit l; offset = page_offset off
      in api_ok (BodyAlerts None (page_of limit offset (list_alerts None limit offset (as_storage st)))))"


section \<open>Replay jobs\<close>

definition on_engine ::
  "replay_engine \<Rightarrow> (replay_engine \<Rightarrow> 'r \<times> replay_engine) \<Rightarrow> app_state \<Rightarrow> 'r \<times> app_state" where
  "on_engine e op st =
     (case op (e\<lparr>re_storage := as_storage st\<rparr>) of
        (r, e1) \<Rightarrow> (r, st\<lparr>as_storage := re_storage e1, as_replay_engine := Some e1\<rparr>))"

definition spawn_task :: "spawned_task \<Rightarrow> app_state \<Rightarrow> app_state" where
  "spawn_task t st = st\<lparr>as_spawned := as_spawned st @ [t]\<rparr>"

definition replay_disabled :: api_result where
  "replay_disabled = api_error 403 ''Historical replay API is disabled on this node''"

definition replay_not_configured :: api_result where
  "replay_not_configured = api_error 503 ''Historical replay engine is not configured''"

definition create_replay_job_handler :: "api_env \<Rightarrow> u64 \<Rightarrow> u64 \<Rightarrow> app_state \<Rightarrow> api_result \<times> app_state" where
  "create_replay_job_handler env start_height end_height st =
     (if \<not> as_replay_api_enabled st then
        (api_error 403 ''Historical replay API is disabled on this node (set OBSCHAIN_REPLAY_API_ENABLED=true to enable)'', st)
      else case as_replay_engine st of
        None \<Rightarrow> (api_error 503 ''Historical replay engine is not configured (Bitcoin Core RPC required)'', st)
      | Some e \<Rightarrow>
          if start_height > end_height then
            (api_error 400 (''Invalid range: start_height ('' @ show_u start_height @ '') must be <= end_height (''
               @ show_u end_height @ '')''), st)
          else
            let block_count = end_height - start_height + 1; max_range = rg_max_range (re_config e) in
            if block_count > max_range then
              (api_error 400 (''Requested replay range ('' @ show_u block_count
                 @ '' blocks) exceeds configured maximum allowed range ('' @ show_u max_range @ '' blocks)''), st)
            else
              case on_engine e (validate_capabilities_and_range (av_replay env) start_height end_height) st of
                (Inl err, st1) \<Rightarrow> (api_error 400 (rn_error_text (av_replay env) err), st1)
              | (Inr caps, st1) \<Rightarrow>
                  (case as_replay_engine st1 of
                     None \<Rightarrow> (replay_not_configured, st1)
                   | Some e1 \<Rightarrow>
                       (case on_engine e1 (create_replay_job (av_replay env) (av_runtime env) start_height end_height) st1 of
                          (Inl err, st2) \<Rightarrow>
                            (api_error 500 (''Failed to create replay job: '' @ rn_error_text (av_replay env) err), st2)
                        | (Inr job, st2) \<Rightarrow> (Inr (201, BodyJobCreated job), spawn_task (RunReplayJob (rj_id job)) st2))))"

definition list_replay_jobs_handler :: "usize option \<Rightarrow> usize option \<Rightarrow> app_state \<Rightarrow> api_result" where
  "list_replay_jobs_handler l off st =
     (let limit = page_limit l; offset = page_offset off
      in api_ok (BodyJobs (page_of limit offset (list_jobs limit offset (as_storage st)))))"

definition get_replay_job_handler :: "uuid \<Rightarrow> app_state \<Rightarrow> api_result" where
  "get_replay_job_handler i st =
     (case get_job i (as_storage st) of
        None \<Rightarrow> api_error 404 (''Replay job '' @ uuid_str i @ '' not found'')
      | Some job \<Rightarrow> api_ok (BodyJob job (get_latest_checkpoint i (as_storage st))))"

definition job_status :: "string \<Rightarrow> uuid \<Rightarrow> app_state \<Rightarrow> api_result" where
  "job_status text i st = api_ok (BodyJobStatus text (get_job i (as_storage st)))"

definition cancel_replay_job_handler :: "api_env \<Rightarrow> uuid \<Rightarrow> app_state \<Rightarrow> api_result \<times> app_state" where
  "cancel_replay_job_handler env i st =
     (if \<not> as_replay_api_enabled st then (replay_disabled, st)
      else case as_replay_engine st of
        None \<Rightarrow> (replay_not_configured, st)
      | Some e \<Rightarrow>
          (case on_engine e (cancel_replay (rt_now (av_runtime env)) i) st of
             (Inl err, st1) \<Rightarrow> (api_error 400 (rn_error_text (av_replay env) err), st1)
           | (Inr u, st1) \<Rightarrow> (job_status ''cancelled'' i st1, st1)))"

definition pause_replay_job_handler :: "uuid \<Rightarrow> app_state \<Rightarrow> api_result \<times> app_state" where
  "pause_replay_job_handler i st =
     (if \<not> as_replay_api_enabled st then (replay_disabled, st)
      else case as_replay_engine st of
        None \<Rightarrow> (replay_not_configured, st)
      | Some e \<Rightarrow> (case on_engine e (\<lambda>e. ((), pause_replay i e)) st of (u, st1) \<Rightarrow> (job_status ''paused'' i st1, st1)))"

definition resume_replay_job_handler :: "uuid \<Rightarrow> app_state \<Rightarrow> api_result \<times> app_state" where
  "resume_replay_job_handler i st =
     (if \<not> as_replay_api_enabled st then (replay_disabled, st)
      else case as_replay_engine st of
        None \<Rightarrow> (replay_not_configured, st)
      | Some e \<Rightarrow> (job_status ''resumed'' i st, spawn_task (ResumeReplayJob i) st))"

section \<open>Baselines and rarity\<close>

definition list_baselines_handler :: "string option \<Rightarrow> usize option \<Rightarrow> usize option \<Rightarrow> app_state \<Rightarrow> api_result" where
  "list_baselines_handler network l off st =
     (let limit = page_limit l; offset = page_offset off
      in api_ok (BodyBaselines (page_of limit offset (list_baseline_runs network limit offset (as_storage st)))))"

definition get_baseline_handler :: "uuid \<Rightarrow> app_state \<Rightarrow> api_result" where
  "get_baseline_handler i st =
     (case get_baseline_run i (as_storage st) of
        None \<Rightarrow> api_error 404 (''BaselineRun '' @ uuid_str i @ '' not found'')
      | Some run \<Rightarrow> api_ok (BodyBaseline run (get_baseline_distributions i (as_storage st))))"

record create_baseline_request =
  cb_start_height :: u64
  cb_end_height :: u64
  cb_network :: "string option"
  cb_event_types :: "event_type list option"
  cb_algorithm_version :: "string option"

definition create_baseline_handler ::
  "api_env \<Rightarrow> create_baseline_request \<Rightarrow> app_state \<Rightarrow> api_result \<times> app_state" where
  "create_baseline_handler env q st =
     (if \<not> as_baseline_api_enabled st then
        (api_error 403 ''Baseline generation API is disabled. Enable with OBSCHAIN_BASELINE_API_ENABLED=true'', st)
      else if cb_start_height q > cb_end_height q then
        (api_error 400 (''start_height ('' @ show_u (cb_start_height q) @ '') cannot exceed end_height (''
           @ show_u (cb_end_height q) @ '')''), st)
      else
        let now = rt_now (av_runtime env);
            run = create_run_record (av_runtime env) (case cb_network q of Some n \<Rightarrow> n | None \<Rightarrow> ''mainnet'')
                    (cb_start_height q) (cb_end_height q)
                    (case cb_algorithm_version q of Some v \<Rightarrow> v | None \<Rightarrow> as_baseline_default_algorithm_version st);
            s1 = create_baseline_run run (as_storage st);
            events = query_events_for_baseline None (cb_start_height q) (cb_end_height q) s1;
            n = of_nat (length events);
            ds = generate_distributions (av_distribution_ids env) now (br_id run) events (cb_event_types q);
            s2 = save_baseline_distributions ds s1;
            run' = run\<lparr>br_status := BCompleted, br_completed_at := Some now, br_canonical_event_count := n\<rparr>
        in case update_baseline_run_status (br_id run) BCompleted (Some now) n None s2 of
             Inl e \<Rightarrow> (map_storage_error e, st\<lparr>as_storage := s2\<rparr>)
           | Inr s3 \<Rightarrow> (Inr (201, BodyBaselineCreated run' (length ds) n), st\<lparr>as_storage := s3\<rparr>))"

definition query_distributions_handler ::
  "event_type option \<Rightarrow> baseline_metric option \<Rightarrow> usize option \<Rightarrow> app_state \<Rightarrow> api_result" where
  "query_distributions_handler ty m l st =
     api_ok (BodyDistributions (query_distributions ty m (page_limit l) (as_storage st)))"

definition rarity_run :: "uuid option \<Rightarrow> chain_event \<Rightarrow> app_state \<Rightarrow> api_result + baseline_run" where
  "rarity_run baseline ev st =
     (case baseline of
        Some b \<Rightarrow>
          (case get_baseline_run b (as_storage st) of
             Some r \<Rightarrow> Inr r
           | None \<Rightarrow> Inl (api_error 404 (''Specified baseline '' @ uuid_str b @ '' not found'')))
      | None \<Rightarrow>
          (case latest_run_for ev st of
             Some r \<Rightarrow> Inr r
           | None \<Rightarrow> Inl (api_error 404 ''No compatible completed baseline found for event'')))"

definition rarity_quality :: "chain_event \<Rightarrow> event_rarity_context \<Rightarrow> baseline_distribution list \<Rightarrow> string" where
  "rarity_quality ev ctx dists =
     (case find (\<lambda>d. bd_event_type d = ev_type ev \<and> bd_metric d = er_metric (rc_primary ctx)) dists of
        Some d \<Rightarrow> baseline_quality_str (bd_quality d) | None \<Rightarrow> ''INSUFFICIENT'')"

definition network_mismatch_text :: "chain_event \<Rightarrow> baseline_run \<Rightarrow> string" where
  "network_mismatch_text ev run =
     ''Network mismatch: event is on '' @ [CHR 0x27] @ (case event_network ev of Some n \<Rightarrow> n | None \<Rightarrow> [])
     @ [CHR 0x27] @ '' while baseline is on '' @ [CHR 0x27] @ br_network run @ [CHR 0x27]"

definition get_event_rarity_handler ::
  "api_env \<Rightarrow> uuid \<Rightarrow> uuid option \<Rightarrow> app_state \<Rightarrow> api_result \<times> app_state" where
  "get_event_rarity_handler env i baseline st =
     (case get_event_by_id i (as_storage st) of
        None \<Rightarrow> (event_missing i, st)
      | Some ev \<Rightarrow>
          (case rarity_run baseline ev st of
             Inl err \<Rightarrow> (err, st)
           | Inr run \<Rightarrow>
               if network_conflict ev run then (api_error 400 (network_mismatch_text ev run), st)
               else
                 let dists = get_baseline_distributions (br_id run) (as_storage st) in
                 case collect_ranks (av_rank_ids env) (rt_now (av_runtime env)) ev run (as_storage st) of (ranks, s1) \<Rightarrow>
                   let ctx = evaluate_event_rarity_with_exact_ranks ev run dists ranks (as_baseline_min_sample_size st)
                   in (api_ok (BodyRarity \<lparr>ry_event = ev, ry_run = run, ry_quality = rarity_quality ev ctx dists,
                         ry_context = ctx\<rparr>), st\<lparr>as_storage := save_context ctx s1\<rparr>)))"

section \<open>The router\<close>

datatype api_request =
    GetHealth
  | GetStatus
  | GetEvents event_filter
  | GetEvent uuid
  | GetEventObservations uuid
  | GetIncidents "usize option" "usize option"
  | GetIncident string
  | GetIncidentTimeline string
  | GetIncidentEvidence string
  | GetIncidentGraph string
  | GetIncidentActivity string "activity_status option" "usize option" "usize option"
  | GetIncidentWatchTargets string
  | GetIncidentAlerts string "usize option" "usize option"
  | GetActivity "activity_status option" "usize option" "usize option"
  | GetAlerts "usize option" "usize option"
  | GetReplayJobs "usize option" "usize option"
  | PostReplayJob u64 u64
  | GetReplayJob uuid
  | PostCancelReplay uuid
  | PostPauseReplay uuid
  | PostResumeReplay uuid
  | GetBaselines "string option" "usize option" "usize option"
  | PostBaseline create_baseline_request
  | GetBaseline uuid
  | GetDistributions "event_type option" "baseline_metric option" "usize option"
  | GetEventRarity uuid "uuid option"

fun serve :: "api_env \<Rightarrow> api_request \<Rightarrow> app_state \<Rightarrow> api_result \<times> app_state" where
  "serve env GetHealth st = (health_handler st, st)"
| "serve env GetStatus st = (status_handler env st, st)"
| "serve env (GetEvents q) st = (list_events_handler q st, st)"
| "serve env (GetEvent i) st = get_event_handler env i st"
| "serve env (GetEventObservations i) st = (get_event_observations_handler i st, st)"
| "serve env (GetIncidents l off) st = (list_incidents_handler l off st, st)"
| "serve env (GetIncident ident) st = (get_incident_handler env ident st, st)"
| "serve env (GetIncidentTimeline ident) st = (get_incident_timeline_handler env ident st, st)"
| "serve env (GetIncidentEvidence ident) st = (get_incident_evidence_handler env ident st, st)"
| "serve env (GetIncidentGraph ident) st = (get_incident_graph_handler env ident st, st)"
| "serve env (GetIncidentActivity ident status l off) st = (get_incident_activity_handler env ident status l off st, st)"
| "serve env (GetIncidentWatchTargets ident) st = (get_incident_watch_targets_handler env ident st, st)"
| "serve env (GetIncidentAlerts ident l off) st = (get_incident_alerts_handler env ident l off st, st)"
| "serve env (GetActivity status l off) st = (list_incident_activity_handler status l off st, st)"
| "serve env (GetAlerts l off) st = (list_incident_alerts_handler l off st, st)"
| "serve env (GetReplayJobs l off) st = (list_replay_jobs_handler l off st, st)"
| "serve env (PostReplayJob a b) st = create_replay_job_handler env a b st"
| "serve env (GetReplayJob i) st = (get_replay_job_handler i st, st)"
| "serve env (PostCancelReplay i) st = cancel_replay_job_handler env i st"
| "serve env (PostPauseReplay i) st = pause_replay_job_handler i st"
| "serve env (PostResumeReplay i) st = resume_replay_job_handler i st"
| "serve env (GetBaselines n l off) st = (list_baselines_handler n l off st, st)"
| "serve env (PostBaseline q) st = create_baseline_handler env q st"
| "serve env (GetBaseline i) st = (get_baseline_handler i st, st)"
| "serve env (GetDistributions ty m l) st = (query_distributions_handler ty m l st, st)"
| "serve env (GetEventRarity i b) st = get_event_rarity_handler env i b st"

definition serve_all :: "(api_env \<times> api_request) list \<Rightarrow> app_state \<Rightarrow> app_state" where
  "serve_all = fold (\<lambda>(env, req) st. snd (serve env req st))"


section \<open>A disabled interface is read-only\<close>

text \<open>Everything but the metrics that a ranking extracts and the rarities it caches.\<close>

definition durable :: "in_memory_storage \<Rightarrow> in_memory_storage" where
  "durable s = s\<lparr>st_event_rarity := [], st_event_metrics := []\<rparr>"

lemma durable_collect_ranks: "durable (snd (collect_ranks v4 now ev run s)) = durable s"
proof -
  have g: "durable (snd (get_exact_empirical_rank v now' net ty m ver a b x d t)) = durable t" for v now' net ty m ver a b x d t
    by (rule exact_rank_frame) (simp add: durable_def save_event_metrics_def)
  have step: "durable (snd (rank_step v4 now ev run nd st)) = durable (snd st)" for nd st
  proof -
    obtain i d ranks t where ids: "nd = (i, d)" "st = (ranks, t)" by (metis surj_pair)
    show ?thesis
    proof (cases "extract_metric ev (md_metric d)")
      case (Some x)
      show ?thesis
        using Some g [of "v4 i" now "br_network run" "ev_type ev" "md_metric d" "metric_str (md_metric d) @ ''-v1''"
            "br_start_height run" "br_end_height run" x "md_direction d" t]
        by (auto simp: rank_step_def ids split: prod.split option.split)
    qed (simp add: rank_step_def ids)
  qed
  have "durable (snd (fold (rank_step v4 now ev run) nds st)) = durable (snd st)" for nds st
    by (induction nds arbitrary: st) (simp_all add: step)
  then show ?thesis by (simp add: collect_ranks_def)
qed

lemma durable_save_context: "durable (save_context ctx s) = durable s"
proof -
  have "durable (fold (\<lambda>r. save_event_rarity r i) rs t) = durable t" for rs i t
    by (induction rs arbitrary: t) (simp_all add: durable_def save_event_rarity_def)
  then show ?thesis by (simp only: save_context_def)
qed

definition quiet :: "app_state \<Rightarrow> app_state \<Rightarrow> bool" where
  "quiet st st' \<longleftrightarrow> (\<exists>s. st' = st\<lparr>as_storage := s\<rparr> \<and> durable s = durable (as_storage st))"

lemma quiet_refl: "quiet st st"
  unfolding quiet_def by (rule exI [of _ "as_storage st"]) simp

lemma quiet_get_event: "quiet st (snd (get_event_handler env i st))"
proof (cases "get_event_by_id i (as_storage st)")
  case (Some ev)
  show ?thesis
  proof (cases "latest_run_for ev st")
    case None
    then show ?thesis using Some by (simp add: get_event_handler_def quiet_refl)
  next
    case (Some run)
    let ?s = "snd (collect_ranks (av_rank_ids env) (rt_now (av_runtime env)) ev run (as_storage st))"
    have "quiet st (st\<lparr>as_storage := ?s\<rparr>)" by (auto simp: quiet_def durable_collect_ranks)
    then show ?thesis
      using Some \<open>get_event_by_id i (as_storage st) = Some ev\<close>
      by (auto simp: get_event_handler_def Let_def quiet_refl split: prod.split)
  qed
qed (simp add: get_event_handler_def quiet_refl)

lemma quiet_rarity: "quiet st (snd (get_event_rarity_handler env i b st))"
proof (cases "get_event_by_id i (as_storage st)")
  case ev: (Some ev)
  show ?thesis
  proof (cases "rarity_run b ev st")
    case (Inl err)
    then show ?thesis using ev by (simp add: get_event_rarity_handler_def quiet_refl)
  next
    case (Inr run)
    let ?s = "snd (collect_ranks (av_rank_ids env) (rt_now (av_runtime env)) ev run (as_storage st))"
    have "quiet st (st\<lparr>as_storage := save_context ctx ?s\<rparr>)" for ctx
      by (auto simp: quiet_def durable_collect_ranks durable_save_context)
    then show ?thesis
      using ev Inr by (auto simp: get_event_rarity_handler_def Let_def quiet_refl split: prod.split)
  qed
qed (simp add: get_event_rarity_handler_def quiet_refl)

fun is_post :: "api_request \<Rightarrow> bool" where
  "is_post (PostReplayJob a b) = True"
| "is_post (PostCancelReplay i) = True"
| "is_post (PostPauseReplay i) = True"
| "is_post (PostResumeReplay i) = True"
| "is_post (PostBaseline q) = True"
| "is_post r = False"

lemma get_is_quiet: "\<not> is_post req \<Longrightarrow> quiet st (snd (serve env req st))"
  by (cases req) (simp_all add: quiet_refl quiet_get_event quiet_rarity)

lemma disabled_post_refused:
  assumes "is_post req" "\<not> as_replay_api_enabled st" "\<not> as_baseline_api_enabled st"
  shows "snd (serve env req st) = st" and "\<exists>e. fst (serve env req st) = Inl (403, e)"
  using assms
  by (cases req; simp add: create_replay_job_handler_def cancel_replay_job_handler_def pause_replay_job_handler_def
      resume_replay_job_handler_def create_baseline_handler_def replay_disabled_def api_error_def)+

text \<open>
  C20. A client cannot change a node whose replay and baseline interfaces are off: over any requests the
  events, observations, dossiers, targets, activities, alerts, jobs, checkpoints, runs and
  distributions stay as they are, no task is started, and every POST request is refused with 403;
  only the metrics and rarities that ranking an event computes are cached.
\<close>

theorem disabled_api_is_read_only:
  assumes "\<not> as_replay_api_enabled st" "\<not> as_baseline_api_enabled st"
  shows "durable (as_storage (serve_all reqs st)) = durable (as_storage st)
    \<and> as_spawned (serve_all reqs st) = as_spawned st
    \<and> (if is_post req then \<exists>e. fst (serve env req (serve_all reqs st)) = Inl (403, e) else True)"
proof -
  have step: "quiet st (snd (serve env req st))"
    if "\<not> as_replay_api_enabled st" "\<not> as_baseline_api_enabled st" for env req st
    using that disabled_post_refused(1) [of req st env] get_is_quiet [of req st env] quiet_refl by metis
  have "quiet st (serve_all reqs st)" if "\<not> as_replay_api_enabled st" "\<not> as_baseline_api_enabled st" for st
    using that
  proof (induction reqs arbitrary: st)
    case (Cons x reqs)
    obtain env req where x: "x = (env, req)" by fastforce
    from step [OF Cons.prems, of env req] obtain s where
      s: "snd (serve env req st) = st\<lparr>as_storage := s\<rparr>" "durable s = durable (as_storage st)"
      by (auto simp: quiet_def)
    have "quiet (st\<lparr>as_storage := s\<rparr>) (serve_all reqs (st\<lparr>as_storage := s\<rparr>))"
      using Cons.prems by (intro Cons.IH) simp_all
    then show ?case using s by (auto simp: quiet_def serve_all_def x)
  qed (simp add: serve_all_def quiet_refl)
  then obtain s where "serve_all reqs st = st\<lparr>as_storage := s\<rparr>" "durable s = durable (as_storage st)"
    using assms by (auto simp: quiet_def)
  then show ?thesis using disabled_post_refused(2) [of req "st\<lparr>as_storage := s\<rparr>" env] assms by simp
qed

section \<open>Bounded responses\<close>

fun page_sizes :: "api_body \<Rightarrow> (nat \<times> usize) option" where
  "page_sizes (BodyEvents p m) = Some (length (pr_items p), pr_limit p)"
| "page_sizes (BodyIncidents p m) = Some (length (pr_items p), pr_limit p)"
| "page_sizes (BodyActivity i p) = Some (length (pr_items p), pr_limit p)"
| "page_sizes (BodyAlerts i p) = Some (length (pr_items p), pr_limit p)"
| "page_sizes (BodyJobs p) = Some (length (pr_items p), pr_limit p)"
| "page_sizes (BodyBaselines p) = Some (length (pr_items p), pr_limit p)"
| "page_sizes (BodyTargets i c ts) = Some (length ts, 100)"
| "page_sizes (BodyDistributions ds) = Some (length ds, 100)"
| "page_sizes b = None"

definition bounded_result :: "api_result \<Rightarrow> bool" where
  "bounded_result r =
     (case r of
        Inl (status, e) \<Rightarrow> ae_code e = status \<and> status \<in> {400, 403, 404, 500, 503}
      | Inr (status, body) \<Rightarrow>
          status \<in> {200, 201} \<and> (case page_sizes body of Some (n, l) \<Rightarrow> n \<le> l \<and> l \<le> 100 | None \<Rightarrow> True))"

lemma bounded_error: "bounded_result (api_error c msg) \<longleftrightarrow> c \<in> {400, 403, 404, 500, 503}"
  by (simp add: bounded_result_def api_error_def)

lemma bounded_ok: "bounded_result (api_ok b) \<longleftrightarrow> (case page_sizes b of Some (n, l) \<Rightarrow> n \<le> l \<and> l \<le> 100 | None \<Rightarrow> True)"
  by (simp add: bounded_result_def api_ok_def)

lemma page_limit_range: "1 \<le> page_limit l" "page_limit l \<le> 100"
  by (simp_all add: page_limit_def)

lemma storage_pages:
  "length (list_incidents l off s) \<le> l" "length (list_activities i status l off s) \<le> l"
  "length (list_alerts i l off s) \<le> l" "length (list_jobs l off s) \<le> l"
  "length (list_baseline_runs n l off s) \<le> l" "length (list_watch_targets i l off s) \<le> l"
  "length (query_distributions ty m l s) \<le> l"
  by (simp_all add: list_incidents_def list_activities_def list_alerts_def list_jobs_def list_baseline_runs_def
      list_watch_targets_def query_distributions_def page_def)

lemma query_events_page:
  "length (query_events (q\<lparr>ef_limit := Some (page_limit l), ef_offset := Some off\<rparr>) s) \<le> page_limit l"
  using page_limit_range [of l] by (simp add: query_events_def Let_def page_def)

lemmas bounded_simps = bounded_error bounded_ok page_limit_range storage_pages query_events_page page_of_def
  event_missing_def incident_missing_def replay_disabled_def replay_not_configured_def

lemma bounded_with_incident:
  "(\<And>i. bounded_result (api_ok (body i))) \<Longrightarrow> bounded_result (with_incident env ident st body)"
  by (simp add: with_incident_def incident_missing_def bounded_error split: option.split)

lemma bounded_reads:
  "bounded_result (list_events_handler q st)" "bounded_result (list_incidents_handler l off st)"
  "bounded_result (list_incident_activity_handler status l off st)"
  "bounded_result (list_incident_alerts_handler l off st)" "bounded_result (list_replay_jobs_handler l off st)"
  "bounded_result (list_baselines_handler n l off st)" "bounded_result (health_handler st)"
  "bounded_result (status_handler env st)" "bounded_result (get_event_observations_handler i st)"
  "bounded_result (get_replay_job_handler i st)" "bounded_result (get_baseline_handler i st)"
  "bounded_result (job_status t i st)"
  by (simp_all add: bounded_simps list_events_handler_def list_incidents_handler_def
      list_incident_activity_handler_def list_incident_alerts_handler_def list_replay_jobs_handler_def
      list_baselines_handler_def health_handler_def status_handler_def get_event_observations_handler_def
      get_replay_job_handler_def get_baseline_handler_def job_status_def Let_def split: option.split prod.split)

lemma bounded_incident_reads:
  "bounded_result (get_incident_handler env ident st)" "bounded_result (get_incident_timeline_handler env ident st)"
  "bounded_result (get_incident_evidence_handler env ident st)" "bounded_result (get_incident_graph_handler env ident st)"
  "bounded_result (get_incident_activity_handler env ident status l off st)"
  "bounded_result (get_incident_watch_targets_handler env ident st)"
  "bounded_result (get_incident_alerts_handler env ident l off st)"
  unfolding get_incident_handler_def get_incident_timeline_handler_def get_incident_evidence_handler_def
    get_incident_graph_handler_def get_incident_activity_handler_def get_incident_watch_targets_handler_def
    get_incident_alerts_handler_def
  by (rule bounded_with_incident; simp add: bounded_simps Let_def)+

lemma bounded_distributions: "bounded_result (query_distributions_handler ty m l st)"
  using storage_pages(7) [of ty m "page_limit l" "as_storage st"] page_limit_range [of l]
  by (simp add: query_distributions_handler_def bounded_ok)

lemma bounded_rankings:
  "bounded_result (fst (get_event_handler env i st))" "bounded_result (fst (get_event_rarity_handler env i b st))"
  by (simp_all add: get_event_handler_def get_event_rarity_handler_def rarity_run_def bounded_simps Let_def
      split: option.split prod.split)

lemma bounded_replay_posts:
  "bounded_result (fst (create_replay_job_handler env a b st))"
  "bounded_result (fst (cancel_replay_job_handler env i st))" "bounded_result (fst (pause_replay_job_handler i st))"
  "bounded_result (fst (resume_replay_job_handler i st))"
  by (simp_all add: create_replay_job_handler_def cancel_replay_job_handler_def pause_replay_job_handler_def
      resume_replay_job_handler_def bounded_simps bounded_reads Let_def split: option.split prod.split sum.split)
     (simp_all add: bounded_result_def)

lemma bounded_create_baseline: "bounded_result (fst (create_baseline_handler env q st))"
proof -
  have "bounded_result (map_storage_error e)" for e
    by (cases e) (simp_all add: map_storage_error_def bounded_error)
  moreover have "bounded_result (Inr (201, BodyBaselineCreated r k n))" for r k n
    by (simp add: bounded_result_def)
  ultimately show ?thesis
    by (simp add: create_baseline_handler_def bounded_error Let_def split: sum.split)
qed



definition sample_api_state :: app_state where
  "sample_api_state =
     with_metrics_and_watch_engine (empty_storage 10 10) [] False pipeline_metrics_default (with_follow_depth 3) 0"

definition sample_api_env :: api_env where
  "sample_api_env =
     \<lparr>av_runtime = sample_runtime, av_replay = synced_env, av_parse_uuid = (\<lambda>t. None),
      av_rank_ids = (\<lambda>i j k. 0), av_distribution_ids = (\<lambda>i. 0)\<rparr>"

theorem disabled_api_is_read_only_witness:
  "durable (as_storage (serve_all [(sample_api_env, PostReplayJob 1 2), (sample_api_env, PostCancelReplay 7)]
       sample_api_state)) = durable (empty_storage 10 10)
   \<and> (\<exists>e. fst (serve sample_api_env (PostReplayJob 1 2) (serve_all [] sample_api_state)) = Inl (403, e))"
proof -
  have off: "\<not> as_replay_api_enabled sample_api_state" "\<not> as_baseline_api_enabled sample_api_state"
    and s: "as_storage sample_api_state = empty_storage 10 10"
    by (simp_all add: sample_api_state_def with_metrics_and_watch_engine_def)
  show ?thesis
    using disabled_api_is_read_only [OF off, of "[(sample_api_env, PostReplayJob 1 2), (sample_api_env, PostCancelReplay 7)]"
        "PostReplayJob 1 2" sample_api_env]
      disabled_api_is_read_only [OF off, of "[]" "PostReplayJob 1 2" sample_api_env] s
    by simp
qed

section \<open>Created jobs\<close>

lemma validation_keeps_storage:
  "re_storage (snd (validate_capabilities_and_range env a b e)) = re_storage e"
  by (simp add: validate_capabilities_and_range_def with_client_def split: option.split prod.split sum.split)

lemma create_job_cases:
  "(\<exists>job. create_replay_job env rt a b e = (Inr job, snd (create_replay_job env rt a b e))
      \<and> rj_start_height job = a \<and> rj_end_height job = b
      \<and> re_storage (snd (create_replay_job env rt a b e)) = create_job job (re_storage e))
   \<or> (\<exists>err. create_replay_job env rt a b e = (Inl err, snd (create_replay_job env rt a b e))
      \<and> re_storage (snd (create_replay_job env rt a b e)) = re_storage e)"
proof -
  obtain r e1 where v: "validate_capabilities_and_range env a b e = (r, e1)" by fastforce
  then have "re_storage e1 = re_storage e" using validation_keeps_storage [of env a b e] by simp
  then show ?thesis
    by (cases r) (simp_all add: create_replay_job_def v Let_def replay_job_new_def)
qed

text \<open>
  C21. A replay job is created completely or not at all: either the answer is 201, the range is in order and
  within the engine's maximum, the job with that range is stored and exactly one task was started for
  it, or the answer is an error, the storage is unchanged and no task was started.
\<close>

theorem created_job_is_stored_and_started:
  "(\<exists>job e. fst (create_replay_job_handler env a b st) = Inr (201, BodyJobCreated job)
      \<and> as_replay_api_enabled st \<and> as_replay_engine st = Some e
      \<and> a \<le> b \<and> b - a + 1 \<le> rg_max_range (re_config e)
      \<and> rj_start_height job = a \<and> rj_end_height job = b
      \<and> get_job (rj_id job) (as_storage (snd (create_replay_job_handler env a b st))) = Some job
      \<and> as_spawned (snd (create_replay_job_handler env a b st)) = as_spawned st @ [RunReplayJob (rj_id job)])
   \<or> (\<exists>c err. fst (create_replay_job_handler env a b st) = Inl (c, err)
      \<and> as_storage (snd (create_replay_job_handler env a b st)) = as_storage st
      \<and> as_spawned (snd (create_replay_job_handler env a b st)) = as_spawned st)"
proof (cases "\<exists>e. as_replay_api_enabled st \<and> as_replay_engine st = Some e \<and> a \<le> b
    \<and> b - a + 1 \<le> rg_max_range (re_config e)")
  case False
  then show ?thesis
    by (auto simp: create_replay_job_handler_def api_error_def Let_def not_less split: option.split)
next
  case True
  then obtain e where e: "as_replay_api_enabled st" "as_replay_engine st = Some e" "a \<le> b"
    "b - a + 1 \<le> rg_max_range (re_config e)" by blast
  then have guards: "\<not> a > b" "\<not> b - a + 1 > rg_max_range (re_config e)" by (simp_all add: not_less)
  let ?e = "e\<lparr>re_storage := as_storage st\<rparr>"
  obtain r e1 where v: "validate_capabilities_and_range (av_replay env) a b ?e = (r, e1)" by fastforce
  have s1: "re_storage e1 = as_storage st"
    using validation_keeps_storage [of "av_replay env" a b ?e] v by simp
  show ?thesis
  proof (cases r)
    case (Inl err)
    then show ?thesis
      using e v s1 guards by (simp add: create_replay_job_handler_def Let_def on_engine_def api_error_def)
  next
    case (Inr caps)
    let ?c = "create_replay_job (av_replay env) (av_runtime env) a b (e1\<lparr>re_storage := as_storage st\<rparr>)"
    have stored: "get_job (rj_id job) (create_job job s) = Some job" for job s
      using find_upsert [of rj_id "rj_id job" job "st_replay_jobs s"] by (simp add: get_job_def create_job_def)
    show ?thesis
      using create_job_cases [of "av_replay env" "av_runtime env" a b "e1\<lparr>re_storage := as_storage st\<rparr>"]
    proof (elim disjE exE conjE)
      fix job assume "?c = (Inr job, snd ?c)" "rj_start_height job = a" "rj_end_height job = b"
        "re_storage (snd ?c) = create_job job (re_storage (e1\<lparr>re_storage := as_storage st\<rparr>))"
      then show ?thesis
        using e v s1 Inr stored guards
        by (cases ?c) (simp add: create_replay_job_handler_def Let_def on_engine_def spawn_task_def)
    next
      fix err assume "?c = (Inl err, snd ?c)"
        "re_storage (snd ?c) = re_storage (e1\<lparr>re_storage := as_storage st\<rparr>)"
      then show ?thesis
        using e v s1 Inr guards
        by (cases ?c) (simp add: create_replay_job_handler_def Let_def on_engine_def api_error_def)
    qed
  qed
qed

section \<open>WebSocket clients\<close>

text \<open>
  What a client's loop waits for: a message of the client or a broadcast. The flag of a ping and of a
  broadcast says whether sending the answer succeeds; \<open>serialise\<close> is the JSON printer.
\<close>

datatype ws_message = WsText string | WsPong string

datatype client_event =
    ClientClosed
  | ClientPing string bool
  | ClientOther
  | ClientError
  | BroadcastMessage web_socket_broadcast bool
  | BroadcastLagged nat
  | BroadcastClosed

record ws_client =
  wc_open :: bool
  wc_sent :: "ws_message list"

definition client_send :: "ws_message \<Rightarrow> bool \<Rightarrow> ws_client \<Rightarrow> ws_client" where
  "client_send m sent c = (if sent then c\<lparr>wc_sent := wc_sent c @ [m]\<rparr> else c\<lparr>wc_open := False\<rparr>)"

definition handle_client_socket ::
  "(web_socket_broadcast \<Rightarrow> string option) \<Rightarrow> client_event \<Rightarrow> ws_client \<Rightarrow> ws_client" where
  "handle_client_socket serialise ev c =
     (if \<not> wc_open c then c
      else case ev of
        ClientClosed \<Rightarrow> c\<lparr>wc_open := False\<rparr>
      | ClientPing payload sent \<Rightarrow> client_send (WsPong payload) sent c
      | ClientOther \<Rightarrow> c
      | ClientError \<Rightarrow> c\<lparr>wc_open := False\<rparr>
      | BroadcastMessage msg sent \<Rightarrow>
          (case serialise msg of Some j \<Rightarrow> client_send (WsText j) sent c | None \<Rightarrow> c)
      | BroadcastLagged skipped \<Rightarrow> c
      | BroadcastClosed \<Rightarrow> c\<lparr>wc_open := False\<rparr>)"

text \<open>The events that end the loop, and what the others make it send.\<close>

fun ends_client :: "(web_socket_broadcast \<Rightarrow> string option) \<Rightarrow> client_event \<Rightarrow> bool" where
  "ends_client ser ClientClosed = True"
| "ends_client ser (ClientPing p sent) = (\<not> sent)"
| "ends_client ser ClientOther = False"
| "ends_client ser ClientError = True"
| "ends_client ser (BroadcastMessage m sent) = (ser m \<noteq> None \<and> \<not> sent)"
| "ends_client ser (BroadcastLagged n) = False"
| "ends_client ser BroadcastClosed = True"

fun client_reply :: "(web_socket_broadcast \<Rightarrow> string option) \<Rightarrow> client_event \<Rightarrow> ws_message list" where
  "client_reply ser (ClientPing p sent) = [WsPong p]"
| "client_reply ser (BroadcastMessage m sent) = (case ser m of Some j \<Rightarrow> [WsText j] | None \<Rightarrow> [])"
| "client_reply ser ev = []"

lemma client_step_open:
  "wc_open c \<Longrightarrow> \<not> ends_client ser ev
     \<Longrightarrow> handle_client_socket ser ev c = c\<lparr>wc_sent := wc_sent c @ client_reply ser ev\<rparr>"
  by (cases ev) (auto simp: handle_client_socket_def client_send_def split: option.split)

lemma client_step_end:
  "wc_open c \<Longrightarrow> ends_client ser ev \<Longrightarrow> handle_client_socket ser ev c = c\<lparr>wc_open := False\<rparr>"
  by (cases ev) (auto simp: handle_client_socket_def client_send_def split: option.split)

lemma client_closed: "\<not> wc_open c \<Longrightarrow> fold (handle_client_socket ser) evs c = c"
  by (induction evs) (simp_all add: handle_client_socket_def)

text \<open>
  C23. A WebSocket client is served in order and survives lagging: up to the first event that ends its
  connection it gets exactly the answers to its pings and the broadcasts that serialise, in the order
  they came, a lag or a message that cannot be printed is skipped, and nothing is sent afterwards.
\<close>

theorem client_served_in_order:
  "fold (handle_client_socket ser) evs \<lparr>wc_open = True, wc_sent = sent\<rparr> =
     \<lparr>wc_open = (takeWhile (Not \<circ> ends_client ser) evs = evs),
      wc_sent = sent @ concat (map (client_reply ser) (takeWhile (Not \<circ> ends_client ser) evs))\<rparr>"
proof (induction evs arbitrary: sent)
  case (Cons ev evs)
  show ?case
  proof (cases "ends_client ser ev")
    case True
    then show ?thesis using client_step_end [of "\<lparr>wc_open = True, wc_sent = sent\<rparr>" ser ev]
      by (simp add: client_closed)
  next
    case False
    then show ?thesis using client_step_open [of "\<lparr>wc_open = True, wc_sent = sent\<rparr>" ser ev] Cons.IH
      by simp
  qed
qed simp

subsection \<open>The forwarder\<close>

text \<open>
  The task that turns events into broadcasts ends at the first error, and a lag is an error: what is
  published after one lag never reaches a client.
\<close>

datatype forward_event = ForwardEvent chain_event | ForwardLagged nat | ForwardClosed

fun forward_events :: "forward_event list \<Rightarrow> web_socket_broadcast list" where
  "forward_events [] = []"
| "forward_events (ForwardEvent e # evs) = ws_chain_event e # forward_events evs"
| "forward_events (ev # evs) = []"

lemma forwarder_stops_after_lag:
  "forward_events (map ForwardEvent es @ ForwardLagged n # evs) = map ws_chain_event es"
  by (induction es) simp_all

end
