(* ===== verification/Dossier.thy ===== *)
theory Dossier
  imports Storage "HOL-Library.Product_Lexorder"
begin

text \<open>
  The canonical dossier of the 2026 Liquid incident and its watch targets (\<open>seed.rs\<close>). The calls on
  the builder are the list \<open>liquid_calls\<close>, in the order of the source; the dossier is what building
  them returns, with the error on which \<open>expect\<close> would panic as \<open>Inl\<close>. The calendar of \<open>chrono\<close>
  is the parameter \<open>utc\<close>, from a date and time to an instant, assumed only to keep the order of
  valid calendar times; fresh identifiers come from the supply \<open>v4\<close>.

  The lemmas show what a run of builder calls leaves in each validated part of a dossier, that the
  shipped calls always pass validation, and what storage holds once it has been seeded.
\<close>

section \<open>Constants and calendar\<close>

type_synonym utc_time = "nat \<times> nat \<times> nat \<times> nat \<times> nat \<times> nat"

definition LIQUID_INCIDENT_UUID :: uuid where
  "LIQUID_INCIDENT_UUID = 0x0c202600000100000000000000000001"

definition LIQUID_CASE_ID :: string where
  "LIQUID_CASE_ID = ''OC-2026-0001''"

definition observed_at :: "(utc_time \<Rightarrow> datetime) \<Rightarrow> datetime" where
  "observed_at utc = utc (2026, 9, 6, 13, 53, 0)"

definition updated_at :: "(utc_time \<Rightarrow> datetime) \<Rightarrow> datetime" where
  "updated_at utc = utc (2026, 9, 23, 0, 0, 0)"

definition liquid_recovery :: "(utc_time \<Rightarrow> datetime) \<Rightarrow> recovery_summary" where
  "liquid_recovery utc =
     recovery_with_estimate False
       (recovery_with_source ''Blockstream Official Assessment (23 September 2026)''
         (recovery_summary_new 399602000000 340000000000 (updated_at utc)))"

text \<open>The days up to 28 exist in every month.\<close>

fun calendar_time :: "utc_time \<Rightarrow> bool" where
  "calendar_time (y, mo, d, h, mi, s) \<longleftrightarrow>
     1 \<le> mo \<and> mo \<le> 12 \<and> 1 \<le> d \<and> d \<le> 28 \<and> h < 24 \<and> mi < 60 \<and> s < 60"

definition utc_ordered :: "(utc_time \<Rightarrow> datetime) \<Rightarrow> bool" where
  "utc_ordered utc \<longleftrightarrow>
     (\<forall>a b. calendar_time a \<longrightarrow> calendar_time b \<longrightarrow> a \<le> b \<longrightarrow> utc a \<le> utc b)"

section \<open>The shipped dossier\<close>

definition src_report_id :: "uuid" where
  "src_report_id =
     0x0c202600000100010000000000000001"

definition liquid_src_report :: "(utc_time \<Rightarrow> datetime) \<Rightarrow> source" where
  "liquid_src_report utc =
     \<lparr>src_id = src_report_id, src_publisher = ''Blockstream'',
     src_title = ''Liquid Network Security Incident Assessment'',
     src_url = Some ''https://blockstream.com/liquid-network-security-incident-assessment/'',
     src_publication_timestamp = Some (updated_at utc), src_retrieved_timestamp = Some (updated_at utc),
     src_category = OfficialTechnicalReport, src_reliability_score = (f64_lit (15938355 / 16777216)),
     src_name = Some ''Blockstream Technical Assessment''\<rparr>"

definition src_btc_chain_id :: "uuid" where
  "src_btc_chain_id =
     0x0c202600000100010000000000000002"

definition liquid_src_btc_chain :: "(utc_time \<Rightarrow> datetime) \<Rightarrow> source" where
  "liquid_src_btc_chain utc =
     \<lparr>src_id = src_btc_chain_id, src_publisher = ''Bitcoin Mainnet'',
     src_title = ''Bitcoin Blockchain (Mempool & Consensus)'', src_url = Some ''https://mempool.space'',
     src_publication_timestamp = Some (observed_at utc), src_retrieved_timestamp = Some (observed_at utc),
     src_category = BitcoinBlockchain, src_reliability_score = (f64_lit 1),
     src_name = Some ''Bitcoin Mainnet Ledger''\<rparr>"

definition src_liquid_chain_id :: "uuid" where
  "src_liquid_chain_id =
     0x0c202600000100010000000000000003"

definition liquid_src_liquid_chain :: "(utc_time \<Rightarrow> datetime) \<Rightarrow> source" where
  "liquid_src_liquid_chain utc =
     \<lparr>src_id = src_liquid_chain_id, src_publisher = ''Liquid Network'',
     src_title = ''Liquid Network Sidechain Consensus'', src_url = Some ''https://blockstream.info/liquid'',
     src_publication_timestamp = Some (observed_at utc), src_retrieved_timestamp = Some (observed_at utc),
     src_category = LiquidBlockchain, src_reliability_score = (f64_lit 1),
     src_name = Some ''Liquid Sidechain Ledger''\<rparr>"

definition src_github_id :: "uuid" where
  "src_github_id =
     0x0c202600000100010000000000000004"

definition liquid_src_github :: "(utc_time \<Rightarrow> datetime) \<Rightarrow> source" where
  "liquid_src_github utc =
     \<lparr>src_id = src_github_id, src_publisher = ''ElementsProject'',
     src_title = ''Pull Request #1600: sigcache: harden range proof cache keys'',
     src_url = Some ''https://github.com/ElementsProject/elements/pull/1600'', src_publication_timestamp = Some (utc
     (2026, 9, 8, 12, 0, 0)), src_retrieved_timestamp = Some (updated_at utc), src_category = SourceRepository,
     src_reliability_score = (f64_lit 1), src_name = Some ''ElementsProject GitHub Repository''\<rparr>"

definition ev1_id :: "uuid" where
  "ev1_id =
     0x0c202600000100020000000000000001"

definition liquid_ev1 :: "(utc_time \<Rightarrow> datetime) \<Rightarrow> evidence" where
  "liquid_ev1 utc =
     \<lparr>evi_id = ev1_id, evi_incident_id = LIQUID_INCIDENT_UUID, evi_type = OnChainTransaction,
     evi_confidence = OnChainVerified, evi_title = ''Liquid Exploit Transaction Confirmed'',
     evi_description = ''Transaction f24a4b179b5cc7e88b25a763911f7cbdf2bf45d1d1b5ab611e94461cef0a183f was accepted in Liquid block 4,050,336, exploiting rangeproof cache ambiguity to mint unbacked L-BTC.'',
     evi_observed_at = Some (observed_at utc), evi_source_id = Some src_liquid_chain_id,
     evi_source_reference = Some ''liquid_block_4050336'',
     evi_txid = Some ''f24a4b179b5cc7e88b25a763911f7cbdf2bf45d1d1b5ab611e94461cef0a183f'', evi_block_hash = None,
     evi_block_height = Some 4050336, evi_chain = Liquid, evi_verified = True, evi_raw_data = Some (JObj
     [(''chain'', JStr ''liquid''), (''block_height'', json_nat 4050336), (''minted_unbacked_lbtc_approx'', json_nat
     4000)]), evi_created_at = (observed_at utc), evi_reference = Some ''Liquid Block 4,050,336'',
     evi_classification = Some OnChainVerified\<rparr>"

definition ev2_id :: "uuid" where
  "ev2_id =
     0x0c202600000100020000000000000002"

definition liquid_ev2 :: "(utc_time \<Rightarrow> datetime) \<Rightarrow> evidence" where
  "liquid_ev2 utc =
     \<lparr>evi_id = ev2_id, evi_incident_id = LIQUID_INCIDENT_UUID, evi_type = OnChainTransaction,
     evi_confidence = OnChainVerified, evi_title = ''Bitcoin Federation Peg-Out Transaction Confirmed'',
     evi_description = ''Bitcoin transaction 8db751a650ae2f12006b7e8c69a75e4df360e8afd6b9e05ae0b9fa6458a7b140 released 3,996.02 BTC from Liquid federation multi-sig reserve on Bitcoin mainnet.'',
     evi_observed_at = Some (utc (2026, 9, 6, 14, 28, 56)), evi_source_id = Some src_btc_chain_id,
     evi_source_reference = Some ''btc_block_965783'',
     evi_txid = Some ''8db751a650ae2f12006b7e8c69a75e4df360e8afd6b9e05ae0b9fa6458a7b140'', evi_block_hash = None,
     evi_block_height = Some 965783, evi_chain = Bitcoin, evi_verified = True, evi_raw_data = Some (JObj
     [(''chain'', JStr ''bitcoin''), (''block_height'', json_nat 965783), (''released_sats'', json_nat
     399602000000)]), evi_created_at = (utc (2026, 9, 6, 14, 28, 56)),
     evi_reference = Some ''Bitcoin Block 965,783'', evi_classification = Some OnChainVerified\<rparr>"

definition ev3_id :: "uuid" where
  "ev3_id =
     0x0c202600000100020000000000000003"

definition liquid_ev3 :: "(utc_time \<Rightarrow> datetime) \<Rightarrow> evidence" where
  "liquid_ev3 utc =
     \<lparr>evi_id = ev3_id, evi_incident_id = LIQUID_INCIDENT_UUID, evi_type = OnChainTransaction,
     evi_confidence = OnChainVerified, evi_title = ''Return of 3,400 BTC Confirmed on Bitcoin Mainnet'',
     evi_description = ''Bitcoin transaction a6d697a25266ce3c78774fd1d75f896b7af522ada209b0f6228ea497bc49a46d confirmed in block 965950 returning 3,400.00 BTC to federation-controlled address.'',
     evi_observed_at = Some (utc (2026, 9, 7, 16, 9, 0)), evi_source_id = Some src_btc_chain_id,
     evi_source_reference = Some ''btc_block_965950'',
     evi_txid = Some ''a6d697a25266ce3c78774fd1d75f896b7af522ada209b0f6228ea497bc49a46d'', evi_block_hash = None,
     evi_block_height = Some 965950, evi_chain = Bitcoin, evi_verified = True, evi_raw_data = Some (JObj
     [(''chain'', JStr ''bitcoin''), (''block_height'', json_nat 965950), (''returned_sats'', json_nat
     340000000000)]), evi_created_at = (utc (2026, 9, 7, 16, 9, 0)), evi_reference = Some ''Bitcoin Block 965,950'',
     evi_classification = Some OnChainVerified\<rparr>"

definition ev4_id :: "uuid" where
  "ev4_id =
     0x0c202600000100020000000000000004"

definition liquid_ev4 :: "(utc_time \<Rightarrow> datetime) \<Rightarrow> evidence" where
  "liquid_ev4 utc =
     \<lparr>evi_id = ev4_id, evi_incident_id = LIQUID_INCIDENT_UUID, evi_type = ESourceRepository,
     evi_confidence = OfficiallyAttributed, evi_title = ''Elements PR #1600 Security Patch'',
     evi_description = ''Pull request #1600 (commit 9400096) in ElementsProject/elements repository replacing raw byte concatenation with CHashWriter explicit framing in range proof cache.'',
     evi_observed_at = Some (utc (2026, 9, 8, 12, 0, 0)), evi_source_id = Some src_github_id,
     evi_source_reference = Some ''github_pr_1600'', evi_txid = None, evi_block_hash = None,
     evi_block_height = None, evi_chain = Liquid, evi_verified = True, evi_raw_data = Some (JObj [(''repository'',
     JStr ''ElementsProject/elements''), (''pr_number'', json_nat 1600), (''commit'', JStr ''9400096'')]),
     evi_created_at = (utc (2026, 9, 8, 12, 0, 0)), evi_reference = Some ''GitHub PR #1600'',
     evi_classification = Some OfficiallyAttributed\<rparr>"

definition liquid_msg1 :: "(utc_time \<Rightarrow> datetime) \<Rightarrow> on_chain_message" where
  "liquid_msg1 utc =
     \<lparr>ocm_txid = ''c103de95817b43f2df635ec6f35ff126ca26a7c6d20570c4b01866b2b3e69a19'', ocm_chain = Bitcoin,
     ocm_encoding = ''OP_RETURN (UTF-8)'', ocm_decoded_text = ''we are whitehats. contact us on chain.'',
     ocm_raw_hex = ''6a25776520617265207768697465686174732e20636f6e74616374207573206f6e20636861696e2e'',
     ocm_confirmed_at = Some (utc (2026, 9, 6, 18, 30, 10)), ocm_block_height = Some 965818,
     ocm_attributed_sender = Some ''Self-described white hat actor'',
     ocm_sender_attribution_confidence = Unverified\<rparr>"

definition liquid_msg2 :: "(utc_time \<Rightarrow> datetime) \<Rightarrow> on_chain_message" where
  "liquid_msg2 utc =
     \<lparr>ocm_txid = ''91271efcbb5ab29abfc38ae635f0644e3ba042aad56f92d40136e1dde4742fe8'', ocm_chain = Bitcoin,
     ocm_encoding = ''OP_RETURN (UTF-8)'', ocm_decoded_text = ''Please contact security@blockstream.com.'',
     ocm_raw_hex = ''6a27506c6561736520636f6e7461637420736563757269747940626c6f636b73747265616d2e636f6d2e'',
     ocm_confirmed_at = Some (utc (2026, 9, 6, 19, 31, 47)), ocm_block_height = Some 965822,
     ocm_attributed_sender = Some ''Blockstream Security Team'',
     ocm_sender_attribution_confidence = OfficiallyAttributed\<rparr>"

definition liquid_claims :: "(utc_time \<Rightarrow> datetime) \<Rightarrow> builder_call list" where
  "liquid_claims utc =
     [WithId LIQUID_INCIDENT_UUID,
      Status Monitoring,
      ObservedAt (observed_at utc),
      UpdatedAt (updated_at utc),
      Recovery (liquid_recovery utc),
      VerifiedFact ''Liquid exploit transaction f24a4b179b5cc7e88b25a763911f7cbdf2bf45d1d1b5ab611e94461cef0a183f confirmed in Liquid block 4,050,336 accepted unbacked L-BTC outputs.'',
      VerifiedFact ''Bitcoin peg-out transaction 8db751a650ae2f12006b7e8c69a75e4df360e8afd6b9e05ae0b9fa6458a7b140 confirmed in Bitcoin block 965,783 releasing 3,996.02 BTC from federation reserves.'',
      VerifiedFact ''Bitcoin return transaction a6d697a25266ce3c78774fd1d75f896b7af522ada209b0f6228ea497bc49a46d confirmed in Bitcoin block 965,950 returning 3,400.00 BTC to federation address.'',
      VerifiedFact (''On-chain message '' @ [CHR 0x27] @ ''we are whitehats. contact us on chain.'' @ [CHR 0x27] @
      '' confirmed in Bitcoin block 965,818 (txid c103de95817b43f2df635ec6f35ff126ca26a7c6d20570c4b01866b2b3e69a19).''),
      VerifiedFact (''On-chain response '' @ [CHR 0x27] @ ''Please contact security@blockstream.com.'' @ [CHR 0x27]
      @
      '' confirmed in Bitcoin block 965,822 (txid 91271efcbb5ab29abfc38ae635f0644e3ba042aad56f92d40136e1dde4742fe8).''),
      OfficialClaim ''Blockstream assessment attributes exploit to range proof verification cache key collision in Elements software.'',
      OfficialClaim ''SideSwap confirmed no private key or Peg-out Authorization Key (PAK) compromise occurred.'',
      OfficialClaim ''Liquid federation bridge nodes were halted at September 6, 2026 18:26 UTC to contain further withdrawals.'',
      OfficialClaim ''Elements PR #1600 merged to implement length-framed CHashWriter cache key serialization and -norangeproofcache option.'',
      ReportedClaim ''Security research firms reported peak affected assets of approximately $320M USD at market prices during the exploit.'',
      ReportedClaim ''Blockstream official assessment reported approximately 602 BTC remained outstanding as of September 23, 2026.'',
      HeuristicClaim ''Analysis of intermediate peg-out outputs indicates multi-hop forwarding behavior typical of automated liquidity aggregation.'',
      UnknownClaim ''Real-world identity and legal jurisdiction of the exploit actor.'',
      UnknownClaim (''Whether the actor'' @ [CHR 0x27] @ ''s self-identification as '' @ [CHR 0x27] @ ''white hat''
      @ [CHR 0x27] @ '' represents genuine ethical intent or strategic negotiation posturing.''),
      UnknownClaim ''Final resolution or recovery status of remaining ~602 BTC beyond the September 23 assessment cutoff.'']"

definition liquid_items :: "(utc_time \<Rightarrow> datetime) \<Rightarrow> builder_call list" where
  "liquid_items utc =
     [SourceItem (liquid_src_report utc),
      SourceItem (liquid_src_btc_chain utc),
      SourceItem (liquid_src_liquid_chain utc),
      SourceItem (liquid_src_github utc),
      EvidenceItem (liquid_ev1 utc),
      EvidenceItem (liquid_ev2 utc),
      EvidenceItem (liquid_ev3 utc),
      EvidenceItem (liquid_ev4 utc),
      OnChainMsg (liquid_msg1 utc),
      OnChainMsg (liquid_msg2 utc)]"

definition liquid_entities :: "(nat \<Rightarrow> uuid) \<Rightarrow> builder_call list" where
  "liquid_entities v4 =
     [Entity \<lparr>ent_id = (v4 0), ent_name = ''Liquid Federation'', ent_type = ''Federation'',
      ent_description = ''Decentralized federation maintaining the Liquid Network 2-way peg wallet'',
      ent_attribution_confidence = OfficiallyAttributed\<rparr>,
      Entity \<lparr>ent_id = (v4 1), ent_name = ''Blockstream'', ent_type = ''Core Maintainer'',
      ent_description = ''Core technical maintainer of Elements and coordinator of Liquid bridge remediation'',
      ent_attribution_confidence = OfficiallyAttributed\<rparr>,
      Entity \<lparr>ent_id = (v4 2), ent_name = ''SideSwap'', ent_type = ''Routing Service'',
      ent_description = ''Swap and peg-out service whose automated infrastructure was utilized during withdrawal'',
      ent_attribution_confidence = OfficiallyAttributed\<rparr>,
      Entity \<lparr>ent_id = (v4 3), ent_name = ''Exploit Actor'', ent_type = ''Unidentified Actor'',
      ent_description = ''Unidentified entity who exploited rangeproof cache and self-identified as whitehat on-chain'',
      ent_attribution_confidence = Unverified\<rparr>]"

definition liquid_transactions :: "(utc_time \<Rightarrow> datetime) \<Rightarrow> builder_call list" where
  "liquid_transactions utc =
     [Transaction \<lparr>itx_chain = Liquid,
      itx_txid = ''f24a4b179b5cc7e88b25a763911f7cbdf2bf45d1d1b5ab611e94461cef0a183f'', itx_role = RExploit,
      itx_amount_sats = Some 400000000000, itx_block_height = Some 4050336, itx_block_hash = None,
      itx_confirmed_at = Some (observed_at utc), itx_evidence_id = Some ev1_id,
      itx_notes = Some ''Accepted on Liquid sidechain creating unbacked L-BTC''\<rparr>,
      Transaction \<lparr>itx_chain = Bitcoin,
      itx_txid = ''8db751a650ae2f12006b7e8c69a75e4df360e8afd6b9e05ae0b9fa6458a7b140'', itx_role = PegOut,
      itx_amount_sats = Some 399602000000, itx_block_height = Some 965783, itx_block_hash = None,
      itx_confirmed_at = Some (utc (2026, 9, 6, 14, 28, 56)), itx_evidence_id = Some ev2_id,
      itx_notes = Some ''Federation multisig payout confirming peg-out on Bitcoin mainnet''\<rparr>,
      Transaction \<lparr>itx_chain = Bitcoin,
      itx_txid = ''c103de95817b43f2df635ec6f35ff126ca26a7c6d20570c4b01866b2b3e69a19'', itx_role = RCommunication,
      itx_amount_sats = None, itx_block_height = Some 965818, itx_block_hash = None, itx_confirmed_at = Some (utc
      (2026, 9, 6, 18, 30, 10)), itx_evidence_id = None, itx_notes = Some (''On-chain message: '' @ [CHR 0x27] @
      ''we are whitehats. contact us on chain.'' @ [CHR 0x27])\<rparr>,
      Transaction \<lparr>itx_chain = Bitcoin,
      itx_txid = ''91271efcbb5ab29abfc38ae635f0644e3ba042aad56f92d40136e1dde4742fe8'', itx_role = RCommunication,
      itx_amount_sats = None, itx_block_height = Some 965822, itx_block_hash = None, itx_confirmed_at = Some (utc
      (2026, 9, 6, 19, 31, 47)), itx_evidence_id = None, itx_notes = Some (''On-chain response: '' @ [CHR 0x27] @
      ''Please contact security@blockstream.com.'' @ [CHR 0x27])\<rparr>,
      Transaction \<lparr>itx_chain = Bitcoin,
      itx_txid = ''a6d697a25266ce3c78774fd1d75f896b7af522ada209b0f6228ea497bc49a46d'', itx_role = Return,
      itx_amount_sats = Some 340000000000, itx_block_height = Some 965950, itx_block_hash = None,
      itx_confirmed_at = Some (utc (2026, 9, 7, 16, 9, 0)), itx_evidence_id = Some ev3_id,
      itx_notes = Some ''3,400.00 BTC returned to federation peg address''\<rparr>]"

definition liquid_blocks :: "(utc_time \<Rightarrow> datetime) \<Rightarrow> builder_call list" where
  "liquid_blocks utc =
     [Block \<lparr>ibk_chain = Liquid, ibk_height = 4050336, ibk_hash = ''liquid-block-4050336'',
      ibk_timestamp = (observed_at utc), ibk_tx_count = Some 1, ibk_evidence_id = Some ev1_id\<rparr>,
      Block \<lparr>ibk_chain = Bitcoin, ibk_height = 965783, ibk_hash = ''btc-block-965783'', ibk_timestamp = (utc
      (2026, 9, 6, 14, 28, 56)), ibk_tx_count = Some 3500, ibk_evidence_id = Some ev2_id\<rparr>,
      Block \<lparr>ibk_chain = Bitcoin, ibk_height = 965950, ibk_hash = ''btc-block-965950'', ibk_timestamp = (utc
      (2026, 9, 7, 16, 9, 0)), ibk_tx_count = Some 3200, ibk_evidence_id = Some ev3_id\<rparr>]"

definition liquid_findings :: "builder_call list" where
  "liquid_findings =
     [Finding \<lparr>tf_component = ''Elements'',
      tf_area = ''Confidential transaction range proof verification cache'',
      tf_category = ''Consensus-critical validation flaw'',
      tf_summary = ''Distinct proof-related input tuples produced the same byte-concatenated cache-key input because fields were concatenated without unambiguous length framing.'',
      tf_root_cause_details = ''The secp256k1 rangeproof verification cache serialized key data by raw concatenation without explicit length prefixes. This permitted crafting input parameters that collided with existing cached verification entries, causing invalid unbacked outputs to be treated as valid.'',
      tf_fix_summary = ''Replaced raw byte concatenation with CHashWriter/SER_GETHASH explicit field framing and introduced the -norangeproofcache option.'',
      tf_repository_url = Some ''https://github.com/ElementsProject/elements'', tf_pull_request_id = Some ''1600'',
      tf_commit_hash = Some ''9400096''\<rparr>]"

definition liquid_timeline :: "(nat \<Rightarrow> uuid) \<Rightarrow> (utc_time \<Rightarrow> datetime) \<Rightarrow> builder_call list" where
  "liquid_timeline v4 utc =
     [Timeline \<lparr>tle_id = (v4 4), tle_timestamp = (observed_at utc),
      tle_title = ''Exploit Transaction Accepted on Liquid'',
      tle_description = ''Invalid Liquid transaction f24a4b17... accepted in block 4,050,336 creating ~4,000 unbacked L-BTC.'',
      tle_category = TExploit, tle_source_id = Some src_liquid_chain_id, tle_evidence_ids = [ev1_id],
      tle_transaction_txids = [''f24a4b179b5cc7e88b25a763911f7cbdf2bf45d1d1b5ab611e94461cef0a183f''],
      tle_block_heights = [4050336], tle_classification = OnChainVerified\<rparr>,
      Timeline \<lparr>tle_id = (v4 5), tle_timestamp = (utc (2026, 9, 6, 14, 0, 0)),
      tle_title = ''Small Peg-Out Test Executed'',
      tle_description = ''Official report notes preliminary test peg-out executed to verify withdrawal routing.'',
      tle_category = OnChainMovement, tle_source_id = Some src_report_id, tle_evidence_ids = [],
      tle_transaction_txids = [], tle_block_heights = [], tle_classification = OfficiallyAttributed\<rparr>,
      Timeline \<lparr>tle_id = (v4 6), tle_timestamp = (utc (2026, 9, 6, 14, 5, 0)),
      tle_title = ''Large L-BTC Peg-Out Deposit Processed'',
      tle_description = ''Attacker routed unbacked L-BTC to SideSwap peg-out infrastructure.'',
      tle_category = OnChainMovement, tle_source_id = Some src_report_id, tle_evidence_ids = [],
      tle_transaction_txids = [], tle_block_heights = [], tle_classification = OfficiallyAttributed\<rparr>,
      Timeline \<lparr>tle_id = (v4 7), tle_timestamp = (utc (2026, 9, 6, 14, 28, 56)),
      tle_title = ''Federation Release of 3,996.02 BTC Confirmed on Bitcoin'',
      tle_description = ''Bitcoin transaction 8db751a6... confirmed in block 965,783 paying out ~3,996.02 BTC from Liquid reserves.'',
      tle_category = OnChainMovement, tle_source_id = Some src_btc_chain_id, tle_evidence_ids = [ev2_id],
      tle_transaction_txids = [''8db751a650ae2f12006b7e8c69a75e4df360e8afd6b9e05ae0b9fa6458a7b140''],
      tle_block_heights = [965783], tle_classification = OnChainVerified\<rparr>,
      Timeline \<lparr>tle_id = (v4 8), tle_timestamp = (utc (2026, 9, 6, 18, 26, 0)),
      tle_title = ''Liquid Federation Bridge Nodes Halted'',
      tle_description = ''Functionaries paused federation bridge nodes to prevent additional peg-out executions.'',
      tle_category = Containment, tle_source_id = Some src_report_id, tle_evidence_ids = [],
      tle_transaction_txids = [], tle_block_heights = [], tle_classification = OfficiallyAttributed\<rparr>,
      Timeline \<lparr>tle_id = (v4 9), tle_timestamp = (utc (2026, 9, 6, 18, 30, 10)),
      tle_title = ''Actor Posts Initial On-Chain Message'',
      tle_description = (''Transaction c103de95... confirmed in block 965,818 containing OP_RETURN '' @ [CHR 0x27] @
      ''we are whitehats. contact us on chain.'' @ [CHR 0x27]), tle_category = TCommunication,
      tle_source_id = Some src_btc_chain_id, tle_evidence_ids = [],
      tle_transaction_txids = [''c103de95817b43f2df635ec6f35ff126ca26a7c6d20570c4b01866b2b3e69a19''],
      tle_block_heights = [965818], tle_classification = OnChainVerified\<rparr>,
      Timeline \<lparr>tle_id = (v4 10), tle_timestamp = (utc (2026, 9, 6, 19, 31, 47)),
      tle_title = ''Blockstream Responds On-Chain'',
      tle_description = ''Transaction 91271efc... confirmed in block 965,822 directing actor to contact security@blockstream.com.'',
      tle_category = TCommunication, tle_source_id = Some src_btc_chain_id, tle_evidence_ids = [],
      tle_transaction_txids = [''91271efcbb5ab29abfc38ae635f0644e3ba042aad56f92d40136e1dde4742fe8''],
      tle_block_heights = [965822], tle_classification = OnChainVerified\<rparr>,
      Timeline \<lparr>tle_id = (v4 11), tle_timestamp = (utc (2026, 9, 6, 20, 25, 0)),
      tle_title = ''Public Incident Disclosure'',
      tle_description = ''Blockstream published initial public security advisory acknowledging Liquid reserve exploit.'',
      tle_category = Disclosure, tle_source_id = Some src_report_id, tle_evidence_ids = [],
      tle_transaction_txids = [], tle_block_heights = [], tle_classification = OfficiallyAttributed\<rparr>,
      Timeline \<lparr>tle_id = (v4 12), tle_timestamp = (utc (2026, 9, 7, 1, 9, 0)),
      tle_title = ''Emergency Interim Patch Deployed'',
      tle_description = ''Bridge nodes restarted with range-proof verification cache disabled (-norangeproofcache).'',
      tle_category = Patch, tle_source_id = Some src_report_id, tle_evidence_ids = [], tle_transaction_txids = [],
      tle_block_heights = [], tle_classification = OfficiallyAttributed\<rparr>,
      Timeline \<lparr>tle_id = (v4 13), tle_timestamp = (utc (2026, 9, 7, 16, 9, 0)),
      tle_title = ''3,400 BTC Returned on Bitcoin Mainnet'',
      tle_description = ''Transaction a6d697a2... confirmed in block 965,950 returning 3,400.00 BTC to Liquid federation address.'',
      tle_category = TRecovery, tle_source_id = Some src_btc_chain_id, tle_evidence_ids = [ev3_id],
      tle_transaction_txids = [''a6d697a25266ce3c78774fd1d75f896b7af522ada209b0f6228ea497bc49a46d''],
      tle_block_heights = [965950], tle_classification = OnChainVerified\<rparr>,
      Timeline \<lparr>tle_id = (v4 14), tle_timestamp = (utc (2026, 9, 8, 12, 0, 0)),
      tle_title = ''Elements PR #1600 Hardened Fix Merged'',
      tle_description = ''Permanent fix with CHashWriter explicit framing merged into Elements master branch.'',
      tle_category = Patch, tle_source_id = Some src_github_id, tle_evidence_ids = [ev4_id],
      tle_transaction_txids = [], tle_block_heights = [], tle_classification = OfficiallyAttributed\<rparr>,
      Timeline \<lparr>tle_id = (v4 15), tle_timestamp = (utc (2026, 9, 9, 8, 0, 0)),
      tle_title = ''Elements v23.3.4 Formally Released'',
      tle_description = ''Release build made available for all Liquid node operators.'', tle_category = Patch,
      tle_source_id = Some src_github_id, tle_evidence_ids = [], tle_transaction_txids = [], tle_block_heights = [],
      tle_classification = OfficiallyAttributed\<rparr>,
      Timeline \<lparr>tle_id = (v4 16), tle_timestamp = (utc (2026, 9, 9, 18, 0, 0)),
      tle_title = ''Corrected Liquid Sidechain Resumes'',
      tle_description = ''Block production on the Liquid sidechain resumed under consensus validation of v23.3.4.'',
      tle_category = NetworkRestart, tle_source_id = Some src_report_id, tle_evidence_ids = [],
      tle_transaction_txids = [], tle_block_heights = [], tle_classification = OfficiallyAttributed\<rparr>,
      Timeline \<lparr>tle_id = (v4 17), tle_timestamp = (utc (2026, 9, 10, 14, 0, 0)),
      tle_title = ''Transaction Processing Fully Restored'',
      tle_description = ''General transaction processing and standard sidechain operations resumed.'',
      tle_category = NetworkRestart, tle_source_id = Some src_report_id, tle_evidence_ids = [],
      tle_transaction_txids = [], tle_block_heights = [], tle_classification = OfficiallyAttributed\<rparr>]"

definition liquid_updates :: "(nat \<Rightarrow> uuid) \<Rightarrow> (utc_time \<Rightarrow> datetime) \<Rightarrow> builder_call list" where
  "liquid_updates v4 utc =
     [Update \<lparr>upd_id = (v4 18), upd_timestamp = (updated_at utc),
      upd_title = ''Official Assessment Published (~602 BTC Outstanding)'',
      upd_summary = ''Blockstream published full post-incident assessment confirming 3,400 BTC returned and ~602 BTC outstanding subject to ongoing recovery.'',
      upd_source_id = Some src_report_id, upd_recovery_state = Some (liquid_recovery utc)\<rparr>]"

definition liquid_nodes :: "builder_call list" where
  "liquid_nodes =
     [Node ''tx:liquid_exploit'' ''Liquid Exploit Tx (4,000 L-BTC)'' NTransaction (Some Liquid) (Some (JObj
      [(''txid'', JStr ''f24a4b179b5cc7e88b25a763911f7cbdf2bf45d1d1b5ab611e94461cef0a183f'')])),
      Node ''block:liquid_4050336'' ''Liquid Block #4,050,336'' NBlock (Some Liquid) None,
      Node ''tx:btc_pegout'' ''Bitcoin Peg-Out Tx (~3,996 BTC)'' NTransaction (Some Bitcoin) (Some (JObj [(''txid'',
      JStr ''8db751a650ae2f12006b7e8c69a75e4df360e8afd6b9e05ae0b9fa6458a7b140'')])),
      Node ''block:btc_965783'' ''Bitcoin Block #965,783'' NBlock (Some Bitcoin) None,
      Node ''tx:actor_msg'' (''Actor Message: '' @ [CHR 0x27] @ ''we are whitehats'' @ [CHR 0x27]) NTransaction
      (Some Bitcoin) (Some (JObj [(''txid'',
      JStr ''c103de95817b43f2df635ec6f35ff126ca26a7c6d20570c4b01866b2b3e69a19'')])),
      Node ''tx:blockstream_reply'' (''Blockstream Response: '' @ [CHR 0x27] @ ''contact security'' @ [CHR 0x27])
      NTransaction (Some Bitcoin) (Some (JObj [(''txid'',
      JStr ''91271efcbb5ab29abfc38ae635f0644e3ba042aad56f92d40136e1dde4742fe8'')])),
      Node ''tx:btc_return'' ''Bitcoin Return Tx (3,400 BTC)'' NTransaction (Some Bitcoin) (Some (JObj [(''txid'',
      JStr ''a6d697a25266ce3c78774fd1d75f896b7af522ada209b0f6228ea497bc49a46d'')])),
      Node ''block:btc_965950'' ''Bitcoin Block #965,950'' NBlock (Some Bitcoin) None,
      Node ''entity:liquid_fed'' ''Liquid Federation'' NEntity None None,
      Node ''entity:blockstream'' ''Blockstream'' NEntity None None,
      Node ''evidence:elements_pr1600'' ''Elements PR #1600 Fix'' NEvidence (Some Liquid) None]"

definition liquid_edges :: "builder_call list" where
  "liquid_edges =
     [Edge ''tx:liquid_exploit'' ''block:liquid_4050336'' ConfirmedIn OnChainVerified,
      Edge ''tx:liquid_exploit'' ''tx:btc_pegout'' ForwardsTo OfficiallyAttributed,
      Edge ''tx:btc_pegout'' ''block:btc_965783'' ConfirmedIn OnChainVerified,
      Edge ''tx:btc_pegout'' ''tx:btc_return'' ReturnsTo OnChainVerified,
      Edge ''tx:btc_return'' ''block:btc_965950'' ConfirmedIn OnChainVerified,
      Edge ''tx:actor_msg'' ''tx:blockstream_reply'' References OnChainVerified,
      Edge ''evidence:elements_pr1600'' ''tx:liquid_exploit'' Supports OfficiallyAttributed,
      Edge ''entity:liquid_fed'' ''tx:btc_pegout'' Spends OfficiallyAttributed,
      Edge ''tx:btc_return'' ''entity:liquid_fed'' ReturnsTo OnChainVerified,
      Edge ''entity:blockstream'' ''evidence:elements_pr1600'' AttributedTo OfficiallyAttributed]"

definition liquid_calls :: "(nat \<Rightarrow> uuid) \<Rightarrow> (utc_time \<Rightarrow> datetime) \<Rightarrow> builder_call list" where
  "liquid_calls v4 utc =
     liquid_claims utc @ liquid_items utc @ liquid_entities v4 @ liquid_transactions utc @ liquid_blocks utc @
     liquid_findings @ liquid_timeline v4 utc @ liquid_updates v4 utc @ liquid_nodes @ liquid_edges"

definition create_liquid_2026_incident ::
  "runtime \<Rightarrow> (nat \<Rightarrow> uuid) \<Rightarrow> (utc_time \<Rightarrow> datetime) \<Rightarrow> core_error + incident" where
  "create_liquid_2026_incident rt v4 utc =
     build (fold builder_step (liquid_calls v4 utc)
       (builder_new rt
          LIQUID_CASE_ID ''Liquid Network Security Incident''
          ''Consensus-critical range-proof verification cache flaw in Elements software resulting in unauthorized creation of unbacked L-BTC and extraction of Bitcoin mainnet reserves via peg-out, followed by partial fund return.''
          SevCritical))"

section \<open>The shipped watch targets\<close>

definition liquid_t1 :: "runtime \<Rightarrow> watch_target" where
  "liquid_t1 rt =
     (new_outpoint rt LIQUID_INCIDENT_UUID LIQUID_CASE_ID
        ''8db751a650ae2f12006b7e8c69a75e4df360e8afd6b9e05ae0b9fa6458a7b140'' 0 OnChainVerified
        ''Bitcoin Mainnet Ledger''
        (Some ''Liquid Peg-Out Exploit Output (vout 0)''))
     \<lparr>wt_id := 0x0c202600000100010000000000000001\<rparr>"

definition liquid_t2 :: "runtime \<Rightarrow> watch_target" where
  "liquid_t2 rt =
     (new_outpoint rt LIQUID_INCIDENT_UUID LIQUID_CASE_ID
        ''a6d697a25266ce3c78774fd1d75f896b7af522ada209b0f6228ea497bc49a46d'' 0 OnChainVerified
        ''Bitcoin Mainnet Ledger''
        (Some ''Liquid Return to Federation Multisig (vout 0)''))
     \<lparr>wt_id := 0x0c202600000100010000000000000002\<rparr>"

definition liquid_t3 :: "runtime \<Rightarrow> watch_target" where
  "liquid_t3 rt =
     (new_outpoint rt LIQUID_INCIDENT_UUID LIQUID_CASE_ID
        ''a6d697a25266ce3c78774fd1d75f896b7af522ada209b0f6228ea497bc49a46d'' 1 OnChainVerified
        ''Bitcoin Mainnet Ledger''
        (Some ''Liquid Return Residual / Change Output (vout 1)''))
     \<lparr>wt_id := 0x0c202600000100010000000000000003\<rparr>"

definition liquid_t4 :: "runtime \<Rightarrow> watch_target" where
  "liquid_t4 rt =
     (new_transaction rt LIQUID_INCIDENT_UUID LIQUID_CASE_ID
        ''c103de95817b43f2df635ec6f35ff126ca26a7c6d20570c4b01866b2b3e69a19'' OnChainVerified
        ''Bitcoin Mainnet Ledger''
        (Some (''Actor On-Chain Message Tx ('' @ [CHR 0x27] @ ''we are whitehats'' @ [CHR 0x27] @ '')'')))
     \<lparr>wt_id := 0x0c202600000100010000000000000004\<rparr>"

definition liquid_t5 :: "runtime \<Rightarrow> watch_target" where
  "liquid_t5 rt =
     (new_address rt LIQUID_INCIDENT_UUID LIQUID_CASE_ID
        ''bc1qliquidfedreturnaddress965950m0000000000000'' OfficiallyAttributed
        ''Blockstream Technical Assessment''
        (Some ''Liquid Federation Disclosed Recovery Address''))
     \<lparr>wt_id := 0x0c202600000100010000000000000005\<rparr>"

definition liquid_t6 :: "runtime \<Rightarrow> watch_target" where
  "liquid_t6 rt =
     (new_address rt LIQUID_INCIDENT_UUID LIQUID_CASE_ID
        ''bc1qexploitintermediarycluster0000000000000000'' PHeuristic
        ''Heuristic Cluster Analysis''
        (Some ''Intermediary Exploit Routing Cluster''))
     \<lparr>wt_id := 0x0c202600000100010000000000000006\<rparr>"

definition canonical_liquid_watch_targets :: "runtime \<Rightarrow> watch_target list" where
  "canonical_liquid_watch_targets rt =
     [liquid_t1 rt, liquid_t2 rt, liquid_t3 rt, liquid_t4 rt, liquid_t5 rt, liquid_t6 rt]"


section \<open>What builder calls leave in the validated parts\<close>

fun timeline_of :: "builder_call \<Rightarrow> timeline_entry list" where
  "timeline_of (Timeline e) = [e]"
| "timeline_of _ = []"

fun evidence_of :: "builder_call \<Rightarrow> evidence list" where
  "evidence_of (EvidenceItem e) = [e]"
| "evidence_of _ = []"

fun messages_of :: "builder_call \<Rightarrow> on_chain_message list" where
  "messages_of (OnChainMsg m) = [m]"
| "messages_of _ = []"

fun updates_of :: "builder_call \<Rightarrow> incident_update list" where
  "updates_of (Update u) = [u]"
| "updates_of _ = []"

fun node_ids_of :: "builder_call \<Rightarrow> string list" where
  "node_ids_of (Node nid label ty ch md) = [nid]"
| "node_ids_of _ = []"

fun ends_of :: "builder_call \<Rightarrow> string list" where
  "ends_of (Edge a b rel conf) = [a, b]"
| "ends_of _ = []"

fun recovery_of :: "builder_call \<Rightarrow> recovery_summary list" where
  "recovery_of (Recovery r) = [r]"
| "recovery_of _ = []"

fun id_of :: "builder_call \<Rightarrow> uuid list" where
  "id_of (WithId u) = [u]"
| "id_of _ = []"

definition gather :: "(builder_call \<Rightarrow> 'a list) \<Rightarrow> builder_call list \<Rightarrow> 'a list" where
  "gather f cs = concat (map f cs)"

lemma gather_simps [simp]:
  "gather f [] = []"
  "gather f (c # cs) = f c @ gather f cs"
  "gather f (cs @ ds) = gather f cs @ gather f ds"
  by (simp_all add: gather_def)

text \<open>A part that every call extends by what it contributes holds, in the end, all contributions.\<close>

lemma fold_gathers:
  assumes "\<And>c i. c \<noteq> SortTimeline \<Longrightarrow> part (builder_step c i) = part i @ f c"
    and "SortTimeline \<notin> set cs"
  shows "part (fold builder_step cs i) = part i @ gather f cs"
  using assms(2) by (induction cs arbitrary: i) (auto simp: assms(1))

lemmas builder_defs =
  builder_recovery_def add_verified_fact_def add_official_claim_def add_reported_claim_def
  add_heuristic_claim_def add_unknown_claim_def add_transaction_def add_block_def
  graph_add_node_def graph_add_edge_def

lemma fold_parts:
  assumes "SortTimeline \<notin> set cs"
  shows "ic_timeline (fold builder_step cs i) = ic_timeline i @ gather timeline_of cs"
    and "ic_evidence (fold builder_step cs i) = ic_evidence i @ gather evidence_of cs"
    and "ic_on_chain_messages (fold builder_step cs i) = ic_on_chain_messages i @ gather messages_of cs"
    and "ic_updates (fold builder_step cs i) = ic_updates i @ gather updates_of cs"
proof -
  have step: "ic_timeline (builder_step c i) = ic_timeline i @ timeline_of c"
    "ic_evidence (builder_step c i) = ic_evidence i @ evidence_of c"
    "ic_on_chain_messages (builder_step c i) = ic_on_chain_messages i @ messages_of c"
    "ic_updates (builder_step c i) = ic_updates i @ updates_of c" if "c \<noteq> SortTimeline" for c i
    using that by (cases c; simp add: builder_defs)+
  show "ic_timeline (fold builder_step cs i) = ic_timeline i @ gather timeline_of cs"
    by (rule fold_gathers [OF step(1) assms])
  show "ic_evidence (fold builder_step cs i) = ic_evidence i @ gather evidence_of cs"
    by (rule fold_gathers [OF step(2) assms])
  show "ic_on_chain_messages (fold builder_step cs i) = ic_on_chain_messages i @ gather messages_of cs"
    by (rule fold_gathers [OF step(3) assms])
  show "ic_updates (fold builder_step cs i) = ic_updates i @ gather updates_of cs"
    by (rule fold_gathers [OF step(4) assms])
qed

lemma fold_node_ids:
  "gn_id ` set (ig_nodes (ic_graph (fold builder_step cs i)))
     = gn_id ` set (ig_nodes (ic_graph i)) \<union> set (gather node_ids_of cs)"
proof (induction cs arbitrary: i)
  case (Cons c cs)
  have "gn_id ` set (ig_nodes (ic_graph (builder_step c i)))
      = gn_id ` set (ig_nodes (ic_graph i)) \<union> set (node_ids_of c)"
    by (cases c) (auto simp: builder_defs sort_timeline_def list_ex_iff image_iff)
  then show ?case by (simp add: Cons.IH Un_assoc)
qed simp

definition edge_ends :: "incident_graph \<Rightarrow> string set" where
  "edge_ends g = ge_source ` set (ig_edges g) \<union> ge_target ` set (ig_edges g)"

lemma fold_edge_ends:
  "edge_ends (ic_graph (fold builder_step cs i)) = edge_ends (ic_graph i) \<union> set (gather ends_of cs)"
proof (induction cs arbitrary: i)
  case (Cons c cs)
  have "edge_ends (ic_graph (builder_step c i)) = edge_ends (ic_graph i) \<union> set (ends_of c)"
    by (cases c) (auto simp: builder_defs sort_timeline_def edge_ends_def)
  then show ?case by (simp add: Cons.IH Un_assoc)
qed simp

text \<open>A part that a call replaces holds, in the end, the last value given to it.\<close>

lemma fold_last:
  assumes "\<And>c i. part (builder_step c i) = last (part i # f c)"
  shows "part (fold builder_step cs i) = last (part i # gather f cs)"
proof (induction cs arbitrary: i)
  case (Cons c cs)
  have "last (last (x # xs) # ys) = last (x # xs @ ys)" for x and xs ys :: "'a list"
    by (cases ys) auto
  then show ?case by (simp only: fold_simps gather_simps Cons.IH assms)
qed simp

lemma fold_recovery:
  "ic_recovery (fold builder_step cs i) = last (ic_recovery i # gather recovery_of cs)"
proof (rule fold_last)
  show "ic_recovery (builder_step c i) = last (ic_recovery i # recovery_of c)" for c i
    by (cases c) (simp_all add: builder_defs sort_timeline_def)
qed

lemma fold_id: "ic_id (fold builder_step cs i) = last (ic_id i # gather id_of cs)"
proof (rule fold_last)
  show "ic_id (builder_step c i) = last (ic_id i # id_of c)" for c i
    by (cases c) (simp_all add: builder_defs sort_timeline_def)
qed

text \<open>Building accepts a run of calls that leaves every part of the dossier in order.\<close>

lemma fold_incident_ok:
  assumes "SortTimeline \<notin> set cs" and "gather recovery_of cs = [r]" and "funds_ok r"
    and "set (gather ends_of cs) \<subseteq> set (gather node_ids_of cs)"
    and "sorted (map tle_timestamp (gather timeline_of cs))"
    and "distinct (map evi_id (gather evidence_of cs))"
    and "\<forall>m \<in> set (gather messages_of cs). ocm_sender_attribution_confidence m \<noteq> OnChainVerified"
    and "sorted (map upd_timestamp (gather updates_of cs))"
  shows "incident_ok (fold builder_step cs (builder_new rt case_id title summary sev))"
proof -
  let ?n = "builder_new rt case_id title summary sev" and ?i = "fold builder_step cs (builder_new rt case_id title summary sev)"
  have new: "ic_timeline ?n = []" "ic_evidence ?n = []" "ic_on_chain_messages ?n = []" "ic_updates ?n = []"
    "ig_nodes (ic_graph ?n) = []" "edge_ends (ic_graph ?n) = {}"
    by (simp_all add: builder_new_def incident_graph_new_def edge_ends_def)
  have "tiers_ok ?i" by (rule tiers_fold [OF tiers_new])
  moreover have "edge_ends (ic_graph ?i) \<subseteq> gn_id ` set (ig_nodes (ic_graph ?i))"
    using assms(4) by (simp add: fold_edge_ends fold_node_ids new)
  ultimately have "graph_ok (ic_graph ?i)" by (auto simp: graph_ok_def tiers_ok_def edge_ends_def)
  moreover have "funds_ok (ic_recovery ?i)" using assms(2,3) by (simp add: fold_recovery)
  ultimately show ?thesis using assms(5-8) by (simp add: incident_ok_def fold_parts [OF assms(1)] new)
qed


section \<open>The shipped calls\<close>

lemmas liquid_segments =
  liquid_claims_def liquid_items_def liquid_entities_def liquid_transactions_def liquid_blocks_def
  liquid_findings_def liquid_timeline_def liquid_updates_def liquid_nodes_def liquid_edges_def

lemma liquid_calls_unsorted: "SortTimeline \<notin> set (liquid_calls v4 utc)"
  by (simp add: liquid_calls_def liquid_segments)

lemma liquid_calls_recovery: "gather recovery_of (liquid_calls v4 utc) = [liquid_recovery utc]"
  by (simp add: liquid_calls_def liquid_segments)

lemma liquid_calls_id: "gather id_of (liquid_calls v4 utc) = [LIQUID_INCIDENT_UUID]"
  by (simp add: liquid_calls_def liquid_segments)

lemma liquid_calls_evidence:
  "gather evidence_of (liquid_calls v4 utc) = [liquid_ev1 utc, liquid_ev2 utc, liquid_ev3 utc, liquid_ev4 utc]"
  by (simp add: liquid_calls_def liquid_segments)

lemma liquid_calls_messages:
  "gather messages_of (liquid_calls v4 utc) = [liquid_msg1 utc, liquid_msg2 utc]"
  by (simp add: liquid_calls_def liquid_segments)

lemma liquid_calls_nodes:
  "gather node_ids_of (liquid_calls v4 utc) = gather node_ids_of liquid_nodes"
  "gather ends_of (liquid_calls v4 utc) = gather ends_of liquid_edges"
  by (simp_all add: liquid_calls_def liquid_segments)

definition liquid_times :: "utc_time list" where
  "liquid_times =
     [(2026, 9, 6, 13, 53, 0), (2026, 9, 6, 14, 0, 0), (2026, 9, 6, 14, 5, 0), (2026, 9, 6, 14, 28, 56),
      (2026, 9, 6, 18, 26, 0), (2026, 9, 6, 18, 30, 10), (2026, 9, 6, 19, 31, 47), (2026, 9, 6, 20, 25, 0),
      (2026, 9, 7, 1, 9, 0), (2026, 9, 7, 16, 9, 0), (2026, 9, 8, 12, 0, 0), (2026, 9, 9, 8, 0, 0),
      (2026, 9, 9, 18, 0, 0), (2026, 9, 10, 14, 0, 0)]"

lemma liquid_calls_times:
  "map tle_timestamp (gather timeline_of (liquid_calls v4 utc)) = map utc liquid_times"
  by (simp add: liquid_calls_def liquid_segments liquid_times_def observed_at_def updated_at_def)

lemma liquid_calls_updates:
  "map upd_timestamp (gather updates_of (liquid_calls v4 utc)) = [updated_at utc]"
  by (simp add: liquid_calls_def liquid_segments)


lemma liquid_times_ordered: "sorted liquid_times" "\<forall>t \<in> set liquid_times. calendar_time t"
  by (simp_all add: liquid_times_def)

lemma utc_sorted:
  assumes "utc_ordered utc" "sorted ts" "\<forall>t \<in> set ts. calendar_time t"
  shows "sorted (map utc ts)"
proof -
  have "utc a \<le> utc b" if "a \<in> set ts" "b \<in> set ts" "a \<le> b" for a b
    using assms(1,3) that unfolding utc_ordered_def by blast
  then show ?thesis unfolding sorted_map by (rule sorted_wrt_mono_rel [OF _ assms(2)])
qed

lemma liquid_graph_closed: "set (gather ends_of liquid_edges) \<subseteq> set (gather node_ids_of liquid_nodes)"
  by (simp add: liquid_nodes_def liquid_edges_def)

lemma liquid_funds: "funds_ok (liquid_recovery utc)"
  by (simp add: funds_ok_def liquid_recovery_def recovery_with_estimate_def recovery_with_source_def
      recovery_summary_new_def saturating_sub_def)

lemma liquid_incident_ok:
  assumes "utc_ordered utc"
  shows "incident_ok (fold builder_step (liquid_calls v4 utc) (builder_new rt case_id title summary sev))"
proof (rule fold_incident_ok [OF liquid_calls_unsorted liquid_calls_recovery liquid_funds])
  show "set (gather ends_of (liquid_calls v4 utc)) \<subseteq> set (gather node_ids_of (liquid_calls v4 utc))"
    unfolding liquid_calls_nodes by (rule liquid_graph_closed)
  show "sorted (map tle_timestamp (gather timeline_of (liquid_calls v4 utc)))"
    unfolding liquid_calls_times by (rule utc_sorted [OF assms liquid_times_ordered])
  show "distinct (map evi_id (gather evidence_of (liquid_calls v4 utc)))"
    by (simp add: liquid_calls_evidence liquid_ev1_def liquid_ev2_def liquid_ev3_def liquid_ev4_def
        ev1_id_def ev2_id_def ev3_id_def ev4_id_def)
  show "\<forall>m \<in> set (gather messages_of (liquid_calls v4 utc)).
      ocm_sender_attribution_confidence m \<noteq> OnChainVerified"
    by (simp add: liquid_calls_messages liquid_msg1_def liquid_msg2_def)
  show "sorted (map upd_timestamp (gather updates_of (liquid_calls v4 utc)))"
    by (simp add: liquid_calls_updates)
qed

lemma fold_case_id: "ic_case_id (fold builder_step cs i) = ic_case_id i"
proof (induction cs arbitrary: i)
  case (Cons c cs)
  have "ic_case_id (builder_step c i) = ic_case_id i"
    by (cases c) (simp_all add: builder_defs sort_timeline_def)
  then show ?case by (simp add: Cons.IH)
qed simp


lemma liquid_targets_fresh:
  "distinct (map wt_id (canonical_liquid_watch_targets rt))"
  "distinct (map wt_kind (canonical_liquid_watch_targets rt))"
  "\<forall>t \<in> set (canonical_liquid_watch_targets rt). wt_incident_id t = LIQUID_INCIDENT_UUID \<and> wt_active t"
  by (simp_all add: canonical_liquid_watch_targets_def liquid_t1_def liquid_t2_def liquid_t3_def
      liquid_t4_def liquid_t5_def liquid_t6_def new_outpoint_def new_transaction_def new_address_def
      watch_target_new_def)

lemma seed_targets_fresh:
  "distinct (map wt_id (xs @ ts)) \<Longrightarrow> distinct (map wt_kind (xs @ ts)) \<Longrightarrow> fold seed_target ts xs = xs @ ts"
proof (induction ts arbitrary: xs)
  case (Cons t ts)
  have "wt_id t \<notin> wt_id ` set xs" "wt_kind t \<notin> wt_kind ` set xs" using Cons.prems by auto
  then have "seed_target t xs = xs @ [t]" unfolding seed_target_def list_ex_iff
    by (metis (mono_tags, lifting) image_eqI)
  then show ?case using Cons.IH [of "xs @ [t]"] Cons.prems by simp
qed simp

section \<open>Properties\<close>

text \<open>
  C28. The shipped dossier never makes the daemon panic: as long as the calendar keeps the order of
  valid times, building it succeeds, whatever the clock and the random identifiers are, and the
  result passes every check of a well-formed dossier. A storage seeded with it returns it under its
  fixed identifier, with 596.02 BTC outstanding, and lists exactly its six active watch targets.
\<close>

theorem shipped_dossier_well_formed:
  assumes "utc_ordered utc"
  shows "\<exists>i. create_liquid_2026_incident rt v4 utc = Inr i \<and> incident_ok i
     \<and> ic_case_id i = LIQUID_CASE_ID \<and> rec_outstanding_sats (ic_recovery i) = 59602000000
     \<and> (let s = new_empty i (canonical_liquid_watch_targets rt') max_events in
          get_incident_by_id LIQUID_INCIDENT_UUID s = Some i
          \<and> list_incidents 10 0 s = [i]
          \<and> list_watch_targets (Some LIQUID_INCIDENT_UUID) 10 0 s = canonical_liquid_watch_targets rt'
          \<and> length (canonical_liquid_watch_targets rt') = 6)"
proof -
  define n where "n = builder_new rt LIQUID_CASE_ID ''Liquid Network Security Incident''
    ''Consensus-critical range-proof verification cache flaw in Elements software resulting in unauthorized creation of unbacked L-BTC and extraction of Bitcoin mainnet reserves via peg-out, followed by partial fund return.''
    SevCritical"
  define i where "i = fold builder_step (liquid_calls v4 utc) n"
  have ok: "incident_ok i" unfolding i_def n_def by (rule liquid_incident_ok [OF assms])
  then have made: "create_liquid_2026_incident rt v4 utc = Inr i"
    by (simp add: create_liquid_2026_incident_def build_def validate_incident_ok [symmetric]
        i_def [symmetric] n_def [symmetric])
  have "ic_case_id i = LIQUID_CASE_ID" by (simp add: i_def fold_case_id n_def builder_new_def)
  moreover have "ic_id i = LIQUID_INCIDENT_UUID" by (simp add: i_def fold_id liquid_calls_id)
  moreover have "rec_outstanding_sats (ic_recovery i) = 59602000000"
    by (simp add: i_def fold_recovery liquid_calls_recovery liquid_recovery_def recovery_with_estimate_def
        recovery_with_source_def recovery_summary_new_def saturating_sub_def)
  moreover have "fold seed_target (canonical_liquid_watch_targets rt') [] = canonical_liquid_watch_targets rt'"
    using seed_targets_fresh [of "[]"] liquid_targets_fresh(1,2) by simp
  moreover have "filter (\<lambda>t. wt_incident_id t = LIQUID_INCIDENT_UUID) (canonical_liquid_watch_targets rt')
      = canonical_liquid_watch_targets rt'"
    using liquid_targets_fresh(3) by (simp add: filter_id_conv)
  moreover have "length (canonical_liquid_watch_targets rt') = 6"
    by (simp add: canonical_liquid_watch_targets_def)
  ultimately show ?thesis using made ok
    by (simp add: new_empty_def seed_canonical_incidents_def empty_storage_def get_incident_by_id_def
        list_incidents_def list_watch_targets_def page_def)
qed

text \<open>A calendar of 31-day months, with instants counted in nanoseconds.\<close>

fun sample_utc :: "utc_time \<Rightarrow> datetime" where
  "sample_utc (y, mo, d, h, mi, s) =
     1000000000 * int ((((((y * 12 + mo) * 31 + d) * 24 + h) * 60 + mi) * 60) + s)"

lemma sample_utc_ordered: "utc_ordered sample_utc"
proof -
  have "sample_utc a \<le> sample_utc b" if "calendar_time a" "calendar_time b" "a \<le> b" for a b
  proof -
    obtain y mo d h mi s where a: "a = (y, mo, d, h, mi, s)" by (cases a) auto
    obtain y' mo' d' h' mi' s' where b: "b = (y', mo', d', h', mi', s')" by (cases b) auto
    show ?thesis using that unfolding a b less_eq_prod_simp by (auto; linarith)
  qed
  then show ?thesis unfolding utc_ordered_def by blast
qed

theorem shipped_dossier_well_formed_witness:
  "\<exists>i. create_liquid_2026_incident sample_runtime of_nat sample_utc = Inr i \<and> incident_ok i
     \<and> get_incident_by_id LIQUID_INCIDENT_UUID
         (new_empty i (canonical_liquid_watch_targets sample_runtime) 100) = Some i"
  using shipped_dossier_well_formed [OF sample_utc_ordered, of sample_runtime of_nat sample_runtime 100]
  by (auto simp: Let_def)

end
