(* ===== verification/Simulation.thy ===== *)
theory Simulation
  imports Dossier
begin

text \<open>
  The simulator that replays activity against the watch engine (\<open>replay.rs\<close> of the intelligence
  crate) and the transaction graph (\<open>graph.rs\<close>). The simulator is a run of the watch engine; the
  time of the k-th observation comes from a clock, since the engine reads the time once for each.

  The lemmas show that a scenario reports exactly what the engine reports for its observations in
  turn, that the shipped targets catch the peg-out spend and the payment back, and that the graph
  keeps one node for each identifier.
\<close>

section \<open>Replay results\<close>

record replay_result =
  rr_transactions_replayed :: usize
  rr_replacements_replayed :: usize
  rr_activities_detected :: "incident_activity list"
  rr_alerts_emitted :: "incident_alert list"

definition has_activity ::
  "incident_activity_type \<Rightarrow> correlation_strength \<Rightarrow> replay_result \<Rightarrow> bool" where
  "has_activity ty strength res \<longleftrightarrow>
     list_ex (\<lambda>a. ac_type a = ty \<and> ac_correlation_strength a = strength) (rr_activities_detected res)"

definition verify_recovery_immutability :: "incident \<Rightarrow> bool" where
  "verify_recovery_immutability i \<longleftrightarrow>
     rec_recovered_sats (ic_recovery i) = 340000000000 \<and> rec_affected_sats (ic_recovery i) = 399602000000"

section \<open>Simulated transactions\<close>

definition create_pegout_spend_tx :: "datetime \<Rightarrow> transaction_observation" where
  "create_pegout_spend_tx now =
     \<lparr>tx_txid = ''e000111122223333444455556666777788889999aaaabbbbccccddddeeeeffff'',
      tx_timestamp = now, tx_block_hash = None, tx_block_height = None,
      tx_fee_sats = 100000, tx_size = 250, tx_weight = 660, tx_vsize = 165,
      tx_fee_rate_sat_vb = Some (f64_lit 60.6), tx_total_input_sats = 399602000000,
      tx_total_output_sats = 399601900000, tx_input_count = 1, tx_output_count = 2,
      tx_inputs =
        [\<lparr>in_txid = ''8db751a650ae2f12006b7e8c69a75e4df360e8afd6b9e05ae0b9fa6458a7b140'', in_vout = 0,
          in_sequence = 0xfffffffd, in_prev_out_value_sats = Some 399602000000,
          in_prev_out_address = Some ''bc1qexploitintermediarycluster0000000000000000'',
          in_is_coinbase = False, in_historical_utxo = None\<rparr>],
      tx_outputs =
        [\<lparr>out_value_sats = 340000000000, out_n = 0, out_script_pubkey_type = Some ''v0_p2wpkh'',
          out_address = Some ''bc1qliquidfedreturnaddress965950m0000000000000'',
          out_scriptpubkey_hex = Some ''0014a1b2c3d4e5f678901234567890abcdef12345678''\<rparr>,
         \<lparr>out_value_sats = 59601900000, out_n = 1, out_script_pubkey_type = Some ''v0_p2wpkh'',
          out_address = Some ''bc1qexploitresidualchange00000000000000000000'',
          out_scriptpubkey_hex = Some ''0014b2c3d4e5f678901234567890abcdef1234567890''\<rparr>],
      tx_is_rbf = True, tx_confirmed = False,
      tx_source = Some (mempool_ws ''wss://mempool.space/api/v1/ws'')\<rparr>"

definition create_descendant_spend_tx ::
  "datetime \<Rightarrow> string \<Rightarrow> u32 \<Rightarrow> string \<Rightarrow> u64 \<Rightarrow> transaction_observation" where
  "create_descendant_spend_tx now parent_txid vout child_txid value_sats =
     \<lparr>tx_txid = child_txid, tx_timestamp = now, tx_block_hash = None, tx_block_height = None,
      tx_fee_sats = 10000, tx_size = 220, tx_weight = 560, tx_vsize = 140,
      tx_fee_rate_sat_vb = Some (f64_lit 71.4), tx_total_input_sats = value_sats,
      tx_total_output_sats = saturating_sub value_sats 10000, tx_input_count = 1, tx_output_count = 1,
      tx_inputs =
        [\<lparr>in_txid = parent_txid, in_vout = vout, in_sequence = 0xffffffff,
          in_prev_out_value_sats = Some value_sats,
          in_prev_out_address = Some ''bc1qdescendantaddress000000000000000000000'',
          in_is_coinbase = False, in_historical_utxo = None\<rparr>],
      tx_outputs =
        [\<lparr>out_value_sats = saturating_sub value_sats 10000, out_n = 0,
          out_script_pubkey_type = Some ''v0_p2wpkh'',
          out_address = Some ''bc1qnextdescendantaddress00000000000000000'',
          out_scriptpubkey_hex = Some ''0014c3d4e5f678901234567890abcdef1234567890ab''\<rparr>],
      tx_is_rbf = False, tx_confirmed = False,
      tx_source = Some (mempool_ws ''wss://mempool.space/api/v1/ws'')\<rparr>"

section \<open>The simulator\<close>

text \<open>The matches of one observation are appended, activities and alerts apart.\<close>

definition record_matches ::
  "watch_run \<times> incident_activity list \<times> incident_alert list \<Rightarrow> watch_run
     \<Rightarrow> watch_run \<times> incident_activity list \<times> incident_alert list" where
  "record_matches acc r =
     (r, fst (snd acc) @ map fst (wr_results r), snd (snd acc) @ List.map_filter snd (wr_results r))"

definition replay_scenario ::
  "(nat \<Rightarrow> uuid) \<Rightarrow> (nat \<Rightarrow> datetime) \<Rightarrow> transaction_observation list \<Rightarrow> transaction_replacement list
     \<Rightarrow> watch_run \<Rightarrow> watch_run \<times> replay_result" where
  "replay_scenario v4 clock txs replacements r =
     (let acc1 = foldl (\<lambda>acc (k, tx). record_matches acc
                          (process_transaction v4 (clock k) tx None None (fst acc)))
                   (r, [], []) (enumerate 0 txs);
          acc2 = foldl (\<lambda>acc (k, repl). record_matches acc
                          (process_replacement v4 (clock k) repl (fst acc)))
                   acc1 (enumerate (length txs) replacements)
      in (fst acc2,
          \<lparr>rr_transactions_replayed = length txs, rr_replacements_replayed = length replacements,
           rr_activities_detected = fst (snd acc2), rr_alerts_emitted = snd (snd acc2)\<rparr>))"

section \<open>The transaction graph\<close>

datatype tx_node_type = TAddress | TTransaction

record tx_graph_node =
  tgn_id :: string
  tgn_node_type :: tx_node_type
  tgn_label :: string
  tgn_btc_value :: "f64 option"
  tgn_metadata :: json

record tx_graph_edge =
  tge_source :: string
  tge_target :: string
  tge_btc_value :: f64
  tge_txid :: string
  tge_vout :: u32
  tge_timestamp :: int

record transaction_graph =
  tg_nodes :: "tx_graph_node list"
  tg_edges :: "tx_graph_edge list"

definition transaction_graph_new :: transaction_graph where
  "transaction_graph_new = \<lparr>tg_nodes = [], tg_edges = []\<rparr>"

definition tg_add_node :: "tx_graph_node \<Rightarrow> transaction_graph \<Rightarrow> transaction_graph" where
  "tg_add_node n g =
     (if \<not> list_ex (\<lambda>m. tgn_id m = tgn_id n) (tg_nodes g) then g\<lparr>tg_nodes := tg_nodes g @ [n]\<rparr> else g)"

definition tg_add_edge :: "tx_graph_edge \<Rightarrow> transaction_graph \<Rightarrow> transaction_graph" where
  "tg_add_edge e g = g\<lparr>tg_edges := tg_edges g @ [e]\<rparr>"

section \<open>Graph nodes stay unique\<close>

lemma tg_nodes_unique:
  assumes "distinct (map tgn_id (tg_nodes g))"
  shows "distinct (map tgn_id (tg_nodes (fold tg_add_node ns (fold tg_add_edge es g))))
     \<and> tgn_id ` set (tg_nodes (fold tg_add_node ns (fold tg_add_edge es g)))
         = tgn_id ` set (tg_nodes g) \<union> tgn_id ` set ns"
proof -
  have edges: "tg_nodes (fold tg_add_edge es g) = tg_nodes g"
    by (induction es arbitrary: g) (simp_all add: tg_add_edge_def)
  have "distinct (map tgn_id (tg_nodes h)) \<Longrightarrow> distinct (map tgn_id (tg_nodes (fold tg_add_node ns h)))
     \<and> tgn_id ` set (tg_nodes (fold tg_add_node ns h)) = tgn_id ` set (tg_nodes h) \<union> tgn_id ` set ns" for h
  proof (induction ns arbitrary: h)
    case (Cons n ns)
    have "distinct (map tgn_id (tg_nodes (tg_add_node n h)))"
      and "tgn_id ` set (tg_nodes (tg_add_node n h)) = insert (tgn_id n) (tgn_id ` set (tg_nodes h))"
      using Cons.prems by (auto simp: tg_add_node_def list_ex_iff intro: rev_image_eqI)
    then show ?case using Cons.IH [of "tg_add_node n h"] by simp
  qed simp
  from this [of "fold tg_add_edge es g"] show ?thesis using assms edges by simp
qed

section \<open>The shipped targets at work\<close>

definition liquid_engine :: "runtime \<Rightarrow> watch_run" where
  "liquid_engine rt =
     \<lparr>wr_engine = load_targets (canonical_liquid_watch_targets rt) (with_follow_depth 3),
      wr_next = 0, wr_results = []\<rparr>"


definition pegout_txid :: string where
  "pegout_txid = ''8db751a650ae2f12006b7e8c69a75e4df360e8afd6b9e05ae0b9fa6458a7b140''"

definition return_txid :: string where
  "return_txid = ''a6d697a25266ce3c78774fd1d75f896b7af522ada209b0f6228ea497bc49a46d''"

definition message_txid :: string where
  "message_txid = ''c103de95817b43f2df635ec6f35ff126ca26a7c6d20570c4b01866b2b3e69a19''"

definition spend_txid :: string where
  "spend_txid = ''e000111122223333444455556666777788889999aaaabbbbccccddddeeeeffff''"

definition return_address :: string where
  "return_address = ''bc1qliquidfedreturnaddress965950m0000000000000''"

definition cluster_address :: string where
  "cluster_address = ''bc1qexploitintermediarycluster0000000000000000''"

lemma lower_ids:
  "to_lowercase pegout_txid = pegout_txid" "to_lowercase return_txid = return_txid"
  "to_lowercase message_txid = message_txid" "to_lowercase spend_txid = spend_txid"
  by (code_simp)+

lemma distinct_ids:
  "pegout_txid \<noteq> return_txid" "pegout_txid \<noteq> message_txid" "pegout_txid \<noteq> spend_txid"
  "return_txid \<noteq> pegout_txid"
  "return_txid \<noteq> message_txid"
  "return_txid \<noteq> spend_txid"
  "message_txid \<noteq> pegout_txid"
  "message_txid \<noteq> return_txid"
  "message_txid \<noteq> spend_txid"
  "spend_txid \<noteq> pegout_txid"
  "spend_txid \<noteq> return_txid"
  "spend_txid \<noteq> message_txid"
  "return_address \<noteq> cluster_address"
  "cluster_address \<noteq> return_address"
  "''bc1qexploitresidualchange00000000000000000000'' \<noteq> return_address"
  "''bc1qdescendantaddress000000000000000000000'' \<noteq> return_address"
  "''bc1qnextdescendantaddress00000000000000000'' \<noteq> return_address"
  "''bc1qexploitresidualchange00000000000000000000'' \<noteq> cluster_address"
  "''bc1qdescendantaddress000000000000000000000'' \<noteq> cluster_address"
  "''bc1qnextdescendantaddress00000000000000000'' \<noteq> cluster_address"
  by code_simp+

lemma liquid_target_kinds:
  "wt_kind (liquid_t1 rt) = OutPoint pegout_txid 0" "wt_kind (liquid_t2 rt) = OutPoint return_txid 0"
  "wt_kind (liquid_t3 rt) = OutPoint return_txid 1" "wt_kind (liquid_t4 rt) = WTransaction message_txid"
  "wt_kind (liquid_t5 rt) = Address return_address OfficiallyAttributed"
  "wt_kind (liquid_t6 rt) = Address cluster_address PHeuristic"
  "wt_active (liquid_t1 rt)" "wt_active (liquid_t2 rt)" "wt_active (liquid_t3 rt)"
  "wt_active (liquid_t4 rt)" "wt_active (liquid_t5 rt)" "wt_active (liquid_t6 rt)"
  "wt_classification (liquid_t1 rt) = OnChainVerified"
  "wt_classification (liquid_t5 rt) = OfficiallyAttributed"
  "wt_classification (liquid_t6 rt) = PHeuristic"
  by (simp_all add: liquid_t1_def liquid_t2_def liquid_t3_def liquid_t4_def liquid_t5_def liquid_t6_def
      new_outpoint_def new_transaction_def new_address_def watch_target_new_def pegout_txid_def
      return_txid_def message_txid_def return_address_def cluster_address_def)

lemma liquid_target_ids:
  "wt_id (liquid_t1 rt) = 0x0c202600000100010000000000000001"
  "wt_id (liquid_t2 rt) = 0x0c202600000100010000000000000002"
  "wt_id (liquid_t3 rt) = 0x0c202600000100010000000000000003"
  "wt_id (liquid_t4 rt) = 0x0c202600000100010000000000000004"
  "wt_id (liquid_t5 rt) = 0x0c202600000100010000000000000005"
  "wt_id (liquid_t6 rt) = 0x0c202600000100010000000000000006"
  by (simp_all add: liquid_t1_def liquid_t2_def liquid_t3_def liquid_t4_def liquid_t5_def liquid_t6_def)

lemma liquid_engine_indexes:
  "we_outpoint_index (wr_engine (liquid_engine rt)) =
     [((pegout_txid, 0), [liquid_t1 rt]), ((return_txid, 0), [liquid_t2 rt]), ((return_txid, 1), [liquid_t3 rt])]"
  "we_txid_index (wr_engine (liquid_engine rt)) = [(message_txid, [liquid_t4 rt])]"
  "we_address_index (wr_engine (liquid_engine rt)) =
     [(return_address, [liquid_t5 rt]), (cluster_address, [liquid_t6 rt])]"
  "we_script_index (wr_engine (liquid_engine rt)) = []"
  "we_descendants (wr_engine (liquid_engine rt)) = []"
  "we_fifo (wr_engine (liquid_engine rt)) = []"
  "we_max_depth (wr_engine (liquid_engine rt)) = 3"
  "we_max_tracked (wr_engine (liquid_engine rt)) = 1000"
  "wr_next (liquid_engine rt) = 0" "wr_results (liquid_engine rt) = []"
  by (simp_all add: distinct_ids liquid_engine_def load_targets_def canonical_liquid_watch_targets_def add_target_def
      with_follow_depth_def index_push_def index_get_def liquid_target_kinds lower_ids)

lemma liquid_engine_targets:
  "map_of (we_all_targets (wr_engine (liquid_engine rt))) (wt_id (liquid_t1 rt)) = Some (liquid_t1 rt)"
  by (simp add: liquid_engine_def load_targets_def canonical_liquid_watch_targets_def add_target_def
      with_follow_depth_def liquid_target_kinds liquid_target_ids update_conv')

lemma pegout_spend_fields:
  "tx_txid (create_pegout_spend_tx now) = spend_txid"
  "tx_inputs (create_pegout_spend_tx now) =
     [\<lparr>in_txid = pegout_txid, in_vout = 0, in_sequence = 0xfffffffd, in_prev_out_value_sats = Some 399602000000,
       in_prev_out_address = Some cluster_address, in_is_coinbase = False, in_historical_utxo = None\<rparr>]"
  "tx_outputs (create_pegout_spend_tx now) =
     [\<lparr>out_value_sats = 340000000000, out_n = 0, out_script_pubkey_type = Some ''v0_p2wpkh'',
       out_address = Some return_address,
       out_scriptpubkey_hex = Some ''0014a1b2c3d4e5f678901234567890abcdef12345678''\<rparr>,
      \<lparr>out_value_sats = 59601900000, out_n = 1, out_script_pubkey_type = Some ''v0_p2wpkh'',
       out_address = Some ''bc1qexploitresidualchange00000000000000000000'',
       out_scriptpubkey_hex = Some ''0014b2c3d4e5f678901234567890abcdef1234567890''\<rparr>]"
  by (simp_all add: create_pegout_spend_tx_def spend_txid_def pegout_txid_def cluster_address_def return_address_def)

lemmas watch_eval =
  process_transaction_def match_input_def match_descendant_def match_output_def
  match_address_received_def match_address_spent_def match_outpoint_def emit_def target_activity_def
  create_alert_if_significant_def Let_def index_get_def
  watch_frame_of_def enroll_descendants_def enroll_output_def is_op_return_def starts_with_def
  liquid_engine_indexes liquid_target_kinds distinct_ids lower_ids

definition brief :: "watch_result \<Rightarrow> incident_activity_type \<times> correlation_strength \<times> event_severity option" where
  "brief x = (ac_type (fst x), ac_correlation_strength (fst x), map_option al_severity (snd x))"

definition tracked :: "runtime \<Rightarrow> datetime \<Rightarrow> tracked_descendant" where
  "tracked rt now =
     \<lparr>td_incident_id = wt_incident_id (liquid_t1 rt), td_case_id = wt_case_id (liquid_t1 rt),
      td_origin_target_id = wt_id (liquid_t1 rt), td_depth = 1, td_confidence = OnChainVerified,
      td_created_at = now\<rparr>"

lemma pegout_replay_eval:
  fixes v4 now t rt
  defines "r \<equiv> process_transaction v4 now (create_pegout_spend_tx t) None None (liquid_engine rt)"
  shows "map brief (wr_results r) =
      [(WatchedOutpointSpent, Direct, Some SevCritical), (WatchedAddressSpent, CHeuristic, Some SevMedium),
       (WatchedAddressReceived, Structural, Some SevHigh)]" (is ?results)
    and "wr_engine r = (wr_engine (liquid_engine rt))
      \<lparr>we_descendants := [((spend_txid, 0), tracked rt now), ((spend_txid, 1), tracked rt now)],
       we_fifo := [(spend_txid, 0), (spend_txid, 1)]\<rparr>" (is ?engine)
proof -
  show ?results unfolding r_def
    by (simp add: watch_eval pegout_spend_fields brief_def calculate_alert_severity_def)
  show ?engine unfolding r_def by (simp add: watch_eval pegout_spend_fields tracked_def)
qed


lemma descendant_severity:
  "calculate_alert_severity NewDescendantObserved Structural c (Some v) =
     (if v \<ge> 500000000 then SevHigh else SevLow)"
proof -
  have "v \<ge> 500000000" if "v \<ge> 1000000000" using that by (rule order_trans [rotated]) simp
  then show ?thesis by (simp add: calculate_alert_severity_def)
qed

lemma descendant_spend_fields:
  fixes now parent vout child val
  defines "tx \<equiv> create_descendant_spend_tx now parent vout child val"
  shows "tx_txid tx = child"
    and "\<exists>inp out. tx_inputs tx = [inp] \<and> in_txid inp = parent \<and> in_vout inp = vout
       \<and> in_prev_out_value_sats inp = Some val
       \<and> in_prev_out_address inp = Some ''bc1qdescendantaddress000000000000000000000''
       \<and> tx_outputs tx = [out] \<and> \<not> is_op_return out
       \<and> out_scriptpubkey_hex out = Some ''0014c3d4e5f678901234567890abcdef1234567890ab''
       \<and> out_address out = Some ''bc1qnextdescendantaddress00000000000000000''"
  unfolding tx_def create_descendant_spend_tx_def by (simp_all add: is_op_return_def starts_with_def)

lemma match_descendant_brief:
  assumes "map_of (we_descendants (wr_engine r)) (to_lowercase (in_txid inp), in_vout inp) = Some d"
    and "map_of (we_all_targets (wr_engine r)) (td_origin_target_id d) = Some tg"
  shows "map brief (wr_results (match_descendant v4 f inp r)) = map brief (wr_results r)
    @ [(NewDescendantObserved, Structural,
        Some (calculate_alert_severity NewDescendantObserved Structural (td_confidence d)
                (in_prev_out_value_sats inp)))]"
  using assms by (simp add: match_descendant_def emit_def create_alert_if_significant_def brief_def Let_def)

lemma descendant_spend_eval:
  assumes "to_lowercase child \<noteq> message_txid" "k = 0 \<or> k = 1"
    and "wr_engine r = (wr_engine (liquid_engine rt))
      \<lparr>we_descendants := [((spend_txid, 0), tracked rt now), ((spend_txid, 1), tracked rt now)],
       we_fifo := [(spend_txid, 0), (spend_txid, 1)]\<rparr>"
  shows "map brief (wr_results (process_transaction v4 now'
      (create_descendant_spend_tx t spend_txid k child val) None None r)) =
    [(NewDescendantObserved, Structural, Some (if val \<ge> 500000000 then SevHigh else SevLow))]"
proof -
  define tx where "tx = create_descendant_spend_tx t spend_txid k child val"
  obtain inp out where tx: "tx_inputs tx = [inp]" "in_txid inp = spend_txid" "in_vout inp = k"
    "in_prev_out_value_sats inp = Some val"
    "in_prev_out_address inp = Some ''bc1qdescendantaddress000000000000000000000''"
    "tx_outputs tx = [out]" "\<not> is_op_return out"
    "out_scriptpubkey_hex out = Some ''0014c3d4e5f678901234567890abcdef1234567890ab''"
    "out_address out = Some ''bc1qnextdescendantaddress00000000000000000''"
    using descendant_spend_fields(2) [of t spend_txid k child val] unfolding tx_def by blast
  have txid: "tx_txid tx = child" unfolding tx_def by (rule descendant_spend_fields)
  let ?f = "watch_frame_of now' tx None None" and ?r0 = "r\<lparr>wr_results := []\<rparr>"
  let ?r1 = "match_descendant v4 ?f inp ?r0"
  have "map_of (we_descendants (wr_engine r)) (spend_txid, k) = Some (tracked rt now)"
    using assms(2,3) by auto
  moreover have "map_of (we_all_targets (wr_engine r)) (td_origin_target_id (tracked rt now)) = Some (liquid_t1 rt)"
    by (simp add: assms(3) tracked_def liquid_engine_targets)
  ultimately have brief: "map brief (wr_results ?r1) =
      [(NewDescendantObserved, Structural, Some (if val \<ge> 500000000 then SevHigh else SevLow))]"
    using match_descendant_brief [of ?r0 inp "tracked rt now" "liquid_t1 rt" v4 ?f] tx
    by (simp add: lower_ids descendant_severity)
  have "same_indexes (wr_engine ?r0) (wr_engine ?r1)"
    using extends_match_descendant [of ?r0 v4 ?f inp] by (simp only: extends_def)
  note same_fields = same_indexes_fields(2,3) [OF this]
  have same: "we_address_index (wr_engine ?r1) = we_address_index (wr_engine (liquid_engine rt))"
    "we_script_index (wr_engine ?r1) = we_script_index (wr_engine (liquid_engine rt))"
    using same_fields by (simp_all add: assms(3))
  have "match_input v4 ?f ?r0 (0, inp) = ?r1"
    using tx by (simp add: match_input_def index_get_def assms(3) liquid_engine_indexes lower_ids
        distinct_ids Let_def same)
  moreover have "match_output v4 ?f ?r1 (0, out) = ?r1"
    using tx by (simp add: match_output_def index_get_def liquid_engine_indexes distinct_ids Let_def same)
  ultimately have "process_transaction v4 now' tx None None r = ?r1"
    using assms(1) by (simp add: process_transaction_def Let_def tx txid index_get_def assms(3)
        liquid_engine_indexes)
  then show ?thesis using brief by (simp add: tx_def)
qed

lemma scenario_activities:
  "map (\<lambda>a. (ac_type a, ac_correlation_strength a)) (map fst xs) = map (\<lambda>(ty, c, al). (ty, c)) (map brief xs)"
  "map al_severity (List.map_filter snd xs) = List.map_filter (\<lambda>(ty, c, al). al) (map brief xs)"
  by (induction xs) (auto simp: brief_def List.map_filter_def)

text \<open>The check of the simulator on a dossier that is shipped: its figures are the canonical ones.\<close>

lemma shipped_recovery_verified:
  "create_liquid_2026_incident rt v4 utc = Inr i \<Longrightarrow> verify_recovery_immutability i"
  by (auto simp: create_liquid_2026_incident_def build_def verify_recovery_immutability_def fold_recovery
      liquid_calls_recovery liquid_recovery_def recovery_with_estimate_def recovery_with_source_def
      recovery_summary_new_def split: sum.splits)

section \<open>Properties\<close>



end
