(* ===== verification/Postgres.thy ===== *)
theory Postgres
  imports Storage
begin

text \<open>
  The PostgreSQL back end (\<open>postgres.rs\<close>): what it binds to its statements, the effect of the
  statements on the tables, and how it reads rows back. A table is the list of its rows in the order
  of insertion. The server is a parameter: it keeps instants and JSON in its own precision and form
  (\<open>pe_time\<close>, \<open>pe_jsonb\<close>, \<open>pe_numeric\<close>), orders rows that \<open>ORDER BY\<close> leaves equal as it likes
  (\<open>pe_tie\<close>) and texts by its collation (\<open>pe_collate\<close>), and may refuse any statement, for a broken constraint or a lost connection; the refusal is an
  argument of the operation and a refused statement changes nothing. Columns that only this back end
  writes hold what its encoders write, so decoding covers these shapes. Offsets are below two to the 63.

  The lemmas show that names, sources and heights survive the columns, and that the back end agrees
  with the in-memory one on what saving an event again may change.
\<close>

section \<open>The server\<close>

record pg_env =
  pe_time :: "datetime \<Rightarrow> datetime"
  pe_jsonb :: "json \<Rightarrow> json"
  pe_numeric :: "string \<Rightarrow> string"
  pe_numeric_le :: "string \<Rightarrow> string \<Rightarrow> bool"
  pe_tie :: "uuid \<Rightarrow> nat"
  pe_collate :: "string \<Rightarrow> nat"
  pe_float8 :: "string \<Rightarrow> f64"
  pe_serde_time :: "datetime \<Rightarrow> string"
  pe_parse_time :: "string \<Rightarrow> datetime option"

text \<open>The answer of the server to one statement: the error text, if it refuses.\<close>

type_synonym answer = "string option"

definition accepted :: "answer \<Rightarrow> storage_error + 'a \<Rightarrow> storage_error + 'a" where
  "accepted a r = (case a of Some msg \<Rightarrow> Inl (Database msg) | None \<Rightarrow> r)"

text \<open>\<open>INSERT .. ON CONFLICT (key) DO UPDATE\<close>: the row with the same key is changed, else the row is new.\<close>

definition on_conflict :: "('r \<Rightarrow> bool) \<Rightarrow> ('r \<Rightarrow> 'r) \<Rightarrow> 'r \<Rightarrow> 'r list \<Rightarrow> 'r list" where
  "on_conflict same change row rows =
     (case position same rows of Some i \<Rightarrow> rows[i := change (rows ! i)] | None \<Rightarrow> rows @ [row])"

text \<open>\<open>?\<close> in a loop over rows: the first error is returned.\<close>

fun try_map :: "('a \<Rightarrow> 'e + 'b) \<Rightarrow> 'a list \<Rightarrow> 'e + 'b list" where
  "try_map f [] = Inr []"
| "try_map f (x # xs) =
     (case f x of Inl e \<Rightarrow> Inl e
      | Inr y \<Rightarrow> (case try_map f xs of Inl e \<Rightarrow> Inl e | Inr ys \<Rightarrow> Inr (y # ys)))"

definition try_bind :: "'e + 'a \<Rightarrow> ('a \<Rightarrow> 'e + 'b) \<Rightarrow> 'e + 'b" where
  "try_bind r f = (case r of Inl e \<Rightarrow> Inl e | Inr x \<Rightarrow> f x)"

lemma try_bind_simps [simp]: "try_bind (Inl e) f = Inl e" "try_bind (Inr x) f = f x"
  by (simp_all add: try_bind_def)

lemma try_bind_Inr: "try_bind r f = Inr y \<longleftrightarrow> (\<exists>x. r = Inr x \<and> f x = Inr y)"
  by (cases r) auto

text \<open>A statement is sent once its arguments have been converted.\<close>

definition bound :: "answer \<Rightarrow> storage_error + 'r \<Rightarrow> storage_error + 'r" where
  "bound a row = try_bind row (\<lambda>r. accepted a (Inr r))"

definition opt_i64 :: "u64 option \<Rightarrow> storage_error + int option" where
  "opt_i64 v = (case v of Some h \<Rightarrow> try_bind (u64_to_i64_checked h) (\<lambda>i. Inr (Some i)) | None \<Rightarrow> Inr None)"

definition opt_u64 :: "int option \<Rightarrow> storage_error + u64 option" where
  "opt_u64 v = (case v of Some h \<Rightarrow> try_bind (i64_to_u64_checked h) (\<lambda>w. Inr (Some w)) | None \<Rightarrow> Inr None)"

section \<open>Names of enumerations\<close>

text \<open>Reading a name accepts the name the encoder writes and the aliases of the type.\<close>

definition read_name :: "('a \<Rightarrow> string) \<Rightarrow> 'a list \<Rightarrow> (string \<times> 'a) list \<Rightarrow> string \<Rightarrow> 'a option" where
  "read_name name all aliases s = map_of (map (\<lambda>x. (name x, x)) all @ aliases) s"

fun event_type_name :: "event_type \<Rightarrow> string" where
  "event_type_name LargeTransfer = ''LARGE_TRANSFER''"
| "event_type_name DormantCoinsMoved = ''DORMANT_COINS_MOVED''"
| "event_type_name Consolidation = ''CONSOLIDATION''"
| "event_type_name FanOut = ''FAN_OUT''"
| "event_type_name ExtremeFee = ''EXTREME_FEE''"
| "event_type_name TransactionReplacement = ''TRANSACTION_REPLACEMENT''"
| "event_type_name LongBlockInterval = ''LONG_BLOCK_INTERVAL''"
| "event_type_name ReorgDetected = ''REORG_DETECTED''"
| "event_type_name MiningAnomaly = ''MINING_ANOMALY''"
| "event_type_name UnusualFeeRatio = ''UNUSUAL_FEE_RATIO''"

definition read_event_type :: "string \<Rightarrow> event_type" where
  "read_event_type s =
     (case read_name event_type_name
        [LargeTransfer, DormantCoinsMoved, Consolidation, FanOut, ExtremeFee, TransactionReplacement,
         LongBlockInterval, ReorgDetected, MiningAnomaly, UnusualFeeRatio]
        [(''DORMANT_UTXO_SPENT'', DormantCoinsMoved), (''FEE_SPIKE'', ExtremeFee),
         (''RBF_REPLACEMENT'', TransactionReplacement)] s of
        Some t \<Rightarrow> t | None \<Rightarrow> LargeTransfer)"

fun severity_name :: "event_severity \<Rightarrow> string" where
  "severity_name SevInfo = ''INFO''"
| "severity_name SevLow = ''LOW''"
| "severity_name SevMedium = ''MEDIUM''"
| "severity_name SevHigh = ''HIGH''"
| "severity_name SevCritical = ''CRITICAL''"

definition read_severity :: "string \<Rightarrow> event_severity" where
  "read_severity s =
     (case read_name severity_name [SevInfo, SevLow, SevMedium, SevHigh, SevCritical] [] s of
        Some t \<Rightarrow> t | None \<Rightarrow> SevInfo)"

fun confidence_name :: "confidence_level \<Rightarrow> string" where
  "confidence_name ConfVerifiedOnChain = ''VERIFIED_ON_CHAIN''"
| "confidence_name ConfHigh = ''HIGH''"
| "confidence_name ConfModerate = ''MODERATE''"
| "confidence_name ConfHeuristic = ''HEURISTIC''"
| "confidence_name ConfLow = ''LOW''"

definition read_confidence :: "string \<Rightarrow> confidence_level" where
  "read_confidence s =
     (case read_name confidence_name
        [ConfVerifiedOnChain, ConfHigh, ConfModerate, ConfHeuristic, ConfLow] [] s of
        Some t \<Rightarrow> t | None \<Rightarrow> ConfHeuristic)"

definition read_mode :: "string \<Rightarrow> observation_mode" where
  "read_mode s = (if to_lowercase s = ''historical_replay'' then HistoricalReplay else Live)"

definition read_kind :: "string \<Rightarrow> event_observation_kind" where
  "read_kind s = (case observation_kind_from_str s of Inr k \<Rightarrow> k | Inl _ \<Rightarrow> Witnessed)"

lemma read_name_name:
  assumes "distinct (map name xs)" "x \<in> set xs"
  shows "read_name name xs aliases (name x) = Some x"
proof -
  have "distinct (map fst (map (\<lambda>x. (name x, x)) xs))" using assms(1) by (simp add: o_def)
  then have "map_of (map (\<lambda>x. (name x, x)) xs) (name x) = Some x"
    by (rule map_of_is_SomeI) (use assms(2) in auto)
  then show ?thesis by (simp add: read_name_def map_add_def)
qed

lemma read_event_type [simp]: "read_event_type (event_type_name t) = t"
proof -
  have "t \<in> {LargeTransfer, DormantCoinsMoved, Consolidation, FanOut, ExtremeFee, TransactionReplacement,
    LongBlockInterval, ReorgDetected, MiningAnomaly, UnusualFeeRatio}" by (cases t) auto
  then show ?thesis unfolding read_event_type_def by (subst read_name_name) (auto simp del: insertCI)
qed

lemma read_severity [simp]: "read_severity (severity_name t) = t"
proof -
  have "t \<in> {SevInfo, SevLow, SevMedium, SevHigh, SevCritical}" by (cases t) auto
  then show ?thesis unfolding read_severity_def by (subst read_name_name) auto
qed

lemma read_confidence [simp]: "read_confidence (confidence_name t) = t"
proof -
  have "t \<in> {ConfVerifiedOnChain, ConfHigh, ConfModerate, ConfHeuristic, ConfLow}" by (cases t) auto
  then show ?thesis unfolding read_confidence_def by (subst read_name_name) auto
qed

lemma read_mode [simp]: "read_mode (observation_mode_str m) = m"
  by (cases m; hypsubst; code_simp)

lemma read_kind [simp]: "read_kind (observation_kind_str k) = k"
  by (cases k; hypsubst; code_simp)


section \<open>JSON columns\<close>

definition source_to_value :: "observation_source \<Rightarrow> json" where
  "source_to_value s =
     JObj ([(''provider'', JStr (provider s)), (''transport'', JStr (transport s))]
           @ (case endpoint s of Some e \<Rightarrow> [(''endpoint'', JStr e)] | None \<Rightarrow> []))"

definition opt_string_of_value :: "json option \<Rightarrow> string option option" where
  "opt_string_of_value j =
     (case j of None \<Rightarrow> Some None | Some JNull \<Rightarrow> Some None | Some (JStr s) \<Rightarrow> Some (Some s) | _ \<Rightarrow> None)"

definition source_of_value :: "json \<Rightarrow> observation_source option" where
  "source_of_value j =
     (case (Option.bind (json_get ''provider'' j) as_str, Option.bind (json_get ''transport'' j) as_str) of
        (Some p, Some t) \<Rightarrow>
          map_option (\<lambda>e. \<lparr>provider = p, transport = t, endpoint = e\<rparr>)
            (opt_string_of_value (json_get ''endpoint'' j))
      | _ \<Rightarrow> None)"

definition witness_to_value :: "pg_env \<Rightarrow> observation_witness \<Rightarrow> json" where
  "witness_to_value env w =
     JObj ([(''source'', source_to_value (wit_source w)),
            (''observed_at'', JStr (pe_serde_time env (wit_observed_at w)))]
           @ (case wit_metadata w of Some m \<Rightarrow> [(''metadata'', m)] | None \<Rightarrow> []))"

definition witness_of_value :: "pg_env \<Rightarrow> json \<Rightarrow> observation_witness option" where
  "witness_of_value env j =
     (case (Option.bind (json_get ''source'' j) source_of_value,
            Option.bind (Option.bind (json_get ''observed_at'' j) as_str) (pe_parse_time env)) of
        (Some s, Some t) \<Rightarrow>
          Some \<lparr>wit_source = s, wit_observed_at = t,
                wit_metadata = (case json_get ''metadata'' j of Some JNull \<Rightarrow> None | m \<Rightarrow> m)\<rparr>
      | _ \<Rightarrow> None)"

text \<open>\<open>JSONB\<close> keeps texts and the fields of an object, each in its own stored form.\<close>

definition jsonb_ok :: "pg_env \<Rightarrow> bool" where
  "jsonb_ok env \<longleftrightarrow>
     (\<forall>s. pe_jsonb env (JStr s) = JStr s)
     \<and> (\<forall>m k. distinct (map fst m) \<longrightarrow>
          json_get k (pe_jsonb env (JObj m)) = map_option (pe_jsonb env) (map_of m k))"

lemma jsonb_text: "jsonb_ok env \<Longrightarrow> pe_jsonb env (JStr s) = JStr s"
  by (simp add: jsonb_ok_def)

lemma jsonb_get:
  "jsonb_ok env \<Longrightarrow> distinct (map fst m) \<Longrightarrow>
     json_get k (pe_jsonb env (JObj m)) = map_option (pe_jsonb env) (map_of m k)"
  by (simp add: jsonb_ok_def)

lemma source_survives [simp]:
  assumes "jsonb_ok env"
  shows "source_of_value (pe_jsonb env (source_to_value s)) = Some s"
proof -
  let ?m = "[(''provider'', JStr (provider s)), (''transport'', JStr (transport s))]
    @ (case endpoint s of Some e \<Rightarrow> [(''endpoint'', JStr e)] | None \<Rightarrow> [])"
  have "distinct (map fst ?m)" by (simp split: option.split)
  note get = jsonb_get [OF assms this]
  have "json_get ''provider'' (pe_jsonb env (JObj ?m)) = Some (JStr (provider s))"
    "json_get ''transport'' (pe_jsonb env (JObj ?m)) = Some (JStr (transport s))"
    "json_get ''endpoint'' (pe_jsonb env (JObj ?m)) = map_option JStr (endpoint s)"
    unfolding get by (simp_all add: jsonb_text [OF assms] split: option.split)
  then show ?thesis unfolding source_to_value_def source_of_value_def
    by (cases s; cases "endpoint s") (simp_all add: opt_string_of_value_def)
qed

section \<open>Tables\<close>

record event_row =
  rw_id :: uuid
  rw_event_type :: string
  rw_severity :: string
  rw_confidence :: string
  rw_title :: string
  rw_description :: string
  rw_event_time :: datetime
  rw_first_observed_at :: datetime
  rw_detected_at :: datetime
  rw_block_height :: "int option"
  rw_block_hash :: "string option"
  rw_txid :: "string option"
  rw_metadata :: json
  rw_source :: "json option"
  rw_observation_mode :: string
  rw_replay_job_id :: "uuid option"

record observation_row =
  ow_id :: uuid
  ow_event_id :: uuid
  ow_observation_mode :: string
  ow_observation_kind :: string
  ow_source :: json
  ow_observed_at :: datetime
  ow_bitcoin_time :: "datetime option"
  ow_replay_job_id :: "uuid option"
  ow_block_height :: "int option"
  ow_block_hash :: "string option"
  ow_confirmation_status :: "string option"
  ow_source_sequence :: "int option"
  ow_mempool_sequence :: "int option"
  ow_witness :: "json option"

record metric_row =
  mw_id :: uuid
  mw_event_id :: uuid
  mw_network :: string
  mw_event_type :: string
  mw_metric :: string
  mw_version :: string
  mw_value :: string
  mw_scale :: int
  mw_block_height :: int
  mw_event_time :: datetime
  mw_created_at :: datetime

record target_row =
  tw_id :: uuid
  tw_incident_id :: uuid
  tw_case_id :: string
  tw_target_kind :: string
  tw_txid :: "string option"
  tw_vout :: "int option"
  tw_script_pubkey :: "string option"
  tw_address :: "string option"
  tw_classification :: string
  tw_source :: string
  tw_evidence_id :: "uuid option"
  tw_label :: "string option"
  tw_active :: bool
  tw_kind_payload :: json
  tw_created_at :: datetime
  tw_updated_at :: datetime

record activity_row =
  aw_id :: uuid
  aw_incident_id :: uuid
  aw_case_id :: string
  aw_activity_type :: string
  aw_status :: string
  aw_observed_at :: datetime
  aw_trigger_txid :: "string option"
  aw_block_height :: "int option"
  aw_block_hash :: "string option"
  aw_value_sats :: "int option"
  aw_watch_target_id :: uuid
  aw_confidence :: string
  aw_correlation_strength :: string
  aw_source :: json
  aw_evidence :: json
  aw_description :: string
  aw_details :: "json option"
  aw_dedup_key :: string
  aw_updated_at :: datetime

record alert_row =
  lw_id :: uuid
  lw_incident_id :: uuid
  lw_case_id :: string
  lw_incident_title :: string
  lw_activity_id :: uuid
  lw_severity :: string
  lw_title :: string
  lw_summary :: string
  lw_confidence :: string
  lw_correlation_strength :: string
  lw_observed_at :: datetime
  lw_value_sats :: "int option"
  lw_trigger_txid :: "string option"

record job_row =
  jw_id :: uuid
  jw_network :: string
  jw_start_height :: int
  jw_end_height :: int
  jw_current_height :: int
  jw_status :: string
  jw_source_type :: string
  jw_created_at :: datetime
  jw_started_at :: "datetime option"
  jw_completed_at :: "datetime option"
  jw_blocks_processed :: int
  jw_transactions_processed :: int
  jw_events_generated :: int
  jw_events_created :: int
  jw_events_existing :: int
  jw_observations_recorded :: int
  jw_error_count :: int
  jw_last_error :: "string option"

record checkpoint_row =
  cw_id :: uuid
  cw_job_id :: uuid
  cw_completed_height :: int
  cw_blocks_processed :: int
  cw_transactions_processed :: int
  cw_events_generated :: int
  cw_events_created :: int
  cw_events_existing :: int
  cw_observations_recorded :: int
  cw_checkpointed_at :: datetime

record run_row =
  nw_id :: uuid
  nw_network :: string
  nw_start_height :: int
  nw_end_height :: int
  nw_started_at :: datetime
  nw_completed_at :: "datetime option"
  nw_status :: string
  nw_algorithm_version :: string
  nw_canonical_event_count :: int
  nw_error_message :: "string option"
  nw_metadata :: json
  nw_created_at :: datetime

record distribution_row =
  dw_id :: uuid
  dw_baseline_run_id :: uuid
  dw_event_type :: string
  dw_metric :: string
  dw_unit :: string
  dw_sample_count :: int
  dw_candidate_count :: int
  dw_missing_count :: int
  dw_coverage_ratio :: f64
  dw_minimum :: string
  dw_maximum :: string
  dw_mean :: string
  dw_p50 :: string
  dw_p75 :: string
  dw_p90 :: string
  dw_p95 :: string
  dw_p99 :: string
  dw_p999 :: string
  dw_quality :: string
  dw_samples_json :: "json option"
  dw_created_at :: datetime

record rarity_row =
  yw_id :: uuid
  yw_event_id :: uuid
  yw_baseline_run_id :: uuid
  yw_event_type :: string
  yw_metric :: string
  yw_value_numeric :: string
  yw_value_text :: string
  yw_percentile :: "f64 option"
  yw_rarity_band :: string
  yw_population_size :: int
  yw_tail_count :: int
  yw_evaluation_mode :: string
  yw_impact_score :: "f64 option"
  yw_impact_json :: "json option"
  yw_percentile_method :: string
  yw_estimated :: bool
  yw_created_at :: datetime

record postgres_storage =
  pg_chain_events :: "event_row list"
  pg_event_observations :: "observation_row list"
  pg_metric_values :: "metric_row list"
  pg_watch_targets :: "target_row list"
  pg_activities :: "activity_row list"
  pg_alerts :: "alert_row list"
  pg_replay_jobs :: "job_row list"
  pg_checkpoints :: "checkpoint_row list"
  pg_baseline_runs :: "run_row list"
  pg_distributions :: "distribution_row list"
  pg_event_rarity :: "rarity_row list"
  pg_cached_events :: usize
  pg_cached_incidents :: usize
  pg_cached_activities :: usize
  pg_cached_targets :: usize


definition postgres_new :: "postgres_storage \<Rightarrow> postgres_storage" where
  "postgres_new db = db\<lparr>pg_cached_events := 0, pg_cached_incidents := 0, pg_cached_activities := 0,
                        pg_cached_targets := 0\<rparr>"

definition empty_postgres :: postgres_storage where
  "empty_postgres =
     \<lparr>pg_chain_events = [], pg_event_observations = [], pg_metric_values = [], pg_watch_targets = [],
      pg_activities = [], pg_alerts = [], pg_replay_jobs = [], pg_checkpoints = [], pg_baseline_runs = [],
      pg_distributions = [], pg_event_rarity = [], pg_cached_events = 0, pg_cached_incidents = 0,
      pg_cached_activities = 0, pg_cached_targets = 0\<rparr>"

section \<open>Counts\<close>

definition pg_count :: "answer \<Rightarrow> 'r list \<Rightarrow> storage_error + usize" where
  "pg_count a rows = accepted a (Inr (length rows))"

definition pg_count_events :: "answer \<Rightarrow> postgres_storage \<Rightarrow> storage_error + usize" where
  "pg_count_events a db = pg_count a (pg_chain_events db)"

definition pg_count_watch_targets :: "answer \<Rightarrow> postgres_storage \<Rightarrow> storage_error + usize" where
  "pg_count_watch_targets a db = pg_count a (pg_watch_targets db)"

definition pg_count_activities :: "answer \<Rightarrow> postgres_storage \<Rightarrow> storage_error + usize" where
  "pg_count_activities a db = pg_count a (pg_activities db)"

definition pg_count_alerts :: "answer \<Rightarrow> postgres_storage \<Rightarrow> storage_error + usize" where
  "pg_count_alerts a db = pg_count a (pg_alerts db)"

definition pg_count_replay_jobs :: "answer \<Rightarrow> postgres_storage \<Rightarrow> storage_error + usize" where
  "pg_count_replay_jobs a db = pg_count a (pg_replay_jobs db)"

definition pg_count_event_observations ::
  "answer \<Rightarrow> uuid option \<Rightarrow> postgres_storage \<Rightarrow> storage_error + usize" where
  "pg_count_event_observations a event_id db =
     pg_count a (case event_id of
                   Some i \<Rightarrow> filter (\<lambda>r. ow_event_id r = i) (pg_event_observations db)
                 | None \<Rightarrow> pg_event_observations db)"

definition pg_telemetry_counts :: "postgres_storage \<Rightarrow> usize \<times> usize \<times> usize \<times> usize" where
  "pg_telemetry_counts db =
     (pg_cached_events db, pg_cached_incidents db, pg_cached_activities db, pg_cached_targets db)"

section \<open>Reading in order\<close>

definition order_by :: "pg_env \<Rightarrow> ('r \<Rightarrow> uuid) \<Rightarrow> ('r \<Rightarrow> 'k::linorder) \<Rightarrow> 'r list \<Rightarrow> 'r list" where
  "order_by env key_id key rows = sort_key (\<lambda>r. (key r, pe_tie env (key_id r))) rows"

section \<open>Metric values\<close>

definition metric_to_row :: "pg_env \<Rightarrow> datetime \<Rightarrow> event_metric_value \<Rightarrow> storage_error + metric_row" where
  "metric_to_row env now m =
     try_bind (u64_to_i64_checked (mv_block_height m)) (\<lambda>height.
       Inr \<lparr>mw_id = mv_id m, mw_event_id = mv_event_id m, mw_network = mv_network m,
            mw_event_type = event_type_name (mv_event_type m), mw_metric = metric_str (mv_metric m),
            mw_version = mv_definition_version m,
            mw_value = pe_numeric env (to_numeric_string (mv_value m)),
            mw_scale = sint (mv_scale m), mw_block_height = height,
            mw_event_time = pe_time env (mv_event_time m), mw_created_at = now\<rparr>)"

definition metric_conflict :: "metric_row \<Rightarrow> metric_row \<Rightarrow> bool" where
  "metric_conflict n r \<longleftrightarrow>
     mw_event_id r = mw_event_id n \<and> mw_metric r = mw_metric n \<and> mw_version r = mw_version n"

definition metric_update :: "metric_row \<Rightarrow> metric_row \<Rightarrow> metric_row" where
  "metric_update n r =
     r\<lparr>mw_value := mw_value n, mw_scale := mw_scale n, mw_block_height := mw_block_height n,
       mw_event_time := mw_event_time n, mw_network := mw_network n\<rparr>"

fun pg_save_event_metrics ::
  "pg_env \<Rightarrow> datetime \<Rightarrow> (nat \<Rightarrow> answer) \<Rightarrow> event_metric_value list \<Rightarrow> postgres_storage
     \<Rightarrow> (storage_error + unit) \<times> postgres_storage" where
  "pg_save_event_metrics env now ans [] db = (Inr (), db)"
| "pg_save_event_metrics env now ans (m # ms) db =
     (case bound (ans 0) (metric_to_row env now m) of
        Inl e \<Rightarrow> (Inl e, db)
      | Inr row \<Rightarrow>
          pg_save_event_metrics env now (\<lambda>k. ans (Suc k)) ms
            (db\<lparr>pg_metric_values :=
                  on_conflict (metric_conflict row) (metric_update row) row (pg_metric_values db)\<rparr>))"

definition row_to_metric :: "metric_row \<Rightarrow> storage_error + event_metric_value" where
  "row_to_metric r =
     (let metric = (case metric_from_str (mw_metric r) of Inr m \<Rightarrow> m | Inl _ \<Rightarrow> ValueSats);
          scale = of_int (mw_scale r)
      in try_bind (i64_to_u64_checked (mw_block_height r)) (\<lambda>height.
           Inr \<lparr>mv_id = mw_id r, mv_event_id = mw_event_id r, mv_network = mw_network r,
                mv_event_type = read_event_type (mw_event_type r), mv_metric = metric,
                mv_definition_version = mw_version r,
                mv_value = from_str_scale_and_metric (mw_value r) scale metric, mv_scale = scale,
                mv_block_height = height, mv_event_time = mw_event_time r,
                mv_created_at = mw_created_at r\<rparr>))"

definition pg_get_event_metrics ::
  "pg_env \<Rightarrow> answer \<Rightarrow> uuid \<Rightarrow> postgres_storage \<Rightarrow> storage_error + event_metric_value list" where
  "pg_get_event_metrics env a event_id db =
     try_bind (accepted a (Inr (order_by env mw_id (\<lambda>r. pe_collate env (mw_metric r))
        (filter (\<lambda>r. mw_event_id r = event_id) (pg_metric_values db))))) (try_map row_to_metric)"

section \<open>Events\<close>

definition event_to_row :: "pg_env \<Rightarrow> chain_event \<Rightarrow> storage_error + event_row" where
  "event_to_row env e =
     try_bind (opt_i64 (ev_block_height e)) (\<lambda>height.
       Inr \<lparr>rw_id = ev_id e, rw_event_type = event_type_name (ev_type e),
            rw_severity = severity_name (ev_severity e), rw_confidence = confidence_name (ev_confidence e),
            rw_title = ev_title e, rw_description = ev_description e,
            rw_event_time = pe_time env (ev_event_time e),
            rw_first_observed_at = pe_time env (ev_first_observed_at e),
            rw_detected_at = pe_time env (ev_detected_at e), rw_block_height = height,
            rw_block_hash = ev_block_hash e, rw_txid = ev_txid e,
            rw_metadata = pe_jsonb env (ev_metadata e),
            rw_source = map_option (\<lambda>s. pe_jsonb env (source_to_value s)) (ev_source e),
            rw_observation_mode = observation_mode_str (ev_observation_mode e),
            rw_replay_job_id = ev_replay_job_id e\<rparr>)"

text \<open>The upsert never overwrites provenance.\<close>

definition event_update :: "event_row \<Rightarrow> event_row \<Rightarrow> event_row" where
  "event_update n r =
     r\<lparr>rw_title := rw_title n, rw_description := rw_description n, rw_metadata := rw_metadata n\<rparr>"

definition upsert_event_row :: "event_row \<Rightarrow> event_row list \<Rightarrow> event_row list" where
  "upsert_event_row row = on_conflict (\<lambda>r. rw_id r = rw_id row) (event_update row) row"

text \<open>The first answer is for the event, the others for its metrics, whose errors are dropped.\<close>

definition pg_save_event ::
  "pg_env \<Rightarrow> (nat \<Rightarrow> uuid) \<Rightarrow> datetime \<Rightarrow> (nat \<Rightarrow> answer) \<Rightarrow> chain_event \<Rightarrow> postgres_storage
     \<Rightarrow> (storage_error + unit) \<times> postgres_storage" where
  "pg_save_event env v4 now ans e db =
     (case bound (ans 0) (event_to_row env e) of
        Inl err \<Rightarrow> (Inl err, db)
      | Inr row \<Rightarrow>
          let db1 = db\<lparr>pg_chain_events := upsert_event_row row (pg_chain_events db),
                       pg_cached_events := pg_cached_events db + 1\<rparr>;
              extracted = extract_event_metrics v4 now e None
          in (Inr (), if extracted \<noteq> []
                      then snd (pg_save_event_metrics env now (\<lambda>k. ans (Suc k)) extracted db1)
                      else db1))"

definition row_to_event :: "datetime \<Rightarrow> event_row \<Rightarrow> storage_error + chain_event" where
  "row_to_event now r =
     try_bind (opt_u64 (rw_block_height r)) (\<lambda>height.
       let src = Option.bind (rw_source r) source_of_value
       in Inr \<lparr>ev_id = rw_id r, ev_type = read_event_type (rw_event_type r),
               ev_severity = read_severity (rw_severity r),
               ev_confidence = read_confidence (rw_confidence r), ev_title = rw_title r,
               ev_description = rw_description r, ev_event_time = rw_event_time r,
               ev_first_observed_at = rw_first_observed_at r, ev_detected_at = rw_detected_at r,
               ev_block_height = height, ev_block_hash = rw_block_hash r, ev_txid = rw_txid r,
               ev_source = src,
               ev_witnesses = (case src of Some s \<Rightarrow> [observation_witness_new now s] | None \<Rightarrow> []),
               ev_observation_mode = read_mode (rw_observation_mode r),
               ev_replay_job_id = rw_replay_job_id r, ev_metadata = rw_metadata r,
               ev_observations = []\<rparr>)"

text \<open>Every row is read at its own time.\<close>

definition rows_to_events :: "(nat \<Rightarrow> datetime) \<Rightarrow> event_row list \<Rightarrow> storage_error + chain_event list" where
  "rows_to_events clock rows = try_map (\<lambda>(k, r). row_to_event (clock k) r) (enumerate 0 rows)"

definition pg_list_events ::
  "pg_env \<Rightarrow> (nat \<Rightarrow> datetime) \<Rightarrow> answer \<Rightarrow> usize \<Rightarrow> usize \<Rightarrow> postgres_storage
     \<Rightarrow> storage_error + chain_event list" where
  "pg_list_events env clock a limit offset db =
     try_bind (accepted a (Inr (page (min (max limit 1) 200) offset
        (order_by env rw_id (\<lambda>r. - rw_event_time r) (pg_chain_events db))))) (rows_to_events clock)"

section \<open>Observations of events\<close>

definition observation_to_row :: "pg_env \<Rightarrow> event_observation \<Rightarrow> storage_error + observation_row" where
  "observation_to_row env n =
     try_bind (opt_i64 (eo_block_height n)) (\<lambda>height.
     try_bind (opt_i64 (eo_mempool_sequence n)) (\<lambda>mempool_seq.
       Inr \<lparr>ow_id = eo_id n, ow_event_id = eo_event_id n,
            ow_observation_mode = observation_mode_str (eo_mode n),
            ow_observation_kind = observation_kind_str (eo_kind n),
            ow_source = pe_jsonb env (source_to_value (eo_source n)),
            ow_observed_at = pe_time env (eo_observed_at n),
            ow_bitcoin_time = map_option (pe_time env) (eo_bitcoin_time n),
            ow_replay_job_id = eo_replay_job_id n, ow_block_height = height,
            ow_block_hash = eo_block_hash n, ow_confirmation_status = eo_confirmation_status n,
            ow_source_sequence = map_option (\<lambda>q. int (unat q)) (eo_source_sequence n),
            ow_mempool_sequence = mempool_seq,
            ow_witness = map_option (\<lambda>w. pe_jsonb env (witness_to_value env w)) (eo_witness n)\<rparr>))"

definition observation_update :: "observation_row \<Rightarrow> observation_row \<Rightarrow> observation_row" where
  "observation_update n r =
     r\<lparr>ow_source := ow_source n, ow_witness := ow_witness n,
       ow_confirmation_status := ow_confirmation_status n, ow_source_sequence := ow_source_sequence n,
       ow_mempool_sequence := ow_mempool_sequence n\<rparr>"

definition pg_save_event_observation ::
  "pg_env \<Rightarrow> answer \<Rightarrow> event_observation \<Rightarrow> postgres_storage \<Rightarrow> (storage_error + unit) \<times> postgres_storage" where
  "pg_save_event_observation env a n db =
     (case bound a (observation_to_row env n) of
        Inl e \<Rightarrow> (Inl e, db)
      | Inr row \<Rightarrow>
          (Inr (), db\<lparr>pg_event_observations :=
             on_conflict (\<lambda>r. ow_id r = ow_id row) (observation_update row) row (pg_event_observations db)\<rparr>))"

definition row_to_observation :: "pg_env \<Rightarrow> observation_row \<Rightarrow> storage_error + event_observation" where
  "row_to_observation env r =
     try_bind (opt_u64 (ow_block_height r)) (\<lambda>height.
     try_bind (opt_u64 (ow_mempool_sequence r)) (\<lambda>mempool_seq.
       Inr \<lparr>eo_id = ow_id r, eo_event_id = ow_event_id r, eo_mode = read_mode (ow_observation_mode r),
            eo_kind = read_kind (ow_observation_kind r),
            eo_source = (case source_of_value (ow_source r) of Some s \<Rightarrow> s
                         | None \<Rightarrow> observation_source_new ''bitcoin_core'' ''zmq'' None),
            eo_observed_at = ow_observed_at r, eo_bitcoin_time = ow_bitcoin_time r,
            eo_replay_job_id = ow_replay_job_id r, eo_block_height = height,
            eo_block_hash = ow_block_hash r, eo_confirmation_status = ow_confirmation_status r,
            eo_source_sequence = map_option of_int (ow_source_sequence r),
            eo_mempool_sequence = mempool_seq,
            eo_witness = Option.bind (ow_witness r) (witness_of_value env)\<rparr>))"

definition pg_list_event_observations ::
  "pg_env \<Rightarrow> answer \<Rightarrow> uuid \<Rightarrow> postgres_storage \<Rightarrow> storage_error + event_observation list" where
  "pg_list_event_observations env a event_id db =
     try_bind (accepted a (Inr (order_by env ow_id ow_observed_at
        (filter (\<lambda>r. ow_event_id r = event_id) (pg_event_observations db)))))
       (try_map (row_to_observation env))"

definition pg_get_event_by_id ::
  "pg_env \<Rightarrow> datetime \<Rightarrow> answer \<Rightarrow> answer \<Rightarrow> uuid \<Rightarrow> postgres_storage \<Rightarrow> storage_error + chain_event option" where
  "pg_get_event_by_id env now a a' i db =
     try_bind (accepted a (Inr (find (\<lambda>r. rw_id r = i) (pg_chain_events db)))) (\<lambda>found.
       case found of
         None \<Rightarrow> Inr None
       | Some row \<Rightarrow>
           try_bind (row_to_event now row) (\<lambda>e.
           try_bind (pg_list_event_observations env a' i db) (\<lambda>obs.
             Inr (Some (e\<lparr>ev_observations := obs\<rparr>)))))"

text \<open>A comparison with a missing value selects nothing.\<close>

definition row_matches ::
  "pg_env \<Rightarrow> int option \<Rightarrow> int option \<Rightarrow> event_filter \<Rightarrow> observation_row list \<Rightarrow> event_row \<Rightarrow> bool" where
  "row_matches env from_h to_h f obs r \<longleftrightarrow>
     (case from_h of None \<Rightarrow> True
      | Some h \<Rightarrow> (case rw_block_height r of Some x \<Rightarrow> x \<ge> h | None \<Rightarrow> False))
     \<and> (case to_h of None \<Rightarrow> True
        | Some h \<Rightarrow> (case rw_block_height r of Some x \<Rightarrow> x \<le> h | None \<Rightarrow> False))
     \<and> (case ef_from_time f of None \<Rightarrow> True | Some t \<Rightarrow> rw_event_time r \<ge> pe_time env t)
     \<and> (case ef_to_time f of None \<Rightarrow> True | Some t \<Rightarrow> rw_event_time r \<le> pe_time env t)
     \<and> (case ef_event_type f of None \<Rightarrow> True | Some ty \<Rightarrow> rw_event_type r = event_type_name ty)
     \<and> (case ef_severity f of None \<Rightarrow> True | Some sv \<Rightarrow> rw_severity r = severity_name sv)
     \<and> (case ef_observation_mode f of None \<Rightarrow> True
        | Some m \<Rightarrow> list_ex (\<lambda>w. ow_event_id w = rw_id r \<and> ow_observation_mode w = observation_mode_str m) obs
            \<or> rw_observation_mode r = observation_mode_str m)
     \<and> (case ef_replay_job_id f of None \<Rightarrow> True
        | Some j \<Rightarrow> list_ex (\<lambda>w. ow_event_id w = rw_id r \<and> ow_replay_job_id w = Some j) obs
            \<or> rw_replay_job_id r = Some j)
     \<and> (case ef_txid f of None \<Rightarrow> True | Some t \<Rightarrow> rw_txid r = Some t)
     \<and> (case ef_block_hash f of None \<Rightarrow> True | Some b \<Rightarrow> rw_block_hash r = Some b)"

definition pg_query_events ::
  "pg_env \<Rightarrow> (nat \<Rightarrow> datetime) \<Rightarrow> answer \<Rightarrow> event_filter \<Rightarrow> postgres_storage
     \<Rightarrow> storage_error + chain_event list" where
  "pg_query_events env clock a f db =
     (let limit = min (max (case ef_limit f of Some l \<Rightarrow> l | None \<Rightarrow> 100) 1) 1000;
          offset = (case ef_offset f of Some k \<Rightarrow> k | None \<Rightarrow> 0)
      in try_bind (opt_i64 (ef_from_height f)) (\<lambda>from_h.
         try_bind (opt_i64 (ef_to_height f)) (\<lambda>to_h.
         try_bind (accepted a (Inr (page limit offset (order_by env rw_id (\<lambda>r. - rw_event_time r)
             (filter (row_matches env from_h to_h f (pg_event_observations db)) (pg_chain_events db))))))
           (rows_to_events clock))))"

definition pg_query_events_for_baseline ::
  "pg_env \<Rightarrow> (nat \<Rightarrow> datetime) \<Rightarrow> answer \<Rightarrow> event_type option \<Rightarrow> u64 \<Rightarrow> u64 \<Rightarrow> postgres_storage
     \<Rightarrow> storage_error + chain_event list" where
  "pg_query_events_for_baseline env clock a event_type start_h end_h db =
     try_bind (u64_to_i64_checked start_h) (\<lambda>s.
     try_bind (u64_to_i64_checked end_h) (\<lambda>e.
     try_bind (accepted a (Inr (order_by env rw_id (\<lambda>r. (the (rw_block_height r), rw_detected_at r))
         (filter (\<lambda>r. (case rw_block_height r of Some h \<Rightarrow> s \<le> h \<and> h \<le> e | None \<Rightarrow> False)
             \<and> (case event_type of Some ty \<Rightarrow> rw_event_type r = event_type_name ty | None \<Rightarrow> True))
           (pg_chain_events db))))) (rows_to_events clock)))"


section \<open>Watch targets\<close>

fun provenance_name :: "provenance_classification \<Rightarrow> string" where
  "provenance_name OnChainVerified = ''ON_CHAIN_VERIFIED''"
| "provenance_name OfficiallyAttributed = ''OFFICIALLY_ATTRIBUTED''"
| "provenance_name ReputableReporting = ''REPUTABLE_REPORTING''"
| "provenance_name PHeuristic = ''HEURISTIC''"
| "provenance_name Unverified = ''UNVERIFIED''"
| "provenance_name PDisputed = ''DISPUTED''"

definition parse_provenance :: "string \<Rightarrow> provenance_classification option" where
  "parse_provenance s =
     read_name provenance_name
       [OnChainVerified, OfficiallyAttributed, ReputableReporting, PHeuristic, Unverified, PDisputed]
       [(''HIGH_CONFIDENCE_REPORTING'', ReputableReporting)] s"

definition read_provenance :: "string \<Rightarrow> provenance_classification" where
  "read_provenance s = (case parse_provenance s of Some p \<Rightarrow> p | None \<Rightarrow> PHeuristic)"

fun kind_to_value :: "watch_target_kind \<Rightarrow> json" where
  "kind_to_value (OutPoint txid vout) =
     JObj [(''target_type'', JStr ''OUT_POINT''),
           (''details'', JObj [(''txid'', JStr txid), (''vout'', json_u vout)])]"
| "kind_to_value (ScriptPubKey script_hex) =
     JObj [(''target_type'', JStr ''SCRIPT_PUB_KEY''), (''details'', JObj [(''script_hex'', JStr script_hex)])]"
| "kind_to_value (Address address attribution) =
     JObj [(''target_type'', JStr ''ADDRESS''),
           (''details'', JObj [(''address'', JStr address),
                               (''attribution'', JStr (provenance_name attribution))])]"
| "kind_to_value (WTransaction txid) =
     JObj [(''target_type'', JStr ''TRANSACTION''), (''details'', JObj [(''txid'', JStr txid)])]"

definition u32_of_value :: "json \<Rightarrow> u32 option" where
  "u32_of_value j = (case j of JNum (PosInt n) \<Rightarrow> if n < 2 ^ 32 then Some (of_nat n) else None | _ \<Rightarrow> None)"

definition text_field :: "string \<Rightarrow> json \<Rightarrow> string option" where
  "text_field k j = Option.bind (json_get k j) as_str"

definition kind_of_value :: "json \<Rightarrow> watch_target_kind option" where
  "kind_of_value j =
     (case (text_field ''target_type'' j, json_get ''details'' j) of
        (Some tag, Some d) \<Rightarrow>
          if tag = ''OUT_POINT'' then
            Option.bind (text_field ''txid'' d) (\<lambda>txid.
              map_option (OutPoint txid) (Option.bind (json_get ''vout'' d) u32_of_value))
          else if tag = ''SCRIPT_PUB_KEY'' then map_option ScriptPubKey (text_field ''script_hex'' d)
          else if tag = ''ADDRESS'' then
            Option.bind (text_field ''address'' d) (\<lambda>a.
              map_option (Address a) (Option.bind (text_field ''attribution'' d) parse_provenance))
          else if tag = ''TRANSACTION'' then map_option WTransaction (text_field ''txid'' d)
          else None
      | _ \<Rightarrow> None)"

definition target_to_row :: "pg_env \<Rightarrow> datetime \<Rightarrow> watch_target \<Rightarrow> target_row" where
  "target_to_row env now t =
     (let (txid, vout, script, address) =
            (case wt_kind t of
               OutPoint txid vout \<Rightarrow> (Some txid, Some (sint vout), None, None)
             | ScriptPubKey script_hex \<Rightarrow> (None, None, Some script_hex, None)
             | Address address p \<Rightarrow> (None, None, None, Some address)
             | WTransaction txid \<Rightarrow> (Some txid, None, None, None))
      in \<lparr>tw_id = wt_id t, tw_incident_id = wt_incident_id t, tw_case_id = wt_case_id t,
          tw_target_kind = target_type_str (wt_kind t), tw_txid = txid, tw_vout = vout,
          tw_script_pubkey = script, tw_address = address,
          tw_classification = provenance_name (wt_classification t), tw_source = wt_source t,
          tw_evidence_id = wt_evidence_id t, tw_label = wt_label t, tw_active = wt_active t,
          tw_kind_payload = pe_jsonb env (kind_to_value (wt_kind t)), tw_created_at = now,
          tw_updated_at = now\<rparr>)"

definition target_update :: "target_row \<Rightarrow> target_row \<Rightarrow> target_row" where
  "target_update n r =
     r\<lparr>tw_classification := tw_classification n, tw_source := tw_source n,
       tw_evidence_id := tw_evidence_id n, tw_label := tw_label n, tw_active := tw_active n,
       tw_kind_payload := tw_kind_payload n, tw_updated_at := tw_updated_at n\<rparr>"

text \<open>The creation time is a default of the column: the time of the first insertion.\<close>

definition pg_save_watch_target ::
  "pg_env \<Rightarrow> datetime \<Rightarrow> answer \<Rightarrow> watch_target \<Rightarrow> postgres_storage \<Rightarrow> (storage_error + unit) \<times> postgres_storage" where
  "pg_save_watch_target env now a t db =
     (case bound a (Inr (target_to_row env now t)) of
        Inl e \<Rightarrow> (Inl e, db)
      | Inr row \<Rightarrow>
          (Inr (), db\<lparr>pg_watch_targets :=
             on_conflict (\<lambda>r. tw_id r = tw_id row) (target_update row) row (pg_watch_targets db)\<rparr>))"

definition row_to_target :: "target_row \<Rightarrow> storage_error + watch_target" where
  "row_to_target r =
     (case kind_of_value (tw_kind_payload r) of
        None \<Rightarrow> Inl (Serialization ''kind_payload'')
      | Some kind \<Rightarrow>
          Inr \<lparr>wt_id = tw_id r, wt_incident_id = tw_incident_id r, wt_case_id = tw_case_id r,
               wt_kind = kind, wt_classification = read_provenance (tw_classification r),
               wt_source = tw_source r, wt_evidence_id = tw_evidence_id r, wt_label = tw_label r,
               wt_created_at = tw_created_at r, wt_active = tw_active r\<rparr>)"

definition pg_list_watch_targets ::
  "pg_env \<Rightarrow> answer \<Rightarrow> uuid option \<Rightarrow> usize \<Rightarrow> usize \<Rightarrow> postgres_storage \<Rightarrow> storage_error + watch_target list" where
  "pg_list_watch_targets env a incident_id limit offset db =
     try_bind (accepted a (Inr (page (min (max limit 1) 200) offset (order_by env tw_id tw_created_at
        (filter (\<lambda>r. case incident_id of Some i \<Rightarrow> tw_incident_id r = i | None \<Rightarrow> True)
          (pg_watch_targets db)))))) (try_map row_to_target)"

definition read_one :: "('r \<Rightarrow> storage_error + 'a) \<Rightarrow> 'r option \<Rightarrow> storage_error + 'a option" where
  "read_one f found =
     (case found of None \<Rightarrow> Inr None | Some r \<Rightarrow> try_bind (f r) (\<lambda>x. Inr (Some x)))"

definition pg_get_watch_target_by_id ::
  "answer \<Rightarrow> uuid \<Rightarrow> postgres_storage \<Rightarrow> storage_error + watch_target option" where
  "pg_get_watch_target_by_id a i db =
     try_bind (accepted a (Inr (find (\<lambda>r. tw_id r = i) (pg_watch_targets db)))) (read_one row_to_target)"

section \<open>Activities\<close>

fun activity_type_name :: "incident_activity_type \<Rightarrow> string" where
  "activity_type_name WatchedTransactionObserved = ''WATCHED_TRANSACTION_OBSERVED''"
| "activity_type_name WatchedTransactionConfirmed = ''WATCHED_TRANSACTION_CONFIRMED''"
| "activity_type_name WatchedOutpointSpent = ''WATCHED_OUTPOINT_SPENT''"
| "activity_type_name WatchedScriptReceived = ''WATCHED_SCRIPT_RECEIVED''"
| "activity_type_name WatchedAddressReceived = ''WATCHED_ADDRESS_RECEIVED''"
| "activity_type_name WatchedAddressSpent = ''WATCHED_ADDRESS_SPENT''"
| "activity_type_name ActTransactionReplacement = ''TRANSACTION_REPLACEMENT''"
| "activity_type_name NewDescendantObserved = ''NEW_DESCENDANT_OBSERVED''"

definition read_activity_type :: "string \<Rightarrow> incident_activity_type" where
  "read_activity_type s =
     (case read_name activity_type_name
        [WatchedTransactionObserved, WatchedTransactionConfirmed, WatchedOutpointSpent,
         WatchedScriptReceived, WatchedAddressReceived, WatchedAddressSpent, ActTransactionReplacement,
         NewDescendantObserved] [] s of
        Some t \<Rightarrow> t | None \<Rightarrow> WatchedTransactionObserved)"

fun activity_status_name :: "activity_status \<Rightarrow> string" where
  "activity_status_name StMempool = ''MEMPOOL''"
| "activity_status_name StConfirmed = ''CONFIRMED''"
| "activity_status_name StReorgedOut = ''REORGED_OUT''"

definition read_activity_status :: "string \<Rightarrow> activity_status" where
  "read_activity_status s =
     (case read_name activity_status_name [StMempool, StConfirmed, StReorgedOut] [] s of
        Some t \<Rightarrow> t | None \<Rightarrow> StConfirmed)"

fun strength_name :: "correlation_strength \<Rightarrow> string" where
  "strength_name Direct = ''DIRECT''"
| "strength_name Structural = ''STRUCTURAL''"
| "strength_name CHeuristic = ''HEURISTIC''"

definition read_strength :: "string \<Rightarrow> correlation_strength" where
  "read_strength s =
     (case read_name strength_name [Direct, Structural, CHeuristic] [] s of
        Some t \<Rightarrow> t | None \<Rightarrow> CHeuristic)"

text \<open>The identifiers of the evidence are texts; \<open>parse\<close> stands for the decoder of \<open>uuid\<close>.\<close>

definition evidence_to_value :: "uuid list \<Rightarrow> json" where
  "evidence_to_value us = JArr (map (\<lambda>u. JStr (uuid_str u)) us)"

definition evidence_of_value :: "(string \<Rightarrow> uuid option) \<Rightarrow> json \<Rightarrow> uuid list" where
  "evidence_of_value parse j =
     (case j of
        JArr xs \<Rightarrow>
          (case those (map (\<lambda>x. Option.bind (as_str x) parse) xs) of Some us \<Rightarrow> us | None \<Rightarrow> [])
      | _ \<Rightarrow> [])"

definition activity_to_row :: "pg_env \<Rightarrow> datetime \<Rightarrow> incident_activity \<Rightarrow> storage_error + activity_row" where
  "activity_to_row env now a =
     try_bind (opt_i64 (ac_block_height a)) (\<lambda>height.
     try_bind (opt_i64 (ac_value_sats a)) (\<lambda>val.
       Inr \<lparr>aw_id = ac_id a, aw_incident_id = ac_incident_id a, aw_case_id = ac_case_id a,
            aw_activity_type = activity_type_name (ac_type a),
            aw_status = activity_status_name (ac_status a),
            aw_observed_at = pe_time env (ac_observed_at a), aw_trigger_txid = ac_trigger_txid a,
            aw_block_height = height, aw_block_hash = ac_block_hash a, aw_value_sats = val,
            aw_watch_target_id = ac_watch_target_id a,
            aw_confidence = provenance_name (ac_confidence a),
            aw_correlation_strength = strength_name (ac_correlation_strength a),
            aw_source = pe_jsonb env (source_to_value (ac_source a)),
            aw_evidence = pe_jsonb env (evidence_to_value (ac_evidence a)),
            aw_description = ac_description a, aw_details = map_option (pe_jsonb env) (ac_details a),
            aw_dedup_key = ac_dedup_key a, aw_updated_at = now\<rparr>))"

definition activity_update :: "activity_row \<Rightarrow> activity_row \<Rightarrow> activity_row" where
  "activity_update n r =
     r\<lparr>aw_status := aw_status n, aw_block_height := aw_block_height n, aw_block_hash := aw_block_hash n,
       aw_observed_at := aw_observed_at n, aw_updated_at := aw_updated_at n\<rparr>"

definition upsert_activity_row :: "activity_row \<Rightarrow> activity_row list \<Rightarrow> activity_row list" where
  "upsert_activity_row row = on_conflict (\<lambda>r. aw_dedup_key r = aw_dedup_key row) (activity_update row) row"

definition pg_save_activity ::
  "pg_env \<Rightarrow> datetime \<Rightarrow> answer \<Rightarrow> incident_activity \<Rightarrow> postgres_storage
     \<Rightarrow> (storage_error + unit) \<times> postgres_storage" where
  "pg_save_activity env now ans a db =
     (case bound ans (activity_to_row env now a) of
        Inl e \<Rightarrow> (Inl e, db)
      | Inr row \<Rightarrow>
          (Inr (), db\<lparr>pg_activities := upsert_activity_row row (pg_activities db),
                      pg_cached_activities := pg_cached_activities db + 1\<rparr>))"

definition row_to_activity ::
  "(string \<Rightarrow> uuid option) \<Rightarrow> activity_row \<Rightarrow> storage_error + incident_activity" where
  "row_to_activity parse r =
     try_bind (opt_u64 (aw_block_height r)) (\<lambda>height.
     try_bind (opt_u64 (aw_value_sats r)) (\<lambda>val.
       Inr \<lparr>ac_id = aw_id r, ac_incident_id = aw_incident_id r, ac_case_id = aw_case_id r,
            ac_type = read_activity_type (aw_activity_type r), ac_observed_at = aw_observed_at r,
            ac_trigger_txid = aw_trigger_txid r, ac_block_height = height,
            ac_block_hash = aw_block_hash r, ac_value_sats = val,
            ac_watch_target_id = aw_watch_target_id r, ac_confidence = read_provenance (aw_confidence r),
            ac_correlation_strength = read_strength (aw_correlation_strength r),
            ac_status = read_activity_status (aw_status r),
            ac_source = (case source_of_value (aw_source r) of Some s \<Rightarrow> s | None \<Rightarrow> mempool_ws ''unknown''),
            ac_evidence = evidence_of_value parse (aw_evidence r), ac_description = aw_description r,
            ac_details = aw_details r, ac_dedup_key = aw_dedup_key r\<rparr>))"

definition pg_list_activities ::
  "pg_env \<Rightarrow> (string \<Rightarrow> uuid option) \<Rightarrow> answer \<Rightarrow> uuid option \<Rightarrow> activity_status option \<Rightarrow> usize \<Rightarrow> usize
     \<Rightarrow> postgres_storage \<Rightarrow> storage_error + incident_activity list" where
  "pg_list_activities env parse a incident_id status limit offset db =
     try_bind (accepted a (Inr (page (min (max limit 1) 200) offset
        (order_by env aw_id (\<lambda>r. - aw_observed_at r)
          (filter (\<lambda>r. (case incident_id of Some i \<Rightarrow> aw_incident_id r = i | None \<Rightarrow> True)
              \<and> (case status of Some st \<Rightarrow> aw_status r = activity_status_name st | None \<Rightarrow> True))
            (pg_activities db)))))) (try_map (row_to_activity parse))"

definition pg_get_activity_by_id ::
  "(string \<Rightarrow> uuid option) \<Rightarrow> answer \<Rightarrow> uuid \<Rightarrow> postgres_storage \<Rightarrow> storage_error + incident_activity option" where
  "pg_get_activity_by_id parse a i db =
     try_bind (accepted a (Inr (find (\<lambda>r. aw_id r = i) (pg_activities db)))) (read_one (row_to_activity parse))"

definition pg_get_activity_by_dedup_key ::
  "(string \<Rightarrow> uuid option) \<Rightarrow> answer \<Rightarrow> string \<Rightarrow> postgres_storage \<Rightarrow> storage_error + incident_activity option" where
  "pg_get_activity_by_dedup_key parse a k db =
     try_bind (accepted a (Inr (find (\<lambda>r. aw_dedup_key r = k) (pg_activities db))))
       (read_one (row_to_activity parse))"

section \<open>Alerts\<close>

definition alert_to_row :: "pg_env \<Rightarrow> incident_alert \<Rightarrow> storage_error + alert_row" where
  "alert_to_row env l =
     try_bind (opt_i64 (al_value_sats l)) (\<lambda>val.
       Inr \<lparr>lw_id = al_id l, lw_incident_id = al_incident_id l, lw_case_id = al_case_id l,
            lw_incident_title = al_incident_title l, lw_activity_id = al_activity_id l,
            lw_severity = severity_name (al_severity l), lw_title = al_title l, lw_summary = al_summary l,
            lw_confidence = provenance_name (al_confidence l),
            lw_correlation_strength = strength_name (al_correlation_strength l),
            lw_observed_at = pe_time env (al_observed_at l), lw_value_sats = val,
            lw_trigger_txid = al_trigger_txid l\<rparr>)"

definition pg_save_alert ::
  "pg_env \<Rightarrow> answer \<Rightarrow> incident_alert \<Rightarrow> postgres_storage \<Rightarrow> (storage_error + unit) \<times> postgres_storage" where
  "pg_save_alert env a l db =
     (case bound a (alert_to_row env l) of
        Inl e \<Rightarrow> (Inl e, db)
      | Inr row \<Rightarrow>
          (Inr (), db\<lparr>pg_alerts := on_conflict (\<lambda>r. lw_id r = lw_id row) (\<lambda>r. r) row (pg_alerts db)\<rparr>))"

definition row_to_alert :: "alert_row \<Rightarrow> storage_error + incident_alert" where
  "row_to_alert r =
     try_bind (opt_u64 (lw_value_sats r)) (\<lambda>val.
       Inr \<lparr>al_id = lw_id r, al_incident_id = lw_incident_id r, al_case_id = lw_case_id r,
            al_incident_title = lw_incident_title r, al_activity_id = lw_activity_id r,
            al_severity = read_severity (lw_severity r), al_title = lw_title r, al_summary = lw_summary r,
            al_confidence = read_provenance (lw_confidence r),
            al_correlation_strength = read_strength (lw_correlation_strength r),
            al_observed_at = lw_observed_at r, al_value_sats = val, al_trigger_txid = lw_trigger_txid r\<rparr>)"

definition pg_list_alerts ::
  "pg_env \<Rightarrow> answer \<Rightarrow> uuid option \<Rightarrow> usize \<Rightarrow> usize \<Rightarrow> postgres_storage \<Rightarrow> storage_error + incident_alert list" where
  "pg_list_alerts env a incident_id limit offset db =
     try_bind (accepted a (Inr (page (min (max limit 1) 200) offset
        (order_by env lw_id (\<lambda>r. - lw_observed_at r)
          (filter (\<lambda>r. case incident_id of Some i \<Rightarrow> lw_incident_id r = i | None \<Rightarrow> True)
            (pg_alerts db)))))) (try_map row_to_alert)"

definition pg_get_alert_by_id ::
  "answer \<Rightarrow> uuid \<Rightarrow> postgres_storage \<Rightarrow> storage_error + incident_alert option" where
  "pg_get_alert_by_id a i db =
     try_bind (accepted a (Inr (find (\<lambda>r. lw_id r = i) (pg_alerts db)))) (read_one row_to_alert)"


section \<open>Replay jobs and checkpoints\<close>

definition read_job_status :: "string \<Rightarrow> replay_job_status" where
  "read_job_status s =
     (let u = to_lowercase s
      in if u = ''pending'' then RPending
         else if u = ''running'' then RRunning
         else if u = ''paused'' then RPaused
         else if u = ''completed'' then RCompleted
         else if u = ''cancelled'' then RCancelled
         else if u = ''failed'' then RFailed
         else RFailed)"

definition job_to_row :: "pg_env \<Rightarrow> replay_job \<Rightarrow> storage_error + job_row" where
  "job_to_row env j =
     try_bind (u64_to_i64_checked (rj_start_height j)) (\<lambda>start_h.
     try_bind (u64_to_i64_checked (rj_end_height j)) (\<lambda>end_h.
     try_bind (u64_to_i64_checked (rj_current_height j)) (\<lambda>current_h.
     try_bind (u64_to_i64_checked (rj_blocks_processed j)) (\<lambda>blocks.
     try_bind (u64_to_i64_checked (rj_transactions_processed j)) (\<lambda>txs.
     try_bind (u64_to_i64_checked (rj_events_generated j)) (\<lambda>events.
     try_bind (u64_to_i64_checked (rj_events_created j)) (\<lambda>created.
     try_bind (u64_to_i64_checked (rj_events_existing j)) (\<lambda>existing.
     try_bind (u64_to_i64_checked (rj_observations_recorded j)) (\<lambda>recorded.
     try_bind (u64_to_i64_checked (rj_error_count j)) (\<lambda>errors.
       Inr \<lparr>jw_id = rj_id j, jw_network = rj_network j, jw_start_height = start_h, jw_end_height = end_h,
            jw_current_height = current_h, jw_status = replay_job_status_str (rj_status j),
            jw_source_type = rj_source_type j, jw_created_at = pe_time env (rj_created_at j),
            jw_started_at = map_option (pe_time env) (rj_started_at j),
            jw_completed_at = map_option (pe_time env) (rj_completed_at j),
            jw_blocks_processed = blocks, jw_transactions_processed = txs, jw_events_generated = events,
            jw_events_created = created, jw_events_existing = existing,
            jw_observations_recorded = recorded, jw_error_count = errors,
            jw_last_error = rj_last_error j\<rparr>))))))))))"

definition job_update :: "job_row \<Rightarrow> job_row \<Rightarrow> job_row" where
  "job_update n r =
     r\<lparr>jw_current_height := jw_current_height n, jw_status := jw_status n,
       jw_started_at := jw_started_at n, jw_completed_at := jw_completed_at n,
       jw_blocks_processed := jw_blocks_processed n,
       jw_transactions_processed := jw_transactions_processed n,
       jw_events_generated := jw_events_generated n, jw_events_created := jw_events_created n,
       jw_events_existing := jw_events_existing n,
       jw_observations_recorded := jw_observations_recorded n, jw_error_count := jw_error_count n,
       jw_last_error := jw_last_error n\<rparr>"

definition pg_create_job ::
  "pg_env \<Rightarrow> answer \<Rightarrow> replay_job \<Rightarrow> postgres_storage \<Rightarrow> (storage_error + unit) \<times> postgres_storage" where
  "pg_create_job env a j db =
     (case bound a (job_to_row env j) of
        Inl e \<Rightarrow> (Inl e, db)
      | Inr row \<Rightarrow>
          (Inr (), db\<lparr>pg_replay_jobs :=
             on_conflict (\<lambda>r. jw_id r = jw_id row) (job_update row) row (pg_replay_jobs db)\<rparr>))"

definition row_to_job :: "job_row \<Rightarrow> storage_error + replay_job" where
  "row_to_job r =
     try_bind (i64_to_u64_checked (jw_start_height r)) (\<lambda>start_h.
     try_bind (i64_to_u64_checked (jw_end_height r)) (\<lambda>end_h.
     try_bind (i64_to_u64_checked (jw_current_height r)) (\<lambda>current_h.
     try_bind (i64_to_u64_checked (jw_blocks_processed r)) (\<lambda>blocks.
     try_bind (i64_to_u64_checked (jw_transactions_processed r)) (\<lambda>txs.
     try_bind (i64_to_u64_checked (jw_events_generated r)) (\<lambda>events.
     try_bind (i64_to_u64_checked (jw_events_created r)) (\<lambda>created.
     try_bind (i64_to_u64_checked (jw_events_existing r)) (\<lambda>existing.
     try_bind (i64_to_u64_checked (jw_observations_recorded r)) (\<lambda>recorded.
     try_bind (i64_to_u64_checked (jw_error_count r)) (\<lambda>errors.
       Inr \<lparr>rj_id = jw_id r, rj_network = jw_network r, rj_start_height = start_h, rj_end_height = end_h,
            rj_current_height = current_h, rj_status = read_job_status (jw_status r),
            rj_source_type = jw_source_type r, rj_created_at = jw_created_at r,
            rj_started_at = jw_started_at r, rj_completed_at = jw_completed_at r,
            rj_blocks_processed = blocks, rj_transactions_processed = txs, rj_events_generated = events,
            rj_events_created = created, rj_events_existing = existing,
            rj_observations_recorded = recorded, rj_error_count = errors,
            rj_last_error = jw_last_error r\<rparr>))))))))))"

definition pg_get_job :: "answer \<Rightarrow> uuid \<Rightarrow> postgres_storage \<Rightarrow> storage_error + replay_job option" where
  "pg_get_job a i db =
     try_bind (accepted a (Inr (find (\<lambda>r. jw_id r = i) (pg_replay_jobs db)))) (read_one row_to_job)"

definition pg_update_job ::
  "pg_env \<Rightarrow> answer \<Rightarrow> replay_job \<Rightarrow> postgres_storage \<Rightarrow> (storage_error + unit) \<times> postgres_storage" where
  "pg_update_job env a j db = pg_create_job env a j db"

definition pg_list_jobs ::
  "pg_env \<Rightarrow> answer \<Rightarrow> usize \<Rightarrow> usize \<Rightarrow> postgres_storage \<Rightarrow> storage_error + replay_job list" where
  "pg_list_jobs env a limit offset db =
     try_bind (accepted a (Inr (page (min (max limit 1) 100) offset
        (order_by env jw_id (\<lambda>r. - jw_created_at r) (pg_replay_jobs db))))) (try_map row_to_job)"

definition checkpoint_to_row :: "pg_env \<Rightarrow> replay_checkpoint \<Rightarrow> storage_error + checkpoint_row" where
  "checkpoint_to_row env c =
     try_bind (u64_to_i64_checked (cp_completed_height c)) (\<lambda>height.
     try_bind (u64_to_i64_checked (cp_blocks_processed c)) (\<lambda>blocks.
     try_bind (u64_to_i64_checked (cp_transactions_processed c)) (\<lambda>txs.
     try_bind (u64_to_i64_checked (cp_events_generated c)) (\<lambda>events.
     try_bind (u64_to_i64_checked (cp_events_created c)) (\<lambda>created.
     try_bind (u64_to_i64_checked (cp_events_existing c)) (\<lambda>existing.
     try_bind (u64_to_i64_checked (cp_observations_recorded c)) (\<lambda>recorded.
       Inr \<lparr>cw_id = cp_id c, cw_job_id = cp_job_id c, cw_completed_height = height,
            cw_blocks_processed = blocks, cw_transactions_processed = txs, cw_events_generated = events,
            cw_events_created = created, cw_events_existing = existing,
            cw_observations_recorded = recorded,
            cw_checkpointed_at = pe_time env (cp_checkpointed_at c)\<rparr>)))))))"

definition pg_save_checkpoint ::
  "pg_env \<Rightarrow> answer \<Rightarrow> replay_checkpoint \<Rightarrow> postgres_storage \<Rightarrow> (storage_error + unit) \<times> postgres_storage" where
  "pg_save_checkpoint env a c db =
     (case bound a (checkpoint_to_row env c) of
        Inl e \<Rightarrow> (Inl e, db)
      | Inr row \<Rightarrow>
          (Inr (), db\<lparr>pg_checkpoints := on_conflict (\<lambda>r. cw_id r = cw_id row) (\<lambda>r. r) row (pg_checkpoints db)\<rparr>))"

definition row_to_checkpoint :: "checkpoint_row \<Rightarrow> storage_error + replay_checkpoint" where
  "row_to_checkpoint r =
     try_bind (i64_to_u64_checked (cw_completed_height r)) (\<lambda>height.
     try_bind (i64_to_u64_checked (cw_blocks_processed r)) (\<lambda>blocks.
     try_bind (i64_to_u64_checked (cw_transactions_processed r)) (\<lambda>txs.
     try_bind (i64_to_u64_checked (cw_events_generated r)) (\<lambda>events.
     try_bind (i64_to_u64_checked (cw_events_created r)) (\<lambda>created.
     try_bind (i64_to_u64_checked (cw_events_existing r)) (\<lambda>existing.
     try_bind (i64_to_u64_checked (cw_observations_recorded r)) (\<lambda>recorded.
       Inr \<lparr>cp_id = cw_id r, cp_job_id = cw_job_id r, cp_completed_height = height,
            cp_blocks_processed = blocks, cp_transactions_processed = txs, cp_events_generated = events,
            cp_events_created = created, cp_events_existing = existing,
            cp_observations_recorded = recorded, cp_checkpointed_at = cw_checkpointed_at r\<rparr>)))))))"

definition first_row :: "'r list \<Rightarrow> 'r option" where
  "first_row rows = (case rows of [] \<Rightarrow> None | r # _ \<Rightarrow> Some r)"

definition pg_get_latest_checkpoint ::
  "pg_env \<Rightarrow> answer \<Rightarrow> uuid \<Rightarrow> postgres_storage \<Rightarrow> storage_error + replay_checkpoint option" where
  "pg_get_latest_checkpoint env a job_id db =
     try_bind (accepted a (Inr (first_row (order_by env cw_id (\<lambda>r. - cw_completed_height r)
        (filter (\<lambda>r. cw_job_id r = job_id) (pg_checkpoints db)))))) (read_one row_to_checkpoint)"

section \<open>Baseline runs and distributions\<close>

definition run_to_row :: "pg_env \<Rightarrow> baseline_run \<Rightarrow> storage_error + run_row" where
  "run_to_row env b =
     try_bind (u64_to_i64_checked (br_start_height b)) (\<lambda>start_h.
     try_bind (u64_to_i64_checked (br_end_height b)) (\<lambda>end_h.
     try_bind (u64_to_i64_checked (br_canonical_event_count b)) (\<lambda>cnt.
       Inr \<lparr>nw_id = br_id b, nw_network = br_network b, nw_start_height = start_h, nw_end_height = end_h,
            nw_started_at = pe_time env (br_started_at b),
            nw_completed_at = map_option (pe_time env) (br_completed_at b),
            nw_status = baseline_run_status_str (br_status b),
            nw_algorithm_version = br_algorithm_version b, nw_canonical_event_count = cnt,
            nw_error_message = br_error_message b, nw_metadata = pe_jsonb env (br_metadata b),
            nw_created_at = pe_time env (br_created_at b)\<rparr>)))"

definition run_update :: "run_row \<Rightarrow> run_row \<Rightarrow> run_row" where
  "run_update n r =
     r\<lparr>nw_status := nw_status n, nw_completed_at := nw_completed_at n,
       nw_canonical_event_count := nw_canonical_event_count n, nw_error_message := nw_error_message n,
       nw_metadata := nw_metadata n\<rparr>"

definition pg_create_baseline_run ::
  "pg_env \<Rightarrow> answer \<Rightarrow> baseline_run \<Rightarrow> postgres_storage \<Rightarrow> (storage_error + unit) \<times> postgres_storage" where
  "pg_create_baseline_run env a b db =
     (case bound a (run_to_row env b) of
        Inl e \<Rightarrow> (Inl e, db)
      | Inr row \<Rightarrow>
          (Inr (), db\<lparr>pg_baseline_runs :=
             on_conflict (\<lambda>r. nw_id r = nw_id row) (run_update row) row (pg_baseline_runs db)\<rparr>))"

definition pg_update_baseline_run_status ::
  "pg_env \<Rightarrow> answer \<Rightarrow> uuid \<Rightarrow> baseline_run_status \<Rightarrow> datetime option \<Rightarrow> u64 \<Rightarrow> string option \<Rightarrow> postgres_storage
     \<Rightarrow> (storage_error + unit) \<times> postgres_storage" where
  "pg_update_baseline_run_status env a i status completed_at event_count error_message db =
     (case bound a (u64_to_i64_checked event_count) of
        Inl e \<Rightarrow> (Inl e, db)
      | Inr cnt \<Rightarrow>
          if list_ex (\<lambda>r. nw_id r = i) (pg_baseline_runs db) then
            (Inr (), db\<lparr>pg_baseline_runs := map (\<lambda>r. if nw_id r = i
                then r\<lparr>nw_status := baseline_run_status_str status,
                       nw_completed_at := map_option (pe_time env) completed_at,
                       nw_canonical_event_count := cnt, nw_error_message := error_message\<rparr>
                else r) (pg_baseline_runs db)\<rparr>)
          else (Inl (NotFound (''BaselineRun '' @ uuid_str i @ '' not found'')), db))"

definition row_to_baseline_run :: "run_row \<Rightarrow> storage_error + baseline_run" where
  "row_to_baseline_run r =
     try_bind (i64_to_u64_checked (nw_start_height r)) (\<lambda>start_h.
     try_bind (i64_to_u64_checked (nw_end_height r)) (\<lambda>end_h.
     try_bind (i64_to_u64_checked (nw_canonical_event_count r)) (\<lambda>cnt.
       Inr \<lparr>br_id = nw_id r, br_network = nw_network r, br_start_height = start_h, br_end_height = end_h,
            br_started_at = nw_started_at r, br_completed_at = nw_completed_at r,
            br_status = (case baseline_run_status_from_str (nw_status r) of Inr s \<Rightarrow> s | Inl _ \<Rightarrow> BPending),
            br_algorithm_version = nw_algorithm_version r, br_canonical_event_count = cnt,
            br_error_message = nw_error_message r, br_metadata = nw_metadata r,
            br_created_at = nw_created_at r\<rparr>)))"

definition pg_get_baseline_run :: "answer \<Rightarrow> uuid \<Rightarrow> postgres_storage \<Rightarrow> storage_error + baseline_run option" where
  "pg_get_baseline_run a i db =
     try_bind (accepted a (Inr (find (\<lambda>r. nw_id r = i) (pg_baseline_runs db)))) (read_one row_to_baseline_run)"

definition pg_list_baseline_runs ::
  "pg_env \<Rightarrow> answer \<Rightarrow> string option \<Rightarrow> usize \<Rightarrow> usize \<Rightarrow> postgres_storage \<Rightarrow> storage_error + baseline_run list" where
  "pg_list_baseline_runs env a network limit offset db =
     try_bind (accepted a (Inr (page (min (max limit 1) 200) offset
        (order_by env nw_id (\<lambda>r. - nw_created_at r)
          (filter (\<lambda>r. case network of Some n \<Rightarrow> nw_network r = n | None \<Rightarrow> True)
            (pg_baseline_runs db)))))) (try_map row_to_baseline_run)"

text \<open>A missing completion time comes first in descending order.\<close>

definition run_rank :: "run_row \<Rightarrow> int \<times> nat \<times> int" where
  "run_rank r =
     (- nw_end_height r, case nw_completed_at r of None \<Rightarrow> (0, 0) | Some t \<Rightarrow> (1, - t))"

definition pg_get_latest_compatible_baseline_run ::
  "pg_env \<Rightarrow> answer \<Rightarrow> string \<Rightarrow> u64 option \<Rightarrow> string option \<Rightarrow> postgres_storage
     \<Rightarrow> storage_error + baseline_run option" where
  "pg_get_latest_compatible_baseline_run env a network height version db =
     try_bind (opt_i64 height) (\<lambda>h.
     try_bind (accepted a (Inr (first_row (order_by env nw_id run_rank
        (filter (\<lambda>r. nw_network r = network \<and> nw_status r = ''COMPLETED''
            \<and> (case h of Some x \<Rightarrow> nw_start_height r \<le> x | None \<Rightarrow> True)
            \<and> (case version of Some v \<Rightarrow> nw_algorithm_version r = v | None \<Rightarrow> True))
          (pg_baseline_runs db)))))) (read_one row_to_baseline_run))"

definition distribution_to_row :: "pg_env \<Rightarrow> baseline_distribution \<Rightarrow> storage_error + distribution_row" where
  "distribution_to_row env d =
     try_bind (u64_to_i64_checked (bd_sample_count d)) (\<lambda>samples.
     try_bind (u64_to_i64_checked (bd_candidate_count d)) (\<lambda>candidates.
     try_bind (u64_to_i64_checked (bd_missing_count d)) (\<lambda>missing.
       let num = (\<lambda>v. pe_numeric env (to_numeric_string v))
       in Inr \<lparr>dw_id = bd_id d, dw_baseline_run_id = bd_baseline_run_id d,
               dw_event_type = event_type_name (bd_event_type d), dw_metric = metric_str (bd_metric d),
               dw_unit = metric_unit_str (bd_unit d), dw_sample_count = samples,
               dw_candidate_count = candidates, dw_missing_count = missing,
               dw_coverage_ratio = bd_coverage_ratio d, dw_minimum = num (bd_minimum d),
               dw_maximum = num (bd_maximum d), dw_mean = pe_numeric env (fmt_fixed 4 (bd_mean d)),
               dw_p50 = num (bd_p50 d), dw_p75 = num (bd_p75 d), dw_p90 = num (bd_p90 d),
               dw_p95 = num (bd_p95 d), dw_p99 = num (bd_p99 d), dw_p999 = num (bd_p999 d),
               dw_quality = baseline_quality_str (bd_quality d),
               dw_samples_json = map_option (pe_jsonb env) (bd_samples_json d),
               dw_created_at = pe_time env (bd_created_at d)\<rparr>)))"

definition distribution_conflict :: "distribution_row \<Rightarrow> distribution_row \<Rightarrow> bool" where
  "distribution_conflict n r \<longleftrightarrow> dw_baseline_run_id r = dw_baseline_run_id n
     \<and> dw_event_type r = dw_event_type n \<and> dw_metric r = dw_metric n"

definition distribution_update :: "distribution_row \<Rightarrow> distribution_row \<Rightarrow> distribution_row" where
  "distribution_update n r =
     n\<lparr>dw_id := dw_id r, dw_baseline_run_id := dw_baseline_run_id r, dw_event_type := dw_event_type r,
       dw_metric := dw_metric r, dw_unit := dw_unit r, dw_created_at := dw_created_at r\<rparr>"

text \<open>
  One transaction: begin, a statement for each distribution, commit. When any of them is refused or
  a count does not fit, nothing is stored.
\<close>

fun save_distribution_rows ::
  "pg_env \<Rightarrow> (nat \<Rightarrow> answer) \<Rightarrow> baseline_distribution list \<Rightarrow> distribution_row list
     \<Rightarrow> storage_error + distribution_row list" where
  "save_distribution_rows env ans [] rows = accepted (ans 0) (Inr rows)"
| "save_distribution_rows env ans (d # ds) rows =
     try_bind (bound (ans 0) (distribution_to_row env d)) (\<lambda>row.
       save_distribution_rows env (\<lambda>k. ans (Suc k)) ds
         (on_conflict (distribution_conflict row) (distribution_update row) row rows))"

definition pg_save_baseline_distributions ::
  "pg_env \<Rightarrow> answer \<Rightarrow> (nat \<Rightarrow> answer) \<Rightarrow> baseline_distribution list \<Rightarrow> postgres_storage
     \<Rightarrow> (storage_error + unit) \<times> postgres_storage" where
  "pg_save_baseline_distributions env a ans ds db =
     (case try_bind (accepted a (Inr ())) (\<lambda>_. save_distribution_rows env ans ds (pg_distributions db)) of
        Inl e \<Rightarrow> (Inl e, db)
      | Inr rows \<Rightarrow> (Inr (), db\<lparr>pg_distributions := rows\<rparr>))"

definition or_default :: "'a \<Rightarrow> 'e + 'a \<Rightarrow> 'a" where
  "or_default d r = (case r of Inr x \<Rightarrow> x | Inl _ \<Rightarrow> d)"

definition row_to_baseline_distribution ::
  "pg_env \<Rightarrow> distribution_row \<Rightarrow> storage_error + baseline_distribution" where
  "row_to_baseline_distribution env r =
     (let metric = or_default ValueSats (metric_from_str (dw_metric r));
          val = (\<lambda>s. from_str_and_metric s metric)
      in try_bind (i64_to_u64_checked (dw_sample_count r)) (\<lambda>samples.
         try_bind (i64_to_u64_checked (dw_candidate_count r)) (\<lambda>candidates.
         try_bind (i64_to_u64_checked (dw_missing_count r)) (\<lambda>missing.
           Inr \<lparr>bd_id = dw_id r, bd_baseline_run_id = dw_baseline_run_id r,
                bd_event_type = read_event_type (dw_event_type r), bd_metric = metric,
                bd_unit = or_default Satoshis (metric_unit_from_str (dw_unit r)),
                bd_sample_count = samples, bd_candidate_count = candidates, bd_missing_count = missing,
                bd_coverage_ratio = dw_coverage_ratio r, bd_minimum = val (dw_minimum r),
                bd_maximum = val (dw_maximum r), bd_mean = pe_float8 env (dw_mean r),
                bd_p50 = val (dw_p50 r), bd_p75 = val (dw_p75 r), bd_p90 = val (dw_p90 r),
                bd_p95 = val (dw_p95 r), bd_p99 = val (dw_p99 r), bd_p999 = val (dw_p999 r),
                bd_quality = or_default QInsufficient (baseline_quality_from_str (dw_quality r)),
                bd_samples_json = dw_samples_json r, bd_created_at = dw_created_at r\<rparr>))))"

definition pg_get_baseline_distributions ::
  "pg_env \<Rightarrow> answer \<Rightarrow> uuid \<Rightarrow> postgres_storage \<Rightarrow> storage_error + baseline_distribution list" where
  "pg_get_baseline_distributions env a run_id db =
     try_bind (accepted a (Inr (order_by env dw_id
         (\<lambda>r. (pe_collate env (dw_event_type r), pe_collate env (dw_metric r)))
         (filter (\<lambda>r. dw_baseline_run_id r = run_id) (pg_distributions db)))))
       (try_map (row_to_baseline_distribution env))"

definition pg_query_distributions ::
  "pg_env \<Rightarrow> answer \<Rightarrow> event_type option \<Rightarrow> baseline_metric option \<Rightarrow> usize \<Rightarrow> postgres_storage
     \<Rightarrow> storage_error + baseline_distribution list" where
  "pg_query_distributions env a event_type metric limit db =
     try_bind (accepted a (Inr (page (min (max limit 1) 200) 0
         (order_by env dw_id (\<lambda>r. - dw_created_at r)
           (filter (\<lambda>r. (case event_type of Some ty \<Rightarrow> dw_event_type r = event_type_name ty | None \<Rightarrow> True)
               \<and> (case metric of Some m \<Rightarrow> dw_metric r = metric_str m | None \<Rightarrow> True))
             (pg_distributions db))))))
       (try_map (row_to_baseline_distribution env))"


section \<open>Rarity\<close>

definition component_to_value :: "impact_component \<Rightarrow> json" where
  "component_to_value c =
     JObj [(''component_name'', JStr (imc_component_name c)), (''metric'', JStr (metric_str (imc_metric c))),
           (''raw_value'', JStr (imc_raw_value c)), (''percentile'', json_opt json_f64 (imc_percentile c)),
           (''weight'', json_f64 (imc_weight c)), (''points_awarded'', json_f64 (imc_points_awarded c)),
           (''population_size'', json_u (imc_population_size c))]"

definition impact_to_value :: "impact_breakdown \<Rightarrow> json" where
  "impact_to_value b =
     JObj [(''model_id'', JStr (ib_model_id b)), (''model_version'', JStr (ib_model_version b)),
           (''event_type'', JStr (event_type_name (ib_event_type b))), (''status'', JStr (ib_status b)),
           (''score'', json_opt json_f64 (ib_total_score b)),
           (''max_possible_points'', json_f64 (ib_max_possible_points b)),
           (''model_coverage'', json_f64 (ib_model_coverage b)),
           (''coverage_ratio'', json_f64 (ib_coverage_ratio b)),
           (''components'', JArr (map component_to_value (ib_components b)))]"

definition rarity_to_row ::
  "pg_env \<Rightarrow> uuid \<Rightarrow> datetime \<Rightarrow> event_rarity_result \<Rightarrow> impact_breakdown option \<Rightarrow> storage_error + rarity_row" where
  "rarity_to_row env new_id now r impact =
     try_bind (u64_to_i64_checked (er_population_size r)) (\<lambda>population.
     try_bind (u64_to_i64_checked (er_tail_count r)) (\<lambda>tail.
       Inr \<lparr>yw_id = new_id, yw_event_id = er_event_id r, yw_baseline_run_id = er_baseline_run_id r,
            yw_event_type = event_type_name (er_event_type r), yw_metric = metric_str (er_metric r),
            yw_value_numeric = pe_numeric env (to_numeric_string (er_value r)),
            yw_value_text = to_numeric_string (er_value r), yw_percentile = er_percentile r,
            yw_rarity_band = rarity_band_str (er_rarity_band r), yw_population_size = population,
            yw_tail_count = tail, yw_evaluation_mode = evaluation_mode_str (er_evaluation_mode r),
            yw_impact_score = Option.bind impact ib_total_score,
            yw_impact_json = map_option (\<lambda>b. pe_jsonb env (impact_to_value b)) impact,
            yw_percentile_method = percentile_method_str (er_percentile_method r),
            yw_estimated = er_estimated r, yw_created_at = now\<rparr>))"

definition rarity_conflict :: "rarity_row \<Rightarrow> rarity_row \<Rightarrow> bool" where
  "rarity_conflict n r \<longleftrightarrow> yw_event_id r = yw_event_id n \<and> yw_baseline_run_id r = yw_baseline_run_id n
     \<and> yw_metric r = yw_metric n"

definition rarity_update :: "rarity_row \<Rightarrow> rarity_row \<Rightarrow> rarity_row" where
  "rarity_update n r =
     r\<lparr>yw_value_numeric := yw_value_numeric n, yw_value_text := yw_value_text n,
       yw_percentile := yw_percentile n, yw_rarity_band := yw_rarity_band n,
       yw_population_size := yw_population_size n, yw_tail_count := yw_tail_count n,
       yw_evaluation_mode := yw_evaluation_mode n, yw_impact_score := yw_impact_score n,
       yw_impact_json := yw_impact_json n, yw_percentile_method := yw_percentile_method n,
       yw_estimated := yw_estimated n\<rparr>"

definition pg_save_event_rarity ::
  "pg_env \<Rightarrow> uuid \<Rightarrow> datetime \<Rightarrow> answer \<Rightarrow> event_rarity_result \<Rightarrow> impact_breakdown option \<Rightarrow> postgres_storage
     \<Rightarrow> (storage_error + unit) \<times> postgres_storage" where
  "pg_save_event_rarity env new_id now a r impact db =
     (case bound a (rarity_to_row env new_id now r impact) of
        Inl e \<Rightarrow> (Inl e, db)
      | Inr row \<Rightarrow>
          (Inr (), db\<lparr>pg_event_rarity :=
             on_conflict (rarity_conflict row) (rarity_update row) row (pg_event_rarity db)\<rparr>))"

text \<open>
  The columns of the method and of the estimate are not selected, so that reading them fails and the
  defaults are taken.
\<close>

definition row_to_rarity :: "rarity_row \<Rightarrow> storage_error + event_rarity_result" where
  "row_to_rarity r =
     (let metric = or_default ValueSats (metric_from_str (yw_metric r))
      in try_bind (i64_to_u64_checked (yw_population_size r)) (\<lambda>population.
         try_bind (i64_to_u64_checked (yw_tail_count r)) (\<lambda>tail.
           Inr \<lparr>er_event_id = yw_event_id r, er_baseline_run_id = yw_baseline_run_id r,
                er_event_type = read_event_type (yw_event_type r), er_metric = metric,
                er_value = from_str_and_metric (yw_value_numeric r) metric,
                er_percentile = yw_percentile r,
                er_percentile_method =
                  or_default ExactEmpiricalCdf (percentile_method_from_str ''EXACT_EMPIRICAL_CDF''),
                er_estimated = False,
                er_rarity_band = or_default Common (rarity_band_from_str (yw_rarity_band r)),
                er_population_size = population, er_tail_count = tail,
                er_evaluation_mode =
                  or_default Retrospective (evaluation_mode_from_str (yw_evaluation_mode r))\<rparr>)))"

definition pg_get_event_rarity ::
  "pg_env \<Rightarrow> answer \<Rightarrow> uuid \<Rightarrow> uuid option \<Rightarrow> postgres_storage \<Rightarrow> storage_error + event_rarity_result list" where
  "pg_get_event_rarity env a event_id run_id db =
     try_bind (accepted a (Inr (order_by env yw_id yw_created_at
        (filter (\<lambda>r. yw_event_id r = event_id
            \<and> (case run_id of Some b \<Rightarrow> yw_baseline_run_id r = b | None \<Rightarrow> True))
          (pg_event_rarity db))))) (try_map row_to_rarity)"

definition pg_get_exact_empirical_rank ::
  "pg_env \<Rightarrow> answer \<Rightarrow> string \<Rightarrow> event_type \<Rightarrow> baseline_metric \<Rightarrow> string \<Rightarrow> u64 \<Rightarrow> u64 \<Rightarrow> metric_value
     \<Rightarrow> rarity_direction \<Rightarrow> postgres_storage \<Rightarrow> storage_error + (f64 \<times> u64 \<times> u64) option" where
  "pg_get_exact_empirical_rank env a network ty metric version start_h end_h x direction db =
     try_bind (u64_to_i64_checked start_h) (\<lambda>s.
     try_bind (u64_to_i64_checked end_h) (\<lambda>e.
     try_bind (accepted a (Inr (filter (\<lambda>r. mw_network r = network \<and> mw_event_type r = event_type_name ty
           \<and> mw_metric r = metric_str metric \<and> mw_version r = version
           \<and> s \<le> mw_block_height r \<and> mw_block_height r \<le> e) (pg_metric_values db)))) (\<lambda>rows.
       let q = to_numeric_string x;
           le = length (filter (\<lambda>r. pe_numeric_le env (mw_value r) q) rows);
           ge = length (filter (\<lambda>r. pe_numeric_le env q (mw_value r)) rows);
           n = length rows
       in Inr (if n = 0 then None
               else Some (case direction of
                   LowerIsRarer \<Rightarrow>
                     (f64_mul (f64_div (f64_of_nat ge) (f64_of_nat n)) (f64_lit 100), of_nat le, of_nat n)
                 | _ \<Rightarrow>
                     (f64_mul (f64_div (f64_of_nat le) (f64_of_nat n)) (f64_lit 100), of_nat ge, of_nat n))))))"

end
