(* ===== verification/Case_Tables.thy ===== *)
theory Case_Tables
  imports Postgres Dossier
begin

text \<open>
  The dossier tables of the PostgreSQL back end: the transaction of \<open>save_incident\<close> and the queries of
  \<open>get_incident_by_id\<close> and \<open>list_incidents\<close>. Each table is the list of its rows. The order in which the
  server returns rows that \<open>ORDER BY\<close> leaves equal, or all rows where the query has none, is the
  parameter \<open>scan\<close>, which ranks the positions of a table. Columns that are written and never read are
  left out, except for the time of the last change of a dossier.
\<close>

section \<open>Names of enumerations\<close>

definition read_or :: "'a \<Rightarrow> 'a option \<Rightarrow> 'a" where
  "read_or d r = (case r of Some x \<Rightarrow> x | None \<Rightarrow> d)"

definition chain_str :: "chain \<Rightarrow> string" where
  "chain_str c = (case c of Bitcoin \<Rightarrow> ''Bitcoin'' | Liquid \<Rightarrow> ''Liquid'')"

definition read_chain :: "string \<Rightarrow> chain" where
  "read_chain s = (if to_lowercase s = ''liquid'' then Liquid else Bitcoin)"

fun incident_status_name :: "incident_status \<Rightarrow> string" where
  "incident_status_name Detected = ''DETECTED''"
| "incident_status_name Investigating = ''INVESTIGATING''"
| "incident_status_name Verified = ''VERIFIED''"
| "incident_status_name Monitoring = ''MONITORING''"
| "incident_status_name IRecovery = ''RECOVERY''"
| "incident_status_name Resolved = ''RESOLVED''"
| "incident_status_name Closed = ''CLOSED''"
| "incident_status_name IOpen = ''OPEN''"
| "incident_status_name Mitigated = ''MITIGATED''"
| "incident_status_name IDisputed = ''DISPUTED''"

definition read_incident_status :: "string \<Rightarrow> incident_status" where
  "read_incident_status s =
     read_or Investigating (read_name incident_status_name
       [Detected, Investigating, Verified, Monitoring, IRecovery, Resolved, Closed, IOpen, Mitigated,
        IDisputed] [] s)"

definition read_incident_severity :: "string \<Rightarrow> event_severity" where
  "read_incident_severity s =
     read_or SevHigh (read_name severity_name [SevInfo, SevLow, SevMedium, SevHigh, SevCritical] [] s)"

fun source_category_name :: "source_category \<Rightarrow> string" where
  "source_category_name BitcoinBlockchain = ''BITCOIN_BLOCKCHAIN''"
| "source_category_name LiquidBlockchain = ''LIQUID_BLOCKCHAIN''"
| "source_category_name OfficialTechnicalReport = ''OFFICIAL_TECHNICAL_REPORT''"
| "source_category_name OfficialPublicStatement = ''OFFICIAL_PUBLIC_STATEMENT''"
| "source_category_name SourceRepository = ''SOURCE_REPOSITORY''"
| "source_category_name SecurityAdvisory = ''SECURITY_ADVISORY''"
| "source_category_name IndependentReporting = ''INDEPENDENT_REPORTING''"

definition read_source_category :: "string \<Rightarrow> source_category" where
  "read_source_category s =
     read_or BitcoinBlockchain (read_name source_category_name
       [BitcoinBlockchain, LiquidBlockchain, OfficialTechnicalReport, OfficialPublicStatement,
        SourceRepository, SecurityAdvisory, IndependentReporting] [] s)"

fun evidence_type_name :: "evidence_type \<Rightarrow> string" where
  "evidence_type_name OnChainTransaction = ''ON_CHAIN_TRANSACTION''"
| "evidence_type_name OnChainBlock = ''ON_CHAIN_BLOCK''"
| "evidence_type_name MempoolSnapshot = ''MEMPOOL_SNAPSHOT''"
| "evidence_type_name OfficialStatement = ''OFFICIAL_STATEMENT''"
| "evidence_type_name EOfficialTechnicalReport = ''OFFICIAL_TECHNICAL_REPORT''"
| "evidence_type_name ESecurityAdvisory = ''SECURITY_ADVISORY''"
| "evidence_type_name ESourceRepository = ''SOURCE_REPOSITORY''"
| "evidence_type_name HeuristicCluster = ''HEURISTIC_CLUSTER''"
| "evidence_type_name DisputedClaim = ''DISPUTED_CLAIM''"
| "evidence_type_name EIndependentReporting = ''INDEPENDENT_REPORTING''"

definition read_evidence_type :: "string \<Rightarrow> evidence_type" where
  "read_evidence_type s =
     read_or OnChainTransaction (read_name evidence_type_name
       [OnChainTransaction, OnChainBlock, MempoolSnapshot, OfficialStatement, EOfficialTechnicalReport,
        ESecurityAdvisory, ESourceRepository, HeuristicCluster, DisputedClaim, EIndependentReporting] [] s)"

fun transaction_role_name :: "transaction_role \<Rightarrow> string" where
  "transaction_role_name RExploit = ''EXPLOIT''"
| "transaction_role_name PegOut = ''PEG_OUT''"
| "transaction_role_name Transfer = ''TRANSFER''"
| "transaction_role_name Forwarding = ''FORWARDING''"
| "transaction_role_name Return = ''RETURN''"
| "transaction_role_name RRecovery = ''RECOVERY''"
| "transaction_role_name RCommunication = ''COMMUNICATION''"
| "transaction_role_name ROther = ''OTHER''"

definition read_transaction_role :: "string \<Rightarrow> transaction_role" where
  "read_transaction_role s =
     read_or ROther (read_name transaction_role_name
       [RExploit, PegOut, Transfer, Forwarding, Return, RRecovery, RCommunication, ROther] [] s)"

fun timeline_category_name :: "timeline_category \<Rightarrow> string" where
  "timeline_category_name TExploit = ''EXPLOIT''"
| "timeline_category_name OnChainMovement = ''ON_CHAIN_MOVEMENT''"
| "timeline_category_name Discovery = ''DISCOVERY''"
| "timeline_category_name Containment = ''CONTAINMENT''"
| "timeline_category_name TCommunication = ''COMMUNICATION''"
| "timeline_category_name Disclosure = ''DISCLOSURE''"
| "timeline_category_name Patch = ''PATCH''"
| "timeline_category_name TRecovery = ''RECOVERY''"
| "timeline_category_name NetworkRestart = ''NETWORK_RESTART''"
| "timeline_category_name TOther = ''OTHER''"

definition read_timeline_category :: "string \<Rightarrow> timeline_category" where
  "read_timeline_category s =
     read_or TOther (read_name timeline_category_name
       [TExploit, OnChainMovement, Discovery, Containment, TCommunication, Disclosure, Patch, TRecovery,
        NetworkRestart, TOther] [] s)"

fun node_type_name :: "graph_node_type \<Rightarrow> string" where
  "node_type_name NTransaction = ''TRANSACTION''"
| "node_type_name NBlock = ''BLOCK''"
| "node_type_name NAddress = ''ADDRESS''"
| "node_type_name NEntity = ''ENTITY''"
| "node_type_name NSource = ''SOURCE''"
| "node_type_name NEvidence = ''EVIDENCE''"

definition read_node_type :: "string \<Rightarrow> graph_node_type" where
  "read_node_type s =
     read_or NTransaction (read_name node_type_name
       [NTransaction, NBlock, NAddress, NEntity, NSource, NEvidence] [] s)"

fun edge_type_name :: "graph_edge_type \<Rightarrow> string" where
  "edge_type_name Spends = ''SPENDS''"
| "edge_type_name ConfirmedIn = ''CONFIRMED_IN''"
| "edge_type_name ForwardsTo = ''FORWARDS_TO''"
| "edge_type_name ReturnsTo = ''RETURNS_TO''"
| "edge_type_name References = ''REFERENCES''"
| "edge_type_name Supports = ''SUPPORTS''"
| "edge_type_name AttributedTo = ''ATTRIBUTED_TO''"
| "edge_type_name PossiblyRelated = ''POSSIBLY_RELATED''"

definition read_edge_type :: "string \<Rightarrow> graph_edge_type" where
  "read_edge_type s =
     read_or PossiblyRelated (read_name edge_type_name
       [Spends, ConfirmedIn, ForwardsTo, ReturnsTo, References, Supports, AttributedTo, PossiblyRelated] [] s)"

definition read_sender_confidence :: "string \<Rightarrow> provenance_classification" where
  "read_sender_confidence s = read_or Unverified (parse_provenance s)"

lemma read_or_name:
  "distinct (map name xs) \<Longrightarrow> x \<in> set xs \<Longrightarrow> read_or d (read_name name xs aliases (name x)) = x"
  by (simp add: read_or_def read_name_name)

lemma read_case_names [simp]:
  "read_chain (chain_str c) = c"
  "read_incident_status (incident_status_name st) = st"
  "read_incident_severity (severity_name sv) = sv"
  "read_source_category (source_category_name sc) = sc"
  "read_evidence_type (evidence_type_name et) = et"
  "read_transaction_role (transaction_role_name tr) = tr"
  "read_timeline_category (timeline_category_name tc) = tc"
  "read_node_type (node_type_name nt) = nt"
  "read_edge_type (edge_type_name gt) = gt"
         apply (cases c; hypsubst; code_simp)
        apply (cases st; hypsubst; code_simp)
       apply (cases sv; hypsubst; code_simp)
      apply (cases sc; hypsubst; code_simp)
     apply (cases et; hypsubst; code_simp)
    apply (cases tr; hypsubst; code_simp)
   apply (cases tc; hypsubst; code_simp)
  apply (cases nt; hypsubst; code_simp)
  apply (cases gt; hypsubst; code_simp)
  done

lemma read_provenance_name [simp]:
  "read_provenance (provenance_name p) = p" "read_sender_confidence (provenance_name p) = p"
  by (cases p; hypsubst; code_simp)+


section \<open>JSON columns\<close>

definition vec_of_value :: "(json \<Rightarrow> 'a option) \<Rightarrow> json \<Rightarrow> 'a list option" where
  "vec_of_value f j = (case j of JArr xs \<Rightarrow> those (map f xs) | _ \<Rightarrow> None)"

definition vec_or_default :: "(json \<Rightarrow> 'a option) \<Rightarrow> json \<Rightarrow> 'a list" where
  "vec_or_default f j = read_or [] (vec_of_value f j)"

definition u64s_to_value :: "u64 list \<Rightarrow> json" where
  "u64s_to_value hs = JArr (map json_u hs)"

definition claims_to_value :: "structured_claims_summary \<Rightarrow> json" where
  "claims_to_value c =
     JObj [(''verified_on_chain'', json_strs (scs_verified_on_chain c)),
           (''officially_attributed'', json_strs (scs_officially_attributed c)),
           (''reported'', json_strs (scs_reported c)), (''heuristic'', json_strs (scs_heuristic c)),
           (''unknown'', json_strs (scs_unknown c))]"

definition claims_of_value :: "json \<Rightarrow> structured_claims_summary" where
  "claims_of_value j =
     (let tier = (\<lambda>k. Option.bind (json_get k j) (vec_of_value as_str))
      in case (tier ''verified_on_chain'', tier ''officially_attributed'', tier ''reported'',
               tier ''heuristic'', tier ''unknown'') of
           (Some v, Some a, Some r, Some h, Some u) \<Rightarrow>
             \<lparr>scs_verified_on_chain = v, scs_officially_attributed = a, scs_reported = r,
              scs_heuristic = h, scs_unknown = u\<rparr>
         | _ \<Rightarrow> \<lparr>scs_verified_on_chain = [], scs_officially_attributed = [], scs_reported = [],
                 scs_heuristic = [], scs_unknown = []\<rparr>)"

definition recovery_to_value :: "pg_env \<Rightarrow> recovery_summary \<Rightarrow> json" where
  "recovery_to_value env r =
     JObj [(''affected_sats'', json_u (rec_affected_sats r)),
           (''recovered_sats'', json_u (rec_recovered_sats r)),
           (''outstanding_sats'', json_u (rec_outstanding_sats r)),
           (''as_of_timestamp'', JStr (pe_serde_time env (rec_as_of_timestamp r))),
           (''source'', json_opt JStr (rec_source r)), (''is_estimate'', JBool (rec_is_estimate r))]"

fun bool_of_value :: "json \<Rightarrow> bool option" where
  "bool_of_value (JBool b) = Some b"
| "bool_of_value _ = None"

definition recovery_of_value :: "pg_env \<Rightarrow> json \<Rightarrow> recovery_summary option" where
  "recovery_of_value env j =
     (let sats = (\<lambda>k. Option.bind (json_get k j) as_u64)
      in case (sats ''affected_sats'', sats ''recovered_sats'', sats ''outstanding_sats'',
               Option.bind (text_field ''as_of_timestamp'' j) (pe_parse_time env),
               opt_string_of_value (json_get ''source'' j),
               Option.bind (json_get ''is_estimate'' j) bool_of_value) of
           (Some a, Some r, Some out, Some t, Some s, Some b) \<Rightarrow>
             Some \<lparr>rec_affected_sats = a, rec_recovered_sats = r, rec_outstanding_sats = out,
                   rec_as_of_timestamp = t, rec_source = s, rec_is_estimate = b\<rparr>
         | _ \<Rightarrow> None)"

section \<open>Tables\<close>

record incident_row =
  kw_id :: uuid
  kw_case_id :: string
  kw_title :: string
  kw_summary :: string
  kw_status :: string
  kw_severity :: string
  kw_first_observed_at :: datetime
  kw_last_updated_at :: datetime
  kw_structured_claims :: json
  kw_facts :: json
  kw_reported_claims :: json
  kw_unverified_claims :: json
  kw_associated_txids :: json
  kw_associated_block_heights :: json
  kw_updated_at :: datetime

record snapshot_row =
  sw_incident_id :: uuid
  sw_affected_sats :: int
  sw_recovered_sats :: int
  sw_outstanding_sats :: int
  sw_is_estimate :: bool
  sw_as_of_timestamp :: datetime
  sw_source_label :: "string option"

record source_row =
  zw_id :: uuid
  zw_incident_id :: uuid
  zw_publisher :: string
  zw_title :: string
  zw_url :: "string option"
  zw_publication_timestamp :: "datetime option"
  zw_retrieved_timestamp :: "datetime option"
  zw_source_category :: string
  zw_reliability_score :: f64
  zw_name :: "string option"

record evidence_row =
  vw_id :: uuid
  vw_incident_id :: uuid
  vw_evidence_type :: string
  vw_confidence :: string
  vw_title :: string
  vw_description :: string
  vw_observed_at :: "datetime option"
  vw_source_id :: "uuid option"
  vw_source_reference :: "string option"
  vw_txid :: "string option"
  vw_block_hash :: "string option"
  vw_block_height :: "int option"
  vw_chain :: string
  vw_verified :: bool
  vw_raw_data :: "json option"
  vw_created_at :: datetime

record case_tx_row =
  xw_incident_id :: uuid
  xw_chain :: string
  xw_txid :: string
  xw_role :: string
  xw_amount_sats :: "int option"
  xw_block_height :: "int option"
  xw_block_hash :: "string option"
  xw_confirmed_at :: "datetime option"
  xw_evidence_id :: "uuid option"
  xw_notes :: "string option"

record case_block_row =
  bw_incident_id :: uuid
  bw_chain :: string
  bw_height :: int
  bw_hash :: string
  bw_timestamp :: datetime
  bw_tx_count :: "int option"
  bw_evidence_id :: "uuid option"

record entity_row =
  ew_id :: uuid
  ew_incident_id :: uuid
  ew_name :: string
  ew_entity_type :: string
  ew_description :: string
  ew_attribution_confidence :: string

record message_row =
  gw_incident_id :: uuid
  gw_txid :: string
  gw_chain :: string
  gw_encoding :: string
  gw_decoded_text :: string
  gw_raw_hex :: string
  gw_confirmed_at :: "datetime option"
  gw_block_height :: "int option"
  gw_attributed_sender :: "string option"
  gw_sender_attribution_confidence :: string

record timeline_row =
  iw_id :: uuid
  iw_incident_id :: uuid
  iw_timestamp :: datetime
  iw_title :: string
  iw_description :: string
  iw_category :: string
  iw_source_id :: "uuid option"
  iw_evidence_ids :: json
  iw_transaction_txids :: json
  iw_block_heights :: json
  iw_classification :: string

record finding_row =
  fw_incident_id :: uuid
  fw_finding :: technical_finding

record update_row =
  uw_id :: uuid
  uw_incident_id :: uuid
  uw_timestamp :: datetime
  uw_title :: string
  uw_summary :: string
  uw_source_id :: "uuid option"
  uw_recovery_state :: "json option"

record node_row =
  hw_incident_id :: uuid
  hw_node_id :: string
  hw_label :: string
  hw_node_type :: string
  hw_chain :: "string option"
  hw_metadata :: "json option"

record edge_row =
  qw_incident_id :: uuid
  qw_source_node_id :: string
  qw_target_node_id :: string
  qw_relationship :: string
  qw_confidence :: string

record case_tables =
  ct_incidents :: "incident_row list"
  ct_snapshots :: "snapshot_row list"
  ct_sources :: "source_row list"
  ct_evidence :: "evidence_row list"
  ct_transactions :: "case_tx_row list"
  ct_blocks :: "case_block_row list"
  ct_entities :: "entity_row list"
  ct_messages :: "message_row list"
  ct_timeline :: "timeline_row list"
  ct_findings :: "finding_row list"
  ct_updates :: "update_row list"
  ct_nodes :: "node_row list"
  ct_edges :: "edge_row list"

definition empty_case_tables :: case_tables where
  "empty_case_tables =
     \<lparr>ct_incidents = [], ct_snapshots = [], ct_sources = [], ct_evidence = [], ct_transactions = [],
      ct_blocks = [], ct_entities = [], ct_messages = [], ct_timeline = [], ct_findings = [],
      ct_updates = [], ct_nodes = [], ct_edges = []\<rparr>"


section \<open>Transactions\<close>

text \<open>
  A transaction carries the answers of the server to its next statements and the tables as its
  statements so far have left them; the arguments of a statement are converted before it is sent.
\<close>

type_synonym transaction = "(nat \<Rightarrow> answer) \<times> case_tables"

definition exec_sql :: "storage_error + (case_tables \<Rightarrow> case_tables) \<Rightarrow> transaction \<Rightarrow> storage_error + transaction" where
  "exec_sql st tx =
     try_bind st (\<lambda>f. accepted (fst tx 0) (Inr (\<lambda>k. fst tx (Suc k), f (snd tx))))"

fun for_each :: "('x \<Rightarrow> transaction \<Rightarrow> storage_error + transaction) \<Rightarrow> 'x list \<Rightarrow> transaction
    \<Rightarrow> storage_error + transaction" where
  "for_each f [] tx = Inr tx"
| "for_each f (x # xs) tx = try_bind (f x tx) (for_each f xs)"

definition incident_to_row :: "pg_env \<Rightarrow> datetime \<Rightarrow> incident \<Rightarrow> incident_row" where
  "incident_to_row env now i =
     \<lparr>kw_id = ic_id i, kw_case_id = ic_case_id i, kw_title = ic_title i, kw_summary = ic_summary i,
      kw_status = incident_status_name (ic_status i), kw_severity = severity_name (ic_severity i),
      kw_first_observed_at = pe_time env (ic_first_observed_at i),
      kw_last_updated_at = pe_time env (ic_last_updated_at i),
      kw_structured_claims = pe_jsonb env (claims_to_value (ic_structured_claims i)),
      kw_facts = pe_jsonb env (json_strs (ic_facts i)),
      kw_reported_claims = pe_jsonb env (json_strs (ic_reported_claims i)),
      kw_unverified_claims = pe_jsonb env (json_strs (ic_unverified_claims i)),
      kw_associated_txids = pe_jsonb env (json_strs (ic_associated_txids i)),
      kw_associated_block_heights = pe_jsonb env (u64s_to_value (ic_associated_block_heights i)),
      kw_updated_at = now\<rparr>"

definition incident_update_row :: "incident_row \<Rightarrow> incident_row \<Rightarrow> incident_row" where
  "incident_update_row n r = n\<lparr>kw_id := kw_id r, kw_first_observed_at := kw_first_observed_at r\<rparr>"

definition tx_incident :: "pg_env \<Rightarrow> datetime \<Rightarrow> incident \<Rightarrow> transaction \<Rightarrow> storage_error + transaction" where
  "tx_incident env now i =
     (let row = incident_to_row env now i
      in exec_sql (Inr (\<lambda>t. t\<lparr>ct_incidents :=
           on_conflict (\<lambda>r. kw_id r = kw_id row) (incident_update_row row) row (ct_incidents t)\<rparr>)))"

definition snapshot_to_row :: "pg_env \<Rightarrow> uuid \<Rightarrow> recovery_summary \<Rightarrow> storage_error + snapshot_row" where
  "snapshot_to_row env i r =
     try_bind (u64_to_i64_checked (rec_affected_sats r)) (\<lambda>affected.
     try_bind (u64_to_i64_checked (rec_recovered_sats r)) (\<lambda>recovered.
     try_bind (u64_to_i64_checked (rec_outstanding_sats r)) (\<lambda>outstanding.
       Inr \<lparr>sw_incident_id = i, sw_affected_sats = affected, sw_recovered_sats = recovered,
            sw_outstanding_sats = outstanding, sw_is_estimate = rec_is_estimate r,
            sw_as_of_timestamp = pe_time env (rec_as_of_timestamp r), sw_source_label = rec_source r\<rparr>)))"

text \<open>The recovery of an instant that is already recorded is neither changed nor recorded again.\<close>

definition tx_snapshot :: "pg_env \<Rightarrow> incident \<Rightarrow> transaction \<Rightarrow> storage_error + transaction" where
  "tx_snapshot env i tx =
     try_bind (snapshot_to_row env (ic_id i) (ic_recovery i)) (\<lambda>row.
     try_bind (exec_sql (Inr (\<lambda>t. t)) tx) (\<lambda>tx1.
       if list_ex (\<lambda>r. sw_incident_id r = ic_id i \<and> sw_as_of_timestamp r = sw_as_of_timestamp row)
            (ct_snapshots (snd tx))
       then Inr tx1
       else exec_sql (Inr (\<lambda>t. t\<lparr>ct_snapshots := ct_snapshots t @ [row]\<rparr>)) tx1))"

definition source_to_row :: "pg_env \<Rightarrow> uuid \<Rightarrow> source \<Rightarrow> source_row" where
  "source_to_row env i s =
     \<lparr>zw_id = src_id s, zw_incident_id = i, zw_publisher = src_publisher s, zw_title = src_title s,
      zw_url = src_url s, zw_publication_timestamp = map_option (pe_time env) (src_publication_timestamp s),
      zw_retrieved_timestamp = map_option (pe_time env) (src_retrieved_timestamp s),
      zw_source_category = source_category_name (src_category s),
      zw_reliability_score = src_reliability_score s, zw_name = src_name s\<rparr>"

definition source_update_row :: "source_row \<Rightarrow> source_row \<Rightarrow> source_row" where
  "source_update_row n r =
     r\<lparr>zw_publisher := zw_publisher n, zw_title := zw_title n, zw_url := zw_url n,
       zw_reliability_score := zw_reliability_score n\<rparr>"

definition tx_case_source :: "pg_env \<Rightarrow> incident \<Rightarrow> source \<Rightarrow> transaction \<Rightarrow> storage_error + transaction" where
  "tx_case_source env i s =
     (let row = source_to_row env (ic_id i) s
      in exec_sql (Inr (\<lambda>t. t\<lparr>ct_sources :=
           on_conflict (\<lambda>r. zw_id r = zw_id row) (source_update_row row) row (ct_sources t)\<rparr>)))"

definition evidence_to_row :: "pg_env \<Rightarrow> datetime \<Rightarrow> uuid \<Rightarrow> evidence \<Rightarrow> storage_error + evidence_row" where
  "evidence_to_row env now i e =
     try_bind (opt_i64 (evi_block_height e)) (\<lambda>height.
       Inr \<lparr>vw_id = evi_id e, vw_incident_id = i, vw_evidence_type = evidence_type_name (evi_type e),
            vw_confidence = provenance_name (evi_confidence e), vw_title = evi_title e,
            vw_description = evi_description e, vw_observed_at = map_option (pe_time env) (evi_observed_at e),
            vw_source_id = evi_source_id e, vw_source_reference = evi_source_reference e,
            vw_txid = evi_txid e, vw_block_hash = evi_block_hash e, vw_block_height = height,
            vw_chain = chain_str (evi_chain e), vw_verified = evi_verified e,
            vw_raw_data = map_option (pe_jsonb env) (evi_raw_data e), vw_created_at = now\<rparr>)"

definition evidence_update_row :: "evidence_row \<Rightarrow> evidence_row \<Rightarrow> evidence_row" where
  "evidence_update_row n r =
     r\<lparr>vw_title := vw_title n, vw_description := vw_description n, vw_verified := vw_verified n,
       vw_raw_data := vw_raw_data n\<rparr>"

definition tx_evidence :: "pg_env \<Rightarrow> datetime \<Rightarrow> incident \<Rightarrow> evidence \<Rightarrow> transaction \<Rightarrow> storage_error + transaction" where
  "tx_evidence env now i e =
     exec_sql (try_bind (evidence_to_row env now (ic_id i) e) (\<lambda>row. Inr (\<lambda>t. t\<lparr>ct_evidence :=
       on_conflict (\<lambda>r. vw_id r = vw_id row) (evidence_update_row row) row (ct_evidence t)\<rparr>)))"

definition case_tx_to_row :: "pg_env \<Rightarrow> uuid \<Rightarrow> incident_transaction \<Rightarrow> storage_error + case_tx_row" where
  "case_tx_to_row env i x =
     try_bind (opt_i64 (itx_amount_sats x)) (\<lambda>amount.
     try_bind (opt_i64 (itx_block_height x)) (\<lambda>height.
       Inr \<lparr>xw_incident_id = i, xw_chain = chain_str (itx_chain x), xw_txid = itx_txid x,
            xw_role = transaction_role_name (itx_role x), xw_amount_sats = amount, xw_block_height = height,
            xw_block_hash = itx_block_hash x, xw_confirmed_at = map_option (pe_time env) (itx_confirmed_at x),
            xw_evidence_id = itx_evidence_id x, xw_notes = itx_notes x\<rparr>))"

definition case_tx_conflict :: "case_tx_row \<Rightarrow> case_tx_row \<Rightarrow> bool" where
  "case_tx_conflict n r \<longleftrightarrow>
     xw_incident_id r = xw_incident_id n \<and> xw_chain r = xw_chain n \<and> xw_txid r = xw_txid n"

definition case_tx_update :: "case_tx_row \<Rightarrow> case_tx_row \<Rightarrow> case_tx_row" where
  "case_tx_update n r =
     r\<lparr>xw_role := xw_role n, xw_amount_sats := xw_amount_sats n, xw_block_height := xw_block_height n,
       xw_block_hash := xw_block_hash n, xw_confirmed_at := xw_confirmed_at n,
       xw_evidence_id := xw_evidence_id n, xw_notes := xw_notes n\<rparr>"

definition tx_transaction :: "pg_env \<Rightarrow> incident \<Rightarrow> incident_transaction \<Rightarrow> transaction \<Rightarrow> storage_error + transaction" where
  "tx_transaction env i x =
     exec_sql (try_bind (case_tx_to_row env (ic_id i) x) (\<lambda>row. Inr (\<lambda>t. t\<lparr>ct_transactions :=
       on_conflict (case_tx_conflict row) (case_tx_update row) row (ct_transactions t)\<rparr>)))"

text \<open>The number of transactions of a block goes through a signed column of 32 bits.\<close>

definition case_block_to_row :: "pg_env \<Rightarrow> uuid \<Rightarrow> incident_block \<Rightarrow> storage_error + case_block_row" where
  "case_block_to_row env i b =
     try_bind (u64_to_i64_checked (ibk_height b)) (\<lambda>height.
       Inr \<lparr>bw_incident_id = i, bw_chain = chain_str (ibk_chain b), bw_height = height,
            bw_hash = ibk_hash b, bw_timestamp = pe_time env (ibk_timestamp b),
            bw_tx_count = map_option (\<lambda>c. sint (of_nat c :: 32 word)) (ibk_tx_count b),
            bw_evidence_id = ibk_evidence_id b\<rparr>)"

definition case_block_conflict :: "case_block_row \<Rightarrow> case_block_row \<Rightarrow> bool" where
  "case_block_conflict n r \<longleftrightarrow>
     bw_incident_id r = bw_incident_id n \<and> bw_chain r = bw_chain n \<and> bw_height r = bw_height n"

definition case_block_update :: "case_block_row \<Rightarrow> case_block_row \<Rightarrow> case_block_row" where
  "case_block_update n r =
     r\<lparr>bw_hash := bw_hash n, bw_timestamp := bw_timestamp n, bw_tx_count := bw_tx_count n,
       bw_evidence_id := bw_evidence_id n\<rparr>"

definition tx_block :: "pg_env \<Rightarrow> incident \<Rightarrow> incident_block \<Rightarrow> transaction \<Rightarrow> storage_error + transaction" where
  "tx_block env i b =
     exec_sql (try_bind (case_block_to_row env (ic_id i) b) (\<lambda>row. Inr (\<lambda>t. t\<lparr>ct_blocks :=
       on_conflict (case_block_conflict row) (case_block_update row) row (ct_blocks t)\<rparr>)))"

definition entity_to_row :: "uuid \<Rightarrow> incident_entity \<Rightarrow> entity_row" where
  "entity_to_row i e =
     \<lparr>ew_id = ent_id e, ew_incident_id = i, ew_name = ent_name e, ew_entity_type = ent_type e,
      ew_description = ent_description e,
      ew_attribution_confidence = provenance_name (ent_attribution_confidence e)\<rparr>"

definition entity_update_row :: "entity_row \<Rightarrow> entity_row \<Rightarrow> entity_row" where
  "entity_update_row n r = n\<lparr>ew_id := ew_id r, ew_incident_id := ew_incident_id r\<rparr>"

definition tx_entity :: "incident \<Rightarrow> incident_entity \<Rightarrow> transaction \<Rightarrow> storage_error + transaction" where
  "tx_entity i e =
     (let row = entity_to_row (ic_id i) e
      in exec_sql (Inr (\<lambda>t. t\<lparr>ct_entities :=
           on_conflict (\<lambda>r. ew_id r = ew_id row) (entity_update_row row) row (ct_entities t)\<rparr>)))"

definition message_to_row :: "pg_env \<Rightarrow> uuid \<Rightarrow> on_chain_message \<Rightarrow> storage_error + message_row" where
  "message_to_row env i m =
     try_bind (opt_i64 (ocm_block_height m)) (\<lambda>height.
       Inr \<lparr>gw_incident_id = i, gw_txid = ocm_txid m, gw_chain = chain_str (ocm_chain m),
            gw_encoding = ocm_encoding m, gw_decoded_text = ocm_decoded_text m, gw_raw_hex = ocm_raw_hex m,
            gw_confirmed_at = map_option (pe_time env) (ocm_confirmed_at m), gw_block_height = height,
            gw_attributed_sender = ocm_attributed_sender m,
            gw_sender_attribution_confidence = provenance_name (ocm_sender_attribution_confidence m)\<rparr>)"

definition tx_message :: "pg_env \<Rightarrow> incident \<Rightarrow> on_chain_message \<Rightarrow> transaction \<Rightarrow> storage_error + transaction" where
  "tx_message env i m =
     exec_sql (try_bind (message_to_row env (ic_id i) m) (\<lambda>row.
       Inr (\<lambda>t. t\<lparr>ct_messages := ct_messages t @ [row]\<rparr>)))"

definition tx_messages :: "pg_env \<Rightarrow> incident \<Rightarrow> transaction \<Rightarrow> storage_error + transaction" where
  "tx_messages env i tx =
     try_bind (exec_sql (Inr (\<lambda>t. t\<lparr>ct_messages :=
         filter (\<lambda>r. gw_incident_id r \<noteq> ic_id i) (ct_messages t)\<rparr>)) tx)
       (for_each (tx_message env i) (ic_on_chain_messages i))"

definition timeline_to_row :: "pg_env \<Rightarrow> uuid \<Rightarrow> timeline_entry \<Rightarrow> timeline_row" where
  "timeline_to_row env i e =
     \<lparr>iw_id = tle_id e, iw_incident_id = i, iw_timestamp = pe_time env (tle_timestamp e),
      iw_title = tle_title e, iw_description = tle_description e,
      iw_category = timeline_category_name (tle_category e), iw_source_id = tle_source_id e,
      iw_evidence_ids = pe_jsonb env (evidence_to_value (tle_evidence_ids e)),
      iw_transaction_txids = pe_jsonb env (json_strs (tle_transaction_txids e)),
      iw_block_heights = pe_jsonb env (u64s_to_value (tle_block_heights e)),
      iw_classification = provenance_name (tle_classification e)\<rparr>"

definition timeline_update_row :: "timeline_row \<Rightarrow> timeline_row \<Rightarrow> timeline_row" where
  "timeline_update_row n r =
     r\<lparr>iw_title := iw_title n, iw_description := iw_description n, iw_category := iw_category n,
       iw_evidence_ids := iw_evidence_ids n, iw_transaction_txids := iw_transaction_txids n,
       iw_block_heights := iw_block_heights n, iw_classification := iw_classification n\<rparr>"

definition tx_timeline :: "pg_env \<Rightarrow> incident \<Rightarrow> timeline_entry \<Rightarrow> transaction \<Rightarrow> storage_error + transaction" where
  "tx_timeline env i e =
     (let row = timeline_to_row env (ic_id i) e
      in exec_sql (Inr (\<lambda>t. t\<lparr>ct_timeline :=
           on_conflict (\<lambda>r. iw_id r = iw_id row) (timeline_update_row row) row (ct_timeline t)\<rparr>)))"


definition tx_finding :: "incident \<Rightarrow> technical_finding \<Rightarrow> transaction \<Rightarrow> storage_error + transaction" where
  "tx_finding i f =
     exec_sql (Inr (\<lambda>t. t\<lparr>ct_findings := ct_findings t @ [\<lparr>fw_incident_id = ic_id i, fw_finding = f\<rparr>]\<rparr>))"

definition tx_findings :: "incident \<Rightarrow> transaction \<Rightarrow> storage_error + transaction" where
  "tx_findings i tx =
     try_bind (exec_sql (Inr (\<lambda>t. t\<lparr>ct_findings :=
         filter (\<lambda>r. fw_incident_id r \<noteq> ic_id i) (ct_findings t)\<rparr>)) tx)
       (for_each (tx_finding i) (ic_technical_findings i))"

definition update_to_row :: "pg_env \<Rightarrow> uuid \<Rightarrow> incident_update \<Rightarrow> update_row" where
  "update_to_row env i u =
     \<lparr>uw_id = upd_id u, uw_incident_id = i, uw_timestamp = pe_time env (upd_timestamp u),
      uw_title = upd_title u, uw_summary = upd_summary u, uw_source_id = upd_source_id u,
      uw_recovery_state = map_option (\<lambda>r. pe_jsonb env (recovery_to_value env r)) (upd_recovery_state u)\<rparr>"

definition tx_update :: "pg_env \<Rightarrow> incident \<Rightarrow> incident_update \<Rightarrow> transaction \<Rightarrow> storage_error + transaction" where
  "tx_update env i u =
     (let row = update_to_row env (ic_id i) u
      in exec_sql (Inr (\<lambda>t. t\<lparr>ct_updates :=
           on_conflict (\<lambda>r. uw_id r = uw_id row) (\<lambda>r. r) row (ct_updates t)\<rparr>)))"

definition node_to_row :: "pg_env \<Rightarrow> uuid \<Rightarrow> graph_node \<Rightarrow> node_row" where
  "node_to_row env i n =
     \<lparr>hw_incident_id = i, hw_node_id = gn_id n, hw_label = gn_label n,
      hw_node_type = node_type_name (gn_node_type n), hw_chain = map_option chain_str (gn_chain n),
      hw_metadata = map_option (pe_jsonb env) (gn_metadata n)\<rparr>"

definition node_conflict :: "node_row \<Rightarrow> node_row \<Rightarrow> bool" where
  "node_conflict n r \<longleftrightarrow> hw_incident_id r = hw_incident_id n \<and> hw_node_id r = hw_node_id n"

definition tx_node :: "pg_env \<Rightarrow> incident \<Rightarrow> graph_node \<Rightarrow> transaction \<Rightarrow> storage_error + transaction" where
  "tx_node env i n =
     (let row = node_to_row env (ic_id i) n
      in exec_sql (Inr (\<lambda>t. t\<lparr>ct_nodes := on_conflict (node_conflict row) (\<lambda>r. row) row (ct_nodes t)\<rparr>)))"

definition edge_to_row :: "uuid \<Rightarrow> graph_edge \<Rightarrow> edge_row" where
  "edge_to_row i e =
     \<lparr>qw_incident_id = i, qw_source_node_id = ge_source e, qw_target_node_id = ge_target e,
      qw_relationship = edge_type_name (ge_relationship e),
      qw_confidence = provenance_name (ge_confidence e)\<rparr>"

definition tx_edge :: "incident \<Rightarrow> graph_edge \<Rightarrow> transaction \<Rightarrow> storage_error + transaction" where
  "tx_edge i e = exec_sql (Inr (\<lambda>t. t\<lparr>ct_edges := ct_edges t @ [edge_to_row (ic_id i) e]\<rparr>))"

definition tx_graph :: "pg_env \<Rightarrow> incident \<Rightarrow> transaction \<Rightarrow> storage_error + transaction" where
  "tx_graph env i tx =
     try_bind (for_each (tx_node env i) (ig_nodes (ic_graph i)) tx) (\<lambda>tx1.
     try_bind (exec_sql (Inr (\<lambda>t. t\<lparr>ct_edges := filter (\<lambda>r. qw_incident_id r \<noteq> ic_id i) (ct_edges t)\<rparr>)) tx1)
       (for_each (tx_edge i) (ig_edges (ic_graph i))))"

definition tx_commit :: "transaction \<Rightarrow> storage_error + transaction" where
  "tx_commit = exec_sql (Inr (\<lambda>t. t))"

text \<open>The statements between begin and commit, in the order of the source.\<close>

definition save_incident_body :: "pg_env \<Rightarrow> datetime \<Rightarrow> incident \<Rightarrow> transaction \<Rightarrow> storage_error + transaction" where
  "save_incident_body env now i tx =
     try_bind (tx_incident env now i tx) (\<lambda>tx.
     try_bind (tx_snapshot env i tx) (\<lambda>tx.
     try_bind (for_each (tx_case_source env i) (ic_sources i) tx) (\<lambda>tx.
     try_bind (for_each (tx_evidence env now i) (ic_evidence i) tx) (\<lambda>tx.
     try_bind (for_each (tx_transaction env i) (ic_transactions i) tx) (\<lambda>tx.
     try_bind (for_each (tx_block env i) (ic_blocks i) tx) (\<lambda>tx.
     try_bind (for_each (tx_entity i) (ic_entities i) tx) (\<lambda>tx.
     try_bind (tx_messages env i tx) (\<lambda>tx.
     try_bind (for_each (tx_timeline env i) (ic_timeline i) tx) (\<lambda>tx.
     try_bind (tx_findings i tx) (\<lambda>tx.
     try_bind (for_each (tx_update env i) (ic_updates i) tx) (\<lambda>tx.
     try_bind (tx_graph env i tx) tx_commit)))))))))))"

text \<open>A transaction that does not reach its commit is rolled back.\<close>

definition pg_save_incident ::
  "pg_env \<Rightarrow> datetime \<Rightarrow> (nat \<Rightarrow> answer) \<Rightarrow> incident \<Rightarrow> case_tables \<Rightarrow> (storage_error + unit) \<times> case_tables" where
  "pg_save_incident env now ans i t =
     (case try_bind (exec_sql (Inr (\<lambda>t. t)) (ans, t)) (save_incident_body env now i) of
        Inl e \<Rightarrow> (Inl e, t)
      | Inr tx \<Rightarrow> (Inr (), snd tx))"

section \<open>Reading a dossier\<close>

definition scan_rows :: "(nat \<Rightarrow> nat) \<Rightarrow> ('r \<Rightarrow> 'k::linorder) \<Rightarrow> ('r \<Rightarrow> bool) \<Rightarrow> 'r list \<Rightarrow> 'r list" where
  "scan_rows rank key P rows =
     map snd (sort_key (\<lambda>(k, r). (key r, rank k)) (filter (\<lambda>(k, r). P r) (enumerate 0 rows)))"

definition nulls_last :: "datetime option \<Rightarrow> nat \<times> int" where
  "nulls_last t = (case t of None \<Rightarrow> (1, 0) | Some x \<Rightarrow> (0, x))"

definition row_to_recovery :: "snapshot_row \<Rightarrow> storage_error + recovery_summary" where
  "row_to_recovery r =
     try_bind (i64_to_u64_checked (sw_affected_sats r)) (\<lambda>affected.
     try_bind (i64_to_u64_checked (sw_recovered_sats r)) (\<lambda>recovered.
     try_bind (i64_to_u64_checked (sw_outstanding_sats r)) (\<lambda>outstanding.
       Inr \<lparr>rec_affected_sats = affected, rec_recovered_sats = recovered,
            rec_outstanding_sats = outstanding, rec_as_of_timestamp = sw_as_of_timestamp r,
            rec_source = sw_source_label r, rec_is_estimate = sw_is_estimate r\<rparr>)))"

definition row_to_source :: "source_row \<Rightarrow> source" where
  "row_to_source r =
     \<lparr>src_id = zw_id r, src_publisher = zw_publisher r, src_title = zw_title r, src_url = zw_url r,
      src_publication_timestamp = zw_publication_timestamp r,
      src_retrieved_timestamp = zw_retrieved_timestamp r,
      src_category = read_source_category (zw_source_category r),
      src_reliability_score = zw_reliability_score r, src_name = zw_name r\<rparr>"

definition row_to_evidence :: "evidence_row \<Rightarrow> storage_error + evidence" where
  "row_to_evidence r =
     try_bind (opt_u64 (vw_block_height r)) (\<lambda>height.
       Inr \<lparr>evi_id = vw_id r, evi_incident_id = vw_incident_id r,
            evi_type = read_evidence_type (vw_evidence_type r),
            evi_confidence = read_provenance (vw_confidence r), evi_title = vw_title r,
            evi_description = vw_description r, evi_observed_at = vw_observed_at r,
            evi_source_id = vw_source_id r, evi_source_reference = vw_source_reference r,
            evi_txid = vw_txid r, evi_block_hash = vw_block_hash r, evi_block_height = height,
            evi_chain = read_chain (vw_chain r), evi_verified = vw_verified r,
            evi_raw_data = vw_raw_data r, evi_created_at = vw_created_at r, evi_reference = None,
            evi_classification = None\<rparr>)"

definition row_to_case_tx :: "case_tx_row \<Rightarrow> storage_error + incident_transaction" where
  "row_to_case_tx r =
     try_bind (opt_u64 (xw_amount_sats r)) (\<lambda>amount.
     try_bind (opt_u64 (xw_block_height r)) (\<lambda>height.
       Inr \<lparr>itx_chain = read_chain (xw_chain r), itx_txid = xw_txid r,
            itx_role = read_transaction_role (xw_role r), itx_amount_sats = amount,
            itx_block_height = height, itx_block_hash = xw_block_hash r,
            itx_confirmed_at = xw_confirmed_at r, itx_evidence_id = xw_evidence_id r,
            itx_notes = xw_notes r\<rparr>))"

definition row_to_case_block :: "case_block_row \<Rightarrow> storage_error + incident_block" where
  "row_to_case_block r =
     try_bind (i64_to_u64_checked (bw_height r)) (\<lambda>height.
       Inr \<lparr>ibk_chain = read_chain (bw_chain r), ibk_height = height, ibk_hash = bw_hash r,
            ibk_timestamp = bw_timestamp r,
            ibk_tx_count = map_option (\<lambda>c. unat (of_int c :: u64)) (bw_tx_count r),
            ibk_evidence_id = bw_evidence_id r\<rparr>)"

definition row_to_entity :: "entity_row \<Rightarrow> incident_entity" where
  "row_to_entity r =
     \<lparr>ent_id = ew_id r, ent_name = ew_name r, ent_type = ew_entity_type r,
      ent_description = ew_description r,
      ent_attribution_confidence = read_provenance (ew_attribution_confidence r)\<rparr>"

definition row_to_message :: "message_row \<Rightarrow> storage_error + on_chain_message" where
  "row_to_message r =
     try_bind (opt_u64 (gw_block_height r)) (\<lambda>height.
       Inr \<lparr>ocm_txid = gw_txid r, ocm_chain = read_chain (gw_chain r), ocm_encoding = gw_encoding r,
            ocm_decoded_text = gw_decoded_text r, ocm_raw_hex = gw_raw_hex r,
            ocm_confirmed_at = gw_confirmed_at r, ocm_block_height = height,
            ocm_attributed_sender = gw_attributed_sender r,
            ocm_sender_attribution_confidence =
              read_sender_confidence (gw_sender_attribution_confidence r)\<rparr>)"

text \<open>The argument \<open>parse\<close> stands for the decoder of \<open>uuid\<close>.\<close>

definition row_to_timeline :: "(string \<Rightarrow> uuid option) \<Rightarrow> timeline_row \<Rightarrow> timeline_entry" where
  "row_to_timeline parse r =
     \<lparr>tle_id = iw_id r, tle_timestamp = iw_timestamp r, tle_title = iw_title r,
      tle_description = iw_description r, tle_category = read_timeline_category (iw_category r),
      tle_source_id = iw_source_id r, tle_evidence_ids = evidence_of_value parse (iw_evidence_ids r),
      tle_transaction_txids = vec_or_default as_str (iw_transaction_txids r),
      tle_block_heights = vec_or_default as_u64 (iw_block_heights r),
      tle_classification = read_provenance (iw_classification r)\<rparr>"

definition row_to_update :: "pg_env \<Rightarrow> update_row \<Rightarrow> incident_update" where
  "row_to_update env r =
     \<lparr>upd_id = uw_id r, upd_timestamp = uw_timestamp r, upd_title = uw_title r, upd_summary = uw_summary r,
      upd_source_id = uw_source_id r,
      upd_recovery_state = Option.bind (uw_recovery_state r) (recovery_of_value env)\<rparr>"

definition row_to_node :: "node_row \<Rightarrow> graph_node" where
  "row_to_node r =
     \<lparr>gn_id = hw_node_id r, gn_label = hw_label r, gn_node_type = read_node_type (hw_node_type r),
      gn_chain = map_option read_chain (hw_chain r), gn_metadata = hw_metadata r\<rparr>"

definition row_to_edge :: "edge_row \<Rightarrow> graph_edge" where
  "row_to_edge r =
     \<lparr>ge_source = qw_source_node_id r, ge_target = qw_target_node_id r,
      ge_relationship = read_edge_type (qw_relationship r), ge_confidence = read_provenance (qw_confidence r)\<rparr>"

text \<open>
  The parts of a dossier in the order in which they are fetched; \<open>scan k\<close> ranks the rows of the
  \<open>k\<close>-th query.
\<close>

definition fetch_dossier ::
  "pg_env \<Rightarrow> (string \<Rightarrow> uuid option) \<Rightarrow> (nat \<Rightarrow> nat \<Rightarrow> nat) \<Rightarrow> (nat \<Rightarrow> answer) \<Rightarrow> case_tables \<Rightarrow> incident_row
     \<Rightarrow> storage_error + incident" where
  "fetch_dossier env parse scan ans t row =
     (let i = kw_id row
      in try_bind (accepted (ans 1) (Inr (first_row (scan_rows (scan 1) (\<lambda>r. - sw_as_of_timestamp r)
            (\<lambda>r. sw_incident_id r = i) (ct_snapshots t))))) (\<lambda>snap.
         try_bind (case snap of Some s \<Rightarrow> row_to_recovery s
                   | None \<Rightarrow> Inr (recovery_summary_new 0 0 (kw_last_updated_at row))) (\<lambda>recovery.
         try_bind (accepted (ans 2) (Inr (scan_rows (scan 2) (\<lambda>r. nulls_last (zw_publication_timestamp r))
            (\<lambda>r. zw_incident_id r = i) (ct_sources t)))) (\<lambda>sources.
         try_bind (accepted (ans 3) (Inr (scan_rows (scan 3) (\<lambda>r. nulls_last (vw_observed_at r))
            (\<lambda>r. vw_incident_id r = i) (ct_evidence t)))) (\<lambda>ev_rows.
         try_bind (try_map row_to_evidence ev_rows) (\<lambda>evidence.
         try_bind (accepted (ans 4) (Inr (scan_rows (scan 4) (\<lambda>r. nulls_last (xw_confirmed_at r))
            (\<lambda>r. xw_incident_id r = i) (ct_transactions t)))) (\<lambda>tx_rows.
         try_bind (try_map row_to_case_tx tx_rows) (\<lambda>transactions.
         try_bind (accepted (ans 5) (Inr (scan_rows (scan 5) bw_height
            (\<lambda>r. bw_incident_id r = i) (ct_blocks t)))) (\<lambda>blk_rows.
         try_bind (try_map row_to_case_block blk_rows) (\<lambda>blocks.
         try_bind (accepted (ans 6) (Inr (scan_rows (scan 6) (\<lambda>r. 0::nat)
            (\<lambda>r. ew_incident_id r = i) (ct_entities t)))) (\<lambda>entities.
         try_bind (accepted (ans 7) (Inr (scan_rows (scan 7) (\<lambda>r. nulls_last (gw_confirmed_at r))
            (\<lambda>r. gw_incident_id r = i) (ct_messages t)))) (\<lambda>msg_rows.
         try_bind (try_map row_to_message msg_rows) (\<lambda>messages.
         try_bind (accepted (ans 8) (Inr (scan_rows (scan 8) iw_timestamp
            (\<lambda>r. iw_incident_id r = i) (ct_timeline t)))) (\<lambda>timeline.
         try_bind (accepted (ans 9) (Inr (scan_rows (scan 9) (\<lambda>r. 0::nat)
            (\<lambda>r. fw_incident_id r = i) (ct_findings t)))) (\<lambda>findings.
         try_bind (accepted (ans 10) (Inr (scan_rows (scan 10) (\<lambda>r. - uw_timestamp r)
            (\<lambda>r. uw_incident_id r = i) (ct_updates t)))) (\<lambda>updates.
         try_bind (accepted (ans 11) (Inr (scan_rows (scan 11) (\<lambda>r. 0::nat)
            (\<lambda>r. hw_incident_id r = i) (ct_nodes t)))) (\<lambda>nodes.
         try_bind (accepted (ans 12) (Inr (scan_rows (scan 12) (\<lambda>r. 0::nat)
            (\<lambda>r. qw_incident_id r = i) (ct_edges t)))) (\<lambda>edges.
           Inr \<lparr>ic_id = i, ic_case_id = kw_case_id row, ic_title = kw_title row, ic_summary = kw_summary row,
                ic_status = read_incident_status (kw_status row),
                ic_severity = read_incident_severity (kw_severity row), ic_recovery = recovery,
                ic_first_observed_at = kw_first_observed_at row,
                ic_last_updated_at = kw_last_updated_at row,
                ic_structured_claims = claims_of_value (kw_structured_claims row),
                ic_entities = map row_to_entity entities, ic_transactions = transactions,
                ic_blocks = blocks, ic_on_chain_messages = messages,
                ic_timeline = map (row_to_timeline parse) timeline, ic_evidence = evidence,
                ic_sources = map row_to_source sources,
                ic_technical_findings = map fw_finding findings,
                ic_updates = map (row_to_update env) updates,
                ic_graph = \<lparr>ig_nodes = map row_to_node nodes, ig_edges = map row_to_edge edges\<rparr>,
                ic_total_btc_affected = affected_btc recovery,
                ic_total_btc_recovered = recovered_btc recovery,
                ic_facts = vec_or_default as_str (kw_facts row),
                ic_reported_claims = vec_or_default as_str (kw_reported_claims row),
                ic_unverified_claims = vec_or_default as_str (kw_unverified_claims row),
                ic_associated_txids = vec_or_default as_str (kw_associated_txids row),
                ic_associated_block_heights =
                  vec_or_default as_u64 (kw_associated_block_heights row)\<rparr>))))))))))))))))))"

definition pg_get_incident_by_id ::
  "pg_env \<Rightarrow> (string \<Rightarrow> uuid option) \<Rightarrow> (nat \<Rightarrow> nat \<Rightarrow> nat) \<Rightarrow> (nat \<Rightarrow> answer) \<Rightarrow> uuid \<Rightarrow> case_tables
     \<Rightarrow> storage_error + incident option" where
  "pg_get_incident_by_id env parse scan ans i t =
     try_bind (accepted (ans 0) (Inr (find (\<lambda>r. kw_id r = i) (ct_incidents t))))
       (read_one (fetch_dossier env parse scan ans t))"

text \<open>The listing reads the identifiers of the page and then every dossier on its own.\<close>

definition pg_list_incidents ::
  "pg_env \<Rightarrow> (string \<Rightarrow> uuid option) \<Rightarrow> (nat \<Rightarrow> nat \<Rightarrow> nat \<Rightarrow> nat) \<Rightarrow> (nat \<Rightarrow> nat \<Rightarrow> answer) \<Rightarrow> usize \<Rightarrow> usize
     \<Rightarrow> case_tables \<Rightarrow> storage_error + incident list" where
  "pg_list_incidents env parse scan ans limit offset t =
     try_bind (accepted (ans 0 0) (Inr (page (min (max limit 1) 100) offset
        (scan_rows (scan 0 0) (\<lambda>r. - kw_last_updated_at r) (\<lambda>r. True) (ct_incidents t))))) (\<lambda>rows.
     try_bind (try_map (\<lambda>(k, r). pg_get_incident_by_id env parse (scan (Suc k)) (ans (Suc k)) (kw_id r) t)
        (enumerate 0 rows)) (\<lambda>found.
       Inr (List.map_filter (\<lambda>x. x) found)))"

text \<open>
  The case identifier is only compared when the text is not the text of a UUID. \<open>LOWER\<close> is that of
  ASCII.
\<close>

definition pg_get_incident_by_id_or_case_id ::
  "pg_env \<Rightarrow> (string \<Rightarrow> uuid option) \<Rightarrow> (nat \<Rightarrow> nat \<Rightarrow> nat) \<Rightarrow> answer \<Rightarrow> (nat \<Rightarrow> answer) \<Rightarrow> string \<Rightarrow> case_tables
     \<Rightarrow> storage_error + incident option" where
  "pg_get_incident_by_id_or_case_id env parse scan a ans ident t =
     (case parse ident of
        Some i \<Rightarrow> pg_get_incident_by_id env parse scan ans i t
      | None \<Rightarrow>
          try_bind (accepted a (Inr (find (\<lambda>r. to_lowercase (kw_case_id r) = to_lowercase ident)
              (ct_incidents t)))) (\<lambda>found.
            case found of
              Some r \<Rightarrow> pg_get_incident_by_id env parse scan ans (kw_id r) t
            | None \<Rightarrow> Inr None))"

definition pg_count_incidents :: "answer \<Rightarrow> case_tables \<Rightarrow> storage_error + usize" where
  "pg_count_incidents a t = pg_count a (ct_incidents t)"

text \<open>On start-up the telemetry counters are read once; the first refused count leaves them as they are.\<close>

definition initialize_telemetry_counters ::
  "(nat \<Rightarrow> answer) \<Rightarrow> case_tables \<Rightarrow> postgres_storage \<Rightarrow> (storage_error + unit) \<times> postgres_storage" where
  "initialize_telemetry_counters ans t db =
     (case try_bind (pg_count_events (ans 0) db) (\<lambda>events.
           try_bind (pg_count_incidents (ans 1) t) (\<lambda>incidents.
           try_bind (pg_count_activities (ans 2) db) (\<lambda>activities.
           try_bind (pg_count_watch_targets (ans 3) db) (\<lambda>targets.
             Inr (events, incidents, activities, targets))))) of
        Inl e \<Rightarrow> (Inl e, db)
      | Inr (events, incidents, activities, targets) \<Rightarrow>
          (Inr (), db\<lparr>pg_cached_events := events, pg_cached_incidents := incidents,
                      pg_cached_activities := activities, pg_cached_targets := targets\<rparr>))"

fun save_targets ::
  "pg_env \<Rightarrow> datetime \<Rightarrow> (nat \<Rightarrow> answer) \<Rightarrow> watch_target list \<Rightarrow> postgres_storage
     \<Rightarrow> (storage_error + unit) \<times> postgres_storage" where
  "save_targets env now ans [] db = (Inr (), db)"
| "save_targets env now ans (w # ws) db =
     (case pg_save_watch_target env now (ans 0) w db of
        (Inl e, db') \<Rightarrow> (Inl e, db')
      | (Inr _, db') \<Rightarrow> save_targets env now (\<lambda>k. ans (Suc k)) ws db')"

text \<open>Seeding takes the shipped dossier and its targets, made with fresh identifiers at each start.\<close>

definition pg_seed_canonical_incidents ::
  "pg_env \<Rightarrow> datetime \<Rightarrow> (nat \<Rightarrow> answer) \<Rightarrow> (nat \<Rightarrow> answer) \<Rightarrow> incident \<Rightarrow> watch_target list
     \<Rightarrow> postgres_storage \<times> case_tables \<Rightarrow> (storage_error + unit) \<times> postgres_storage \<times> case_tables" where
  "pg_seed_canonical_incidents env now ans ans' liquid targets s =
     (case pg_save_incident env now ans liquid (snd s) of
        (Inl e, t) \<Rightarrow> (Inl e, fst s, t)
      | (Inr _, t) \<Rightarrow> (case save_targets env now ans' targets (fst s) of (r, db) \<Rightarrow> (r, db, t)))"


text \<open>Migrations are run by the library; the tables of the model are those of the migrated schema.\<close>

definition run_migrations :: "answer \<Rightarrow> storage_error + unit" where
  "run_migrations a =
     (case a of Some msg \<Rightarrow> Inl (Database (''SQLx migration failed: '' @ msg)) | None \<Rightarrow> Inr ())"

end
