(* ===== verification/Durability.thy ===== *)
theory Durability
  imports Postgres
begin

text \<open>
  What the PostgreSQL back end keeps: every column gives back what was bound to it, lookups after an
  upsert, and the agreement with the in-memory back end of the same calls.
\<close>

section \<open>Columns\<close>

lemma i64_roundtrip [simp]: "u64_to_i64_checked v = Inr i \<Longrightarrow> i64_to_u64_checked i = Inr v"
  by (auto simp: u64_to_i64_checked_def i64_to_u64_checked_def split: if_splits)

text \<open>The values that a signed column of 64 bits holds.\<close>

definition column_fits :: "u64 \<Rightarrow> bool" where
  "column_fits v \<longleftrightarrow> unat v < 2 ^ 63"

lemma u64_to_i64_fits: "(\<exists>i. u64_to_i64_checked v = Inr i) \<longleftrightarrow> column_fits v"
  by (simp add: u64_to_i64_checked_def column_fits_def)

definition fits :: "u64 option \<Rightarrow> bool" where
  "fits v \<longleftrightarrow> (case v of Some h \<Rightarrow> column_fits h | None \<Rightarrow> True)"

lemma opt_i64_fits: "(\<exists>i. opt_i64 v = Inr i) \<longleftrightarrow> fits v"
  by (cases v) (auto simp: opt_i64_def fits_def try_bind_Inr u64_to_i64_fits [symmetric])

lemma opt_i64_roundtrip: "opt_i64 v = Inr i \<Longrightarrow> opt_u64 i = Inr v"
  by (cases v) (auto simp: opt_i64_def opt_u64_def try_bind_Inr)

lemma bound_Inr: "bound a r = Inr x \<longleftrightarrow> a = None \<and> r = Inr x"
  by (cases r; cases a) (simp_all add: bound_def accepted_def)

lemma bound_refused: "a \<noteq> None \<or> (\<exists>e. r = Inl e) \<longleftrightarrow> (\<exists>e. bound a r = Inl e)"
  by (cases r; cases a) (simp_all add: bound_def accepted_def)

lemma accepted_None [simp]: "accepted None r = r"
  by (simp add: accepted_def)

section \<open>Upserted tables\<close>

text \<open>
  A table with a unique key and the change that a conflicting insertion makes to the stored row. The
  only law is that the change leaves the key alone; then the key stays unique, and a lookup finds the
  changed row under its own key and every other row as it was.
\<close>

locale upserted_table =
  fixes key :: "'r \<Rightarrow> 'k" and change :: "'r \<Rightarrow> 'r \<Rightarrow> 'r"
  assumes change_key: "key (change n r) = key r"
begin

lemma find_upserted:
  "find (\<lambda>r. key r = k) (on_conflict (\<lambda>r. key r = key n) (change n) n rows) =
    (if k = key n then
       Some (case find (\<lambda>r. key r = key n) rows of Some r \<Rightarrow> change n r | None \<Rightarrow> n)
     else find (\<lambda>r. key r = k) rows)"
proof (induction rows)
  case Nil
  show ?case by (simp add: on_conflict_def)
next
  case (Cons r rows)
  show ?case
  proof (cases "key r = key n")
    case True
    then show ?thesis by (simp add: on_conflict_def change_key)
  next
    case False
    then have "on_conflict (\<lambda>r. key r = key n) (change n) n (r # rows) =
        r # on_conflict (\<lambda>r. key r = key n) (change n) n rows"
      by (cases "position (\<lambda>r. key r = key n) rows") (simp_all add: on_conflict_def)
    then show ?thesis using Cons.IH False by (cases "k = key n") simp_all
  qed
qed

lemma unique_upserted:
  assumes "distinct (map key rows)"
  shows "distinct (map key (on_conflict (\<lambda>r. key r = key n) (change n) n rows))"
proof (cases "position (\<lambda>r. key r = key n) rows")
  case None
  then have "key n \<notin> key ` set rows" by (auto simp: position_None)
  then show ?thesis using None assms by (simp add: on_conflict_def)
next
  case (Some i)
  then have "i < length rows" by (simp add: position_Some)
  then have "map key (rows[i := change n (rows ! i)]) = map key rows"
    by (simp add: map_update change_key list_update_same_conv)
  then show ?thesis using Some assms by (simp add: on_conflict_def)
qed

lemma fresh_upserts:
  "distinct (map key ns) \<Longrightarrow> key ` set ns \<inter> key ` set rows = {} \<Longrightarrow>
     fold (\<lambda>n. on_conflict (\<lambda>r. key r = key n) (change n) n) ns rows = rows @ ns"
proof (induction ns arbitrary: rows)
  case (Cons n ns)
  then have "key n \<notin> key ` set rows" by auto
  then have "position (\<lambda>r. key r = key n) rows = None" unfolding position_None by (metis image_eqI)
  then have step: "on_conflict (\<lambda>r. key r = key n) (change n) n rows = rows @ [n]"
    by (simp add: on_conflict_def)
  have "fold (\<lambda>n. on_conflict (\<lambda>r. key r = key n) (change n) n) ns (rows @ [n]) = (rows @ [n]) @ ns"
    by (rule Cons.IH) (use Cons.prems in auto)
  then show ?case by (simp add: step)
qed simp

end

definition metric_key :: "metric_row \<Rightarrow> uuid \<times> string \<times> string" where
  "metric_key r = (mw_event_id r, mw_metric r, mw_version r)"

definition distribution_key :: "distribution_row \<Rightarrow> uuid \<times> string \<times> string" where
  "distribution_key r = (dw_baseline_run_id r, dw_event_type r, dw_metric r)"

definition rarity_key :: "rarity_row \<Rightarrow> uuid \<times> uuid \<times> string" where
  "rarity_key r = (yw_event_id r, yw_baseline_run_id r, yw_metric r)"

lemma conflict_keys:
  "metric_conflict m = (\<lambda>r. metric_key r = metric_key m)"
  "distribution_conflict d = (\<lambda>r. distribution_key r = distribution_key d)"
  "rarity_conflict y = (\<lambda>r. rarity_key r = rarity_key y)"
  by (auto simp: fun_eq_iff metric_conflict_def metric_key_def distribution_conflict_def
      distribution_key_def rarity_conflict_def rarity_key_def)

interpretation events: upserted_table rw_id event_update
  by unfold_locales (simp add: event_update_def)

interpretation observations: upserted_table ow_id observation_update
  by unfold_locales (simp add: observation_update_def)

interpretation metrics: upserted_table metric_key metric_update
  by unfold_locales (simp add: metric_update_def metric_key_def)

interpretation targets: upserted_table tw_id target_update
  by unfold_locales (simp add: target_update_def)

interpretation activities: upserted_table aw_dedup_key activity_update
  by unfold_locales (simp add: activity_update_def)

interpretation alerts: upserted_table lw_id "\<lambda>n r. r"
  by unfold_locales simp

interpretation jobs: upserted_table jw_id job_update
  by unfold_locales (simp add: job_update_def)

interpretation checkpoints: upserted_table cw_id "\<lambda>n r. r"
  by unfold_locales simp

interpretation runs: upserted_table nw_id run_update
  by unfold_locales (simp add: run_update_def)

interpretation distributions: upserted_table distribution_key distribution_update
  by unfold_locales (simp add: distribution_update_def distribution_key_def)

interpretation rarity: upserted_table rarity_key rarity_update
  by unfold_locales (simp add: rarity_update_def rarity_key_def)

section \<open>Unique keys\<close>

text \<open>One call of a write operation of the back end, whatever the server answers.\<close>

inductive pg_step :: "postgres_storage \<Rightarrow> postgres_storage \<Rightarrow> bool" where
  step_restart: "pg_step db (postgres_new db)"
| step_event: "pg_step db (snd (pg_save_event env v4 now ans e db))"
| step_observation: "pg_step db (snd (pg_save_event_observation env a n db))"
| step_target: "pg_step db (snd (pg_save_watch_target env now a t db))"
| step_activity: "pg_step db (snd (pg_save_activity env now a act db))"
| step_alert: "pg_step db (snd (pg_save_alert env a l db))"
| step_create_job: "pg_step db (snd (pg_create_job env a j db))"
| step_update_job: "pg_step db (snd (pg_update_job env a j db))"
| step_checkpoint: "pg_step db (snd (pg_save_checkpoint env a c db))"
| step_run: "pg_step db (snd (pg_create_baseline_run env a b db))"
| step_status: "pg_step db (snd (pg_update_baseline_run_status env a i st t n msg db))"
| step_distributions: "pg_step db (snd (pg_save_baseline_distributions env a ans ds db))"
| step_rarity: "pg_step db (snd (pg_save_event_rarity env u now a r impact db))"
| step_metrics: "pg_step db (snd (pg_save_event_metrics env now ans ms db))"

inductive pg_reachable :: "postgres_storage \<Rightarrow> bool" where
  reach_empty: "pg_reachable empty_postgres"
| reach_step: "pg_reachable db \<Longrightarrow> pg_step db db' \<Longrightarrow> pg_reachable db'"

text \<open>The uniqueness constraints that the statements name in their conflict clauses.\<close>

definition keys_unique :: "postgres_storage \<Rightarrow> bool" where
  "keys_unique db \<longleftrightarrow>
     distinct (map rw_id (pg_chain_events db))
     \<and> distinct (map ow_id (pg_event_observations db))
     \<and> distinct (map metric_key (pg_metric_values db))
     \<and> distinct (map tw_id (pg_watch_targets db))
     \<and> distinct (map aw_dedup_key (pg_activities db))
     \<and> distinct (map lw_id (pg_alerts db))
     \<and> distinct (map jw_id (pg_replay_jobs db))
     \<and> distinct (map cw_id (pg_checkpoints db))
     \<and> distinct (map nw_id (pg_baseline_runs db))
     \<and> distinct (map distribution_key (pg_distributions db))
     \<and> distinct (map rarity_key (pg_event_rarity db))"

lemmas keys_unique_upserts =
  events.unique_upserted observations.unique_upserted metrics.unique_upserted targets.unique_upserted
  activities.unique_upserted alerts.unique_upserted jobs.unique_upserted checkpoints.unique_upserted
  runs.unique_upserted distributions.unique_upserted rarity.unique_upserted

lemma keys_unique_metrics:
  "keys_unique db \<Longrightarrow> keys_unique (snd (pg_save_event_metrics env now ans ms db))"
proof (induction env now ans ms db rule: pg_save_event_metrics.induct)
  case (2 env now ans m ms db)
  show ?case
  proof (cases "bound (ans 0) (metric_to_row env now m)")
    case (Inr row)
    have "keys_unique (db\<lparr>pg_metric_values :=
        on_conflict (metric_conflict row) (metric_update row) row (pg_metric_values db)\<rparr>)"
      using 2(2) by (simp add: keys_unique_def conflict_keys metrics.unique_upserted)
    then show ?thesis using 2(1) [OF Inr] Inr by simp
  qed (use 2(2) in simp)
qed simp

lemma unique_distribution_rows:
  "save_distribution_rows env ans ds rows = Inr rows' \<Longrightarrow> distinct (map distribution_key rows) \<Longrightarrow>
     distinct (map distribution_key rows')"
  by (induction env ans ds rows rule: save_distribution_rows.induct)
    (auto simp: try_bind_Inr accepted_def conflict_keys distributions.unique_upserted split: option.splits)

lemma keys_unique_event:
  "keys_unique db \<Longrightarrow> keys_unique (snd (pg_save_event env v4 now ans e db))"
proof (cases "bound (ans 0) (event_to_row env e)")
  case (Inr row)
  assume "keys_unique db"
  then have "keys_unique (db\<lparr>pg_chain_events := upsert_event_row row (pg_chain_events db),
      pg_cached_events := pg_cached_events db + 1\<rparr>)"
    by (simp add: keys_unique_def upsert_event_row_def events.unique_upserted)
  then show ?thesis using Inr by (simp add: pg_save_event_def Let_def keys_unique_metrics)
qed (simp add: pg_save_event_def)

lemma keys_unique_distributions:
  "keys_unique db \<Longrightarrow> keys_unique (snd (pg_save_baseline_distributions env a ans ds db))"
  by (auto simp: pg_save_baseline_distributions_def keys_unique_def try_bind_Inr
      dest: unique_distribution_rows split: sum.split)

lemma keys_unique_status:
  "keys_unique db \<Longrightarrow> keys_unique (snd (pg_update_baseline_run_status env a i st t n msg db))"
proof -
  have "map nw_id (map (\<lambda>r. if nw_id r = i then r\<lparr>nw_status := x, nw_completed_at := y,
      nw_canonical_event_count := c, nw_error_message := msg\<rparr> else r) rows) = map nw_id rows"
    for x y c and rows :: "run_row list" by (induction rows) auto
  then show "keys_unique db \<Longrightarrow> ?thesis"
    by (auto simp: pg_update_baseline_run_status_def keys_unique_def simp del: map_map split: sum.split)
qed

lemma keys_unique_step: "pg_step db db' \<Longrightarrow> keys_unique db \<Longrightarrow> keys_unique db'"
  by (induction rule: pg_step.induct)
    (simp_all add: keys_unique_event keys_unique_metrics keys_unique_distributions keys_unique_status,
     simp_all add: keys_unique_def postgres_new_def pg_save_event_observation_def pg_save_watch_target_def
       pg_save_activity_def pg_save_alert_def pg_create_job_def pg_update_job_def pg_save_checkpoint_def
       pg_create_baseline_run_def pg_save_event_rarity_def upsert_activity_row_def conflict_keys
       keys_unique_upserts split: sum.split)


text \<open>A server with instants of whole microseconds that keeps JSON and numbers as they are.\<close>

definition sample_env :: pg_env where
  "sample_env =
     \<lparr>pe_time = (\<lambda>t. t - t mod 1000), pe_jsonb = (\<lambda>j. j), pe_numeric = (\<lambda>s. s),
      pe_numeric_le = (\<lambda>x y. length x < length y), pe_tie = (\<lambda>u. 0), pe_collate = length,
      pe_float8 = (\<lambda>s. f64_lit 0), pe_serde_time = (\<lambda>t. []), pe_parse_time = (\<lambda>s. None)\<rparr>"

definition sample_pg_target :: watch_target where
  "sample_pg_target =
     \<lparr>wt_id = 3, wt_incident_id = 1, wt_case_id = ''c'', wt_kind = WTransaction ''ab'',
      wt_classification = OnChainVerified, wt_source = ''s'', wt_evidence_id = None, wt_label = None,
      wt_created_at = 0, wt_active = True\<rparr>"


section \<open>Events in both back ends\<close>

text \<open>The row of an event whose height fits, and the event that is read back from it.\<close>

definition stored_event :: "pg_env \<Rightarrow> chain_event \<Rightarrow> event_row" where
  "stored_event env e = (case event_to_row env e of Inr r \<Rightarrow> r | Inl _ \<Rightarrow> undefined)"

definition recalled_event :: "pg_env \<Rightarrow> datetime \<Rightarrow> chain_event \<Rightarrow> chain_event" where
  "recalled_event env now e =
     e\<lparr>ev_event_time := pe_time env (ev_event_time e),
       ev_first_observed_at := pe_time env (ev_first_observed_at e),
       ev_detected_at := pe_time env (ev_detected_at e), ev_metadata := pe_jsonb env (ev_metadata e),
       ev_witnesses := (case ev_source e of Some s \<Rightarrow> [observation_witness_new now s] | None \<Rightarrow> []),
       ev_observations := []\<rparr>"

lemma event_to_row_fits: "fits (ev_block_height e) \<Longrightarrow> event_to_row env e = Inr (stored_event env e)"
  by (auto simp: event_to_row_def stored_event_def opt_i64_fits [symmetric])

lemma event_to_row_unfit: "\<not> fits (ev_block_height e) \<Longrightarrow> \<exists>err. event_to_row env e = Inl err"
  by (cases "opt_i64 (ev_block_height e)") (auto simp: event_to_row_def opt_i64_fits [symmetric])

lemma row_to_event_stored:
  assumes "jsonb_ok env" "fits (ev_block_height e)"
  shows "row_to_event now (stored_event env e) = Inr (recalled_event env now e)"
proof -
  obtain h where h: "opt_i64 (ev_block_height e) = Inr h" using assms(2) opt_i64_fits by blast
  have "Option.bind (map_option (\<lambda>s. pe_jsonb env (source_to_value s)) (ev_source e)) source_of_value = ev_source e"
    using assms(1) by (cases "ev_source e") simp_all
  then show ?thesis
    by (simp add: stored_event_def event_to_row_def h row_to_event_def opt_i64_roundtrip [OF h]
        recalled_event_def Let_def)
qed

lemma stored_event_id: "fits (ev_block_height e) \<Longrightarrow> rw_id (stored_event env e) = ev_id e"
  using opt_i64_fits [of "ev_block_height e"] by (auto simp: stored_event_def event_to_row_def)

lemma stored_event_merge:
  assumes "fits (ev_block_height e)" "fits (ev_block_height x)"
  shows "event_update (stored_event env e) (stored_event env x) = stored_event env (merge_event e x)"
proof -
  obtain h where "opt_i64 (ev_block_height e) = Inr h" using assms(1) opt_i64_fits by blast
  moreover obtain k where "opt_i64 (ev_block_height x) = Inr k" using assms(2) opt_i64_fits by blast
  ultimately show ?thesis
    by (simp add: stored_event_def event_to_row_def event_update_def merge_event_def)
qed

lemma position_map: "position P (map f xs) = position (\<lambda>x. P (f x)) xs"
  by (induction xs) auto

lemma position_cong: "(\<And>x. x \<in> set xs \<Longrightarrow> P x = Q x) \<Longrightarrow> position P xs = position Q xs"
  by (induction xs) auto

lemma position_less: "position P xs = Some i \<Longrightarrow> i < length xs"
  by (simp add: position_Some)

text \<open>Below its capacity the deque of the in-memory back end grows like the table.\<close>

lemma upsert_event_row_map:
  assumes "fits (ev_block_height e)" "\<forall>x \<in> set es. fits (ev_block_height x)" "length es < cap"
  shows "upsert_event_row (stored_event env e) (map (stored_event env) es)
    = map (stored_event env) (log_event cap e es)"
proof -
  have "position (\<lambda>r. rw_id r = rw_id (stored_event env e)) (map (stored_event env) es)
      = position (\<lambda>x. ev_id x = ev_id e) es"
    unfolding position_map by (rule position_cong) (use assms(1,2) in \<open>simp add: stored_event_id\<close>)
  moreover have "event_update (stored_event env e) (stored_event env (es ! i)) = stored_event env (merge_event e (es ! i))"
    if "position (\<lambda>x. ev_id x = ev_id e) es = Some i" for i
    using that assms(1,2) by (intro stored_event_merge) (auto simp: position_Some)
  ultimately show ?thesis using assms(3)
    by (cases "position (\<lambda>x. ev_id x = ev_id e) es")
      (auto simp: upsert_event_row_def on_conflict_def log_event_def push_bounded_def map_update
        dest: position_less)
qed

record event_save =
  es_ids :: "nat \<Rightarrow> uuid"
  es_time :: datetime
  es_answers :: "nat \<Rightarrow> answer"
  es_event :: chain_event

text \<open>The calls that succeed: the height fits and the server accepts the statement for the event.\<close>

definition save_succeeds :: "event_save \<Rightarrow> bool" where
  "save_succeeds c \<longleftrightarrow> es_answers c 0 = None \<and> fits (ev_block_height (es_event c))"

definition pg_run_saves :: "pg_env \<Rightarrow> event_save list \<Rightarrow> postgres_storage \<Rightarrow> postgres_storage" where
  "pg_run_saves env cs db =
     fold (\<lambda>c db. snd (pg_save_event env (es_ids c) (es_time c) (es_answers c) (es_event c) db)) cs db"

definition memory_run_saves :: "event_save list \<Rightarrow> in_memory_storage \<Rightarrow> in_memory_storage" where
  "memory_run_saves cs s = fold (\<lambda>c. save_event (es_ids c) (es_time c) (es_event c)) cs s"

lemma pg_save_event_metrics_frame:
  "pg_chain_events (snd (pg_save_event_metrics env now ans ms db)) = pg_chain_events db"
  "pg_cached_events (snd (pg_save_event_metrics env now ans ms db)) = pg_cached_events db"
  "pg_event_observations (snd (pg_save_event_metrics env now ans ms db)) = pg_event_observations db"
  by (induction env now ans ms db rule: pg_save_event_metrics.induct) (simp_all split: sum.split)

lemma pg_save_event_cases:
  fixes env c db
  defines "res \<equiv> pg_save_event env (es_ids c) (es_time c) (es_answers c) (es_event c) db"
  shows "save_succeeds c \<Longrightarrow> fst res = Inr ()
      \<and> pg_chain_events (snd res) = upsert_event_row (stored_event env (es_event c)) (pg_chain_events db)
      \<and> pg_cached_events (snd res) = Suc (pg_cached_events db)
      \<and> pg_event_observations (snd res) = pg_event_observations db"
    and "\<not> save_succeeds c \<Longrightarrow> snd res = db \<and> (\<exists>err. fst res = Inl err)"
proof -
  show "fst res = Inr () \<and> pg_chain_events (snd res) = upsert_event_row (stored_event env (es_event c)) (pg_chain_events db)
      \<and> pg_cached_events (snd res) = Suc (pg_cached_events db)
      \<and> pg_event_observations (snd res) = pg_event_observations db" if "save_succeeds c"
    using that event_to_row_fits [of "es_event c" env]
    by (simp add: res_def pg_save_event_def save_succeeds_def bound_def accepted_def Let_def
        pg_save_event_metrics_frame)
  show "snd res = db \<and> (\<exists>err. fst res = Inl err)" if "\<not> save_succeeds c"
  proof -
    have "\<exists>err. bound (es_answers c 0) (event_to_row env (es_event c)) = Inl err"
      using that event_to_row_unfit [of "es_event c" env] bound_refused
      by (metis save_succeeds_def)
    then show ?thesis by (auto simp: res_def pg_save_event_def)
  qed
qed


text \<open>The two stores hold the same events, in the same order.\<close>

definition same_events :: "pg_env \<Rightarrow> postgres_storage \<Rightarrow> in_memory_storage \<Rightarrow> bool" where
  "same_events env db s \<longleftrightarrow>
     pg_chain_events db = map (stored_event env) (st_events s)
     \<and> (\<forall>x \<in> set (st_events s). fits (ev_block_height x))
     \<and> pg_event_observations db = [] \<and> st_event_observations s = []"

lemma fits_log_event:
  assumes "\<forall>x \<in> set es. fits (ev_block_height x)" "fits (ev_block_height e)"
  shows "\<forall>x \<in> set (log_event cap e es). fits (ev_block_height x)"
proof (cases "position (\<lambda>x. ev_id x = ev_id e) es")
  case None
  then show ?thesis using assms by (auto simp: log_event_def push_bounded_def dest: in_set_dropD)
next
  case (Some i)
  then have "fits (ev_block_height (merge_event e (es ! i)))"
    using assms(1) position_less [OF Some] by (simp add: merge_event_def)
  then show ?thesis using Some assms(1) set_update_subset_insert [of es i "merge_event e (es ! i)"]
    by (auto simp: log_event_def)
qed

lemma log_event_grows: "length es < cap \<Longrightarrow> length (log_event cap e es) \<le> Suc (length es)"
  by (auto simp: log_event_def push_bounded_def split: option.split)

lemma no_observations_save_event:
  "st_event_observations s = [] \<Longrightarrow> st_event_observations (save_event v4 now e s) = []"
  by (simp add: save_event_def Let_def storage_frame split: option.split list.split)

lemma same_events_save:
  assumes "same_events env db s" "save_succeeds c" "length (st_events s) < st_max_events s"
  shows "same_events env (snd (pg_save_event env (es_ids c) (es_time c) (es_answers c) (es_event c) db))
           (save_event (es_ids c) (es_time c) (es_event c) s)"
proof -
  have "\<forall>x \<in> set (log_event (st_max_events s) (es_event c) (st_events s)). fits (ev_block_height x)"
    by (rule fits_log_event) (use assms in \<open>simp_all add: same_events_def save_succeeds_def\<close>)
  then show ?thesis using assms pg_save_event_cases(1) [OF assms(2), of env db]
    by (simp add: same_events_def storage_frame save_succeeds_def upsert_event_row_map
        no_observations_save_event)
qed

lemma same_events_run:
  assumes "same_events env db s" "length (st_events s) + length (filter save_succeeds cs) \<le> st_max_events s"
  shows "same_events env (pg_run_saves env cs db) (memory_run_saves (filter save_succeeds cs) s)
    \<and> pg_cached_events (pg_run_saves env cs db) = pg_cached_events db + length (filter save_succeeds cs)"
  using assms
proof (induction cs arbitrary: db s)
  case Nil
  then show ?case by (simp add: pg_run_saves_def memory_run_saves_def)
next
  case (Cons c cs)
  let ?db = "snd (pg_save_event env (es_ids c) (es_time c) (es_answers c) (es_event c) db)"
  let ?s = "save_event (es_ids c) (es_time c) (es_event c) s"
  have run: "pg_run_saves env (c # cs) db = pg_run_saves env cs ?db" by (simp add: pg_run_saves_def)
  show ?case
  proof (cases "save_succeeds c")
    case True
    then have room: "length (st_events s) < st_max_events s" using Cons.prems(2) by simp
    have "same_events env ?db ?s" using Cons.prems(1) True room by (rule same_events_save)
    moreover have "length (st_events ?s) + length (filter save_succeeds cs) \<le> st_max_events ?s"
      using Cons.prems(2) True log_event_grows [OF room, of "es_event c"] by (simp add: storage_frame)
    moreover have "memory_run_saves (filter save_succeeds (c # cs)) s
        = memory_run_saves (filter save_succeeds cs) ?s" using True by (simp add: memory_run_saves_def)
    ultimately show ?thesis using Cons.IH [of ?db ?s] True run pg_save_event_cases(1) [OF True, of env db]
      by simp
  next
    case False
    then show ?thesis using Cons.IH [OF Cons.prems(1)] Cons.prems(2) run pg_save_event_cases(2) [OF False, of env db]
      by simp
  qed
qed

lemma find_map: "find P (map f xs) = map_option f (find (\<lambda>x. P (f x)) xs)"
  by (induction xs) auto

lemma find_cong_set: "(\<And>x. x \<in> set xs \<Longrightarrow> P x = Q x) \<Longrightarrow> find P xs = find Q xs"
  by (induction xs) auto

lemma get_event_same:
  assumes "jsonb_ok env" "same_events env db s"
  shows "pg_get_event_by_id env now None None i db
    = Inr (map_option (recalled_event env now) (get_event_by_id i s))"
proof -
  have "find (\<lambda>r. rw_id r = i) (pg_chain_events db) =
      map_option (stored_event env) (find (\<lambda>e. ev_id e = i) (st_events s))"
    using assms(2) by (auto simp: same_events_def find_map stored_event_id intro!: find_cong_set
        arg_cong [where f = "map_option (stored_event env)"])
  moreover have "fits (ev_block_height e)" if "find (\<lambda>e. ev_id e = i) (st_events s) = Some e" for e
    using that assms(2) by (auto simp: same_events_def find_Some_iff)
  ultimately show ?thesis using assms
    by (cases "find (\<lambda>e. ev_id e = i) (st_events s)")
      (simp_all add: pg_get_event_by_id_def get_event_by_id_def row_to_event_stored same_events_def
        pg_list_event_observations_def order_by_def recalled_event_def)
qed


lemma sample_env_jsonb_ok: "jsonb_ok sample_env"
  by (simp add: jsonb_ok_def sample_env_def option.map_ident)

definition sample_pg_event :: "string \<Rightarrow> datetime \<Rightarrow> chain_event" where
  "sample_pg_event title t =
     \<lparr>ev_id = 7, ev_type = FanOut, ev_severity = SevLow, ev_confidence = ConfHigh, ev_title = title,
      ev_description = ''d'', ev_event_time = t, ev_first_observed_at = t, ev_detected_at = t,
      ev_block_height = Some 800000, ev_block_hash = None, ev_txid = Some ''ab'', ev_source = None,
      ev_witnesses = [], ev_observation_mode = Live, ev_replay_job_id = None, ev_metadata = JNull,
      ev_observations = []\<rparr>"

definition sample_saves :: "event_save list" where
  "sample_saves =
     [\<lparr>es_ids = (\<lambda>k. of_nat k), es_time = 5000, es_answers = (\<lambda>k. None), es_event = sample_pg_event ''first'' 1234\<rparr>,
      \<lparr>es_ids = (\<lambda>k. of_nat k), es_time = 6000, es_answers = (\<lambda>k. None), es_event = sample_pg_event ''again'' 5678\<rparr>,
      \<lparr>es_ids = (\<lambda>k. of_nat k), es_time = 7000, es_answers = (\<lambda>k. Some ''lost''), es_event = sample_pg_event ''late'' 9999\<rparr>]"

lemma sample_saves_accepted: "filter save_succeeds sample_saves = take 2 sample_saves"
  by (simp add: sample_saves_def save_succeeds_def fits_def column_fits_def sample_pg_event_def)

lemma sample_memory:
  "st_events (memory_run_saves (take 2 sample_saves) (empty_storage 10 10))
     = [merge_event (sample_pg_event ''again'' 5678) (sample_pg_event ''first'' 1234)]"
  "st_event_observations (memory_run_saves (take 2 sample_saves) (empty_storage 10 10)) = []"
  by (simp_all add: memory_run_saves_def sample_saves_def storage_frame log_event_def push_bounded_def
      empty_storage_def sample_pg_event_def no_observations_save_event)


section \<open>Jobs\<close>

text \<open>What a column pair keeps of a job.\<close>

definition recalled_job :: "pg_env \<Rightarrow> replay_job \<Rightarrow> replay_job" where
  "recalled_job env j =
     j\<lparr>rj_created_at := pe_time env (rj_created_at j),
       rj_started_at := map_option (pe_time env) (rj_started_at j),
       rj_completed_at := map_option (pe_time env) (rj_completed_at j)\<rparr>"

lemma read_job_status_str [simp]: "read_job_status (replay_job_status_str st) = st"
  by (cases st; hypsubst; code_simp)

lemma row_to_job_stored: "job_to_row env j = Inr row \<Longrightarrow> row_to_job row = Inr (recalled_job env j)"
  unfolding job_to_row_def try_bind_Inr
  by (elim exE conjE, hypsubst?) (auto simp: row_to_job_def recalled_job_def)

lemma row_to_job_update:
  assumes "job_to_row env j = Inr old" "job_to_row env j' = Inr new"
  shows "row_to_job (job_update new old) = Inr ((recalled_job env j')
    \<lparr>rj_id := rj_id j, rj_network := rj_network j, rj_start_height := rj_start_height j,
      rj_end_height := rj_end_height j, rj_source_type := rj_source_type j,
      rj_created_at := pe_time env (rj_created_at j)\<rparr>)"
  using assms unfolding job_to_row_def try_bind_Inr
  by (elim exE conjE, hypsubst?) (auto simp: row_to_job_def recalled_job_def job_update_def)


definition job_fits :: "replay_job \<Rightarrow> bool" where
  "job_fits j \<longleftrightarrow> list_all column_fits
     [rj_start_height j, rj_end_height j, rj_current_height j, rj_blocks_processed j,
      rj_transactions_processed j, rj_events_generated j, rj_events_created j, rj_events_existing j,
      rj_observations_recorded j, rj_error_count j]"

lemma job_to_row_fits: "(\<exists>row. job_to_row env j = Inr row) \<longleftrightarrow> job_fits j"
  by (auto simp: job_to_row_def job_fits_def try_bind_Inr u64_to_i64_fits [symmetric])

lemma job_row_id: "job_to_row env j = Inr row \<Longrightarrow> jw_id row = rj_id j"
  by (auto simp: job_to_row_def try_bind_Inr)

lemma pg_create_job_accepted:
  "job_to_row env j = Inr row \<Longrightarrow> pg_create_job env None j db = (Inr (), db\<lparr>pg_replay_jobs :=
     on_conflict (\<lambda>r. jw_id r = jw_id row) (job_update row) row (pg_replay_jobs db)\<rparr>)"
  by (simp add: pg_create_job_def bound_def)

lemma pg_create_job_refused:
  assumes "a \<noteq> None \<or> \<not> job_fits j"
  shows "\<exists>e. pg_create_job env a j db = (Inl e, db)"
proof -
  have "\<exists>e. bound a (job_to_row env j) = Inl e"
    using assms job_to_row_fits [of env j] bound_refused by (metis sum.exhaust)
  then show ?thesis by (auto simp: pg_create_job_def)
qed

text \<open>
  C6. A replay job survives a restart. A job whose counters fit a signed column is stored and read
  back with its instants in the precision of the server; saving its progress after a new connection
  changes the progress and keeps the network, the range of heights, the source and the creation time
  of the first save; other jobs are not touched, and a save that the server refuses or one of whose
  counters does not fit is an error that changes nothing.
\<close>

theorem job_survives_restart:
  assumes "\<forall>r \<in> set (pg_replay_jobs db). jw_id r \<noteq> rj_id j" "job_fits j" "job_fits j'" "rj_id j' = rj_id j"
    and "k \<noteq> rj_id j" "a \<noteq> None \<or> \<not> job_fits j''"
  shows "let (res1, db1) = pg_create_job env None j db;
             (res2, db2) = pg_update_job env None j' (postgres_new db1);
             (res3, db3) = pg_update_job env a j'' db2
         in res1 = Inr () \<and> pg_get_job None (rj_id j) db1 = Inr (Some (recalled_job env j))
            \<and> res2 = Inr ()
            \<and> pg_get_job None (rj_id j) db2 = Inr (Some ((recalled_job env j')
                \<lparr>rj_network := rj_network j, rj_start_height := rj_start_height j,
                  rj_end_height := rj_end_height j, rj_source_type := rj_source_type j,
                  rj_created_at := pe_time env (rj_created_at j)\<rparr>))
            \<and> pg_get_job None k db2 = pg_get_job None k db
            \<and> (\<exists>e. res3 = Inl e) \<and> db3 = db2"
proof -
  obtain row where row: "job_to_row env j = Inr row" using assms(2) job_to_row_fits by blast
  obtain row' where row': "job_to_row env j' = Inr row'" using assms(3) job_to_row_fits by blast
  have ids: "jw_id row = rj_id j" "jw_id row' = rj_id j"
    using job_row_id [OF row] job_row_id [OF row'] assms(4) by simp_all
  have absent: "find (\<lambda>r. jw_id r = rj_id j) (pg_replay_jobs db) = None"
    using assms(1) by (auto simp: find_None_iff)
  have same_id: "(recalled_job env j')\<lparr>rj_id := rj_id j\<rparr> = recalled_job env j'"
    using assms(4) by (simp add: recalled_job_def)
  note update = row_to_job_update [OF row row']
  obtain db2 where "snd (pg_update_job env None j' (postgres_new (snd (pg_create_job env None j db)))) = db2"
    by simp
  moreover obtain e where "pg_create_job env a j'' db2 = (Inl e, db2)"
    using pg_create_job_refused [OF assms(6)] by blast
  ultimately show ?thesis
    using assms(5) absent ids update same_id
      jobs.find_upserted [of _ row "pg_replay_jobs db"]
      jobs.find_upserted [of _ row' "on_conflict (\<lambda>r. jw_id r = jw_id row) (job_update row) row (pg_replay_jobs db)"]
    by (auto simp: pg_update_job_def pg_create_job_accepted [OF row] pg_create_job_accepted [OF row']
        postgres_new_def pg_get_job_def read_one_def row_to_job_stored [OF row])
qed

definition sample_pg_job :: "u64 \<Rightarrow> replay_job" where
  "sample_pg_job n =
     \<lparr>rj_id = 4, rj_network = ''mainnet'', rj_start_height = 100, rj_end_height = 200,
      rj_current_height = 100 + n, rj_status = RRunning, rj_source_type = ''core'',
      rj_created_at = 1234, rj_started_at = Some 2345, rj_completed_at = None,
      rj_blocks_processed = n, rj_transactions_processed = 3 * n, rj_events_generated = n,
      rj_events_created = n, rj_events_existing = 0, rj_observations_recorded = n, rj_error_count = 0,
      rj_last_error = None\<rparr>"

lemma job_survives_restart_witness:
  "let (res1, db1) = pg_create_job sample_env None (sample_pg_job 0) empty_postgres;
       (res2, db2) = pg_update_job sample_env None
          ((sample_pg_job 7)\<lparr>rj_network := ''testnet'', rj_end_height := 999\<rparr>) (postgres_new db1);
       (res3, db3) = pg_update_job sample_env None ((sample_pg_job 8)\<lparr>rj_error_count := 2 ^ 63\<rparr>) db2
   in pg_get_job None 4 db2
        = Inr (Some ((sample_pg_job 7)\<lparr>rj_created_at := 1000, rj_started_at := Some 2000\<rparr>))
      \<and> (\<exists>e. res3 = Inl e) \<and> db3 = db2"
proof -
  let ?j = "(sample_pg_job 7)\<lparr>rj_network := ''testnet'', rj_end_height := 999\<rparr>"
  let ?bad = "(sample_pg_job 8)\<lparr>rj_error_count := 2 ^ 63\<rparr>"
  have "job_fits (sample_pg_job 0)" "job_fits ?j" "\<not> job_fits ?bad"
    by (simp_all add: job_fits_def column_fits_def sample_pg_job_def)
  then show ?thesis
    using job_survives_restart [of empty_postgres "sample_pg_job 0" ?j 5 None ?bad sample_env]
    by (simp add: case_prod_beta Let_def empty_postgres_def sample_pg_job_def recalled_job_def sample_env_def)
qed

section \<open>Activities and rarity\<close>

lemma try_map_set: "try_map f xs = Inr ys \<Longrightarrow> y \<in> set ys \<Longrightarrow> \<exists>x \<in> set xs. f x = Inr y"
  by (induction xs arbitrary: ys) (auto split: sum.splits)

text \<open>
  An activity that is saved again under its deduplication key, as its confirmation is, keeps the
  identifier of the first save: under its own identifier it is not found.
\<close>

theorem confirmed_activity_keeps_id:
  assumes "activity_to_row env now a = Inr old" "activity_to_row env now' a' = Inr new"
    and "ac_dedup_key a' = ac_dedup_key a" "ac_id a' \<noteq> ac_id a" "pg_activities db = []"
  shows "let db1 = snd (pg_save_activity env now None a db);
             db2 = snd (pg_save_activity env now' None a' db1)
         in find (\<lambda>r. aw_dedup_key r = ac_dedup_key a) (pg_activities db2) = Some (activity_update new old)
            \<and> aw_id (activity_update new old) = ac_id a
            \<and> aw_status (activity_update new old) = activity_status_name (ac_status a')
            \<and> pg_get_activity_by_id parse None (ac_id a') db2 = Inr None
            \<and> pg_cached_activities db2 = pg_cached_activities db + 2"
proof -
  have "aw_dedup_key old = ac_dedup_key a" "aw_dedup_key new = ac_dedup_key a" "aw_id old = ac_id a"
    "aw_status new = activity_status_name (ac_status a')"
    using assms(1-3) by (auto simp: activity_to_row_def try_bind_Inr)
  then show ?thesis using assms(1,2,4,5)
    by (simp add: Let_def pg_save_activity_def bound_def upsert_activity_row_def on_conflict_def
        activity_update_def pg_get_activity_by_id_def read_one_def)
qed

text \<open>
  The method of a percentile and the mark of an estimate are stored but never read: every rarity
  result comes back as an exact one.
\<close>

theorem rarity_method_lost:
  assumes "pg_get_event_rarity env a i run db = Inr xs" "x \<in> set xs"
  shows "er_percentile_method x = ExactEmpiricalCdf \<and> \<not> er_estimated x"
proof -
  obtain r where "row_to_rarity r = Inr x"
    using assms by (auto simp: pg_get_event_rarity_def try_bind_Inr dest: try_map_set)
  moreover have "percentile_method_from_str ''EXACT_EMPIRICAL_CDF'' = Inr ExactEmpiricalCdf" by code_simp
  ultimately show ?thesis by (auto simp: row_to_rarity_def Let_def try_bind_Inr or_default_def)
qed

end
