(* ===== verification/Case_History.thy ===== *)
theory Case_History
  imports Case_Tables Durability
begin

text \<open>
  What the dossier tables keep: the effect of a committed \<open>save_incident\<close> on each table, that a stored
  dossier can always be read back, what of it is replaced and what only ever grows, and what seeding
  the shipped dossier at every start does to it.
\<close>

section \<open>Running a transaction\<close>

lemma accepted_Inr: "accepted a r = Inr x \<longleftrightarrow> a = None \<and> r = Inr x"
  by (cases a) (simp_all add: accepted_def)

lemma exec_sql_Inr:
  "exec_sql st tx = Inr tx' \<longleftrightarrow> (\<exists>f. st = Inr f \<and> fst tx 0 = None \<and> tx' = (\<lambda>k. fst tx (Suc k), f (snd tx)))"
  by (auto simp: exec_sql_def try_bind_Inr accepted_Inr)

text \<open>A loop that sends one statement for each element stores the rows of all elements, in order.\<close>

lemma for_each_rows:
  assumes "\<And>x. f x = exec_sql (try_bind (conv x) (\<lambda>row. Inr (put row)))" "for_each f xs tx = Inr tx'"
  shows "\<exists>rows. try_map conv xs = Inr rows \<and> snd tx' = fold put rows (snd tx)"
  using assms(2)
proof (induction xs arbitrary: tx)
  case (Cons x xs)
  then obtain tx1 where tx1: "f x tx = Inr tx1" "for_each f xs tx1 = Inr tx'"
    by (auto simp: try_bind_Inr)
  then obtain row where "conv x = Inr row" "snd tx1 = put row (snd tx)"
    by (auto simp: assms(1) exec_sql_Inr try_bind_Inr)
  then show ?case using Cons.IH [OF tx1(2)] by auto
qed simp

lemma for_each_pure:
  assumes "\<And>x. f x = exec_sql (Inr (put x))" "for_each f xs tx = Inr tx'"
  shows "snd tx' = fold put xs (snd tx)"
  using assms(2)
  by (induction xs arbitrary: tx) (auto simp: try_bind_Inr assms(1) exec_sql_Inr)

lemma try_map_total: "\<forall>x \<in> set xs. \<exists>y. f x = Inr y \<Longrightarrow> \<exists>ys. try_map f xs = Inr ys"
  by (induction xs) auto

section \<open>Rows that can be read\<close>

text \<open>Every number a dossier row holds came out of an unsigned one.\<close>

definition natural :: "int option \<Rightarrow> bool" where
  "natural v \<longleftrightarrow> (case v of Some x \<Rightarrow> 0 \<le> x | None \<Rightarrow> True)"

definition readable :: "case_tables \<Rightarrow> bool" where
  "readable t \<longleftrightarrow>
     (\<forall>r \<in> set (ct_snapshots t). 0 \<le> sw_affected_sats r \<and> 0 \<le> sw_recovered_sats r \<and> 0 \<le> sw_outstanding_sats r)
     \<and> (\<forall>r \<in> set (ct_evidence t). natural (vw_block_height r))
     \<and> (\<forall>r \<in> set (ct_transactions t). natural (xw_amount_sats r) \<and> natural (xw_block_height r))
     \<and> (\<forall>r \<in> set (ct_blocks t). 0 \<le> bw_height r)
     \<and> (\<forall>r \<in> set (ct_messages t). natural (gw_block_height r))"

lemma i64_natural: "u64_to_i64_checked v = Inr i \<Longrightarrow> 0 \<le> i"
  by (auto simp: u64_to_i64_checked_def split: if_splits)

lemma opt_i64_natural: "opt_i64 v = Inr i \<Longrightarrow> natural i"
  by (auto simp: opt_i64_def natural_def try_bind_Inr dest: i64_natural split: option.splits)

lemma i64_to_u64_total: "0 \<le> i \<Longrightarrow> \<exists>v. i64_to_u64_checked i = Inr v"
  by (simp add: i64_to_u64_checked_def)

lemma opt_u64_total: "natural i \<Longrightarrow> \<exists>v. opt_u64 i = Inr v"
  by (auto simp: opt_u64_def natural_def try_bind_Inr dest: i64_to_u64_total split: option.splits)

lemma set_on_conflict: "r \<in> set (on_conflict same change row rows) \<Longrightarrow> r = row \<or> r \<in> set rows \<or> (\<exists>x \<in> set rows. r = change x)"
proof (cases "position same rows")
  case (Some k)
  assume "r \<in> set (on_conflict same change row rows)"
  then have "r \<in> insert (change (rows ! k)) (set rows)"
    using Some set_update_subset_insert [of rows k] by (auto simp: on_conflict_def)
  moreover have "rows ! k \<in> set rows" using Some by (simp add: position_Some)
  ultimately show ?thesis by blast
qed (auto simp: on_conflict_def)

lemma all_on_conflict:
  "\<lbrakk>\<forall>r \<in> set rows. P r; P row; \<And>r. P r \<Longrightarrow> P (change r)\<rbrakk> \<Longrightarrow> \<forall>r \<in> set (on_conflict same change row rows). P r"
  using set_on_conflict by fast

lemma all_fold_on_conflict:
  "\<lbrakk>\<forall>r \<in> set rows. P r; \<forall>n \<in> set ns. P n; \<And>n r. P n \<Longrightarrow> P r \<Longrightarrow> P (change n r)\<rbrakk> \<Longrightarrow>
     \<forall>r \<in> set (fold (\<lambda>n. on_conflict (same n) (change n) n) ns rows). P r"
proof (induction ns arbitrary: rows)
  case (Cons n ns)
  have "\<forall>r \<in> set (on_conflict (same n) (change n) n rows). P r"
    by (rule all_on_conflict) (use Cons.prems in auto)
  then have "\<forall>r \<in> set (fold (\<lambda>n. on_conflict (same n) (change n) n) ns
      (on_conflict (same n) (change n) n rows)). P r"
    by (rule Cons.IH) (use Cons.prems in auto)
  then show ?case by simp
qed simp

lemma try_map_all: "\<lbrakk>try_map f xs = Inr ys; \<And>x y. f x = Inr y \<Longrightarrow> P y\<rbrakk> \<Longrightarrow> \<forall>y \<in> set ys. P y"
  using try_map_set by fast


section \<open>The effect of a committed save\<close>

definition put_source :: "source_row \<Rightarrow> source_row list \<Rightarrow> source_row list" where
  "put_source n = on_conflict (\<lambda>r. zw_id r = zw_id n) (source_update_row n) n"

definition put_entity :: "entity_row \<Rightarrow> entity_row list \<Rightarrow> entity_row list" where
  "put_entity n = on_conflict (\<lambda>r. ew_id r = ew_id n) (entity_update_row n) n"

definition put_timeline :: "timeline_row \<Rightarrow> timeline_row list \<Rightarrow> timeline_row list" where
  "put_timeline n = on_conflict (\<lambda>r. iw_id r = iw_id n) (timeline_update_row n) n"

definition put_update :: "update_row \<Rightarrow> update_row list \<Rightarrow> update_row list" where
  "put_update n = on_conflict (\<lambda>r. uw_id r = uw_id n) (\<lambda>r. r) n"

definition put_snapshot :: "snapshot_row \<Rightarrow> snapshot_row list \<Rightarrow> snapshot_row list" where
  "put_snapshot n rows =
     (if list_ex (\<lambda>r. sw_incident_id r = sw_incident_id n \<and> sw_as_of_timestamp r = sw_as_of_timestamp n) rows
      then rows else rows @ [n])"

text \<open>The tables after a commit, given the rows of the parts that need a conversion.\<close>

definition saved_tables ::
  "pg_env \<Rightarrow> datetime \<Rightarrow> incident \<Rightarrow> snapshot_row \<Rightarrow> evidence_row list \<Rightarrow> case_tx_row list \<Rightarrow> case_block_row list
     \<Rightarrow> message_row list \<Rightarrow> case_tables \<Rightarrow> case_tables" where
  "saved_tables env now i snap evs txs blks msgs t =
     (let id = ic_id i; row = incident_to_row env now i
      in \<lparr>ct_incidents = on_conflict (\<lambda>r. kw_id r = kw_id row) (incident_update_row row) row (ct_incidents t),
          ct_snapshots = put_snapshot snap (ct_snapshots t),
          ct_sources = fold put_source (map (source_to_row env id) (ic_sources i)) (ct_sources t),
          ct_evidence = fold (\<lambda>n. on_conflict (\<lambda>r. vw_id r = vw_id n) (evidence_update_row n) n) evs (ct_evidence t),
          ct_transactions = fold (\<lambda>n. on_conflict (case_tx_conflict n) (case_tx_update n) n) txs (ct_transactions t),
          ct_blocks = fold (\<lambda>n. on_conflict (case_block_conflict n) (case_block_update n) n) blks (ct_blocks t),
          ct_entities = fold put_entity (map (entity_to_row id) (ic_entities i)) (ct_entities t),
          ct_messages = filter (\<lambda>r. gw_incident_id r \<noteq> id) (ct_messages t) @ msgs,
          ct_timeline = fold put_timeline (map (timeline_to_row env id) (ic_timeline i)) (ct_timeline t),
          ct_findings = filter (\<lambda>r. fw_incident_id r \<noteq> id) (ct_findings t)
            @ map (\<lambda>f. \<lparr>fw_incident_id = id, fw_finding = f\<rparr>) (ic_technical_findings i),
          ct_updates = fold put_update (map (update_to_row env id) (ic_updates i)) (ct_updates t),
          ct_nodes = fold (\<lambda>n. on_conflict (node_conflict n) (\<lambda>r. n) n)
            (map (node_to_row env id) (ig_nodes (ic_graph i))) (ct_nodes t),
          ct_edges = filter (\<lambda>r. qw_incident_id r \<noteq> id) (ct_edges t) @ map (edge_to_row id) (ig_edges (ic_graph i))\<rparr>)"

section \<open>One table at a time\<close>

text \<open>A table as a field of the database: what is needed of it to run a loop of statements on it.\<close>

locale table_field =
  fixes get :: "case_tables \<Rightarrow> 'r list" and upd :: "('r list \<Rightarrow> 'r list) \<Rightarrow> case_tables \<Rightarrow> case_tables"
  assumes get_upd: "get (upd f t) = f (get t)"
    and upd_upd: "upd f (upd g t) = upd (\<lambda>x. f (g x)) t"
    and upd_get: "upd (\<lambda>_. get t) t = t"
begin

lemma fold_put: "fold (\<lambda>x t. upd (\<lambda>_. h x (get t)) t) xs t = upd (\<lambda>_. fold h xs (get t)) t"
  by (induction xs arbitrary: t) (simp_all add: upd_get get_upd upd_upd)

lemma loop:
  assumes "\<And>x. f x = exec_sql (try_bind (conv x) (\<lambda>row. Inr (\<lambda>t. upd (\<lambda>_. h row (get t)) t)))"
    "for_each f xs tx = Inr tx'"
  shows "\<exists>rows. try_map conv xs = Inr rows \<and> snd tx' = upd (\<lambda>_. fold h rows (get (snd tx))) (snd tx)"
  using for_each_rows [OF assms] by (simp add: fold_put)

lemma pure_loop:
  assumes "\<And>x. f x = exec_sql (Inr (\<lambda>t. upd (\<lambda>_. h (row x) (get t)) t))" "for_each f xs tx = Inr tx'"
  shows "snd tx' = upd (\<lambda>_. fold h (map row xs) (get (snd tx))) (snd tx)"
  using for_each_pure [OF assms] by (simp add: fold_put [where h = "\<lambda>x. h (row x)"] fold_map o_def)

end

interpretation sources: table_field ct_sources ct_sources_update by unfold_locales simp_all
interpretation evidence: table_field ct_evidence ct_evidence_update by unfold_locales simp_all
interpretation transactions: table_field ct_transactions ct_transactions_update by unfold_locales simp_all
interpretation blocks: table_field ct_blocks ct_blocks_update by unfold_locales simp_all
interpretation entities: table_field ct_entities ct_entities_update by unfold_locales simp_all
interpretation messages: table_field ct_messages ct_messages_update by unfold_locales simp_all
interpretation timeline: table_field ct_timeline ct_timeline_update by unfold_locales simp_all
interpretation findings: table_field ct_findings ct_findings_update by unfold_locales simp_all
interpretation updates: table_field ct_updates ct_updates_update by unfold_locales simp_all
interpretation nodes: table_field ct_nodes ct_nodes_update by unfold_locales simp_all
interpretation edges: table_field ct_edges ct_edges_update by unfold_locales simp_all

lemma fold_append_one: "fold (\<lambda>r rs. rs @ [r]) xs ys = ys @ xs"
  by (induction xs arbitrary: ys) simp_all

lemma tx_sources_effect:
  "for_each (tx_case_source env i) xs tx = Inr tx' \<Longrightarrow> snd tx' = (snd tx)\<lparr>ct_sources :=
     fold put_source (map (source_to_row env (ic_id i)) xs) (ct_sources (snd tx))\<rparr>"
  by (erule sources.pure_loop [where row = "source_to_row env (ic_id i)", rotated])
    (simp add: tx_case_source_def put_source_def Let_def)

lemma tx_entities_effect:
  "for_each (tx_entity i) xs tx = Inr tx' \<Longrightarrow> snd tx' = (snd tx)\<lparr>ct_entities :=
     fold put_entity (map (entity_to_row (ic_id i)) xs) (ct_entities (snd tx))\<rparr>"
  by (erule entities.pure_loop [where row = "entity_to_row (ic_id i)", rotated])
    (simp add: tx_entity_def put_entity_def Let_def)

lemma tx_timeline_effect:
  "for_each (tx_timeline env i) xs tx = Inr tx' \<Longrightarrow> snd tx' = (snd tx)\<lparr>ct_timeline :=
     fold put_timeline (map (timeline_to_row env (ic_id i)) xs) (ct_timeline (snd tx))\<rparr>"
  by (erule timeline.pure_loop [where row = "timeline_to_row env (ic_id i)", rotated])
    (simp add: tx_timeline_def put_timeline_def Let_def)

lemma tx_updates_effect:
  "for_each (tx_update env i) xs tx = Inr tx' \<Longrightarrow> snd tx' = (snd tx)\<lparr>ct_updates :=
     fold put_update (map (update_to_row env (ic_id i)) xs) (ct_updates (snd tx))\<rparr>"
  by (erule updates.pure_loop [where row = "update_to_row env (ic_id i)", rotated])
    (simp add: tx_update_def put_update_def Let_def)

lemma tx_nodes_effect:
  "for_each (tx_node env i) xs tx = Inr tx' \<Longrightarrow> snd tx' = (snd tx)\<lparr>ct_nodes :=
     fold (\<lambda>n. on_conflict (node_conflict n) (\<lambda>r. n) n) (map (node_to_row env (ic_id i)) xs) (ct_nodes (snd tx))\<rparr>"
  by (erule nodes.pure_loop [where row = "node_to_row env (ic_id i)", rotated]) (simp add: tx_node_def Let_def)

lemma tx_evidence_effect:
  "for_each (tx_evidence env now i) xs tx = Inr tx' \<Longrightarrow>
     \<exists>rows. try_map (evidence_to_row env now (ic_id i)) xs = Inr rows \<and> snd tx' = (snd tx)\<lparr>ct_evidence :=
       fold (\<lambda>n. on_conflict (\<lambda>r. vw_id r = vw_id n) (evidence_update_row n) n) rows (ct_evidence (snd tx))\<rparr>"
  by (erule evidence.loop [rotated]) (simp add: tx_evidence_def)

lemma tx_transactions_effect:
  "for_each (tx_transaction env i) xs tx = Inr tx' \<Longrightarrow>
     \<exists>rows. try_map (case_tx_to_row env (ic_id i)) xs = Inr rows \<and> snd tx' = (snd tx)\<lparr>ct_transactions :=
       fold (\<lambda>n. on_conflict (case_tx_conflict n) (case_tx_update n) n) rows (ct_transactions (snd tx))\<rparr>"
  by (erule transactions.loop [rotated]) (simp add: tx_transaction_def)

lemma tx_blocks_effect:
  "for_each (tx_block env i) xs tx = Inr tx' \<Longrightarrow>
     \<exists>rows. try_map (case_block_to_row env (ic_id i)) xs = Inr rows \<and> snd tx' = (snd tx)\<lparr>ct_blocks :=
       fold (\<lambda>n. on_conflict (case_block_conflict n) (case_block_update n) n) rows (ct_blocks (snd tx))\<rparr>"
  by (erule blocks.loop [rotated]) (simp add: tx_block_def)

lemma tx_messages_effect:
  assumes "tx_messages env i tx = Inr tx'"
  shows "\<exists>rows. try_map (message_to_row env (ic_id i)) (ic_on_chain_messages i) = Inr rows
    \<and> snd tx' = (snd tx)\<lparr>ct_messages := filter (\<lambda>r. gw_incident_id r \<noteq> ic_id i) (ct_messages (snd tx)) @ rows\<rparr>"
proof -
  obtain tx1 where tx1: "snd tx1 = (snd tx)\<lparr>ct_messages := filter (\<lambda>r. gw_incident_id r \<noteq> ic_id i) (ct_messages (snd tx))\<rparr>"
    "for_each (tx_message env i) (ic_on_chain_messages i) tx1 = Inr tx'"
    using assms by (auto simp: tx_messages_def try_bind_Inr exec_sql_Inr)
  have "\<exists>rows. try_map (message_to_row env (ic_id i)) (ic_on_chain_messages i) = Inr rows
      \<and> snd tx' = (snd tx1)\<lparr>ct_messages := fold (\<lambda>r rs. rs @ [r]) rows (ct_messages (snd tx1))\<rparr>"
    by (rule messages.loop [OF _ tx1(2)]) (simp add: tx_message_def)
  then show ?thesis by (auto simp: tx1(1) fold_append_one)
qed

lemma tx_findings_effect:
  assumes "tx_findings i tx = Inr tx'"
  shows "snd tx' = (snd tx)\<lparr>ct_findings := filter (\<lambda>r. fw_incident_id r \<noteq> ic_id i) (ct_findings (snd tx))
    @ map (\<lambda>f. \<lparr>fw_incident_id = ic_id i, fw_finding = f\<rparr>) (ic_technical_findings i)\<rparr>"
proof -
  obtain tx1 where tx1: "snd tx1 = (snd tx)\<lparr>ct_findings := filter (\<lambda>r. fw_incident_id r \<noteq> ic_id i) (ct_findings (snd tx))\<rparr>"
    "for_each (tx_finding i) (ic_technical_findings i) tx1 = Inr tx'"
    using assms by (auto simp: tx_findings_def try_bind_Inr exec_sql_Inr)
  have "snd tx' = (snd tx1)\<lparr>ct_findings := fold (\<lambda>r rs. rs @ [r])
      (map (\<lambda>f. \<lparr>fw_incident_id = ic_id i, fw_finding = f\<rparr>) (ic_technical_findings i)) (ct_findings (snd tx1))\<rparr>"
    by (rule findings.pure_loop [OF _ tx1(2)]) (simp add: tx_finding_def)
  then show ?thesis by (simp add: tx1(1) fold_append_one)
qed

lemma tx_graph_effect:
  assumes "tx_graph env i tx = Inr tx'"
  shows "snd tx' = (snd tx)
    \<lparr>ct_nodes := fold (\<lambda>n. on_conflict (node_conflict n) (\<lambda>r. n) n)
        (map (node_to_row env (ic_id i)) (ig_nodes (ic_graph i))) (ct_nodes (snd tx)),
      ct_edges := filter (\<lambda>r. qw_incident_id r \<noteq> ic_id i) (ct_edges (snd tx))
        @ map (edge_to_row (ic_id i)) (ig_edges (ic_graph i))\<rparr>"
proof -
  obtain tx1 tx2 where tx: "for_each (tx_node env i) (ig_nodes (ic_graph i)) tx = Inr tx1"
    "snd tx2 = (snd tx1)\<lparr>ct_edges := filter (\<lambda>r. qw_incident_id r \<noteq> ic_id i) (ct_edges (snd tx1))\<rparr>"
    "for_each (tx_edge i) (ig_edges (ic_graph i)) tx2 = Inr tx'"
    using assms by (auto simp: tx_graph_def try_bind_Inr exec_sql_Inr)
  have "snd tx' = (snd tx2)\<lparr>ct_edges := fold (\<lambda>r rs. rs @ [r])
      (map (edge_to_row (ic_id i)) (ig_edges (ic_graph i))) (ct_edges (snd tx2))\<rparr>"
    by (rule edges.pure_loop [OF _ tx(3)]) (simp add: tx_edge_def)
  then show ?thesis by (simp add: tx(2) tx_nodes_effect [OF tx(1)] fold_append_one)
qed

lemma tx_snapshot_effect:
  assumes "tx_snapshot env i tx = Inr tx'"
  shows "\<exists>row. snapshot_to_row env (ic_id i) (ic_recovery i) = Inr row
    \<and> snd tx' = (snd tx)\<lparr>ct_snapshots := put_snapshot row (ct_snapshots (snd tx))\<rparr>"
proof -
  obtain row where row: "snapshot_to_row env (ic_id i) (ic_recovery i) = Inr row"
    using assms by (auto simp: tx_snapshot_def try_bind_Inr)
  then have "sw_incident_id row = ic_id i" by (auto simp: snapshot_to_row_def try_bind_Inr)
  then show ?thesis using assms row
    by (auto simp: tx_snapshot_def try_bind_Inr exec_sql_Inr put_snapshot_def split: if_splits)
qed

lemma pg_save_incident_effect:
  assumes "pg_save_incident env now ans i t = (Inr (), t')"
  shows "\<exists>snap evs txs blks msgs.
      snapshot_to_row env (ic_id i) (ic_recovery i) = Inr snap
      \<and> try_map (evidence_to_row env now (ic_id i)) (ic_evidence i) = Inr evs
      \<and> try_map (case_tx_to_row env (ic_id i)) (ic_transactions i) = Inr txs
      \<and> try_map (case_block_to_row env (ic_id i)) (ic_blocks i) = Inr blks
      \<and> try_map (message_to_row env (ic_id i)) (ic_on_chain_messages i) = Inr msgs
      \<and> t' = saved_tables env now i snap evs txs blks msgs t"
proof -
  obtain tx0 tx1 tx2 tx3 tx4 tx5 tx6 tx7 tx8 tx9 tx10 tx11 tx12 tx13 where
    steps: "snd tx0 = t" "tx_incident env now i tx0 = Inr tx1" "tx_snapshot env i tx1 = Inr tx2"
    "for_each (tx_case_source env i) (ic_sources i) tx2 = Inr tx3"
    "for_each (tx_evidence env now i) (ic_evidence i) tx3 = Inr tx4"
    "for_each (tx_transaction env i) (ic_transactions i) tx4 = Inr tx5"
    "for_each (tx_block env i) (ic_blocks i) tx5 = Inr tx6"
    "for_each (tx_entity i) (ic_entities i) tx6 = Inr tx7"
    "tx_messages env i tx7 = Inr tx8"
    "for_each (tx_timeline env i) (ic_timeline i) tx8 = Inr tx9"
    "tx_findings i tx9 = Inr tx10"
    "for_each (tx_update env i) (ic_updates i) tx10 = Inr tx11"
    "tx_graph env i tx11 = Inr tx12" "tx_commit tx12 = Inr tx13" "t' = snd tx13"
    using assms by (auto simp: pg_save_incident_def save_incident_body_def try_bind_Inr exec_sql_Inr
        split: sum.splits)
  have first: "snd tx1 = t\<lparr>ct_incidents := on_conflict (\<lambda>r. kw_id r = kw_id (incident_to_row env now i))
      (incident_update_row (incident_to_row env now i)) (incident_to_row env now i) (ct_incidents t)\<rparr>"
    using steps(1,2) by (auto simp: tx_incident_def Let_def exec_sql_Inr)
  obtain snap where snap: "snapshot_to_row env (ic_id i) (ic_recovery i) = Inr snap"
    "snd tx2 = (snd tx1)\<lparr>ct_snapshots := put_snapshot snap (ct_snapshots (snd tx1))\<rparr>"
    using tx_snapshot_effect [OF steps(3)] by blast
  obtain evs where evs: "try_map (evidence_to_row env now (ic_id i)) (ic_evidence i) = Inr evs"
    "snd tx4 = (snd tx3)\<lparr>ct_evidence := fold (\<lambda>n. on_conflict (\<lambda>r. vw_id r = vw_id n)
       (evidence_update_row n) n) evs (ct_evidence (snd tx3))\<rparr>"
    using tx_evidence_effect [OF steps(5)] by blast
  obtain txs where txs: "try_map (case_tx_to_row env (ic_id i)) (ic_transactions i) = Inr txs"
    "snd tx5 = (snd tx4)\<lparr>ct_transactions := fold (\<lambda>n. on_conflict (case_tx_conflict n)
       (case_tx_update n) n) txs (ct_transactions (snd tx4))\<rparr>"
    using tx_transactions_effect [OF steps(6)] by blast
  obtain blks where blks: "try_map (case_block_to_row env (ic_id i)) (ic_blocks i) = Inr blks"
    "snd tx6 = (snd tx5)\<lparr>ct_blocks := fold (\<lambda>n. on_conflict (case_block_conflict n)
       (case_block_update n) n) blks (ct_blocks (snd tx5))\<rparr>"
    using tx_blocks_effect [OF steps(7)] by blast
  obtain msgs where msgs: "try_map (message_to_row env (ic_id i)) (ic_on_chain_messages i) = Inr msgs"
    "snd tx8 = (snd tx7)\<lparr>ct_messages := filter (\<lambda>r. gw_incident_id r \<noteq> ic_id i) (ct_messages (snd tx7)) @ msgs\<rparr>"
    using tx_messages_effect [OF steps(9)] by blast
  note pure = tx_sources_effect [OF steps(4)] tx_entities_effect [OF steps(8)] tx_timeline_effect [OF steps(10)]
    tx_findings_effect [OF steps(11)] tx_updates_effect [OF steps(12)] tx_graph_effect [OF steps(13)]
  have last: "t' = snd tx12" using steps(14,15) by (auto simp: tx_commit_def exec_sql_Inr)
  have "t' = saved_tables env now i snap evs txs blks msgs t"
    by (simp add: saved_tables_def Let_def last pure snap(2) evs(2) txs(2) blks(2) msgs(2) first)
  then show ?thesis using snap(1) evs(1) txs(1) blks(1) msgs(1) by blast
qed


section \<open>Saves that succeed\<close>

text \<open>A server that refuses nothing commits every dossier whose numbers fit.\<close>

definition quiet :: "nat \<Rightarrow> answer" where
  "quiet k = None"

definition runs :: "(transaction \<Rightarrow> storage_error + transaction) \<Rightarrow> bool" where
  "runs f \<longleftrightarrow> (\<forall>t. \<exists>t'. f (quiet, t) = Inr (quiet, t'))"

lemma exec_quiet: "exec_sql (Inr f) (quiet, t) = Inr (quiet, f t)"
  by (simp add: exec_sql_def quiet_def fun_eq_iff)

lemma runs_exec: "runs (exec_sql (Inr f))"
  by (simp add: runs_def exec_quiet)

lemma runs_bind: "runs f \<Longrightarrow> runs g \<Longrightarrow> runs (\<lambda>tx. try_bind (f tx) g)"
  by (metis runs_def try_bind_simps(2))

lemma runs_for_each: "\<forall>x \<in> set xs. runs (f x) \<Longrightarrow> runs (for_each f xs)"
proof (induction xs)
  case (Cons x xs)
  have "for_each f (x # xs) = (\<lambda>tx. try_bind (f x tx) (for_each f xs))" by (simp add: fun_eq_iff)
  then show ?case using Cons runs_bind by simp
qed (simp add: runs_def)

definition incident_fits :: "incident \<Rightarrow> bool" where
  "incident_fits i \<longleftrightarrow>
     column_fits (rec_affected_sats (ic_recovery i)) \<and> column_fits (rec_recovered_sats (ic_recovery i))
     \<and> column_fits (rec_outstanding_sats (ic_recovery i))
     \<and> (\<forall>e \<in> set (ic_evidence i). fits (evi_block_height e))
     \<and> (\<forall>x \<in> set (ic_transactions i). fits (itx_amount_sats x) \<and> fits (itx_block_height x))
     \<and> (\<forall>b \<in> set (ic_blocks i). column_fits (ibk_height b))
     \<and> (\<forall>m \<in> set (ic_on_chain_messages i). fits (ocm_block_height m))"

lemma fits_conversions:
  "column_fits v \<Longrightarrow> \<exists>x. u64_to_i64_checked v = Inr x" "fits h \<Longrightarrow> \<exists>x. opt_i64 h = Inr x"
  by (simp_all add: u64_to_i64_fits opt_i64_fits)

lemma incident_fits_rows:
  assumes "incident_fits i"
  shows "\<exists>r. snapshot_to_row env u (ic_recovery i) = Inr r"
    and "\<forall>e \<in> set (ic_evidence i). \<exists>r. evidence_to_row env now u e = Inr r"
    and "\<forall>x \<in> set (ic_transactions i). \<exists>r. case_tx_to_row env u x = Inr r"
    and "\<forall>b \<in> set (ic_blocks i). \<exists>r. case_block_to_row env u b = Inr r"
    and "\<forall>m \<in> set (ic_on_chain_messages i). \<exists>r. message_to_row env u m = Inr r"
  using assms
  by (auto simp: incident_fits_def snapshot_to_row_def evidence_to_row_def case_tx_to_row_def
      case_block_to_row_def message_to_row_def try_bind_Inr u64_to_i64_fits [symmetric] opt_i64_fits [symmetric])

lemma runs_rows:
  assumes "incident_fits i"
  shows "runs (tx_snapshot env i)"
    and "runs (for_each (tx_evidence env now i) (ic_evidence i))"
    and "runs (for_each (tx_transaction env i) (ic_transactions i))"
    and "runs (for_each (tx_block env i) (ic_blocks i))"
    and "runs (for_each (tx_message env i) (ic_on_chain_messages i))"
proof -
  note rows = incident_fits_rows [OF assms]
  obtain r where r: "snapshot_to_row env (ic_id i) (ic_recovery i) = Inr r" using rows(1) by blast
  show "runs (tx_snapshot env i)" by (simp add: runs_def tx_snapshot_def exec_quiet r)
  have "runs (exec_sql (try_bind c (\<lambda>row. Inr (put row))))" if "\<exists>r. c = Inr r" for c :: "storage_error + 'r" and put
    using that runs_exec by auto
  note step = this
  show "runs (for_each (tx_evidence env now i) (ic_evidence i))"
    using rows(2) [of env now "ic_id i"] by (intro runs_for_each ballI) (simp add: tx_evidence_def step)
  show "runs (for_each (tx_transaction env i) (ic_transactions i))"
    using rows(3) [of env "ic_id i"] by (intro runs_for_each ballI) (simp add: tx_transaction_def step)
  show "runs (for_each (tx_block env i) (ic_blocks i))"
    using rows(4) [of env "ic_id i"] by (intro runs_for_each ballI) (simp add: tx_block_def step)
  show "runs (for_each (tx_message env i) (ic_on_chain_messages i))"
    using rows(5) [of env "ic_id i"] by (intro runs_for_each ballI) (simp add: tx_message_def step)
qed

lemma runs_pure:
  "runs (tx_incident env now i)" "runs (tx_case_source env i s)" "runs (tx_entity i e)"
  "runs (tx_timeline env i l)" "runs (tx_update env i u)" "runs (tx_node env i n)" "runs (tx_edge i g)"
  "runs (tx_finding i f)" "runs tx_commit"
  by (simp_all add: tx_incident_def tx_case_source_def tx_entity_def tx_timeline_def tx_update_def
      tx_node_def tx_edge_def tx_finding_def tx_commit_def Let_def runs_exec)

lemma runs_body:
  assumes "incident_fits i"
  shows "runs (save_incident_body env now i)"
proof -
  have "runs (tx_messages env i)" "runs (tx_findings i)" "runs (tx_graph env i)"
    unfolding tx_messages_def [abs_def] tx_findings_def [abs_def] tx_graph_def [abs_def]
    by (intro runs_bind runs_exec runs_rows(5) [OF assms] runs_for_each ballI runs_pure)+
  then show ?thesis unfolding save_incident_body_def [abs_def]
    by (intro runs_bind runs_rows [OF assms] runs_for_each ballI runs_pure)
qed

lemma pg_save_incident_quiet:
  assumes "incident_fits i"
  shows "\<exists>t'. pg_save_incident env now quiet i t = (Inr (), t')"
proof -
  obtain t' where "save_incident_body env now i (quiet, t) = Inr (quiet, t')"
    using runs_body [OF assms] unfolding runs_def by blast
  then show ?thesis by (simp add: pg_save_incident_def exec_quiet)
qed

section \<open>Reading back\<close>

text \<open>Tables written by any sequence of saves, committed or not, whatever the server answers.\<close>

inductive case_reachable :: "case_tables \<Rightarrow> bool" where
  case_empty: "case_reachable empty_case_tables"
| case_save: "case_reachable t \<Longrightarrow> case_reachable (snd (pg_save_incident env now ans i t))"

lemma row_naturals:
  "snapshot_to_row env u r = Inr s \<Longrightarrow> 0 \<le> sw_affected_sats s \<and> 0 \<le> sw_recovered_sats s \<and> 0 \<le> sw_outstanding_sats s"
  "evidence_to_row env now u e = Inr v \<Longrightarrow> natural (vw_block_height v)"
  "case_tx_to_row env u x = Inr y \<Longrightarrow> natural (xw_amount_sats y) \<and> natural (xw_block_height y)"
  "case_block_to_row env u b = Inr c \<Longrightarrow> 0 \<le> bw_height c"
  "message_to_row env u m = Inr g \<Longrightarrow> natural (gw_block_height g)"
  by (auto simp: snapshot_to_row_def evidence_to_row_def case_tx_to_row_def case_block_to_row_def
      message_to_row_def try_bind_Inr dest: i64_natural opt_i64_natural)

lemma readable_save:
  assumes "readable t"
  shows "readable (snd (pg_save_incident env now ans i t))"
proof (cases "pg_save_incident env now ans i t")
  case (Pair res t')
  show ?thesis
  proof (cases res)
    case (Inr u)
    then have "pg_save_incident env now ans i t = (Inr (), t')" using Pair by simp
    then obtain snap evs txs blks msgs where eff:
      "snapshot_to_row env (ic_id i) (ic_recovery i) = Inr snap"
      "try_map (evidence_to_row env now (ic_id i)) (ic_evidence i) = Inr evs"
      "try_map (case_tx_to_row env (ic_id i)) (ic_transactions i) = Inr txs"
      "try_map (case_block_to_row env (ic_id i)) (ic_blocks i) = Inr blks"
      "try_map (message_to_row env (ic_id i)) (ic_on_chain_messages i) = Inr msgs"
      "t' = saved_tables env now i snap evs txs blks msgs t"
      using pg_save_incident_effect by blast
    have "\<forall>r \<in> set (ct_evidence t'). natural (vw_block_height r)"
      unfolding eff(6) saved_tables_def Let_def case_tables.simps
      by (rule all_fold_on_conflict) (use assms try_map_all [OF eff(2) row_naturals(2)] in
          \<open>simp_all add: readable_def evidence_update_row_def\<close>)
    moreover have "\<forall>r \<in> set (ct_transactions t'). natural (xw_amount_sats r) \<and> natural (xw_block_height r)"
      unfolding eff(6) saved_tables_def Let_def case_tables.simps
      by (rule all_fold_on_conflict) (use assms try_map_all [OF eff(3) row_naturals(3)] in
          \<open>simp_all add: readable_def case_tx_update_def\<close>)
    moreover have "\<forall>r \<in> set (ct_blocks t'). 0 \<le> bw_height r"
      unfolding eff(6) saved_tables_def Let_def case_tables.simps
      by (rule all_fold_on_conflict) (use assms try_map_all [OF eff(4) row_naturals(4)] in
          \<open>simp_all add: readable_def case_block_update_def\<close>)
    moreover have "\<forall>r \<in> set msgs. natural (gw_block_height r)"
      by (rule try_map_all [OF eff(5)]) (rule row_naturals(5))
    ultimately show ?thesis using assms row_naturals(1) [OF eff(1)]
      unfolding Pair snd_conv readable_def
      by (auto simp: eff(6) saved_tables_def Let_def put_snapshot_def)
  next
    case (Inl e)
    then show ?thesis using Pair assms
      by (auto simp: pg_save_incident_def split: sum.splits)
  qed
qed

lemma reachable_readable: "case_reachable t \<Longrightarrow> readable t"
proof (induction rule: case_reachable.induct)
  case case_empty
  show ?case by (simp add: readable_def empty_case_tables_def)
next
  case (case_save t env now ans i)
  then show ?case by (simp add: readable_save)
qed

lemma mset_scan_rows: "mset (scan_rows rank key P rows) = mset (filter P rows)"
proof -
  have "mset (map snd (filter (\<lambda>(k, r). P r) (enumerate n rows))) = mset (filter P rows)" for n
    by (induction rows arbitrary: n) auto
  then show ?thesis by (simp add: scan_rows_def)
qed

lemma set_scan_rows: "set (scan_rows rank key P rows) = {r \<in> set rows. P r}"
  using mset_scan_rows [of rank key P rows] by (metis set_filter set_mset_mset)

lemma length_scan_rows: "length (scan_rows rank key P rows) = length (filter P rows)"
  using mset_scan_rows [of rank key P rows] by (metis size_mset)


text \<open>The parts of a dossier that are read without a conversion.\<close>

lemma fetch_dossier_total:
  assumes "readable t"
  shows "\<exists>d. fetch_dossier env parse scan quiet t row = Inr d
    \<and> ic_id d = kw_id row \<and> ic_case_id d = kw_case_id row \<and> ic_title d = kw_title row
    \<and> ic_summary d = kw_summary row \<and> ic_status d = read_incident_status (kw_status row)
    \<and> ic_severity d = read_incident_severity (kw_severity row)
    \<and> ic_structured_claims d = claims_of_value (kw_structured_claims row)
    \<and> ic_facts d = vec_or_default as_str (kw_facts row)
    \<and> ic_entities d = map row_to_entity (scan_rows (scan 6) (\<lambda>r. 0::nat) (\<lambda>r. ew_incident_id r = kw_id row) (ct_entities t))
    \<and> ic_timeline d = map (row_to_timeline parse) (scan_rows (scan 8) iw_timestamp (\<lambda>r. iw_incident_id r = kw_id row) (ct_timeline t))
    \<and> ic_technical_findings d = map fw_finding (scan_rows (scan 9) (\<lambda>r. 0::nat) (\<lambda>r. fw_incident_id r = kw_id row) (ct_findings t))
    \<and> ic_updates d = map (row_to_update env) (scan_rows (scan 10) (\<lambda>r. - uw_timestamp r) (\<lambda>r. uw_incident_id r = kw_id row) (ct_updates t))
    \<and> ig_edges (ic_graph d) = map row_to_edge (scan_rows (scan 12) (\<lambda>r. 0::nat) (\<lambda>r. qw_incident_id r = kw_id row) (ct_edges t))"
proof -
  let ?snap = "first_row (scan_rows (scan 1) (\<lambda>r. - sw_as_of_timestamp r) (\<lambda>r. sw_incident_id r = kw_id row) (ct_snapshots t))"
  let ?ev = "scan_rows (scan 3) (\<lambda>r. nulls_last (vw_observed_at r)) (\<lambda>r. vw_incident_id r = kw_id row) (ct_evidence t)"
  let ?tx = "scan_rows (scan 4) (\<lambda>r. nulls_last (xw_confirmed_at r)) (\<lambda>r. xw_incident_id r = kw_id row) (ct_transactions t)"
  let ?bl = "scan_rows (scan 5) bw_height (\<lambda>r. bw_incident_id r = kw_id row) (ct_blocks t)"
  let ?ms = "scan_rows (scan 7) (\<lambda>r. nulls_last (gw_confirmed_at r)) (\<lambda>r. gw_incident_id r = kw_id row) (ct_messages t)"
  have total: "\<exists>v. opt_u64 x = Inr v" if "natural x" for x using that by (rule opt_u64_total)
  have "\<exists>r. (case ?snap of Some s \<Rightarrow> row_to_recovery s | None \<Rightarrow> Inr (recovery_summary_new 0 0 (kw_last_updated_at row))) = Inr r"
  proof (cases ?snap)
    case (Some s)
    then have "s \<in> set (scan_rows (scan 1) (\<lambda>r. - sw_as_of_timestamp r) (\<lambda>r. sw_incident_id r = kw_id row) (ct_snapshots t))"
      by (auto simp: first_row_def split: list.splits)
    then have "s \<in> set (ct_snapshots t)" by (simp add: set_scan_rows)
    then have "0 \<le> sw_affected_sats s" "0 \<le> sw_recovered_sats s" "0 \<le> sw_outstanding_sats s"
      using assms by (auto simp: readable_def)
    then show ?thesis using Some by (simp add: row_to_recovery_def i64_to_u64_checked_def)
  qed simp
  then obtain recovery where recovery: "(case ?snap of Some s \<Rightarrow> row_to_recovery s
      | None \<Rightarrow> Inr (recovery_summary_new 0 0 (kw_last_updated_at row))) = Inr recovery" by blast
  have "\<exists>ys. try_map row_to_evidence ?ev = Inr ys" "\<exists>ys. try_map row_to_case_tx ?tx = Inr ys"
    "\<exists>ys. try_map row_to_case_block ?bl = Inr ys" "\<exists>ys. try_map row_to_message ?ms = Inr ys"
    by (rule try_map_total, use assms in \<open>force simp: readable_def set_scan_rows row_to_evidence_def
        row_to_case_tx_def row_to_case_block_def row_to_message_def try_bind_Inr
        dest: i64_to_u64_total total\<close>)+
  then obtain ev tx bl ms where "try_map row_to_evidence ?ev = Inr ev" "try_map row_to_case_tx ?tx = Inr tx"
    "try_map row_to_case_block ?bl = Inr bl" "try_map row_to_message ?ms = Inr ms" by blast
  then show ?thesis using recovery
    by (simp add: fetch_dossier_def Let_def quiet_def accepted_def)
qed


text \<open>\<open>JSONB\<close> keeps an array of texts.\<close>

definition jsonb_texts :: "pg_env \<Rightarrow> bool" where
  "jsonb_texts env \<longleftrightarrow> (\<forall>xs. pe_jsonb env (json_strs xs) = json_strs xs)"

lemma vec_of_strs: "vec_of_value as_str (json_strs xs) = Some xs"
proof -
  have "those (map (as_str \<circ> JStr) xs) = Some xs" by (induction xs) auto
  then show ?thesis by (simp add: vec_of_value_def json_strs_def)
qed

lemma claims_survive:
  assumes "jsonb_ok env" "jsonb_texts env"
  shows "claims_of_value (pe_jsonb env (claims_to_value c)) = c"
proof -
  have "json_get k (pe_jsonb env (claims_to_value c)) = map_option (pe_jsonb env)
      (map_of [(''verified_on_chain'', json_strs (scs_verified_on_chain c)),
         (''officially_attributed'', json_strs (scs_officially_attributed c)),
         (''reported'', json_strs (scs_reported c)), (''heuristic'', json_strs (scs_heuristic c)),
         (''unknown'', json_strs (scs_unknown c))] k)" for k
    unfolding claims_to_value_def by (rule jsonb_get [OF assms(1)]) simp
  note get = this
  show ?thesis using assms(2) by (simp add: claims_of_value_def get jsonb_texts_def vec_of_strs)
qed

interpretation incident_rows: upserted_table kw_id incident_update_row
  by unfold_locales (simp add: incident_update_row_def)

interpretation entity_rows: upserted_table ew_id entity_update_row
  by unfold_locales (simp add: entity_update_row_def)

interpretation timeline_rows: upserted_table iw_id timeline_update_row
  by unfold_locales (simp add: timeline_update_row_def)

interpretation update_rows: upserted_table uw_id "\<lambda>n r. r"
  by unfold_locales simp

lemma row_to_edge_stored [simp]: "row_to_edge (edge_to_row u e) = e"
  by (simp add: row_to_edge_def edge_to_row_def)

text \<open>
  The row of a dossier after a save: everything but the time of the first observation is that of the
  dossier saved last.
\<close>

lemma saved_incident_row:
  assumes "pg_save_incident env now ans i t = (Inr (), t')"
  obtains first where "find (\<lambda>r. kw_id r = ic_id i) (ct_incidents t')
    = Some ((incident_to_row env now i)\<lparr>kw_first_observed_at := first\<rparr>)"
proof -
  let ?row = "incident_to_row env now i"
  have id: "kw_id ?row = ic_id i" by (simp add: incident_to_row_def)
  have "ct_incidents t' = on_conflict (\<lambda>r. kw_id r = kw_id ?row) (incident_update_row ?row) ?row (ct_incidents t)"
    using pg_save_incident_effect [OF assms] by (auto simp: saved_tables_def Let_def)
  then have found: "find (\<lambda>r. kw_id r = ic_id i) (ct_incidents t') =
      Some (case find (\<lambda>r. kw_id r = ic_id i) (ct_incidents t) of Some r \<Rightarrow> incident_update_row ?row r | None \<Rightarrow> ?row)"
    using incident_rows.find_upserted [of "ic_id i" ?row "ct_incidents t"] id by simp
  show thesis
  proof (cases "find (\<lambda>r. kw_id r = ic_id i) (ct_incidents t)")
    case None
    then show thesis using found by (intro that [of "kw_first_observed_at ?row"]) simp
  next
    case (Some r)
    then have "kw_id r = ic_id i" by (auto simp: find_Some_iff)
    then have "incident_update_row ?row r = ?row\<lparr>kw_first_observed_at := kw_first_observed_at r\<rparr>"
      by (simp add: incident_update_row_def incident_to_row_def)
    then show thesis using that found Some by simp
  qed
qed

lemma saved_parts:
  assumes "pg_save_incident env now ans i t = (Inr (), t')"
  shows "mset (map fw_finding (scan_rows rank key (\<lambda>r. fw_incident_id r = ic_id i) (ct_findings t')))
      = mset (ic_technical_findings i)"
    and "mset (map row_to_edge (scan_rows rank' key' (\<lambda>r. qw_incident_id r = ic_id i) (ct_edges t')))
      = mset (ig_edges (ic_graph i))"
    and "set (ct_snapshots t) \<subseteq> set (ct_snapshots t')" "set (ct_updates t) \<subseteq> set (ct_updates t')"
proof -
  obtain snap evs txs blks msgs where t': "t' = saved_tables env now i snap evs txs blks msgs t"
    using pg_save_incident_effect [OF assms] by blast
  have "filter (\<lambda>r. fw_incident_id r = ic_id i) (ct_findings t')
      = map (\<lambda>f. \<lparr>fw_incident_id = ic_id i, fw_finding = f\<rparr>) (ic_technical_findings i)"
    by (simp add: t' saved_tables_def Let_def filter_map o_def)
  then show "mset (map fw_finding (scan_rows rank key (\<lambda>r. fw_incident_id r = ic_id i) (ct_findings t')))
      = mset (ic_technical_findings i)"
    by (simp add: mset_scan_rows image_mset.compositionality o_def del: mset_filter)
  have "filter (\<lambda>r. qw_incident_id r = ic_id i) (ct_edges t') = map (edge_to_row (ic_id i)) (ig_edges (ic_graph i))"
    by (simp add: t' saved_tables_def Let_def filter_map o_def edge_to_row_def)
  then show "mset (map row_to_edge (scan_rows rank' key' (\<lambda>r. qw_incident_id r = ic_id i) (ct_edges t')))
      = mset (ig_edges (ic_graph i))"
    by (simp add: mset_scan_rows image_mset.compositionality o_def del: mset_filter)
  have "set rows \<subseteq> set (fold put_update ns rows)" for ns rows
  proof (induction ns arbitrary: rows)
    case (Cons n ns)
    have "set rows \<subseteq> set (put_update n rows)"
      by (auto simp: put_update_def on_conflict_def position_Some split: option.split)
    then show ?case using Cons by fastforce
  qed simp
  then show "set (ct_snapshots t) \<subseteq> set (ct_snapshots t')" "set (ct_updates t) \<subseteq> set (ct_updates t')"
    by (auto simp: t' saved_tables_def Let_def put_snapshot_def)
qed

text \<open>
  C8. A dossier that is saved can be read back, whatever saves came before it. It carries the
  identity, the texts, the status and the severity of the dossier saved last, its five tiers of
  claims apart from each other, its facts, and exactly its technical findings and relationships;
  the entities, entries of the timeline and updates are those of the tables, and every recovery
  snapshot and every published update that was there before the save is still there, unchanged.
\<close>

theorem saved_dossier_reads_back:
  assumes "case_reachable t" "jsonb_ok env" "jsonb_texts env"
    and "pg_save_incident env now ans i t = (Inr (), t')"
  shows "(\<exists>d. pg_get_incident_by_id env parse scan quiet (ic_id i) t' = Inr (Some d)
      \<and> ic_id d = ic_id i \<and> ic_case_id d = ic_case_id i \<and> ic_title d = ic_title i
      \<and> ic_summary d = ic_summary i \<and> ic_status d = ic_status i \<and> ic_severity d = ic_severity i
      \<and> ic_structured_claims d = ic_structured_claims i \<and> ic_facts d = ic_facts i
      \<and> mset (ic_technical_findings d) = mset (ic_technical_findings i)
      \<and> mset (ig_edges (ic_graph d)) = mset (ig_edges (ic_graph i)))
    \<and> set (ct_snapshots t) \<subseteq> set (ct_snapshots t') \<and> set (ct_updates t) \<subseteq> set (ct_updates t')"
proof -
  obtain first where row: "find (\<lambda>r. kw_id r = ic_id i) (ct_incidents t')
      = Some ((incident_to_row env now i)\<lparr>kw_first_observed_at := first\<rparr>)"
    using saved_incident_row [OF assms(4)] by blast
  have "readable t'" using readable_save [OF reachable_readable [OF assms(1)], of env now ans i] assms(4) by simp
  note read = fetch_dossier_total [OF this, of env parse scan "(incident_to_row env now i)\<lparr>kw_first_observed_at := first\<rparr>"]
  obtain d where "pg_get_incident_by_id env parse scan quiet (ic_id i) t' = Inr (Some d)
      \<and> ic_id d = ic_id i \<and> ic_case_id d = ic_case_id i \<and> ic_title d = ic_title i
      \<and> ic_summary d = ic_summary i \<and> ic_status d = ic_status i \<and> ic_severity d = ic_severity i
      \<and> ic_structured_claims d = ic_structured_claims i \<and> ic_facts d = ic_facts i
      \<and> ic_technical_findings d
          = map fw_finding (scan_rows (scan 9) (\<lambda>r. 0::nat) (\<lambda>r. fw_incident_id r = ic_id i) (ct_findings t'))
      \<and> ig_edges (ic_graph d)
          = map row_to_edge (scan_rows (scan 12) (\<lambda>r. 0::nat) (\<lambda>r. qw_incident_id r = ic_id i) (ct_edges t'))"
    using read row assms(2,3)
    by (auto simp: pg_get_incident_by_id_def quiet_def read_one_def incident_to_row_def
        claims_survive jsonb_texts_def vec_or_default_def vec_of_strs read_or_def)
  then show ?thesis using saved_parts [OF assms(4)] by metis
qed


section \<open>Seeding at every start\<close>

text \<open>
  The shipped dossier is made anew at every start: its sources, evidence and targets have fixed
  identifiers, its entities, the entries of its timeline and its update have fresh ones.
\<close>

fun entities_of :: "builder_call \<Rightarrow> incident_entity list" where
  "entities_of (Entity e) = [e]"
| "entities_of _ = []"

fun transactions_of :: "builder_call \<Rightarrow> incident_transaction list" where
  "transactions_of (Transaction x) = [x]"
| "transactions_of _ = []"

fun blocks_of :: "builder_call \<Rightarrow> incident_block list" where
  "blocks_of (Block b) = [b]"
| "blocks_of _ = []"

lemma fold_more_parts:
  assumes "SortTimeline \<notin> set cs"
  shows "ic_entities (fold builder_step cs i) = ic_entities i @ gather entities_of cs"
    and "ic_transactions (fold builder_step cs i) = ic_transactions i @ gather transactions_of cs"
    and "ic_blocks (fold builder_step cs i) = ic_blocks i @ gather blocks_of cs"
proof -
  have step: "ic_entities (builder_step c i) = ic_entities i @ entities_of c"
    "ic_transactions (builder_step c i) = ic_transactions i @ transactions_of c"
    "ic_blocks (builder_step c i) = ic_blocks i @ blocks_of c" if "c \<noteq> SortTimeline" for c i
    using that by (cases c; simp add: builder_defs)+
  show "ic_entities (fold builder_step cs i) = ic_entities i @ gather entities_of cs"
    by (rule fold_gathers [OF step(1) assms])
  show "ic_transactions (fold builder_step cs i) = ic_transactions i @ gather transactions_of cs"
    by (rule fold_gathers [OF step(2) assms])
  show "ic_blocks (fold builder_step cs i) = ic_blocks i @ gather blocks_of cs"
    by (rule fold_gathers [OF step(3) assms])
qed

lemma liquid_calls_fresh:
  "map ent_id (gather entities_of (liquid_calls v4 utc)) = map v4 [0, 1, 2, 3]"
  "map tle_id (gather timeline_of (liquid_calls v4 utc)) = map v4 [4..<18]"
  "map upd_id (gather updates_of (liquid_calls v4 utc)) = [v4 18]"
  by (simp_all add: liquid_calls_def liquid_segments upt_rec)

lemma liquid_calls_fit:
  "\<forall>x \<in> set (gather transactions_of (liquid_calls v4 utc)). fits (itx_amount_sats x) \<and> fits (itx_block_height x)"
  "\<forall>b \<in> set (gather blocks_of (liquid_calls v4 utc)). column_fits (ibk_height b)"
  by (simp_all add: liquid_calls_def liquid_segments fits_def column_fits_def)

lemma liquid_parts:
  assumes "create_liquid_2026_incident rt v4 utc = Inr i"
  shows "ic_id i = LIQUID_INCIDENT_UUID"
    and "map ent_id (ic_entities i) = map v4 [0, 1, 2, 3]"
    and "map tle_id (ic_timeline i) = map v4 [4..<18]"
    and "map upd_id (ic_updates i) = [v4 18]"
    and "incident_fits i"
proof -
  let ?n = "builder_new rt LIQUID_CASE_ID ''Liquid Network Security Incident''
    ''Consensus-critical range-proof verification cache flaw in Elements software resulting in unauthorized creation of unbacked L-BTC and extraction of Bitcoin mainnet reserves via peg-out, followed by partial fund return.'' SevCritical"
  have i: "i = fold builder_step (liquid_calls v4 utc) ?n"
    using assms by (simp add: create_liquid_2026_incident_def build_def split: sum.splits)
  note parts = fold_parts [OF liquid_calls_unsorted] fold_more_parts [OF liquid_calls_unsorted]
  have new: "ic_entities ?n = []" "ic_timeline ?n = []" "ic_updates ?n = []" "ic_evidence ?n = []"
    "ic_on_chain_messages ?n = []" "ic_transactions ?n = []" "ic_blocks ?n = []"
    by (simp_all add: builder_new_def)
  show "ic_id i = LIQUID_INCIDENT_UUID" by (simp add: i fold_id liquid_calls_id)
  show "map ent_id (ic_entities i) = map v4 [0, 1, 2, 3]" "map tle_id (ic_timeline i) = map v4 [4..<18]"
    "map upd_id (ic_updates i) = [v4 18]"
    using liquid_calls_fresh by (simp_all add: i parts new)
  have "ic_recovery i = liquid_recovery utc" by (simp add: i fold_recovery liquid_calls_recovery)
  moreover have "ic_transactions i = gather transactions_of (liquid_calls v4 utc)"
    "ic_blocks i = gather blocks_of (liquid_calls v4 utc)" by (simp_all add: i parts new)
  moreover have "ic_evidence i = [liquid_ev1 utc, liquid_ev2 utc, liquid_ev3 utc, liquid_ev4 utc]"
    "ic_on_chain_messages i = [liquid_msg1 utc, liquid_msg2 utc]"
    by (simp_all add: i parts new liquid_calls_evidence liquid_calls_messages)
  ultimately show "incident_fits i" using liquid_calls_fit [of v4 utc]
    by (simp add: incident_fits_def liquid_recovery_def recovery_with_estimate_def recovery_with_source_def
        recovery_summary_new_def saturating_sub_def fits_def column_fits_def liquid_ev1_def liquid_ev2_def
        liquid_ev3_def liquid_ev4_def liquid_msg1_def liquid_msg2_def)
qed


text \<open>Starts of the process, each with the dossier it made from its own supply of identifiers.\<close>

definition run_starts ::
  "pg_env \<Rightarrow> datetime \<Rightarrow> watch_target list \<Rightarrow> ((nat \<Rightarrow> uuid) \<times> incident) list \<Rightarrow> postgres_storage \<times> case_tables
     \<Rightarrow> postgres_storage \<times> case_tables" where
  "run_starts env now targets bs s =
     fold (\<lambda>b s. snd (pg_seed_canonical_incidents env now quiet quiet (snd b) targets s)) bs s"

lemma seed_tables:
  "snd (snd (pg_seed_canonical_incidents env now ans ans' i targets s)) = snd (pg_save_incident env now ans i (snd s))"
  by (auto simp: pg_seed_canonical_incidents_def split: prod.split sum.split)

text \<open>Identifiers that are not in the tables yet: everything is added.\<close>

lemma fresh_save:
  assumes "pg_save_incident env now ans i t = (Inr (), t')"
  shows "distinct (map ent_id (ic_entities i)) \<Longrightarrow> set (map ent_id (ic_entities i)) \<inter> ew_id ` set (ct_entities t) = {} \<Longrightarrow>
      ct_entities t' = ct_entities t @ map (entity_to_row (ic_id i)) (ic_entities i)"
    and "distinct (map tle_id (ic_timeline i)) \<Longrightarrow> set (map tle_id (ic_timeline i)) \<inter> iw_id ` set (ct_timeline t) = {} \<Longrightarrow>
      ct_timeline t' = ct_timeline t @ map (timeline_to_row env (ic_id i)) (ic_timeline i)"
    and "distinct (map upd_id (ic_updates i)) \<Longrightarrow> set (map upd_id (ic_updates i)) \<inter> uw_id ` set (ct_updates t) = {} \<Longrightarrow>
      ct_updates t' = ct_updates t @ map (update_to_row env (ic_id i)) (ic_updates i)"
proof -
  obtain snap evs txs blks msgs where t': "t' = saved_tables env now i snap evs txs blks msgs t"
    using pg_save_incident_effect [OF assms] by blast
  have keys: "map ew_id (map (entity_to_row u) es) = map ent_id es"
    "map iw_id (map (timeline_to_row env u) ls) = map tle_id ls"
    "map uw_id (map (update_to_row env u) us) = map upd_id us" for u es ls us
    by (simp_all add: entity_to_row_def timeline_to_row_def update_to_row_def)
  show "ct_entities t' = ct_entities t @ map (entity_to_row (ic_id i)) (ic_entities i)"
    if "distinct (map ent_id (ic_entities i))" "set (map ent_id (ic_entities i)) \<inter> ew_id ` set (ct_entities t) = {}"
    using that entity_rows.fresh_upserts [of "map (entity_to_row (ic_id i)) (ic_entities i)" "ct_entities t"]
    unfolding keys set_map [symmetric] by (simp add: t' saved_tables_def Let_def put_entity_def [abs_def])
  show "ct_timeline t' = ct_timeline t @ map (timeline_to_row env (ic_id i)) (ic_timeline i)"
    if "distinct (map tle_id (ic_timeline i))" "set (map tle_id (ic_timeline i)) \<inter> iw_id ` set (ct_timeline t) = {}"
    using that timeline_rows.fresh_upserts [of "map (timeline_to_row env (ic_id i)) (ic_timeline i)" "ct_timeline t"]
    unfolding keys set_map [symmetric] by (simp add: t' saved_tables_def Let_def put_timeline_def [abs_def])
  show "ct_updates t' = ct_updates t @ map (update_to_row env (ic_id i)) (ic_updates i)"
    if "distinct (map upd_id (ic_updates i))" "set (map upd_id (ic_updates i)) \<inter> uw_id ` set (ct_updates t) = {}"
    using that update_rows.fresh_upserts [of "map (update_to_row env (ic_id i)) (ic_updates i)" "ct_updates t"]
    unfolding keys set_map [symmetric] by (simp add: t' saved_tables_def Let_def put_update_def [abs_def])
qed

definition seeded :: "(nat \<Rightarrow> uuid) list \<Rightarrow> case_tables \<Rightarrow> bool" where
  "seeded vs t \<longleftrightarrow> case_reachable t
     \<and> map ew_id (ct_entities t) = concat (map (\<lambda>v. map v [0, 1, 2, 3]) vs)
     \<and> map iw_id (ct_timeline t) = concat (map (\<lambda>v. map v [4..<18]) vs)
     \<and> map uw_id (ct_updates t) = concat (map (\<lambda>v. map v [18]) vs)
     \<and> (\<forall>r \<in> set (ct_entities t). ew_incident_id r = LIQUID_INCIDENT_UUID)
     \<and> (\<forall>r \<in> set (ct_timeline t). iw_incident_id r = LIQUID_INCIDENT_UUID)
     \<and> (\<forall>r \<in> set (ct_updates t). uw_incident_id r = LIQUID_INCIDENT_UUID)"

lemma disjoint_parts: "S \<subseteq> V \<Longrightarrow> X \<subseteq> U \<Longrightarrow> U \<inter> V = {} \<Longrightarrow> S \<inter> X = {}"
  by blast

lemma fresh_block:
  assumes "map f rows = concat (map (\<lambda>v. map v ks) vs)" "set ks \<subseteq> {0..<19}" "distinct ks"
    "distinct (concat (map (\<lambda>v. map v [0..<19]) (vs @ [v])))"
  shows "distinct (map v ks) \<and> set (map v ks) \<inter> f ` set rows = {}"
proof -
  have "inj_on v {0..<19}" using assms(4) by (simp add: distinct_map)
  then have "distinct (map v ks)" using assms(2,3) by (simp add: distinct_map inj_on_subset)
  moreover have "(\<Union>w \<in> set vs. w ` {0..<19}) \<inter> v ` {0..<19} = {}" using assms(4) by auto
  moreover have "set (map v ks) \<subseteq> v ` {0..<19}" using assms(2) by auto
  moreover have "f ` set rows = (\<Union>w \<in> set vs. w ` set ks)"
    using arg_cong [OF assms(1), of set] by simp
  then have "f ` set rows \<subseteq> (\<Union>w \<in> set vs. w ` {0..<19})"
    using assms(2) UN_mono [of "set vs" "set vs"] by (metis image_mono subset_refl)
  ultimately show ?thesis using disjoint_parts by meson
qed

lemma row_keys:
  "ew_id \<circ> entity_to_row u = ent_id" "iw_id \<circ> timeline_to_row env u = tle_id" "uw_id \<circ> update_to_row env u = upd_id"
  by (simp_all add: fun_eq_iff entity_to_row_def timeline_to_row_def update_to_row_def)

lemma row_incidents:
  "ew_incident_id (entity_to_row u e) = u" "iw_incident_id (timeline_to_row env u l) = u"
  "uw_incident_id (update_to_row env u p) = u"
  by (simp_all add: entity_to_row_def timeline_to_row_def update_to_row_def)

lemma seeded_step:
  assumes "seeded vs t" "create_liquid_2026_incident rt v utc = Inr i"
    "distinct (concat (map (\<lambda>v. map v [0..<19]) (vs @ [v])))"
    "pg_save_incident env now quiet i t = (Inr (), t')"
  shows "seeded (vs @ [v]) t'"
proof -
  note parts = liquid_parts [OF assms(2)]
  have ids: "map ew_id (ct_entities t) = concat (map (\<lambda>v. map v [0, 1, 2, 3]) vs)"
    "map iw_id (ct_timeline t) = concat (map (\<lambda>v. map v [4..<18]) vs)"
    "map uw_id (ct_updates t) = concat (map (\<lambda>v. map v [18]) vs)"
    using assms(1) by (simp_all only: seeded_def)
  have "ct_entities t' = ct_entities t @ map (entity_to_row (ic_id i)) (ic_entities i)"
    by (rule fresh_save(1) [OF assms(4)]; unfold parts) (use fresh_block [OF ids(1) _ _ assms(3)] in simp_all)
  moreover have "ct_timeline t' = ct_timeline t @ map (timeline_to_row env (ic_id i)) (ic_timeline i)"
    by (rule fresh_save(2) [OF assms(4)]; unfold parts) (use fresh_block [OF ids(2) _ _ assms(3)] in simp_all)
  moreover have "ct_updates t' = ct_updates t @ map (update_to_row env (ic_id i)) (ic_updates i)"
    by (rule fresh_save(3) [OF assms(4)]; unfold parts) (use fresh_block [OF ids(3) _ _ assms(3)] in simp_all)
  moreover have "case_reachable t'" using case_save [of t env now quiet i] assms(1,4) by (simp add: seeded_def)
  ultimately show ?thesis using assms(1) parts(1-4)
    by (simp add: seeded_def ball_Un row_keys row_incidents)
qed

lemma length_blocks: "map f rows = concat (map (\<lambda>v. map v ks) vs) \<Longrightarrow> length rows = length ks * length vs"
  by (drule arg_cong [of _ _ length]) (simp add: length_concat o_def sum_list_triv)

lemma run_starts_seeded:
  assumes "\<forall>(v, i) \<in> set bs. create_liquid_2026_incident rt v utc = Inr i"
    "distinct (concat (map (\<lambda>v. map v [0..<19]) (map fst bs)))"
  shows "seeded (map fst bs) (snd (run_starts env now targets bs (db, empty_case_tables)))"
  using assms
proof (induction bs rule: rev_induct)
  case Nil
  show ?case by (simp add: run_starts_def seeded_def empty_case_tables_def [symmetric] case_empty)
      (simp add: empty_case_tables_def)
next
  case (snoc b bs)
  let ?t = "snd (run_starts env now targets bs (db, empty_case_tables))"
  have made: "create_liquid_2026_incident rt (fst b) utc = Inr (snd b)" using snoc.prems(1) by auto
  obtain t' where t': "pg_save_incident env now quiet (snd b) ?t = (Inr (), t')"
    using pg_save_incident_quiet [OF liquid_parts(5) [OF made]] by blast
  have "seeded (map fst bs) ?t" using snoc by simp
  then have "seeded (map fst bs @ [fst b]) t'"
    by (rule seeded_step [OF _ made _ t']) (use snoc.prems(2) in simp)
  then show ?case using t' by (simp add: run_starts_def seed_tables)
qed

text \<open>
  C9. Seeding the PostgreSQL back end is not idempotent. After any number of starts of the
  process, each accepted by the server and each with identifiers of its own, the shipped dossier is
  read with as many copies of its four entities, of the fourteen entries of its timeline and of its
  update.
\<close>

theorem seeding_accumulates:
  assumes "\<forall>(v, i) \<in> set bs. create_liquid_2026_incident rt v utc = Inr i"
    "distinct (concat (map (\<lambda>v. map v [0..<19]) (map fst bs)))" "bs \<noteq> []"
  shows "\<exists>d. pg_get_incident_by_id env parse scan quiet LIQUID_INCIDENT_UUID
        (snd (run_starts env now targets bs (db, empty_case_tables))) = Inr (Some d)
      \<and> length (ic_entities d) = 4 * length bs \<and> length (ic_timeline d) = 14 * length bs
      \<and> length (ic_updates d) = length bs"
proof -
  let ?t = "snd (run_starts env now targets bs (db, empty_case_tables))"
  obtain bs' b where bs: "bs = bs' @ [b]" using assms(3) by (cases bs rule: rev_cases) auto
  let ?t' = "snd (run_starts env now targets bs' (db, empty_case_tables))"
  have made: "create_liquid_2026_incident rt (fst b) utc = Inr (snd b)" using assms(1) bs by auto
  obtain t' where t': "pg_save_incident env now quiet (snd b) ?t' = (Inr (), t')"
    using pg_save_incident_quiet [OF liquid_parts(5) [OF made]] by blast
  then have t: "?t = t'" by (simp add: bs run_starts_def seed_tables)
  obtain first where row: "find (\<lambda>r. kw_id r = LIQUID_INCIDENT_UUID) (ct_incidents ?t)
      = Some ((incident_to_row env now (snd b))\<lparr>kw_first_observed_at := first\<rparr>)"
    using saved_incident_row [OF t'] t liquid_parts(1) [OF made] by metis
  have id: "kw_id ((incident_to_row env now (snd b))\<lparr>kw_first_observed_at := first\<rparr>) = LIQUID_INCIDENT_UUID"
    using liquid_parts(1) [OF made] by (simp add: incident_to_row_def)
  have seeded: "seeded (map fst bs) ?t" by (rule run_starts_seeded [OF assms(1,2)])
  then have sizes: "length (ct_entities ?t) = 4 * length bs" "length (ct_timeline ?t) = 14 * length bs"
    "length (ct_updates ?t) = length bs"
    using length_blocks [of ew_id "ct_entities ?t" "[0, 1, 2, 3]" "map fst bs"]
      length_blocks [of iw_id "ct_timeline ?t" "[4..<18]" "map fst bs"]
      length_blocks [of uw_id "ct_updates ?t" "[18]" "map fst bs"]
    by (simp_all only: seeded_def) simp_all
  show ?thesis using fetch_dossier_total [OF reachable_readable, of ?t env parse scan
      "(incident_to_row env now (snd b))\<lparr>kw_first_observed_at := first\<rparr>"] seeded
    by (auto simp: pg_get_incident_by_id_def quiet_def row read_one_def id length_scan_rows seeded_def
        sizes filter_True)
qed


section \<open>Examples\<close>

lemma liquid_made: "utc_ordered utc \<Longrightarrow> \<exists>i. create_liquid_2026_incident rt v4 utc = Inr i"
  using liquid_incident_ok [of utc]
  by (simp add: create_liquid_2026_incident_def build_def validate_incident_ok [symmetric])

lemma sample_env_jsonb_texts: "jsonb_texts sample_env"
  by (simp add: jsonb_texts_def sample_env_def)

lemma saved_dossier_reads_back_witness:
  "\<exists>i t d. create_liquid_2026_incident sample_runtime of_nat sample_utc = Inr i
     \<and> pg_save_incident sample_env 5 quiet i empty_case_tables = (Inr (), t)
     \<and> pg_get_incident_by_id sample_env (\<lambda>s. None) (\<lambda>k n. n) quiet LIQUID_INCIDENT_UUID t = Inr (Some d)
     \<and> ic_structured_claims d = ic_structured_claims i
     \<and> mset (ic_technical_findings d) = mset (ic_technical_findings i)"
proof -
  obtain i where i: "create_liquid_2026_incident sample_runtime of_nat sample_utc = Inr i"
    using liquid_made [OF sample_utc_ordered] by blast
  obtain t where t: "pg_save_incident sample_env 5 quiet i empty_case_tables = (Inr (), t)"
    using pg_save_incident_quiet [OF liquid_parts(5) [OF i]] by blast
  show ?thesis
    using i t liquid_parts(1) [OF i]
      saved_dossier_reads_back [OF case_empty sample_env_jsonb_ok sample_env_jsonb_texts t,
        of "\<lambda>s. None" "\<lambda>k n. n"] by fastforce
qed

lemma seeding_accumulates_witness:
  "\<exists>i j d. create_liquid_2026_incident sample_runtime of_nat sample_utc = Inr i
     \<and> create_liquid_2026_incident sample_runtime (\<lambda>n. of_nat (n + 100)) sample_utc = Inr j
     \<and> pg_get_incident_by_id sample_env (\<lambda>s. None) (\<lambda>k n. n) quiet LIQUID_INCIDENT_UUID
         (snd (run_starts sample_env 5 [] [(of_nat, i), (\<lambda>n. of_nat (n + 100), j)]
           (empty_postgres, empty_case_tables))) = Inr (Some d)
     \<and> length (ic_entities d) = 8 \<and> length (ic_timeline d) = 28 \<and> length (ic_updates d) = 2"
proof -
  obtain i j where made: "create_liquid_2026_incident sample_runtime of_nat sample_utc = Inr i"
    "create_liquid_2026_incident sample_runtime (\<lambda>n. of_nat (n + 100)) sample_utc = Inr j"
    using liquid_made [OF sample_utc_ordered] by blast
  let ?bs = "[(of_nat, i), (\<lambda>n. of_nat (n + 100), j)] :: ((nat \<Rightarrow> uuid) \<times> incident) list"
  have "distinct (map of_nat [0..<19] @ map (\<lambda>n. of_nat (n + 100)) [0..<19] :: uuid list)" by code_simp
  then have fresh: "distinct (concat (map (\<lambda>v. map v [0..<19]) (map fst ?bs)))"
    by (simp del: upt_rec_numeral distinct_append distinct_map)
  have all: "\<forall>(v, i) \<in> set ?bs. create_liquid_2026_incident sample_runtime v sample_utc = Inr i"
    using made by simp
  obtain d where "pg_get_incident_by_id sample_env (\<lambda>s. None) (\<lambda>k n. n) quiet LIQUID_INCIDENT_UUID
      (snd (run_starts sample_env 5 [] ?bs (empty_postgres, empty_case_tables))) = Inr (Some d)"
    "length (ic_entities d) = 4 * length ?bs" "length (ic_timeline d) = 14 * length ?bs"
    "length (ic_updates d) = length ?bs"
    using seeding_accumulates [OF all fresh] by blast
  moreover have "length ?bs = 2" by simp
  ultimately show ?thesis using made by (intro exI conjI) (simp_all add: numeral_2_eq_2)
qed

end
