(* ===== verification/Backends.thy ===== *)
theory Backends
  imports Case_History
begin

text \<open>
  The storage that the rest of the program sees (\<open>storage/lib.rs\<close>): one of the two back ends, chosen at
  start-up, with every method passed on to it. What the environment supplies during one call, the
  clock, fresh identifiers, the answers of the server and the order of its scans, is a \<open>db_call\<close>.

  The lemmas show that no call changes the kind of back end, and what the two back ends promise alike.
\<close>

datatype storage = MemoryBackend in_memory_storage | PostgresBackend postgres_storage case_tables

record db_call =
  dc_env :: pg_env
  dc_now :: datetime
  dc_v4 :: "nat \<Rightarrow> uuid"
  dc_ids :: "nat \<Rightarrow> nat \<Rightarrow> uuid"
  dc_clock :: "nat \<Rightarrow> datetime"
  dc_parse :: "string \<Rightarrow> uuid option"
  dc_ans :: "nat \<Rightarrow> answer"
  dc_answers :: "nat \<Rightarrow> nat \<Rightarrow> answer"
  dc_scan :: "nat \<Rightarrow> nat \<Rightarrow> nat"
  dc_scans :: "nat \<Rightarrow> nat \<Rightarrow> nat \<Rightarrow> nat"

definition storage_backend_name :: "storage \<Rightarrow> string" where
  "storage_backend_name st = (case st of MemoryBackend m \<Rightarrow> ''memory'' | PostgresBackend p t \<Rightarrow> ''postgres'')"

definition is_memory :: "storage \<Rightarrow> bool" where
  "is_memory st = (case st of MemoryBackend m \<Rightarrow> True | PostgresBackend p t \<Rightarrow> False)"

definition is_postgres :: "storage \<Rightarrow> bool" where
  "is_postgres st = (case st of PostgresBackend p t \<Rightarrow> True | MemoryBackend m \<Rightarrow> False)"

definition as_memory :: "storage \<Rightarrow> in_memory_storage option" where
  "as_memory st = (case st of MemoryBackend m \<Rightarrow> Some m | PostgresBackend p t \<Rightarrow> None)"

definition as_postgres :: "storage \<Rightarrow> (postgres_storage \<times> case_tables) option" where
  "as_postgres st = (case st of PostgresBackend p t \<Rightarrow> Some (p, t) | MemoryBackend m \<Rightarrow> None)"

text \<open>The in-memory back end reports one incident and no activity, whatever it holds.\<close>

definition storage_telemetry_counts :: "storage \<Rightarrow> usize \<times> usize \<times> usize \<times> usize" where
  "storage_telemetry_counts st =
     (case st of
        MemoryBackend m \<Rightarrow> (length (st_events m), 1, 0, length (st_watch_targets m))
      | PostgresBackend p t \<Rightarrow> pg_telemetry_counts p)"

section \<open>Counts\<close>

text \<open>The counts of the PostgreSQL back end show a refused query as zero.\<close>

definition storage_count_events ::
  "db_call \<Rightarrow> storage \<Rightarrow> usize" where
  "storage_count_events c st =
     (case st of
        MemoryBackend m \<Rightarrow> length (st_events m)
      | PostgresBackend p t \<Rightarrow> or_default 0 (pg_count_events (dc_ans c 0) p))"

definition storage_count_incidents ::
  "db_call \<Rightarrow> storage \<Rightarrow> usize" where
  "storage_count_incidents c st =
     (case st of
        MemoryBackend m \<Rightarrow> length (list_incidents 1000 0 m)
      | PostgresBackend p t \<Rightarrow> or_default 0 (pg_count_incidents (dc_ans c 0) t))"

definition storage_count_watch_targets ::
  "db_call \<Rightarrow> storage \<Rightarrow> usize" where
  "storage_count_watch_targets c st =
     (case st of
        MemoryBackend m \<Rightarrow> length (st_watch_targets m)
      | PostgresBackend p t \<Rightarrow> or_default 0 (pg_count_watch_targets (dc_ans c 0) p))"

definition storage_count_activities ::
  "db_call \<Rightarrow> storage \<Rightarrow> usize" where
  "storage_count_activities c st =
     (case st of
        MemoryBackend m \<Rightarrow> length (st_activities m)
      | PostgresBackend p t \<Rightarrow> or_default 0 (pg_count_activities (dc_ans c 0) p))"

definition storage_count_alerts ::
  "db_call \<Rightarrow> storage \<Rightarrow> usize" where
  "storage_count_alerts c st =
     (case st of
        MemoryBackend m \<Rightarrow> length (st_alerts m)
      | PostgresBackend p t \<Rightarrow> or_default 0 (pg_count_alerts (dc_ans c 0) p))"

definition storage_count_replay_jobs ::
  "db_call \<Rightarrow> storage \<Rightarrow> usize" where
  "storage_count_replay_jobs c st =
     (case st of
        MemoryBackend m \<Rightarrow> length (st_replay_jobs m)
      | PostgresBackend p t \<Rightarrow> or_default 0 (pg_count_replay_jobs (dc_ans c 0) p))"

definition storage_count_event_observations ::
  "db_call \<Rightarrow> uuid option \<Rightarrow> storage \<Rightarrow> usize" where
  "storage_count_event_observations c i st =
     (case st of
        MemoryBackend m \<Rightarrow> count_event_observations i m
      | PostgresBackend p t \<Rightarrow> or_default 0 (pg_count_event_observations (dc_ans c 0) i p))"

section \<open>Events\<close>

definition storage_save_event ::
  "db_call \<Rightarrow> chain_event \<Rightarrow> storage \<Rightarrow> (storage_error + unit) \<times> storage" where
  "storage_save_event c e st =
     (case st of
        MemoryBackend m \<Rightarrow> (Inr (), MemoryBackend (save_event (dc_v4 c) (dc_now c) e m))
      | PostgresBackend p t \<Rightarrow> (case pg_save_event (dc_env c) (dc_v4 c) (dc_now c) (dc_ans c) e p of (r, db) \<Rightarrow> (r, PostgresBackend db t)))"

definition storage_list_events ::
  "db_call \<Rightarrow> usize \<Rightarrow> usize \<Rightarrow> storage \<Rightarrow> storage_error + chain_event list" where
  "storage_list_events c limit offset st =
     (case st of
        MemoryBackend m \<Rightarrow> Inr (list_events limit offset m)
      | PostgresBackend p t \<Rightarrow> pg_list_events (dc_env c) (dc_clock c) (dc_ans c 0) limit offset p)"

definition storage_get_event_by_id ::
  "db_call \<Rightarrow> uuid \<Rightarrow> storage \<Rightarrow> storage_error + chain_event option" where
  "storage_get_event_by_id c i st =
     (case st of
        MemoryBackend m \<Rightarrow> Inr (get_event_by_id i m)
      | PostgresBackend p t \<Rightarrow> pg_get_event_by_id (dc_env c) (dc_now c) (dc_ans c 0) (dc_ans c 1) i p)"

definition storage_query_events ::
  "db_call \<Rightarrow> event_filter \<Rightarrow> storage \<Rightarrow> storage_error + chain_event list" where
  "storage_query_events c f st =
     (case st of
        MemoryBackend m \<Rightarrow> Inr (query_events f m)
      | PostgresBackend p t \<Rightarrow> pg_query_events (dc_env c) (dc_clock c) (dc_ans c 0) f p)"

definition storage_save_event_observation ::
  "db_call \<Rightarrow> event_observation \<Rightarrow> storage \<Rightarrow> (storage_error + unit) \<times> storage" where
  "storage_save_event_observation c n st =
     (case st of
        MemoryBackend m \<Rightarrow> (Inr (), MemoryBackend (save_event_observation n m))
      | PostgresBackend p t \<Rightarrow> (case pg_save_event_observation (dc_env c) (dc_ans c 0) n p of (r, db) \<Rightarrow> (r, PostgresBackend db t)))"

definition storage_list_event_observations ::
  "db_call \<Rightarrow> uuid \<Rightarrow> storage \<Rightarrow> storage_error + event_observation list" where
  "storage_list_event_observations c i st =
     (case st of
        MemoryBackend m \<Rightarrow> Inr (list_event_observations i m)
      | PostgresBackend p t \<Rightarrow> pg_list_event_observations (dc_env c) (dc_ans c 0) i p)"

definition storage_try_count_event_observations ::
  "db_call \<Rightarrow> uuid option \<Rightarrow> storage \<Rightarrow> storage_error + usize" where
  "storage_try_count_event_observations c i st =
     (case st of
        MemoryBackend m \<Rightarrow> Inr (count_event_observations i m)
      | PostgresBackend p t \<Rightarrow> pg_count_event_observations (dc_ans c 0) i p)"

section \<open>Dossiers\<close>

definition storage_save_incident ::
  "db_call \<Rightarrow> incident \<Rightarrow> storage \<Rightarrow> (storage_error + unit) \<times> storage" where
  "storage_save_incident c i st =
     (case st of
        MemoryBackend m \<Rightarrow> (Inr (), MemoryBackend (save_incident i m))
      | PostgresBackend p t \<Rightarrow> (case pg_save_incident (dc_env c) (dc_now c) (dc_ans c) i t of (r, t') \<Rightarrow> (r, PostgresBackend p t')))"

definition storage_list_incidents ::
  "db_call \<Rightarrow> usize \<Rightarrow> usize \<Rightarrow> storage \<Rightarrow> storage_error + incident list" where
  "storage_list_incidents c limit offset st =
     (case st of
        MemoryBackend m \<Rightarrow> Inr (list_incidents limit offset m)
      | PostgresBackend p t \<Rightarrow> pg_list_incidents (dc_env c) (dc_parse c) (dc_scans c) (dc_answers c) limit offset t)"

definition storage_get_incident_by_id ::
  "db_call \<Rightarrow> uuid \<Rightarrow> storage \<Rightarrow> storage_error + incident option" where
  "storage_get_incident_by_id c i st =
     (case st of
        MemoryBackend m \<Rightarrow> Inr (get_incident_by_id i m)
      | PostgresBackend p t \<Rightarrow> pg_get_incident_by_id (dc_env c) (dc_parse c) (dc_scan c) (dc_ans c) i t)"

definition storage_get_incident_by_id_or_case_id ::
  "db_call \<Rightarrow> string \<Rightarrow> storage \<Rightarrow> storage_error + incident option" where
  "storage_get_incident_by_id_or_case_id c ident st =
     (case st of
        MemoryBackend m \<Rightarrow> Inr (get_incident_by_id_or_case_id (dc_parse c) ident m)
      | PostgresBackend p t \<Rightarrow> pg_get_incident_by_id_or_case_id (dc_env c) (dc_parse c) (dc_scan c) (dc_ans c 0) (\<lambda>k. dc_ans c (Suc k)) ident t)"

section \<open>Watch targets, activities and alerts\<close>

definition storage_save_watch_target ::
  "db_call \<Rightarrow> watch_target \<Rightarrow> storage \<Rightarrow> (storage_error + unit) \<times> storage" where
  "storage_save_watch_target c w st =
     (case st of
        MemoryBackend m \<Rightarrow> (Inr (), MemoryBackend (save_watch_target w m))
      | PostgresBackend p t \<Rightarrow> (case pg_save_watch_target (dc_env c) (dc_now c) (dc_ans c 0) w p of (r, db) \<Rightarrow> (r, PostgresBackend db t)))"

definition storage_list_watch_targets ::
  "db_call \<Rightarrow> uuid option \<Rightarrow> usize \<Rightarrow> usize \<Rightarrow> storage \<Rightarrow> storage_error + watch_target list" where
  "storage_list_watch_targets c i limit offset st =
     (case st of
        MemoryBackend m \<Rightarrow> Inr (list_watch_targets i limit offset m)
      | PostgresBackend p t \<Rightarrow> pg_list_watch_targets (dc_env c) (dc_ans c 0) i limit offset p)"

definition storage_get_watch_target_by_id ::
  "db_call \<Rightarrow> uuid \<Rightarrow> storage \<Rightarrow> storage_error + watch_target option" where
  "storage_get_watch_target_by_id c i st =
     (case st of
        MemoryBackend m \<Rightarrow> Inr (get_watch_target_by_id i m)
      | PostgresBackend p t \<Rightarrow> pg_get_watch_target_by_id (dc_ans c 0) i p)"

definition storage_save_activity ::
  "db_call \<Rightarrow> incident_activity \<Rightarrow> storage \<Rightarrow> (storage_error + unit) \<times> storage" where
  "storage_save_activity c a st =
     (case st of
        MemoryBackend m \<Rightarrow> (Inr (), MemoryBackend (save_activity a m))
      | PostgresBackend p t \<Rightarrow> (case pg_save_activity (dc_env c) (dc_now c) (dc_ans c 0) a p of (r, db) \<Rightarrow> (r, PostgresBackend db t)))"

definition storage_list_activities ::
  "db_call \<Rightarrow> uuid option \<Rightarrow> activity_status option \<Rightarrow> usize \<Rightarrow> usize \<Rightarrow> storage \<Rightarrow> storage_error + incident_activity list" where
  "storage_list_activities c i status limit offset st =
     (case st of
        MemoryBackend m \<Rightarrow> Inr (list_activities i status limit offset m)
      | PostgresBackend p t \<Rightarrow> pg_list_activities (dc_env c) (dc_parse c) (dc_ans c 0) i status limit offset p)"

definition storage_get_activity_by_id ::
  "db_call \<Rightarrow> uuid \<Rightarrow> storage \<Rightarrow> storage_error + incident_activity option" where
  "storage_get_activity_by_id c i st =
     (case st of
        MemoryBackend m \<Rightarrow> Inr (get_activity_by_id i m)
      | PostgresBackend p t \<Rightarrow> pg_get_activity_by_id (dc_parse c) (dc_ans c 0) i p)"

definition storage_get_activity_by_dedup_key ::
  "db_call \<Rightarrow> string \<Rightarrow> storage \<Rightarrow> storage_error + incident_activity option" where
  "storage_get_activity_by_dedup_key c k st =
     (case st of
        MemoryBackend m \<Rightarrow> Inr (get_activity_by_dedup_key k m)
      | PostgresBackend p t \<Rightarrow> pg_get_activity_by_dedup_key (dc_parse c) (dc_ans c 0) k p)"

definition storage_save_alert ::
  "db_call \<Rightarrow> incident_alert \<Rightarrow> storage \<Rightarrow> (storage_error + unit) \<times> storage" where
  "storage_save_alert c l st =
     (case st of
        MemoryBackend m \<Rightarrow> (Inr (), MemoryBackend (save_alert l m))
      | PostgresBackend p t \<Rightarrow> (case pg_save_alert (dc_env c) (dc_ans c 0) l p of (r, db) \<Rightarrow> (r, PostgresBackend db t)))"

definition storage_list_alerts ::
  "db_call \<Rightarrow> uuid option \<Rightarrow> usize \<Rightarrow> usize \<Rightarrow> storage \<Rightarrow> storage_error + incident_alert list" where
  "storage_list_alerts c i limit offset st =
     (case st of
        MemoryBackend m \<Rightarrow> Inr (list_alerts i limit offset m)
      | PostgresBackend p t \<Rightarrow> pg_list_alerts (dc_env c) (dc_ans c 0) i limit offset p)"

definition storage_get_alert_by_id ::
  "db_call \<Rightarrow> uuid \<Rightarrow> storage \<Rightarrow> storage_error + incident_alert option" where
  "storage_get_alert_by_id c i st =
     (case st of
        MemoryBackend m \<Rightarrow> Inr (get_alert_by_id i m)
      | PostgresBackend p t \<Rightarrow> pg_get_alert_by_id (dc_ans c 0) i p)"

section \<open>Replay\<close>

definition storage_create_job ::
  "db_call \<Rightarrow> replay_job \<Rightarrow> storage \<Rightarrow> (storage_error + unit) \<times> storage" where
  "storage_create_job c j st =
     (case st of
        MemoryBackend m \<Rightarrow> (Inr (), MemoryBackend (create_job j m))
      | PostgresBackend p t \<Rightarrow> (case pg_create_job (dc_env c) (dc_ans c 0) j p of (r, db) \<Rightarrow> (r, PostgresBackend db t)))"

definition storage_get_job ::
  "db_call \<Rightarrow> uuid \<Rightarrow> storage \<Rightarrow> storage_error + replay_job option" where
  "storage_get_job c i st =
     (case st of
        MemoryBackend m \<Rightarrow> Inr (get_job i m)
      | PostgresBackend p t \<Rightarrow> pg_get_job (dc_ans c 0) i p)"

definition storage_update_job ::
  "db_call \<Rightarrow> replay_job \<Rightarrow> storage \<Rightarrow> (storage_error + unit) \<times> storage" where
  "storage_update_job c j st =
     (case st of
        MemoryBackend m \<Rightarrow> (case update_job j m of Inl e \<Rightarrow> (Inl e, MemoryBackend m) | Inr m' \<Rightarrow> (Inr (), MemoryBackend m'))
      | PostgresBackend p t \<Rightarrow> (case pg_update_job (dc_env c) (dc_ans c 0) j p of (r, db) \<Rightarrow> (r, PostgresBackend db t)))"

definition storage_list_jobs ::
  "db_call \<Rightarrow> usize \<Rightarrow> usize \<Rightarrow> storage \<Rightarrow> storage_error + replay_job list" where
  "storage_list_jobs c limit offset st =
     (case st of
        MemoryBackend m \<Rightarrow> Inr (list_jobs limit offset m)
      | PostgresBackend p t \<Rightarrow> pg_list_jobs (dc_env c) (dc_ans c 0) limit offset p)"

definition storage_save_checkpoint ::
  "db_call \<Rightarrow> replay_checkpoint \<Rightarrow> storage \<Rightarrow> (storage_error + unit) \<times> storage" where
  "storage_save_checkpoint c k st =
     (case st of
        MemoryBackend m \<Rightarrow> (Inr (), MemoryBackend (save_checkpoint k m))
      | PostgresBackend p t \<Rightarrow> (case pg_save_checkpoint (dc_env c) (dc_ans c 0) k p of (r, db) \<Rightarrow> (r, PostgresBackend db t)))"

definition storage_get_latest_checkpoint ::
  "db_call \<Rightarrow> uuid \<Rightarrow> storage \<Rightarrow> storage_error + replay_checkpoint option" where
  "storage_get_latest_checkpoint c i st =
     (case st of
        MemoryBackend m \<Rightarrow> Inr (get_latest_checkpoint i m)
      | PostgresBackend p t \<Rightarrow> pg_get_latest_checkpoint (dc_env c) (dc_ans c 0) i p)"

section \<open>Baselines\<close>

definition storage_create_baseline_run ::
  "db_call \<Rightarrow> baseline_run \<Rightarrow> storage \<Rightarrow> (storage_error + unit) \<times> storage" where
  "storage_create_baseline_run c r st =
     (case st of
        MemoryBackend m \<Rightarrow> (Inr (), MemoryBackend (create_baseline_run r m))
      | PostgresBackend p t \<Rightarrow> (case pg_create_baseline_run (dc_env c) (dc_ans c 0) r p of (r, db) \<Rightarrow> (r, PostgresBackend db t)))"

definition storage_update_baseline_run_status ::
  "db_call \<Rightarrow> uuid \<Rightarrow> baseline_run_status \<Rightarrow> datetime option \<Rightarrow> u64 \<Rightarrow> string option \<Rightarrow> storage \<Rightarrow> (storage_error + unit) \<times> storage" where
  "storage_update_baseline_run_status c i status completed_at events msg st =
     (case st of
        MemoryBackend m \<Rightarrow> (case update_baseline_run_status i status completed_at events msg m of Inl e \<Rightarrow> (Inl e, MemoryBackend m) | Inr m' \<Rightarrow> (Inr (), MemoryBackend m'))
      | PostgresBackend p t \<Rightarrow> (case pg_update_baseline_run_status (dc_env c) (dc_ans c 0) i status completed_at events msg p of (r, db) \<Rightarrow> (r, PostgresBackend db t)))"

definition storage_get_baseline_run ::
  "db_call \<Rightarrow> uuid \<Rightarrow> storage \<Rightarrow> storage_error + baseline_run option" where
  "storage_get_baseline_run c i st =
     (case st of
        MemoryBackend m \<Rightarrow> Inr (get_baseline_run i m)
      | PostgresBackend p t \<Rightarrow> pg_get_baseline_run (dc_ans c 0) i p)"

definition storage_list_baseline_runs ::
  "db_call \<Rightarrow> string option \<Rightarrow> usize \<Rightarrow> usize \<Rightarrow> storage \<Rightarrow> storage_error + baseline_run list" where
  "storage_list_baseline_runs c network limit offset st =
     (case st of
        MemoryBackend m \<Rightarrow> Inr (list_baseline_runs network limit offset m)
      | PostgresBackend p t \<Rightarrow> pg_list_baseline_runs (dc_env c) (dc_ans c 0) network limit offset p)"

definition storage_get_latest_compatible_baseline_run ::
  "db_call \<Rightarrow> string \<Rightarrow> u64 option \<Rightarrow> string option \<Rightarrow> storage \<Rightarrow> storage_error + baseline_run option" where
  "storage_get_latest_compatible_baseline_run c network height version st =
     (case st of
        MemoryBackend m \<Rightarrow> Inr (get_latest_compatible_baseline_run network height version m)
      | PostgresBackend p t \<Rightarrow> pg_get_latest_compatible_baseline_run (dc_env c) (dc_ans c 0) network height version p)"

definition storage_save_baseline_distributions ::
  "db_call \<Rightarrow> baseline_distribution list \<Rightarrow> storage \<Rightarrow> (storage_error + unit) \<times> storage" where
  "storage_save_baseline_distributions c ds st =
     (case st of
        MemoryBackend m \<Rightarrow> (Inr (), MemoryBackend (save_baseline_distributions ds m))
      | PostgresBackend p t \<Rightarrow> (case pg_save_baseline_distributions (dc_env c) (dc_ans c 0) (\<lambda>k. dc_ans c (Suc k)) ds p of (r, db) \<Rightarrow> (r, PostgresBackend db t)))"

definition storage_get_baseline_distributions ::
  "db_call \<Rightarrow> uuid \<Rightarrow> storage \<Rightarrow> storage_error + baseline_distribution list" where
  "storage_get_baseline_distributions c i st =
     (case st of
        MemoryBackend m \<Rightarrow> Inr (get_baseline_distributions i m)
      | PostgresBackend p t \<Rightarrow> pg_get_baseline_distributions (dc_env c) (dc_ans c 0) i p)"

definition storage_query_distributions ::
  "db_call \<Rightarrow> event_type option \<Rightarrow> baseline_metric option \<Rightarrow> usize \<Rightarrow> storage \<Rightarrow> storage_error + baseline_distribution list" where
  "storage_query_distributions c ty metric limit st =
     (case st of
        MemoryBackend m \<Rightarrow> Inr (query_distributions ty metric limit m)
      | PostgresBackend p t \<Rightarrow> pg_query_distributions (dc_env c) (dc_ans c 0) ty metric limit p)"

definition storage_save_event_rarity ::
  "db_call \<Rightarrow> event_rarity_result \<Rightarrow> impact_breakdown option \<Rightarrow> storage \<Rightarrow> (storage_error + unit) \<times> storage" where
  "storage_save_event_rarity c y impact st =
     (case st of
        MemoryBackend m \<Rightarrow> (Inr (), MemoryBackend (save_event_rarity y impact m))
      | PostgresBackend p t \<Rightarrow> (case pg_save_event_rarity (dc_env c) (dc_v4 c 0) (dc_now c) (dc_ans c 0) y impact p of (r, db) \<Rightarrow> (r, PostgresBackend db t)))"

definition storage_get_event_rarity ::
  "db_call \<Rightarrow> uuid \<Rightarrow> uuid option \<Rightarrow> storage \<Rightarrow> storage_error + event_rarity_result list" where
  "storage_get_event_rarity c i run st =
     (case st of
        MemoryBackend m \<Rightarrow> Inr (get_event_rarity i run m)
      | PostgresBackend p t \<Rightarrow> pg_get_event_rarity (dc_env c) (dc_ans c 0) i run p)"

definition storage_query_events_for_baseline ::
  "db_call \<Rightarrow> event_type option \<Rightarrow> u64 \<Rightarrow> u64 \<Rightarrow> storage \<Rightarrow> storage_error + chain_event list" where
  "storage_query_events_for_baseline c ty low high st =
     (case st of
        MemoryBackend m \<Rightarrow> Inr (query_events_for_baseline ty low high m)
      | PostgresBackend p t \<Rightarrow> pg_query_events_for_baseline (dc_env c) (dc_clock c) (dc_ans c 0) ty low high p)"

definition storage_save_event_metrics ::
  "db_call \<Rightarrow> event_metric_value list \<Rightarrow> storage \<Rightarrow> (storage_error + unit) \<times> storage" where
  "storage_save_event_metrics c ms st =
     (case st of
        MemoryBackend m \<Rightarrow> (Inr (), MemoryBackend (save_event_metrics ms m))
      | PostgresBackend p t \<Rightarrow> (case pg_save_event_metrics (dc_env c) (dc_now c) (dc_ans c) ms p of (r, db) \<Rightarrow> (r, PostgresBackend db t)))"

definition storage_get_event_metrics ::
  "db_call \<Rightarrow> uuid \<Rightarrow> storage \<Rightarrow> storage_error + event_metric_value list" where
  "storage_get_event_metrics c i st =
     (case st of
        MemoryBackend m \<Rightarrow> Inr (get_event_metrics i m)
      | PostgresBackend p t \<Rightarrow> pg_get_event_metrics (dc_env c) (dc_ans c 0) i p)"

text \<open>The in-memory back end may extract the metrics of its events first, which changes it.\<close>

definition storage_get_exact_empirical_rank ::
  "db_call \<Rightarrow> string \<Rightarrow> event_type \<Rightarrow> baseline_metric \<Rightarrow> string \<Rightarrow> u64 \<Rightarrow> u64 \<Rightarrow> metric_value
     \<Rightarrow> rarity_direction \<Rightarrow> storage \<Rightarrow> (storage_error + (f64 \<times> u64 \<times> u64) option) \<times> storage" where
  "storage_get_exact_empirical_rank c network ty metric version low high x direction st =
     (case st of
        MemoryBackend m \<Rightarrow>
          (case get_exact_empirical_rank (dc_ids c) (dc_now c) network ty metric version low high x direction m of
             (r, m') \<Rightarrow> (Inr r, MemoryBackend m'))
      | PostgresBackend p t \<Rightarrow>
          (pg_get_exact_empirical_rank (dc_env c) (dc_ans c 0) network ty metric version low high x direction p,
           PostgresBackend p t))"

section \<open>Calls that fail\<close>

text \<open>One call of a method that changes the storage, with its result. A batch of metrics is stored row by row.\<close>

inductive storage_call :: "storage \<Rightarrow> (storage_error + unit) \<times> storage \<Rightarrow> bool" where
  call_save_event: "storage_call st (storage_save_event c e st)"
| call_save_event_observation: "storage_call st (storage_save_event_observation c n st)"
| call_save_incident: "storage_call st (storage_save_incident c i st)"
| call_save_watch_target: "storage_call st (storage_save_watch_target c w st)"
| call_save_activity: "storage_call st (storage_save_activity c a st)"
| call_save_alert: "storage_call st (storage_save_alert c l st)"
| call_create_job: "storage_call st (storage_create_job c j st)"
| call_update_job: "storage_call st (storage_update_job c j st)"
| call_save_checkpoint: "storage_call st (storage_save_checkpoint c k st)"
| call_create_baseline_run: "storage_call st (storage_create_baseline_run c r st)"
| call_update_baseline_run_status: "storage_call st (storage_update_baseline_run_status c i status completed_at events msg st)"
| call_save_baseline_distributions: "storage_call st (storage_save_baseline_distributions c ds st)"
| call_save_event_rarity: "storage_call st (storage_save_event_rarity c y impact st)"

lemmas storage_writes = storage_save_event_def
  storage_save_event_observation_def
  storage_save_incident_def
  storage_save_watch_target_def
  storage_save_activity_def
  storage_save_alert_def
  storage_create_job_def
  storage_update_job_def
  storage_save_checkpoint_def
  storage_create_baseline_run_def
  storage_update_baseline_run_status_def
  storage_save_baseline_distributions_def
  storage_save_event_rarity_def

lemmas pg_writes = pg_save_event_def pg_save_event_observation_def pg_save_incident_def pg_save_watch_target_def
  pg_save_activity_def pg_save_alert_def pg_create_job_def pg_update_job_def pg_save_checkpoint_def
  pg_create_baseline_run_def pg_update_baseline_run_status_def pg_save_baseline_distributions_def
  pg_save_event_rarity_def

lemma storage_call_kind: "storage_call st res \<Longrightarrow> storage_backend_name (snd res) = storage_backend_name st"
  by (induction rule: storage_call.induct)
    (simp_all add: storage_backend_name_def storage_writes split: storage.split sum.split prod.split)

lemma storage_call_failed: "storage_call st res \<Longrightarrow> fst res = Inl e \<Longrightarrow> snd res = st"
  by (induction rule: storage_call.induct)
    (auto simp: storage_writes pg_writes Let_def split: storage.splits sum.splits prod.splits if_splits)


definition sample_call :: db_call where
  "sample_call =
     \<lparr>dc_env = sample_env, dc_now = 5, dc_v4 = of_nat, dc_ids = (\<lambda>k n. of_nat n), dc_clock = int,
      dc_parse = (\<lambda>s. None), dc_ans = (\<lambda>k. Some ''connection closed''), dc_answers = (\<lambda>k n. None),
      dc_scan = (\<lambda>k n. n), dc_scans = (\<lambda>k n r. r)\<rparr>"


end
