(* ===== verification/Spec2Isabelle.thy ===== *)
theory Spec2Isabelle
  imports Dedup Zmq Watch Amount Incidents Replay_Engine Api Simulation Backends
begin

text \<open>
  Verification of the ObsChain Bitcoin observation engine.

  \<^bold>\<open>The program.\<close> ObsChain watches the Bitcoin chain. Sources (a Bitcoin Core node over RPC and ZeroMQ,
  mempool.space over REST and WebSocket) deliver observations of blocks, transactions, replacements
  and reorganisations. Live transactions are enriched with the outputs they spend. Detectors turn
  observations into events with deterministic identifiers, a deduplicator drops repeated ones, and the
  storage keeps them with their provenance. An incident watch engine follows the targets of incident
  dossiers, a replay engine runs the detectors over past blocks, and a baseline engine ranks events
  against their history. The daemon joins them in one pipeline worker and serves the results over
  HTTP and WebSocket; its commands run replays, baselines and rarity queries from the shell.

  \<^bold>\<open>Theories and sources\<close> (paths under \<open>src/crates\<close>, without the prefix \<open>obschain-\<close>).
  \<^item> \<open>Prelude\<close>: type names, text helpers (trimming, decimal parsing and printing, hexadecimal digits),
    saturating and checked arithmetic, and list lemmas; \<open>Float64\<close>: IEEE doubles as exact values with
    rounding to nearest even; \<open>Json\<close>: values of \<open>serde_json\<close> and the runtime (clock, identifiers).
  \<^item> \<open>Observations\<close>: \<open>core/source.rs\<close>, \<open>core/observation.rs\<close>; \<open>Events\<close>: \<open>core/event.rs\<close>, \<open>core/replay.rs\<close>;
    \<open>Amount\<close>: \<open>core/amount.rs\<close>, \<open>core/fee.rs\<close>; \<open>Metrics\<close>: \<open>core/baseline.rs\<close>.
  \<^item> \<open>Detectors\<close>, \<open>Dormant_Coins\<close>: the eight detectors of \<open>detectors/\<close>; \<open>Detector_Engine\<close>: \<open>engine.rs\<close>;
    \<open>Fifo\<close>, \<open>Dedup\<close>: the bounded queue shared by the caches and \<open>dedup.rs\<close>.
  \<^item> \<open>Tx_Caches\<close>: \<open>ingest/utxo_cache.rs\<close> and the cache of \<open>ingest/historical_replay.rs\<close>; \<open>Zmq\<close>:
    \<open>bitcoin_zmq.rs\<close>; \<open>Rpc\<close>: \<open>bitcoin_rpc.rs\<close>; \<open>Mempool\<close>: \<open>mempool_types.rs\<close>, \<open>mempool_rest.rs\<close>,
    \<open>mempool_ws.rs\<close>; \<open>Enricher\<close>: \<open>enricher.rs\<close>; \<open>Coordinator\<close>: \<open>bitcoin_coordinator.rs\<close>;
    \<open>Replay_Engine\<close>: the jobs of \<open>historical_replay.rs\<close>.
  \<^item> \<open>Incidents\<close>: \<open>core/incident.rs\<close>, \<open>incidents/\<close> and the report and clusters of \<open>intelligence/\<close>;
    \<open>Watch\<close>: \<open>core/watch.rs\<close>, \<open>intelligence/watch_engine.rs\<close>; \<open>Rarity\<close>: \<open>intelligence/baseline.rs\<close>.
  \<^item> \<open>Dossier\<close>: the shipped dossier and targets of \<open>incidents/seed.rs\<close>; \<open>Simulation\<close>:
    \<open>intelligence/replay.rs\<close> and \<open>intelligence/graph.rs\<close>.
  \<^item> \<open>Storage\<close>: the in-memory back end of \<open>storage/repository.rs\<close>; \<open>Postgres\<close>: the tables, statements
    and row decoding of \<open>storage/postgres.rs\<close>, and \<open>Case_Tables\<close> its dossier tables with the transaction
    of \<open>save_incident\<close>; \<open>Durability\<close> and \<open>Case_History\<close>: what these keep; \<open>Backends\<close>: the choice of a back
    end in \<open>storage/lib.rs\<close>, through which the program calls either.
  \<^item> The daemon, in \<open>src/src\<close>: \<open>Config\<close>: \<open>config.rs\<close>; \<open>Pipeline\<close>: the settings, the pipeline worker with
    its retried writes, the status task and the REST poller of \<open>main.rs\<close>; \<open>Commands\<close>: storage set-up
    and the replay, baseline and rarity commands of \<open>main.rs\<close>; \<open>Api\<close>: the state, handlers and client
    loop of \<open>api.rs\<close>.

  \<^bold>\<open>Conventions.\<close> A struct is a record, an enum a datatype, a method a function that returns the new
  state. Integers keep their width as words and wrap as in a release build; \<open>usize\<close> is a natural
  number; the double arithmetic is that of IEEE 754. A hash map is an association list, a deque a list
  with its front first. A detector that panics returns nothing and the engine recovers; other panics
  are explicit outcomes. Code outside the repository (hashing, the \<open>bitcoin\<close> crate, HTTP, sockets,
  the clock, fresh identifiers, the JSON text parser) is a parameter. Locks and tasks are sequential
  steps: a concurrent run is a sequence of the transitions modelled here, with the order chosen by
  the environment where the code leaves it open. Texts are ASCII.

  \<^bold>\<open>What is shown.\<close>
  \<^item> Identity: the key of an event identifies its type and target, one batch never repeats a key, and
    replaying gives exactly the identifiers of the live run.
  \<^item> Bounds and retention: the deduplicator, the caches, the descendants the watch engine follows and
    the deques of the storage never outgrow their limits, over any sequence of calls; the event deque
    refines a map with first-in first-out eviction and never rewrites provenance.
  \<^item> State machines: the ZeroMQ topic loop and the WebSocket supervisor keep their status and back-off
    consistent under any events; REST requests end within their attempts; RPC calls retry a rejected
    cookie once.
  \<^item> Replay: a job over a served range ends, completed, with each block counted once; resuming from a
    checkpoint completes it without recounting; its counters balance however it ends.
  \<^item> Detection and intelligence: exact conditions of the dormant-coin detector, exact decimal and
    correctly rounded float amounts, metrics that read back what the detectors wrote, quantiles and
    impact scores, watched spends that are always reported and weak attributions that stay heuristic.
  \<^item> Dossiers: validation accepts exactly the well-formed ones, the shipped one always passes, and the
    shipped targets report the known flow of funds exactly.
  \<^item> Node: one reconciliation is bounded whatever the node answers; a reorganisation of equal depth is
    described exactly, and one of unequal depth is shown not to be traced.
  \<^item> Daemon: the live feed refines a feed without storage outages, generated and broadcast events
    balance, a broadcast event is already stored with live provenance, and writes are retried a bounded
    number of times. In sovereign mode nothing in the pipeline contacts or depends on the third party.
  \<^item> Commands and API: a baseline command stores a completed run, a rarity command never mixes
    networks; with the interfaces off the API is read-only, listings are bounded, a job request takes
    effect completely or not at all, and a client gets its messages in order.
  \<^item> Durable storage: the two back ends agree on events under any saves and refusals, every table keeps
    its keys unique, a failed call changes nothing, jobs and dossiers are read back after a restart,
    recovery snapshots and updates are never lost; and seeding is shown to add copies at every start.

  Loops that the code bounds by data are total functions (\<open>run_blocks\<close> by the distance of the heights,
  \<open>get_loop\<close> by the attempts left), so no fuel is used.

  \<^bold>\<open>Not modelled.\<close> The database server is a parameter: it may refuse any statement, and what it makes of
  instants, JSON, decimal numbers and rows of equal order is given by functions. The SQL text of the
  schema and the migrations is left out; the daemon and the API are modelled over the in-memory back end.
  Routing, decoding and CORS of the web framework, JSON text, argument parsing, task spawning, signals,
  printing and log messages are left out, as is the JSON fixture of the shipped dossier that only tests
  read.
\<close>

end
